(* ===== verification/Prelude.thy ===== *)
theory Prelude
  imports Main "HOL-Library.AList" "HOL-Library.List_Lexorder" "HOL-Library.Char_ord"
begin

text \<open>
  Shared vocabulary of the development: Go strings as byte lists with the functions of
  package \<^verbatim>\<open>strings\<close> and \<^verbatim>\<open>strconv\<close> that maclet calls, Go maps as association
  lists, and the error values that flow through every component.  Strings are ASCII: bytes
  from 128 on are no white space and have no case, so the model of a function that ranges
  over runes agrees with the code on ASCII input.
\<close>

section \<open>Collections of facts\<close>

named_theorems str_simps \<open>evaluation of the string functions\<close>
named_theorems io_simps \<open>unfolding of the calls that leave the program\<close>
named_theorems inv_intros \<open>preservation of the component invariants\<close>

section \<open>Strings\<close>

definition has_prefix :: "string \<Rightarrow> string \<Rightarrow> bool" where
  "has_prefix s p \<longleftrightarrow> take (length p) s = p"

definition has_suffix :: "string \<Rightarrow> string \<Rightarrow> bool" where
  "has_suffix s p \<longleftrightarrow> has_prefix (rev s) (rev p)"

definition trim_prefix :: "string \<Rightarrow> string \<Rightarrow> string" where
  "trim_prefix s p = (if has_prefix s p then drop (length p) s else s)"

definition trim_suffix :: "string \<Rightarrow> string \<Rightarrow> string" where
  "trim_suffix s p = (if has_suffix s p then take (length s - length p) s else s)"

text \<open>\<^verbatim>\<open>strings.Index\<close>: the first position where \<open>p\<close> occurs in \<open>s\<close>.\<close>

fun str_index :: "string \<Rightarrow> string \<Rightarrow> nat option" where
  "str_index [] p = (if p = [] then Some 0 else None)"
| "str_index (c # s) p =
     (if has_prefix (c # s) p then Some 0 else map_option Suc (str_index s p))"

definition str_contains :: "string \<Rightarrow> string \<Rightarrow> bool" where
  "str_contains s p \<longleftrightarrow> str_index s p \<noteq> None"

text \<open>\<^verbatim>\<open>strings.Split\<close> and \<^verbatim>\<open>strings.Cut\<close> with a separator of one byte.\<close>

fun split_on :: "char \<Rightarrow> string \<Rightarrow> string list" where
  "split_on d [] = [[]]"
| "split_on d (c # s) =
     (if c = d then [] # split_on d s
      else (case split_on d s of p # ps \<Rightarrow> (c # p) # ps | [] \<Rightarrow> [[c]]))"

fun str_join :: "string \<Rightarrow> string list \<Rightarrow> string" where
  "str_join sep [] = []"
| "str_join sep [s] = s"
| "str_join sep (s # t # ss) = s @ sep @ str_join sep (t # ss)"

definition str_cut :: "char \<Rightarrow> string \<Rightarrow> string \<times> string \<times> bool" where
  "str_cut d s = (let p = takeWhile (\<lambda>c. c \<noteq> d) s in
     if length p < length s then (p, drop (Suc (length p)) s, True) else (s, [], False))"

abbreviation newline :: char where
  "newline \<equiv> CHR 0x0A"

definition is_space :: "char \<Rightarrow> bool" where
  "is_space c \<longleftrightarrow> c \<in> {CHR 0x09, CHR 0x0A, CHR 0x0B, CHR 0x0C, CHR 0x0D, CHR '' ''}"

definition trim_right_of :: "(char \<Rightarrow> bool) \<Rightarrow> string \<Rightarrow> string" where
  "trim_right_of P s = rev (dropWhile P (rev s))"

definition trim_of :: "(char \<Rightarrow> bool) \<Rightarrow> string \<Rightarrow> string" where
  "trim_of P s = trim_right_of P (dropWhile P s)"

definition trim_space :: "string \<Rightarrow> string" where
  "trim_space s = trim_of is_space s"

definition trim_chars :: "string \<Rightarrow> string \<Rightarrow> string" where
  "trim_chars s cs = trim_of (\<lambda>c. c \<in> set cs) s"

definition trim_right_chars :: "string \<Rightarrow> string \<Rightarrow> string" where
  "trim_right_chars s cs = trim_right_of (\<lambda>c. c \<in> set cs) s"

text \<open>\<^verbatim>\<open>strings.Fields\<close>: the maximal runs of bytes that are no white space.\<close>

fun fields_acc :: "string \<Rightarrow> string \<Rightarrow> string list" where
  "fields_acc acc [] = (if acc = [] then [] else [rev acc])"
| "fields_acc acc (c # s) =
     (if is_space c then (if acc = [] then fields_acc [] s else rev acc # fields_acc [] s)
      else fields_acc (c # acc) s)"

definition str_fields :: "string \<Rightarrow> string list" where
  "str_fields s = fields_acc [] s"

definition byte :: "char \<Rightarrow> nat" where
  "byte c = of_char c"

definition lower_char :: "char \<Rightarrow> char" where
  "lower_char c = (if 65 \<le> byte c \<and> byte c \<le> 90 then char_of (byte c + 32) else c)"

definition upper_char :: "char \<Rightarrow> char" where
  "upper_char c = (if 97 \<le> byte c \<and> byte c \<le> 122 then char_of (byte c - 32) else c)"

definition to_lower :: "string \<Rightarrow> string" where
  "to_lower s = map lower_char s"

definition to_upper :: "string \<Rightarrow> string" where
  "to_upper s = map upper_char s"

definition replace_char :: "char \<Rightarrow> char \<Rightarrow> string \<Rightarrow> string" where
  "replace_char a b s = map (\<lambda>c. if c = a then b else c) s"

definition is_digit :: "char \<Rightarrow> bool" where
  "is_digit c \<longleftrightarrow> 48 \<le> byte c \<and> byte c \<le> 57"

definition digit_val :: "char \<Rightarrow> nat" where
  "digit_val c = byte c - 48"

definition digit_char :: "nat \<Rightarrow> char" where
  "digit_char d = char_of (48 + d)"

text \<open>Decimal printing (\<^verbatim>\<open>strconv.Itoa\<close>, \<^verbatim>\<open>%d\<close>) and \<^verbatim>\<open>strconv.Atoi\<close>, whose
  range is that of the 64-bit \<^verbatim>\<open>int\<close>.\<close>

fun show_nat :: "nat \<Rightarrow> string" where
  "show_nat n = (if n < 10 then [digit_char n] else show_nat (n div 10) @ [digit_char (n mod 10)])"

declare show_nat.simps [simp del]

definition itoa :: "int \<Rightarrow> string" where
  "itoa i = (if i < 0 then CHR ''-'' # show_nat (nat (- i)) else show_nat (nat i))"

definition digits_val :: "string \<Rightarrow> nat" where
  "digits_val s = foldl (\<lambda>n c. 10 * n + digit_val c) 0 s"

definition read_nat :: "string \<Rightarrow> nat option" where
  "read_nat s = (if s \<noteq> [] \<and> list_all is_digit s then Some (digits_val s) else None)"

definition atoi :: "string \<Rightarrow> int option" where
  "atoi s = (let (neg, ds) = (case s of
        c # t \<Rightarrow> if c = CHR ''-'' then (True, t) else if c = CHR ''+'' then (False, t) else (False, s)
      | [] \<Rightarrow> (False, [])) in
     case read_nat ds of
       None \<Rightarrow> None
     | Some n \<Rightarrow> (let i = (if neg then - int n else int n) in
         if - (2 ^ 63) \<le> i \<and> i < 2 ^ 63 then Some i else None))"

text \<open>\<^verbatim>\<open>strconv.Quote\<close> (\<^verbatim>\<open>%q\<close>) on printable ASCII and the usual escapes.\<close>

definition quote_char :: "char \<Rightarrow> string" where
  "quote_char c =
    (if c = CHR 0x22 \<or> c = CHR 0x5C then [CHR 0x5C, c]
     else if c = CHR 0x0A then [CHR 0x5C, CHR ''n'']
     else if c = CHR 0x0D then [CHR 0x5C, CHR ''r'']
     else if c = CHR 0x09 then [CHR 0x5C, CHR ''t'']
     else [c])"

definition quote :: "string \<Rightarrow> string" where
  "quote s = CHR 0x22 # concat (map quote_char s) @ [CHR 0x22]"

section \<open>Go maps\<close>

text \<open>
  A Go map is an association list with distinct keys; \<open>mget\<close> is the indexing that gives the
  zero value (the empty string) for a missing key.  Ranging over a map visits its keys in an
  unspecified order; a model of such a loop takes the order from its environment.
\<close>

type_synonym ('k, 'v) gomap = "('k \<times> 'v) list"

definition mget :: "(string, string) gomap \<Rightarrow> string \<Rightarrow> string" where
  "mget m k = (case map_of m k of Some v \<Rightarrow> v | None \<Rightarrow> [])"

abbreviation mhas :: "('k, 'v) gomap \<Rightarrow> 'k \<Rightarrow> bool" where
  "mhas m k \<equiv> map_of m k \<noteq> None"

abbreviation mput :: "('k, 'v) gomap \<Rightarrow> 'k \<Rightarrow> 'v \<Rightarrow> ('k, 'v) gomap" where
  "mput m k v \<equiv> AList.update k v m"

abbreviation mdel :: "('k, 'v) gomap \<Rightarrow> 'k \<Rightarrow> ('k, 'v) gomap" where
  "mdel m k \<equiv> AList.delete k m"

definition mkeys :: "('k, 'v) gomap \<Rightarrow> 'k list" where
  "mkeys m = map fst m"

section \<open>Errors\<close>

text \<open>
  \<open>EMsg\<close> is \<^verbatim>\<open>errors.New\<close> or an \<^verbatim>\<open>fmt.Errorf\<close> that wraps nothing; \<open>EWrap p e s\<close> is an
  \<^verbatim>\<open>fmt.Errorf\<close> that wraps \<open>e\<close> between the texts \<open>p\<close> and \<open>s\<close>; \<open>EHttp\<close> is
  \<^verbatim>\<open>kube.HTTPError\<close>; \<open>ESentinel\<close> are the sentinel values compared by \<^verbatim>\<open>errors.Is\<close>;
  \<open>ENet\<close> is a \<^verbatim>\<open>net.Error\<close>; \<open>EJoin\<close> is \<^verbatim>\<open>errors.Join\<close>.
\<close>

datatype sentinel = NotExist | Canceled | DeadlineExceeded | EndOfFile
  | PodCIDRUnavailable | NotFound | NodeNameConflict | NotEmptyDir | WouldBlock | DaemonRunning

datatype err =
    EMsg string
  | EHttp int string
  | ESentinel sentinel string
  | ENet string
  | EWrap string err string
  | EJoin "err list"

definition http_error_string :: "int \<Rightarrow> string \<Rightarrow> string" where
  "http_error_string code body =
     (if body = [] then ''kubernetes API returned HTTP '' @ itoa code
      else ''kubernetes API returned HTTP '' @ itoa code @ '': '' @ body)"

fun err_string :: "err \<Rightarrow> string" where
  "err_string (EMsg s) = s"
| "err_string (EHttp code body) = http_error_string code body"
| "err_string (ESentinel k s) = s"
| "err_string (ENet s) = s"
| "err_string (EWrap p e s) = p @ err_string e @ s"
| "err_string (EJoin es) = str_join [newline] (map err_string es)"

fun first_some :: "'a option list \<Rightarrow> 'a option" where
  "first_some [] = None"
| "first_some (Some x # xs) = Some x"
| "first_some (None # xs) = first_some xs"

text \<open>\<^verbatim>\<open>errors.As\<close> for \<^verbatim>\<open>*HTTPError\<close>: the first one in the tree, depth first.\<close>

fun as_http :: "err \<Rightarrow> (int \<times> string) option" where
  "as_http (EHttp code body) = Some (code, body)"
| "as_http (EWrap p e s) = as_http e"
| "as_http (EJoin es) = first_some (map as_http es)"
| "as_http _ = None"

fun is_sentinel :: "sentinel \<Rightarrow> err \<Rightarrow> bool" where
  "is_sentinel k (ESentinel k' s) = (k = k')"
| "is_sentinel k (EWrap p e s) = is_sentinel k e"
| "is_sentinel k (EJoin es) = list_ex (is_sentinel k) es"
| "is_sentinel k _ = False"

fun is_net_error :: "err \<Rightarrow> bool" where
  "is_net_error (ENet s) = True"
| "is_net_error (EWrap p e s) = is_net_error e"
| "is_net_error (EJoin es) = list_ex is_net_error es"
| "is_net_error _ = False"

definition http_code_is :: "int \<Rightarrow> err \<Rightarrow> bool" where
  "http_code_is code e \<longleftrightarrow> (case as_http e of Some (c, _) \<Rightarrow> c = code | None \<Rightarrow> False)"

definition errors_join :: "err list \<Rightarrow> err option" where
  "errors_join es = (if es = [] then None else Some (EJoin es))"

abbreviation wrap :: "string \<Rightarrow> err \<Rightarrow> err" where
  "wrap p e \<equiv> EWrap p e []"

section \<open>Facts about strings\<close>

lemma has_prefix_iff: "has_prefix s p \<longleftrightarrow> (\<exists>t. s = p @ t)"
  by (metis append_eq_conv_conj has_prefix_def)

lemma has_prefix_append [simp]: "has_prefix (p @ t) p"
  by (simp add: has_prefix_def)

lemma has_suffix_iff: "has_suffix s p \<longleftrightarrow> (\<exists>t. s = t @ p)"
  unfolding has_suffix_def has_prefix_iff
  by (metis rev_append rev_rev_ident)

lemma str_index_Some:
  "str_index s p = Some i \<Longrightarrow> i + length p \<le> length s \<and> take (length p) (drop i s) = p"
proof (induction s arbitrary: i)
  case Nil
  then show ?case by (auto split: if_splits)
next
  case (Cons c s)
  then show ?case
    by (auto simp: has_prefix_def split: if_splits) (metis length_take min.absorb_iff2 length_Cons)
qed

lemma str_contains_iff: "str_contains s p \<longleftrightarrow> (\<exists>a b. s = a @ p @ b)"
proof
  assume "str_contains s p"
  then obtain i where "str_index s p = Some i"
    by (auto simp: str_contains_def)
  then have "take (length p) (drop i s) = p" by (simp add: str_index_Some)
  then have "s = take i s @ p @ drop (length p) (drop i s)"
    by (metis append_take_drop_id)
  then show "\<exists>a b. s = a @ p @ b" by blast
next
  assume "\<exists>a b. s = a @ p @ b"
  then obtain a b where s: "s = a @ p @ b" by blast
  have "str_index (a @ p @ b) p \<noteq> None"
  proof (induction a)
    case Nil
    show ?case using has_prefix_append [of p b] by (cases "p @ b") auto
  next
    case (Cons c a)
    then show ?case by auto
  qed
  with s show "str_contains s p" by (simp add: str_contains_def)
qed

lemma split_on_not_Nil [simp]: "split_on d s \<noteq> []"
  by (cases s) (auto split: list.splits)

lemma split_on_no_sep: "p \<in> set (split_on d s) \<Longrightarrow> d \<notin> set p"
proof (induction s arbitrary: p)
  case Nil
  then show ?case by simp
next
  case (Cons c s)
  obtain q qs where "split_on d s = q # qs"
    by (metis list.exhaust split_on_not_Nil)
  with Cons show ?case by (auto split: if_splits)
qed

lemma split_on_self: "d \<notin> set s \<Longrightarrow> split_on d s = [s]"
  by (induction s) auto

lemma split_on_append_sep:
  "d \<notin> set p \<Longrightarrow> split_on d (p @ d # s) = p # split_on d s"
  by (induction p) auto

lemma split_on_append:
  "split_on d (a @ d # b) = split_on d a @ split_on d b"
proof (induction a)
  case (Cons c a)
  obtain q qs where "split_on d a = q # qs" by (metis list.exhaust split_on_not_Nil)
  with Cons show ?case by auto
qed simp

lemma split_on_join:
  "ps \<noteq> [] \<Longrightarrow> \<forall>p \<in> set ps. d \<notin> set p \<Longrightarrow> split_on d (str_join [d] ps) = ps"
proof (induction ps rule: induct_list012)
  case (3 p q ps)
  then have "split_on d (p @ d # str_join [d] (q # ps)) = p # q # ps"
    by (simp add: split_on_append_sep)
  then show ?case by simp
qed (auto simp: split_on_self)

lemma join_split_on: "str_join [d] (split_on d s) = s"
proof (induction s)
  case (Cons c s)
  obtain q qs where q: "split_on d s = q # qs"
    by (metis list.exhaust split_on_not_Nil)
  show ?case using Cons by (cases qs) (auto simp: q)
qed simp

lemma str_cut_found: "str_cut d (p @ d # s) = (p, s, True)" if "d \<notin> set p"
proof -
  from that have "takeWhile (\<lambda>c. c \<noteq> d) (p @ d # s) = p"
    by (induction p) auto
  then show ?thesis by (simp add: str_cut_def Let_def)
qed

lemma str_cut_missing: "d \<notin> set s \<Longrightarrow> str_cut d s = (s, [], False)"
proof -
  assume "d \<notin> set s"
  then have tw: "takeWhile (\<lambda>c. c \<noteq> d) s = s" by (induction s) auto
  show ?thesis unfolding str_cut_def Let_def tw by simp
qed

lemma str_cut_cases:
  obtains (found) p t where "d \<notin> set p" "s = p @ d # t" "str_cut d s = (p, t, True)"
  | (missing) "d \<notin> set s" "str_cut d s = (s, [], False)"
proof (cases "d \<in> set s")
  case True
  then obtain p t where "s = p @ d # t" "d \<notin> set p"
    by (meson split_list_first)
  with found str_cut_found show ?thesis by blast
next
  case False
  with missing str_cut_missing show ?thesis by blast
qed

subsection \<open>Trimming\<close>

lemma set_trim_of: "set (trim_of P s) \<subseteq> set s"
  by (auto simp: trim_of_def trim_right_of_def dest!: set_dropWhileD)

lemma in_set_dropWhile: "c \<in> set s \<Longrightarrow> \<not> P c \<Longrightarrow> c \<in> set (dropWhile P s)"
  by (induction s) auto

lemma in_set_trim_of: "c \<in> set s \<Longrightarrow> \<not> P c \<Longrightarrow> c \<in> set (trim_of P s)"
  by (auto simp: trim_of_def trim_right_of_def in_set_dropWhile)

lemma trim_right_of_id: "s = [] \<or> \<not> P (last s) \<Longrightarrow> trim_right_of P s = s"
  by (metis dropWhile.simps(1) dropWhile_eq_self_iff hd_rev rev_is_Nil_conv rev_rev_ident trim_right_of_def)

lemma trim_right_of_last: "trim_right_of P s \<noteq> [] \<Longrightarrow> \<not> P (last (trim_right_of P s))"
  unfolding trim_right_of_def by (metis hd_dropWhile last_rev rev_is_Nil_conv)

lemma trim_right_of_prefix: "\<exists>t. s = trim_right_of P s @ t"
proof -
  have "rev s = takeWhile P (rev s) @ dropWhile P (rev s)" by simp
  then have "s = rev (dropWhile P (rev s)) @ rev (takeWhile P (rev s))"
    by (metis rev_append rev_rev_ident)
  then show ?thesis by (auto simp: trim_right_of_def)
qed

lemma trim_of_hd: "trim_of P s \<noteq> [] \<Longrightarrow> \<not> P (hd (trim_of P s))"
proof -
  assume ne: "trim_of P s \<noteq> []"
  obtain t where "dropWhile P s = trim_of P s @ t"
    unfolding trim_of_def using trim_right_of_prefix by blast
  with ne have "hd (dropWhile P s) = hd (trim_of P s)" "dropWhile P s \<noteq> []"
    by (metis hd_append2, auto)
  then show ?thesis by (metis hd_dropWhile)
qed

lemma trim_of_last: "trim_of P s \<noteq> [] \<Longrightarrow> \<not> P (last (trim_of P s))"
  by (simp add: trim_of_def trim_right_of_last)

lemma trim_of_id: "s = [] \<or> (\<not> P (hd s) \<and> \<not> P (last s)) \<Longrightarrow> trim_of P s = s"
  by (metis dropWhile_eq_self_iff trim_of_def trim_right_of_id)

lemma trim_of_idem [simp]: "trim_of P (trim_of P s) = trim_of P s"
  using trim_of_hd trim_of_id trim_of_last by blast

lemma trim_space_idem [simp]: "trim_space (trim_space s) = trim_space s"
  by (simp add: trim_space_def)

subsection \<open>Decimal numbers\<close>

lemma byte_digit_char: "d < 10 \<Longrightarrow> byte (digit_char d) = 48 + d"
  by (simp add: byte_def digit_char_def)

lemma is_digit_digit_char [simp]: "d < 10 \<Longrightarrow> is_digit (digit_char d)"
  by (simp add: is_digit_def byte_digit_char)

lemma digit_val_digit_char [simp]: "d < 10 \<Longrightarrow> digit_val (digit_char d) = d"
  by (simp add: digit_val_def byte_digit_char)

lemma show_nat_digits: "list_all is_digit (show_nat n)"
proof (induction n rule: show_nat.induct)
  case (1 n)
  then show ?case by (subst show_nat.simps) simp
qed

lemma show_nat_ne [simp]: "show_nat n \<noteq> []"
  by (subst show_nat.simps) simp

lemma digits_val_snoc: "digits_val (s @ [c]) = 10 * digits_val s + digit_val c"
  by (simp add: digits_val_def)

lemma digits_val_show: "digits_val (show_nat n) = n"
proof (induction n rule: show_nat.induct)
  case (1 n)
  show ?case
  proof (cases "n < 10")
    case True
    then show ?thesis by (subst show_nat.simps) (simp add: digits_val_def)
  next
    case False
    with 1 show ?thesis by (subst show_nat.simps) (simp add: digits_val_snoc)
  qed
qed

lemma read_show_nat [simp]: "read_nat (show_nat n) = Some n"
  by (simp add: read_nat_def show_nat_digits digits_val_show)

lemma is_digit_not:
  "is_digit c \<Longrightarrow> c \<noteq> CHR ''.'' \<and> c \<noteq> CHR ''/'' \<and> c \<noteq> CHR ''-'' \<and> c \<noteq> CHR ''+'' \<and> c \<noteq> CHR '':'' \<and>
     c \<noteq> CHR ''%'' \<and> c \<noteq> CHR '' '' \<and> c \<noteq> CHR ''=''"
  by (auto simp: is_digit_def byte_def)

lemma show_nat_chars: "c \<in> set (show_nat n) \<Longrightarrow> is_digit c"
  using show_nat_digits by (metis list_all_iff)

lemma atoi_show_nat: "int n < 2 ^ 63 \<Longrightarrow> atoi (show_nat n) = Some (int n)"
proof -
  assume n: "int n < 2 ^ 63"
  obtain c t where s: "show_nat n = c # t"
    by (metis list.exhaust show_nat_ne)
  then have "is_digit c" by (metis list.set_intros(1) show_nat_chars)
  then have c: "c \<noteq> CHR ''-''" "c \<noteq> CHR ''+''" by (auto dest: is_digit_not)
  have "read_nat (c # t) = Some n" by (metis s read_show_nat)
  with n c show ?thesis by (simp add: atoi_def s)
qed

lemma atoi_itoa:
  assumes "- (2 ^ 63) \<le> i" "i < 2 ^ 63"
  shows "atoi (itoa i) = Some i"
proof (cases "i < 0")
  case True
  with assms show ?thesis by (simp add: atoi_def itoa_def)
next
  case False
  with assms atoi_show_nat [of "nat i"] show ?thesis by (simp add: itoa_def)
qed

text \<open>Evaluation of \<open>atoi\<close> and \<open>itoa\<close> on binary numbers.\<close>

definition read_int :: "string \<Rightarrow> int option" where
  "read_int s = (if s \<noteq> [] \<and> list_all is_digit s
     then Some (foldl (\<lambda>n c. 10 * n + int (digit_val c)) 0 s) else None)"

lemma read_int_eq: "read_int s = map_option int (read_nat s)"
proof -
  have "foldl (\<lambda>n c. 10 * n + int (digit_val c)) (int k) s = int (foldl (\<lambda>n c. 10 * n + digit_val c) k s)" for k
  proof (induction s arbitrary: k)
    case (Cons c s)
    have "10 * int k + int (digit_val c) = int (10 * k + digit_val c)" by simp
    with Cons show ?case by (simp only: foldl.simps)
  qed simp
  from this [of 0] show ?thesis by (simp add: read_int_def read_nat_def digits_val_def)
qed

lemma atoi_code [code]:
  "atoi s = (let (neg, ds) = (case s of
        c # t \<Rightarrow> if c = CHR ''-'' then (True, t) else if c = CHR ''+'' then (False, t) else (False, s)
      | [] \<Rightarrow> (False, [])) in
     case read_int ds of
       None \<Rightarrow> None
     | Some n \<Rightarrow> (let i = (if neg then - n else n) in
         if - (2 ^ 63) \<le> i \<and> i < 2 ^ 63 then Some i else None))"
  unfolding atoi_def read_int_eq Let_def
  by (rule prod.case_cong [OF refl]) (simp split: option.split)

function show_pos :: "int \<Rightarrow> string" where
  "show_pos i = (if i < 10 then [digit_char (nat i)] else show_pos (i div 10) @ [digit_char (nat (i mod 10))])"
  by auto
termination by (relation "measure nat") auto

declare show_pos.simps [simp del]

lemma show_pos_eq: "0 \<le> i \<Longrightarrow> show_pos i = show_nat (nat i)"
proof (induction i rule: show_pos.induct)
  case (1 i)
  show ?case
  proof (cases "i < 10")
    case True
    then show ?thesis by (simp add: show_pos.simps [of i] show_nat.simps [of "nat i"] nat_less_iff 1)
  next
    case False
    with 1 have "show_pos (i div 10) = show_nat (nat (i div 10))" by simp
    with False 1 show ?thesis
      by (simp add: show_pos.simps [of i] show_nat.simps [of "nat i"] nat_less_iff nat_div_distrib nat_mod_distrib)
  qed
qed

lemma itoa_code [code]: "itoa i = (if i < 0 then CHR ''-'' # show_pos (- i) else show_pos i)"
  by (simp add: itoa_def show_pos_eq)

section \<open>Facts about maps\<close>

lemma mget_put [simp]: "mget (mput m k v) k' = (if k' = k then v else mget m k')"
  by (simp add: mget_def update_conv)

lemma distinct_mput [simp]: "distinct (map fst m) \<Longrightarrow> distinct (map fst (mput m k v))"
  by (rule distinct_update)

lemma distinct_mdel [simp]: "distinct (map fst m) \<Longrightarrow> distinct (map fst (mdel m k))"
  by (simp add: AList.distinct_delete)

lemma map_of_mput: "map_of (mput m k v) = (map_of m)(k \<mapsto> v)"
  by (rule update_conv')

lemma map_of_mdel: "map_of (mdel m k) = (map_of m)(k := None)"
  by (rule delete_conv')

lemma mhas_iff: "mhas m k \<longleftrightarrow> k \<in> set (map fst m)"
  by (metis map_of_eq_None_iff set_map)

lemma set_mput: "p \<in> set (mput m k v) \<Longrightarrow> p = (k, v) \<or> p \<in> set m"
  by (induction m) (auto split: if_splits)

lemma set_mdel: "p \<in> set (mdel m k) \<Longrightarrow> p \<in> set m \<and> fst p \<noteq> k"
  by (auto simp: AList.delete_eq)

end
