(* ===== verification/KubeTypes.thy ===== *)
theory KubeTypes
  imports Prelude "HOL-Library.Word"
begin

text \<open>
  The Kubernetes objects that maclet reads and writes, as aliased in
  \<^verbatim>\<open>pkg/kube/types.go\<close> and \<^verbatim>\<open>pkg/maclet/kube_types.go\<close>: of every upstream struct the
  fields the program touches.  A pointer or an absent JSON field is an \<open>option\<close>, a
  \<^verbatim>\<open>map[string]string\<close> an association list, a time the number of nanoseconds since the
  epoch, a restart count the 32-bit word it is in Go.
\<close>

type_synonym gotime = int
type_synonym strmap = "(string, string) gomap"

record object_meta =
  om_name :: string
  om_namespace :: string
  om_uid :: string
  om_resource_version :: string
  om_labels :: strmap
  om_annotations :: strmap
  om_deletion :: "gotime option"

section \<open>Pods\<close>

record volume_mount =
  vm_name :: string
  vm_mount_path :: string
  vm_sub_path :: string
  vm_sub_path_expr :: string
  vm_read_only :: bool

record container_port =
  cp_host_port :: int
  cp_container_port :: int
  cp_protocol :: string

record key_selector =
  ks_name :: string
  ks_key :: string
  ks_optional :: "bool option"

record env_source =
  es_field_ref :: "string option"
  es_secret_key :: "key_selector option"
  es_config_key :: "key_selector option"
  es_resource :: bool

record env_var =
  ev_name :: string
  ev_value :: string
  ev_from :: "env_source option"

record source_ref =
  sr_name :: string
  sr_optional :: "bool option"

record env_from =
  ef_prefix :: string
  ef_config_map :: "source_ref option"
  ef_secret :: "source_ref option"

record container =
  c_name :: string
  c_image :: string
  c_working_dir :: string
  c_command :: "string list"
  c_args :: "string list"
  c_env :: "env_var list"
  c_env_from :: "env_from list"
  c_ports :: "container_port list"
  c_mounts :: "volume_mount list"

record key_to_path =
  kp_key :: string
  kp_path :: string
  kp_mode :: "int option"

record cm_volume =
  cv_name :: string
  cv_optional :: "bool option"
  cv_items :: "key_to_path list"
  cv_default_mode :: "int option"

record pvc_source =
  pc_claim :: string
  pc_read_only :: bool

record volume =
  vo_name :: string
  vo_host_path :: "(string \<times> string option) option"
  vo_config_map :: "cm_volume option"
  vo_pvc :: "pvc_source option"

record pod_spec =
  ps_node_name :: string
  ps_service_account :: string
  ps_host_network :: bool
  ps_dns_policy :: string
  ps_restart_policy :: string
  ps_containers :: "container list"
  ps_init_containers :: "container list"
  ps_volumes :: "volume list"

record pod_condition =
  pk_type :: string
  pk_status :: string
  pk_time :: gotime
  pk_reason :: string
  pk_message :: string

record terminated =
  te_exit_code :: int
  te_reason :: string
  te_message :: string
  te_started :: "gotime option"
  te_finished :: gotime

datatype container_state =
    StRunning gotime
  | StWaiting string string
  | StTerminated terminated

record container_status =
  ct_name :: string
  ct_image :: string
  ct_ready :: bool
  ct_restarts :: "32 word"
  ct_state :: container_state

record pod_status =
  pt_phase :: string
  pt_pod_ip :: string
  pt_pod_ips :: "string list"
  pt_host_ip :: string
  pt_reason :: string
  pt_message :: string
  pt_conditions :: "pod_condition list"
  pt_containers :: "container_status list"

record pod =
  p_meta :: object_meta
  p_spec :: pod_spec
  p_status :: pod_status

section \<open>Nodes and Leases\<close>

record taint =
  tn_key :: string
  tn_value :: string
  tn_effect :: string
  tn_added :: "gotime option"

record node_spec =
  ns_pod_cidr :: string
  ns_pod_cidrs :: "string list"
  ns_taints :: "taint list"
  ns_unschedulable :: bool

record node_condition =
  nc_type :: string
  nc_status :: string
  nc_time :: gotime
  nc_reason :: string
  nc_message :: string

record node_status =
  nt_addresses :: "(string \<times> string) list"
  nt_capacity :: "(string \<times> int) list"
  nt_allocatable :: "(string \<times> int) list"
  nt_conditions :: "node_condition list"
  nt_kubelet_port :: int
  nt_arch :: string
  nt_os :: string
  nt_kernel :: string
  nt_os_image :: string
  nt_runtime :: string
  nt_kubelet_version :: string
  nt_proxy_version :: string

record node =
  n_meta :: object_meta
  n_spec :: node_spec

record lease =
  le_name :: string
  le_namespace :: string
  le_holder :: "string option"
  le_duration :: "int option"
  le_acquire :: "gotime option"
  le_renew :: "gotime option"

section \<open>Configuration, storage and services\<close>

record config_map =
  cm_data :: strmap
  cm_binary :: strmap

record secret =
  se_data :: strmap

record pvc =
  pvc_name :: string
  pvc_uid :: string
  pvc_phase :: string
  pvc_volume_name :: string

record claim_ref =
  cr_name :: string
  cr_namespace :: string
  cr_uid :: string

record csi_source =
  cs_driver :: string
  cs_attributes :: strmap

record pv =
  pv_name :: string
  pv_claim_ref :: "claim_ref option"
  pv_nfs :: bool
  pv_csi :: "csi_source option"
  pv_mount_options :: "string list"

record service =
  sv_cluster_ips :: "string list"
  sv_cluster_ip :: string

text \<open>The body of an API response, by what it decodes to; \<open>KOther\<close> decodes to nothing.\<close>

datatype kobj =
    KPod pod
  | KPods "pod list"
  | KNode node
  | KNodes "node list"
  | KLease lease
  | KConfigMap config_map
  | KSecret secret
  | KPvc pvc
  | KPv pv
  | KService service
  | KOther string

end
