(* ===== verification/GoNet.thy ===== *)
theory GoNet
  imports Prelude "HOL-Library.Word"
begin

text \<open>
  The part of Go's package \<^verbatim>\<open>net\<close> that maclet relies on: \<^verbatim>\<open>ParseIP\<close>, \<^verbatim>\<open>To4\<close>, the
  dotted printing of an IPv4 address, \<^verbatim>\<open>ParseCIDR\<close>, \<^verbatim>\<open>IPNet.Contains\<close>, \<^verbatim>\<open>Mask.Size\<close>
  and \<^verbatim>\<open>ParseMAC\<close>.  An address is the 16-byte form that \<^verbatim>\<open>ParseIP\<close> returns, as a
  128-bit word; two addresses are \<^verbatim>\<open>Equal\<close> when these words are.  The section on address
  arithmetic holds the facts about 32-bit words that the Pod network rests on.
\<close>

unbundle bit_operations_syntax

type_synonym ipaddr = "128 word"
type_synonym ip4 = "32 word"

section \<open>Addresses\<close>

definition ip_of_v4 :: "ip4 \<Rightarrow> ipaddr" where
  "ip_of_v4 w = push_bit 32 0xFFFF OR ucast w"

definition to4 :: "ipaddr \<Rightarrow> ip4 option" where
  "to4 a = (if drop_bit 32 a = 0xFFFF then Some (ucast a) else None)"

definition octet :: "nat \<Rightarrow> ip4 \<Rightarrow> nat" where
  "octet i w = unat (take_bit 8 (drop_bit (8 * (3 - i)) w))"

definition ip4_string :: "ip4 \<Rightarrow> string" where
  "ip4_string w = str_join ''.'' (map show_nat [octet 0 w, octet 1 w, octet 2 w, octet 3 w])"

text \<open>One field of a dotted address: digits without a leading zero, at most 255.\<close>

definition parse_octet :: "string \<Rightarrow> nat option" where
  "parse_octet s = (case read_nat s of
       Some n \<Rightarrow> if n \<le> 255 \<and> (hd s = CHR ''0'' \<longrightarrow> length s = 1) then Some n else None
     | None \<Rightarrow> None)"

definition ip4_of_octets :: "nat \<Rightarrow> nat \<Rightarrow> nat \<Rightarrow> nat \<Rightarrow> ip4" where
  "ip4_of_octets a b c d = ((of_nat a * 256 + of_nat b) * 256 + of_nat c) * 256 + of_nat d"

definition parse_ip4 :: "string \<Rightarrow> ip4 option" where
  "parse_ip4 s = (case map parse_octet (split_on CHR ''.'' s) of
       [Some a, Some b, Some c, Some d] \<Rightarrow> Some (ip4_of_octets a b c d)
     | _ \<Rightarrow> None)"

definition hex_val :: "char \<Rightarrow> nat option" where
  "hex_val c = (let b = byte c in
     if 48 \<le> b \<and> b \<le> 57 then Some (b - 48)
     else if 97 \<le> b \<and> b \<le> 102 then Some (b - 87)
     else if 65 \<le> b \<and> b \<le> 70 then Some (b - 55)
     else None)"

definition is_hex :: "char \<Rightarrow> bool" where
  "is_hex c \<longleftrightarrow> hex_val c \<noteq> None"

definition hex_number :: "string \<Rightarrow> nat" where
  "hex_number s = foldl (\<lambda>n c. 16 * n + the (hex_val c)) 0 s"

text \<open>
  The group loop of \<^verbatim>\<open>netip.parseIPv6\<close>: \<open>gs\<close> are the 16-bit groups read so far, \<open>el\<close>
  the position of the \<^verbatim>\<open>::\<close>.  Every round reads one group, so eight rounds (the first
  argument) are all there can be.
\<close>

fun parse_groups :: "nat \<Rightarrow> nat list \<Rightarrow> nat option \<Rightarrow> string \<Rightarrow> (nat list \<times> nat option) option" where
  "parse_groups 0 gs el s = (if s = [] then Some (gs, el) else None)"
| "parse_groups (Suc k) gs el s =
    (let h = takeWhile is_hex s; r = drop (length h) s in
     if h = [] \<or> length h > 4 then None
     else if r \<noteq> [] \<and> hd r = CHR ''.'' then
       (if el = None \<and> length gs \<noteq> 6 \<or> length gs > 6 then None
        else (case parse_ip4 s of
            Some w \<Rightarrow> Some (gs @ [octet 0 w * 256 + octet 1 w, octet 2 w * 256 + octet 3 w], el)
          | None \<Rightarrow> None))
     else (let gs' = gs @ [hex_number h] in
       if r = [] then Some (gs', el)
       else if hd r \<noteq> CHR '':'' \<or> length r = 1 then None
       else (let r' = tl r in
         if hd r' = CHR '':'' then
           (if el \<noteq> None then None
            else if tl r' = [] then Some (gs', Some (length gs'))
            else parse_groups k gs' (Some (length gs')) (tl r'))
         else parse_groups k gs' el r')))"

definition expand_groups :: "nat list \<times> nat option \<Rightarrow> nat list option" where
  "expand_groups p = (case p of (gs, el) \<Rightarrow>
     if length gs < 8 then
       (case el of None \<Rightarrow> None
        | Some i \<Rightarrow> Some (take i gs @ replicate (8 - length gs) 0 @ drop i gs))
     else if el \<noteq> None then None else Some gs)"

definition parse_ip6 :: "string \<Rightarrow> ipaddr option" where
  "parse_ip6 s =
    (case (if has_prefix s ''::'' then
             (if length s = 2 then Some ([], Some 0) else parse_groups 8 [] (Some 0) (drop 2 s))
           else parse_groups 8 [] None s) of
       None \<Rightarrow> None
     | Some p \<Rightarrow> map_option (foldl (\<lambda>n g. n * 65536 + of_nat g) 0) (expand_groups p))"

text \<open>\<^verbatim>\<open>net.ParseIP\<close>: the first dot or colon decides the family; zones are refused.\<close>

definition parse_ip :: "string \<Rightarrow> ipaddr option" where
  "parse_ip s =
    (case dropWhile (\<lambda>c. c \<notin> {CHR ''.'', CHR '':'', CHR ''%''}) s of
       [] \<Rightarrow> None
     | c # _ \<Rightarrow>
         if c = CHR ''.'' then map_option ip_of_v4 (parse_ip4 s)
         else if c = CHR '':'' then (if CHR ''%'' \<in> set s then None else parse_ip6 s)
         else None)"

abbreviation parse_to4 :: "string \<Rightarrow> ip4 option" where
  "parse_to4 s \<equiv> Option.bind (parse_ip s) to4"

section \<open>Networks\<close>

record ipnet =
  net_ip :: ipaddr
  net_prefix :: nat
  net_bits :: nat

definition mask32 :: "nat \<Rightarrow> ip4" where
  "mask32 p = NOT (mask (32 - p))"

definition mask128 :: "nat \<Rightarrow> ipaddr" where
  "mask128 p = NOT (mask (128 - p))"

text \<open>
  \<^verbatim>\<open>net.ParseCIDR\<close>.  A dotted address has 32 bits, any other spelling 128, and the network
  address is masked in that width.
\<close>

definition parse_cidr :: "string \<Rightarrow> (ipaddr \<times> ipnet) option" where
  "parse_cidr s = (case str_cut CHR ''/'' s of (addr, m, found) \<Rightarrow>
     if \<not> found then None
     else (case (parse_ip addr, read_nat m) of
         (Some a, Some n) \<Rightarrow>
           (let v4 = CHR '':'' \<notin> set addr in
            if n > (if v4 then 32 else 128) then None
            else if v4 then
              Some (a, \<lparr>net_ip = ip_of_v4 (ucast a AND mask32 n), net_prefix = n, net_bits = 32\<rparr>)
            else Some (a, \<lparr>net_ip = a AND mask128 n, net_prefix = n, net_bits = 128\<rparr>))
       | _ \<Rightarrow> None))"

text \<open>The \<^verbatim>\<open>*net.ParseError\<close> of a malformed CIDR.\<close>

definition cidr_error :: "string \<Rightarrow> err" where
  "cidr_error s = EMsg (''invalid CIDR address: '' @ s)"

definition cidr_net :: "string \<Rightarrow> ipnet option" where
  "cidr_net s = map_option snd (parse_cidr s)"

definition net_contains :: "ipnet \<Rightarrow> ipaddr \<Rightarrow> bool" where
  "net_contains n ip =
    (case (to4 (net_ip n), to4 ip) of
       (Some nn, Some x) \<Rightarrow>
         (let m = (if net_bits n = 32 then mask32 (net_prefix n) else ucast (mask128 (net_prefix n)))
          in nn AND m = x AND m)
     | (None, None) \<Rightarrow>
         net_bits n = 128 \<and> net_ip n AND mask128 (net_prefix n) = ip AND mask128 (net_prefix n)
     | _ \<Rightarrow> False)"

text \<open>
  \<^verbatim>\<open>net.ParseMAC\<close> for the spellings of six bytes (\<^verbatim>\<open>aa:bb:cc:dd:ee:ff\<close>, with hyphens, or
  \<^verbatim>\<open>aabb.ccdd.eeff\<close>) and the printing of the result; every caller refuses the longer
  hardware addresses that \<^verbatim>\<open>ParseMAC\<close> also reads.
\<close>

definition hex_byte :: "string \<Rightarrow> nat option" where
  "hex_byte s = (if length s = 2 \<and> list_all is_hex s then Some (hex_number s) else None)"

definition hex_bytes :: "string list \<Rightarrow> nat list option" where
  "hex_bytes ps = (if list_all (\<lambda>p. hex_byte p \<noteq> None) ps then Some (map (\<lambda>p. the (hex_byte p)) ps)
     else None)"

definition parse_mac6 :: "string \<Rightarrow> nat list option" where
  "parse_mac6 s =
    (if length s = 17 \<and> s ! 2 \<in> {CHR '':'', CHR ''-''} then
       (let ps = split_on (s ! 2) s in if length ps = 6 then hex_bytes ps else None)
     else if length s = 14 \<and> s ! 4 = CHR ''.'' then
       (let ps = split_on CHR ''.'' s in
        if length ps = 3 \<and> list_all (\<lambda>p. length p = 4) ps
        then hex_bytes (concat (map (\<lambda>p. [take 2 p, drop 2 p]) ps)) else None)
     else None)"

definition hex_digit :: "nat \<Rightarrow> char" where
  "hex_digit d = (if d < 10 then char_of (48 + d) else char_of (87 + d))"

definition mac_string :: "nat list \<Rightarrow> string" where
  "mac_string bs = str_join '':'' (map (\<lambda>b. [hex_digit (b div 16), hex_digit (b mod 16)]) bs)"

section \<open>Facts about addresses\<close>

lemma ucast_low:
  fixes a :: "128 word" and w :: "32 word"
  shows "ucast (push_bit 32 a OR ucast w) = w"
  by (rule bit_word_eqI) (auto simp: bit_simps)

lemma drop_low:
  fixes w :: "32 word"
  shows "drop_bit 32 (ucast w :: 128 word) = 0"
  by (rule bit_word_eqI) (auto simp: bit_simps dest: bit_imp_le_length)

lemma to4_ip_of_v4 [simp]: "to4 (ip_of_v4 w) = Some w"
proof -
  have "drop_bit 32 (ip_of_v4 w) = (0xFFFF :: 128 word)"
    unfolding ip_of_v4_def drop_bit_or drop_low by simp
  moreover have "ucast (ip_of_v4 w) = w"
    unfolding ip_of_v4_def by (rule ucast_low)
  ultimately show ?thesis by (simp add: to4_def)
qed

lemma to4_Some: "to4 a = Some w \<Longrightarrow> a = ip_of_v4 w"
proof -
  assume "to4 a = Some w"
  then have d: "drop_bit 32 a = 0xFFFF" and w: "w = ucast a"
    by (auto simp: to4_def split: if_splits)
  have "a = push_bit 32 (drop_bit 32 a) OR take_bit 32 a"
    by (rule bit_word_eqI) (auto simp: bit_simps)
  moreover have "take_bit 32 a = ucast w"
    unfolding w by (rule bit_word_eqI) (auto simp: bit_simps)
  ultimately show ?thesis by (simp add: d ip_of_v4_def)
qed

lemma ip_of_v4_inject [simp]: "ip_of_v4 a = ip_of_v4 b \<longleftrightarrow> a = b"
  by (metis option.inject to4_ip_of_v4)

lemma octet_nat: "octet i w = unat w div 256 ^ (3 - i) mod 256"
proof -
  have "(256 :: nat) ^ (3 - i) = 2 ^ (8 * (3 - i))" by (simp add: power_mult)
  moreover have "unat w < 4294967296" using unsigned_less [of w] by simp
  ultimately show ?thesis
    unfolding octet_def unsigned_take_bit_eq unsigned_drop_bit_eq
    by (simp add: take_bit_eq_mod drop_bit_eq_div)
qed

lemma octet_bound: "octet i w \<le> 255"
proof -
  have "octet i w < 256" unfolding octet_nat by (rule mod_less_divisor) simp
  then show ?thesis by simp
qed

lemma ip4_of_octets_octet: "ip4_of_octets (octet 0 w) (octet 1 w) (octet 2 w) (octet 3 w) = w"
proof -
  define n where "n = unat w"
  have lt: "n < 4294967296" using unsigned_less [of w] by (simp add: n_def)
  define a b c where "a = n div 256" and "b = a div 256" and "c = b div 256"
  note abc = a_def b_def c_def
  have "c < 256" using lt by (simp add: abc div_mult2_eq [symmetric] less_mult_imp_div_less)
  moreover have "n div 65536 = b" "n div 16777216 = c"
    by (simp_all add: abc div_mult2_eq [symmetric])
  moreover have "n = a * 256 + n mod 256" "a = b * 256 + a mod 256" "b = c * 256 + b mod 256"
    by (simp_all add: abc)
  ultimately have "((n div 16777216 mod 256 * 256 + n div 65536 mod 256) * 256 + n div 256 mod 256) * 256
      + n mod 256 = n"
    by (metis a_def mod_less)
  moreover have "octet 0 w = n div 16777216 mod 256" "octet 1 w = n div 65536 mod 256"
    "octet 2 w = n div 256 mod 256" "octet 3 w = n mod 256"
    by (simp_all add: octet_nat n_def)
  moreover have "ip4_of_octets p q r t = word_of_nat (((p * 256 + q) * 256 + r) * 256 + t)" for p q r t
    by (simp add: ip4_of_octets_def)
  ultimately show ?thesis by (simp only:) (simp add: n_def)
qed

lemma show_nat_hd: "0 < n \<Longrightarrow> hd (show_nat n) \<noteq> CHR ''0''"
proof (induction n rule: show_nat.induct)
  case (1 n)
  show ?case
  proof (cases "n < 10")
    case True
    have "byte (digit_char n) \<noteq> byte (CHR ''0'')"
      using True 1(2) by (simp add: byte_digit_char) (simp add: byte_def)
    with True show ?thesis by (subst show_nat.simps) auto
  next
    case False
    with 1 show ?thesis by (subst show_nat.simps) (simp add: hd_append)
  qed
qed

lemma parse_octet_show [simp]: "n \<le> 255 \<Longrightarrow> parse_octet (show_nat n) = Some n"
  by (cases "n = 0") (auto simp: parse_octet_def show_nat_hd, simp add: show_nat.simps)

lemma parse_ip4_string [simp]: "parse_ip4 (ip4_string w) = Some w"
proof -
  have "split_on CHR ''.'' (ip4_string w) = map show_nat [octet 0 w, octet 1 w, octet 2 w, octet 3 w]"
    unfolding ip4_string_def
    by (rule split_on_join) (auto dest: show_nat_chars is_digit_not)
  then show ?thesis
    using ip4_of_octets_octet [of w] by (simp add: parse_ip4_def octet_bound)
qed

lemma ip4_string_first_dot:
  "dropWhile (\<lambda>c. c \<notin> {CHR ''.'', CHR '':'', CHR ''%''}) (ip4_string w) =
     CHR ''.'' # str_join ''.'' (map show_nat [octet 1 w, octet 2 w, octet 3 w])"
proof -
  have "\<forall>c \<in> set (show_nat (octet 0 w)). c \<notin> {CHR ''.'', CHR '':'', CHR ''%''}"
    by (auto dest: show_nat_chars is_digit_not)
  then show ?thesis by (simp add: ip4_string_def dropWhile_append2)
qed

lemma parse_ip_ip4_string [simp]: "parse_ip (ip4_string w) = Some (ip_of_v4 w)"
  unfolding parse_ip_def ip4_string_first_dot by simp

lemma ip4_string_inject [simp]: "ip4_string a = ip4_string b \<longleftrightarrow> a = b"
  by (metis option.inject parse_ip4_string)

lemma ip4_string_chars: "c \<in> set (ip4_string w) \<Longrightarrow> is_digit c \<or> c = CHR ''.''"
  by (auto simp: ip4_string_def dest: show_nat_chars)

lemma ip4_string_no: "d \<in> {CHR ''/'', CHR '':'', CHR ''%'', CHR ''=''} \<Longrightarrow> d \<notin> set (ip4_string w)"
  by (auto dest!: ip4_string_chars is_digit_not)

lemma ip4_string_ne [simp]: "ip4_string w \<noteq> []"
  by (simp add: ip4_string_def)

lemma unat_succ_less: "unat (off + 1) = unat off + 1" if "off < bound" for off bound :: ip4
proof -
  have "unat off < unat bound" using that by (simp add: word_less_nat_alt)
  moreover have "unat bound < 2 ^ 32" using unsigned_less [of bound] by simp
  ultimately have "unat off + 1 < 2 ^ 32" by simp
  then show ?thesis by (subst unat_plus_if_size) (simp add: word_size)
qed

section \<open>Facts about networks\<close>

lemma mask32_and: "w AND mask32 p = push_bit (32 - p) (drop_bit (32 - p) w)"
  unfolding mask32_def by (rule bit_word_eqI) (auto simp: bit_simps)

lemma unat_mask32: "unat (w AND mask32 p) = unat w div 2 ^ (32 - p) * 2 ^ (32 - p)"
proof -
  have lt: "unat w < 2 ^ 32" using unsigned_less [of w] by simp
  have "unat w div 2 ^ (32 - p) * 2 ^ (32 - p) \<le> unat w" by (rule div_times_less_eq_dividend)
  also have "\<dots> < 2 ^ 32" using unsigned_less [of w] by simp
  finally have "take_bit 32 (unat w div 2 ^ (32 - p) * 2 ^ (32 - p)) = unat w div 2 ^ (32 - p) * 2 ^ (32 - p)"
    by (simp only: take_bit_nat_eq_self_iff)
  moreover have "unat (push_bit (32 - p) (drop_bit (32 - p) w)) =
      take_bit 32 (push_bit (32 - p) (drop_bit (32 - p) (unat w)))"
    unfolding unsigned_push_bit_eq unsigned_drop_bit_eq
    using lt by (simp add: take_bit_nat_eq_self)
  ultimately show ?thesis
    unfolding mask32_and by (simp add: push_bit_eq_mult drop_bit_eq_div)
qed

lemma mask32_idem [simp]: "w AND mask32 p AND mask32 p = w AND mask32 p"
  by (simp add: and.assoc)

text \<open>Adding an offset below the host range stays in the network and does not wrap.\<close>

lemma net_plus:
  assumes p: "p \<le> 32" and o': "unat off < 2 ^ (32 - p)"
  shows unat_net_plus: "unat ((w AND mask32 p) + off) = unat (w AND mask32 p) + unat off"
    and mask_net_plus: "((w AND mask32 p) + off) AND mask32 p = w AND mask32 p"
proof -
  let ?h = "32 - p" and ?n = "w AND mask32 p"
  define k where "k = unat w div 2 ^ ?h"
  have n: "unat ?n = k * 2 ^ ?h" by (simp add: k_def unat_mask32)
  have "unat w < 2 ^ 32" using unsigned_less [of w] by simp
  then have "unat w < 2 ^ ?h * 2 ^ p" using p by (simp add: power_add [symmetric])
  then have "k < 2 ^ p" by (simp add: k_def less_mult_imp_div_less mult.commute)
  then have "(k + 1) * 2 ^ ?h \<le> 2 ^ p * 2 ^ ?h" by (intro mult_right_mono) auto
  also have "\<dots> = 2 ^ 32" using p by (simp add: power_add [symmetric])
  finally have lt: "unat ?n + unat off < 2 ^ 32" using o' n by simp
  then show un: "unat (?n + off) = unat ?n + unat off"
    by (subst unat_plus_if_size) (simp add: word_size)
  have "unat (?n + off) div 2 ^ ?h = k" using un n o' by simp
  then have "unat ((?n + off) AND mask32 p) = unat ?n"
    by (simp add: unat_mask32 [of "?n + off"] n)
  then show "(?n + off) AND mask32 p = ?n" by (simp add: word_unat_eq_iff)
qed

lemma cidr_net_v4:
  assumes "cidr_net s = Some n" "net_bits n = 32"
  obtains w where "net_ip n = ip_of_v4 (w AND mask32 (net_prefix n))" "net_prefix n \<le> 32"
  using assms
  by (auto simp: cidr_net_def parse_cidr_def Let_def split: prod.splits option.splits if_splits)

lemma net_contains_v4:
  assumes "net_ip n = ip_of_v4 w" "net_bits n = 32"
  shows "net_contains n a \<longleftrightarrow>
    (\<exists>x. a = ip_of_v4 x \<and> w AND mask32 (net_prefix n) = x AND mask32 (net_prefix n))"
  using assms by (auto simp: net_contains_def Let_def split: option.splits dest: to4_Some)

end
