(* ===== verification/World.thy ===== *)
theory World
  imports KubeTypes GoNet
begin

text \<open>
  Everything outside the program: the Macker command line, privileged host commands, the
  Kubernetes API server, the file system, the host's interfaces and the clock.  An
  environment answers each request from the history of all requests so far, so it may be any
  deterministic world; a theorem about every environment holds whatever the outside does.
  The program's side keeps the history, newest first, as the trace of its effects.
\<close>

section \<open>Values that cross the boundary\<close>

datatype json =
    JNull
  | JBool bool
  | JInt int
  | JStr string
  | JList "json list"
  | JObj "(string \<times> json) list"
  | JMap strmap
  | JTaints "taint list"
  | JNodeSpec node_spec
  | JNodeStatus node_status
  | JPodStatus pod_status
  | JNode node
  | JLease lease

datatype content = FBytes string | FJson json

record file_info =
  fi_dir :: bool
  fi_regular :: bool
  fi_socket :: bool
  fi_char_device :: bool
  fi_device :: bool

datatype fs_request =
    ReadFile string
  | Stat string
  | MkdirAll string int
  | Mkdir string int
  | RemoveAll string
  | Remove string
  | Rename string string
  | WriteFile string content int
  | CreateExcl string int
  | CreateTemp string string
  | ChmodTemp string int
  | WriteTemp string content
  | SyncTemp string
  | CloseTemp string
  | Chown string int int
  | Chmod string int
  | OpenLock string int
  | LockFile string
  | UnlockFile string
  | CloseFile string
  | ReadDir string
  | EvalSymlinks string

datatype fs_response = FDone | FErr err | FData content | FInfo file_info | FNames "string list"

text \<open>
  The API identities: the node's own client, the separately authorized peer client, the
  controller client, the client that holds the join token and one without any credentials.
\<close>

datatype api_client = NodeClient | PeerClient | ControllerClient | TokenClient | AnonymousClient

datatype api_method = GET | POST | PUT | PATCH | DELETE

record iface =
  if_name :: string
  if_mac :: string
  if_addrs :: "ipaddr list option"

datatype event =
    EvMacker string "string list" string "err option"
  | EvCmd "string list" string "err option"
  | EvApi api_client api_method string "json option" "err + kobj"
  | EvFs fs_request fs_response
  | EvIfaces "err + iface list"
  | EvNow gotime
  | EvSleep int
  | EvStart "string list" "err + int"
  | EvSignal int int
  | EvRaw api_client api_method string string strmap "err + string"
  | EvRandom nat "err + string"
  | EvKeyRequest string "err + string \<times> string"
  | EvListen string "err option"

type_synonym trace = "event list"

record env =
  e_macker :: "trace \<Rightarrow> string \<Rightarrow> string list \<Rightarrow> string \<times> err option"
  e_cmd :: "trace \<Rightarrow> string list \<Rightarrow> string \<times> err option"
  e_api :: "trace \<Rightarrow> api_client \<Rightarrow> api_method \<Rightarrow> string \<Rightarrow> json option \<Rightarrow> err + kobj"
  e_fs :: "trace \<Rightarrow> fs_request \<Rightarrow> fs_response"
  e_start :: "trace \<Rightarrow> string list \<Rightarrow> err + int"
  e_exited :: "trace \<Rightarrow> int \<Rightarrow> bool"
  e_ifaces :: "trace \<Rightarrow> err + iface list"
  e_now :: "trace \<Rightarrow> gotime"
  e_look_path :: "string \<Rightarrow> string option"
  e_order :: "string list \<Rightarrow> string list"
  e_time_string :: "gotime \<Rightarrow> string"
  e_parse_time :: "string \<Rightarrow> gotime option"
  e_sha256_hex :: "string \<Rightarrow> string"
  e_parse_json :: "string \<Rightarrow> json option"
  e_euid :: int
  e_getenv :: "string \<Rightarrow> string"
  e_goarch :: string
  e_raw :: "trace \<Rightarrow> api_client \<Rightarrow> api_method \<Rightarrow> string \<Rightarrow> string \<Rightarrow> strmap \<Rightarrow> err + string"
  e_random :: "trace \<Rightarrow> nat \<Rightarrow> err + string"
  e_key_request :: "trace \<Rightarrow> string \<Rightarrow> err + string \<times> string"
  e_stdin :: "err + string"
  e_hostname :: "string option"
  e_underlay :: "string \<Rightarrow> string option"
  e_certificate :: "string \<Rightarrow> gotime option"
  e_pem :: "string \<Rightarrow> (string \<times> string \<times> string) option"
  e_ca_pool :: "string \<Rightarrow> bool"
  e_key_pair :: "string \<Rightarrow> string \<Rightarrow> err option"
  e_parse_url :: "string \<Rightarrow> err + string \<times> string"
  e_url_string :: "string \<Rightarrow> string"
  e_listen :: "trace \<Rightarrow> string \<Rightarrow> err option"
  e_yaml :: "string \<Rightarrow> err + json"
  e_user_home :: "string \<Rightarrow> string option"
  e_home :: "string option"

section \<open>Calls that leave the program\<close>

type_synonym 'a io = "trace \<Rightarrow> 'a \<times> trace"

definition call_macker :: "env \<Rightarrow> string \<Rightarrow> string list \<Rightarrow> (string \<times> err option) io" where
  "call_macker E bin args tr =
     (let r = e_macker E tr bin args in (r, EvMacker bin args (fst r) (snd r) # tr))"

definition call_cmd :: "env \<Rightarrow> string list \<Rightarrow> (string \<times> err option) io" where
  "call_cmd E argv tr = (let r = e_cmd E tr argv in (r, EvCmd argv (fst r) (snd r) # tr))"

definition call_api :: "env \<Rightarrow> api_client \<Rightarrow> api_method \<Rightarrow> string \<Rightarrow> json option \<Rightarrow> (err + kobj) io" where
  "call_api E c m path body tr =
     (let r = e_api E tr c m path body in (r, EvApi c m path body r # tr))"

definition call_fs :: "env \<Rightarrow> fs_request \<Rightarrow> fs_response io" where
  "call_fs E q tr = (let r = e_fs E tr q in (r, EvFs q r # tr))"

definition call_ifaces :: "env \<Rightarrow> (err + iface list) io" where
  "call_ifaces E tr = (let r = e_ifaces E tr in (r, EvIfaces r # tr))"

definition start_process :: "env \<Rightarrow> string list \<Rightarrow> (err + int) io" where
  "start_process E argv tr = (let r = e_start E tr argv in (r, EvStart argv r # tr))"

definition send_signal :: "int \<Rightarrow> int \<Rightarrow> trace \<Rightarrow> trace" where
  "send_signal pid sig tr = EvSignal pid sig # tr"

text \<open>
  A request of the bootstrap with its body, its headers and the raw answer; random bytes in
  hexadecimal; a fresh key with its certificate request.
\<close>

definition call_raw :: "env \<Rightarrow> api_client \<Rightarrow> api_method \<Rightarrow> string \<Rightarrow> string \<Rightarrow> strmap \<Rightarrow> (err + string) io" where
  "call_raw E c m path body headers tr =
     (let r = e_raw E tr c m path body headers in (r, EvRaw c m path body headers r # tr))"

definition random_hex :: "env \<Rightarrow> nat \<Rightarrow> (err + string) io" where
  "random_hex E n tr = (let r = e_random E tr n in (r, EvRandom n r # tr))"

definition key_request :: "env \<Rightarrow> string \<Rightarrow> (err + string \<times> string) io" where
  "key_request E name tr = (let r = e_key_request E tr name in (r, EvKeyRequest name r # tr))"

text \<open>A listener on an address.\<close>

definition call_listen :: "env \<Rightarrow> string \<Rightarrow> err option io" where
  "call_listen E address tr = (let r = e_listen E tr address in (r, EvListen address r # tr))"

definition go_sleep :: "int \<Rightarrow> trace \<Rightarrow> trace" where
  "go_sleep d tr = EvSleep d # tr"

definition time_now :: "env \<Rightarrow> gotime io" where
  "time_now E tr = (let t = e_now E tr in (t, EvNow t # tr))"

text \<open>The file-system calls by the shape of their Go result.\<close>

definition fs_err :: "fs_response \<Rightarrow> err option" where
  "fs_err r = (case r of FErr e \<Rightarrow> Some e | _ \<Rightarrow> None)"

definition fs_do :: "env \<Rightarrow> fs_request \<Rightarrow> err option io" where
  "fs_do E q tr = (case call_fs E q tr of (r, tr) \<Rightarrow> (fs_err r, tr))"

definition fs_read :: "env \<Rightarrow> string \<Rightarrow> (err + content) io" where
  "fs_read E path tr = (case call_fs E (ReadFile path) tr of
      (FErr e, tr) \<Rightarrow> (Inl e, tr)
    | (FData c, tr) \<Rightarrow> (Inr c, tr)
    | (_, tr) \<Rightarrow> (Inr (FBytes []), tr))"

definition no_info :: file_info where
  "no_info = \<lparr>fi_dir = False, fi_regular = False, fi_socket = False, fi_char_device = False,
     fi_device = False\<rparr>"

definition fs_stat :: "env \<Rightarrow> string \<Rightarrow> (err + file_info) io" where
  "fs_stat E path tr = (case call_fs E (Stat path) tr of
      (FErr e, tr) \<Rightarrow> (Inl e, tr)
    | (FInfo i, tr) \<Rightarrow> (Inr i, tr)
    | (_, tr) \<Rightarrow> (Inr no_info, tr))"

definition fs_names :: "env \<Rightarrow> fs_request \<Rightarrow> (err + string list) io" where
  "fs_names E q tr = (case call_fs E q tr of
      (FErr e, tr) \<Rightarrow> (Inl e, tr)
    | (FNames ns, tr) \<Rightarrow> (Inr ns, tr)
    | (_, tr) \<Rightarrow> (Inr [], tr))"

text \<open>\<^verbatim>\<open>privilegedCommand(useSudo, name, args...).CombinedOutput()\<close>\<close>

definition privileged_argv :: "bool \<Rightarrow> string list \<Rightarrow> string list" where
  "privileged_argv useSudo argv = (if useSudo then [''sudo'', ''-n''] @ argv else argv)"

definition privileged_command :: "env \<Rightarrow> bool \<Rightarrow> string list \<Rightarrow> (string \<times> err option) io" where
  "privileged_command E useSudo argv tr = call_cmd E (privileged_argv useSudo argv) tr"

text \<open>\<^verbatim>\<open>url.PathEscape\<close>: the bytes a path segment keeps, the others as \<^verbatim>\<open>%XX\<close>.\<close>

definition unreserved :: "char \<Rightarrow> bool" where
  "unreserved c \<longleftrightarrow> (let b = byte c in (48 \<le> b \<and> b \<le> 57) \<or> (65 \<le> b \<and> b \<le> 90) \<or> (97 \<le> b \<and> b \<le> 122)) \<or>
     c \<in> set ''-_.~$&+=:@''"

definition upper_hex :: "nat \<Rightarrow> char" where
  "upper_hex d = (if d < 10 then char_of (48 + d) else char_of (55 + d))"

definition path_escape :: "string \<Rightarrow> string" where
  "path_escape s = concat (map (\<lambda>c. if unreserved c then [c]
     else [CHR ''%'', upper_hex (byte c div 16), upper_hex (byte c mod 16)]) s)"

section \<open>Host interfaces\<close>

text \<open>\<^verbatim>\<open>interfaceForAddress\<close>: the first interface that holds the address, or the empty name.\<close>

definition iface_has :: "ipaddr \<Rightarrow> iface \<Rightarrow> bool" where
  "iface_has ip i \<longleftrightarrow> (case if_addrs i of Some as \<Rightarrow> ip \<in> set as | None \<Rightarrow> False)"

definition interfaceForAddress :: "env \<Rightarrow> string \<Rightarrow> (err + string) io" where
  "interfaceForAddress E addressCIDR tr =
    (case parse_cidr addressCIDR of
       None \<Rightarrow> 
         (Inl (wrap (''parse interface address '' @ quote addressCIDR @ '': '') (cidr_error addressCIDR)), tr)
     | Some (ip, _) \<Rightarrow>
         (case call_ifaces E tr of
            (Inl e, tr) \<Rightarrow> (Inl e, tr)
          | (Inr is, tr) \<Rightarrow>
              (case List.find (iface_has ip) is of
                 Some i \<Rightarrow> (Inr (if_name i), tr)
               | None \<Rightarrow> (Inr [], tr))))"

section \<open>Properties of traces\<close>

text \<open>
  \<open>trace_all P tr\<close>: at every event of the trace, \<open>P\<close> holds of the event and of what had
  happened before it.
\<close>

fun trace_all :: "(event \<Rightarrow> trace \<Rightarrow> bool) \<Rightarrow> trace \<Rightarrow> bool" where
  "trace_all P [] = True"
| "trace_all P (e # tr) = (P e tr \<and> trace_all P tr)"

lemma trace_all_append:
  "trace_all P (es @ tr) \<longleftrightarrow> trace_all (\<lambda>e p. P e (p @ tr)) es \<and> trace_all P tr"
  by (induction es) auto

lemma trace_allD: "trace_all P tr \<Longrightarrow> tr = post @ e # pre \<Longrightarrow> P e pre"
  by (induction post arbitrary: tr) auto

text \<open>The clock moves on at least by what the program has slept since it last looked.\<close>

fun slept :: "trace \<Rightarrow> int" where
  "slept [] = 0"
| "slept (EvSleep d # tr) = d + slept tr"
| "slept (_ # tr) = slept tr"

lemma slept_append [simp]: "slept (es @ tr) = slept es + slept tr"
  by (induction es rule: slept.induct) auto

definition clock_advances :: "env \<Rightarrow> bool" where
  "clock_advances E \<longleftrightarrow> (\<forall>post t pre. t + slept post \<le> e_now E (post @ EvNow t # pre))"

lemmas call_defs = call_macker_def call_cmd_def call_api_def call_fs_def call_ifaces_def
  time_now_def privileged_command_def

lemma fs_do_eq: "fs_do E q tr = (fs_err (e_fs E tr q), EvFs q (e_fs E tr q) # tr)"
  by (simp add: fs_do_def call_fs_def Let_def)

text \<open>
  A world for the examples: every command succeeds and prints nothing, the API answers 404,
  no file exists, there is no interface and the clock moves only while the program sleeps.
\<close>

fun clock_of :: "trace \<Rightarrow> gotime" where
  "clock_of [] = 0"
| "clock_of (EvSleep d # tr) = clock_of tr + d"
| "clock_of (EvNow t # tr) = max t (clock_of tr)"
| "clock_of (_ # tr) = clock_of tr"

lemma clock_of_advances: "t + slept post \<le> clock_of (post @ EvNow t # pre)"
  by (induction post rule: slept.induct) (auto simp: max_def)

definition quiet_env :: env where
  "quiet_env = \<lparr>e_macker = \<lambda>_ _ _. ([], None), e_cmd = \<lambda>_ _. ([], None),
     e_api = \<lambda>_ _ _ _ _. Inl (EHttp 404 ''not found''),
     e_fs = \<lambda>_ q. (case q of ReadFile _ \<Rightarrow> FErr (ESentinel NotExist ''missing'')
        | Stat _ \<Rightarrow> FErr (ESentinel NotExist ''missing'')
        | ReadDir _ \<Rightarrow> FErr (ESentinel NotExist ''missing'')
        | EvalSymlinks _ \<Rightarrow> FErr (ESentinel NotExist ''missing'') | _ \<Rightarrow> FDone),
     e_start = \<lambda>_ _. Inr 4711, e_exited = \<lambda>_ _. False,
     e_ifaces = \<lambda>_. Inr [], e_now = clock_of, e_look_path = \<lambda>_. None, e_order = \<lambda>xs. xs,
     e_time_string = \<lambda>t. itoa t, e_parse_time = atoi, e_sha256_hex = \<lambda>s. s, e_parse_json = \<lambda>_. None,
     e_euid = 501, e_getenv = \<lambda>_. [], e_goarch = ''arm64'',
     e_raw = \<lambda>_ _ _ _ _ _. Inl (EHttp 404 ''not found''), e_random = \<lambda>tr n. Inr (itoa (int (length tr))),
     e_key_request = \<lambda>_ _. Inr (''request'', ''key''), e_stdin = Inr [], e_hostname = None, e_underlay = \<lambda>_. None,
     e_certificate = \<lambda>_. None, e_pem = \<lambda>_. None, e_ca_pool = \<lambda>_. True, e_key_pair = \<lambda>_ _. None,
     e_parse_url = \<lambda>s. Inr (''https'', s), e_url_string = \<lambda>s. s, e_listen = \<lambda>_ _. None, e_yaml = \<lambda>_. Inr JNull, e_user_home = \<lambda>_. None, e_home = None\<rparr>"

lemma quiet_clock: "clock_advances (quiet_env\<lparr>e_macker := f, e_fs := g\<rparr>)" "clock_advances quiet_env"
  using clock_of_advances by (simp_all add: clock_advances_def quiet_env_def)

end
