(* ===== verification/Types.thy ===== *)
theory Types
  imports World
begin

text \<open>
  The records of \<^verbatim>\<open>pkg/maclet/types.go\<close>: the persisted state, the configuration of a join,
  and the handles of the VXLAN child and of the Darwin network.
\<close>

record local_state =
  st_version :: int
  st_server :: string
  st_node_name :: string
  st_node_ip :: string
  st_instance_id :: string
  st_node_uid :: string
  st_external_ip :: string
  st_peer_kubeconfig :: string
  st_peer_context :: string
  st_ca_file :: string
  st_client_cert :: string
  st_client_key :: string
  st_client_ca :: string
  st_controller_cert :: string
  st_controller_key :: string
  st_cluster_cidr :: string
  st_service_cidr :: string
  st_cluster_dns :: "string list"
  st_serving_cert :: string
  st_serving_key :: string
  st_password_file :: string

record join_config =
  jc_server :: string
  jc_token :: string
  jc_token_file :: string
  jc_node_name :: string
  jc_node_ip :: string
  jc_adopt :: bool
  jc_external_ip :: string
  jc_state_dir :: string
  jc_insecure :: bool
  jc_once :: bool
  jc_vxlan_binary :: string
  jc_macker_binary :: string
  jc_debug :: bool
  jc_dns_resolver :: bool
  jc_dns_search_domains :: bool
  jc_search_domain_list :: "string list"
  jc_search_domain_service :: string
  jc_vxlan_remote :: string
  jc_vxlan_local :: string
  jc_vxlan_gateway_mac :: string
  jc_peer_kubeconfig :: string
  jc_peer_context :: string
  jc_drain_timeout :: int
  jc_log_ttl :: int
  jc_vxlan_port :: int
  jc_vxlan_mtu :: int
  jc_cluster_cidr :: string
  jc_service_cidr :: string
  jc_cluster_cidr_set :: bool
  jc_service_cidr_set :: bool
  jc_use_sudo :: bool

record vxlan_handle =
  vx_bridge_cidr :: string
  vx_bridge_name :: string
  vx_bridge_mac :: string

record darwin_route =
  rt_network :: string
  rt_netmask :: string
  rt_gateway :: string

record flannel_peer =
  fp_node_name :: string
  fp_pod_cidr :: string
  fp_public_ip :: string
  fp_vtep_mac :: string

record peer_gateway =
  pg_pod_cidr :: string
  pg_gateway :: string
  pg_mac :: string
  pg_public_ip :: string

record arp_entry =
  ar_ip :: string
  ar_mac :: string

record net_handle =
  nh_interface :: string
  nh_pod_cidr :: string
  nh_gateway :: string
  nh_gateway_mac :: string
  nh_peers :: "peer_gateway list"
  nh_arps :: "arp_entry list"
  nh_routes :: "darwin_route list"
  nh_aliases :: "string list"
  nh_sudo :: bool

end
