(* ===== verification/PodNet.thy ===== *)
theory PodNet
  imports Types
begin

text \<open>
  The Pod network of one Darwin node (\<^verbatim>\<open>darwin_network.go\<close> and the address checks of
  \<^verbatim>\<open>workload_network.go\<close>): the arithmetic that gives the bridge, the peer gateways and the
  workloads their addresses, the handle that owns the aliases, routes and ARP entries of the
  bridge, and the operations on it.  Offsets are the 32-bit words of the code.
\<close>

section \<open>Addresses of a Pod CIDR\<close>

definition v4_of :: "ipaddr \<Rightarrow> ip4" where
  "v4_of a = (case to4 a of Some w \<Rightarrow> w | None \<Rightarrow> 0)"

definition parse_pod_cidr :: "string \<Rightarrow> err + ipnet" where
  "parse_pod_cidr cidr = (case cidr_net cidr of
       None \<Rightarrow> Inl (wrap (''parse PodCIDR '' @ quote cidr @ '': '') (cidr_error cidr))
     | Some n \<Rightarrow> Inr n)"

definition only_ipv4 :: err where
  "only_ipv4 = EMsg ''only IPv4 PodCIDRs are currently supported''"

text \<open>\<^verbatim>\<open>uint32(1<<hostBits) - 1\<close>, which wraps for 32 host bits as it does in Go.\<close>

definition broadcast_offset :: "nat \<Rightarrow> ip4" where
  "broadcast_offset hostBits = push_bit hostBits 1 - 1"

definition gatewayAddressForCIDR :: "string \<Rightarrow> err + string" where
  "gatewayAddressForCIDR cidr = (case parse_pod_cidr cidr of
       Inl e \<Rightarrow> Inl e
     | Inr n \<Rightarrow> (case to4 (net_ip n) of
         None \<Rightarrow> Inl only_ipv4
       | Some w \<Rightarrow>
           if net_bits n \<noteq> 32 \<or> net_prefix n > 30
           then Inl (EMsg (''PodCIDR '' @ quote cidr @ '' does not have a second usable IPv4 address''))
           else Inr (ip4_string (w + 2))))"

definition mask_head :: "ipnet \<Rightarrow> ip4" where
  "mask_head n = (if net_bits n = 32 then mask32 (net_prefix n)
     else ucast (drop_bit 96 (mask128 (net_prefix n))))"

definition routeSpec :: "string \<Rightarrow> err + darwin_route" where
  "routeSpec cidr = (case cidr_net cidr of
       None \<Rightarrow> Inl (wrap (''parse network CIDR '' @ quote cidr @ '': '') (cidr_error cidr))
     | Some n \<Rightarrow> (case to4 (net_ip n) of
         None \<Rightarrow> Inl (EMsg (''network CIDR '' @ quote cidr @ '' is not IPv4''))
       | Some w \<Rightarrow> Inr \<lparr>rt_network = ip4_string w, rt_netmask = ip4_string (mask_head n),
           rt_gateway = []\<rparr>))"

definition unsupported_range :: "string \<Rightarrow> err" where
  "unsupported_range cidr =
     EMsg (''PodCIDR '' @ quote cidr @ '' is outside the supported workload address range'')"

definition workloadIPForOffset :: "string \<Rightarrow> ip4 \<Rightarrow> err + string" where
  "workloadIPForOffset cidr offset = (case parse_pod_cidr cidr of
       Inl e \<Rightarrow> Inl e
     | Inr n \<Rightarrow> (case to4 (net_ip n) of
         None \<Rightarrow> Inl only_ipv4
       | Some w \<Rightarrow>
           if net_bits n \<noteq> 32 then Inl only_ipv4
           else (let hostBits = net_bits n - net_prefix n in
             if hostBits < 2 \<or> hostBits > 16 then Inl (unsupported_range cidr)
             else if offset < 3 \<or> offset \<ge> broadcast_offset hostBits
             then Inl (EMsg (''workload address offset '' @ show_nat (unat offset) @
               '' is unavailable in PodCIDR '' @ quote cidr))
             else Inr (ip4_string (w + offset)))))"

definition no_available :: "string \<Rightarrow> err" where
  "no_available cidr = EMsg (''PodCIDR '' @ quote cidr @ '' has no available workload addresses'')"

text \<open>
  The search loop of both allocators: \<open>skip ip\<close> says that an address is taken.  The offset
  runs up to the broadcast offset, so the distance to it is the measure.
\<close>

function alloc_loop :: "string \<Rightarrow> (string \<Rightarrow> bool) \<Rightarrow> ip4 \<Rightarrow> ip4 \<Rightarrow> err + string" where
  "alloc_loop cidr skip bound offset =
    (if offset < bound then
       (case workloadIPForOffset cidr offset of
          Inl e \<Rightarrow> Inl e
        | Inr ip \<Rightarrow> if \<not> skip ip then Inr ip else alloc_loop cidr skip bound (offset + 1))
     else Inl (no_available cidr))"
  by auto
termination
proof (relation "measure (\<lambda>(cidr, skip, bound, offset). unat bound - unat offset)")
  fix cidr :: string and skip :: "string \<Rightarrow> bool" and bound offset :: ip4
  assume lt: "offset < bound"
  then have "unat (offset + 1) = unat offset + 1" by (rule unat_succ_less)
  moreover have "unat offset < unat bound" using lt by (simp add: word_less_nat_alt)
  ultimately show "((cidr, skip, bound, offset + 1), (cidr, skip, bound, offset))
      \<in> measure (\<lambda>(cidr, skip, bound, offset). unat bound - unat offset)" by simp
qed simp

declare alloc_loop.simps [simp del]

definition firstAvailableWorkloadIP :: "string \<Rightarrow> string list \<Rightarrow> err + string" where
  "firstAvailableWorkloadIP cidr used = (case parse_pod_cidr cidr of
       Inl e \<Rightarrow> Inl e
     | Inr n \<Rightarrow>
         if net_bits n \<noteq> 32 then Inl only_ipv4
         else (let hostBits = net_bits n - net_prefix n in
           if hostBits < 2 \<or> hostBits > 16 then Inl (unsupported_range cidr)
           else alloc_loop cidr (\<lambda>ip. ip \<in> set used) (broadcast_offset hostBits) 3))"

definition peerGatewayAddressForCIDR :: "string \<Rightarrow> nat \<Rightarrow> err + string" where
  "peerGatewayAddressForCIDR cidr index = (case parse_pod_cidr cidr of
       Inl e \<Rightarrow> Inl e
     | Inr n \<Rightarrow> (case to4 (net_ip n) of
         None \<Rightarrow> Inl only_ipv4
       | Some w \<Rightarrow>
           if net_bits n \<noteq> 32 \<or> net_prefix n > 30
           then Inl (EMsg (''PodCIDR '' @ quote cidr @ '' does not have enough gateway addresses''))
           else (let bo = broadcast_offset (net_bits n - net_prefix n) in
             if index = 0 then Inr (ip4_string (w + 2))
             else if word_of_nat index \<ge> bo - 2
             then Inl (EMsg (''PodCIDR '' @ quote cidr @ '' has no address for peer gateway '' @ show_nat index))
             else Inr (ip4_string (w + (bo - word_of_nat index))))))"

definition bridgeAddressForCIDR :: "string \<Rightarrow> err + string" where
  "bridgeAddressForCIDR cidr = (case parse_pod_cidr cidr of
       Inl e \<Rightarrow> Inl e
     | Inr n \<Rightarrow> (case to4 (net_ip n) of
         None \<Rightarrow> Inl (EMsg ''only IPv4 PodCIDRs are currently supported by the Darwin VXLAN bridge'')
       | Some w \<Rightarrow>
           if w = NOT 0 then Inl (EMsg ''PodCIDR has no usable first host address'')
           else Inr (ip4_string (w + 1) @ ''/'' @ show_nat (net_prefix n))))"

section \<open>Address checks\<close>

definition validateNativePodNetwork :: "pod \<Rightarrow> err option" where
  "validateNativePodNetwork pod =
    (let who = ''Pod '' @ om_namespace (p_meta pod) @ ''/'' @ om_name (p_meta pod);
         policy = ps_dns_policy (p_spec pod) in
     if ps_host_network (p_spec pod) then
       (if policy \<noteq> ''ClusterFirstWithHostNet''
        then Some (EMsg (who @ '' uses hostNetwork but DNS policy '' @ quote policy @
          ''; maclet requires ClusterFirstWithHostNet''))
        else None)
     else if policy = ''ClusterFirstWithHostNet''
     then Some (EMsg (who @ '' requests ClusterFirstWithHostNet without hostNetwork''))
     else None)"

text \<open>The loop over the octets of an address.\<close>

definition octets_value :: "ip4 \<Rightarrow> ip4" where
  "octets_value w = foldl (\<lambda>v b. push_bit 8 v OR word_of_nat b) 0
     [octet 0 w, octet 1 w, octet 2 w, octet 3 w]"

definition validateWorkloadAddress :: "string \<Rightarrow> string \<Rightarrow> err option" where
  "validateWorkloadAddress cidr ip = (case parse_to4 ip of
       None \<Rightarrow> Some (EMsg ''address is not IPv4'')
     | Some a \<Rightarrow> (case cidr_net cidr of
         None \<Rightarrow> Some (cidr_error cidr)
       | Some n \<Rightarrow>
           if \<not> net_contains n (ip_of_v4 a)
           then Some (EMsg (''address is outside PodCIDR '' @ cidr))
           else if net_bits n \<noteq> 32 \<or> net_prefix n > 30
           then Some (EMsg ''PodCIDR has no usable workload addresses'')
           else (let offset = octets_value a - octets_value (v4_of (net_ip n)) in
             if offset < 3 \<or> offset \<ge> broadcast_offset (net_bits n - net_prefix n)
             then Some (EMsg ''address is reserved or is the PodCIDR broadcast address'')
             else None)))"

definition bridge_ip :: "string \<Rightarrow> ipaddr option" where
  "bridge_ip cidr = (case bridgeAddressForCIDR cidr of
       Inl _ \<Rightarrow> parse_ip []
     | Inr b \<Rightarrow> parse_ip (hd (split_on CHR ''/'' b)))"

definition isReservedWorkloadIP :: "net_handle \<Rightarrow> ipaddr \<Rightarrow> ipaddr \<Rightarrow> bool" where
  "isReservedWorkloadIP h ip networkIP \<longleftrightarrow>
     ip = networkIP \<or>
     Some ip = bridge_ip (nh_pod_cidr h) \<or> Some ip = parse_ip (nh_gateway h) \<or>
     list_ex (\<lambda>peer. Some ip = parse_ip (pg_gateway peer)) (nh_peers h)"

definition handle_validateWorkloadAddress :: "net_handle \<Rightarrow> string \<Rightarrow> err option" where
  "handle_validateWorkloadAddress h ip = (case validateWorkloadAddress (nh_pod_cidr h) ip of
       Some e \<Rightarrow> Some e
     | None \<Rightarrow> (case (parse_to4 ip, cidr_net (nh_pod_cidr h)) of
         (Some a, Some n) \<Rightarrow>
           if isReservedWorkloadIP h (ip_of_v4 a) (net_ip n)
           then Some (EMsg ''address is reserved by maclet'') else None
       | _ \<Rightarrow> None))"

definition reserved_string :: "net_handle \<Rightarrow> ipaddr \<Rightarrow> string \<Rightarrow> bool" where
  "reserved_string h networkIP ip =
    (case parse_ip ip of Some a \<Rightarrow> isReservedWorkloadIP h a networkIP | None \<Rightarrow> False)"

definition handle_firstAvailableWorkloadIP :: "net_handle \<Rightarrow> string list \<Rightarrow> err + string" where
  "handle_firstAvailableWorkloadIP h used = (case parse_pod_cidr (nh_pod_cidr h) of
       Inl e \<Rightarrow> Inl e
     | Inr n \<Rightarrow>
         if net_bits n \<noteq> 32 then Inl only_ipv4
         else alloc_loop (nh_pod_cidr h) (\<lambda>ip. ip \<in> set used \<or> reserved_string h (net_ip n) ip)
           (broadcast_offset (net_bits n - net_prefix n)) 3)"


section \<open>Facts about offsets\<close>

lemma octets_value_id [simp]: "octets_value w = w"
proof -
  have *: "push_bit 8 v OR word_of_nat (octet i w) = v * 256 + word_of_nat (octet i w)" for v :: ip4 and i
  proof -
    have "word_of_nat (octet i w) = take_bit 8 (drop_bit (8 * (3 - i)) w)"
      by (simp add: octet_def)
    moreover have "push_bit 8 v AND take_bit 8 u = 0" for u :: ip4
      by (rule bit_word_eqI) (auto simp: bit_simps)
    ultimately show ?thesis
      by (simp add: push_bit_eq_mult flip: disjunctive_add_eq_or)
  qed
  have "octets_value w = ip4_of_octets (octet 0 w) (octet 1 w) (octet 2 w) (octet 3 w)"
    unfolding octets_value_def ip4_of_octets_def using * [of 0 0] by (simp add: *)
  then show ?thesis by (simp only: ip4_of_octets_octet)
qed

lemma unat_broadcast_offset: "h \<le> 32 \<Longrightarrow> unat (broadcast_offset h) = 2 ^ h - 1"
proof -
  assume h: "h \<le> 32"
  have "broadcast_offset h = mask h"
    by (simp add: broadcast_offset_def mask_eq_exp_minus_1 push_bit_eq_mult)
  moreover have "unat (mask h :: ip4) = mask h"
    by (rule bit_eqI) (use h in \<open>auto simp: bit_simps\<close>)
  ultimately show ?thesis by (simp add: mask_eq_exp_minus_1)
qed

lemma v4_of_ip_of_v4 [simp]: "v4_of (ip_of_v4 w) = w"
  by (simp add: v4_of_def)

lemma parse_pod_cidr_Inr [simp]: "parse_pod_cidr cidr = Inr n \<longleftrightarrow> cidr_net cidr = Some n"
  by (auto simp: parse_pod_cidr_def split: option.splits)

text \<open>
  \<open>v4_net cidr w p\<close>: the CIDR is a dotted one with prefix \<open>p\<close> and network address \<open>w\<close>.
\<close>

definition v4_net :: "string \<Rightarrow> ip4 \<Rightarrow> nat \<Rightarrow> bool" where
  "v4_net cidr w p \<longleftrightarrow> p \<le> 32 \<and> w = w AND mask32 p \<and>
     cidr_net cidr = Some \<lparr>net_ip = ip_of_v4 w, net_prefix = p, net_bits = 32\<rparr>"

lemma v4_netI: "cidr_net cidr = Some n \<Longrightarrow> net_bits n = 32 \<Longrightarrow> \<exists>w. v4_net cidr w (net_prefix n)"
proof -
  assume n: "cidr_net cidr = Some n" "net_bits n = 32"
  then obtain w where "net_ip n = ip_of_v4 (w AND mask32 (net_prefix n))" "net_prefix n \<le> 32"
    by (rule cidr_net_v4)
  with n have "v4_net cidr (w AND mask32 (net_prefix n)) (net_prefix n)"
    by (cases n) (simp add: v4_net_def)
  then show ?thesis ..
qed

lemma v4_net_cidr: "v4_net cidr w p \<Longrightarrow>
    cidr_net cidr = Some \<lparr>net_ip = ip_of_v4 w, net_prefix = p, net_bits = 32\<rparr>"
  by (simp add: v4_net_def)

lemma v4_net_pod [simp]: "v4_net cidr w p \<Longrightarrow>
    parse_pod_cidr cidr = Inr \<lparr>net_ip = ip_of_v4 w, net_prefix = p, net_bits = 32\<rparr>"
  by (simp add: v4_net_cidr)

lemma v4_net_unique: "v4_net cidr w p \<Longrightarrow> v4_net cidr w' p' \<Longrightarrow> w' = w \<and> p' = p"
  by (auto simp: v4_net_def)

text \<open>An offset below the broadcast address names one address of the network.\<close>

lemma v4_net_offset:
  assumes "v4_net cidr w p" "off < broadcast_offset (32 - p)"
  shows "unat (w + off) = unat w + unat off" "(w + off) AND mask32 p = w"
proof -
  have p: "p \<le> 32" and w: "w = w AND mask32 p" using assms(1) by (auto simp: v4_net_def)
  have "unat off < 2 ^ (32 - p)"
    using assms(2) by (simp add: word_less_nat_alt unat_broadcast_offset)
  from unat_net_plus [OF p this, of w] mask_net_plus [OF p this, of w] w
  show "unat (w + off) = unat w + unat off" "(w + off) AND mask32 p = w" by simp_all
qed

section \<open>What the checks accept\<close>

lemma workloadIPForOffset_iff:
  "workloadIPForOffset cidr off = Inr ip \<longleftrightarrow>
    (\<exists>w p. v4_net cidr w p \<and> 16 \<le> p \<and> p \<le> 30 \<and> 3 \<le> off \<and> off < broadcast_offset (32 - p) \<and>
       ip = ip4_string (w + off))" (is "?l \<longleftrightarrow> ?r")
proof
  assume l: ?l
  then obtain n where n: "cidr_net cidr = Some n" "net_bits n = 32"
    by (auto simp: workloadIPForOffset_def parse_pod_cidr_def split: option.splits if_splits)
  then obtain w where "v4_net cidr w (net_prefix n)" using v4_netI by blast
  with l show ?r
    by (fastforce simp: workloadIPForOffset_def Let_def split: if_splits)
next
  assume ?r
  then show ?l by (auto simp: workloadIPForOffset_def Let_def)
qed

lemma validateWorkloadAddress_iff:
  assumes "v4_net cidr w p"
  shows "validateWorkloadAddress cidr (ip4_string a) = None \<longleftrightarrow>
    p \<le> 30 \<and> (\<exists>off. 3 \<le> off \<and> off < broadcast_offset (32 - p) \<and> a = w + off)" (is "?l \<longleftrightarrow> ?r")
proof
  assume ?l
  then show ?r using v4_net_cidr [OF assms]
    by (auto simp: validateWorkloadAddress_def Let_def split: if_splits intro!: exI [of _ "a - w"])
next
  assume ?r
  with v4_net_offset [OF assms] v4_net_cidr [OF assms] show ?l
    by (auto simp: validateWorkloadAddress_def Let_def net_contains_v4) (metis and.assoc assms mask32_idem v4_net_def)
qed

section \<open>The allocation loop\<close>

lemma alloc_loop_Inr:
  "alloc_loop cidr skip bound off = Inr ip \<Longrightarrow>
    \<exists>o'. off \<le> o' \<and> o' < bound \<and> workloadIPForOffset cidr o' = Inr ip \<and> \<not> skip ip \<and>
      (\<forall>o''. off \<le> o'' \<and> o'' < o' \<longrightarrow> (\<exists>ip'. workloadIPForOffset cidr o'' = Inr ip' \<and> skip ip'))"
proof (induction cidr skip bound off rule: alloc_loop.induct)
  case (1 cidr skip bound off)
  from "1.prems" obtain ip0 where lt: "off < bound" and w: "workloadIPForOffset cidr off = Inr ip0"
    by (subst (asm) alloc_loop.simps) (auto split: if_splits sum.splits)
  show ?case
  proof (cases "skip ip0")
    case False
    with "1.prems" lt w have "ip = ip0" by (subst (asm) alloc_loop.simps) simp
    with False lt w show ?thesis by (intro exI [of _ off]) auto
  next
    case True
    with "1.prems" lt w have "alloc_loop cidr skip bound (off + 1) = Inr ip"
      by (subst (asm) alloc_loop.simps) simp
    from "1.IH" [OF lt w _ this] True obtain o' where o': "off + 1 \<le> o'" "o' < bound"
      "workloadIPForOffset cidr o' = Inr ip" "\<not> skip ip"
      "\<forall>o''. off + 1 \<le> o'' \<and> o'' < o' \<longrightarrow> (\<exists>ip'. workloadIPForOffset cidr o'' = Inr ip' \<and> skip ip')"
      by auto
    have succ: "unat (off + 1) = unat off + 1" using lt by (rule unat_succ_less)
    have "off + 1 \<le> o'' \<or> o'' = off" if "off \<le> o''" for o''
      using that succ by (auto simp: word_le_nat_alt word_unat_eq_iff)
    moreover have "off \<le> o'" using o'(1) succ by (simp add: word_le_nat_alt)
    ultimately show ?thesis using o' w True by blast
  qed
qed

lemma alloc_loop_Inl:
  "alloc_loop cidr skip bound off = Inl e \<Longrightarrow>
    (\<And>o'. off \<le> o' \<Longrightarrow> o' < bound \<Longrightarrow> \<exists>ip. workloadIPForOffset cidr o' = Inr ip) \<Longrightarrow>
    e = no_available cidr \<and>
    (\<forall>o' ip. off \<le> o' \<and> o' < bound \<and> workloadIPForOffset cidr o' = Inr ip \<longrightarrow> skip ip)"
proof (induction cidr skip bound off rule: alloc_loop.induct)
  case (1 cidr skip bound off)
  show ?case
  proof (cases "off < bound")
    case False
    with "1.prems"(1) show ?thesis by (subst (asm) alloc_loop.simps) auto
  next
    case lt: True
    then obtain ip0 where w: "workloadIPForOffset cidr off = Inr ip0"
      using "1.prems"(2) [of off] by auto
    with "1.prems"(1) lt have "skip ip0 \<and> alloc_loop cidr skip bound (off + 1) = Inl e"
      by (subst (asm) alloc_loop.simps) (simp split: if_splits)
    then have sk: "skip ip0" and rec: "alloc_loop cidr skip bound (off + 1) = Inl e" by auto
    have succ: "unat (off + 1) = unat off + 1" using lt by (rule unat_succ_less)
    have up: "off + 1 \<le> o'' \<Longrightarrow> off \<le> o''" for o''
      using succ by (auto simp: word_le_nat_alt)
    have cas: "off + 1 \<le> o'' \<or> o'' = off" if "off \<le> o''" for o''
      using that succ by (auto simp: word_le_nat_alt word_unat_eq_iff)
    have "e = no_available cidr \<and>
      (\<forall>o' ip. off + 1 \<le> o' \<and> o' < bound \<and> workloadIPForOffset cidr o' = Inr ip \<longrightarrow> skip ip)"
      using "1.IH" [OF lt w _ rec] sk "1.prems"(2) up by blast
    with cas w sk show ?thesis by fastforce
  qed
qed


section \<open>Address pools\<close>

text \<open>
  What a reconcile pass needs of an allocator: an address it returns is valid and not in use,
  and it fails only when every valid address is in use.  \<open>allocate_all\<close> serves \<open>k\<close> Pods in
  turn, recording each address as used, as the loop over the Pods does.
\<close>

fun allocate_all :: "(string list \<Rightarrow> err + string) \<Rightarrow> nat \<Rightarrow> string list \<Rightarrow> err + string list" where
  "allocate_all alloc 0 used = Inr []"
| "allocate_all alloc (Suc k) used = (case alloc used of
       Inl e \<Rightarrow> Inl e
     | Inr ip \<Rightarrow> (case allocate_all alloc k (ip # used) of
         Inl e \<Rightarrow> Inl e
       | Inr ips \<Rightarrow> Inr (ip # ips)))"

locale address_pool =
  fixes alloc :: "string list \<Rightarrow> err + string"
    and valid :: "string \<Rightarrow> bool"
  assumes fresh: "alloc used = Inr ip \<Longrightarrow> ip \<notin> set used"
    and sound: "alloc used = Inr ip \<Longrightarrow> valid ip"
    and complete: "alloc used = Inl e \<Longrightarrow> valid ip \<Longrightarrow> ip \<in> set used"
begin

lemma serves_distinct:
  "allocate_all alloc k used = Inr ips \<Longrightarrow>
    length ips = k \<and> distinct ips \<and> set ips \<inter> set used = {} \<and> (\<forall>ip \<in> set ips. valid ip)"
proof (induction k arbitrary: used ips)
  case (Suc k)
  then obtain ip ips' where "alloc used = Inr ip" "allocate_all alloc k (ip # used) = Inr ips'"
    "ips = ip # ips'"
    by (auto split: sum.splits)
  with Suc.IH [OF this(2)] show ?case using fresh sound by auto
qed simp

lemma serves_enough:
  "distinct as \<Longrightarrow> \<forall>a \<in> set as. valid a \<and> a \<notin> set used \<Longrightarrow> k \<le> length as \<Longrightarrow>
    \<exists>ips. allocate_all alloc k used = Inr ips"
proof (induction k arbitrary: used as)
  case (Suc k)
  then obtain a as' where as: "as = a # as'" by (cases as) auto
  with Suc.prems complete have "\<forall>e. alloc used \<noteq> Inl e" by fastforce
  then obtain ip where ip: "alloc used = Inr ip" by (cases "alloc used") auto
  let ?bs = "remove1 ip as"
  have "distinct ?bs" "\<forall>b \<in> set ?bs. valid b \<and> b \<notin> set (ip # used)" "k \<le> length ?bs"
    using Suc.prems by (auto simp: set_remove1_eq length_remove1)
  from Suc.IH [OF this] ip show ?case by auto
qed simp

end

definition canonical :: "string \<Rightarrow> bool" where
  "canonical ip \<longleftrightarrow> (case parse_to4 ip of Some a \<Rightarrow> ip4_string a = ip | None \<Rightarrow> False)"

lemma canonical_iff: "canonical ip \<longleftrightarrow> (\<exists>a. ip = ip4_string a)"
  by (auto simp: canonical_def split: option.splits)

definition supported_cidr :: "string \<Rightarrow> bool" where
  "supported_cidr cidr \<longleftrightarrow> (case cidr_net cidr of
     Some n \<Rightarrow> net_bits n = 32 \<and> 16 \<le> net_prefix n \<and> net_prefix n \<le> 30 | None \<Rightarrow> False)"

lemma supported_v4_net: "supported_cidr cidr \<longleftrightarrow> (\<exists>w p. v4_net cidr w p \<and> 16 \<le> p \<and> p \<le> 30)"
proof
  assume "supported_cidr cidr"
  then obtain n where "cidr_net cidr = Some n" "net_bits n = 32" "16 \<le> net_prefix n" "net_prefix n \<le> 30"
    by (auto simp: supported_cidr_def split: option.splits)
  with v4_netI show "\<exists>w p. v4_net cidr w p \<and> 16 \<le> p \<and> p \<le> 30" by blast
next
  assume "\<exists>w p. v4_net cidr w p \<and> 16 \<le> p \<and> p \<le> 30"
  then show "supported_cidr cidr" by (auto simp: supported_cidr_def v4_net_cidr)
qed

text \<open>The addresses that a CIDR, and a handle on it, offer to workloads.\<close>

definition cidr_address :: "string \<Rightarrow> string \<Rightarrow> bool" where
  "cidr_address cidr ip \<longleftrightarrow> canonical ip \<and> supported_cidr cidr \<and> validateWorkloadAddress cidr ip = None"

definition handle_address :: "net_handle \<Rightarrow> string \<Rightarrow> bool" where
  "handle_address h ip \<longleftrightarrow>
     canonical ip \<and> supported_cidr (nh_pod_cidr h) \<and> handle_validateWorkloadAddress h ip = None"

lemma cidr_address_iff:
  "cidr_address cidr ip \<longleftrightarrow> (\<exists>off. workloadIPForOffset cidr off = Inr ip)"
proof
  assume "cidr_address cidr ip"
  then obtain a w p where "ip = ip4_string a" "v4_net cidr w p" "16 \<le> p" "p \<le> 30"
    "validateWorkloadAddress cidr ip = None"
    by (auto simp: cidr_address_def canonical_iff supported_v4_net)
  then show "\<exists>off. workloadIPForOffset cidr off = Inr ip"
    using validateWorkloadAddress_iff [of cidr w p a] by (auto simp: workloadIPForOffset_iff)
next
  assume "\<exists>off. workloadIPForOffset cidr off = Inr ip"
  then obtain w p off where p: "v4_net cidr w p" "16 \<le> p" "p \<le> 30" "3 \<le> off"
    "off < broadcast_offset (32 - p)" "ip = ip4_string (w + off)"
    by (auto simp: workloadIPForOffset_iff)
  then have "validateWorkloadAddress cidr ip = None"
    by (auto simp: validateWorkloadAddress_iff)
  with p show "cidr_address cidr ip"
    by (auto simp: cidr_address_def canonical_iff supported_v4_net)
qed

lemma handle_address_iff:
  "handle_address h ip \<longleftrightarrow> cidr_address (nh_pod_cidr h) ip \<and>
    (\<forall>n. cidr_net (nh_pod_cidr h) = Some n \<longrightarrow> \<not> reserved_string h (net_ip n) ip)"
  by (auto simp: handle_address_def cidr_address_def canonical_iff supported_cidr_def
      handle_validateWorkloadAddress_def reserved_string_def split: option.splits if_splits)

text \<open>Every offset that the loop of either allocator visits has an address.\<close>

lemma offsets_total:
  "v4_net cidr w p \<Longrightarrow> 16 \<le> p \<Longrightarrow> p \<le> 30 \<Longrightarrow> 3 \<le> off \<Longrightarrow> off < broadcast_offset (32 - p) \<Longrightarrow>
    \<exists>ip. workloadIPForOffset cidr off = Inr ip"
  unfolding workloadIPForOffset_iff by blast

lemma alloc_loop_complete:
  assumes "alloc_loop cidr skip (broadcast_offset (32 - p)) 3 = Inl e" "v4_net cidr w p"
    "cidr_address cidr ip"
  shows "skip ip"
proof -
  from assms(3) obtain off where off: "workloadIPForOffset cidr off = Inr ip"
    by (auto simp: cidr_address_iff)
  then have "16 \<le> p \<and> p \<le> 30 \<and> 3 \<le> off \<and> off < broadcast_offset (32 - p)"
    using assms(2) v4_net_unique unfolding workloadIPForOffset_iff by blast
  with alloc_loop_Inl [OF assms(1)] offsets_total [OF assms(2)] off show ?thesis by blast
qed

interpretation cidr_pool: address_pool "firstAvailableWorkloadIP cidr" "cidr_address cidr" for cidr
proof
  fix used ip
  assume "firstAvailableWorkloadIP cidr used = Inr ip"
  then obtain bound where "alloc_loop cidr (\<lambda>ip. ip \<in> set used) bound 3 = Inr ip"
    by (auto simp: firstAvailableWorkloadIP_def Let_def split: sum.splits if_splits)
  from alloc_loop_Inr [OF this] show "ip \<notin> set used" "cidr_address cidr ip"
    by (auto simp: cidr_address_iff)
next
  fix used e ip
  assume l: "firstAvailableWorkloadIP cidr used = Inl e" and a: "cidr_address cidr ip"
  then obtain w p where p: "v4_net cidr w p" "16 \<le> p" "p \<le> 30"
    by (auto simp: cidr_address_def supported_v4_net)
  then have "\<not> (32 - p < 2 \<or> 16 < 32 - p)" by arith
  with l p have "alloc_loop cidr (\<lambda>ip. ip \<in> set used) (broadcast_offset (32 - p)) 3 = Inl e"
    by (simp add: firstAvailableWorkloadIP_def Let_def del: not_less de_Morgan_disj)
  from alloc_loop_complete [OF this p(1) a] show "ip \<in> set used" .
qed

interpretation handle_pool: address_pool "handle_firstAvailableWorkloadIP h" "handle_address h" for h
proof
  fix used ip
  assume "handle_firstAvailableWorkloadIP h used = Inr ip"
  then obtain n where n: "cidr_net (nh_pod_cidr h) = Some n"
    and l: "alloc_loop (nh_pod_cidr h) (\<lambda>ip. ip \<in> set used \<or> reserved_string h (net_ip n) ip)
      (broadcast_offset (net_bits n - net_prefix n)) 3 = Inr ip"
    by (auto simp: handle_firstAvailableWorkloadIP_def split: sum.splits if_splits)
  from alloc_loop_Inr [OF l] n show "ip \<notin> set used" "handle_address h ip"
    by (auto simp: handle_address_iff cidr_address_iff)
next
  fix used e ip
  assume l: "handle_firstAvailableWorkloadIP h used = Inl e" and a: "handle_address h ip"
  then obtain w p where p: "v4_net (nh_pod_cidr h) w p" "16 \<le> p" "p \<le> 30"
    by (auto simp: handle_address_def supported_v4_net)
  with l have "alloc_loop (nh_pod_cidr h) (\<lambda>x. x \<in> set used \<or> reserved_string h (ip_of_v4 w) x)
      (broadcast_offset (32 - p)) 3 = Inl e"
    by (simp add: handle_firstAvailableWorkloadIP_def)
  from alloc_loop_complete [OF this p(1)] a v4_net_cidr [OF p(1)] show "ip \<in> set used"
    by (auto simp: handle_address_iff)
qed

end
