(* ===== verification/NetHandle.thy ===== *)
theory NetHandle
  imports PodNet
begin

text \<open>
  The operations of \<^verbatim>\<open>DarwinNetworkHandle\<close> in \<^verbatim>\<open>darwin_network.go\<close>: setting the network
  up with its peer gateways, routes and ARP entries, adding and removing workload aliases,
  following a changed gateway MAC and cleaning up.  Each operation takes and returns the
  handle and the trace of commands it ran.
\<close>

section \<open>Setting up the network\<close>

text \<open>Peers behind the VXLAN remote come first, both groups in their order.\<close>

definition order_peers :: "string \<Rightarrow> flannel_peer list \<Rightarrow> flannel_peer list" where
  "order_peers remote peers =
     filter (\<lambda>p. fp_public_ip p = remote) peers @ filter (\<lambda>p. fp_public_ip p \<noteq> remote) peers"

definition addGateway ::
  "net_handle \<Rightarrow> flannel_peer \<Rightarrow> string \<Rightarrow> string \<Rightarrow> err + net_handle" where
  "addGateway h peer peerGateway peerMAC =
    (if list_ex (\<lambda>x. pg_gateway x = peerGateway \<or> pg_pod_cidr x = fp_pod_cidr peer) (nh_peers h)
     then Inl (EMsg (''duplicate Darwin peer gateway '' @ peerGateway @ '' or PodCIDR '' @ fp_pod_cidr peer))
     else Inr (h\<lparr>nh_peers := nh_peers h @ [\<lparr>pg_pod_cidr = fp_pod_cidr peer, pg_gateway = peerGateway,
                     pg_mac = peerMAC, pg_public_ip = fp_public_ip peer\<rparr>],
                 nh_arps := nh_arps h @ [\<lparr>ar_ip = peerGateway, ar_mac = peerMAC\<rparr>]\<rparr>))"

fun addGateways :: "string \<Rightarrow> nat \<Rightarrow> flannel_peer list \<Rightarrow> net_handle \<Rightarrow> err + net_handle" where
  "addGateways cidr index [] h = Inr h"
| "addGateways cidr index (peer # peers) h =
    (case parse_mac6 (fp_vtep_mac peer) of
       None \<Rightarrow> Inl (EMsg (''parse Flannel VtepMAC '' @ quote (fp_vtep_mac peer) @ '' for node '' @
         fp_node_name peer))
     | Some mac \<Rightarrow> (case peerGatewayAddressForCIDR cidr index of
         Inl e \<Rightarrow> Inl e
       | Inr gw \<Rightarrow> (case addGateway h peer gw (mac_string mac) of
           Inl e \<Rightarrow> Inl e
         | Inr h \<Rightarrow> addGateways cidr (index + 1) peers h)))"

fun static_routes :: "string \<Rightarrow> string list \<Rightarrow> err + darwin_route list" where
  "static_routes gateway [] = Inr []"
| "static_routes gateway (cidr # cidrs) = (case routeSpec cidr of
       Inl e \<Rightarrow> Inl e
     | Inr r \<Rightarrow> (case static_routes gateway cidrs of
         Inl e \<Rightarrow> Inl e
       | Inr rs \<Rightarrow> Inr (r\<lparr>rt_gateway := gateway\<rparr> # rs)))"

fun peer_routes :: "peer_gateway list \<Rightarrow> flannel_peer list \<Rightarrow> err + darwin_route list" where
  "peer_routes gws [] = Inr []"
| "peer_routes gws (peer # peers) = (case routeSpec (fp_pod_cidr peer) of
       Inl e \<Rightarrow> Inl e
     | Inr r \<Rightarrow> (case peer_routes gws peers of
         Inl e \<Rightarrow> Inl e
       | Inr rs \<Rightarrow>
           Inr ((case List.find (\<lambda>g. pg_pod_cidr g = fp_pod_cidr peer) gws of
              Some g \<Rightarrow> r\<lparr>rt_gateway := pg_gateway g\<rparr> | None \<Rightarrow> r) # rs)))"

text \<open>Everything of \<^verbatim>\<open>setupDarwinNetwork\<close> before the first command: the handle and its routes.\<close>

definition plan_network ::
  "join_config \<Rightarrow> vxlan_handle \<Rightarrow> flannel_peer list \<Rightarrow> string \<Rightarrow>
    err + net_handle \<times> darwin_route list" where
  "plan_network cfg vxlan peers gatewayMAC =
    (case peerGatewayAddressForCIDR (vx_bridge_cidr vxlan) 0 of
       Inl e \<Rightarrow> Inl e
     | Inr gateway \<Rightarrow> (case parse_mac6 gatewayMAC of
         None \<Rightarrow> Inl (EMsg (''parse Flannel gateway MAC '' @ quote gatewayMAC))
       | Some mac \<Rightarrow>
          (let ordered = order_peers (jc_vxlan_remote cfg) peers in
           if ordered \<noteq> [] \<and> fp_public_ip (hd ordered) \<noteq> jc_vxlan_remote cfg
           then Inl (EMsg (''no discovered Flannel peer matches VXLAN remote '' @ quote (jc_vxlan_remote cfg)))
           else (let h = \<lparr>nh_interface = vx_bridge_name vxlan, nh_pod_cidr = vx_bridge_cidr vxlan,
                   nh_gateway = gateway, nh_gateway_mac = mac_string mac, nh_peers = [], nh_arps = [],
                   nh_routes = [], nh_aliases = [], nh_sudo = jc_use_sudo cfg\<rparr> in
             case (if ordered = []
                   then addGateway h \<lparr>fp_node_name = [], fp_pod_cidr = [],
                     fp_public_ip = jc_vxlan_remote cfg, fp_vtep_mac = []\<rparr> gateway (mac_string mac)
                   else addGateways (vx_bridge_cidr vxlan) 0 ordered h) of
               Inl e \<Rightarrow> Inl e
             | Inr h \<Rightarrow> (case static_routes gateway [jc_cluster_cidr cfg, jc_service_cidr cfg] of
                 Inl e \<Rightarrow> Inl e
               | Inr rs \<Rightarrow> (case peer_routes (nh_peers h) ordered of
                   Inl e \<Rightarrow> Inl e
                 | Inr prs \<Rightarrow> Inr (h, rs @ prs)))))))"

section \<open>Workload aliases\<close>

definition command_error :: "string \<Rightarrow> err \<Rightarrow> string \<Rightarrow> err" where
  "command_error what e output = EWrap (what @ '': '') e ('' ('' @ trim_space output @ '')'')"

text \<open>The checks of \<^verbatim>\<open>addWorkloadIP\<close>; the result is the canonical spelling of the address.\<close>

definition check_workload_ip :: "net_handle \<Rightarrow> string \<Rightarrow> err + string" where
  "check_workload_ip h ip = (case parse_to4 ip of
       None \<Rightarrow> Inl (EMsg (''workload address '' @ quote ip @ '' is not an IPv4 address''))
     | Some a \<Rightarrow> (case parse_pod_cidr (nh_pod_cidr h) of
         Inl e \<Rightarrow> Inl e
       | Inr n \<Rightarrow>
           if \<not> net_contains n (ip_of_v4 a)
           then Inl (EMsg (''workload address '' @ ip @ '' is outside PodCIDR '' @ nh_pod_cidr h))
           else if isReservedWorkloadIP h (ip_of_v4 a) (net_ip n)
           then Inl (EMsg (''workload address '' @ ip @ '' is reserved by maclet''))
           else if net_bits n \<noteq> 32 \<or> net_prefix n > 30
           then Inl (EMsg (''PodCIDR '' @ quote (nh_pod_cidr h) @ '' does not have usable workload addresses''))
           else if a = v4_of (net_ip n) + push_bit (net_bits n - net_prefix n) 1 - 1
           then Inl (EMsg (''workload address '' @ ip @ '' is the PodCIDR broadcast address''))
           else Inr (ip4_string a)))"

abbreviation add_alias :: "net_handle \<Rightarrow> string \<Rightarrow> net_handle" where
  "add_alias h ip \<equiv> h\<lparr>nh_aliases := nh_aliases h @ [ip]\<rparr>"

definition alias_argv :: "net_handle \<Rightarrow> string \<Rightarrow> string list" where
  "alias_argv h ip =
     [''ifconfig'', nh_interface h, ''inet'', ip, ''netmask'', ''255.255.255.255'', ''alias'']"

definition install_alias :: "env \<Rightarrow> net_handle \<Rightarrow> string \<Rightarrow> trace \<Rightarrow> err option \<times> net_handle \<times> trace" where
  "install_alias E h ip tr =
    (case privileged_command E (nh_sudo h) (alias_argv h ip) tr of
       ((_, None), tr) \<Rightarrow> (None, add_alias h ip, tr)
     | ((out, Some e), tr) \<Rightarrow> (case interfaceForAddress E (ip @ ''/32'') tr of
         (r, tr) \<Rightarrow>
           if r = Inr (nh_interface h) then (None, add_alias h ip, tr)
           else (Some (command_error (''add workload address '' @ ip @ '' to '' @ nh_interface h) e out),
                 h, tr)))"

definition addWorkloadIP :: "env \<Rightarrow> net_handle \<Rightarrow> string \<Rightarrow> trace \<Rightarrow> err option \<times> net_handle \<times> trace" where
  "addWorkloadIP E h ip tr = (case check_workload_ip h ip of
       Inl e \<Rightarrow> (Some e, h, tr)
     | Inr ip \<Rightarrow>
         if ip \<in> set (nh_aliases h) then (None, h, tr)
         else (case interfaceForAddress E (ip @ ''/32'') tr of
            (Inl e, tr) \<Rightarrow> (Some (wrap (''inspect existing workload address '' @ ip @ '': '') e), h, tr)
          | (Inr owner, tr) \<Rightarrow>
              if owner \<noteq> [] then
                (if owner \<noteq> nh_interface h
                 then (Some (EMsg (''workload address '' @ ip @ '' is already present on '' @ owner @
                   '', not '' @ nh_interface h)), h, tr)
                 else (None, add_alias h ip, tr))
              else install_alias E h ip tr))"

definition removeWorkloadIP :: "env \<Rightarrow> net_handle \<Rightarrow> string \<Rightarrow> trace \<Rightarrow> err option \<times> net_handle \<times> trace" where
  "removeWorkloadIP E h ip tr = (case parse_to4 ip of
       None \<Rightarrow> (Some (EMsg (''workload address '' @ quote ip @ '' is not an IPv4 address'')), h, tr)
     | Some a \<Rightarrow> (let addr = ip4_string a in
         if addr \<notin> set (nh_aliases h) then (None, h, tr)
         else (case privileged_command E (nh_sudo h)
                 [''ifconfig'', nh_interface h, ''inet'', addr, ''-alias''] tr of
             ((out, Some e), tr) \<Rightarrow>
               (Some (command_error (''remove workload address '' @ addr @ '' from '' @ nh_interface h) e out),
                h, tr)
           | ((_, None), tr) \<Rightarrow> (None, h\<lparr>nh_aliases := remove1 addr (nh_aliases h)\<rparr>, tr))))"

section \<open>The gateway's hardware address\<close>

fun set_arp_mac :: "string \<Rightarrow> string \<Rightarrow> arp_entry list \<Rightarrow> arp_entry list" where
  "set_arp_mac ip mac [] = []"
| "set_arp_mac ip mac (a # as) =
     (if ar_ip a = ip then a\<lparr>ar_mac := mac\<rparr> # as else a # set_arp_mac ip mac as)"

definition setGatewayMAC :: "env \<Rightarrow> net_handle \<Rightarrow> string \<Rightarrow> trace \<Rightarrow> err option \<times> net_handle \<times> trace" where
  "setGatewayMAC E h mac tr = (case parse_mac6 mac of
       None \<Rightarrow> (Some (EMsg (''parse Flannel gateway MAC '' @ quote mac)), h, tr)
     | Some bs \<Rightarrow> (let mac = mac_string bs in
         if nh_gateway_mac h = mac then (None, h, tr)
         else (case privileged_command E (nh_sudo h)
                 [''arp'', ''-S'', nh_gateway h, mac, ''ifscope'', nh_interface h] tr of
             ((out, Some e), tr) \<Rightarrow>
               (Some (command_error (''update Darwin ARP gateway '' @ nh_gateway h @ '' on '' @
                 nh_interface h) e out), h, tr)
           | ((_, None), tr) \<Rightarrow>
               (None, h\<lparr>nh_arps := set_arp_mac (nh_gateway h) mac (nh_arps h), nh_gateway_mac := mac\<rparr>, tr))))"

section \<open>Cleaning up\<close>

text \<open>The descending loop over the aliases: position \<open>i - 1\<close> of the list as it then is.\<close>

fun cleanup_aliases :: "env \<Rightarrow> nat \<Rightarrow> net_handle \<Rightarrow> trace \<Rightarrow> err list \<times> net_handle \<times> trace" where
  "cleanup_aliases E 0 h tr = ([], h, tr)"
| "cleanup_aliases E (Suc i) h tr =
    (case removeWorkloadIP E h (nh_aliases h ! i) tr of
       (r, h, tr) \<Rightarrow> (case cleanup_aliases E i h tr of
         (es, h, tr) \<Rightarrow> (case r of Some e \<Rightarrow> e # es | None \<Rightarrow> es, h, tr)))"

definition route_name :: "darwin_route \<Rightarrow> string" where
  "route_name r = rt_network r @ ''/'' @ rt_netmask r"

fun delete_routes :: "env \<Rightarrow> bool \<Rightarrow> darwin_route list \<Rightarrow> trace \<Rightarrow> err list \<times> trace" where
  "delete_routes E sudo [] tr = ([], tr)"
| "delete_routes E sudo (r # rs) tr =
    (case privileged_command E sudo [''route'', ''-n'', ''delete'', ''-net'', rt_network r,
         ''-netmask'', rt_netmask r, rt_gateway r] tr of
       ((out, res), tr) \<Rightarrow> (case delete_routes E sudo rs tr of
         (es, tr) \<Rightarrow>
           (case res of Some e \<Rightarrow> command_error (''delete route '' @ route_name r) e out # es | None \<Rightarrow> es, tr)))"

fun delete_arps :: "env \<Rightarrow> bool \<Rightarrow> string \<Rightarrow> arp_entry list \<Rightarrow> trace \<Rightarrow> err list \<times> trace" where
  "delete_arps E sudo ifn [] tr = ([], tr)"
| "delete_arps E sudo ifn (a # as) tr =
    (case privileged_command E sudo [''arp'', ''-d'', ar_ip a, ''ifscope'', ifn] tr of
       ((out, res), tr) \<Rightarrow> (case delete_arps E sudo ifn as tr of
         (es, tr) \<Rightarrow>
           (case res of Some e \<Rightarrow> command_error (''delete ARP gateway '' @ ar_ip a) e out # es | None \<Rightarrow> es, tr)))"

text \<open>\<^verbatim>\<open>net.InterfaceByName\<close>: an interface of this, non-empty, name.\<close>

definition interface_exists :: "env \<Rightarrow> string \<Rightarrow> trace \<Rightarrow> bool \<times> trace" where
  "interface_exists E name tr =
    (if name = [] then (False, tr)
     else (case call_ifaces E tr of
        (Inl _, tr) \<Rightarrow> (False, tr)
      | (Inr is, tr) \<Rightarrow> (list_ex (\<lambda>i. if_name i = name) is, tr)))"

definition net_cleanup :: "env \<Rightarrow> net_handle \<Rightarrow> trace \<Rightarrow> err option \<times> net_handle \<times> trace" where
  "net_cleanup E h tr = (case interface_exists E (nh_interface h) tr of
       (False, tr) \<Rightarrow> (None, h\<lparr>nh_aliases := [], nh_routes := [], nh_arps := []\<rparr>, tr)
     | (True, tr) \<Rightarrow> (case cleanup_aliases E (length (nh_aliases h)) h tr of
         (es1, h, tr) \<Rightarrow> (case delete_routes E (nh_sudo h) (rev (nh_routes h)) tr of
           (es2, tr) \<Rightarrow> (case delete_arps E (nh_sudo h) (nh_interface h) (rev (nh_arps h)) tr of
             (es3, tr) \<Rightarrow> (errors_join (es1 @ es2 @ es3), h, tr)))))"

text \<open>The commands of \<^verbatim>\<open>setupDarwinNetwork\<close>, with the cleanup after a failure.\<close>

definition setup_failure :: "env \<Rightarrow> net_handle \<Rightarrow> string \<Rightarrow> err \<Rightarrow> string \<Rightarrow> trace \<Rightarrow> err \<times> trace" where
  "setup_failure E h what e out tr = (case net_cleanup E h tr of
       (Some ce, _, tr) \<Rightarrow> (EWrap (what @ '': '') e ('' (cleanup: '' @ err_string ce @ ''; output: '' @
          trim_space out @ '')''), tr)
     | (None, _, tr) \<Rightarrow> (command_error what e out, tr))"

fun install_arps :: "env \<Rightarrow> net_handle \<Rightarrow> arp_entry list \<Rightarrow> trace \<Rightarrow> err option \<times> trace" where
  "install_arps E h [] tr = (None, tr)"
| "install_arps E h (a # as) tr =
    (case privileged_command E (nh_sudo h)
         [''arp'', ''-S'', ar_ip a, ar_mac a, ''ifscope'', nh_interface h] tr of
       ((out, Some e), tr) \<Rightarrow> (case setup_failure E h
          (''install Darwin ARP gateway '' @ ar_ip a @ '' on '' @ nh_interface h) e out tr of
          (e, tr) \<Rightarrow> (Some e, tr))
     | ((_, None), tr) \<Rightarrow> install_arps E h as tr)"

fun install_routes :: "env \<Rightarrow> net_handle \<Rightarrow> darwin_route list \<Rightarrow> trace \<Rightarrow> (err + net_handle) \<times> trace" where
  "install_routes E h [] tr = (Inr h, tr)"
| "install_routes E h (r # rs) tr =
    (case privileged_command E (nh_sudo h) [''route'', ''-n'', ''add'', ''-net'', rt_network r,
         ''-netmask'', rt_netmask r, rt_gateway r] tr of
       ((out, Some e), tr) \<Rightarrow> (case setup_failure E h
          (''add Darwin route '' @ route_name r @ '' via '' @ rt_gateway r) e out tr of
          (e, tr) \<Rightarrow> (Inl e, tr))
     | ((_, None), tr) \<Rightarrow> install_routes E (h\<lparr>nh_routes := nh_routes h @ [r]\<rparr>) rs tr)"

definition setupDarwinNetwork ::
  "env \<Rightarrow> join_config \<Rightarrow> vxlan_handle \<Rightarrow> flannel_peer list \<Rightarrow> string \<Rightarrow> trace \<Rightarrow>
    (err + net_handle) \<times> trace" where
  "setupDarwinNetwork E cfg vxlan peers gatewayMAC tr =
    (case plan_network cfg vxlan peers gatewayMAC of
       Inl e \<Rightarrow> (Inl e, tr)
     | Inr (h, routes) \<Rightarrow> (case install_arps E h (nh_arps h) tr of
         (Some e, tr) \<Rightarrow> (Inl e, tr)
       | (None, tr) \<Rightarrow> install_routes E h routes tr))"

section \<open>The addresses of a handle\<close>

lemma v4_net_split:
  assumes "a AND mask32 p = w" "p \<le> 32"
  obtains off where "a = w + off" "unat off < 2 ^ (32 - p)"
proof
  have w: "unat w = unat a div 2 ^ (32 - p) * 2 ^ (32 - p)" using assms(1) by (metis unat_mask32)
  then have "w \<le> a" by (simp add: word_le_nat_alt)
  then have "unat (a - w) = unat a - unat w" by (rule unat_sub)
  also have "\<dots> = unat a mod 2 ^ (32 - p)" using w by (simp add: minus_div_mult_eq_mod)
  finally show "unat (a - w) < 2 ^ (32 - p)" by simp
  show "a = w + (a - w)" by simp
qed

lemma bridge_ip_v4:
  assumes "v4_net cidr w p" "p \<le> 30"
  shows "bridge_ip cidr = Some (ip_of_v4 (w + 1))"
proof -
  have w: "w = w AND mask32 p" using assms(1) by (simp add: v4_net_def)
  have "\<not> bit (w AND mask32 p) 0" using assms(2) by (simp add: mask32_def bit_simps)
  then have "w \<noteq> NOT 0" using w by (metis bit_minus_1_iff bit.compl_zero possible_bit_word len_gt_0)
  with v4_net_cidr [OF assms(1)] show ?thesis
    using split_on_append_sep [of "CHR ''/''" "ip4_string (w + 1)"] ip4_string_no [of "CHR ''/''"]
    by (simp add: bridge_ip_def bridgeAddressForCIDR_def parse_pod_cidr_def)
qed

lemma peerGateway_Inr:
  assumes "peerGatewayAddressForCIDR cidr i = Inr g"
  obtains w p where "v4_net cidr w p" "p \<le> 30"
    "g = ip4_string (w + (if i = 0 then 2 else broadcast_offset (32 - p) - word_of_nat i))"
    "i = 0 \<or> word_of_nat i < broadcast_offset (32 - p) - 2"
proof -
  from assms obtain n where n: "cidr_net cidr = Some n" "net_bits n = 32"
    by (auto simp: peerGatewayAddressForCIDR_def parse_pod_cidr_def split: option.splits if_splits)
  then obtain w where w: "v4_net cidr w (net_prefix n)" using v4_netI by blast
  with assms v4_net_cidr [OF w] that [OF w] show ?thesis
    by (auto simp: peerGatewayAddressForCIDR_def parse_pod_cidr_def Let_def split: if_splits)
qed

text \<open>A handle on a usable CIDR whose gateway is the one of peer 0.\<close>

definition net_base :: "net_handle \<Rightarrow> ip4 \<Rightarrow> nat \<Rightarrow> bool" where
  "net_base h w p \<longleftrightarrow> v4_net (nh_pod_cidr h) w p \<and> p \<le> 30 \<and> nh_gateway h = ip4_string (w + 2)"

text \<open>The invariant of a handle: it also owns each alias once, all of them checked addresses.\<close>

definition net_inv :: "net_handle \<Rightarrow> bool" where
  "net_inv h \<longleftrightarrow> (\<exists>w p. net_base h w p) \<and> distinct (map pg_gateway (nh_peers h)) \<and>
     distinct (nh_aliases h) \<and> (\<forall>a \<in> set (nh_aliases h). check_workload_ip h a = Inr a)"

lemma check_workload_ip_iff:
  assumes "net_base h w p"
  shows "check_workload_ip h ip = Inr c \<longleftrightarrow>
    (\<exists>a. parse_to4 ip = Some a \<and> c = ip4_string a \<and> handle_validateWorkloadAddress h ip = None)"
proof (cases "parse_to4 ip")
  case None
  then show ?thesis by (simp add: check_workload_ip_def)
next
  case (Some a)
  let ?n = "\<lparr>net_ip = ip_of_v4 w, net_prefix = p, net_bits = 32\<rparr>"
  have net: "v4_net (nh_pod_cidr h) w p" and p: "p \<le> 30" "p \<le> 32" and gw: "nh_gateway h = ip4_string (w + 2)"
    using assms by (auto simp: net_base_def)
  have cid: "cidr_net (nh_pod_cidr h) = Some ?n" using net by (rule v4_net_cidr)
  have res: "\<not> isReservedWorkloadIP h (ip_of_v4 a) (ip_of_v4 w) \<longrightarrow> a \<noteq> w \<and> a \<noteq> w + 1 \<and> a \<noteq> w + 2"
    using bridge_ip_v4 [OF net p(1)] gw by (auto simp: isReservedWorkloadIP_def)
  have bo: "unat (broadcast_offset (32 - p)) = 2 ^ (32 - p) - 1" by (simp add: unat_broadcast_offset)
  have bc: "w + push_bit (32 - p) 1 - 1 = w + broadcast_offset (32 - p)" by (simp add: broadcast_offset_def)
  have "net_contains ?n (ip_of_v4 a) \<and> a \<noteq> w + broadcast_offset (32 - p) \<and> a \<noteq> w \<and> a \<noteq> w + 1 \<and> a \<noteq> w + 2
      \<longleftrightarrow> net_contains ?n (ip_of_v4 a) \<and> 3 \<le> a - w \<and> a - w < broadcast_offset (32 - p)"
  proof (cases "net_contains ?n (ip_of_v4 a)")
    case True
    then have "a AND mask32 p = w" using net by (auto simp: net_contains_v4 v4_net_def)
    then obtain off where off: "a = w + off" "unat off < 2 ^ (32 - p)" using v4_net_split p by blast
    then have "off < broadcast_offset (32 - p) \<longleftrightarrow> off \<noteq> broadcast_offset (32 - p)"
      using bo by (auto simp: word_less_nat_alt word_unat_eq_iff)
    moreover have "3 \<le> off \<longleftrightarrow> off \<noteq> 0 \<and> off \<noteq> 1 \<and> off \<noteq> 2"
      by (auto simp: word_le_nat_alt word_unat_eq_iff)
    ultimately show ?thesis using True off(1) by auto
  qed simp
  moreover have "check_workload_ip h ip = Inr c \<longleftrightarrow> c = ip4_string a \<and> net_contains ?n (ip_of_v4 a) \<and>
      \<not> isReservedWorkloadIP h (ip_of_v4 a) (ip_of_v4 w) \<and> a \<noteq> w + broadcast_offset (32 - p)"
    using Some cid p bc by (auto simp: check_workload_ip_def parse_pod_cidr_def)
  moreover have "handle_validateWorkloadAddress h ip = None \<longleftrightarrow> net_contains ?n (ip_of_v4 a) \<and>
      (3 \<le> a - w \<and> a - w < broadcast_offset (32 - p)) \<and>
      \<not> isReservedWorkloadIP h (ip_of_v4 a) (ip_of_v4 w)"
    using Some cid p
    by (simp add: handle_validateWorkloadAddress_def validateWorkloadAddress_def Let_def not_less not_le)
  moreover have "(\<exists>a. parse_to4 ip = Some a \<and> c = ip4_string a \<and> handle_validateWorkloadAddress h ip = None)
      \<longleftrightarrow> c = ip4_string a \<and> handle_validateWorkloadAddress h ip = None"
    using Some by simp
  ultimately show ?thesis using res by argo
qed

lemma net_inv_canonical:
  assumes "net_inv h" "a \<in> set (nh_aliases h)"
  shows "canonical a"
proof -
  obtain w p where b: "net_base h w p" and "check_workload_ip h a = Inr a"
    using assms by (auto simp: net_inv_def)
  then show ?thesis unfolding check_workload_ip_iff [OF b] canonical_iff by blast
qed

lemma check_workload_ip_canonical:
  assumes "check_workload_ip h ip = Inr c"
  shows "check_workload_ip h c = Inr c"
proof -
  obtain a n where a: "parse_to4 ip = Some a" "cidr_net (nh_pod_cidr h) = Some n"
    using assms by (auto simp: check_workload_ip_def parse_pod_cidr_def split: option.splits)
  then have "c = ip4_string a"
    using assms by (simp add: check_workload_ip_def parse_pod_cidr_def split: if_splits)
  then show ?thesis using assms a
    by (simp add: check_workload_ip_def parse_pod_cidr_def split: if_splits)
qed

lemma check_workload_ip_cong:
  assumes "nh_pod_cidr h' = nh_pod_cidr h" "nh_gateway h' = nh_gateway h" "nh_peers h' = nh_peers h"
  shows "check_workload_ip h' ip = check_workload_ip h ip"
proof -
  have "isReservedWorkloadIP h' = isReservedWorkloadIP h"
    by (intro ext) (simp add: isReservedWorkloadIP_def assms)
  then show ?thesis unfolding check_workload_ip_def assms by (rule ssubst) (rule refl)
qed

text \<open>An operation that keeps what the checks read and only shrinks or checks the aliases.\<close>

lemma net_inv_update:
  assumes "net_inv h" "nh_pod_cidr h' = nh_pod_cidr h" "nh_gateway h' = nh_gateway h"
    "nh_peers h' = nh_peers h" "distinct (nh_aliases h')"
    "\<And>a. a \<in> set (nh_aliases h') \<Longrightarrow> a \<in> set (nh_aliases h) \<or> check_workload_ip h a = Inr a"
  shows "net_inv h'"
  using assms check_workload_ip_cong [OF assms(2-4)]
  unfolding net_inv_def net_base_def by fastforce

section \<open>The operations keep the invariant\<close>

lemma install_alias_result:
  "install_alias E h c tr = (r, h', tr') \<Longrightarrow>
    (\<exists>e. r = Some e) \<and> h' = h \<or> r = None \<and> h' = add_alias h c"
  unfolding install_alias_def by (auto split: prod.splits option.splits if_splits)

lemma addWorkloadIP_result:
  assumes "addWorkloadIP E h ip tr = (r, h', tr')" "check_workload_ip h ip = Inr c"
    "c \<notin> set (nh_aliases h)"
  shows "(\<exists>e. r = Some e) \<and> h' = h \<or> r = None \<and> h' = add_alias h c"
proof -
  obtain q tr1 where "interfaceForAddress E (c @ ''/32'') tr = (q, tr1)" by force
  with assms install_alias_result [of E h c tr1 r h' tr'] show ?thesis
    by (cases q) (auto simp: addWorkloadIP_def split: if_splits)
qed

lemma addWorkloadIP_cases:
  assumes "addWorkloadIP E h ip tr = (r, h', tr')"
  obtains (refused) e where "r = Some e" "h' = h"
  | (present) c where "r = None" "h' = h" "check_workload_ip h ip = Inr c" "c \<in> set (nh_aliases h)"
  | (added) c where "r = None" "h' = add_alias h c" "check_workload_ip h ip = Inr c"
      "c \<notin> set (nh_aliases h)"
proof (cases "check_workload_ip h ip")
  case (Inl e)
  with assms refused [of e] show ?thesis by (auto simp: addWorkloadIP_def)
next
  case (Inr c)
  show ?thesis
  proof (cases "c \<in> set (nh_aliases h)")
    case True
    with Inr assms present [of c] show ?thesis by (simp add: addWorkloadIP_def)
  next
    case False
    with addWorkloadIP_result [OF assms Inr] Inr refused added show ?thesis by blast
  qed
qed

lemma addWorkloadIP_inv [inv_intros]:
  assumes "net_inv h" "addWorkloadIP E h ip tr = (r, h', tr')"
  shows "net_inv h'"
  using assms(2)
proof (cases rule: addWorkloadIP_cases)
  case (added c)
  show ?thesis
    by (rule net_inv_update [OF assms(1)])
      (use added assms(1) check_workload_ip_canonical in \<open>auto simp: net_inv_def\<close>)
qed (use assms(1) in auto)

lemma removeWorkloadIP_cases:
  assumes "removeWorkloadIP E h ip tr = (r, h', tr')"
  obtains (failed) e where "h' = h" "r = Some e"
  | (absent) a where "h' = h" "r = None" "parse_to4 ip = Some a" "ip4_string a \<notin> set (nh_aliases h)"
  | (removed) a where "r = None" "parse_to4 ip = Some a" "ip4_string a \<in> set (nh_aliases h)"
      "h' = h\<lparr>nh_aliases := remove1 (ip4_string a) (nh_aliases h)\<rparr>"
proof (cases "parse_to4 ip")
  case None
  with assms failed show ?thesis by (auto simp: removeWorkloadIP_def)
next
  case (Some a)
  show ?thesis
  proof (cases "ip4_string a \<in> set (nh_aliases h)")
    case False
    with Some assms absent [of a] show ?thesis by (simp add: removeWorkloadIP_def)
  next
    case True
    obtain out res tr1 where c: "privileged_command E (nh_sudo h)
        [''ifconfig'', nh_interface h, ''inet'', ip4_string a, ''-alias''] tr = ((out, res), tr1)"
      by (metis surj_pair)
    show ?thesis
    proof (cases res)
      case None
      then have "r = None \<and> h' = h\<lparr>nh_aliases := remove1 (ip4_string a) (nh_aliases h)\<rparr>"
        using assms Some True c by (simp add: removeWorkloadIP_def)
      with removed Some True show ?thesis by blast
    next
      case (Some e)
      then have "(\<exists>e. r = Some e) \<and> h' = h"
        using assms \<open>parse_to4 ip = Some a\<close> True c by (auto simp: removeWorkloadIP_def)
      with failed show ?thesis by blast
    qed
  qed
qed

lemma removeWorkloadIP_inv [inv_intros]:
  assumes "net_inv h" "removeWorkloadIP E h ip tr = (r, h', tr')"
  shows "net_inv h'"
  using assms(2)
proof (cases rule: removeWorkloadIP_cases)
  case (removed a)
  show ?thesis
    by (rule net_inv_update [OF assms(1)])
      (use removed assms(1) in \<open>auto simp: net_inv_def distinct_remove1 dest: notin_set_remove1\<close>)
qed (use assms(1) in auto)

lemma setGatewayMAC_result:
  assumes "setGatewayMAC E h mac tr = (r, h', tr')"
  shows "\<exists>as m. h' = h\<lparr>nh_arps := as, nh_gateway_mac := m\<rparr>"
proof -
  have same: "\<exists>as m. k = k\<lparr>nh_arps := as, nh_gateway_mac := m\<rparr>" for k
    by (intro exI [of _ "nh_arps k"] exI [of _ "nh_gateway_mac k"]) simp
  show ?thesis
    using assms unfolding setGatewayMAC_def Let_def
    by (auto split: option.splits prod.splits if_splits intro: same)
qed

lemma setGatewayMAC_inv [inv_intros]:
  assumes "net_inv h" "setGatewayMAC E h mac tr = (r, h', tr')"
  shows "net_inv h'"
  using setGatewayMAC_result [OF assms(2)]
  by (auto intro!: net_inv_update [OF assms(1)]) (use assms(1) in \<open>simp add: net_inv_def\<close>)

lemma cleanup_aliases_SucD:
  assumes "cleanup_aliases E (Suc i) h tr = (es, h', tr')"
  obtains r h1 tr1 es1 where "removeWorkloadIP E h (nh_aliases h ! i) tr = (r, h1, tr1)"
    "cleanup_aliases E i h1 tr1 = (es1, h', tr')" "es = (case r of Some e \<Rightarrow> e # es1 | None \<Rightarrow> es1)"
  using assms by (simp split: prod.splits)

lemma cleanup_aliases_inv [inv_intros]:
  "net_inv h \<Longrightarrow> cleanup_aliases E i h tr = (es, h', tr') \<Longrightarrow> net_inv h'"
proof (induction i arbitrary: h tr es)
  case (Suc i)
  from Suc.prems(2) show ?case
    by (rule cleanup_aliases_SucD) (blast intro: Suc.IH removeWorkloadIP_inv [OF Suc.prems(1)])
qed simp

lemma net_cleanup_inv [inv_intros]:
  assumes "net_inv h" "net_cleanup E h tr = (r, h', tr')"
  shows "net_inv h'"
proof (cases "interface_exists E (nh_interface h) tr")
  case (Pair b tr1)
  show ?thesis
  proof (cases b)
    case True
    with Pair assms show ?thesis
      by (auto simp: net_cleanup_def split: prod.splits intro: inv_intros)
  next
    case False
    with Pair assms(2) have "h' = h\<lparr>nh_aliases := [], nh_routes := [], nh_arps := []\<rparr>"
      by (auto simp: net_cleanup_def)
    then show ?thesis by (intro net_inv_update [OF assms(1)]) auto
  qed
qed

section \<open>The planned network\<close>

lemma addGateway_Inr:
  "addGateway h peer g m = Inr h' \<Longrightarrow> g \<notin> set (map pg_gateway (nh_peers h)) \<and>
    (\<exists>x as. pg_gateway x = g \<and> pg_pod_cidr x = fp_pod_cidr peer \<and> h' = h\<lparr>nh_peers := nh_peers h @ [x], nh_arps := as\<rparr>)"
proof -
  let ?x = "\<lparr>pg_pod_cidr = fp_pod_cidr peer, pg_gateway = g, pg_mac = m, pg_public_ip = fp_public_ip peer\<rparr>"
  assume "addGateway h peer g m = Inr h'"
  then have n: "\<not> list_ex (\<lambda>x. pg_gateway x = g \<or> pg_pod_cidr x = fp_pod_cidr peer) (nh_peers h)"
    and h: "h' = h\<lparr>nh_peers := nh_peers h @ [?x], nh_arps := nh_arps h @ [\<lparr>ar_ip = g, ar_mac = m\<rparr>]\<rparr>"
    unfolding addGateway_def by (simp_all split: if_splits)
  from n have "g \<notin> set (map pg_gateway (nh_peers h))" by (auto simp: list_ex_iff)
  with h show ?thesis
    by (intro conjI exI [of _ ?x] exI [of _ "nh_arps h @ [\<lparr>ar_ip = g, ar_mac = m\<rparr>]"]) simp_all
qed

lemma addGateways_Inr:
  "addGateways cidr i peers h = Inr h' \<Longrightarrow> distinct (map pg_gateway (nh_peers h)) \<Longrightarrow>
    distinct (map pg_gateway (nh_peers h')) \<and>
    (\<exists>xs as. h' = h\<lparr>nh_peers := nh_peers h @ xs, nh_arps := as\<rparr> \<and>
       list_all2 (\<lambda>x p. pg_pod_cidr x = fp_pod_cidr p) xs peers \<and>
       (\<forall>k < length xs. peerGatewayAddressForCIDR cidr (i + k) = Inr (pg_gateway (xs ! k))))"
proof (induction cidr i peers h arbitrary: h' rule: addGateways.induct)
  case (1 cidr i h)
  then show ?case by (auto intro!: exI [of _ "nh_arps h"])
next
  case (2 cidr i peer peers h)
  from "2.prems"(1) obtain mac g h1 where s: "parse_mac6 (fp_vtep_mac peer) = Some mac"
    "peerGatewayAddressForCIDR cidr i = Inr g" "addGateway h peer g (mac_string mac) = Inr h1"
    "addGateways cidr (i + 1) peers h1 = Inr h'"
    by (auto split: option.splits sum.splits)
  from addGateway_Inr [OF s(3)] obtain x as where x: "pg_gateway x = g" "pg_pod_cidr x = fp_pod_cidr peer"
    "h1 = h\<lparr>nh_peers := nh_peers h @ [x], nh_arps := as\<rparr>" "g \<notin> set (map pg_gateway (nh_peers h))"
    by blast
  then have "distinct (map pg_gateway (nh_peers h1))" using "2.prems"(2) by simp
  from "2.IH" [OF s(1,2,3,4) this] obtain xs as' where xs: "distinct (map pg_gateway (nh_peers h'))"
    "h' = h1\<lparr>nh_peers := nh_peers h1 @ xs, nh_arps := as'\<rparr>"
    "list_all2 (\<lambda>x p. pg_pod_cidr x = fp_pod_cidr p) xs peers"
    "\<forall>k < length xs. peerGatewayAddressForCIDR cidr (i + 1 + k) = Inr (pg_gateway (xs ! k))"
    by blast
  have "peerGatewayAddressForCIDR cidr (i + k) = Inr (pg_gateway ((x # xs) ! k))" if "k < length (x # xs)" for k
    using that s(2) x(1) xs(4) by (cases k) auto
  with x xs show ?case by (intro conjI exI [of _ "x # xs"] exI [of _ as']) auto
qed

lemma plan_network_facts:
  assumes "plan_network cfg vx peers mac = Inr (h, rs)"
  shows "net_inv h \<and> nh_pod_cidr h = vx_bridge_cidr vx \<and> nh_aliases h = [] \<and> nh_routes h = [] \<and>
    nh_interface h = vx_bridge_name vx \<and> nh_gateway h \<in> set (map pg_gateway (nh_peers h))"
proof -
  let ?ps = "order_peers (jc_vxlan_remote cfg) peers"
  from assms obtain g m where g: "peerGatewayAddressForCIDR (vx_bridge_cidr vx) 0 = Inr g" "parse_mac6 mac = Some m"
    by (auto simp: plan_network_def split: sum.splits option.splits)
  define h0 where "h0 = \<lparr>nh_interface = vx_bridge_name vx, nh_pod_cidr = vx_bridge_cidr vx,
      nh_gateway = g, nh_gateway_mac = mac_string m, nh_peers = [], nh_arps = [],
      nh_routes = [], nh_aliases = [], nh_sudo = jc_use_sudo cfg\<rparr>"
  have "(if ?ps = [] then addGateway h0 \<lparr>fp_node_name = [], fp_pod_cidr = [],
        fp_public_ip = jc_vxlan_remote cfg, fp_vtep_mac = []\<rparr> g (mac_string m)
      else addGateways (vx_bridge_cidr vx) 0 ?ps h0) = Inr h"
    using assms g by (simp add: plan_network_def Let_def flip: h0_def split: if_splits sum.splits)
  then have "\<exists>xs as. h = h0\<lparr>nh_peers := xs, nh_arps := as\<rparr> \<and> distinct (map pg_gateway xs) \<and>
      g \<in> set (map pg_gateway xs)"
  proof (cases "?ps = []")
    case True
    with \<open>(if _ then _ else _) = Inr h\<close> addGateway_Inr [of h0 _ g _ h] show ?thesis
      by (fastforce simp: h0_def)
  next
    case False
    with \<open>(if _ then _ else _) = Inr h\<close> addGateways_Inr [of "vx_bridge_cidr vx" 0 ?ps h0 h]
    obtain xs as where x: "distinct (map pg_gateway (nh_peers h))" "h = h0\<lparr>nh_peers := nh_peers h0 @ xs, nh_arps := as\<rparr>"
      "list_all2 (\<lambda>x p. pg_pod_cidr x = fp_pod_cidr p) xs ?ps"
      "\<forall>k < length xs. peerGatewayAddressForCIDR (vx_bridge_cidr vx) k = Inr (pg_gateway (xs ! k))"
      by (auto simp: h0_def)
    then have "0 < length xs" using False by (auto simp: list_all2_lengthD)
    moreover from this x(4) g have "pg_gateway (xs ! 0) = g" by auto
    ultimately have "g \<in> set (map pg_gateway xs)" by force
    with x show ?thesis by (auto simp: h0_def)
  qed
  then obtain xs as where x: "h = h0\<lparr>nh_peers := xs, nh_arps := as\<rparr>" "distinct (map pg_gateway xs)"
      "g \<in> set (map pg_gateway xs)" by blast
  from g(1) obtain w p where "v4_net (vx_bridge_cidr vx) w p" "p \<le> 30" "g = ip4_string (w + 2)"
    by (rule peerGateway_Inr) simp
  with x have "net_base h w p" by (simp add: net_base_def h0_def)
  with x show ?thesis by (auto simp: net_inv_def h0_def)
qed

text \<open>A completed installation ran every command and recorded every route.\<close>

lemma install_routes_Inr:
  "install_routes E h rs tr = (Inr h', tr') \<Longrightarrow> h' = h\<lparr>nh_routes := nh_routes h @ rs\<rparr>"
proof (induction rs arbitrary: h tr)
  case (Cons r rs)
  obtain out res tr1 where c: "privileged_command E (nh_sudo h) [''route'', ''-n'', ''add'', ''-net'',
      rt_network r, ''-netmask'', rt_netmask r, rt_gateway r] tr = ((out, res), tr1)"
    by (metis surj_pair)
  show ?case
  proof (cases res)
    case None
    with c Cons.prems have "install_routes E (h\<lparr>nh_routes := nh_routes h @ [r]\<rparr>) rs tr1 = (Inr h', tr')"
      by simp
    from Cons.IH [OF this] show ?thesis by simp
  next
    case (Some e)
    with c Cons.prems show ?thesis by (simp split: prod.splits)
  qed
qed simp

lemma setupDarwinNetwork_Inr:
  assumes "setupDarwinNetwork E cfg vx peers mac tr = (Inr h', tr')"
  obtains h rs where "plan_network cfg vx peers mac = Inr (h, rs)" "h' = h\<lparr>nh_routes := rs\<rparr>"
proof -
  from assms obtain h rs where p: "plan_network cfg vx peers mac = Inr (h, rs)"
    by (auto simp: setupDarwinNetwork_def split: sum.splits)
  obtain r tr1 where "install_arps E h (nh_arps h) tr = (r, tr1)" by force
  with assms p have "install_routes E h rs tr1 = (Inr h', tr')"
    by (cases r) (simp_all add: setupDarwinNetwork_def)
  from install_routes_Inr [OF this] plan_network_facts [OF p] have "h' = h\<lparr>nh_routes := rs\<rparr>" by simp
  with p that show ?thesis by blast
qed

lemma setupDarwinNetwork_inv:
  assumes "setupDarwinNetwork E cfg vx peers mac tr = (Inr h, tr')"
  shows "net_inv h"
proof -
  obtain h0 rs where p: "plan_network cfg vx peers mac = Inr (h0, rs)" "h = h0\<lparr>nh_routes := rs\<rparr>"
    using assms by (rule setupDarwinNetwork_Inr)
  with plan_network_facts [OF p(1)] show ?thesis
    by (intro net_inv_update [of h0 h]) auto
qed

text \<open>Removing every alias of a handle, without an error, leaves none.\<close>

lemma cleanup_aliases_empty:
  "distinct (nh_aliases h) \<Longrightarrow> \<forall>a \<in> set (nh_aliases h). canonical a \<Longrightarrow> i \<le> length (nh_aliases h) \<Longrightarrow>
    cleanup_aliases E i h tr = ([], h', tr') \<Longrightarrow> nh_aliases h' = drop i (nh_aliases h)"
proof (induction i arbitrary: h tr)
  case (Suc i)
  let ?as = "nh_aliases h"
  from Suc.prems(3) have a: "?as ! i \<in> set ?as" and split: "?as = take i ?as @ ?as ! i # drop (Suc i) ?as"
    by (auto simp: id_take_nth_drop)
  with Suc.prems(2) obtain x where x: "?as ! i = ip4_string x" by (auto simp: canonical_iff)
  from Suc.prems(4) obtain h1 tr1 where rm: "removeWorkloadIP E h (?as ! i) tr = (None, h1, tr1)"
    "cleanup_aliases E i h1 tr1 = ([], h', tr')"
    by (rule cleanup_aliases_SucD) (auto split: option.splits)
  from rm(1) x a have "h1 = h\<lparr>nh_aliases := remove1 (?as ! i) ?as\<rparr>"
    by (cases rule: removeWorkloadIP_cases) auto
  moreover have "remove1 (?as ! i) ?as = take i ?as @ drop (Suc i) ?as"
    using Suc.prems(1) split by (metis distinct_append not_distinct_conv_prefix remove1.simps(2) remove1_append disjoint_insert(2) list.simps(15))
  ultimately have h1: "nh_aliases h1 = take i ?as @ drop (Suc i) ?as" by simp
  have "nh_aliases h' = drop i (nh_aliases h1)"
    by (rule Suc.IH [OF _ _ _ rm(2)])
      (use h1 Suc.prems split in \<open>auto dest: in_set_takeD in_set_dropD simp: set_take_disj_set_drop_if_distinct\<close>)
  with h1 Suc.prems(3) show ?case by simp
qed simp

text \<open>The events of an address lookup and of an alias installation.\<close>

abbreviation only_lookups :: "event list \<Rightarrow> bool" where
  "only_lookups es \<equiv> \<forall>e \<in> set es. \<exists>is. e = EvIfaces is"

lemma interfaceForAddress_trace:
  assumes "interfaceForAddress E a tr = (q, tr')"
  obtains es where "tr' = es @ tr" "only_lookups es"
proof (cases "parse_cidr a")
  case None
  with assms that [of "[]"] show ?thesis by (simp add: interfaceForAddress_def)
next
  case (Some x)
  with assms that [of "[EvIfaces (e_ifaces E tr)]"] show ?thesis
    by (auto simp: interfaceForAddress_def call_ifaces_def Let_def split: sum.splits option.splits prod.splits)
qed

lemma install_alias_trace:
  assumes "install_alias E h c tr = (r, h', tr')"
  obtains es out res where "tr' = es @ EvCmd (privileged_argv (nh_sudo h) (alias_argv h c)) out res # tr"
    "only_lookups es"
proof -
  let ?argv = "privileged_argv (nh_sudo h) (alias_argv h c)"
  obtain out res where c: "e_cmd E tr ?argv = (out, res)" by force
  let ?tr = "EvCmd ?argv out res # tr"
  obtain q tr2 where q: "interfaceForAddress E (c @ ''/32'') ?tr = (q, tr2)" by force
  have "tr' = (case res of None \<Rightarrow> ?tr | Some _ \<Rightarrow> tr2)"
    using assms c q
    by (cases res) (auto simp: install_alias_def privileged_command_def call_cmd_def split: if_splits)
  with that [of "[]" out res] interfaceForAddress_trace [OF q] that show ?thesis
    by (cases res) auto
qed

end
