(* ===== verification/NetProps.thy ===== *)
theory NetProps
  imports NetHandle
begin

text \<open>
  What the Pod network promises: the allocator gives out every address it may and no other,
  the checks of allocation, Pod status and alias installation agree, a handle keeps its
  invariant, and cleaning up leaves no alias behind.  The properties rest on the interpretation
  \<open>handle_pool\<close> and on the invariant lemmas of \<^verbatim>\<open>NetHandle\<close>.
\<close>

section \<open>Allocation\<close>

text \<open>
  C11: an address the handle allocates is not in use, is spelled canonically, and passes the
  handle's own validation, so it is never the network, bridge, gateway, peer gateway or
  broadcast address.
\<close>

theorem alloc_sound:
  assumes "handle_firstAvailableWorkloadIP h used = Inr ip"
  shows "ip \<notin> set used \<and> canonical ip \<and> handle_validateWorkloadAddress h ip = None"
  using handle_pool.fresh [OF assms] handle_pool.sound [OF assms] by (simp add: handle_address_def)

definition demo_handle :: net_handle where
  "demo_handle = \<lparr>nh_interface = ''bridge100'', nh_pod_cidr = ''10.42.7.0/29'', nh_gateway = ''10.42.7.2'',
     nh_gateway_mac = [], nh_peers = [\<lparr>pg_pod_cidr = ''10.42.1.0/24'', pg_gateway = ''10.42.7.2'',
       pg_mac = [], pg_public_ip = ''192.0.2.1''\<rparr>, \<lparr>pg_pod_cidr = ''10.42.2.0/24'',
       pg_gateway = ''10.42.7.6'', pg_mac = [], pg_public_ip = ''192.0.2.2''\<rparr>],
     nh_arps = [], nh_routes = [], nh_aliases = [], nh_sudo = True\<rparr>"

lemma alloc_sound_witness:
  "''10.42.7.4'' \<notin> set [''10.42.7.3''] \<and> canonical ''10.42.7.4'' \<and>
    handle_validateWorkloadAddress demo_handle ''10.42.7.4'' = None"
proof -
  have "handle_firstAvailableWorkloadIP demo_handle [''10.42.7.3''] = Inr ''10.42.7.4''" by code_simp
  from alloc_sound [OF this] show ?thesis .
qed

text \<open>
  C12: allocation succeeds exactly when the handle still offers a free address: the search skips
  only addresses in use and addresses maclet reserves.
\<close>

theorem alloc_complete:
  "(\<exists>ip. handle_firstAvailableWorkloadIP h used = Inr ip) \<longleftrightarrow>
    (\<exists>ip. handle_address h ip \<and> ip \<notin> set used)"
proof
  assume "\<exists>ip. handle_firstAvailableWorkloadIP h used = Inr ip"
  then show "\<exists>ip. handle_address h ip \<and> ip \<notin> set used"
    using handle_pool.fresh handle_pool.sound by blast
next
  assume "\<exists>ip. handle_address h ip \<and> ip \<notin> set used"
  then show "\<exists>ip. handle_firstAvailableWorkloadIP h used = Inr ip"
    using handle_pool.complete by (metis sum.exhaust)
qed

text \<open>
  Pods served in turn from one handle get pairwise distinct addresses, none of them in use
  before, and as many Pods can be served as there are free addresses.
\<close>

theorem alloc_sequence:
  "(case allocate_all (handle_firstAvailableWorkloadIP h) k used of
      Inr ips \<Rightarrow> length ips = k \<and> distinct ips \<and> set ips \<inter> set used = {} \<and> list_all (handle_address h) ips
    | Inl _ \<Rightarrow> \<not> (\<exists>as. distinct as \<and> length as = k \<and> set as \<subseteq> {ip. handle_address h ip} - set used))"
proof (cases "allocate_all (handle_firstAvailableWorkloadIP h) k used")
  case (Inl e)
  then show ?thesis using handle_pool.serves_enough [of _ h used k] by fastforce
next
  case (Inr ips)
  then show ?thesis using handle_pool.serves_distinct by (fastforce simp: list_all_iff)
qed

text \<open>
  Peers get pairwise distinct gateway addresses, all inside the host range of the bridge
  and never the bridge address itself.
\<close>

theorem peer_gateways_distinct:
  assumes "peerGatewayAddressForCIDR cidr i = Inr a" "peerGatewayAddressForCIDR cidr j = Inr b"
    "i < 2 ^ 32" "j < 2 ^ 32" "i \<noteq> j"
  shows "a \<noteq> b \<and> parse_ip a \<noteq> bridge_ip cidr"
proof -
  define off where "off p k = (if k = 0 then 2 else broadcast_offset (32 - p) - word_of_nat k)" for p k :: nat
  have gt: "3 \<le> unat (off p k) \<and> unat (off p k) = unat (broadcast_offset (32 - p)) - k"
    if "k \<noteq> 0" "k < 2 ^ 32" "word_of_nat k < broadcast_offset (32 - p) - 2" "p \<le> 30" for p k
  proof -
    have "(2 :: nat) ^ 2 \<le> 2 ^ (32 - p)" using that(4) by (intro power_increasing) auto
    then have bo: "3 \<le> unat (broadcast_offset (32 - p))" by (simp add: unat_broadcast_offset)
    then have "unat (broadcast_offset (32 - p) - 2) = unat (broadcast_offset (32 - p)) - 2"
      by (subst unat_sub) (simp_all add: word_le_nat_alt)
    moreover have "unat (word_of_nat k :: ip4) = k" using that(2) by (simp add: unat_of_nat take_bit_nat_eq_self)
    ultimately have k: "k < unat (broadcast_offset (32 - p)) - 2" using that(3) by (simp add: word_less_nat_alt)
    moreover have "unat (off p k) = unat (broadcast_offset (32 - p)) - k"
      unfolding off_def using that(1) k \<open>unat (word_of_nat k) = k\<close>
      by (simp, subst unat_sub) (simp_all add: word_le_nat_alt)
    ultimately show ?thesis by simp
  qed
  obtain w p where a: "v4_net cidr w p" "p \<le> 30" "a = ip4_string (w + off p i)"
    "i = 0 \<or> word_of_nat i < broadcast_offset (32 - p) - 2"
    by (rule peerGateway_Inr [OF assms(1), folded off_def])
  obtain w' p' where b: "v4_net cidr w' p'" "p' \<le> 30" "b = ip4_string (w' + off p' j)"
    "j = 0 \<or> word_of_nat j < broadcast_offset (32 - p') - 2"
    by (rule peerGateway_Inr [OF assms(2), folded off_def])
  have eq: "w' = w" "p' = p" using v4_net_unique [OF a(1) b(1)] by auto
  have "off p i \<noteq> off p j"
  proof
    assume o': "off p i = off p j"
    have two: "unat (off p 0) = 2" by (simp add: off_def)
    show False using o' two gt [of i p] gt [of j p] a b(4) eq assms(3-5)
      by (cases "i = 0"; cases "j = 0") auto
  qed
  moreover have "off p i \<noteq> 1"
    using gt [of i p] a assms(3) by (cases "i = 0") (auto simp: off_def)
  ultimately show ?thesis using a b eq bridge_ip_v4 [OF a(1,2)] by auto
qed

lemma peer_gateways_distinct_witness:
  "''10.42.7.2'' \<noteq> ''10.42.7.6'' \<and> parse_ip ''10.42.7.2'' \<noteq> bridge_ip ''10.42.7.0/29''"
proof -
  have "peerGatewayAddressForCIDR ''10.42.7.0/29'' 0 = Inr ''10.42.7.2''"
    "peerGatewayAddressForCIDR ''10.42.7.0/29'' 1 = Inr ''10.42.7.6''" by code_simp+
  from peer_gateways_distinct [OF this] show ?thesis by simp
qed

section \<open>The handle\<close>

text \<open>
  C22: a network that was set up satisfies the invariant, and adding or removing an alias,
  following a gateway MAC and cleaning up keep it, whatever the commands return.
\<close>

theorem handle_invariant:
  "(setupDarwinNetwork E cfg vx peers mac tr = (Inr h1, tr1) \<longrightarrow> net_inv h1) \<and>
   (net_inv h \<longrightarrow> net_inv (fst (snd (addWorkloadIP E h ip tr))) \<and>
     net_inv (fst (snd (removeWorkloadIP E h ip tr))) \<and>
     net_inv (fst (snd (setGatewayMAC E h mac tr))) \<and> net_inv (fst (snd (net_cleanup E h tr))))"
  using setupDarwinNetwork_inv addWorkloadIP_inv removeWorkloadIP_inv setGatewayMAC_inv net_cleanup_inv
  by (metis prod.collapse)

lemma demo_handle_inv: "net_inv demo_handle"
proof -
  have "v4_net ''10.42.7.0/29'' 0x0A2A0700 29" by code_simp
  moreover have "ip4_string (0x0A2A0700 + 2) = ''10.42.7.2''" by code_simp
  ultimately have "net_base demo_handle 0x0A2A0700 29" by (simp add: net_base_def demo_handle_def)
  then show ?thesis by (auto simp: net_inv_def demo_handle_def)
qed

lemma handle_invariant_witness:
  "net_inv (fst (snd (removeWorkloadIP quiet_env demo_handle ''10.42.7.4'' [])))"
  using handle_invariant demo_handle_inv by blast

text \<open>
  On every handle that satisfies the invariant the check that guards the installation of an
  alias accepts exactly the addresses that the validation of Pod status accepts.
\<close>

theorem address_checks_agree:
  assumes "net_inv h"
  shows "(\<exists>c. check_workload_ip h ip = Inr c) \<longleftrightarrow> handle_validateWorkloadAddress h ip = None"
proof -
  obtain w p where b: "net_base h w p" using assms by (auto simp: net_inv_def)
  have "handle_validateWorkloadAddress h ip = None \<Longrightarrow> \<exists>a. parse_to4 ip = Some a"
    by (auto simp: handle_validateWorkloadAddress_def validateWorkloadAddress_def split: option.splits)
  then show ?thesis by (auto simp: check_workload_ip_iff [OF b])
qed

lemma address_checks_agree_witness:
  "(\<exists>c. check_workload_ip demo_handle ''10.42.7.4'' = Inr c) \<longleftrightarrow>
     handle_validateWorkloadAddress demo_handle ''10.42.7.4'' = None"
  by (rule address_checks_agree [OF demo_handle_inv])

text \<open>
  Adding a workload address runs at most one command, that command aliases the canonical
  spelling of an address which passes the validation, on the handle's own interface, and a
  successful result means the handle owns the alias.
\<close>

theorem add_only_validated:
  assumes "net_inv h" "addWorkloadIP E h ip tr = (r, h', tr')"
  shows "\<exists>es. tr' = es @ tr \<and>
    (\<forall>e \<in> set es. (\<exists>is. e = EvIfaces is) \<or>
       (\<exists>a out res. e = EvCmd (privileged_argv (nh_sudo h) (alias_argv h (ip4_string a))) out res \<and>
          parse_to4 ip = Some a \<and> handle_validateWorkloadAddress h ip = None)) \<and>
    length (filter (\<lambda>e. \<not> (\<exists>is. e = EvIfaces is)) es) \<le> 1 \<and>
    (r = None \<longrightarrow> (\<exists>a. parse_to4 ip = Some a \<and> ip4_string a \<in> set (nh_aliases h')))"
proof (cases "check_workload_ip h ip")
  case (Inl e)
  then have "r = Some e" "tr' = tr" using assms(2) by (auto simp: addWorkloadIP_def)
  then show ?thesis by auto
next
  case (Inr c)
  obtain w p where "net_base h w p" using assms(1) by (auto simp: net_inv_def)
  from check_workload_ip_iff [OF this, of ip c] Inr obtain a where a: "parse_to4 ip = Some a"
    "c = ip4_string a" "handle_validateWorkloadAddress h ip = None" by auto
  have fin: ?thesis if "tr' = es1 @ es2 @ es3 @ tr" "only_lookups es1" "only_lookups es3"
    "es2 = [] \<or> (\<exists>out res. es2 = [EvCmd (privileged_argv (nh_sudo h) (alias_argv h c)) out res])" for es1 es2 es3
  proof -
    have "r = None \<longrightarrow> c \<in> set (nh_aliases h')"
      using assms(2) Inr by (cases rule: addWorkloadIP_cases) auto
    moreover have "filter (\<lambda>e. \<not> (\<exists>is. e = EvIfaces is)) es1 = []" "filter (\<lambda>e. \<not> (\<exists>is. e = EvIfaces is)) es3 = []"
      using that(2,3) by (auto simp: filter_empty_conv)
    ultimately show ?thesis
      by (intro exI [of _ "es1 @ es2 @ es3"]) (use that a in auto)
  qed
  show ?thesis
  proof (cases "c \<in> set (nh_aliases h)")
    case True
    with Inr assms(2) have "tr' = tr" by (simp add: addWorkloadIP_def)
    then show ?thesis by (intro fin [of "[]" "[]" "[]"]) auto
  next
    case False
    obtain q tr1 where q: "interfaceForAddress E (c @ ''/32'') tr = (q, tr1)" by force
    obtain es3 where es3: "tr1 = es3 @ tr" "only_lookups es3" using q by (rule interfaceForAddress_trace)
    show ?thesis
    proof (cases "q = Inr []")
      case True
      with q Inr False assms(2) have "install_alias E h c tr1 = (r, h', tr')"
        by (simp add: addWorkloadIP_def)
      then obtain es1 out res where
        "tr' = es1 @ EvCmd (privileged_argv (nh_sudo h) (alias_argv h c)) out res # tr1" "only_lookups es1"
        by (rule install_alias_trace)
      with es3 fin [of es1 "[EvCmd (privileged_argv (nh_sudo h) (alias_argv h c)) out res]" es3]
      show ?thesis by auto
    next
      case ne: False
      with q Inr False assms(2) have "tr' = tr1"
        by (cases q) (auto simp: addWorkloadIP_def split: if_splits)
      with es3 fin [of "[]" "[]" es3] show ?thesis by auto
    qed
  qed
qed

lemma demo_add:
  "addWorkloadIP quiet_env demo_handle ''10.42.7.4'' [] =
    (None, add_alias demo_handle ''10.42.7.4'',
      [EvCmd [''sudo'', ''-n'', ''ifconfig'', ''bridge100'', ''inet'', ''10.42.7.4'', ''netmask'',
         ''255.255.255.255'', ''alias''] [] None, EvIfaces (Inr [])])"
  by code_simp

lemma add_only_validated_witness:
  "\<exists>a. parse_to4 ''10.42.7.4'' = Some a \<and> ip4_string a \<in> {''10.42.7.4''}"
  using add_only_validated [OF demo_handle_inv demo_add] by (auto simp: demo_handle_def)

text \<open>
  A cleanup that reports no error has removed every alias the handle owned.
\<close>

theorem cleanup_removes_aliases:
  assumes "net_inv h" "net_cleanup E h tr = (None, h', tr')"
  shows "nh_aliases h' = []"
proof -
  obtain b tr1 where i: "interface_exists E (nh_interface h) tr = (b, tr1)" by force
  have inv: "distinct (nh_aliases h)" "\<forall>a \<in> set (nh_aliases h). canonical a"
    using assms(1) net_inv_canonical by (auto simp: net_inv_def)
  obtain es1 h1 tr2 where a: "cleanup_aliases E (length (nh_aliases h)) h tr1 = (es1, h1, tr2)"
    by (metis surj_pair)
  show ?thesis
  proof (cases b)
    case True
    with i a assms(2) have "es1 = [] \<and> h' = h1"
      by (auto simp: net_cleanup_def errors_join_def split: prod.splits if_splits)
    with a cleanup_aliases_empty [OF inv order_refl, of E tr1 h1 tr2] show ?thesis by simp
  next
    case False
    with i assms(2) show ?thesis by (auto simp: net_cleanup_def)
  qed
qed

lemma cleanup_removes_aliases_witness:
  "\<exists>h tr. net_cleanup (quiet_env\<lparr>e_ifaces := \<lambda>_. Inr [\<lparr>if_name = ''bridge100'', if_mac = [], if_addrs = None\<rparr>]\<rparr>)
     (add_alias demo_handle ''10.42.7.4'') [] = (None, h, tr) \<and> nh_aliases h = []"
    (is "\<exists>h tr. net_cleanup ?E ?h [] = (None, h, tr) \<and> _")
proof -
  have "fst (net_cleanup ?E ?h []) = None" by code_simp
  then obtain h tr where c: "net_cleanup ?E ?h [] = (None, h, tr)" by (metis prod.collapse)
  have "net_inv ?h" by (rule addWorkloadIP_inv [OF demo_handle_inv demo_add])
  from cleanup_removes_aliases [OF this c] c show ?thesis by blast
qed

end
