(* ===== verification/Codec.thy ===== *)
theory Codec
  imports World "HOL-Library.Monad_Syntax"
begin

text \<open>
  How \<^verbatim>\<open>encoding/json\<close> reads and writes the structs that maclet persists: a field with
  \<^verbatim>\<open>omitempty\<close> is left out when it has the zero value, an absent or null field reads as the
  zero value, a value of another type is a decoding error.  The locale \<open>codec\<close> states what every
  persisted format promises.
\<close>

section \<open>Fields\<close>

type_synonym fields = "(string \<times> json) list"

definition jget :: "fields \<Rightarrow> string \<Rightarrow> json" where
  "jget fs k = (case map_of fs k of Some v \<Rightarrow> v | None \<Rightarrow> JNull)"

fun j_str :: "json \<Rightarrow> string option" where
  "j_str JNull = Some []"
| "j_str (JStr s) = Some s"
| "j_str _ = None"

fun j_bool :: "json \<Rightarrow> bool option" where
  "j_bool JNull = Some False"
| "j_bool (JBool b) = Some b"
| "j_bool _ = None"

fun j_int :: "json \<Rightarrow> int option" where
  "j_int JNull = Some 0"
| "j_int (JInt i) = Some i"
| "j_int _ = None"

fun j_list :: "json \<Rightarrow> json list option" where
  "j_list JNull = Some []"
| "j_list (JList js) = Some js"
| "j_list _ = None"

fun j_obj :: "json \<Rightarrow> fields option" where
  "j_obj JNull = Some []"
| "j_obj (JObj fs) = Some fs"
| "j_obj _ = None"

text \<open>An \<^verbatim>\<open>int32\<close> field, refused out of its range.\<close>

definition j_int32 :: "json \<Rightarrow> 32 word option" where
  "j_int32 j = (case j_int j of
       Some i \<Rightarrow> if - (2 ^ 31) \<le> i \<and> i < 2 ^ 31 then Some (word_of_int i) else None
     | None \<Rightarrow> None)"

fun all_some :: "'a option list \<Rightarrow> 'a list option" where
  "all_some [] = Some []"
| "all_some (None # xs) = None"
| "all_some (Some x # xs) = map_option (Cons x) (all_some xs)"

definition j_strs :: "json \<Rightarrow> string list option" where
  "j_strs j = Option.bind (j_list j) (\<lambda>js. all_some (map j_str js))"

definition omit_str :: "string \<Rightarrow> string \<Rightarrow> fields" where
  "omit_str k s = (if s = [] then [] else [(k, JStr s)])"

definition omit_bool :: "string \<Rightarrow> bool \<Rightarrow> fields" where
  "omit_bool k b = (if b then [(k, JBool b)] else [])"

definition omit_int :: "string \<Rightarrow> int \<Rightarrow> fields" where
  "omit_int k i = (if i = 0 then [] else [(k, JInt i)])"

definition omit_list :: "string \<Rightarrow> json list \<Rightarrow> fields" where
  "omit_list k js = (if js = [] then [] else [(k, JList js)])"

definition json_error :: err where
  "json_error = EMsg ''invalid JSON''"

section \<open>Reading back what was written\<close>

lemma jget_simps [simp]:
  "jget [] k = JNull"
  "jget ((k', v) # fs) k = (if k' = k then v else jget fs k)"
  "jget (omit_str k' s @ fs) k = (if k' = k \<and> s \<noteq> [] then JStr s else jget fs k)"
  "jget (omit_bool k' b @ fs) k = (if k' = k \<and> b then JBool b else jget fs k)"
  "jget (omit_int k' i @ fs) k = (if k' = k \<and> i \<noteq> 0 then JInt i else jget fs k)"
  "jget (omit_list k' js @ fs) k = (if k' = k \<and> js \<noteq> [] then JList js else jget fs k)"
  "jget (omit_str k' s) k = (if k' = k \<and> s \<noteq> [] then JStr s else JNull)"
  "jget (omit_bool k' b) k = (if k' = k \<and> b then JBool b else JNull)"
  "jget (omit_list k' js) k = (if k' = k \<and> js \<noteq> [] then JList js else JNull)"
  by (auto simp: jget_def omit_str_def omit_bool_def omit_int_def omit_list_def)

lemma j_read_if [simp]:
  "j_str (if s \<noteq> [] then JStr s else JNull) = Some s"
  "j_bool (if b then JBool b else JNull) = Some b"
  "j_bool (if b then JBool True else JNull) = Some b"
  "j_int (if i \<noteq> 0 then JInt i else JNull) = Some i"
  "j_list (if js \<noteq> [] then JList js else JNull) = Some js"
  by simp_all

lemma all_some_map: "(\<And>x. x \<in> set xs \<Longrightarrow> f (g x) = Some x) \<Longrightarrow> all_some (map (\<lambda>x. f (g x)) xs) = Some xs"
  by (induction xs) auto

lemma j_strs_read [simp]: "j_strs (if xs \<noteq> [] then JList (map JStr xs) else JNull) = Some xs"
  using all_some_map [of xs j_str JStr] by (cases xs) (simp_all add: j_strs_def comp_def)

lemma sint32_range: "- (2 ^ 31) \<le> sint w \<and> sint w < 2 ^ 31" for w :: "32 word"
  using sint_range_size [of w] by (simp add: word_size)

lemma j_int32_read [simp]: "j_int32 (if sint w \<noteq> 0 then JInt (sint w) else JNull) = Some w" for w :: "32 word"
  using sint32_range [of w] by (auto simp: j_int32_def)

section \<open>The contract of a persisted format\<close>

locale codec =
  fixes enc :: "'a \<Rightarrow> json"
    and dec :: "json \<Rightarrow> 'a option"
    and storable :: "'a \<Rightarrow> bool"
  assumes dec_enc: "storable x \<Longrightarrow> dec (enc x) = Some x"
begin

lemma enc_inject: "storable x \<Longrightarrow> storable y \<Longrightarrow> enc x = enc y \<Longrightarrow> x = y"
  by (metis dec_enc option.inject)

lemma dec_list: "list_all storable xs \<Longrightarrow> all_some (map (\<lambda>x. dec (enc x)) xs) = Some xs"
  by (rule all_some_map) (auto simp: dec_enc list_all_iff)

end

end
