(* ===== verification/FilePath.thy ===== *)
theory FilePath
  imports Prelude
begin

text \<open>
  The lexical operations of Go's packages \<^verbatim>\<open>path\<close> and \<^verbatim>\<open>path/filepath\<close> on Unix, on
  components: \<^verbatim>\<open>Clean\<close>, \<^verbatim>\<open>IsAbs\<close>, \<^verbatim>\<open>Join\<close>, \<^verbatim>\<open>Base\<close>, \<^verbatim>\<open>Dir\<close> and \<^verbatim>\<open>Rel\<close>.
\<close>

abbreviation slash :: char where
  "slash \<equiv> CHR ''/''"

definition is_abs :: "string \<Rightarrow> bool" where
  "is_abs p \<longleftrightarrow> has_prefix p ''/''"

text \<open>
  The components of a cleaned path, newest first: empty components and dots vanish, a parent
  reference removes the component before it; at the root it vanishes, at the start of a relative
  path it stays.
\<close>

fun clean_step :: "bool \<Rightarrow> string list \<Rightarrow> string \<Rightarrow> string list" where
  "clean_step rooted out c =
    (if c = [] \<or> c = ''.'' then out
     else if c = ''..'' then
       (case out of [] \<Rightarrow> if rooted then [] else [''..'']
        | d # ds \<Rightarrow> if d = ''..'' then ''..'' # out else ds)
     else c # out)"

definition clean_comps :: "bool \<Rightarrow> string list \<Rightarrow> string list" where
  "clean_comps rooted cs = rev (foldl (clean_step rooted) [] cs)"

definition path_comps :: "string \<Rightarrow> string list" where
  "path_comps p = clean_comps (is_abs p) (split_on slash p)"

definition path_of :: "bool \<Rightarrow> string list \<Rightarrow> string" where
  "path_of rooted cs = (if rooted then slash # str_join ''/'' cs
     else if cs = [] then ''.'' else str_join ''/'' cs)"

definition path_clean :: "string \<Rightarrow> string" where
  "path_clean p = path_of (is_abs p) (path_comps p)"

definition path_join :: "string list \<Rightarrow> string" where
  "path_join ps = (let ne = filter (\<lambda>p. p \<noteq> []) ps in
     if ne = [] then [] else path_clean (str_join ''/'' ne))"

definition path_base :: "string \<Rightarrow> string" where
  "path_base p = (if p = [] then ''.''
     else (let q = trim_right_chars p ''/'' in
       if q = [] then ''/'' else last (split_on slash q)))"

definition path_dir :: "string \<Rightarrow> string" where
  "path_dir p = (let cs = split_on slash p in
     path_clean (if length cs = 1 then [] else str_join ''/'' (butlast cs) @ ''/''))"

text \<open>\<^verbatim>\<open>Rel\<close> on cleaned paths: up from what is left of the base, down to what is left of the target.\<close>

fun drop_common :: "string list \<Rightarrow> string list \<Rightarrow> string list \<times> string list" where
  "drop_common (b # bs) (t # ts) = (if b = t then drop_common bs ts else (b # bs, t # ts))"
| "drop_common bs ts = (bs, ts)"

definition path_rel :: "string \<Rightarrow> string \<Rightarrow> string option" where
  "path_rel base target =
    (if is_abs base \<noteq> is_abs target then None
     else (case drop_common (path_comps base) (path_comps target) of (bs, ts) \<Rightarrow>
       if ''..'' \<in> set (take 1 bs) then None
       else Some (path_of False (replicate (length bs) ''..'' @ ts))))"

section \<open>Facts about cleaned paths\<close>

text \<open>A clean component list: proper names, after a run of parent references if relative.\<close>

definition proper :: "string \<Rightarrow> bool" where
  "proper c \<longleftrightarrow> c \<noteq> [] \<and> c \<noteq> ''.'' \<and> c \<noteq> ''..'' \<and> slash \<notin> set c"

definition clean_list :: "bool \<Rightarrow> string list \<Rightarrow> bool" where
  "clean_list rooted cs \<longleftrightarrow> (\<exists>n ds. cs = replicate n ''..'' @ ds \<and> (rooted \<longrightarrow> n = 0) \<and> list_all proper ds)"

lemma clean_step_clean:
  assumes "clean_list rooted (rev out)" "slash \<notin> set c"
  shows "clean_list rooted (rev (clean_step rooted out c))"
proof -
  obtain n ds where o: "rev out = replicate n ''..'' @ ds" and n: "rooted \<longrightarrow> n = 0" and ds: "list_all proper ds"
    using assms(1) by (auto simp: clean_list_def)
  consider "c = [] \<or> c = ''.''" | "c = ''..''" | "proper c" using assms(2) by (auto simp: proper_def)
  then show ?thesis
  proof cases
    case 1
    with assms(1) show ?thesis by simp
  next
    case 2
    show ?thesis
    proof (cases ds rule: rev_cases)
      case Nil
      then have out: "out = replicate n ''..''" using o by (metis append_Nil2 rev_replicate rev_swap)
      show ?thesis
      proof (cases n)
        case 0
        with 2 out show ?thesis by (auto simp: clean_list_def intro: exI [of _ 1])
      next
        case (Suc k)
        with n have "\<not> rooted" by simp
        with 2 out Suc show ?thesis
          by (auto simp: clean_list_def replicate_append_same intro!: exI [of _ "Suc (Suc k)"])
      qed
    next
      case (snoc es e)
      then have "out = e # rev (replicate n ''..'' @ es)" using o by (metis append_assoc rev.simps(2) rev_eq_Cons_iff rev_rev_ident rev_append)
      moreover have "e \<noteq> ''..''" "list_all proper es" using ds snoc by (auto simp: proper_def)
      ultimately show ?thesis using 2 n by (auto simp: clean_list_def)
    qed
  next
    case 3
    then have "clean_step rooted out c = c # out" by (simp add: proper_def)
    with o n ds 3 show ?thesis
      unfolding clean_list_def by (intro exI [of _ n] exI [of _ "ds @ [c]"]) simp
  qed
qed

lemma clean_comps_clean:
  assumes "\<forall>c \<in> set cs. slash \<notin> set c"
  shows "clean_list rooted (clean_comps rooted cs)"
proof -
  have "clean_list rooted (rev out) \<Longrightarrow> clean_list rooted (rev (foldl (clean_step rooted) out cs))" for out
    using assms
  proof (induction cs arbitrary: out)
    case (Cons c cs)
    have "clean_list rooted (rev (clean_step rooted out c))"
      using Cons.prems by (intro clean_step_clean) auto
    with Cons.IH Cons.prems show ?case by simp
  qed simp
  then show ?thesis by (simp add: clean_comps_def clean_list_def)
qed

lemma path_comps_clean: "clean_list (is_abs p) (path_comps p)"
  unfolding path_comps_def by (rule clean_comps_clean) (auto dest: split_on_no_sep)

lemma clean_comps_id: "clean_list rooted cs \<Longrightarrow> clean_comps rooted cs = cs"
proof -
  have ups: "\<not> rooted \<Longrightarrow> foldl (clean_step rooted) (replicate m ''..'') (replicate n ''..'') = replicate (n + m) ''..''" for n m
  proof (induction n arbitrary: m)
    case (Suc n)
    have "clean_step rooted (replicate m ''..'') ''..'' = replicate (Suc m) ''..''"
      using Suc.prems by (cases m) auto
    with Suc.IH [of "Suc m"] Suc.prems show ?case by simp
  qed simp
  have names: "list_all proper ds \<Longrightarrow> foldl (clean_step rooted) out ds = rev ds @ out" for ds out
    by (induction ds arbitrary: out) (auto simp: proper_def)
  assume "clean_list rooted cs"
  then obtain n ds where "cs = replicate n ''..'' @ ds" "rooted \<longrightarrow> n = 0" "list_all proper ds"
    by (auto simp: clean_list_def)
  with ups [of 0 n] names show ?thesis
    by (cases rooted) (simp_all add: clean_comps_def)
qed

lemma clean_list_comp: "clean_list rooted cs \<Longrightarrow> c \<in> set cs \<Longrightarrow> c \<noteq> [] \<and> c \<noteq> ''.'' \<and> slash \<notin> set c"
proof -
  assume "clean_list rooted cs" and c: "c \<in> set cs"
  then obtain n ds where "cs = replicate n ''..'' @ ds" "list_all proper ds" by (auto simp: clean_list_def)
  with c have "c = ''..'' \<or> proper c" by (auto simp: list_all_iff)
  then show ?thesis by (elim disjE) (simp_all add: proper_def)
qed

lemma is_abs_Cons: "is_abs (c # s) \<longleftrightarrow> c = slash"
  by (simp add: is_abs_def has_prefix_def)

lemma is_abs_path_of:
  assumes "clean_list rooted cs"
  shows "is_abs (path_of rooted cs) = rooted"
proof (cases "rooted \<or> cs = []")
  case True
  then show ?thesis by (cases rooted) (simp_all add: path_of_def is_abs_Cons)
next
  case False
  then obtain c cs' where cs: "cs = c # cs'" by (cases cs) auto
  then have "c \<noteq> []" "slash \<notin> set c" using clean_list_comp [OF assms, of c] by simp_all
  then obtain x xs where c: "c = x # xs" "x \<noteq> slash" by (cases c) auto
  have "str_join ''/'' cs = x # tl (str_join ''/'' cs)" unfolding cs c(1) by (cases cs') simp_all
  then have "is_abs (str_join ''/'' cs) \<longleftrightarrow> x = slash" by (metis is_abs_Cons)
  with False c show ?thesis by (simp add: path_of_def)
qed

lemma path_comps_path_of:
  assumes "clean_list rooted cs"
  shows "path_comps (path_of rooted cs) = cs"
proof -
  have no: "\<forall>c \<in> set cs. slash \<notin> set c" using clean_list_comp [OF assms] by blast
  have *: "clean_comps r ([] # ds) = clean_comps r ds" for r ds by (simp add: clean_comps_def)
  have "clean_comps rooted (split_on slash (path_of rooted cs)) = cs"
  proof (cases "cs = []")
    case True
    then show ?thesis by (auto simp: path_of_def clean_comps_def)
  next
    case False
    with no have "split_on slash (path_of rooted cs) = (if rooted then [] # cs else cs)"
      by (simp add: path_of_def split_on_join)
    with clean_comps_id [OF assms] show ?thesis by (cases rooted) (simp_all add: *)
  qed
  then show ?thesis by (simp add: path_comps_def is_abs_path_of [OF assms])
qed

lemma path_clean_idem [simp]: "path_clean (path_clean p) = path_clean p"
  using path_comps_clean [of p]
  by (simp add: path_clean_def is_abs_path_of path_comps_path_of)

lemma path_clean_abs [simp]: "is_abs (path_clean p) = is_abs p"
  by (simp add: path_clean_def is_abs_path_of path_comps_clean)

section \<open>Joining below a root\<close>

definition plain :: "string \<Rightarrow> bool" where
  "plain c \<longleftrightarrow> c \<noteq> [] \<and> c \<noteq> ''.''"

lemma clean_steps_names:
  "''..'' \<notin> set cs \<Longrightarrow> foldl (clean_step rooted) out cs = rev (filter plain cs) @ out"
  by (induction cs arbitrary: out) (auto simp: plain_def)

lemma path_comps_names:
  "''..'' \<notin> set (split_on slash p) \<Longrightarrow> path_comps p = filter plain (split_on slash p)"
  by (simp add: path_comps_def clean_comps_def clean_steps_names)

lemma is_abs_append: "is_abs root \<Longrightarrow> is_abs (root @ s)"
  by (auto simp: is_abs_def has_prefix_iff)

lemma path_join_abs: "is_abs root \<Longrightarrow> is_abs (path_join (root # ps))"
proof -
  assume a: "is_abs root"
  then have ne: "root \<noteq> []" by (auto simp: is_abs_def has_prefix_def)
  obtain s where "str_join ''/'' (root # filter (\<lambda>p. p \<noteq> []) ps) = root @ s"
    by (cases "filter (\<lambda>p. p \<noteq> []) ps") auto
  with a ne show ?thesis by (simp add: path_join_def is_abs_append)
qed

text \<open>A relative path without parent references stays below the root it is joined to.\<close>

lemma path_join_below:
  assumes "is_abs root" "''..'' \<notin> set (split_on slash rel)"
  shows "path_comps (path_join [root, rel]) = path_comps root @ filter plain (split_on slash rel)"
    and "is_abs (path_join [root, rel])"
proof -
  have ne: "root \<noteq> []" using assms(1) by (auto simp: is_abs_def has_prefix_def)
  define s where "s = (if rel = [] then root else root @ slash # rel)"
  have j: "path_join [root, rel] = path_clean s" using ne by (simp add: path_join_def s_def)
  have abs: "is_abs s" using assms(1) is_abs_append by (simp add: s_def)
  have "path_comps (path_clean s) = path_comps s"
    unfolding path_clean_def by (rule path_comps_path_of) (rule path_comps_clean)
  moreover have "path_comps s = path_comps root @ filter plain (split_on slash rel)"
    using assms abs
    by (auto simp: s_def path_comps_def clean_comps_def split_on_append clean_steps_names plain_def)
  ultimately show "path_comps (path_join [root, rel]) = path_comps root @ filter plain (split_on slash rel)"
    by (simp add: j)
  show "is_abs (path_join [root, rel])" using abs j by simp
qed

lemma proper_comps:
  "''..'' \<notin> set (split_on slash p) \<Longrightarrow> list_all proper (filter plain (split_on slash p))"
  by (auto simp: list_all_iff proper_def plain_def dest: split_on_no_sep)

text \<open>A cleaned path without parent references has only the components of the path.\<close>

lemma split_clean_comps:
  assumes "''..'' \<notin> set (split_on slash p)" "c \<in> set (split_on slash (path_clean p))"
  shows "c \<in> set (split_on slash p) \<or> c = [] \<or> c = ''.''"
proof -
  let ?cs = "filter plain (split_on slash p)"
  have pc: "path_comps p = ?cs" using assms(1) by (rule path_comps_names)
  have no: "\<forall>c \<in> set ?cs. slash \<notin> set c" by (auto dest: split_on_no_sep)
  show ?thesis
  proof (cases "?cs = []")
    case True
    with assms(2) pc show ?thesis by (auto simp: path_clean_def path_of_def split: if_splits)
  next
    case False
    then have "split_on slash (str_join ''/'' ?cs) = ?cs" using no by (intro split_on_join)
    with assms(2) pc False show ?thesis by (auto simp: path_clean_def path_of_def split: if_splits)
  qed
qed

end
