(* ===== verification/StateFiles.thy ===== *)
theory StateFiles
  imports Codec FilePath
begin

text \<open>
  \<^verbatim>\<open>state_files.go\<close>: private files are written to a temporary file in their directory that is
  renamed over the destination, then given to the user who invoked \<^verbatim>\<open>sudo\<close>.
\<close>

definition atoi_error :: "string \<Rightarrow> err" where
  "atoi_error s = EMsg (''strconv.Atoi: parsing '' @ quote s @ '': invalid syntax'')"

definition invokingOwner :: "env \<Rightarrow> err + (int \<times> int) option" where
  "invokingOwner E =
    (if e_euid E \<noteq> 0 \<or> e_getenv E ''SUDO_UID'' = [] \<or> e_getenv E ''SUDO_GID'' = [] then Inr None
     else (case atoi (e_getenv E ''SUDO_UID'') of
         None \<Rightarrow> Inl (wrap ''parse SUDO_UID: '' (atoi_error (e_getenv E ''SUDO_UID'')))
       | Some uid \<Rightarrow> (case atoi (e_getenv E ''SUDO_GID'') of
           None \<Rightarrow> Inl (wrap ''parse SUDO_GID: '' (atoi_error (e_getenv E ''SUDO_GID'')))
         | Some gid \<Rightarrow> Inr (Some (uid, gid)))))"

definition chownToInvokingUser :: "env \<Rightarrow> string \<Rightarrow> err option io" where
  "chownToInvokingUser E path tr = (case invokingOwner E of
       Inl e \<Rightarrow> (Some e, tr)
     | Inr None \<Rightarrow> (None, tr)
     | Inr (Some (uid, gid)) \<Rightarrow> (case fs_do E (Chown path uid gid) tr of
         (Some e, tr) \<Rightarrow> (Some (wrap (''set owner on '' @ path @ '': '') e), tr)
       | (None, tr) \<Rightarrow> (None, tr)))"

text \<open>The steps after the temporary file exists, before the deferred removal of its name.\<close>

definition install_private :: "env \<Rightarrow> string \<Rightarrow> string \<Rightarrow> content \<Rightarrow> int \<Rightarrow> err option io" where
  "install_private E tmp path body mode tr = (case fs_do E (ChmodTemp tmp mode) tr of
       (Some e, tr) \<Rightarrow> (Some e, snd (fs_do E (CloseTemp tmp) tr))
     | (None, tr) \<Rightarrow> (case fs_do E (WriteTemp tmp body) tr of
         (Some e, tr) \<Rightarrow> (Some e, snd (fs_do E (CloseTemp tmp) tr))
       | (None, tr) \<Rightarrow> (case fs_do E (CloseTemp tmp) tr of
           (Some e, tr) \<Rightarrow> (Some e, tr)
         | (None, tr) \<Rightarrow> (case fs_do E (Rename tmp path) tr of
             (Some e, tr) \<Rightarrow> (Some (wrap (''install '' @ path @ '': '') e), tr)
           | (None, tr) \<Rightarrow> chownToInvokingUser E path tr))))"

definition writePrivateFile :: "env \<Rightarrow> string \<Rightarrow> content \<Rightarrow> int \<Rightarrow> err option io" where
  "writePrivateFile E path body mode tr =
    (case fs_names E (CreateTemp (path_dir path) ''.maclet-*'') tr of
       (Inl e, tr) \<Rightarrow> (Some (wrap (''create temporary file for '' @ path @ '': '') e), tr)
     | (Inr names, tr) \<Rightarrow> (let tmp = concat names in
         case install_private E tmp path body mode tr of
           (r, tr) \<Rightarrow> (r, snd (fs_do E (Remove tmp) tr))))"

text \<open>
  \<open>installed path body tr\<close>: the newest event concerning \<open>path\<close> is the rename of a temporary
  file whose last write, completed, was \<open>body\<close>.
\<close>

definition renames_to :: "string \<Rightarrow> event \<Rightarrow> bool" where
  "renames_to path e \<longleftrightarrow> (\<exists>tmp r. e = EvFs (Rename tmp path) r \<and> fs_err r = None)"

definition wrote_temp :: "string \<Rightarrow> content \<Rightarrow> event \<Rightarrow> bool" where
  "wrote_temp tmp body e \<longleftrightarrow> (\<exists>r. e = EvFs (WriteTemp tmp body) r \<and> fs_err r = None)"

definition installed :: "string \<Rightarrow> content \<Rightarrow> trace \<Rightarrow> bool" where
  "installed path body tr \<longleftrightarrow> (\<exists>post tmp r mid w pre. tr = post @ EvFs (Rename tmp path) r # mid @ w # pre \<and>
     fs_err r = None \<and> wrote_temp tmp body w \<and> (\<forall>e \<in> set post. \<not> renames_to path e))"

text \<open>A write that reports success has installed the content; a failed one renamed nothing.\<close>

lemma writePrivateFile_ok:
  assumes "writePrivateFile E path body mode tr = (None, tr')"
  shows "installed path body tr' \<and> (\<exists>es. tr' = es @ tr)"
proof -
  obtain names tr1 where n: "fs_names E (CreateTemp (path_dir path) ''.maclet-*'') tr = (Inr names, tr1)"
    using assms by (auto simp: writePrivateFile_def split: prod.splits sum.splits)
  have tr1: "\<exists>r. tr1 = EvFs (CreateTemp (path_dir path) ''.maclet-*'') r # tr"
    using n by (auto simp: fs_names_def call_fs_def Let_def split: fs_response.splits)
  define tmp where "tmp = concat names"
  obtain tr2 where p: "install_private E tmp path body mode tr1 = (None, tr2)"
    and tr': "tr' = EvFs (Remove tmp) (e_fs E tr2 (Remove tmp)) # tr2"
    using assms n by (auto simp: writePrivateFile_def Let_def tmp_def fs_do_eq split: prod.splits)
  let ?a = "EvFs (ChmodTemp tmp mode) (e_fs E tr1 (ChmodTemp tmp mode)) # tr1"
  let ?b = "EvFs (WriteTemp tmp body) (e_fs E ?a (WriteTemp tmp body)) # ?a"
  let ?c = "EvFs (CloseTemp tmp) (e_fs E ?b (CloseTemp tmp)) # ?b"
  let ?r = "e_fs E ?c (Rename tmp path)"
  let ?d = "EvFs (Rename tmp path) ?r # ?c"
  have ok: "fs_err (e_fs E ?a (WriteTemp tmp body)) = None" "fs_err ?r = None"
    "chownToInvokingUser E path ?d = (None, tr2)"
    using p by (auto simp: install_private_def fs_do_eq split: option.splits)
  obtain post where post: "tr2 = post @ ?d" "\<forall>e \<in> set post. \<not> renames_to path e"
    using ok(3) by (auto simp: chownToInvokingUser_def fs_do_eq renames_to_def
        split: sum.splits option.splits prod.splits)
  have "installed path body tr'"
    unfolding installed_def tr' post(1)
    by (rule exI [of _ "EvFs (Remove tmp) (e_fs E tr2 (Remove tmp)) # post"], rule exI [of _ tmp], rule exI [of _ ?r],
        rule exI [of _ "[EvFs (CloseTemp tmp) (e_fs E ?b (CloseTemp tmp))]"],
        rule exI [of _ "EvFs (WriteTemp tmp body) (e_fs E ?a (WriteTemp tmp body))"], rule exI [of _ ?a])
      (use ok post in \<open>auto simp: wrote_temp_def renames_to_def\<close>)
  with post tr1 tr' show ?thesis by auto
qed

end
