(* ===== verification/Manager.thy ===== *)
theory Manager
  imports StateFiles NetHandle
begin

text \<open>
  The workload manager (\<^verbatim>\<open>workload_manager.go\<close>, \<^verbatim>\<open>workload_logs.go\<close>): the records it keeps,
  the ownership journal, the Macker commands and the retained logs.  A pointer to a managed
  workload that sits in one of the manager's maps is modelled by the entry of that map: whoever
  changes the workload puts it back.
\<close>

section \<open>State\<close>

record mount_spec =
  nm_server :: string
  nm_share :: string
  nm_options :: "string list"
  nm_read_only :: bool
  nm_legacy :: bool

record mount_record =
  mr_target :: string
  mr_spec :: mount_spec

record managed =
  mw_uid :: string
  mw_namespace :: string
  mw_name :: string
  mw_pod_container :: string
  mw_container :: string
  mw_ip :: string
  mw_restarts :: "32 word"
  mw_volumes :: "string list"
  mw_host_network :: bool
  mw_retained :: bool
  mw_log_file :: string
  mw_log_expires :: "gotime option"
  mw_mounts :: "mount_record list"
  mw_retry :: "gotime option"

record inspection =
  in_status :: string
  in_pid :: int
  in_workload_pid :: int
  in_exit_code :: "int option"
  in_started :: "gotime option"
  in_finished :: "gotime option"
  in_signal :: string
  in_reason :: string

record manager =
  wm_network :: "net_handle option"
  wm_macker :: string
  wm_node_ip :: string
  wm_api :: bool
  wm_journal_path :: string
  wm_volume_root :: string
  wm_workloads :: "(string, managed) gomap"
  wm_retained :: "(string, managed) gomap"
  wm_logs_root :: string
  wm_nfs_root :: string
  wm_log_ttl :: int
  wm_sudo :: bool
  wm_debug :: bool

definition nativeWorkloadLabelKey :: string where
  "nativeWorkloadLabelKey = ''k8s-darwin.dev/native''"

definition nativeDisablePortForwardAnnotation :: string where
  "nativeDisablePortForwardAnnotation = ''k8s-darwin.dev/disable-port-forward''"

definition second :: int where
  "second = 1000000000"

definition workloadRetryDelay :: int where
  "workloadRetryDelay = 10 * second"

definition defaultNativeLogRetention :: int where
  "defaultNativeLogRetention = 24 * 3600 * second"

definition maxRetainedNativeLogBytes :: int where
  "maxRetainedNativeLogBytes = 1048576"

definition empty_managed :: "string \<Rightarrow> managed" where
  "empty_managed uid = \<lparr>mw_uid = uid, mw_namespace = [], mw_name = [], mw_pod_container = [],
     mw_container = [], mw_ip = [], mw_restarts = 0, mw_volumes = [], mw_host_network = False,
     mw_retained = False, mw_log_file = [], mw_log_expires = None, mw_mounts = [], mw_retry = None\<rparr>"

definition newWorkloadManagerWithState ::
  "net_handle option \<Rightarrow> string \<Rightarrow> string \<Rightarrow> string \<Rightarrow> manager" where
  "newWorkloadManagerWithState network macker nodeIP stateDir =
     \<lparr>wm_network = network, wm_macker = macker, wm_node_ip = nodeIP, wm_api = False,
      wm_journal_path = (if stateDir \<noteq> [] then path_join [stateDir, ''workloads.json''] else []),
      wm_volume_root = path_join [stateDir, ''volumes''], wm_workloads = [], wm_retained = [],
      wm_logs_root = path_join [stateDir, ''logs''], wm_nfs_root = path_join [stateDir, ''nfs''],
      wm_log_ttl = defaultNativeLogRetention, wm_sudo = False, wm_debug = False\<rparr>"

text \<open>A visit of all entries of a map, in the order the runtime chooses.\<close>

definition map_visit :: "env \<Rightarrow> (string, 'v) gomap \<Rightarrow> (string \<times> 'v) list" where
  "map_visit E m = List.map_filter (\<lambda>k. map_option (Pair k) (map_of m k)) (e_order E (mkeys m))"

section \<open>The journal\<close>

definition encode_spec :: "mount_spec \<Rightarrow> json" where
  "encode_spec s = JObj ((''server'', JStr (nm_server s)) # (''share'', JStr (nm_share s)) #
     omit_list ''mountOptions'' (map JStr (nm_options s)) @ omit_bool ''readOnly'' (nm_read_only s) @
     omit_bool ''legacyFlags'' (nm_legacy s) @ [])"

definition decode_spec :: "json \<Rightarrow> mount_spec option" where
  "decode_spec j = do {
     fs \<leftarrow> j_obj j;
     server \<leftarrow> j_str (jget fs ''server''); share \<leftarrow> j_str (jget fs ''share'');
     opts \<leftarrow> j_strs (jget fs ''mountOptions''); ro \<leftarrow> j_bool (jget fs ''readOnly'');
     legacy \<leftarrow> j_bool (jget fs ''legacyFlags'');
     Some \<lparr>nm_server = server, nm_share = share, nm_options = opts, nm_read_only = ro, nm_legacy = legacy\<rparr> }"

definition encode_mount :: "mount_record \<Rightarrow> json" where
  "encode_mount r = JObj [(''target'', JStr (mr_target r)), (''spec'', encode_spec (mr_spec r))]"

definition decode_mount :: "json \<Rightarrow> mount_record option" where
  "decode_mount j = do {
     fs \<leftarrow> j_obj j;
     target \<leftarrow> j_str (jget fs ''target''); spec \<leftarrow> decode_spec (jget fs ''spec'');
     Some \<lparr>mr_target = target, mr_spec = spec\<rparr> }"

text \<open>
  \<^verbatim>\<open>workloadJournalRecord\<close> has the fields of a managed workload except the retry time, with the
  expiry printed; \<open>encode_record\<close> is \<^verbatim>\<open>appendRecord\<close> followed by the encoding.
\<close>

definition encode_record :: "env \<Rightarrow> managed \<Rightarrow> json" where
  "encode_record E w = JObj ((''uid'', JStr (mw_uid w)) # omit_str ''namespace'' (mw_namespace w) @
     omit_str ''name'' (mw_name w) @ (''containerName'', JStr (mw_container w)) #
     omit_str ''podContainerName'' (mw_pod_container w) @ omit_str ''ip'' (mw_ip w) @
     omit_int ''restartCount'' (sint (mw_restarts w)) @
     omit_list ''volumePaths'' (map JStr (mw_volumes w)) @ omit_bool ''hostNetwork'' (mw_host_network w) @
     omit_bool ''retained'' (mw_retained w) @ omit_str ''logFile'' (mw_log_file w) @
     omit_str ''logExpiresAt'' (case mw_log_expires w of None \<Rightarrow> [] | Some t \<Rightarrow> e_time_string E t) @
     omit_list ''nfsMounts'' (map encode_mount (mw_mounts w)) @ [])"

definition decode_record :: "env \<Rightarrow> json \<Rightarrow> managed option" where
  "decode_record E j = do {
     fs \<leftarrow> j_obj j;
     uid \<leftarrow> j_str (jget fs ''uid''); ns \<leftarrow> j_str (jget fs ''namespace'');
     name \<leftarrow> j_str (jget fs ''name''); cn \<leftarrow> j_str (jget fs ''containerName'');
     pcn \<leftarrow> j_str (jget fs ''podContainerName''); ip \<leftarrow> j_str (jget fs ''ip'');
     rc \<leftarrow> j_int32 (jget fs ''restartCount''); vols \<leftarrow> j_strs (jget fs ''volumePaths'');
     hn \<leftarrow> j_bool (jget fs ''hostNetwork''); ret \<leftarrow> j_bool (jget fs ''retained'');
     lf \<leftarrow> j_str (jget fs ''logFile''); le \<leftarrow> j_str (jget fs ''logExpiresAt'');
     ms \<leftarrow> Option.bind (j_list (jget fs ''nfsMounts'')) (\<lambda>js. all_some (map decode_mount js));
     Some \<lparr>mw_uid = uid, mw_namespace = ns, mw_name = name, mw_pod_container = pcn, mw_container = cn,
       mw_ip = ip, mw_restarts = rc, mw_volumes = vols, mw_host_network = hn, mw_retained = ret,
       mw_log_file = lf, mw_log_expires = (if le = [] then None else e_parse_time E le),
       mw_mounts = ms, mw_retry = None\<rparr> }"

definition encode_journal :: "env \<Rightarrow> managed list \<Rightarrow> json" where
  "encode_journal E ws = JObj [(''version'', JInt 1), (''workloads'', JList (map (encode_record E) ws))]"

definition decode_journal :: "env \<Rightarrow> json \<Rightarrow> (int \<times> managed list) option" where
  "decode_journal E j = do {
     fs \<leftarrow> j_obj j;
     version \<leftarrow> j_int (jget fs ''version'');
     ws \<leftarrow> Option.bind (j_list (jget fs ''workloads'')) (\<lambda>js. all_some (map (decode_record E) js));
     Some (version, ws) }"

definition journal_records :: "env \<Rightarrow> manager \<Rightarrow> managed list" where
  "journal_records E m =
     sort_key mw_uid (map snd (map_visit E (wm_workloads m)) @ map snd (map_visit E (wm_retained m)))"

definition persistJournalLocked :: "env \<Rightarrow> manager \<Rightarrow> err option io" where
  "persistJournalLocked E m tr =
    (if wm_journal_path m = [] then (None, tr)
     else (case writePrivateFile E (wm_journal_path m) (FJson (encode_journal E (journal_records E m))) 384 tr of
        (Some e, tr) \<Rightarrow> (Some (wrap ''write workload journal: '' e), tr)
      | (None, tr) \<Rightarrow> (None, tr)))"

section \<open>Retained logs\<close>

definition retention_of :: "manager \<Rightarrow> int" where
  "retention_of m = (if wm_log_ttl m \<le> 0 then defaultNativeLogRetention else wm_log_ttl m)"

definition retainWorkloadLocked :: "env \<Rightarrow> manager \<Rightarrow> managed \<Rightarrow> manager io" where
  "retainWorkloadLocked E m w tr =
    (let w = w\<lparr>mw_retained := True, mw_ip := [], mw_volumes := [], mw_mounts := []\<rparr>;
         (w, tr) = (case mw_log_expires w of
            None \<Rightarrow> (case time_now E tr of (t, tr) \<Rightarrow> (w\<lparr>mw_log_expires := Some (t + retention_of m)\<rparr>, tr))
          | Some _ \<Rightarrow> (w, tr)) in
     (m\<lparr>wm_retained := mput (wm_retained m) (mw_uid w) w,
        wm_workloads := mdel (wm_workloads m) (mw_uid w)\<rparr>, tr))"

definition retained_log_file :: "manager \<Rightarrow> managed \<Rightarrow> string" where
  "retained_log_file m w = path_join [wm_logs_root m, path_base (mw_log_file w)]"

definition log_expired :: "gotime \<Rightarrow> managed \<Rightarrow> bool" where
  "log_expired now w \<longleftrightarrow> (case mw_log_expires w of None \<Rightarrow> False | Some t \<Rightarrow> \<not> now < t)"

fun prune_loop :: "env \<Rightarrow> gotime \<Rightarrow> (string \<times> managed) list \<Rightarrow> manager \<Rightarrow> bool \<Rightarrow> trace \<Rightarrow> bool \<times> manager \<times> trace" where
  "prune_loop E now [] m changed tr = (changed, m, tr)"
| "prune_loop E now ((uid, w) # ws) m changed tr =
    (if \<not> log_expired now w then prune_loop E now ws m changed tr
     else (let tr = (if mw_log_file w \<noteq> [] \<and> wm_logs_root m \<noteq> []
                     then snd (fs_do E (Remove (retained_log_file m w)) tr) else tr) in
       prune_loop E now ws (m\<lparr>wm_retained := mdel (wm_retained m) uid\<rparr>) True tr))"

definition pruneRetainedLogsLocked :: "env \<Rightarrow> gotime \<Rightarrow> manager \<Rightarrow> trace \<Rightarrow> bool \<times> manager \<times> trace" where
  "pruneRetainedLogsLocked E now m tr = prune_loop E now (map_visit E (wm_retained m)) m False tr"

definition retainedLogPath :: "manager \<Rightarrow> managed \<Rightarrow> string" where
  "retainedLogPath m w = (if mw_log_file w = [] \<or> wm_logs_root m = [] then [] else retained_log_file m w)"

definition readRetainedLogs :: "env \<Rightarrow> manager \<Rightarrow> managed \<Rightarrow> (err + content) io" where
  "readRetainedLogs E m w tr = (let path = retainedLogPath m w in
     if path = [] then (Inl (ESentinel NotExist ''file does not exist''), tr) else fs_read E path tr)"

definition isMissingRetainedLog :: "err \<Rightarrow> bool" where
  "isMissingRetainedLog e = is_sentinel NotExist e"

section \<open>Loading the journal\<close>

fun load_records :: "managed list \<Rightarrow> manager \<Rightarrow> err option \<times> manager" where
  "load_records [] m = (None, m)"
| "load_records (w # ws) m =
    (if mw_uid w = [] \<or> mw_container w = []
     then (Some (EMsg ''workload journal contains an incomplete record''), m)
     else load_records ws (if mw_retained w then m\<lparr>wm_retained := mput (wm_retained m) (mw_uid w) w\<rparr>
       else m\<lparr>wm_workloads := mput (wm_workloads m) (mw_uid w) w\<rparr>))"

definition decode_content :: "content \<Rightarrow> json option" where
  "decode_content c = (case c of FJson j \<Rightarrow> Some j | FBytes _ \<Rightarrow> None)"

definition loadJournalLocked :: "env \<Rightarrow> manager \<Rightarrow> trace \<Rightarrow> err option \<times> manager \<times> trace" where
  "loadJournalLocked E m tr =
    (if wm_journal_path m = [] then (None, m, tr)
     else (case fs_read E (wm_journal_path m) tr of
        (Inl e, tr) \<Rightarrow>
          if is_sentinel NotExist e then (None, m, tr)
          else (Some (wrap ''read workload journal: '' e), m, tr)
      | (Inr c, tr) \<Rightarrow> (case Option.bind (decode_content c) (decode_journal E) of
          None \<Rightarrow> (Some (wrap ''decode workload journal: '' json_error), m, tr)
        | Some (version, ws) \<Rightarrow>
            if version \<noteq> 1
            then (Some (EMsg (''unsupported workload journal version '' @ itoa version)), m, tr)
            else (case load_records ws m of
               (Some e, m) \<Rightarrow> (Some e, m, tr)
             | (None, m) \<Rightarrow> (case time_now E tr of (now, tr) \<Rightarrow>
                 (case pruneRetainedLogsLocked E now m tr of
                   (changed, m, tr) \<Rightarrow>
                     if changed then (case persistJournalLocked E m tr of (r, tr) \<Rightarrow> (r, m, tr))
                     else (None, m, tr)))))))"

end
