(* ===== verification/Macker.thy ===== *)
theory Macker
  imports Manager
begin

text \<open>
  The Macker commands of the workload manager (\<^verbatim>\<open>workload_manager.go\<close> from
  \<^verbatim>\<open>mackerCommand\<close> on, \<^verbatim>\<open>archiveWorkloadLogs\<close> and \<^verbatim>\<open>stopContainer\<close>): running a command,
  starting a workload with a lazy pull of its image, reading its status, waiting until it runs
  and archiving its logs.
\<close>

section \<open>Running a command\<close>

definition mackerCommand :: "env \<Rightarrow> manager \<Rightarrow> err + string" where
  "mackerCommand E m = (if wm_macker m \<noteq> [] then Inr (wm_macker m)
     else (case e_look_path E ''macker'' of
         None \<Rightarrow> Inl (EMsg ''macker executable was not found; set --macker-binary or add macker to PATH'')
       | Some binary \<Rightarrow> Inr binary))"

definition macker_error :: "string list \<Rightarrow> err \<Rightarrow> string \<Rightarrow> err" where
  "macker_error args e output = (let message = trim_space output in
     EWrap (''macker '' @ str_join '' '' args @ '': '') e
       (if message = [] then [] else '' ('' @ message @ '')''))"

definition mackerOutput :: "env \<Rightarrow> manager \<Rightarrow> string list \<Rightarrow> (err + string) io" where
  "mackerOutput E m args tr = (case mackerCommand E m of
       Inl e \<Rightarrow> (Inl e, tr)
     | Inr binary \<Rightarrow> (case call_macker E binary args tr of
         ((out, Some e), tr) \<Rightarrow> (Inl (macker_error args e out), tr)
       | ((out, None), tr) \<Rightarrow> (Inr out, tr)))"

definition formatCommandArgs :: "string list \<Rightarrow> string" where
  "formatCommandArgs args = str_join '' '' (map quote args)"

definition mackerImageMissing :: "err \<Rightarrow> bool" where
  "mackerImageMissing e \<longleftrightarrow>
     str_contains (err_string e) ''image is not present in local storage'' \<or>
     str_contains (err_string e) ''pull or build it first''"

definition startMackerWorkload :: "env \<Rightarrow> manager \<Rightarrow> string list \<Rightarrow> string \<Rightarrow> err option io" where
  "startMackerWorkload E m args img tr = (case mackerOutput E m args tr of
       (Inr _, tr) \<Rightarrow> (None, tr)
     | (Inl e, tr) \<Rightarrow>
         if \<not> mackerImageMissing e then (Some e, tr)
         else if img = []
         then (Some (wrap ''Macker reported a missing image but the Pod image is empty: '' e), tr)
         else (case mackerOutput E m [''pull'', img] tr of
            (Inl pe, tr) \<Rightarrow> (Some (EWrap (''pull Macker image '' @ img @ '': '') pe
               ('' (initial run: '' @ err_string e @ '')'')), tr)
          | (Inr _, tr) \<Rightarrow> (case mackerOutput E m args tr of
              (Inl re, tr) \<Rightarrow> (Some (wrap (''retry Macker workload after pulling image '' @ img @ '': '') re), tr)
            | (Inr _, tr) \<Rightarrow> (None, tr))))"

section \<open>Status of a container\<close>

definition tab :: char where
  "tab = CHR 0x09"

fun status_lines :: "string list \<Rightarrow> string \<Rightarrow> string option" where
  "status_lines [] name = None"
| "status_lines (line # lines) name = (case split_on tab line of
       n # _ # status # _ \<Rightarrow> if n = name then Some status else status_lines lines name
     | _ \<Rightarrow> status_lines lines name)"

definition mackerContainerStatus :: "string \<Rightarrow> string \<Rightarrow> string option" where
  "mackerContainerStatus output name = status_lines (split_on newline output) name"

definition containerStatus :: "env \<Rightarrow> manager \<Rightarrow> string \<Rightarrow> (err + string option) io" where
  "containerStatus E m name tr = (case mackerOutput E m [''ps'', ''--all''] tr of
       (Inl e, tr) \<Rightarrow> (Inl e, tr)
     | (Inr out, tr) \<Rightarrow> (Inr (mackerContainerStatus out name), tr))"

definition j_time :: "env \<Rightarrow> json \<Rightarrow> gotime option option" where
  "j_time E j = (case j of JNull \<Rightarrow> Some None
     | JStr s \<Rightarrow> map_option Some (e_parse_time E s) | _ \<Rightarrow> None)"

definition decode_inspection :: "env \<Rightarrow> json \<Rightarrow> inspection option" where
  "decode_inspection E j = do {
     fs \<leftarrow> j_obj j;
     status \<leftarrow> j_str (jget fs ''status''); pid \<leftarrow> j_int (jget fs ''pid'');
     wpid \<leftarrow> j_int (jget fs ''workload_pid'');
     code \<leftarrow> (case jget fs ''exit_code'' of JNull \<Rightarrow> Some None
               | j \<Rightarrow> map_option (\<lambda>w. Some (sint w)) (j_int32 j));
     started \<leftarrow> j_time E (jget fs ''started_at''); finished \<leftarrow> j_time E (jget fs ''finished_at'');
     sig \<leftarrow> j_str (jget fs ''termination_signal''); reason \<leftarrow> j_str (jget fs ''termination_reason'');
     Some \<lparr>in_status = status, in_pid = pid, in_workload_pid = wpid, in_exit_code = code,
       in_started = started, in_finished = finished, in_signal = sig, in_reason = reason\<rparr> }"

text \<open>
  \<^verbatim>\<open>containerInspection\<close>: \<open>Inr None\<close> is an unavailable inspection, as a Macker without the
  command gives it.
\<close>

definition containerInspection :: "env \<Rightarrow> manager \<Rightarrow> string \<Rightarrow> (err + inspection option) io" where
  "containerInspection E m name tr = (case mackerOutput E m [''inspect'', ''--format'', ''json'', name] tr of
       (Inl _, tr) \<Rightarrow> (Inr None, tr)
     | (Inr out, tr) \<Rightarrow> (case Option.bind (e_parse_json E out) (decode_inspection E) of
         None \<Rightarrow> (Inl (wrap (''decode Macker inspect output for '' @ name @ '': '') json_error), tr)
       | Some i \<Rightarrow> (Inr (Some i), tr)))"

section \<open>Waiting until a workload runs\<close>

definition exited_early :: "string \<Rightarrow> string" where
  "exited_early status = ''Macker workload exited during startup (status='' @ status @ '')''"

definition startup_failure :: "env \<Rightarrow> manager \<Rightarrow> string \<Rightarrow> string \<Rightarrow> err io" where
  "startup_failure E m name status tr = (case mackerOutput E m [''logs'', name] tr of
       (Inr out, tr) \<Rightarrow> (EMsg (exited_early status @
          (if trim_space out \<noteq> [] then '': '' @ trim_space out else [])), tr)
     | (Inl _, tr) \<Rightarrow> (EMsg (exited_early status), tr))"

definition poll_interval :: int where
  "poll_interval = 100000000"

text \<open>
  One round of the loop: the result to return, or \<open>None\<close> after the sleep that ends the round.
\<close>

definition wait_round :: "env \<Rightarrow> manager \<Rightarrow> string \<Rightarrow> gotime \<Rightarrow> err option option io" where
  "wait_round E m name deadline tr = (case containerInspection E m name tr of
       (Inl e, tr) \<Rightarrow> (Some (Some e), tr)
     | (Inr (Some i), tr) \<Rightarrow>
         if in_status i \<noteq> ''running''
         then (case startup_failure E m name (in_status i) tr of (e, tr) \<Rightarrow> (Some (Some e), tr))
         else (case time_now E tr of (now, tr) \<Rightarrow>
           if deadline < now then (Some None, tr) else (None, go_sleep poll_interval tr))
     | (Inr None, tr) \<Rightarrow> (case containerStatus E m name tr of
         (Inl e, tr) \<Rightarrow> (Some (Some e), tr)
       | (Inr (Some status), tr) \<Rightarrow>
           (Some (if status = ''running'' then None else Some (EMsg (exited_early status))), tr)
       | (Inr None, tr) \<Rightarrow> (case time_now E tr of (now, tr) \<Rightarrow>
           if deadline < now
           then (Some (Some (EMsg ''Macker workload did not become running within 5 seconds'')), tr)
           else (None, go_sleep poll_interval tr))))"

fun wait_loop :: "nat \<Rightarrow> env \<Rightarrow> manager \<Rightarrow> string \<Rightarrow> gotime \<Rightarrow> trace \<Rightarrow> (err option \<times> trace) option" where
  "wait_loop 0 E m name deadline tr = None"
| "wait_loop (Suc n) E m name deadline tr = (case wait_round E m name deadline tr of
       (Some r, tr) \<Rightarrow> Some (r, tr)
     | (None, tr) \<Rightarrow> wait_loop n E m name deadline tr)"

text \<open>
  Five seconds in rounds of a tenth of a second: 52 rounds pass the deadline on every clock that
  advances by what the program sleeps (\<open>wait_loop_returns\<close> below), so the last case is never
  taken there.
\<close>

definition wait_fuel :: nat where
  "wait_fuel = 52"

definition waitForMackerRunning :: "env \<Rightarrow> manager \<Rightarrow> string \<Rightarrow> err option io" where
  "waitForMackerRunning E m name tr = (case time_now E tr of (t, tr) \<Rightarrow>
     (case wait_loop wait_fuel E m name (t + 5 * second) tr of
        Some r \<Rightarrow> r
      | None \<Rightarrow> (Some (EMsg ''the clock does not advance''), tr)))"

section \<open>Stopping and archiving\<close>

definition ignorableMackerCleanupError :: "err \<Rightarrow> bool" where
  "ignorableMackerCleanupError e \<longleftrightarrow>
     str_contains (err_string e) ''was not found'' \<or> str_contains (err_string e) ''not a detached workload''"

definition cleanup_error :: "(err + 'a) \<Rightarrow> err list" where
  "cleanup_error r = (case r of Inl e \<Rightarrow> if ignorableMackerCleanupError e then [] else [e] | Inr _ \<Rightarrow> [])"

definition stopContainer :: "env \<Rightarrow> manager \<Rightarrow> managed \<Rightarrow> err option io" where
  "stopContainer E m w tr =
    (if mw_container w = [] then (None, tr)
     else (case mackerOutput E m [''stop'', mw_container w] tr of
        (r1, tr) \<Rightarrow> (case mackerOutput E m [''rm'', ''--force'', mw_container w] tr of
          (r2, tr) \<Rightarrow> (errors_join (cleanup_error r1 @ cleanup_error r2), tr))))"

definition log_tail :: "string \<Rightarrow> string" where
  "log_tail out = (if int (length out) > maxRetainedNativeLogBytes
     then drop (nat (int (length out) - maxRetainedNativeLogBytes)) out else out)"

definition log_file_name :: "env \<Rightarrow> managed \<Rightarrow> string" where
  "log_file_name E w = e_sha256_hex E (mw_namespace w @ [CHR 0x00] @ mw_uid w @ [CHR 0x00] @
     mw_pod_container w) @ ''.log''"

definition archiveWorkloadLogs :: "env \<Rightarrow> manager \<Rightarrow> managed \<Rightarrow> trace \<Rightarrow> err option \<times> managed \<times> trace" where
  "archiveWorkloadLogs E m w tr =
    (if mw_container w = [] \<or> wm_logs_root m = [] then (None, w, tr)
     else (case mackerOutput E m [''logs'', mw_container w] tr of
        (Inl e, tr) \<Rightarrow> (if ignorableMackerCleanupError e then None else Some e, w, tr)
      | (Inr out, tr) \<Rightarrow> (case fs_do E (MkdirAll (wm_logs_root m) 448) tr of
          (Some e, tr) \<Rightarrow> (Some (wrap ''create retained log directory: '' e), w, tr)
        | (None, tr) \<Rightarrow> (case writePrivateFile E (path_join [wm_logs_root m, log_file_name E w])
              (FBytes (log_tail out)) 384 tr of
            (Some e, tr) \<Rightarrow> (Some (wrap ''write retained logs: '' e), w, tr)
          | (None, tr) \<Rightarrow> (case time_now E tr of (t, tr) \<Rightarrow>
              (None, w\<lparr>mw_log_file := log_file_name E w, mw_log_expires := Some (t + retention_of m)\<rparr>, tr))))))"

section \<open>Lookup for the node API\<close>

definition matches_pod :: "string \<Rightarrow> string \<Rightarrow> managed \<Rightarrow> bool" where
  "matches_pod ns pod w \<longleftrightarrow> mw_namespace w = ns \<and> mw_name w = pod"

definition check_container :: "string \<Rightarrow> managed \<Rightarrow> err + managed" where
  "check_container container w = (if mw_pod_container w \<noteq> [] \<and> mw_pod_container w \<noteq> container
     then Inl (EMsg (''container '' @ quote container @ '' is not managed by maclet'')) else Inr w)"

definition findContainer :: "env \<Rightarrow> manager \<Rightarrow> string \<Rightarrow> string \<Rightarrow> string \<Rightarrow> err + managed" where
  "findContainer E m ns pod container =
    (case List.find (matches_pod ns pod) (map snd (map_visit E (wm_workloads m))) of
       Some w \<Rightarrow> check_container container w
     | None \<Rightarrow> (case List.find (matches_pod ns pod) (map snd (map_visit E (wm_retained m))) of
         Some w \<Rightarrow> check_container container w
       | None \<Rightarrow> Inl (ESentinel NotFound ''resource not found'')))"

end
