(* ===== verification/ManagerProps.thy ===== *)
theory ManagerProps
  imports Macker "HOL-Library.Multiset"
begin

text \<open>
  What the manager's own operations promise: the journal reads back as it was written, a restart
  restores both maps, pruning removes exactly the expired logs, waiting for a workload ends and
  never reports a workload that was not seen running.
\<close>

section \<open>Map order\<close>

text \<open>Ranging over a map visits every entry once.\<close>

definition order_ok :: "env \<Rightarrow> bool" where
  "order_ok E \<longleftrightarrow> (\<forall>ks. mset (e_order E ks) = mset ks)"

lemma map_filter_entries:
  "distinct (map fst m) \<Longrightarrow> set ks \<subseteq> set (map fst m) \<Longrightarrow>
    mset (List.map_filter (\<lambda>k. map_option (Pair k) (map_of m k)) ks) =
    image_mset (\<lambda>k. (k, the (map_of m k))) (mset ks)"
proof (induction ks)
  case (Cons k ks)
  then have "map_of m k \<noteq> None" using mhas_iff [of m k] by simp
  with Cons show ?case by (auto simp: map_filter_simps)
qed (simp add: map_filter_simps)

lemma mset_map_visit:
  assumes "order_ok E" "distinct (map fst m)"
  shows "mset (map_visit E m) = mset m"
proof -
  have "set (e_order E (mkeys m)) = set (mkeys m)"
    using assms(1) unfolding order_ok_def by (metis set_mset_mset)
  then have "mset (map_visit E m) = image_mset (\<lambda>k. (k, the (map_of m k))) (mset (e_order E (mkeys m)))"
    unfolding map_visit_def using assms(2) by (intro map_filter_entries) (auto simp: mkeys_def)
  also have "mset (e_order E (mkeys m)) = image_mset fst (mset m)"
    using assms(1) by (simp add: order_ok_def mkeys_def)
  also have "image_mset (\<lambda>k. (k, the (map_of m k))) (image_mset fst (mset m)) = image_mset id (mset m)"
    unfolding image_mset.compositionality
    by (rule image_mset_cong) (use assms(2) in \<open>auto simp: map_of_eq_Some_iff [THEN iffD2]\<close>)
  also have "\<dots> = mset m" by simp
  finally show ?thesis .
qed

lemma set_map_visit:
  "order_ok E \<Longrightarrow> distinct (map fst m) \<Longrightarrow> set (map_visit E m) = set m"
  by (metis mset_map_visit set_mset_mset)

section \<open>The journal\<close>

interpretation spec: codec encode_spec decode_spec "\<lambda>_. True"
  by unfold_locales (simp add: encode_spec_def decode_spec_def split del: if_split cong: if_cong)

interpretation mount: codec encode_mount decode_mount "\<lambda>_. True"
  by unfold_locales (simp add: encode_mount_def decode_mount_def spec.dec_enc)

text \<open>A time that prints to text which parses back, as RFC 3339 with nanoseconds does.\<close>

definition time_prints :: "env \<Rightarrow> gotime \<Rightarrow> bool" where
  "time_prints E t \<longleftrightarrow> e_time_string E t \<noteq> [] \<and> e_parse_time E (e_time_string E t) = Some t"

definition storable :: "env \<Rightarrow> managed \<Rightarrow> bool" where
  "storable E w \<longleftrightarrow> mw_retry w = None \<and> (\<forall>t. mw_log_expires w = Some t \<longrightarrow> time_prints E t)"

lemma mounts_read:
  "Option.bind (j_list (if ms \<noteq> [] then JList (map encode_mount ms) else JNull))
     (\<lambda>js. Option.bind (all_some (map decode_mount js)) f) = f ms"
  using mount.dec_list [of ms] by (cases ms) (simp_all add: comp_def list_all_iff)

interpretation journal_record: codec "encode_record E" "decode_record E" "storable E" for E
proof
  fix w assume s: "storable E w"
  have t: "(if (case mw_log_expires w of None \<Rightarrow> [] | Some t \<Rightarrow> e_time_string E t) = [] then None
      else e_parse_time E (case mw_log_expires w of None \<Rightarrow> [] | Some t \<Rightarrow> e_time_string E t)) = mw_log_expires w"
    using s by (auto simp: storable_def time_prints_def split: option.splits)
  show "decode_record E (encode_record E w) = Some w"
    using s t
    by (simp add: mounts_read encode_record_def decode_record_def storable_def split del: if_split cong: if_cong)
qed

lemma decode_encode_journal:
  assumes "\<forall>w \<in> set ws. \<forall>t. mw_log_expires w = Some t \<longrightarrow> time_prints E t"
  shows "decode_journal E (encode_journal E ws) = Some (1, map (\<lambda>w. w\<lparr>mw_retry := None\<rparr>) ws)"
proof -
  let ?f = "\<lambda>w. w\<lparr>mw_retry := None\<rparr>"
  have "encode_record E (?f w) = encode_record E w" for w by (simp add: encode_record_def)
  moreover have "list_all (storable E) (map ?f ws)" using assms by (simp add: list_all_iff storable_def)
  ultimately have "all_some (map (decode_record E) (map (encode_record E) ws)) = Some (map ?f ws)"
    using journal_record.dec_list [of E "map ?f ws"] by (simp add: comp_def)
  then show ?thesis by (simp add: decode_journal_def encode_journal_def)
qed

text \<open>
  C9: the ownership journal reads back exactly as it was written, retry times apart, which it
  does not keep.
\<close>

theorem journal_roundtrip:
  assumes "\<forall>w \<in> set ws. \<forall>t. mw_log_expires w = Some t \<longrightarrow> time_prints E t"
  shows "decode_journal E (encode_journal E ws) = Some (1, map (\<lambda>w. w\<lparr>mw_retry := None\<rparr>) ws)"
  using assms by (rule decode_encode_journal)

definition demo_spec :: mount_spec where
  "demo_spec = \<lparr>nm_server = ''nas'', nm_share = ''/export'', nm_options = [''vers=3''], nm_read_only = True,
     nm_legacy = False\<rparr>"

definition demo_live :: managed where
  "demo_live = (empty_managed ''u1'')\<lparr>mw_namespace := ''default'', mw_name := ''web'',
     mw_container := ''maclet-default-web-u1'', mw_ip := ''10.42.7.4'', mw_restarts := 3,
     mw_mounts := [\<lparr>mr_target = ''/var/nfs/web/data'', mr_spec = demo_spec\<rparr>], mw_retry := Some 5\<rparr>"

definition demo_retained :: managed where
  "demo_retained = (empty_managed ''u2'')\<lparr>mw_container := ''maclet-default-job-u2'',
     mw_retained := True, mw_log_file := ''a.log'', mw_log_expires := Some 9\<rparr>"

definition demo_manager :: manager where
  "demo_manager = (newWorkloadManagerWithState None ''macker'' ''192.0.2.10'' ''/var/maclet'')
     \<lparr>wm_workloads := [(''u1'', demo_live)], wm_retained := [(''u2'', demo_retained)]\<rparr>"

lemmas demo_defs = demo_spec_def demo_live_def demo_retained_def demo_manager_def empty_managed_def
  newWorkloadManagerWithState_def

lemma demo_time: "time_prints quiet_env 9"
  unfolding time_prints_def by code_simp

lemma journal_roundtrip_witness:
  "decode_journal quiet_env (encode_journal quiet_env [demo_live, demo_retained]) =
     Some (1, [demo_live\<lparr>mw_retry := None\<rparr>, demo_retained])"
proof -
  have "\<forall>w \<in> set [demo_live, demo_retained]. \<forall>t. mw_log_expires w = Some t \<longrightarrow> time_prints quiet_env t"
    using demo_time by (simp add: demo_defs)
  from journal_roundtrip [OF this] show ?thesis by (simp add: demo_defs)
qed

section \<open>The manager's invariant\<close>

definition live_ok :: "string \<Rightarrow> managed \<Rightarrow> bool" where
  "live_ok k w \<longleftrightarrow> k = mw_uid w \<and> k \<noteq> [] \<and> mw_container w \<noteq> [] \<and> \<not> mw_retained w"

definition retained_ok :: "string \<Rightarrow> managed \<Rightarrow> bool" where
  "retained_ok k w \<longleftrightarrow> k = mw_uid w \<and> k \<noteq> [] \<and> mw_container w \<noteq> [] \<and> mw_retained w \<and>
     mw_log_expires w \<noteq> None"

definition manager_inv :: "manager \<Rightarrow> bool" where
  "manager_inv m \<longleftrightarrow> distinct (map fst (wm_workloads m)) \<and> distinct (map fst (wm_retained m)) \<and>
     (\<forall>(k, w) \<in> set (wm_workloads m). live_ok k w) \<and> (\<forall>(k, w) \<in> set (wm_retained m). retained_ok k w)"

lemma manager_inv_workload: "manager_inv m \<Longrightarrow> map_of (wm_workloads m) k = Some w \<Longrightarrow> live_ok k w"
  by (auto simp: manager_inv_def dest: map_of_SomeD)

lemma manager_inv_put [inv_intros]:
  "manager_inv m \<Longrightarrow> live_ok k w \<Longrightarrow> manager_inv (m\<lparr>wm_workloads := mput (wm_workloads m) k w\<rparr>)"
  by (auto simp: manager_inv_def dest!: set_mput)

text \<open>What retaining a workload does to the manager.\<close>

lemma retainWorkloadLocked_result:
  assumes "retainWorkloadLocked E m w tr = (m', tr')"
  obtains w' where "m' = m\<lparr>wm_retained := mput (wm_retained m) (mw_uid w) w',
      wm_workloads := mdel (wm_workloads m) (mw_uid w)\<rparr>"
    "mw_uid w' = mw_uid w" "mw_container w' = mw_container w" "mw_retained w'" "mw_log_expires w' \<noteq> None"
    "mw_log_file w' = mw_log_file w" "mw_restarts w' = mw_restarts w" "mw_ip w' = []" "mw_mounts w' = []"
    "mw_volumes w' = []"
proof (cases "mw_log_expires w")
  case None
  show ?thesis
    by (rule that [of "w\<lparr>mw_retained := True, mw_ip := [], mw_volumes := [], mw_mounts := [],
          mw_log_expires := Some (e_now E tr + retention_of m)\<rparr>"])
      (use assms None in \<open>auto simp: retainWorkloadLocked_def Let_def time_now_def\<close>)
next
  case (Some t)
  show ?thesis
    by (rule that [of "w\<lparr>mw_retained := True, mw_ip := [], mw_volumes := [], mw_mounts := []\<rparr>"])
      (use assms Some in \<open>auto simp: retainWorkloadLocked_def Let_def\<close>)
qed

lemma manager_inv_retain [inv_intros]:
  assumes "manager_inv m" "mw_uid w \<noteq> []" "mw_container w \<noteq> []" "retainWorkloadLocked E m w tr = (m', tr')"
  shows "manager_inv m'"
proof -
  obtain w' where w': "m' = m\<lparr>wm_retained := mput (wm_retained m) (mw_uid w) w',
      wm_workloads := mdel (wm_workloads m) (mw_uid w)\<rparr>" "retained_ok (mw_uid w) w'"
    by (rule retainWorkloadLocked_result [OF assms(4)]) (use assms(2,3) in \<open>auto simp: retained_ok_def\<close>)
  then show ?thesis
    using assms(1) by (auto simp: manager_inv_def dest!: set_mput set_mdel)
qed

section \<open>Restart\<close>

lemma load_records_Some:
  "\<forall>w \<in> set ws. mw_uid w \<noteq> [] \<and> mw_container w \<noteq> [] \<Longrightarrow>
    load_records ws m = (None, m\<lparr>
      wm_workloads := foldl (\<lambda>a w. mput a (mw_uid w) w) (wm_workloads m) (filter (\<lambda>w. \<not> mw_retained w) ws),
      wm_retained := foldl (\<lambda>a w. mput a (mw_uid w) w) (wm_retained m) (filter mw_retained ws)\<rparr>)"
  by (induction ws arbitrary: m) auto

lemma map_of_foldl_mput:
  "distinct (map mw_uid ws) \<Longrightarrow> set (map mw_uid ws) \<inter> fst ` set a = {} \<Longrightarrow>
    map_of (foldl (\<lambda>a w. mput a (mw_uid w) w) a ws) k =
      (case List.find (\<lambda>w. mw_uid w = k) ws of Some w \<Rightarrow> Some w | None \<Rightarrow> map_of a k)"
proof (induction ws arbitrary: a)
  case (Cons w ws)
  have "List.find (\<lambda>v. mw_uid v = mw_uid w) ws = None"
    using Cons.prems(1) by (auto simp: find_None_iff) (metis imageI)
  with Cons show ?case by (auto simp: map_of_mput dom_update split: option.splits)
qed simp

lemma find_uid_entries:
  assumes d: "distinct (map fst m)" and uid: "\<And>k w. (k, w) \<in> set m \<Longrightarrow> k = mw_uid w"
    and ws: "set ws = snd ` set m"
  shows "List.find (\<lambda>w. mw_uid w = k) ws = map_of m k"
proof (cases "List.find (\<lambda>w. mw_uid w = k) ws")
  case None
  have "k \<notin> fst ` set m"
  proof
    assume "k \<in> fst ` set m"
    then obtain w where "(k, w) \<in> set m" by auto
    with uid ws have "mw_uid w = k" "w \<in> set ws" by (force, force)
    with None show False by (simp add: find_None_iff)
  qed
  with None show ?thesis by (metis map_of_eq_None_iff)
next
  case (Some v)
  then have "v \<in> set ws" "mw_uid v = k" by (auto simp: find_Some_iff)
  then obtain j where "(j, v) \<in> set m" using ws by auto
  with uid \<open>mw_uid v = k\<close> have "(k, v) \<in> set m" by blast
  with d Some show ?thesis by simp
qed

lemma distinct_uids:
  assumes "distinct (map fst m)" "\<And>k w. (k, w) \<in> set m \<Longrightarrow> k = mw_uid w"
  shows "distinct (map mw_uid (map snd m))"
proof -
  have "map mw_uid (map snd m) = map fst m" using assms(2) by (auto intro!: map_cong)
  then show ?thesis using assms(1) by (simp only:)
qed

lemma prune_nothing:
  "\<forall>(k, w) \<in> set ws. \<not> log_expired now w \<Longrightarrow> prune_loop E now ws m changed tr = (changed, m, tr)"
  by (induction ws) auto

lemma journal_records_mset:
  assumes "order_ok E" "manager_inv m"
  shows "mset (journal_records E m) =
    image_mset snd (mset (wm_workloads m)) + image_mset snd (mset (wm_retained m))"
  using assms by (simp add: journal_records_def manager_inv_def mset_map_visit)

text \<open>The records of one kind, looked up by UID, are the entries of the map they came from.\<close>

lemma find_records:
  assumes "distinct (map fst a)" "\<And>k w. (k, w) \<in> set a \<Longrightarrow> k = mw_uid w"
    "mset (filter P rs) = image_mset snd (mset a)"
  shows "distinct (map mw_uid (filter P rs))"
    and "List.find (\<lambda>w. mw_uid w = k) (filter P rs) = map_of a k"
proof -
  have ms: "mset (filter P rs) = mset (map snd a)" using assms(3) by simp
  then have "mset (map mw_uid (filter P rs)) = mset (map mw_uid (map snd a))" by (metis mset_map)
  then show "distinct (map mw_uid (filter P rs))"
    using distinct_uids [OF assms(1,2)] by (metis mset_eq_imp_distinct_iff)
  have "set (filter P rs) = snd ` set a" using mset_eq_setD [OF ms] by simp
  then show "List.find (\<lambda>w. mw_uid w = k) (filter P rs) = map_of a k"
    using find_uid_entries [OF assms(1)] assms(2) by blast
qed

lemma find_map_retry:
  "List.find (\<lambda>w. mw_uid w = k) (map (\<lambda>w. w\<lparr>mw_retry := None\<rparr>) ws) =
    map_option (\<lambda>w. w\<lparr>mw_retry := None\<rparr>) (List.find (\<lambda>w. mw_uid w = k) ws)"
  by (induction ws) auto

lemma map_of_loaded:
  assumes "distinct (map mw_uid ws)" "List.find (\<lambda>w. mw_uid w = k) ws = map_of a k"
  shows "map_of (foldl (\<lambda>a w. mput a (mw_uid w) w) [] (map (\<lambda>w. w\<lparr>mw_retry := None\<rparr>) ws)) k =
    map_option (\<lambda>w. w\<lparr>mw_retry := None\<rparr>) (map_of a k)"
proof -
  have "distinct (map mw_uid (map (\<lambda>w. w\<lparr>mw_retry := None\<rparr>) ws))"
    using assms(1) by (simp add: comp_def)
  then show ?thesis
    by (subst map_of_foldl_mput) (simp_all add: find_map_retry assms(2) split: option.splits)
qed

definition restored :: "manager \<Rightarrow> manager \<Rightarrow> bool" where
  "restored m m' \<longleftrightarrow>
     (\<forall>k. map_of (wm_workloads m') k = map_option (\<lambda>w. w\<lparr>mw_retry := None\<rparr>) (map_of (wm_workloads m) k)) \<and>
     (\<forall>k. map_of (wm_retained m') k = map_option (\<lambda>w. w\<lparr>mw_retry := None\<rparr>) (map_of (wm_retained m) k))"

lemma load_records_restored:
  assumes inv: "manager_inv m" and order: "order_ok E"
    and fresh: "wm_workloads m0 = []" "wm_retained m0 = []"
  shows "\<exists>m'. load_records (map (\<lambda>w. w\<lparr>mw_retry := None\<rparr>) (journal_records E m)) m0 = (None, m') \<and> restored m m'"
proof -
  let ?f = "\<lambda>w. w\<lparr>mw_retry := None\<rparr>" and ?rs = "journal_records E m"
  note ms = journal_records_mset [OF order inv]
  have set_rs: "set ?rs = snd ` set (wm_workloads m) \<union> snd ` set (wm_retained m)"
    using ms by (metis set_image_mset set_mset_mset set_mset_union)
  have live: "\<forall>(k, w) \<in> set (wm_workloads m). live_ok k w" and ret: "\<forall>(k, w) \<in> set (wm_retained m). retained_ok k w"
    and dist: "distinct (map fst (wm_workloads m))" "distinct (map fst (wm_retained m))"
    using inv by (auto simp: manager_inv_def)
  have ok: "\<forall>w \<in> set (map ?f ?rs). mw_uid w \<noteq> [] \<and> mw_container w \<noteq> []"
    using live ret by (auto simp: set_rs live_ok_def retained_ok_def)
  have flive: "filter_mset (\<lambda>w. \<not> mw_retained w) (image_mset snd (mset (wm_workloads m))) = image_mset snd (mset (wm_workloads m))"
    "filter_mset (\<lambda>w. \<not> mw_retained w) (image_mset snd (mset (wm_retained m))) = {#}"
    "filter_mset mw_retained (image_mset snd (mset (wm_workloads m))) = {#}"
    "filter_mset mw_retained (image_mset snd (mset (wm_retained m))) = image_mset snd (mset (wm_retained m))"
    using live ret by (auto simp: filter_mset_eq_conv live_ok_def retained_ok_def)
  have parts: "mset (filter (\<lambda>w. \<not> mw_retained w) ?rs) = image_mset snd (mset (wm_workloads m))"
    "mset (filter mw_retained ?rs) = image_mset snd (mset (wm_retained m))"
    by (simp_all add: ms flive)
  have uids: "(k, w) \<in> set (wm_workloads m) \<Longrightarrow> k = mw_uid w" "(k, w) \<in> set (wm_retained m) \<Longrightarrow> k = mw_uid w" for k w
    using live ret by (auto simp: live_ok_def retained_ok_def)
  have f:
    "map_of (foldl (\<lambda>a w. mput a (mw_uid w) w) [] (map ?f (filter (\<lambda>w. \<not> mw_retained w) ?rs))) k =
       map_option ?f (map_of (wm_workloads m) k)"
    "map_of (foldl (\<lambda>a w. mput a (mw_uid w) w) [] (map ?f (filter mw_retained ?rs))) k =
       map_option ?f (map_of (wm_retained m) k)" for k
    using find_records [OF dist(1) uids(1) parts(1)] find_records [OF dist(2) uids(2) parts(2)]
    by (auto intro!: map_of_loaded)
  have fil: "filter (\<lambda>w. \<not> mw_retained w) (map ?f ?rs) = map ?f (filter (\<lambda>w. \<not> mw_retained w) ?rs)"
    "filter mw_retained (map ?f ?rs) = map ?f (filter mw_retained ?rs)"
    by (simp_all add: filter_map comp_def)
  show ?thesis
    unfolding load_records_Some [OF ok] fil fresh
    by (rule exI, rule conjI, rule refl) (simp add: restored_def f)
qed

text \<open>
  C10: a manager that starts from the journal another one persisted, when no retained log has
  expired by then, owns exactly the workloads and the retained logs of the other, retry times
  apart.
\<close>

theorem restart_restores:
  assumes inv: "manager_inv m" and order: "order_ok E"
    and times: "\<forall>w \<in> snd ` (set (wm_workloads m) \<union> set (wm_retained m)).
      \<forall>t. mw_log_expires w = Some t \<longrightarrow> time_prints E t"
    and path: "wm_journal_path m0 \<noteq> []" and fresh: "wm_workloads m0 = []" "wm_retained m0 = []"
    and read: "fs_read E (wm_journal_path m0) tr = (Inr (FJson (encode_journal E (journal_records E m))), tr1)"
    and unexpired: "\<forall>w \<in> snd ` set (wm_retained m). \<forall>t. mw_log_expires w = Some t \<longrightarrow> e_now E tr1 < t"
  shows "\<exists>m' tr'. loadJournalLocked E m0 tr = (None, m', tr') \<and> restored m m'"
proof -
  have set_rs: "set (journal_records E m) = snd ` set (wm_workloads m) \<union> snd ` set (wm_retained m)"
    using journal_records_mset [OF order inv] by (metis set_image_mset set_mset_mset set_mset_union)
  have dec: "decode_journal E (encode_journal E (journal_records E m)) =
      Some (1, map (\<lambda>w. w\<lparr>mw_retry := None\<rparr>) (journal_records E m))"
    by (rule decode_encode_journal) (use times set_rs in auto)
  obtain m' where m': "load_records (map (\<lambda>w. w\<lparr>mw_retry := None\<rparr>) (journal_records E m)) m0 = (None, m')"
    "restored m m'"
    using load_records_restored [OF inv order fresh] by blast
  have "\<not> log_expired (e_now E tr1) w" if "(k, w) \<in> set (map_visit E (wm_retained m'))" for k w
  proof -
    have "map_of (wm_retained m') k = Some w"
      using that by (auto simp: map_visit_def map_filter_def)
    then obtain w0 where "map_of (wm_retained m) k = Some w0" "w = w0\<lparr>mw_retry := None\<rparr>"
      using m'(2) by (auto simp: restored_def)
    moreover from this have "w0 \<in> snd ` set (wm_retained m)" by (force dest: map_of_SomeD)
    ultimately show ?thesis using unexpired by (auto simp: log_expired_def split: option.splits)
  qed
  then have "pruneRetainedLogsLocked E (e_now E tr1) m' tr2 = (False, m', tr2)" for tr2
    unfolding pruneRetainedLogsLocked_def by (intro prune_nothing) auto
  with path read dec m' show ?thesis
    by (simp add: loadJournalLocked_def decode_content_def time_now_def Let_def)
qed

lemma demo_manager_inv: "manager_inv demo_manager"
  by (simp add: manager_inv_def live_ok_def retained_ok_def demo_defs)

lemma encode_same_clock:
  "encode_journal (E\<lparr>e_fs := f\<rparr>) ws = encode_journal E ws"
  "journal_records (E\<lparr>e_fs := f\<rparr>) m = journal_records E m"
proof -
  have "encode_record (E\<lparr>e_fs := f\<rparr>) = encode_record E"
    by (rule ext) (simp add: encode_record_def cong: option.case_cong)
  then show "encode_journal (E\<lparr>e_fs := f\<rparr>) ws = encode_journal E ws" by (simp add: encode_journal_def)
qed (simp add: journal_records_def map_visit_def)

lemma restart_restores_witness:
  "\<exists>E m0 m' tr'. loadJournalLocked E m0 [] = (None, m', tr') \<and> restored demo_manager m' \<and> wm_workloads m' \<noteq> []"
proof -
  let ?file = "FData (FJson (encode_journal quiet_env (journal_records quiet_env demo_manager)))"
  let ?E = "quiet_env\<lparr>e_fs := \<lambda>_ _. ?file\<rparr>"
  let ?m0 = "newWorkloadManagerWithState None ''macker'' ''192.0.2.10'' ''/var/maclet''"
  let ?tr1 = "[EvFs (ReadFile (wm_journal_path ?m0)) ?file]"
  have ord: "order_ok ?E" by (simp add: order_ok_def quiet_env_def)
  have path: "wm_journal_path ?m0 \<noteq> []" by code_simp
  have same: "encode_journal ?E (journal_records ?E demo_manager) =
      encode_journal quiet_env (journal_records quiet_env demo_manager)"
    by (simp only: encode_same_clock)
  have read: "fs_read ?E (wm_journal_path ?m0) [] =
      (Inr (FJson (encode_journal ?E (journal_records ?E demo_manager))), ?tr1)"
    unfolding same by (simp add: fs_read_def call_fs_def Let_def)
  have times: "\<forall>w \<in> snd ` (set (wm_workloads demo_manager) \<union> set (wm_retained demo_manager)).
      \<forall>t. mw_log_expires w = Some t \<longrightarrow> time_prints ?E t"
    using demo_time by (simp add: demo_defs time_prints_def)
  have now: "\<forall>w \<in> snd ` set (wm_retained demo_manager). \<forall>t. mw_log_expires w = Some t \<longrightarrow> e_now ?E ?tr1 < t"
    by (simp add: demo_defs quiet_env_def)
  have fresh: "wm_workloads ?m0 = []" "wm_retained ?m0 = []" by (simp_all add: newWorkloadManagerWithState_def)
  obtain m' tr' where r: "loadJournalLocked ?E ?m0 [] = (None, m', tr')" "restored demo_manager m'"
    using restart_restores [OF demo_manager_inv ord times path fresh read now] by blast
  have "map_of (wm_workloads m') ''u1'' \<noteq> None" using r(2) by (simp add: restored_def demo_defs)
  with r show ?thesis by (metis map_of.simps(1))
qed

section \<open>Waiting for a workload\<close>

definition macker_event :: "event \<Rightarrow> bool" where
  "macker_event e \<longleftrightarrow> (\<exists>bin args out r. e = EvMacker bin args out r)"

lemma slept_macker: "list_all macker_event es \<Longrightarrow> slept es = 0"
  by (induction es) (auto simp: macker_event_def)

text \<open>A Macker command leaves at most its own event.\<close>

lemma mackerOutput_events:
  assumes "mackerOutput E m args tr = (r, tr')"
  obtains es where "tr' = es @ tr" "list_all macker_event es" "length es \<le> 1"
proof (cases "mackerCommand E m")
  case (Inl e)
  with assms that [of "[]"] show ?thesis by (simp add: mackerOutput_def)
next
  case (Inr binary)
  obtain out res where "e_macker E tr binary args = (out, res)" by force
  with assms Inr that [of "[EvMacker binary args out res]"] show ?thesis
    by (cases res) (auto simp: mackerOutput_def call_macker_def macker_event_def)
qed

lemma containerInspection_events:
  assumes "containerInspection E m name tr = (r, tr')"
  obtains es where "tr' = es @ tr" "list_all macker_event es"
proof -
  obtain q tr1 where q: "mackerOutput E m [''inspect'', ''--format'', ''json'', name] tr = (q, tr1)" by force
  with assms have "tr' = tr1" by (auto simp: containerInspection_def split: sum.splits option.splits)
  with mackerOutput_events [OF q] that show ?thesis by metis
qed

lemma containerStatus_events:
  assumes "containerStatus E m name tr = (r, tr')"
  obtains es where "tr' = es @ tr" "list_all macker_event es"
proof -
  obtain q tr1 where q: "mackerOutput E m [''ps'', ''--all''] tr = (q, tr1)" by force
  with assms have "tr' = tr1" by (auto simp: containerStatus_def split: sum.splits)
  with mackerOutput_events [OF q] that show ?thesis by metis
qed

text \<open>A round that asks for another one has looked at the clock and slept.\<close>

lemma wait_round_None:
  assumes "wait_round E m name deadline tr = (None, tr')"
  obtains es where "list_all macker_event es" "e_now E (es @ tr) \<le> deadline"
    "tr' = EvSleep poll_interval # EvNow (e_now E (es @ tr)) # es @ tr"
proof -
  obtain r tr1 where i: "containerInspection E m name tr = (r, tr1)" by force
  obtain es1 where es1: "tr1 = es1 @ tr" "list_all macker_event es1"
    using i by (rule containerInspection_events)
  show ?thesis
  proof (cases r)
    case (Inl e)
    with assms i show ?thesis by (simp add: wait_round_def)
  next
    case (Inr o')
    show ?thesis
    proof (cases o')
      case (Some x)
      with assms i Inr have "e_now E tr1 \<le> deadline" "tr' = EvSleep poll_interval # EvNow (e_now E tr1) # tr1"
        by (auto simp: wait_round_def time_now_def Let_def go_sleep_def split: if_splits prod.splits)
      with es1 that show ?thesis by blast
    next
      case None
      obtain s tr2 where s: "containerStatus E m name tr1 = (s, tr2)" by force
      obtain es2 where es2: "tr2 = es2 @ tr1" "list_all macker_event es2"
        using s by (rule containerStatus_events)
      from assms i Inr None s have "e_now E tr2 \<le> deadline \<and> tr' = EvSleep poll_interval # EvNow (e_now E tr2) # tr2"
        by (auto simp: wait_round_def time_now_def Let_def go_sleep_def split: sum.splits option.splits if_splits)
      with es1 es2 that [of "es2 @ es1"] show ?thesis by simp
    qed
  qed
qed

lemma wait_loop_None:
  assumes "clock_advances E"
  shows "wait_loop (Suc n) E m name deadline (post @ EvNow t # pre) = None \<Longrightarrow>
    t + slept post + int n * poll_interval \<le> deadline"
proof (induction n arbitrary: post)
  case 0
  then have "fst (wait_round E m name deadline (post @ EvNow t # pre)) = None"
    by (auto split: prod.splits option.splits)
  then obtain tr' where "wait_round E m name deadline (post @ EvNow t # pre) = (None, tr')"
    by (metis prod.collapse)
  then obtain es where es: "list_all macker_event es" "e_now E ((es @ post) @ EvNow t # pre) \<le> deadline"
    by (rule wait_round_None) simp
  have "t + slept (es @ post) \<le> e_now E ((es @ post) @ EvNow t # pre)"
    using assms unfolding clock_advances_def by blast
  with es show ?case by (simp add: slept_macker)
next
  case (Suc n)
  then obtain tr' where r: "wait_round E m name deadline (post @ EvNow t # pre) = (None, tr')"
    and l: "wait_loop (Suc n) E m name deadline tr' = None"
    by (auto simp del: wait_loop.simps simp: wait_loop.simps(2) [of "Suc n"] split: prod.splits option.splits)
  from r obtain es where es: "list_all macker_event es"
    "tr' = EvSleep poll_interval # EvNow (e_now E (es @ post @ EvNow t # pre)) # es @ post @ EvNow t # pre"
    by (rule wait_round_None)
  with l Suc.IH [of "EvSleep poll_interval # EvNow (e_now E (es @ post @ EvNow t # pre)) # es @ post"]
  show ?case by (simp add: slept_macker algebra_simps del: wait_loop.simps)
qed

text \<open>
  C24: waiting for a workload ends within the rounds the model allows it, on every clock that
  advances by what the program sleeps: the loop always returns.
\<close>

theorem wait_loop_returns:
  assumes "clock_advances E"
  shows "\<exists>r. wait_loop wait_fuel E m name (t + 5 * second) (EvNow t # tr) = Some r"
proof (rule ccontr)
  assume "\<nexists>r. wait_loop wait_fuel E m name (t + 5 * second) (EvNow t # tr) = Some r"
  then have "wait_loop (Suc 51) E m name (t + 5 * second) ([] @ EvNow t # tr) = None"
    by (cases "wait_loop wait_fuel E m name (t + 5 * second) (EvNow t # tr)")
      (auto simp: wait_fuel_def simp del: wait_loop.simps)
  from wait_loop_None [OF assms this] show False by (simp add: second_def poll_interval_def)
qed

lemma wait_loop_returns_witness:
  "\<exists>r. wait_loop wait_fuel quiet_env demo_manager ''web'' (7 + 5 * second) [EvNow 7] = Some r"
  by (rule wait_loop_returns [OF quiet_clock(2)])

text \<open>
  C15: a workload is taken for running only after Macker reported it running: by its inspection
  when the startup window had passed, or by its listing when inspection is unavailable.
\<close>

theorem ready_only_if_seen_running:
  assumes "waitForMackerRunning E m name tr = (None, tr')"
  shows "(\<exists>tr1 tr2 i. containerInspection E m name tr1 = (Inr (Some i), tr2) \<and> in_status i = ''running'' \<and>
      e_now E tr + 5 * second < e_now E tr2 \<and> tr' = EvNow (e_now E tr2) # tr2) \<or>
    (\<exists>tr1 tr2. containerInspection E m name tr1 = (Inr None, tr2) \<and>
      containerStatus E m name tr2 = (Inr (Some ''running''), tr'))"
    (is "?seen tr'")
proof -
  let ?d = "e_now E tr + 5 * second"
  have loop: "wait_loop n E m name ?d tr0 = Some (None, tr') \<Longrightarrow>
      \<exists>tr1. wait_round E m name ?d tr1 = (Some None, tr')" for n tr0
  proof (induction n arbitrary: tr0)
    case (Suc n)
    obtain r tr1 where "wait_round E m name ?d tr0 = (r, tr1)" by force
    with Suc show ?case by (cases r) auto
  qed simp
  from assms have "wait_loop wait_fuel E m name ?d (EvNow (e_now E tr) # tr) = Some (None, tr')"
    by (auto simp: waitForMackerRunning_def time_now_def Let_def split: option.splits)
  from loop [OF this] obtain tr1 where round: "wait_round E m name ?d tr1 = (Some None, tr')" by blast
  obtain r tr2 where i: "containerInspection E m name tr1 = (r, tr2)" by force
  show ?thesis
  proof (cases r)
    case (Inl e)
    with round i show ?thesis by (simp add: wait_round_def)
  next
    case (Inr o')
    show ?thesis
    proof (cases o')
      case (Some x)
      with round i Inr have "in_status x = ''running'' \<and> ?d < e_now E tr2 \<and> tr' = EvNow (e_now E tr2) # tr2"
        by (auto simp: wait_round_def time_now_def Let_def split: if_splits prod.splits)
      with i Inr Some show ?thesis by blast
    next
      case None
      obtain s tr3 where s: "containerStatus E m name tr2 = (s, tr3)" by force
      with round i Inr None have "s = Inr (Some ''running'') \<and> tr3 = tr'"
        by (auto simp: wait_round_def time_now_def Let_def split: sum.splits option.splits if_splits)
      with i Inr None s show ?thesis by blast
    qed
  qed
qed

lemma ready_only_if_seen_running_witness:
  "\<exists>E m tr'. waitForMackerRunning E m ''web'' [] = (None, tr') \<and>
    (\<exists>tr1 tr2. containerInspection E m ''web'' tr1 = (Inr None, tr2) \<and>
      containerStatus E m ''web'' tr2 = (Inr (Some ''running''), tr'))"
proof -
  let ?E = "quiet_env\<lparr>e_macker := \<lambda>_ _ args. if args = [''ps'', ''--all'']
    then (''web'' @ [tab] @ ''x'' @ [tab] @ ''running'', None) else ([], Some (EMsg ''unknown command''))\<rparr>"
  have "fst (waitForMackerRunning ?E demo_manager ''web'' []) = None"
    "\<forall>tr. fst (containerInspection ?E demo_manager ''web'' tr) = Inr None"
    by code_simp (simp add: containerInspection_def mackerOutput_def mackerCommand_def call_macker_def
        Let_def demo_defs)
  then obtain tr' where w: "waitForMackerRunning ?E demo_manager ''web'' [] = (None, tr')"
    and i: "\<And>tr. fst (containerInspection ?E demo_manager ''web'' tr) = Inr None"
    by (metis prod.collapse)
  from ready_only_if_seen_running [OF w] i w show ?thesis by (metis fst_conv option.distinct(1) sum.inject(2))
qed

end
