(* ===== verification/Effects.thy ===== *)
theory Effects
  imports World
begin

text \<open>
  A small logic of effects: \<open>emits P f\<close> says that whatever the world answers, \<open>f\<close> only extends
  the trace and every event it adds satisfies \<open>P\<close>; \<open>emits3\<close> says it of an operation that also
  returns a state.  The rules in \<open>emits_intros\<close> follow the shape of the code.
\<close>

named_theorems emits_intros \<open>rules for the events of an operation\<close>

definition emits :: "(event \<Rightarrow> bool) \<Rightarrow> (trace \<Rightarrow> 'a \<times> trace) \<Rightarrow> bool" where
  "emits P f \<longleftrightarrow> (\<forall>tr. \<exists>es. snd (f tr) = es @ tr \<and> list_all P es)"

definition emits3 :: "(event \<Rightarrow> bool) \<Rightarrow> (trace \<Rightarrow> 'a \<times> 's \<times> trace) \<Rightarrow> bool" where
  "emits3 P f \<longleftrightarrow> (\<forall>tr. \<exists>es. snd (snd (f tr)) = es @ tr \<and> list_all P es)"

lemma emitsD: "emits P f \<Longrightarrow> f tr = (r, tr') \<Longrightarrow> \<exists>es. tr' = es @ tr \<and> list_all P es"
  unfolding emits_def by (metis snd_conv)

lemma emits3D: "emits3 P f \<Longrightarrow> f tr = (r, s, tr') \<Longrightarrow> \<exists>es. tr' = es @ tr \<and> list_all P es"
  unfolding emits3_def by (metis snd_conv)

lemma emits_mono: "emits P f \<Longrightarrow> (\<And>e. P e \<Longrightarrow> Q e) \<Longrightarrow> emits Q f"
  unfolding emits_def by (metis list.pred_mono_strong)

lemma emits3_mono: "emits3 P f \<Longrightarrow> (\<And>e. P e \<Longrightarrow> Q e) \<Longrightarrow> emits3 Q f"
  unfolding emits3_def by (metis list.pred_mono_strong)

section \<open>Results\<close>

lemma emits_return [emits_intros]: "emits P (\<lambda>tr. (c, tr))"
  by (simp add: emits_def)

lemma emits3_return [emits_intros]: "emits3 P (\<lambda>tr. (c, s, tr))"
  by (simp add: emits3_def)

lemma emits_snd [emits_intros]: "emits P f \<Longrightarrow> emits P (\<lambda>tr. (c, snd (f tr)))"
  by (simp add: emits_def)

lemma emits3_snd [emits_intros]: "emits P f \<Longrightarrow> emits3 P (\<lambda>tr. (c, s, snd (f tr)))"
  by (simp add: emits_def emits3_def)

section \<open>Sequencing\<close>

lemma emits_bind [emits_intros]:
  "emits P f \<Longrightarrow> (\<And>x. emits P (g x)) \<Longrightarrow> emits P (\<lambda>tr. case f tr of (x, tr') \<Rightarrow> g x tr')"
  unfolding emits_def by (simp add: case_prod_beta) (metis append_assoc list_all_append)

lemma emits3_bind [emits_intros]:
  "emits P f \<Longrightarrow> (\<And>x. emits3 P (g x)) \<Longrightarrow> emits3 P (\<lambda>tr. case f tr of (x, tr') \<Rightarrow> g x tr')"
  unfolding emits_def emits3_def by (simp add: case_prod_beta) (metis append_assoc list_all_append)

lemma emits_bind3 [emits_intros]:
  "emits3 P f \<Longrightarrow> (\<And>x s. emits P (g x s)) \<Longrightarrow> emits P (\<lambda>tr. case f tr of (x, s, tr') \<Rightarrow> g x s tr')"
  unfolding emits_def emits3_def by (simp add: case_prod_beta) (metis append_assoc list_all_append)

lemma emits3_bind3 [emits_intros]:
  "emits3 P f \<Longrightarrow> (\<And>x s. emits3 P (g x s)) \<Longrightarrow> emits3 P (\<lambda>tr. case f tr of (x, s, tr') \<Rightarrow> g x s tr')"
  unfolding emits3_def by (simp add: case_prod_beta) (metis append_assoc list_all_append)

text \<open>A step whose result is dropped.\<close>

lemma emits_then [emits_intros]: "emits P f \<Longrightarrow> emits P g \<Longrightarrow> emits P (\<lambda>tr. g (snd (f tr)))"
  unfolding emits_def by (metis append_assoc list_all_append)

lemma emits3_then [emits_intros]: "emits P f \<Longrightarrow> emits3 P g \<Longrightarrow> emits3 P (\<lambda>tr. g (snd (f tr)))"
  unfolding emits_def emits3_def by (metis append_assoc list_all_append)

section \<open>Branching\<close>

lemma emits_if [emits_intros]:
  "(c \<Longrightarrow> emits P f) \<Longrightarrow> (\<not> c \<Longrightarrow> emits P g) \<Longrightarrow> emits P (\<lambda>tr. if c then f tr else g tr)"
  by (cases c) auto

lemma emits3_if [emits_intros]:
  "(c \<Longrightarrow> emits3 P f) \<Longrightarrow> (\<not> c \<Longrightarrow> emits3 P g) \<Longrightarrow> emits3 P (\<lambda>tr. if c then f tr else g tr)"
  by (cases c) auto

lemma emits_option [emits_intros]:
  "(x = None \<Longrightarrow> emits P f) \<Longrightarrow> (\<And>y. x = Some y \<Longrightarrow> emits P (g y)) \<Longrightarrow>
    emits P (\<lambda>tr. case x of None \<Rightarrow> f tr | Some y \<Rightarrow> g y tr)"
  by (cases x) auto

lemma emits3_option [emits_intros]:
  "(x = None \<Longrightarrow> emits3 P f) \<Longrightarrow> (\<And>y. x = Some y \<Longrightarrow> emits3 P (g y)) \<Longrightarrow>
    emits3 P (\<lambda>tr. case x of None \<Rightarrow> f tr | Some y \<Rightarrow> g y tr)"
  by (cases x) auto

lemma emits_sum [emits_intros]:
  "(\<And>e. x = Inl e \<Longrightarrow> emits P (f e)) \<Longrightarrow> (\<And>y. x = Inr y \<Longrightarrow> emits P (g y)) \<Longrightarrow>
    emits P (\<lambda>tr. case x of Inl e \<Rightarrow> f e tr | Inr y \<Rightarrow> g y tr)"
  by (cases x) auto

lemma emits3_sum [emits_intros]:
  "(\<And>e. x = Inl e \<Longrightarrow> emits3 P (f e)) \<Longrightarrow> (\<And>y. x = Inr y \<Longrightarrow> emits3 P (g y)) \<Longrightarrow>
    emits3 P (\<lambda>tr. case x of Inl e \<Rightarrow> f e tr | Inr y \<Rightarrow> g y tr)"
  by (cases x) auto

lemma emits_pair [emits_intros]:
  "(\<And>a b. x = (a, b) \<Longrightarrow> emits P (f a b)) \<Longrightarrow> emits P (\<lambda>tr. case x of (a, b) \<Rightarrow> f a b tr)"
  by (cases x) auto

lemma emits3_pair [emits_intros]:
  "(\<And>a b. x = (a, b) \<Longrightarrow> emits3 P (f a b)) \<Longrightarrow> emits3 P (\<lambda>tr. case x of (a, b) \<Rightarrow> f a b tr)"
  by (cases x) auto

lemma emits_bool [emits_intros]:
  "(c \<Longrightarrow> emits P f) \<Longrightarrow> (\<not> c \<Longrightarrow> emits P g) \<Longrightarrow>
    emits P (\<lambda>tr. case c of True \<Rightarrow> f tr | False \<Rightarrow> g tr)"
  by (cases c) auto

section \<open>Calls\<close>

lemma emits_calls [emits_intros]:
  "(\<And>out r. P (EvMacker bin args out r)) \<Longrightarrow> emits P (call_macker E bin args)"
  "(\<And>out r. P (EvCmd argv out r)) \<Longrightarrow> emits P (call_cmd E argv)"
  "(\<And>r. P (EvApi c m path body r)) \<Longrightarrow> emits P (call_api E c m path body)"
  "(\<And>r. P (EvFs q r)) \<Longrightarrow> emits P (call_fs E q)"
  "(\<And>r. P (EvIfaces r)) \<Longrightarrow> emits P (call_ifaces E)"
  "(\<And>t. P (EvNow t)) \<Longrightarrow> emits P (time_now E)"
  by (simp_all add: emits_def call_defs Let_def)

lemma emits_more_calls [emits_intros]:
  "(\<And>r. P (EvRaw c m path data headers r)) \<Longrightarrow> emits P (call_raw E c m path data headers)"
  "(\<And>r. P (EvRandom n r)) \<Longrightarrow> emits P (random_hex E n)"
  "(\<And>r. P (EvKeyRequest name r)) \<Longrightarrow> emits P (key_request E name)"
  "(\<And>r. P (EvListen address r)) \<Longrightarrow> emits P (call_listen E address)"
  by (simp_all add: emits_def call_raw_def random_hex_def key_request_def call_listen_def Let_def)

lemma emits_privileged [emits_intros]:
  "(\<And>out r. P (EvCmd (privileged_argv sudo argv) out r)) \<Longrightarrow> emits P (privileged_command E sudo argv)"
  by (simp add: emits_def call_defs Let_def)

lemma snd_fs [simp]:
  "snd (fs_do E q tr) = EvFs q (e_fs E tr q) # tr"
  "snd (fs_read E path tr) = EvFs (ReadFile path) (e_fs E tr (ReadFile path)) # tr"
  "snd (fs_stat E path tr) = EvFs (Stat path) (e_fs E tr (Stat path)) # tr"
  "snd (fs_names E q tr) = EvFs q (e_fs E tr q) # tr"
  by (simp_all add: fs_do_eq fs_read_def fs_stat_def fs_names_def call_fs_def Let_def split: fs_response.splits)

lemma emits_fs [emits_intros]:
  "(\<And>r. P (EvFs q r)) \<Longrightarrow> emits P (fs_do E q)"
  "(\<And>r. P (EvFs (ReadFile path) r)) \<Longrightarrow> emits P (fs_read E path)"
  "(\<And>r. P (EvFs (Stat path) r)) \<Longrightarrow> emits P (fs_stat E path)"
  "(\<And>r. P (EvFs q r)) \<Longrightarrow> emits P (fs_names E q)"
  by (simp_all add: emits_def)

end
