(* ===== verification/WorkloadEnv.thy ===== *)
theory WorkloadEnv
  imports Macker Effects
begin

text \<open>
  \<^verbatim>\<open>workload_env.go\<close> and \<^verbatim>\<open>api_authorization.go\<close>: the environment of a container, resolved
  from its literal values, ConfigMaps, Secrets and the downward API, and the redaction of
  commands for the debug log.  Configuration objects are read with the peer client only.
\<close>

section \<open>Reading configuration objects\<close>

definition authorizedPeerStorageError :: "string \<Rightarrow> err \<Rightarrow> err" where
  "authorizedPeerStorageError resource e = (if http_code_is 403 e
     then wrap (''get '' @ resource @ '': API authorization denied; configure --peer-kubeconfig with an identity authorized to read PVCs/PVs, ConfigMaps, and Secrets: '') e
     else e)"

definition missingPeerStorageClientError :: "string \<Rightarrow> err" where
  "missingPeerStorageClientError resource = EMsg (resource @ '' lookup requires an explicitly authorized peer API client; configure --peer-kubeconfig (the token-backed system:k3s-controller identity is intentionally not assumed to read storage/config objects)'')"

definition object_path :: "string \<Rightarrow> string \<Rightarrow> string \<Rightarrow> string" where
  "object_path ns kind name = ''/api/v1/namespaces/'' @ path_escape ns @ ''/'' @ kind @ ''/'' @ path_escape name"

definition getConfigMap :: "env \<Rightarrow> manager \<Rightarrow> string \<Rightarrow> string \<Rightarrow> bool \<Rightarrow> (err + config_map option) io" where
  "getConfigMap E m ns name opt tr =
    (if name = [] then (Inl (EMsg ''ConfigMap name is empty''), tr)
     else if \<not> wm_api m then (Inl (missingPeerStorageClientError ''ConfigMap''), tr)
     else (case call_api E PeerClient GET (object_path ns ''configmaps'' name) None tr of
        (Inl e, tr) \<Rightarrow>
          if opt \<and> http_code_is 404 e then (Inr None, tr)
          else (Inl (authorizedPeerStorageError (''ConfigMap '' @ ns @ ''/'' @ name) e), tr)
      | (Inr k, tr) \<Rightarrow> ((case k of KConfigMap c \<Rightarrow> Inr (Some c)
          | _ \<Rightarrow> Inl (wrap ''decode ConfigMap: '' json_error)), tr)))"

definition getSecret :: "env \<Rightarrow> manager \<Rightarrow> string \<Rightarrow> string \<Rightarrow> bool \<Rightarrow> (err + secret option) io" where
  "getSecret E m ns name opt tr =
    (if name = [] then (Inl (EMsg ''Secret name is empty''), tr)
     else if \<not> wm_api m then (Inl (missingPeerStorageClientError ''Secret''), tr)
     else (case call_api E PeerClient GET (object_path ns ''secrets'' name) None tr of
        (Inl e, tr) \<Rightarrow>
          if opt \<and> http_code_is 404 e then (Inr None, tr)
          else (Inl (authorizedPeerStorageError (''Secret '' @ ns @ ''/'' @ name) e), tr)
      | (Inr k, tr) \<Rightarrow> ((case k of KSecret s \<Rightarrow> Inr (Some s)
          | _ \<Rightarrow> Inl (wrap ''decode Secret: '' json_error)), tr)))"

section \<open>The downward API\<close>

definition apostrophe :: char where
  "apostrophe = CHR 0x27"

definition metadataFieldKey :: "string \<Rightarrow> string \<Rightarrow> string option" where
  "metadataFieldKey fieldPath field =
    (let pre = ''metadata.'' @ field @ [CHR ''['', apostrophe]; suf = [apostrophe, CHR '']''] in
     if \<not> has_prefix fieldPath pre \<or> \<not> has_suffix fieldPath suf then None
     else (let key = trim_suffix (trim_prefix fieldPath pre) suf in
       if key = [] \<or> CHR 0x0D \<in> set key \<or> newline \<in> set key then None else Some key))"

definition downwardAPIValue :: "pod \<Rightarrow> managed \<Rightarrow> string \<Rightarrow> string \<Rightarrow> err + string" where
  "downwardAPIValue pod managed hostIP fieldPath =
    (let f = trim_space fieldPath in
     if f = ''metadata.name'' then Inr (om_name (p_meta pod))
     else if f = ''metadata.namespace'' then Inr (om_namespace (p_meta pod))
     else if f = ''metadata.uid'' then Inr (om_uid (p_meta pod))
     else if f = ''spec.nodeName'' then Inr (ps_node_name (p_spec pod))
     else if f = ''spec.serviceAccountName'' then Inr (ps_service_account (p_spec pod))
     else if f = ''status.podIP'' then
       Inr (if pt_pod_ip (p_status pod) \<noteq> [] then pt_pod_ip (p_status pod) else mw_ip managed)
     else if f = ''status.hostIP'' then
       Inr (if pt_host_ip (p_status pod) \<noteq> [] then pt_host_ip (p_status pod) else hostIP)
     else (case metadataFieldKey f ''labels'' of
         Some key \<Rightarrow> Inr (mget (om_labels (p_meta pod)) key)
       | None \<Rightarrow> (case metadataFieldKey f ''annotations'' of
           Some key \<Rightarrow> Inr (mget (om_annotations (p_meta pod)) key)
         | None \<Rightarrow> Inl (EMsg (''fieldRef '' @ quote f @ '' is not supported'')))))"

section \<open>Resolving an environment\<close>

definition is_optional :: "bool option \<Rightarrow> bool" where
  "is_optional o' = (o' = Some True)"

definition variable_name :: "env_var \<Rightarrow> string" where
  "variable_name ev = ''environment variable '' @ quote (ev_name ev)"

definition resolveEnvValue :: "env \<Rightarrow> manager \<Rightarrow> pod \<Rightarrow> managed \<Rightarrow> env_var \<Rightarrow> env_source \<Rightarrow> (err + string) io" where
  "resolveEnvValue E m pod managed ev src tr =
    (case es_field_ref src of
       Some path \<Rightarrow> ((case downwardAPIValue pod managed (wm_node_ip m) path of
           Inl e \<Rightarrow> Inl (wrap (variable_name ev @ '': '') e) | Inr v \<Rightarrow> Inr v), tr)
     | None \<Rightarrow> (case es_secret_key src of
         Some sel \<Rightarrow> (case getSecret E m (om_namespace (p_meta pod)) (ks_name sel) (is_optional (ks_optional sel)) tr of
             (Inl e, tr) \<Rightarrow> (Inl (wrap (variable_name ev @ '': valueFrom Secret '' @ quote (ks_name sel) @ '': '') e), tr)
           | (Inr None, tr) \<Rightarrow> (Inr [], tr)
           | (Inr (Some s), tr) \<Rightarrow> ((case map_of (se_data s) (ks_key sel) of
               None \<Rightarrow> Inl (EMsg (variable_name ev @ '': Secret '' @ quote (ks_name sel) @ '' has no key '' @ quote (ks_key sel)))
             | Some v \<Rightarrow> Inr v), tr))
       | None \<Rightarrow> (case es_config_key src of
           Some sel \<Rightarrow> (case getConfigMap E m (om_namespace (p_meta pod)) (ks_name sel) (is_optional (ks_optional sel)) tr of
               (Inl e, tr) \<Rightarrow> (Inl (wrap (variable_name ev @ '': valueFrom ConfigMap '' @ quote (ks_name sel) @ '': '') e), tr)
             | (Inr None, tr) \<Rightarrow> (Inr [], tr)
             | (Inr (Some c), tr) \<Rightarrow> ((case map_of (cm_data c) (ks_key sel) of
                 None \<Rightarrow> Inl (EMsg (variable_name ev @ '': ConfigMap '' @ quote (ks_name sel) @ '' has no key '' @ quote (ks_key sel)))
               | Some v \<Rightarrow> Inr v), tr))
         | None \<Rightarrow> (Inl (EMsg (variable_name ev @ '' uses an unsupported valueFrom source'' @
             (if es_resource src then '' (resourceFieldRef)'' else []))), tr))))"

text \<open>The entries of one object under a prefix, in the order of their keys.\<close>

definition put_prefixed :: "string \<Rightarrow> strmap \<Rightarrow> strmap \<Rightarrow> strmap" where
  "put_prefixed pre d values = foldl (\<lambda>vs k. mput vs (pre @ k) (mget d k)) values (sort (mkeys d))"

definition env_from_at :: "nat \<Rightarrow> string" where
  "env_from_at i = ''envFrom['' @ show_nat i @ '']''"

fun env_from_loop ::
  "env \<Rightarrow> manager \<Rightarrow> string \<Rightarrow> nat \<Rightarrow> env_from list \<Rightarrow> strmap \<Rightarrow> (err + strmap) io" where
  "env_from_loop E m ns i [] values tr = (Inr values, tr)"
| "env_from_loop E m ns i (src # srcs) values tr =
    (case (ef_config_map src, ef_secret src) of
       (Some _, Some _) \<Rightarrow> (Inl (EMsg (env_from_at i @ '' specifies both ConfigMap and Secret'')), tr)
     | (Some r, None) \<Rightarrow> (case getConfigMap E m ns (sr_name r) (is_optional (sr_optional r)) tr of
         (Inl e, tr) \<Rightarrow> (Inl (wrap (''envFrom ConfigMap '' @ quote (sr_name r) @ '': '') e), tr)
       | (Inr None, tr) \<Rightarrow> env_from_loop E m ns (i + 1) srcs values tr
       | (Inr (Some c), tr) \<Rightarrow> env_from_loop E m ns (i + 1) srcs (put_prefixed (ef_prefix src) (cm_data c) values) tr)
     | (None, Some r) \<Rightarrow> (case getSecret E m ns (sr_name r) (is_optional (sr_optional r)) tr of
         (Inl e, tr) \<Rightarrow> (Inl (wrap (''envFrom Secret '' @ quote (sr_name r) @ '': '') e), tr)
       | (Inr None, tr) \<Rightarrow> env_from_loop E m ns (i + 1) srcs values tr
       | (Inr (Some s), tr) \<Rightarrow> env_from_loop E m ns (i + 1) srcs (put_prefixed (ef_prefix src) (se_data s) values) tr)
     | (None, None) \<Rightarrow> (Inl (EMsg (env_from_at i @ '' must specify a ConfigMapRef or SecretRef'')), tr))"

fun env_loop ::
  "env \<Rightarrow> manager \<Rightarrow> pod \<Rightarrow> managed \<Rightarrow> nat \<Rightarrow> env_var list \<Rightarrow> strmap \<Rightarrow> (err + strmap) io" where
  "env_loop E m pod managed i [] values tr = (Inr values, tr)"
| "env_loop E m pod managed i (ev # evs) values tr =
    (if ev_name ev = []
     then (Inl (EMsg (''container environment variable '' @ show_nat i @ '' has an empty name'')), tr)
     else (case ev_from ev of
        None \<Rightarrow> env_loop E m pod managed (i + 1) evs (mput values (ev_name ev) (ev_value ev)) tr
      | Some src \<Rightarrow> (case resolveEnvValue E m pod managed ev src tr of
          (Inl e, tr) \<Rightarrow> (Inl e, tr)
        | (Inr v, tr) \<Rightarrow> env_loop E m pod managed (i + 1) evs (mput values (ev_name ev) v) tr)))"

definition env_entries :: "strmap \<Rightarrow> string list" where
  "env_entries values = map (\<lambda>k. k @ ''='' @ mget values k) (sort (mkeys values))"

definition resolveContainerEnvironment ::
  "env \<Rightarrow> manager \<Rightarrow> pod \<Rightarrow> container \<Rightarrow> managed \<Rightarrow> (err + string list) io" where
  "resolveContainerEnvironment E m pod c managed tr =
    (case env_from_loop E m (om_namespace (p_meta pod)) 0 (c_env_from c) [] tr of
       (Inl e, tr) \<Rightarrow> (Inl e, tr)
     | (Inr values, tr) \<Rightarrow> (case env_loop E m pod managed 0 (c_env c) values tr of
         (Inl e, tr) \<Rightarrow> (Inl e, tr)
       | (Inr values, tr) \<Rightarrow> (Inr (env_entries values), tr)))"

section \<open>Redaction\<close>

definition redact_value :: "string \<Rightarrow> string" where
  "redact_value s = (case str_cut CHR ''='' s of (k, _, found) \<Rightarrow>
     if found then k @ ''='' @ ''<redacted>'' else s)"

text \<open>The loop rewrites the argument after each \<^verbatim>\<open>--env\<close>, then looks at the rewritten one.\<close>

fun redact_args :: "string list \<Rightarrow> string list" where
  "redact_args (a # b # rest) = a # redact_args ((if a = ''--env'' then redact_value b else b) # rest)"
| "redact_args as = as"

definition redactMackerArgs :: "string list \<Rightarrow> string" where
  "redactMackerArgs args = formatCommandArgs (redact_args args)"

section \<open>Facts\<close>

lemma redact_args_env:
  assumes "CHR ''='' \<notin> set k"
  shows "redact_args (pre @ [''--env'', k @ ''='' @ v] @ post) = redact_args (pre @ [''--env'', k @ ''='' @ v'] @ post)"
proof -
  have cut: "redact_value (k @ ''='' @ x) = k @ ''=<redacted>''" for x
    using str_cut_found [OF assms, of x] by (simp add: redact_value_def)
  have env: "redact_value ''--env'' = ''--env''"
    using str_cut_missing [of "CHR ''=''" "''--env''"] by (simp add: redact_value_def)
  have base: "redact_args (''--env'' # (k @ ''='' @ v) # post) = redact_args (''--env'' # (k @ ''='' @ v') # post)"
    by (simp add: cut [simplified])
  show ?thesis
  proof (induction pre rule: redact_args.induct [case_names pair none single])
    case (pair a b rest)
    then show ?case by simp
  next
    case none
    then show ?case using base by simp
  next
    case (single a)
    then show ?case using base env by (cases "a = ''--env''") simp_all
  qed
qed

text \<open>
  C34: the debug log of a Macker invocation does not depend on the value of any environment
  variable passed to it.
\<close>

theorem redaction_hides_values:
  assumes "CHR ''='' \<notin> set k"
  shows "redactMackerArgs (pre @ [''--env'', k @ ''='' @ v] @ post) =
    redactMackerArgs (pre @ [''--env'', k @ ''='' @ v'] @ post)"
  unfolding redactMackerArgs_def redact_args_env [OF assms, of pre v post v'] ..

lemma redaction_hides_values_witness:
  "redactMackerArgs ([''run''] @ [''--env'', ''KEY'' @ ''='' @ ''secret''] @ [''img'']) =
   redactMackerArgs ([''run''] @ [''--env'', ''KEY'' @ ''='' @ ''other''] @ [''img''])"
  by (rule redaction_hides_values) simp

text \<open>Configuration is read with the peer identity only.\<close>

definition peer_read :: "event \<Rightarrow> bool" where
  "peer_read e \<longleftrightarrow> (\<exists>path r. e = EvApi PeerClient GET path None r)"

lemma peer_readI [intro]: "peer_read (EvApi PeerClient GET path None r)"
  by (simp add: peer_read_def)

lemma getConfigMap_reads [emits_intros]: "emits peer_read (getConfigMap E m ns name opt)"
  unfolding getConfigMap_def [abs_def] by (intro emits_intros peer_readI)

lemma getSecret_reads [emits_intros]: "emits peer_read (getSecret E m ns name opt)"
  unfolding getSecret_def [abs_def] by (intro emits_intros peer_readI)

lemma resolveEnvValue_reads [emits_intros]: "emits peer_read (resolveEnvValue E m pod managed ev src)"
  unfolding resolveEnvValue_def [abs_def] by (intro emits_intros peer_readI)

lemma env_from_loop_reads [emits_intros]: "emits peer_read (env_from_loop E m ns i srcs vals)"
proof (induction srcs arbitrary: i vals)
  case Nil
  show ?case by (simp add: emits_return)
next
  case (Cons src srcs)
  show ?case unfolding env_from_loop.simps [abs_def] by (intro emits_intros Cons.IH)
qed

lemma env_loop_reads [emits_intros]: "emits peer_read (env_loop E m pod managed i evs vals)"
proof (induction evs arbitrary: i vals)
  case Nil
  show ?case by (simp add: emits_return)
next
  case (Cons ev evs)
  show ?case unfolding env_loop.simps [abs_def] by (intro emits_intros Cons.IH)
qed

text \<open>
  Resolving an environment only reads, and only through the separately authorized peer
  client: the node's own identity is never used for ConfigMaps or Secrets.
\<close>

theorem env_uses_peer_client:
  "emits peer_read (resolveContainerEnvironment E m pod c managed)"
  unfolding resolveContainerEnvironment_def [abs_def] by (intro emits_intros)

section \<open>The resolved environment\<close>

lemma distinct_put_prefixed [simp]: "distinct (mkeys vals) \<Longrightarrow> distinct (mkeys (put_prefixed pre d vals))"
proof -
  have "distinct (mkeys vs) \<Longrightarrow> distinct (mkeys (foldl (\<lambda>vs k. mput vs (pre @ k) (mget d k)) vs ks))" for vs ks
    by (induction ks arbitrary: vs) (auto simp: mkeys_def distinct_update)
  then show "distinct (mkeys vals) \<Longrightarrow> distinct (mkeys (put_prefixed pre d vals))"
    by (simp add: put_prefixed_def)
qed

lemma env_from_loop_distinct:
  "env_from_loop E m ns i srcs vals tr = (Inr r, tr') \<Longrightarrow> distinct (mkeys vals) \<Longrightarrow> distinct (mkeys r)"
proof (induction srcs arbitrary: i vals tr)
  case (Cons src srcs)
  note IH = Cons.IH
  from Cons.prems show ?case
    by (auto split: option.splits prod.splits sum.splits intro: IH)
qed simp

text \<open>One step of the loop over the declared variables.\<close>

lemma env_loop_Cons:
  assumes "env_loop E m pod managed i (ev # evs) vals tr = (Inr r, tr')"
  obtains v tr1 where "env_loop E m pod managed (i + 1) evs (mput vals (ev_name ev) v) tr1 = (Inr r, tr')"
    "ev_from ev = None \<Longrightarrow> v = ev_value ev"
proof (cases "ev_from ev")
  case None
  with assms that show ?thesis by (auto split: if_splits)
next
  case (Some src)
  obtain q tr1 where "resolveEnvValue E m pod managed ev src tr = (q, tr1)" by force
  with assms Some that show ?thesis by (cases q) (auto split: if_splits)
qed

lemma env_loop_result:
  "env_loop E m pod managed i evs vals tr = (Inr r, tr') \<Longrightarrow> distinct (mkeys vals) \<Longrightarrow>
    distinct (mkeys r) \<and> (\<forall>k. k \<notin> ev_name ` set evs \<longrightarrow> map_of r k = map_of vals k)"
proof (induction evs arbitrary: i vals tr)
  case (Cons ev evs)
  from Cons.prems(1) obtain v tr1 where
    "env_loop E m pod managed (i + 1) evs (mput vals (ev_name ev) v) tr1 = (Inr r, tr')"
    by (rule env_loop_Cons)
  from Cons.IH [OF this] Cons.prems(2) show ?case by (auto simp: mkeys_def map_of_mput)
qed simp

lemma env_loop_last:
  "env_loop E m pod managed i (as @ ev # bs) vals tr = (Inr r, tr') \<Longrightarrow> distinct (mkeys vals) \<Longrightarrow>
    ev_from ev = None \<Longrightarrow> ev_name ev \<notin> ev_name ` set bs \<Longrightarrow> map_of r (ev_name ev) = Some (ev_value ev)"
proof (induction as arbitrary: i vals tr)
  case Nil
  from Nil.prems(1) obtain tr1 where
    "env_loop E m pod managed (i + 1) bs (mput vals (ev_name ev) (ev_value ev)) tr1 = (Inr r, tr')"
    by (auto elim: env_loop_Cons simp: Nil.prems(3) simp del: env_loop.simps)
  from env_loop_result [OF this] Nil.prems(2,4) show ?case by (simp add: mkeys_def map_of_mput)
next
  case (Cons a as)
  from Cons.prems(1) obtain v tr1 where
    "env_loop E m pod managed (i + 1) (as @ ev # bs) (mput vals (ev_name a) v) tr1 = (Inr r, tr')"
    unfolding append_Cons by (rule env_loop_Cons)
  from Cons.IH [OF this] Cons.prems(2-4) show ?case by (simp add: mkeys_def)
qed

text \<open>
  A resolved environment has one entry per name, in the order of the names, and a literal
  variable that the container does not declare again later appears with its value, whatever
  ConfigMaps and Secrets say.
\<close>

theorem env_resolution:
  assumes "resolveContainerEnvironment E m pod c managed tr = (Inr result, tr')"
  shows "(\<exists>vals. result = env_entries vals \<and> distinct (mkeys vals)) \<and>
    (\<forall>as ev bs. c_env c = as @ ev # bs \<and> ev_from ev = None \<and> ev_name ev \<notin> ev_name ` set bs \<longrightarrow>
      (ev_name ev @ ''='' @ ev_value ev) \<in> set result)"
proof -
  from assms obtain v1 tr1 v2 where f: "env_from_loop E m (om_namespace (p_meta pod)) 0 (c_env_from c) [] tr = (Inr v1, tr1)"
    and l: "env_loop E m pod managed 0 (c_env c) v1 tr1 = (Inr v2, tr')" and r: "result = env_entries v2"
    by (auto simp: resolveContainerEnvironment_def split: prod.splits sum.splits)
  have d1: "distinct (mkeys v1)" using env_from_loop_distinct [OF f] by (simp add: mkeys_def)
  have d2: "distinct (mkeys v2)" using env_loop_result [OF l d1] by blast
  have "(ev_name ev @ ''='' @ ev_value ev) \<in> set result"
    if "c_env c = as @ ev # bs" "ev_from ev = None" "ev_name ev \<notin> ev_name ` set bs" for as ev bs
  proof -
    have "map_of v2 (ev_name ev) = Some (ev_value ev)"
      using env_loop_last [OF l [unfolded that(1)] d1 that(2,3)] .
    moreover from this have "ev_name ev \<in> set (mkeys v2)" by (force simp: mkeys_def dest: map_of_SomeD)
    ultimately show ?thesis by (force simp: r env_entries_def mget_def)
  qed
  with r d2 show ?thesis by blast
qed

definition demo_container :: container where
  "demo_container = \<lparr>c_name = ''main'', c_image = ''img'', c_working_dir = [], c_command = [], c_args = [],
     c_env = [\<lparr>ev_name = ''B'', ev_value = ''2'', ev_from = None\<rparr>, \<lparr>ev_name = ''A'', ev_value = ''1'', ev_from = None\<rparr>],
     c_env_from = [], c_ports = [], c_mounts = []\<rparr>"

lemma env_resolution_witness:
  "\<forall>pod. \<exists>result tr'. resolveContainerEnvironment quiet_env (newWorkloadManagerWithState None [] [] []) pod demo_container
     (empty_managed ''u'') [] = (Inr result, tr') \<and> ''B=2'' \<in> set result"
proof (rule allI)
  fix pod
  let ?E = quiet_env and ?m = "newWorkloadManagerWithState None [] [] []"
  obtain result tr' where r: "resolveContainerEnvironment ?E ?m pod demo_container (empty_managed ''u'') [] = (Inr result, tr')"
    by (simp add: resolveContainerEnvironment_def demo_container_def)
  have "c_env demo_container = [] @ \<lparr>ev_name = ''B'', ev_value = ''2'', ev_from = None\<rparr> #
      [\<lparr>ev_name = ''A'', ev_value = ''1'', ev_from = None\<rparr>]" by (simp add: demo_container_def)
  with env_resolution [OF r] have "''B'' @ ''='' @ ''2'' \<in> set result" by fastforce
  with r show "\<exists>result tr'. resolveContainerEnvironment ?E ?m pod demo_container (empty_managed ''u'') [] = (Inr result, tr') \<and>
    ''B=2'' \<in> set result" by auto
qed

end
