(* ===== verification/WorkloadNames.thy ===== *)
theory WorkloadNames
  imports FilePath KubeTypes
begin

text \<open>
  The names that \<^verbatim>\<open>workload_mounts.go\<close> and \<^verbatim>\<open>workload_volumes.go\<close> derive from a Pod: the
  Macker container name, the first container, the restart policy and the key of a volume.
\<close>

definition firstPodContainerName :: "pod \<Rightarrow> string" where
  "firstPodContainerName pod = (case ps_containers (p_spec pod) of [] \<Rightarrow> [] | c # _ \<Rightarrow> c_name c)"

definition name_char :: "char \<Rightarrow> bool" where
  "name_char c \<longleftrightarrow> (97 \<le> byte c \<and> byte c \<le> 122) \<or> is_digit c \<or> c \<in> {CHR ''-'', CHR ''_'', CHR ''.''}"

definition name_chars :: "string \<Rightarrow> string" where
  "name_chars s = map (\<lambda>c. if name_char c then c else CHR ''-'') s"

definition workloadContainerName :: "pod \<Rightarrow> string" where
  "workloadContainerName pod =
    (let name = ''maclet-'' @ om_namespace (p_meta pod) @ ''-'' @ om_name (p_meta pod) @
           (if om_uid (p_meta pod) \<noteq> [] then ''-'' @ om_uid (p_meta pod) else []);
         name = trim_chars (name_chars (to_lower name)) ''-._'' in
     if length name > 120 then trim_right_chars (take 120 name) ''-._'' else name)"

definition podRestartPolicy :: "pod \<Rightarrow> string" where
  "podRestartPolicy pod = (if ps_restart_policy (p_spec pod) = [] then ''Always''
     else ps_restart_policy (p_spec pod))"

definition sanitizeVolumeKey :: "string \<Rightarrow> string" where
  "sanitizeVolumeKey value = (let v = trim_space value in
     if v = [] \<or> v = ''.'' \<or> v = ''..'' \<or> CHR ''/'' \<in> set v \<or> CHR 0x5C \<in> set v then [] else v)"

section \<open>Facts\<close>

lemma set_trim_right_of: "set (trim_right_of P s) \<subseteq> set s"
  using set_trim_of [of P s] trim_right_of_prefix [of s P] by (metis Un_upper1 set_append)

lemma name_chars_set: "c \<in> set (name_chars s) \<Longrightarrow> name_char c"
  by (auto simp: name_chars_def name_char_def)

lemma trim_of_prefix_kept:
  assumes "\<not> P c"
  shows "\<exists>t. trim_of P (c # s) = c # t"
proof -
  obtain u where u: "c # s = trim_right_of P (c # s) @ u" using trim_right_of_prefix by blast
  have "trim_right_of P (c # s) \<noteq> []"
    using assms by (simp add: trim_right_of_def dropWhile_eq_Nil_conv)
  with u have "\<exists>t. trim_right_of P (c # s) = c # t" by (cases "trim_right_of P (c # s)") auto
  with assms show ?thesis by (simp add: trim_of_def)
qed

lemma container_name_facts:
  "workloadContainerName pod \<noteq> [] \<and> length (workloadContainerName pod) \<le> 120 \<and>
   list_all name_char (workloadContainerName pod) \<and>
   hd (workloadContainerName pod) = CHR ''m'' \<and> last (workloadContainerName pod) \<notin> set ''-._''"
proof -
  let ?P = "\<lambda>c. c \<in> set ''-._''"
  define raw where "raw = ''maclet-'' @ om_namespace (p_meta pod) @ ''-'' @ om_name (p_meta pod) @
      (if om_uid (p_meta pod) \<noteq> [] then ''-'' @ om_uid (p_meta pod) else [])"
  define full where "full = trim_of ?P (name_chars (to_lower raw))"
  have nm: "workloadContainerName pod = (if length full > 120 then trim_right_of ?P (take 120 full) else full)"
    by (simp add: workloadContainerName_def Let_def full_def raw_def trim_chars_def trim_right_chars_def)
  have m: "lower_char CHR ''m'' = CHR ''m''" "name_char CHR ''m''" by code_simp+
  obtain rest where "name_chars (to_lower raw) = CHR ''m'' # rest"
    by (simp add: raw_def name_chars_def to_lower_def m)
  then obtain t where full: "full = CHR ''m'' # t"
    unfolding full_def using trim_of_prefix_kept [of ?P "CHR ''m''"] by auto
  have chars: "list_all name_char full"
    using set_trim_of [of ?P "name_chars (to_lower raw)"] name_chars_set
    by (auto simp: full_def list_all_iff)
  show ?thesis
  proof (cases "length full > 120")
    case False
    moreover have "last full \<notin> set ''-._''" using trim_of_last [of ?P "name_chars (to_lower raw)"] full
      by (simp add: full_def)
    ultimately show ?thesis using full chars by (simp add: nm)
  next
    case True
    obtain u where u: "take 120 full = CHR ''m'' # u" using full by (cases "120 :: nat") auto
    have ne: "trim_right_of ?P (take 120 full) \<noteq> []"
      by (simp add: u trim_right_of_def dropWhile_eq_Nil_conv)
    obtain v where v: "take 120 full = trim_right_of ?P (take 120 full) @ v"
      using trim_right_of_prefix by blast
    then have "length (trim_right_of ?P (take 120 full)) \<le> length (take 120 full)"
      by (metis le_add1 length_append)
    moreover have "hd (trim_right_of ?P (take 120 full)) = CHR ''m''" using ne u v by (metis hd_append2 list.sel(1))
    moreover have "list_all name_char (trim_right_of ?P (take 120 full))"
      using chars set_trim_right_of [of ?P "take 120 full"] by (auto simp: list_all_iff dest: in_set_takeD)
    ultimately show ?thesis using ne trim_right_of_last [OF ne] True by (simp add: nm)
  qed
qed

text \<open>
  A Macker container name is a non-empty name of at most 120 lower-case letters, digits,
  hyphens, underscores and dots, and neither starts nor ends with punctuation.
\<close>

theorem container_name_valid:
  "workloadContainerName pod \<noteq> [] \<and> length (workloadContainerName pod) \<le> 120 \<and>
   list_all name_char (workloadContainerName pod) \<and>
   hd (workloadContainerName pod) = CHR ''m'' \<and> last (workloadContainerName pod) \<notin> set ''-._''"
  by (rule container_name_facts)

lemma container_name_comp: "slash \<notin> set (workloadContainerName pod) \<and> proper (workloadContainerName pod)"
proof -
  have "\<not> name_char slash" by code_simp
  then have "slash \<notin> set (workloadContainerName pod)" using container_name_facts [of pod] by (auto simp: list_all_iff)
  moreover have "workloadContainerName pod \<noteq> ''.''" "workloadContainerName pod \<noteq> ''..''"
    using container_name_facts [of pod] by auto
  ultimately show ?thesis using container_name_facts [of pod] by (simp add: proper_def)
qed

end
