(* ===== verification/Nfs.thy ===== *)
theory Nfs
  imports WorkloadEnv WorkloadNames
begin

text \<open>
  NFS volumes: \<^verbatim>\<open>nfs.go\<close> resolves a claim to a server and a share and validates them,
  \<^verbatim>\<open>nfs_handoff.go\<close> takes them from a gateway's annotations, \<^verbatim>\<open>nfs_mount.go\<close> builds and runs
  the mount commands and \<^verbatim>\<open>nfs_lifecycle.go\<close> mounts a volume for a workload and records it.
\<close>

section \<open>Validation\<close>

definition validateNFSServer :: "string \<Rightarrow> err + string" where
  "validateNFSServer value = (let v = trim_space value in
     if v = [] then Inl (EMsg ''server is empty'')
     else if list_ex (\<lambda>c. is_space c \<or> c = slash \<or> c = CHR '','' \<or> c = CHR 0x5C) v
     then Inl (EMsg (''server '' @ quote v @ '' contains an unsafe character''))
     else Inr v)"

definition hasParentPath :: "string \<Rightarrow> bool" where
  "hasParentPath value \<longleftrightarrow> ''..'' \<in> set (split_on slash (replace_char CHR 0x5C slash value))"

definition validateNFSShare :: "string \<Rightarrow> err + string" where
  "validateNFSShare value = (let v = trim_space value in
     if v = [] \<or> \<not> has_prefix v ''/'' then Inl (EMsg (''share '' @ quote v @ '' must be an absolute path''))
     else if hasParentPath v then Inl (EMsg (''share '' @ quote v @ '' contains parent traversal''))
     else Inr (path_clean v))"

definition validateNFSSubdir :: "string \<Rightarrow> err + string" where
  "validateNFSSubdir value = (let v = trim_space value in
     if v = [] \<or> v = ''.'' then Inr []
     else if has_prefix v ''/'' \<or> hasParentPath v
     then Inl (EMsg (''subdir '' @ quote v @ '' must remain beneath the export''))
     else Inr (path_clean v))"

definition flag_options :: "string list" where
  "flag_options = [''hard'', ''soft'', ''resvport'', ''locallocks'', ''nolock'', ''nolocks'', ''nolockd'', ''tcp'', ''udp'']"

definition number_options :: "string list" where
  "number_options = [''port'', ''mountport'', ''rsize'', ''wsize'', ''timeo'', ''retrans'']"

text \<open>The cases of the switch over the lower-case key of one option.\<close>

definition check_option :: "string \<Rightarrow> string \<Rightarrow> bool \<Rightarrow> err option" where
  "check_option key val hasValue =
    (if key \<in> set flag_options then
       (if hasValue then Some (EMsg (''mount option '' @ quote key @ '' does not take a value'')) else None)
     else if key \<in> {''vers'', ''nfsvers''} then
       (if \<not> hasValue \<or> (val \<noteq> ''3'' \<and> val \<noteq> ''4'')
        then Some (EMsg (''mount option '' @ quote key @ '' must be 3 or 4'')) else None)
     else if key \<in> set number_options then
       (if \<not> hasValue then Some (EMsg (''mount option '' @ quote key @ '' requires a numeric value''))
        else (case atoi val of
            None \<Rightarrow> Some (EMsg (''mount option '' @ quote key @ '' has invalid numeric value''))
          | Some n \<Rightarrow> if n \<le> 0 \<or> n > 2147483647
              then Some (EMsg (''mount option '' @ quote key @ '' has invalid numeric value'')) else None))
     else Some (EMsg (''mount option '' @ quote key @ '' is not allowlisted'')))"

definition option_key :: "string \<Rightarrow> string" where
  "option_key opt = to_lower (trim_space (fst (str_cut CHR ''='' (trim_space opt))))"

fun validate_options :: "string list \<Rightarrow> string list \<Rightarrow> err option" where
  "validate_options seen [] = None"
| "validate_options seen (opt # opts) =
    (if trim_space opt = [] then Some (EMsg ''empty mount option'')
     else (case str_cut CHR ''='' (trim_space opt) of (_, val, hasValue) \<Rightarrow>
       (let key = option_key opt in
        if key \<in> set seen then Some (EMsg (''duplicate mount option '' @ quote key))
        else (case check_option key val hasValue of
            Some e \<Rightarrow> Some e
          | None \<Rightarrow> validate_options (key # seen) opts))))"

definition validateNFSMountOptions :: "string list \<Rightarrow> err option" where
  "validateNFSMountOptions opts = validate_options [] opts"

definition isNFSNotFound :: "err \<Rightarrow> bool" where
  "isNFSNotFound e = http_code_is 404 e"

section \<open>Resolving a claim\<close>

record nfs_volume =
  nv_claim :: string
  nv_pv :: string
  nv_server :: string
  nv_share :: string
  nv_subdir :: string
  nv_options :: "string list"
  nv_read_only :: bool
  nv_legacy :: bool

definition genericNFSCSIDriver :: string where
  "genericNFSCSIDriver = ''nfs.csi.k8s.io''"

text \<open>The checks of the claim, of the persistent volume's binding and of its source.\<close>

definition check_claim :: "string \<Rightarrow> string \<Rightarrow> pvc \<Rightarrow> err option" where
  "check_claim ns name claim = (let what = ''PVC '' @ ns @ ''/'' @ name in
     if pvc_phase claim \<noteq> ''Bound''
     then Some (EMsg (what @ '' is not Bound (phase '' @ quote (pvc_phase claim) @ '')''))
     else if pvc_volume_name claim = [] then Some (EMsg (what @ '' has no bound PV''))
     else None)"

definition check_binding :: "string \<Rightarrow> pvc \<Rightarrow> pv \<Rightarrow> err option" where
  "check_binding ns claim v = (let what = ns @ ''/'' @ pvc_name claim in
     case pv_claim_ref v of
       None \<Rightarrow> Some (EMsg (''PV '' @ pv_name v @ '' is not bound to PVC '' @ what))
     | Some r \<Rightarrow>
         if cr_name r \<noteq> pvc_name claim \<or> cr_namespace r \<noteq> ns
         then Some (EMsg (''PV '' @ pv_name v @ '' is not bound to PVC '' @ what))
         else if pvc_uid claim \<noteq> [] \<and> cr_uid r \<noteq> [] \<and> cr_uid r \<noteq> pvc_uid claim
         then Some (EMsg (''PV '' @ pv_name v @ '' claim UID does not match PVC '' @ what))
         else None)"

definition check_source :: "pv \<Rightarrow> err + strmap" where
  "check_source v =
    (if pv_nfs v then Inl (EMsg (''PV '' @ pv_name v @ '' uses a direct NFS source; only CSI driver '' @
        genericNFSCSIDriver @ '' is supported''))
     else (case pv_csi v of
         Some s \<Rightarrow> if cs_driver s = genericNFSCSIDriver then Inr (cs_attributes s)
           else Inl (EMsg (''PV '' @ pv_name v @ '' uses unsupported CSI driver '' @ quote (cs_driver s) @
             ''; want '' @ genericNFSCSIDriver))
       | None \<Rightarrow> Inl (EMsg (''PV '' @ pv_name v @ '' uses unsupported CSI driver '' @ quote [] @
             ''; want '' @ genericNFSCSIDriver))))"

definition validated_volume :: "pvc \<Rightarrow> pv \<Rightarrow> bool \<Rightarrow> strmap \<Rightarrow> err + nfs_volume" where
  "validated_volume claim v ro attrs =
    (case validateNFSServer (mget attrs ''server'') of
       Inl e \<Rightarrow> Inl (wrap (''PV '' @ pv_name v @ '' server: '') e)
     | Inr server \<Rightarrow> (case validateNFSShare (mget attrs ''share'') of
         Inl e \<Rightarrow> Inl (wrap (''PV '' @ pv_name v @ '' share: '') e)
       | Inr share \<Rightarrow> (case validateNFSSubdir (mget attrs ''subdir'') of
           Inl e \<Rightarrow> Inl (wrap (''PV '' @ pv_name v @ '' subdir: '') e)
         | Inr subdir \<Rightarrow> (case validateNFSMountOptions (pv_mount_options v) of
             Some e \<Rightarrow> Inl (wrap (''PV '' @ pv_name v @ '' mount options: '') e)
           | None \<Rightarrow> Inr \<lparr>nv_claim = pvc_name claim, nv_pv = pv_name v, nv_server = server, nv_share = share,
               nv_subdir = subdir, nv_options = pv_mount_options v, nv_read_only = ro, nv_legacy = False\<rparr>))))"

definition resolve_pv :: "env \<Rightarrow> string \<Rightarrow> pvc \<Rightarrow> bool \<Rightarrow> (err + nfs_volume) io" where
  "resolve_pv E ns claim ro tr =
    (case call_api E PeerClient GET (''/api/v1/persistentvolumes/'' @ path_escape (pvc_volume_name claim)) None tr of
       (Inl e, tr) \<Rightarrow> (Inl (wrap (''get PV '' @ pvc_volume_name claim @ '': '')
          (authorizedPeerStorageError (''PV '' @ pvc_volume_name claim) e)), tr)
     | (Inr k, tr) \<Rightarrow> ((case k of
         KPv v \<Rightarrow> (case check_binding ns claim v of
            Some e \<Rightarrow> Inl e
          | None \<Rightarrow> (case check_source v of
              Inl e \<Rightarrow> Inl e
            | Inr attrs \<Rightarrow> validated_volume claim v ro attrs))
       | _ \<Rightarrow> Inl (wrap (''decode PV '' @ pvc_volume_name claim @ '': '') json_error)), tr))"

definition resolveGenericNFSVolume ::
  "env \<Rightarrow> bool \<Rightarrow> string \<Rightarrow> pvc_source option \<Rightarrow> (err + nfs_volume) io" where
  "resolveGenericNFSVolume E has_client ns src tr =
    (case src of
       None \<Rightarrow> (Inl (EMsg ''volume is not a named PersistentVolumeClaim''), tr)
     | Some c \<Rightarrow>
         if pc_claim c = [] then (Inl (EMsg ''volume is not a named PersistentVolumeClaim''), tr)
         else if \<not> has_client then (Inl (missingPeerStorageClientError ''NFS PVC/PV''), tr)
         else (case call_api E PeerClient GET (object_path ns ''persistentvolumeclaims'' (pc_claim c)) None tr of
            (Inl e, tr) \<Rightarrow> (Inl (wrap (''get PVC '' @ ns @ ''/'' @ pc_claim c @ '': '')
               (authorizedPeerStorageError (''PVC '' @ ns @ ''/'' @ pc_claim c) e)), tr)
          | (Inr k, tr) \<Rightarrow> (case (case k of KPvc claim \<Rightarrow> Some claim | _ \<Rightarrow> None) of
              None \<Rightarrow> (Inl (wrap (''decode PVC '' @ ns @ ''/'' @ pc_claim c @ '': '') json_error), tr)
            | Some claim \<Rightarrow> (case check_claim ns (pc_claim c) claim of
                Some e \<Rightarrow> (Inl e, tr)
              | None \<Rightarrow> resolve_pv E ns claim (pc_read_only c) tr))))"

section \<open>The gateway handoff\<close>

definition handoff_key :: "string \<Rightarrow> string" where
  "handoff_key k = ''storage.k8s-darwin.dev/nfs-'' @ k"

definition handoff_keys :: "string list" where
  "handoff_keys = map handoff_key [''server'', ''export'', ''version'', ''mount-port'', ''port'', ''generation'']"

definition handoff_number :: "strmap \<Rightarrow> string \<Rightarrow> int option" where
  "handoff_number ann k = atoi (trim_space (mget ann (handoff_key k)))"

definition port_ok :: "int option \<Rightarrow> bool" where
  "port_ok p \<longleftrightarrow> (case p of Some n \<Rightarrow> 1024 \<le> n \<and> n \<le> 65535 | None \<Rightarrow> False)"

definition handoff_volume :: "strmap \<Rightarrow> pvc_source \<Rightarrow> err + nfs_volume" where
  "handoff_volume ann c =
    (if handoff_number ann ''version'' \<noteq> Some 3
     then Inl (EMsg (''generic NFS handoff has unsupported version '' @ quote (mget ann (handoff_key ''version'')) @ ''; want 3''))
     else if \<not> port_ok (handoff_number ann ''mount-port'')
     then Inl (EMsg (''generic NFS handoff has invalid mount port '' @ quote (mget ann (handoff_key ''mount-port''))))
     else if \<not> port_ok (handoff_number ann ''port'')
     then Inl (EMsg (''generic NFS handoff has invalid NFS port '' @ quote (mget ann (handoff_key ''port''))))
     else (case validateNFSServer (mget ann (handoff_key ''server'')) of
         Inl e \<Rightarrow> Inl (wrap ''generic NFS handoff server: '' e)
       | Inr server \<Rightarrow> (case validateNFSShare (mget ann (handoff_key ''export'')) of
           Inl e \<Rightarrow> Inl (wrap ''generic NFS handoff export: '' e)
         | Inr share \<Rightarrow> Inr \<lparr>nv_claim = pc_claim c, nv_pv = [], nv_server = server, nv_share = share, nv_subdir = [],
             nv_options = [''mountport='' @ itoa (the (handoff_number ann ''mount-port'')),
               ''port='' @ itoa (the (handoff_number ann ''port'')), ''vers=3'', ''tcp'', ''locallocks'', ''resvport''],
             nv_read_only = pc_read_only c, nv_legacy = True\<rparr>)))"

definition resolveNFSVolumeForPod ::
  "env \<Rightarrow> bool \<Rightarrow> pod \<Rightarrow> pvc_source option \<Rightarrow> (err + nfs_volume) io" where
  "resolveNFSVolumeForPod E has_client pod src tr =
    (let ann = om_annotations (p_meta pod);
         present = length (filter (\<lambda>k. trim_space (mget ann k) \<noteq> []) handoff_keys);
         claims = length (filter (\<lambda>v. vo_pvc v \<noteq> None) (ps_volumes (p_spec pod))) in
     if present = 0 then resolveGenericNFSVolume E has_client (om_namespace (p_meta pod)) src tr
     else if present \<noteq> length handoff_keys
     then (Inl (EMsg ''generic NFS handoff is incomplete; wait for the gateway endpoint or configure --peer-kubeconfig for direct CSI NFS''), tr)
     else (case src of
         None \<Rightarrow> (Inl (EMsg ''generic NFS handoff requires a PVC-backed volume''), tr)
       | Some c \<Rightarrow>
           if pc_claim c = [] then (Inl (EMsg ''generic NFS handoff requires a PVC-backed volume''), tr)
           else if claims \<noteq> 1
           then (Inl (EMsg (''generic NFS handoff is ambiguous for Pod with '' @ show_nat claims @ '' PVC-backed volumes'')), tr)
           else (handoff_volume ann c, tr)))"

section \<open>Mount commands\<close>

definition clean_target :: "string \<Rightarrow> bool" where
  "clean_target target \<longleftrightarrow> target \<noteq> [] \<and> is_abs target \<and> path_clean target = target"

definition legacy_option :: "string \<Rightarrow> bool" where
  "legacy_option opt \<longleftrightarrow> fst (str_cut CHR ''='' opt) \<in> {''mountport'', ''port'', ''ro''}"

definition nfsMountCommandArgs :: "mount_spec \<Rightarrow> string \<Rightarrow> err + string list" where
  "nfsMountCommandArgs spec target =
    (case validateNFSServer (nm_server spec) of
       Inl e \<Rightarrow> Inl e
     | Inr server \<Rightarrow> (case validateNFSShare (nm_share spec) of
         Inl e \<Rightarrow> Inl e
       | Inr share \<Rightarrow>
           if \<not> clean_target target
           then Inl (EMsg (''mount target '' @ quote target @ '' must be a clean absolute path''))
           else (case validateNFSMountOptions (nm_options spec) of
               Some e \<Rightarrow> Inl e
             | None \<Rightarrow>
                (let opts = nm_options spec @ (if nm_read_only spec then [''ro''] else []);
                     flags = (if nm_legacy spec then [''-L'', ''-P'', ''-T'', ''-3''] else []);
                     opts = (if nm_legacy spec then filter legacy_option opts else opts) in
                 Inr ([''mount_nfs''] @ flags @ (if opts \<noteq> [] then [''-o'', str_join '','' opts] else []) @
                   [server @ '':'' @ share, target])))))"

definition runNFSMount :: "env \<Rightarrow> bool \<Rightarrow> mount_spec \<Rightarrow> string \<Rightarrow> err option io" where
  "runNFSMount E useSudo spec target tr = (case nfsMountCommandArgs spec target of
       Inl e \<Rightarrow> (Some e, tr)
     | Inr args \<Rightarrow> (case privileged_command E useSudo args tr of
         ((out, Some e), tr) \<Rightarrow> (Some (EWrap (''mount NFS '' @ nm_server spec @ '':'' @ nm_share spec @ '' on '' @
            target @ '': '') e ('': '' @ trim_space out)), tr)
       | ((_, None), tr) \<Rightarrow> (None, tr)))"

definition runNFSUnmount :: "env \<Rightarrow> bool \<Rightarrow> string \<Rightarrow> err option io" where
  "runNFSUnmount E useSudo target tr =
    (if \<not> clean_target target
     then (Some (EMsg (''unmount target '' @ quote target @ '' must be a clean absolute path'')), tr)
     else (case privileged_command E useSudo [''umount'', target] tr of
         ((out, Some e), tr) \<Rightarrow> (Some (EWrap (''unmount NFS '' @ target @ '': '') e ('': '' @ trim_space out)), tr)
       | ((_, None), tr) \<Rightarrow> (None, tr)))"

definition isNFSUnmountMissing :: "err \<Rightarrow> bool" where
  "isNFSUnmountMissing e \<longleftrightarrow> is_sentinel NotExist e \<or> str_contains (err_string e) ''not mounted''"

section \<open>Mounting for a workload\<close>

definition same_mount :: "mount_record \<Rightarrow> mount_record \<Rightarrow> bool" where
  "same_mount a b \<longleftrightarrow> mr_target a = mr_target b \<and> nm_server (mr_spec a) = nm_server (mr_spec b) \<and>
     nm_share (mr_spec a) = nm_share (mr_spec b) \<and> nm_read_only (mr_spec a) = nm_read_only (mr_spec b) \<and>
     str_join [CHR 0x00] (nm_options (mr_spec a)) = str_join [CHR 0x00] (nm_options (mr_spec b))"

definition appendMountRecord :: "mount_record list \<Rightarrow> mount_record \<Rightarrow> mount_record list" where
  "appendMountRecord records r = (if list_ex (\<lambda>x. same_mount x r) records then records else records @ [r])"

definition probeNFSMount :: "env \<Rightarrow> string \<Rightarrow> mount_spec \<Rightarrow> (err + bool) io" where
  "probeNFSMount E target spec tr = (case call_cmd E [''mount''] tr of
       ((out, Some e), tr) \<Rightarrow> (Inl e, tr)
     | ((out, None), tr) \<Rightarrow>
         (Inr (list_ex (\<lambda>line. str_contains line ('' on '' @ target @ '' '') \<and>
            str_contains line (nm_server spec @ '':'' @ nm_share spec)) (split_on newline out)), tr))"

definition spec_of :: "nfs_volume \<Rightarrow> mount_spec" where
  "spec_of v = \<lparr>nm_server = nv_server v, nm_share = nv_share v, nm_options = nv_options v,
     nm_read_only = nv_read_only v, nm_legacy = nv_legacy v\<rparr>"

definition record_mount :: "managed \<Rightarrow> string \<Rightarrow> mount_spec \<Rightarrow> managed" where
  "record_mount w target spec = w\<lparr>mw_mounts := appendMountRecord (mw_mounts w) \<lparr>mr_target = target, mr_spec = spec\<rparr>\<rparr>"

text \<open>The target is missing, or a directory without entries.\<close>

definition check_mount_target :: "env \<Rightarrow> string \<Rightarrow> err option io" where
  "check_mount_target E target tr = (case fs_stat E target tr of
       (Inr info, tr) \<Rightarrow>
         if \<not> fi_dir info
         then (Some (EMsg (''NFS mount target '' @ target @ '' is not a directory'')), tr)
         else (case fs_names E (ReadDir target) tr of
            (Inl e, tr) \<Rightarrow> (Some (wrap (''inspect NFS mount target '' @ target @ '': '') e), tr)
          | (Inr entries, tr) \<Rightarrow>
              if entries \<noteq> []
              then (Some (EMsg (''NFS mount target '' @ target @ '' contains an unowned directory'')), tr)
              else (None, tr))
     | (Inl e, tr) \<Rightarrow>
         if \<not> is_sentinel NotExist e
         then (Some (wrap (''inspect NFS mount target '' @ target @ '': '') e), tr)
         else (None, tr))"

definition mount_new :: "env \<Rightarrow> manager \<Rightarrow> string \<Rightarrow> mount_spec \<Rightarrow> err option io" where
  "mount_new E m target spec tr = (case check_mount_target E target tr of
       (Some e, tr) \<Rightarrow> (Some e, tr)
     | (None, tr) \<Rightarrow> (case fs_do E (MkdirAll target 448) tr of
         (Some e, tr) \<Rightarrow> (Some (wrap (''create NFS mount target '' @ target @ '': '') e), tr)
       | (None, tr) \<Rightarrow> (case runNFSMount E (wm_sudo m) spec target tr of
           (Some e, tr) \<Rightarrow> (Some e, snd (fs_do E (Remove target) tr))
         | (None, tr) \<Rightarrow> (None, tr))))"

definition mountGenericNFSVolume ::
  "env \<Rightarrow> manager \<Rightarrow> pod \<Rightarrow> string \<Rightarrow> pvc_source \<Rightarrow> managed \<Rightarrow> trace \<Rightarrow> (err + string) \<times> managed \<times> trace" where
  "mountGenericNFSVolume E m pod volumeName src w tr =
    (if pc_claim src = [] then (Inl (EMsg (''volume '' @ quote volumeName @ '' has no PVC claimName'')), w, tr)
     else if wm_journal_path m = [] \<or> wm_nfs_root m = []
     then (Inl (EMsg ''NFS volumes require a state-backed workload manager''), w, tr)
     else (case resolveNFSVolumeForPod E (wm_api m) pod (Some src) tr of
        (Inl e, tr) \<Rightarrow> (Inl e, w, tr)
      | (Inr v, tr) \<Rightarrow>
         (let key = sanitizeVolumeKey volumeName;
              target = path_join [wm_nfs_root m, workloadContainerName pod, key];
              spec = spec_of v in
          if key = [] then (Inl (EMsg (''volume name '' @ quote volumeName @ '' is invalid'')), w, tr)
          else (case probeNFSMount E target spec tr of (probe, tr) \<Rightarrow>
            if probe = Inr True then (Inr (path_join [target, nv_subdir v]), record_mount w target spec, tr)
            else (case mount_new E m target spec tr of
               (Some e, tr) \<Rightarrow> (Inl e, w, tr)
             | (None, tr) \<Rightarrow> (Inr (path_join [target, nv_subdir v]), record_mount w target spec, tr))))))"

end
