(* ===== verification/NfsProps.thy ===== *)
theory NfsProps
  imports Nfs
begin

text \<open>
  What the NFS support promises: resolved paths stay beneath their export and their mount target,
  what was resolved can be mounted, a read-only volume is mounted read-only, and every mount that
  succeeds is recorded for its owner.
\<close>

section \<open>Parent references\<close>

lemma split_replace:
  "split_on d (replace_char b d s) = concat (map (\<lambda>p. split_on d (replace_char b d p)) (split_on d s))"
proof (induction s)
  case (Cons c s)
  obtain q qs where q: "split_on d s = q # qs" by (metis list.exhaust split_on_not_Nil)
  obtain r rs where r: "split_on d (replace_char b d q) = r # rs" by (metis list.exhaust split_on_not_Nil)
  from Cons q r show ?case by (auto simp: replace_char_def)
qed (simp add: replace_char_def)

lemma hasParentPath_split: "\<not> hasParentPath v \<Longrightarrow> ''..'' \<notin> set (split_on slash v)"
proof
  assume a: "\<not> hasParentPath v" "''..'' \<in> set (split_on slash v)"
  have "split_on slash (replace_char CHR 0x5C slash ''..'') = [''..'']" by code_simp
  then have "''..'' \<in> set (split_on slash (replace_char CHR 0x5C slash v))"
    using a(2) unfolding split_replace [of slash "CHR 0x5C" v] by force
  with a(1) show False by (simp add: hasParentPath_def)
qed

lemma hasParentPath_clean: "\<not> hasParentPath v \<Longrightarrow> \<not> hasParentPath (path_clean v)"
proof
  assume a: "\<not> hasParentPath v" "hasParentPath (path_clean v)"
  let ?split = "\<lambda>p. split_on slash (replace_char CHR 0x5C slash p)"
  from a(2) obtain c where c: "c \<in> set (split_on slash (path_clean v))" "''..'' \<in> set (?split c)"
    unfolding hasParentPath_def split_replace [of slash "CHR 0x5C" "path_clean v"] by auto
  have "?split [] = [[]]" "?split ''.'' = [''.'']" by code_simp+
  with c(2) have "c \<noteq> []" "c \<noteq> ''.''" by (auto simp del: split_on.simps)
  with split_clean_comps [OF hasParentPath_split [OF a(1)] c(1)] have "c \<in> set (split_on slash v)" by auto
  with c(2) a(1) show False
    unfolding hasParentPath_def split_replace [of slash "CHR 0x5C" v] by auto
qed

lemma validateNFSShare_Inr:
  assumes "validateNFSShare v = Inr s"
  shows "is_abs s" "path_clean s = s" "\<not> hasParentPath s" "list_all proper (path_comps s)"
proof -
  let ?t = "trim_space v"
  have t: "is_abs ?t" "\<not> hasParentPath ?t" "s = path_clean ?t"
    using assms by (auto simp: validateNFSShare_def Let_def is_abs_def split: if_splits)
  then show "is_abs s" "path_clean s = s" "\<not> hasParentPath s" by (simp_all add: hasParentPath_clean)
  have "path_comps s = path_comps ?t"
    unfolding t(3) path_clean_def by (rule path_comps_path_of) (rule path_comps_clean)
  then show "list_all proper (path_comps s)"
    using path_comps_names [OF hasParentPath_split [OF t(2)]] proper_comps [OF hasParentPath_split [OF t(2)]] by simp
qed

lemma validateNFSSubdir_Inr:
  assumes "validateNFSSubdir v = Inr s"
  shows "s = [] \<or> \<not> is_abs s \<and> ''..'' \<notin> set (split_on slash s)"
proof (cases "s = []")
  case False
  let ?t = "trim_space v"
  from assms False have t: "\<not> is_abs ?t" "\<not> hasParentPath ?t" "s = path_clean ?t"
    by (auto simp: validateNFSSubdir_def Let_def is_abs_def split: if_splits)
  then show ?thesis using hasParentPath_split hasParentPath_clean by simp
qed simp

text \<open>
  A share that passed validation is a clean absolute path of proper components: it has no
  parent reference, in forward or backward slashes.
\<close>

theorem share_is_safe:
  assumes "validateNFSShare v = Inr s"
  shows "clean_target s \<and> \<not> hasParentPath s \<and> list_all proper (path_comps s)"
proof -
  have "s \<noteq> []" using validateNFSShare_Inr(1) [OF assms] by (auto simp: is_abs_def has_prefix_def)
  with validateNFSShare_Inr [OF assms] show ?thesis by (simp add: clean_target_def)
qed

lemma share_is_safe_witness: "clean_target ''/a/b'' \<and> \<not> hasParentPath ''/a/b''"
proof -
  have "validateNFSShare '' /a//b/ '' = Inr ''/a/b''" by code_simp
  from share_is_safe [OF this] show ?thesis by blast
qed

section \<open>Mounting what was resolved\<close>

lemma trim_space_id: "\<forall>c \<in> set s. \<not> is_space c \<Longrightarrow> trim_space s = s"
  unfolding trim_space_def by (rule trim_of_id) (metis hd_in_set last_in_set)

lemma validateNFSServer_again: "validateNFSServer v = Inr s \<Longrightarrow> validateNFSServer s = Inr s"
  by (auto simp: validateNFSServer_def Let_def split: if_splits)

lemma validateNFSShare_again:
  assumes "validateNFSShare v = Inr s" "\<forall>c \<in> set s. \<not> is_space c"
  shows "validateNFSShare s = Inr s"
  using validateNFSShare_Inr [OF assms(1)] trim_space_id [OF assms(2)]
  by (auto simp: validateNFSShare_def Let_def is_abs_def has_prefix_def)

text \<open>The options that a gateway handoff writes pass the validation.\<close>

lemma number_option_key:
  assumes "k \<in> {''mountport'', ''port''}" "0 < n" "n \<le> 65535"
  shows "trim_space (k @ ''='' @ itoa n) = k @ ''='' @ itoa n"
    "str_cut CHR ''='' (k @ ''='' @ itoa n) = (k, itoa n, True)"
    "option_key (k @ ''='' @ itoa n) = k" "check_option k (itoa n) True = None"
proof -
  have sp: "\<not> is_space c" if "is_digit c" for c
    using that by (auto simp: is_space_def is_digit_def byte_def)
  have "\<forall>c \<in> set (itoa n). \<not> is_space c"
    using assms(2) by (auto simp: itoa_def dest!: show_nat_chars sp)
  moreover have kc: "(\<forall>c \<in> set k. \<not> is_space c) \<and> CHR ''='' \<notin> set k \<and> to_lower k = k \<and> \<not> is_space CHR ''=''"
  proof -
    have "list_all (\<lambda>k. (\<forall>c \<in> set k. \<not> is_space c) \<and> CHR ''='' \<notin> set k \<and> to_lower k = k \<and> \<not> is_space CHR ''='')
        [''mountport'', ''port'']" by code_simp
    with assms(1) show ?thesis by auto
  qed
  ultimately show 1: "trim_space (k @ ''='' @ itoa n) = k @ ''='' @ itoa n"
    by (intro trim_space_id) auto
  from kc show 2: "str_cut CHR ''='' (k @ ''='' @ itoa n) = (k, itoa n, True)"
    by (simp add: str_cut_found)
  from 1 2 kc show "option_key (k @ ''='' @ itoa n) = k" by (simp add: option_key_def trim_space_id)
  have "atoi (itoa n) = Some n" using assms(2,3) by (intro atoi_itoa) auto
  moreover have "k \<in> set number_options" "k \<notin> set flag_options" "k \<notin> {''vers'', ''nfsvers''}"
    using assms(1) by (auto simp: number_options_def flag_options_def)
  ultimately show "check_option k (itoa n) True = None" using assms(2,3) by (simp add: check_option_def)
qed

lemma handoff_options_valid:
  assumes "1024 \<le> a" "a \<le> 65535" "1024 \<le> b" "b \<le> 65535"
  shows "validateNFSMountOptions [''mountport='' @ itoa a, ''port='' @ itoa b, ''vers=3'', ''tcp'', ''locallocks'', ''resvport''] = None"
proof -
  have "validate_options [''port'', ''mountport''] [''vers=3'', ''tcp'', ''locallocks'', ''resvport''] = None"
    by code_simp
  with number_option_key [of "''mountport''" a] number_option_key [of "''port''" b] assms
  show ?thesis by (simp add: validateNFSMountOptions_def Let_def)
qed

definition resolved_ok :: "nfs_volume \<Rightarrow> bool" where
  "resolved_ok v \<longleftrightarrow> (\<exists>a. validateNFSServer a = Inr (nv_server v)) \<and>
     (\<exists>b. validateNFSShare b = Inr (nv_share v)) \<and> validateNFSMountOptions (nv_options v) = None \<and>
     (\<exists>c. validateNFSSubdir c = Inr (nv_subdir v))"

lemma validated_volume_ok: "validated_volume claim p ro attrs = Inr v \<Longrightarrow> resolved_ok v"
  by (auto simp: validated_volume_def resolved_ok_def split: sum.splits option.splits)

lemma handoff_volume_ok:
  assumes "handoff_volume ann c = Inr v"
  shows "resolved_ok v"
proof -
  from assms have p: "port_ok (handoff_number ann ''mount-port'')" "port_ok (handoff_number ann ''port'')"
    by (simp_all add: handoff_volume_def split: if_splits)
  then obtain a b where n: "handoff_number ann ''mount-port'' = Some a" "handoff_number ann ''port'' = Some b"
    and ab: "1024 \<le> a" "a \<le> 65535" "1024 \<le> b" "b \<le> 65535"
    by (auto simp: port_ok_def split: option.splits)
  obtain server share where s: "validateNFSServer (mget ann (handoff_key ''server'')) = Inr server"
    "validateNFSShare (mget ann (handoff_key ''export'')) = Inr share"
    using assms p by (auto simp: handoff_volume_def split: if_splits sum.splits)
  have "v = \<lparr>nv_claim = pc_claim c, nv_pv = [], nv_server = server, nv_share = share, nv_subdir = [],
      nv_options = [''mountport='' @ itoa a, ''port='' @ itoa b, ''vers=3'', ''tcp'', ''locallocks'', ''resvport''],
      nv_read_only = pc_read_only c, nv_legacy = True\<rparr>"
    using assms p s n by (simp add: handoff_volume_def split: if_splits)
  moreover have "validateNFSSubdir [] = Inr []" by code_simp
  ultimately show ?thesis
    using s handoff_options_valid [OF ab] unfolding resolved_ok_def
    by (metis (no_types, lifting) nfs_volume.select_convs(3-6))
qed

lemma resolve_pv_ok:
  assumes "resolve_pv E ns claim ro tr = (Inr v, tr')"
  shows "resolved_ok v"
  using assms
  by (auto simp: resolve_pv_def split: sum.splits prod.splits kobj.splits option.splits dest: validated_volume_ok)

lemma resolveGenericNFSVolume_ok:
  assumes "resolveGenericNFSVolume E has ns src tr = (Inr v, tr')"
  shows "resolved_ok v"
proof -
  have "\<exists>claim ro tr1. resolve_pv E ns claim ro tr1 = (Inr v, tr')"
    using assms
    by (auto simp: resolveGenericNFSVolume_def split: if_splits option.splits sum.splits prod.splits)
  then show ?thesis using resolve_pv_ok by blast
qed

lemma resolved_valid:
  assumes "resolveNFSVolumeForPod E has pod src tr = (Inr v, tr')"
  shows "resolved_ok v"
proof -
  have "(\<exists>ns. resolveGenericNFSVolume E has ns src tr = (Inr v, tr')) \<or> (\<exists>c. handoff_volume (om_annotations (p_meta pod)) c = Inr v)"
    using assms by (auto simp: resolveNFSVolumeForPod_def Let_def split: if_splits option.splits)
  then show ?thesis using resolveGenericNFSVolume_ok handoff_volume_ok by blast
qed

text \<open>
  Whatever a claim or a gateway handoff resolves to, when its share has no white space the
  mount command accepts it for every clean target: resolution and mounting validate alike.
\<close>

theorem resolved_mountable:
  assumes "resolveNFSVolumeForPod E has pod src tr = (Inr v, tr')" "clean_target target"
    "\<forall>c \<in> set (nv_share v). \<not> is_space c"
  shows "\<exists>args. nfsMountCommandArgs (spec_of v) target = Inr args"
proof -
  have "validateNFSServer (nv_server v) = Inr (nv_server v)" "validateNFSShare (nv_share v) = Inr (nv_share v)"
    "validateNFSMountOptions (nv_options v) = None"
    using resolved_valid [OF assms(1)] validateNFSServer_again validateNFSShare_again assms(3)
    by (auto simp: resolved_ok_def)
  then show ?thesis using assms(2) by (simp add: nfsMountCommandArgs_def spec_of_def Let_def)
qed

definition demo_source :: pvc_source where
  "demo_source = \<lparr>pc_claim = ''data'', pc_read_only = True\<rparr>"

definition nfs_pod :: pod where
  "nfs_pod = \<lparr>p_meta = \<lparr>om_name = ''web'', om_namespace = ''default'', om_uid = ''u1'', om_resource_version = [],
       om_labels = [], om_annotations = [(handoff_key ''server'', ''10.42.1.9''), (handoff_key ''export'', ''/export''),
         (handoff_key ''version'', ''3''), (handoff_key ''mount-port'', ''20048''), (handoff_key ''port'', ''20049''),
         (handoff_key ''generation'', ''1'')], om_deletion = None\<rparr>,
     p_spec = \<lparr>ps_node_name = [], ps_service_account = [], ps_host_network = False, ps_dns_policy = [],
       ps_restart_policy = [], ps_containers = [], ps_init_containers = [],
       ps_volumes = [\<lparr>vo_name = ''data'', vo_host_path = None, vo_config_map = None, vo_pvc = Some demo_source\<rparr>]\<rparr>,
     p_status = \<lparr>pt_phase = [], pt_pod_ip = [], pt_pod_ips = [], pt_host_ip = [], pt_reason = [],
       pt_message = [], pt_conditions = [], pt_containers = []\<rparr>\<rparr>"

definition demo_volume :: nfs_volume where
  "demo_volume = \<lparr>nv_claim = ''data'', nv_pv = [], nv_server = ''10.42.1.9'', nv_share = ''/export'', nv_subdir = [],
     nv_options = [''mountport=20048'', ''port=20049'', ''vers=3'', ''tcp'', ''locallocks'', ''resvport''],
     nv_read_only = True, nv_legacy = True\<rparr>"

lemma nfs_pod_resolves:
  "resolveNFSVolumeForPod quiet_env False nfs_pod (Some demo_source) tr = (Inr demo_volume, tr)"
proof -
  let ?ann = "om_annotations (p_meta nfs_pod)"
  have "list_all (\<lambda>k. trim_space (mget ?ann k) \<noteq> []) handoff_keys" by code_simp
  then have "filter (\<lambda>k. trim_space (mget ?ann k) \<noteq> []) handoff_keys = handoff_keys"
    by (simp add: list_all_iff)
  moreover have "length handoff_keys = 6" "handoff_keys \<noteq> []" by (simp_all add: handoff_keys_def)
  moreover have "length (filter (\<lambda>v. vo_pvc v \<noteq> None) (ps_volumes (p_spec nfs_pod))) = 1"
    by (simp add: nfs_pod_def)
  moreover have "handoff_volume ?ann demo_source = Inr demo_volume" by code_simp
  moreover have "pc_claim demo_source \<noteq> []" by (simp add: demo_source_def)
  ultimately show ?thesis by (simp add: resolveNFSVolumeForPod_def Let_def)
qed

lemma resolved_mountable_witness:
  "\<exists>args. nfsMountCommandArgs (spec_of demo_volume) ''/var/nfs'' = Inr args"
proof -
  have "clean_target ''/var/nfs''" "\<forall>c \<in> set (nv_share demo_volume). \<not> is_space c" by code_simp+
  then show ?thesis by (rule resolved_mountable [OF nfs_pod_resolves])
qed

section \<open>The mount command\<close>

lemma atoi_sign:
  assumes "p = (case s of c # t \<Rightarrow> if c = CHR ''-'' then (True, t)
      else if c = CHR ''+'' then (False, t) else (False, s) | [] \<Rightarrow> (False, []))" "p = (neg, ds)"
  shows "s = ds \<or> s = CHR ''-'' # ds \<or> s = CHR ''+'' # ds"
    and "atoi s = Some n \<Longrightarrow> read_nat ds \<noteq> None"
proof -
  show "s = ds \<or> s = CHR ''-'' # ds \<or> s = CHR ''+'' # ds"
    using assms(2) unfolding assms(1) by (cases s) (simp_all split: if_splits)
  show "atoi s = Some n \<Longrightarrow> read_nat ds \<noteq> None"
    unfolding atoi_def Let_def assms(1) [symmetric] assms(2) by (cases "read_nat ds") simp_all
qed

lemma atoi_digits:
  assumes "atoi s = Some n"
  shows "\<exists>ds. list_all is_digit ds \<and> (s = ds \<or> s = CHR ''-'' # ds \<or> s = CHR ''+'' # ds)"
proof -
  obtain neg ds where p: "(case s of c # t \<Rightarrow> if c = CHR ''-'' then (True, t)
      else if c = CHR ''+'' then (False, t) else (False, s) | [] \<Rightarrow> (False, [])) = (neg, ds)"
    by (meson surj_pair)
  have "list_all is_digit ds"
    using atoi_sign(2) [OF refl p assms] by (simp add: read_nat_def split: if_splits)
  with atoi_sign(1) [OF refl p] show ?thesis by blast
qed

lemma atoi_no_comma: "atoi s = Some n \<Longrightarrow> CHR '','' \<notin> set s"
proof -
  assume "atoi s = Some n"
  then obtain ds where ds: "list_all is_digit ds" "s = ds \<or> s = CHR ''-'' # ds \<or> s = CHR ''+'' # ds"
    using atoi_digits by blast
  have "\<not> is_digit CHR '',''" by code_simp
  with ds(1) have "CHR '','' \<notin> set ds" by (auto simp: list_all_iff)
  with ds(2) show ?thesis by auto
qed

text \<open>An option that passes the validation has no comma, so joining options keeps them apart.\<close>

lemma option_no_comma:
  assumes "trim_space opt \<noteq> []" "str_cut CHR ''='' (trim_space opt) = (k, val, has)"
    "check_option (option_key opt) val has = None"
  shows "CHR '','' \<notin> set (trim_space opt)"
proof
  assume comma: "CHR '','' \<in> set (trim_space opt)"
  let ?keys = "flag_options @ [''vers'', ''nfsvers''] @ number_options"
  have keys: "list_all (\<lambda>key. CHR '','' \<notin> set key) ?keys" by code_simp
  have c: "\<not> is_space CHR '',''" "lower_char CHR '','' = CHR '',''" by code_simp+
  have key: "option_key opt \<in> set ?keys"
    using assms(3) unfolding check_option_def by (auto split: if_splits)
  have ok: "option_key opt = to_lower (trim_space k)" using assms(2) by (simp add: option_key_def)
  have k: "CHR '','' \<notin> set k"
  proof
    assume "CHR '','' \<in> set k"
    then have "CHR '','' \<in> set (trim_space k)" unfolding trim_space_def using c(1) by (rule in_set_trim_of)
    then have "CHR '','' \<in> set (option_key opt)" using c(2) unfolding ok to_lower_def by force
    with key keys show False by (simp only: list_all_iff)
  qed
  have val: "CHR '','' \<notin> set val" if "has"
  proof -
    have "val = ''3'' \<or> val = ''4'' \<or> (\<exists>n. atoi val = Some n)"
      using assms(3) that unfolding check_option_def by (auto split: if_splits option.splits)
    then show ?thesis using atoi_no_comma by auto
  qed
  have "trim_space opt = (if has then k @ CHR ''='' # val else k)"
    using assms(2) by (cases rule: str_cut_cases [of "CHR ''=''" "trim_space opt"]) auto
  with comma k val show False by (simp split: if_splits)
qed

lemma options_no_comma:
  "validate_options seen opts = None \<Longrightarrow> opt \<in> set opts \<Longrightarrow> CHR '','' \<notin> set opt"
proof (induction seen opts rule: validate_options.induct)
  case (2 seen o' opts)
  obtain k val has where cut: "str_cut CHR ''='' (trim_space o') = (k, val, has)" by (metis surj_pair)
  from "2.prems"(1) cut have ne: "trim_space o' \<noteq> []" and chk: "check_option (option_key o') val has = None"
    and rest: "validate_options (option_key o' # seen) opts = None" and new: "option_key o' \<notin> set seen"
    by (auto simp: Let_def split: if_splits option.splits)
  show ?case
  proof (cases "opt = o'")
    case True
    have "\<not> is_space CHR '',''" by code_simp
    then have "CHR '','' \<in> set o' \<Longrightarrow> CHR '','' \<in> set (trim_space o')"
      unfolding trim_space_def by (rule in_set_trim_of [rotated])
    with option_no_comma [OF ne cut chk] True show ?thesis by blast
  next
    case False
    with "2.prems"(2) have "opt \<in> set opts" by simp
    with "2.IH" [OF ne cut [symmetric] refl refl new chk rest] show ?thesis by blast
  qed
qed simp

text \<open>
  A mount command that is built mounts the validated share on exactly the clean target it was
  given, and for a read-only volume its options hold \<^verbatim>\<open>ro\<close>, also in the legacy form.
\<close>

theorem mount_command_spec:
  assumes "nfsMountCommandArgs spec target = Inr args"
  shows "clean_target target \<and> (\<exists>pre server share. args = ''mount_nfs'' # pre @ [server @ '':'' @ share, target] \<and>
      validateNFSServer (nm_server spec) = Inr server \<and> validateNFSShare (nm_share spec) = Inr share \<and>
      (nm_read_only spec \<longrightarrow> (\<exists>flags opts. pre = flags @ [''-o'', opts] \<and> ''ro'' \<in> set (split_on CHR '','' opts))))"
proof -
  define all where "all = nm_options spec @ (if nm_read_only spec then [''ro''] else [])"
  define opts where "opts = (if nm_legacy spec then filter legacy_option all else all)"
  define flags where "flags = (if nm_legacy spec then [''-L'', ''-P'', ''-T'', ''-3''] else [])"
  obtain server share where s: "validateNFSServer (nm_server spec) = Inr server"
    "validateNFSShare (nm_share spec) = Inr share" "clean_target target" "validateNFSMountOptions (nm_options spec) = None"
    and args: "args = ''mount_nfs'' # (flags @ (if opts \<noteq> [] then [''-o'', str_join '','' opts] else [])) @ [server @ '':'' @ share, target]"
    using assms by (auto simp: nfsMountCommandArgs_def Let_def opts_def all_def flags_def split: sum.splits if_splits option.splits)
  have ro: "\<exists>flags' o'. flags @ (if opts \<noteq> [] then [''-o'', str_join '','' opts] else []) = flags' @ [''-o'', o'] \<and>
      ''ro'' \<in> set (split_on CHR '','' o')" if "nm_read_only spec"
  proof -
    have "legacy_option ''ro''" by code_simp
    then have mem: "''ro'' \<in> set opts" using that by (simp add: opts_def all_def)
    have "\<forall>o' \<in> set opts. CHR '','' \<notin> set o'"
      using options_no_comma [OF s(4) [unfolded validateNFSMountOptions_def]]
      by (auto simp: opts_def all_def split: if_splits)
    moreover have "opts \<noteq> []" using mem by auto
    ultimately have "split_on CHR '','' (str_join '','' opts) = opts" by (intro split_on_join)
    with mem \<open>opts \<noteq> []\<close> show ?thesis by auto
  qed
  show ?thesis
    by (rule conjI [OF s(3)], rule exI [of _ "flags @ (if opts \<noteq> [] then [''-o'', str_join '','' opts] else [])"],
        rule exI [of _ server], rule exI [of _ share]) (use args s ro in blast)
qed

lemma mount_command_spec_witness:
  "\<exists>pre server share flags opts. [''-o'', ''vers=3,ro'', ''nas:/export'', ''/var/nfs''] = pre @ [server @ '':'' @ share, ''/var/nfs''] \<and>
    pre = flags @ [''-o'', opts] \<and> ''ro'' \<in> set (split_on CHR '','' opts)"
proof -
  have "nfsMountCommandArgs \<lparr>nm_server = ''nas'', nm_share = ''/export'', nm_options = [''vers=3''],
      nm_read_only = True, nm_legacy = False\<rparr> ''/var/nfs'' =
    Inr (''mount_nfs'' # [''-o'', ''vers=3,ro'', ''nas:/export'', ''/var/nfs''])" by code_simp
  from mount_command_spec [OF this] show ?thesis unfolding list.inject mount_spec.select_convs by blast
qed

section \<open>Ownership of mounts\<close>

lemma appendMountRecord_has: "\<exists>x \<in> set (appendMountRecord rs r). same_mount x r"
  by (auto simp: appendMountRecord_def list_ex_iff same_mount_def)

text \<open>
  C26: when a claim has been mounted for a workload, the path handed to Macker lies at or below
  the workload's own mount target, and the workload owns a record of that target; when mounting
  fails the workload's records are unchanged.
\<close>

theorem nfs_mount_owned:
  assumes "is_abs (wm_nfs_root m)" "mountGenericNFSVolume E m pod name src w tr = (r, w', tr')"
  shows "case r of Inl _ \<Rightarrow> w' = w
    | Inr path \<Rightarrow> (\<exists>target. target = path_join [wm_nfs_root m, workloadContainerName pod, sanitizeVolumeKey name] \<and>
        (\<exists>cs. list_all proper cs \<and> path_comps path = path_comps target @ cs) \<and>
        (\<exists>x \<in> set (mw_mounts w'). mr_target x = target))"
proof (cases r)
  case (Inl e)
  then show ?thesis using assms(2)
    by (auto simp: mountGenericNFSVolume_def Let_def split: if_splits sum.splits prod.splits option.splits)
next
  case (Inr path)
  let ?t = "path_join [wm_nfs_root m, workloadContainerName pod, sanitizeVolumeKey name]"
  obtain v tr1 where v: "resolveNFSVolumeForPod E (wm_api m) pod (Some src) tr = (Inr v, tr1)"
    and p: "path = path_join [?t, nv_subdir v]" "w' = record_mount w ?t (spec_of v)"
    using assms(2) Inr
    by (auto simp: mountGenericNFSVolume_def Let_def split: if_splits sum.splits prod.splits option.splits)
  have sub: "''..'' \<notin> set (split_on slash (nv_subdir v))"
  proof -
    obtain c where "validateNFSSubdir c = Inr (nv_subdir v)" using resolved_valid [OF v] by (auto simp: resolved_ok_def)
    then show ?thesis by (elim validateNFSSubdir_Inr [elim_format] disjE) simp_all
  qed
  have "is_abs ?t" using assms(1) by (rule path_join_abs)
  from path_join_below(1) [OF this sub] proper_comps [OF sub] p(1)
  have "\<exists>cs. list_all proper cs \<and> path_comps path = path_comps ?t @ cs" by auto
  moreover have "\<exists>x \<in> set (mw_mounts w'). mr_target x = ?t"
    using appendMountRecord_has [of "mw_mounts w" "\<lparr>mr_target = ?t, mr_spec = spec_of v\<rparr>"] p(2)
    by (auto simp: record_mount_def same_mount_def)
  ultimately show ?thesis using Inr by auto
qed

definition nfs_manager :: manager where
  "nfs_manager = (newWorkloadManagerWithState None ''macker'' ''192.0.2.10'' [])
     \<lparr>wm_journal_path := ''/var/maclet/workloads.json'', wm_nfs_root := ''/var/maclet/nfs''\<rparr>"

lemma nfs_mount_owned_witness:
  "\<exists>path w' tr' target. mountGenericNFSVolume quiet_env nfs_manager nfs_pod ''data'' demo_source (empty_managed ''u1'') [] =
      (Inr path, w', tr') \<and> (\<exists>x \<in> set (mw_mounts w'). mr_target x = target)"
proof -
  have root: "is_abs (wm_nfs_root nfs_manager)"
    by (simp add: nfs_manager_def newWorkloadManagerWithState_def is_abs_def has_prefix_def)
  have key: "sanitizeVolumeKey ''data'' = ''data''" by code_simp
  let ?t = "path_join [wm_nfs_root nfs_manager, workloadContainerName nfs_pod, ''data'']"
  have "is_abs ?t" using root by (rule path_join_abs)
  moreover have "?t = ''/var/maclet/nfs/maclet-default-web-u1/data''" by code_simp
  moreover have "clean_target ''/var/maclet/nfs/maclet-default-web-u1/data''" by code_simp
  ultimately obtain args where args: "nfsMountCommandArgs (spec_of demo_volume) ?t = Inr args"
  proof -
    have "\<forall>c \<in> set (nv_share demo_volume). \<not> is_space c" by code_simp
    with resolved_valid [OF nfs_pod_resolves] \<open>?t = _\<close> \<open>clean_target _\<close> validateNFSServer_again validateNFSShare_again that
    show ?thesis by (auto simp: resolved_ok_def nfsMountCommandArgs_def spec_of_def Let_def)
  qed
  have "\<exists>path. fst (mountGenericNFSVolume quiet_env nfs_manager nfs_pod ''data'' demo_source (empty_managed ''u1'') []) = Inr path"
    using nfs_pod_resolves key args
    by (simp add: mountGenericNFSVolume_def mount_new_def check_mount_target_def probeNFSMount_def runNFSMount_def Let_def
        call_defs fs_stat_def call_fs_def fs_do_eq fs_err_def quiet_env_def
        nfs_manager_def newWorkloadManagerWithState_def demo_source_def)
  then obtain path w' tr' where r: "mountGenericNFSVolume quiet_env nfs_manager nfs_pod ''data'' demo_source (empty_managed ''u1'') [] =
      (Inr path, w', tr')" by (metis prod.collapse)
  from nfs_mount_owned [OF root r] r show ?thesis by auto
qed

end
