(* ===== verification/Volumes.thy ===== *)
theory Volumes
  imports Nfs
begin

text \<open>
  The volumes of a workload: host paths and their arguments (\<^verbatim>\<open>workload_mounts.go\<close> 49--208),
  materialized ConfigMaps and the substitution of both kinds of managed volume by host paths
  (\<^verbatim>\<open>workload_volumes.go\<close>).
\<close>

section \<open>Host paths\<close>

text \<open>The creation of a missing host path.\<close>

definition create_host_path :: "env \<Rightarrow> string \<Rightarrow> string \<Rightarrow> err option io" where
  "create_host_path E path ty tr =
    (if ty = ''DirectoryOrCreate'' then (case fs_do E (MkdirAll path 493) tr of
         (Some e, tr) \<Rightarrow> (Some (wrap (''create hostPath directory '' @ quote path @ '': '') e), tr)
       | (None, tr) \<Rightarrow> (None, tr))
     else if ty = ''FileOrCreate'' then (case fs_do E (CreateExcl path 420) tr of
         (Some e, tr) \<Rightarrow> (Some (wrap (''create hostPath file '' @ quote path @ '': '') e), tr)
       | (None, tr) \<Rightarrow> (case fs_do E (CloseTemp path) tr of
           (Some e, tr) \<Rightarrow> (Some (wrap (''close hostPath file '' @ quote path @ '': '') e), tr)
         | (None, tr) \<Rightarrow> (None, tr)))
     else (Some (EMsg (''hostPath '' @ quote path @ '' does not exist'')), tr))"

definition check_host_type :: "string \<Rightarrow> string \<Rightarrow> file_info \<Rightarrow> err option" where
  "check_host_type path ty info =
    (if ty = [] then None
     else if ty \<in> {''Directory'', ''DirectoryOrCreate''} then
       (if fi_dir info then None else Some (EMsg (''hostPath '' @ quote path @ '' is not a directory'')))
     else if ty \<in> {''File'', ''FileOrCreate''} then
       (if fi_regular info then None else Some (EMsg (''hostPath '' @ quote path @ '' is not a regular file'')))
     else if ty = ''Socket'' then
       (if fi_socket info then None else Some (EMsg (''hostPath '' @ quote path @ '' is not a Unix socket'')))
     else if ty = ''CharDevice'' then
       (if fi_char_device info then None else Some (EMsg (''hostPath '' @ quote path @ '' is not a character device'')))
     else if ty = ''BlockDevice'' then
       (if fi_device info \<and> \<not> fi_char_device info then None
        else Some (EMsg (''hostPath '' @ quote path @ '' is not a block device'')))
     else Some (EMsg (''hostPath type '' @ quote ty @
       '' is not supported; use Directory, DirectoryOrCreate, File, or FileOrCreate'')))"

definition typed_host_path :: "string \<Rightarrow> string \<Rightarrow> err + file_info \<Rightarrow> err + string" where
  "typed_host_path path ty info = (case info of
       Inl e \<Rightarrow> Inl (wrap (''inspect hostPath '' @ quote path @ '': '') e)
     | Inr info \<Rightarrow> (case check_host_type path ty info of Some e \<Rightarrow> Inl e | None \<Rightarrow> Inr path))"

definition ensureHostPath :: "env \<Rightarrow> string \<Rightarrow> string \<Rightarrow> (err + string) io" where
  "ensureHostPath E raw ty tr =
    (let path = path_clean raw in
     if raw = [] \<or> \<not> is_abs raw then (Inl (EMsg (''hostPath '' @ quote raw @ '' must be an absolute path'')), tr)
     else if CHR '':'' \<in> set path
     then (Inl (EMsg (''hostPath '' @ quote path @ '' cannot be passed to Macker because it contains '' @ [apostrophe, CHR '':'', apostrophe])), tr)
     else (case fs_stat E path tr of (info, tr) \<Rightarrow>
       if (case info of Inl e \<Rightarrow> is_sentinel NotExist e | Inr _ \<Rightarrow> False)
       then (case create_host_path E path ty tr of
          (Some e, tr) \<Rightarrow> (Inl e, tr)
        | (None, tr) \<Rightarrow> (case fs_stat E path tr of (info, tr) \<Rightarrow> (typed_host_path path ty info, tr)))
       else (typed_host_path path ty info, tr)))"

definition escapes :: "string \<Rightarrow> bool" where
  "escapes p \<longleftrightarrow> p = ''..'' \<or> has_prefix p ''../''"

definition resolved_link :: "env \<Rightarrow> string \<Rightarrow> (err + string) io" where
  "resolved_link E path tr = (case fs_names E (EvalSymlinks path) tr of
       (Inl e, tr) \<Rightarrow> (Inl e, tr) | (Inr names, tr) \<Rightarrow> (Inr (concat names), tr))"

definition resolveVolumeSubPath :: "env \<Rightarrow> string \<Rightarrow> string \<Rightarrow> (err + string) io" where
  "resolveVolumeSubPath E hostPath subPath tr =
    (let clean = path_clean subPath; target = path_join [hostPath, clean] in
     if subPath = [] \<or> subPath = ''.'' then (Inr hostPath, tr)
     else if is_abs subPath then (Inl (EMsg (''volume subPath '' @ quote subPath @ '' must be relative'')), tr)
     else if escapes clean then (Inl (EMsg (''volume subPath '' @ quote subPath @ '' escapes the hostPath'')), tr)
     else (case fs_stat E target tr of
        (Inl e, tr) \<Rightarrow> (Inl (wrap (''inspect volume subPath '' @ quote subPath @ '': '') e), tr)
      | (Inr _, tr) \<Rightarrow> (case resolved_link E hostPath tr of
          (Inl e, tr) \<Rightarrow> (Inl (wrap (''resolve hostPath '' @ quote hostPath @ '': '') e), tr)
        | (Inr resolvedHost, tr) \<Rightarrow> (case resolved_link E target tr of
            (Inl e, tr) \<Rightarrow> (Inl (wrap (''resolve volume subPath '' @ quote subPath @ '': '') e), tr)
          | (Inr resolvedTarget, tr) \<Rightarrow>
              ((case path_rel resolvedHost resolvedTarget of
                  Some relative \<Rightarrow> if escapes relative
                    then Inl (EMsg (''volume subPath '' @ quote subPath @ '' escapes the hostPath through a symlink''))
                    else Inr target
                | None \<Rightarrow> Inl (EMsg (''volume subPath '' @ quote subPath @ '' escapes the hostPath through a symlink''))), tr)))))"

section \<open>Volume arguments\<close>

text \<open>The loop over the Pod's volumes: the host path and the declared type of each name.\<close>

fun host_volumes ::
  "env \<Rightarrow> volume list \<Rightarrow> strmap \<Rightarrow> strmap \<Rightarrow> (err + strmap \<times> strmap) io" where
  "host_volumes E [] vols types tr = (Inr (vols, types), tr)"
| "host_volumes E (v # vs) vols types tr =
    (if vo_name v = [] then host_volumes E vs vols types tr
     else if mhas types (vo_name v)
     then (Inl (EMsg (''Pod volume '' @ quote (vo_name v) @ '' is declared more than once'')), tr)
     else (case vo_host_path v of
        None \<Rightarrow> host_volumes E vs vols (mput types (vo_name v) []) tr
      | Some (path, ty) \<Rightarrow> (let ty = (case ty of Some t \<Rightarrow> t | None \<Rightarrow> []) in
          case ensureHostPath E path ty tr of
            (Inl e, tr) \<Rightarrow> (Inl (wrap (''volume '' @ quote (vo_name v) @ '': '') e), tr)
          | (Inr hp, tr) \<Rightarrow> host_volumes E vs (mput vols (vo_name v) hp) (mput types (vo_name v) ty) tr)))"

definition serviceaccount_path :: string where
  "serviceaccount_path = ''/var/run/secrets/kubernetes.io/serviceaccount''"

text \<open>The checks of one mount before its host path is known; the result is the clean mount path.\<close>

definition check_mount :: "volume_mount \<Rightarrow> string list \<Rightarrow> err + string" where
  "check_mount mt seen =
    (let mountPath = path_clean (vm_mount_path mt) in
     if vm_name mt = [] then Inl (EMsg (''volume mount at '' @ quote (vm_mount_path mt) @ '' has no volume name''))
     else if vm_mount_path mt = [] \<or> \<not> is_abs (vm_mount_path mt)
     then Inl (EMsg (''volume mount '' @ quote (vm_mount_path mt) @ '' must use an absolute mountPath''))
     else if mountPath \<in> set seen
     then Inl (EMsg (''volume mount path '' @ quote mountPath @ '' is declared more than once''))
     else if vm_read_only mt
     then Inl (EMsg (''volume mount '' @ quote mountPath @ '' requests readOnly, but Macker hostPath volumes are writable live symlinks''))
     else if vm_sub_path_expr mt \<noteq> []
     then Inl (EMsg (''volume mount '' @ quote mountPath @ '' uses subPathExpr, which maclet does not support''))
     else Inr mountPath)"

definition missing_volume :: "strmap \<Rightarrow> string \<Rightarrow> string \<Rightarrow> err" where
  "missing_volume types name mountPath = (if mhas types name
     then EMsg (''volume '' @ quote name @ '' is not a supported hostPath volume'')
     else EMsg (''volume mount '' @ quote mountPath @ '' references unknown volume '' @ quote name))"

fun mount_args ::
  "env \<Rightarrow> strmap \<Rightarrow> strmap \<Rightarrow> volume_mount list \<Rightarrow> string list \<Rightarrow> string list \<Rightarrow> (err + string list) io" where
  "mount_args E vols types [] seen args tr = (Inr args, tr)"
| "mount_args E vols types (mt # mts) seen args tr =
    (if vm_mount_path mt = serviceaccount_path then mount_args E vols types mts seen args tr
     else (case check_mount mt seen of
        Inl e \<Rightarrow> (Inl e, tr)
      | Inr mountPath \<Rightarrow> (case map_of vols (vm_name mt) of
          None \<Rightarrow> (Inl (missing_volume types (vm_name mt) mountPath), tr)
        | Some hostPath \<Rightarrow> (case resolveVolumeSubPath E hostPath (vm_sub_path mt) tr of
            (Inl e, tr) \<Rightarrow> (Inl (wrap (''volume mount '' @ quote mountPath @ '': '') e), tr)
          | (Inr resolved, tr) \<Rightarrow>
              if CHR '':'' \<in> set resolved \<or> CHR '':'' \<in> set mountPath
              then (Inl (EMsg (''volume mount '' @ quote mountPath @ '' cannot be passed to Macker because its path contains '' @ [apostrophe, CHR '':'', apostrophe])), tr)
              else mount_args E vols types mts (mountPath # seen) (args @ [''-v'', resolved @ '':'' @ mountPath]) tr))))"

definition mackerVolumeArgs :: "env \<Rightarrow> volume list \<Rightarrow> volume_mount list \<Rightarrow> (err + string list) io" where
  "mackerVolumeArgs E volumes mounts tr = (case host_volumes E volumes [] [] tr of
       (Inl e, tr) \<Rightarrow> (Inl e, tr)
     | (Inr (vols, types), tr) \<Rightarrow> mount_args E vols types mounts [] [] tr)"

section \<open>Materialized ConfigMaps\<close>

fun show_oct :: "nat \<Rightarrow> string" where
  "show_oct n = (if n < 8 then [digit_char n] else show_oct (n div 8) @ [digit_char (n mod 8)])"

declare show_oct.simps [simp del]

definition octal :: "int \<Rightarrow> string" where
  "octal i = (if i < 0 then CHR ''-'' # show_oct (nat (- i)) else show_oct (nat i))"

definition item_path_error :: "string \<Rightarrow> err option" where
  "item_path_error relative =
    (let clean = path_clean relative in
     if relative = [] \<or> is_abs relative
     then Some (EMsg (''ConfigMap item path '' @ quote relative @ '' must be relative''))
     else if clean = ''.'' \<or> escapes clean
     then Some (EMsg (''ConfigMap item path '' @ quote relative @ '' escapes the volume''))
     else if CHR '':'' \<in> set clean
     then Some (EMsg (''ConfigMap item path '' @ quote relative @ '' contains '' @ [apostrophe, CHR '':'', apostrophe]))
     else None)"

definition writeConfigMapFile :: "env \<Rightarrow> string \<Rightarrow> string \<Rightarrow> string \<Rightarrow> int option \<Rightarrow> err option io" where
  "writeConfigMapFile E root relative body mode tr = (case item_path_error relative of
       Some e \<Rightarrow> (Some e, tr)
     | None \<Rightarrow> (let path = path_join [root, path_clean relative];
                   fileMode = (case mode of Some md \<Rightarrow> md | None \<Rightarrow> 420) in
         case fs_do E (MkdirAll (path_dir path) 448) tr of
           (Some e, tr) \<Rightarrow> (Some (wrap (''create ConfigMap item parent '' @ quote relative @ '': '') e), tr)
         | (None, tr) \<Rightarrow>
             if fileMode < 0 \<or> fileMode div 512 \<noteq> 0
             then (Some (EMsg (''ConfigMap item '' @ quote relative @ '' has invalid mode '' @ octal fileMode)), tr)
             else (case fs_do E (WriteFile path (FBytes body) fileMode) tr of
                (Some e, tr) \<Rightarrow> (Some (wrap (''write ConfigMap item '' @ quote relative @ '': '') e), tr)
              | (None, tr) \<Rightarrow> (None, tr))))"

definition config_data :: "config_map \<Rightarrow> strmap" where
  "config_data c = foldl (\<lambda>d (k, v). mput d k v) (foldl (\<lambda>d (k, v). mput d k v) [] (cm_data c)) (cm_binary c)"

fun write_keys :: "env \<Rightarrow> string \<Rightarrow> strmap \<Rightarrow> int option \<Rightarrow> string list \<Rightarrow> err option io" where
  "write_keys E staging d mode [] tr = (None, tr)"
| "write_keys E staging d mode (k # ks) tr = (case writeConfigMapFile E staging k (mget d k) mode tr of
       (Some e, tr) \<Rightarrow> (Some e, tr)
     | (None, tr) \<Rightarrow> write_keys E staging d mode ks tr)"

fun write_items :: "env \<Rightarrow> string \<Rightarrow> strmap \<Rightarrow> int option \<Rightarrow> key_to_path list \<Rightarrow> err option io" where
  "write_items E staging d mode [] tr = (None, tr)"
| "write_items E staging d mode (it # its) tr = (case map_of d (kp_key it) of
       None \<Rightarrow> (Some (EMsg (''ConfigMap key '' @ quote (kp_key it) @ '' is missing'')), tr)
     | Some v \<Rightarrow> (case writeConfigMapFile E staging (kp_path it) v
           (case kp_mode it of Some md \<Rightarrow> Some md | None \<Rightarrow> mode) tr of
         (Some e, tr) \<Rightarrow> (Some e, tr)
       | (None, tr) \<Rightarrow> write_items E staging d mode its tr))"

text \<open>Filling the staging directory and moving it over the target.\<close>

definition install_volume :: "env \<Rightarrow> cm_volume \<Rightarrow> strmap \<Rightarrow> string \<Rightarrow> string \<Rightarrow> err option io" where
  "install_volume E src d staging target tr =
    (case (if cv_items src = [] then write_keys E staging d (cv_default_mode src) (sort (mkeys d)) tr
           else write_items E staging d (cv_default_mode src) (cv_items src) tr) of
       (Some e, tr) \<Rightarrow> (Some e, tr)
     | (None, tr) \<Rightarrow> (case fs_do E (RemoveAll target) tr of
         (Some e, tr) \<Rightarrow> (Some (wrap ''replace materialized ConfigMap volume: '' e), tr)
       | (None, tr) \<Rightarrow> (case fs_do E (Rename staging target) tr of
           (Some e, tr) \<Rightarrow> (Some (wrap ''install materialized ConfigMap volume: '' e), tr)
         | (None, tr) \<Rightarrow> (None, tr))))"

definition stage_volume :: "env \<Rightarrow> cm_volume \<Rightarrow> strmap \<Rightarrow> string \<Rightarrow> string \<Rightarrow> (err + string) io" where
  "stage_volume E src d base key tr =
    (let target = path_join [base, key] in
     case time_now E tr of (now, tr) \<Rightarrow>
     (let staging = path_join [base, ''.'' @ key @ ''.tmp-'' @ itoa now] in
      case fs_do E (MkdirAll base 448) tr of
        (Some e, tr) \<Rightarrow> (Inl (wrap ''create materialized volume directory: '' e), tr)
      | (None, tr) \<Rightarrow> (case fs_do E (Mkdir staging 448) tr of
          (Some e, tr) \<Rightarrow> (Inl (wrap ''create materialized ConfigMap staging directory: '' e), tr)
        | (None, tr) \<Rightarrow> (case install_volume E src d staging target tr of
            (Some e, tr) \<Rightarrow> (Inl e, snd (fs_do E (RemoveAll staging) tr))
          | (None, tr) \<Rightarrow> (Inr target, tr)))))"

definition materializeConfigMapVolume ::
  "env \<Rightarrow> manager \<Rightarrow> pod \<Rightarrow> string \<Rightarrow> cm_volume \<Rightarrow> (err + string) io" where
  "materializeConfigMapVolume E m pod volumeName src tr =
    (if wm_journal_path m = [] \<or> wm_volume_root m = []
     then (Inl (EMsg ''ConfigMap volumes require a state-backed workload manager''), tr)
     else (case getConfigMap E m (om_namespace (p_meta pod)) (cv_name src) (is_optional (cv_optional src)) tr of
        (Inl e, tr) \<Rightarrow> (Inl e, tr)
      | (Inr found, tr) \<Rightarrow>
          (let d = (case found of Some c \<Rightarrow> config_data c | None \<Rightarrow> []);
               key = sanitizeVolumeKey volumeName in
           if key = [] then (Inl (EMsg (''volume name '' @ quote volumeName @ '' is invalid'')), tr)
           else stage_volume E src d (path_join [wm_volume_root m, workloadContainerName pod]) key tr)))"

text \<open>\<^verbatim>\<open>replaceManagedVolumePaths\<close>: paths that are no longer used are removed.\<close>

fun remove_unkept :: "env \<Rightarrow> string list \<Rightarrow> string list \<Rightarrow> trace \<Rightarrow> trace" where
  "remove_unkept E keep [] tr = tr"
| "remove_unkept E keep (p # ps) tr =
     remove_unkept E keep ps (if p \<in> set keep then tr else snd (fs_do E (RemoveAll p) tr))"

definition replaceManagedVolumePaths :: "env \<Rightarrow> managed \<Rightarrow> string list \<Rightarrow> trace \<Rightarrow> managed \<times> trace" where
  "replaceManagedVolumePaths E w paths tr =
     (w\<lparr>mw_volumes := paths\<rparr>, remove_unkept E paths (mw_volumes w) tr)"

section \<open>Substituting managed volumes\<close>

definition as_host_path :: "volume \<Rightarrow> string \<Rightarrow> volume" where
  "as_host_path v path = v\<lparr>vo_host_path := Some (path, None)\<rparr>"

text \<open>
  The loop over the copied volumes: the volumes with their host paths, the materialized paths,
  the names of the managed volumes, and the workload with its mounts.
\<close>

fun substitute_volumes ::
  "env \<Rightarrow> manager \<Rightarrow> pod \<Rightarrow> volume list \<Rightarrow> managed \<Rightarrow> trace \<Rightarrow>
    (err + volume list \<times> string list \<times> string list) \<times> managed \<times> trace" where
  "substitute_volumes E m pod [] w tr = (Inr ([], [], []), w, tr)"
| "substitute_volumes E m pod (v # vs) w tr =
    (case vo_config_map v of
       Some src \<Rightarrow> (case materializeConfigMapVolume E m pod (vo_name v) src tr of
           (Inl e, tr) \<Rightarrow> (Inl (wrap (''volume '' @ quote (vo_name v) @ '': '') e), w, tr)
         | (Inr path, tr) \<Rightarrow> (case substitute_volumes E m pod vs w tr of
             (Inl e, w, tr) \<Rightarrow> (Inl e, w, tr)
           | (Inr (vs, ps, ns), w, tr) \<Rightarrow>
               (Inr ((as_host_path v path)\<lparr>vo_config_map := None\<rparr> # vs, path # ps, vo_name v # ns), w, tr)))
     | None \<Rightarrow> (case vo_pvc v of
         Some src \<Rightarrow> (case mountGenericNFSVolume E m pod (vo_name v) src w tr of
             (Inl e, w, tr) \<Rightarrow> (Inl (wrap (''volume '' @ quote (vo_name v) @ '': '') e), w, tr)
           | (Inr path, w, tr) \<Rightarrow> (case substitute_volumes E m pod vs w tr of
               (Inl e, w, tr) \<Rightarrow> (Inl e, w, tr)
             | (Inr (vs, ps, ns), w, tr) \<Rightarrow>
                 (Inr ((as_host_path v path)\<lparr>vo_pvc := None\<rparr> # vs, ps, vo_name v # ns), w, tr)))
       | None \<Rightarrow> (case substitute_volumes E m pod vs w tr of
           (Inl e, w, tr) \<Rightarrow> (Inl e, w, tr)
         | (Inr (vs, ps, ns), w, tr) \<Rightarrow> (Inr (v # vs, ps, ns), w, tr))))"

definition writable_mounts :: "string list \<Rightarrow> volume_mount list \<Rightarrow> volume_mount list" where
  "writable_mounts names = map (\<lambda>mt. if vm_name mt \<in> set names then mt\<lparr>vm_read_only := False\<rparr> else mt)"

definition mackerVolumeArgsWithContext ::
  "env \<Rightarrow> manager \<Rightarrow> pod \<Rightarrow> container \<Rightarrow> managed \<Rightarrow> trace \<Rightarrow> (err + string list) \<times> managed \<times> trace" where
  "mackerVolumeArgsWithContext E m pod c w tr =
    (case substitute_volumes E m pod (ps_volumes (p_spec pod)) w tr of
       (Inl e, w, tr) \<Rightarrow> (Inl e, w, tr)
     | (Inr (vs, materialized, names), w, tr) \<Rightarrow>
         (case mackerVolumeArgs E vs (writable_mounts names (c_mounts c)) tr of
            (Inl e, tr) \<Rightarrow> (Inl e, w, tr)
          | (Inr args, tr) \<Rightarrow> (case replaceManagedVolumePaths E w materialized tr of
              (w, tr) \<Rightarrow> (Inr args, w, tr))))"

fun refresh_loop :: "env \<Rightarrow> manager \<Rightarrow> pod \<Rightarrow> volume list \<Rightarrow> (err + string list) io" where
  "refresh_loop E m pod [] tr = (Inr [], tr)"
| "refresh_loop E m pod (v # vs) tr = (case vo_config_map v of
       None \<Rightarrow> refresh_loop E m pod vs tr
     | Some src \<Rightarrow> (case materializeConfigMapVolume E m pod (vo_name v) src tr of
         (Inl e, tr) \<Rightarrow> (Inl (wrap (''volume '' @ quote (vo_name v) @ '': '') e), tr)
       | (Inr path, tr) \<Rightarrow> (case refresh_loop E m pod vs tr of
           (Inl e, tr) \<Rightarrow> (Inl e, tr)
         | (Inr ps, tr) \<Rightarrow> (Inr (path # ps), tr))))"

definition refreshConfigMapVolumes ::
  "env \<Rightarrow> manager \<Rightarrow> pod \<Rightarrow> managed \<Rightarrow> trace \<Rightarrow> err option \<times> managed \<times> trace" where
  "refreshConfigMapVolumes E m pod w tr = (case refresh_loop E m pod (ps_volumes (p_spec pod)) tr of
       (Inl e, tr) \<Rightarrow> (Some e, w, tr)
     | (Inr ps, tr) \<Rightarrow> (case replaceManagedVolumePaths E w ps tr of (w, tr) \<Rightarrow> (None, w, tr)))"

end
