(* ===== verification/VolumeProps.thy ===== *)
theory VolumeProps
  imports Volumes NfsProps
begin

text \<open>
  Properties of the volumes: which paths materialization touches, and the shape of the volume
  arguments that \<^verbatim>\<open>macker run\<close> gets.
\<close>

section \<open>Paths beneath a root\<close>

definition beneath :: "string \<Rightarrow> string \<Rightarrow> bool" where
  "beneath root p \<longleftrightarrow> is_abs p \<and> (\<exists>cs. list_all proper cs \<and> path_comps p = path_comps root @ cs)"

lemma beneath_join: "is_abs root \<Longrightarrow> ''..'' \<notin> set (split_on slash rel) \<Longrightarrow> beneath root (path_join [root, rel])"
  unfolding beneath_def using path_join_below proper_comps by blast

lemma beneath_trans: "beneath a b \<Longrightarrow> beneath b c \<Longrightarrow> beneath a c"
  unfolding beneath_def by (metis append_assoc list_all_append)

lemma beneath_name: "is_abs root \<Longrightarrow> slash \<notin> set c \<Longrightarrow> c \<noteq> ''..'' \<Longrightarrow> beneath root (path_join [root, c])"
  by (rule beneath_join) (simp_all add: split_on_self)

text \<open>A relative path that does not escape has only proper components.\<close>

lemma relative_comps:
  assumes "\<not> is_abs rel" "\<not> escapes (path_clean rel)"
  shows "list_all proper (path_comps rel)"
proof -
  obtain n ds where c: "path_comps rel = replicate n ''..'' @ ds" and ds: "list_all proper ds"
    using path_comps_clean [of rel] by (auto simp: clean_list_def)
  have "n = 0"
  proof (rule ccontr)
    assume "n \<noteq> 0"
    then obtain k where "n = Suc k" by (cases n) auto
    with c obtain rest where r: "path_comps rel = ''..'' # rest" by simp
    have "path_clean rel = ''..'' \<or> has_prefix (path_clean rel) ''../''"
      using assms(1) by (cases rest) (simp_all add: path_clean_def path_of_def r has_prefix_iff)
    with assms(2) show False by (simp add: escapes_def)
  qed
  with c ds show ?thesis by simp
qed

lemma relative_split:
  assumes "\<not> is_abs rel" "\<not> escapes (path_clean rel)" "path_clean rel \<noteq> ''.''"
  shows "path_comps rel \<noteq> []" "split_on slash (path_clean rel) = path_comps rel"
proof -
  show ne: "path_comps rel \<noteq> []"
    using assms(1,3) by (auto simp: path_clean_def path_of_def)
  have "\<forall>c \<in> set (path_comps rel). slash \<notin> set c"
    using relative_comps [OF assms(1,2)] by (auto simp: list_all_iff proper_def)
  with ne show "split_on slash (path_clean rel) = path_comps rel"
    using assms(1) by (simp add: path_clean_def path_of_def split_on_join)
qed

lemma path_join_comps:
  assumes "is_abs root" "\<not> is_abs rel" "\<not> escapes (path_clean rel)" "path_clean rel \<noteq> ''.''"
  shows "path_join [root, path_clean rel] = path_of True (path_comps root @ path_comps rel)"
proof -
  have p: "list_all proper (path_comps rel)" using assms(2,3) by (rule relative_comps)
  then have no: "''..'' \<notin> set (split_on slash (path_clean rel))"
    using relative_split [OF assms(2-4)] by (auto simp: list_all_iff proper_def)
  have "filter plain (path_comps rel) = path_comps rel"
    using p by (auto simp: filter_id_conv list_all_iff proper_def plain_def)
  then have "path_comps (path_join [root, path_clean rel]) = path_comps root @ path_comps rel"
    using path_join_below(1) [OF assms(1) no] relative_split [OF assms(2-4)] by simp
  moreover have "is_abs (path_join [root, path_clean rel])" using assms(1) by (rule path_join_abs)
  moreover have "path_clean (path_join [root, path_clean rel]) = path_join [root, path_clean rel]"
    using assms(1) by (cases root) (simp_all add: path_join_def Let_def is_abs_def has_prefix_def)
  ultimately show ?thesis by (metis path_clean_def)
qed

text \<open>The directory of a cleaned absolute path drops its last component.\<close>

lemma path_dir_of:
  assumes "clean_list True (cs @ [c])"
  shows "path_dir (path_of True (cs @ [c])) = path_of True cs"
proof -
  have cl: "clean_list True cs" using assms by (auto simp: clean_list_def)
  have no: "\<forall>d \<in> set (cs @ [c]). slash \<notin> set d" using clean_list_comp [OF assms] by blast
  have "split_on slash (path_of True (cs @ [c])) = [] # cs @ [c]"
    using no split_on_join [of "cs @ [c]" slash] by (simp add: path_of_def)
  then have d: "path_dir (path_of True (cs @ [c])) = path_clean (str_join ''/'' ([] # cs) @ ''/'')"
    by (simp add: path_dir_def Let_def butlast_append)
  have "path_comps (str_join ''/'' ([] # cs) @ ''/'') = cs \<and> is_abs (str_join ''/'' ([] # cs) @ ''/'')"
  proof (cases "cs = []")
    case True
    show ?thesis unfolding True by code_simp
  next
    case False
    then have j: "str_join ''/'' ([] # cs) @ ''/'' = slash # str_join ''/'' cs @ [slash]" by (cases cs) auto
    have "split_on slash (slash # str_join ''/'' cs @ [slash]) = [] # cs @ [[]]"
      using no False split_on_append [of slash "str_join ''/'' cs" "[]"] by (simp add: split_on_join)
    moreover have "clean_comps True ([] # cs @ [[]]) = clean_comps True cs" by (simp add: clean_comps_def)
    ultimately show ?thesis using clean_comps_id [OF cl] j by (simp add: path_comps_def is_abs_Cons)
  qed
  then show ?thesis by (simp add: d path_clean_def)
qed

lemma path_dir_below:
  assumes "is_abs root" "\<not> is_abs rel" "\<not> escapes (path_clean rel)" "path_clean rel \<noteq> ''.''"
  shows "beneath root (path_dir (path_join [root, path_clean rel]))"
proof -
  have p: "list_all proper (path_comps rel)" using assms(2,3) by (rule relative_comps)
  obtain cs c where cs: "path_comps rel = cs @ [c]" using relative_split(1) [OF assms(2-4)] by (metis rev_exhaust)
  obtain ds where r: "path_comps root = ds" "list_all proper ds"
    using path_comps_clean [of root] assms(1) by (auto simp: clean_list_def)
  have cl: "clean_list True ((path_comps root @ cs) @ [c])" "clean_list True (path_comps root @ cs)"
    using p cs r by (auto simp: clean_list_def)
  have "path_dir (path_join [root, path_clean rel]) = path_of True (path_comps root @ cs)"
    unfolding path_join_comps [OF assms] cs append_assoc [symmetric] using cl(1) by (rule path_dir_of)
  then show ?thesis
    using path_comps_path_of [OF cl(2)] is_abs_path_of [OF cl(2)] p cs by (auto simp: beneath_def)
qed

section \<open>Where materialized ConfigMaps are written\<close>

text \<open>The paths that a file-system request names.\<close>

fun request_paths :: "fs_request \<Rightarrow> string list" where
  "request_paths (Rename a b) = [a, b]"
| "request_paths (ReadFile p) = [p]"
| "request_paths (Stat p) = [p]"
| "request_paths (MkdirAll p _) = [p]"
| "request_paths (Mkdir p _) = [p]"
| "request_paths (RemoveAll p) = [p]"
| "request_paths (Remove p) = [p]"
| "request_paths (WriteFile p _ _) = [p]"
| "request_paths (CreateExcl p _) = [p]"
| "request_paths (CreateTemp p _) = [p]"
| "request_paths (ChmodTemp p _) = [p]"
| "request_paths (WriteTemp p _) = [p]"
| "request_paths (SyncTemp p) = [p]"
| "request_paths (CloseTemp p) = [p]"
| "request_paths (Chown p _ _) = [p]"
| "request_paths (ReadDir p) = [p]"
| "request_paths (EvalSymlinks p) = [p]"

text \<open>An event that only touches files beneath a root, reads configuration or the clock.\<close>

definition within :: "string \<Rightarrow> event \<Rightarrow> bool" where
  "within root e \<longleftrightarrow> (case e of EvFs q _ \<Rightarrow> list_all (beneath root) (request_paths q)
     | EvNow _ \<Rightarrow> True | _ \<Rightarrow> peer_read e)"

lemma within_simps [simp]:
  "within root (EvFs q r) = list_all (beneath root) (request_paths q)" "within root (EvNow t)"
  by (simp_all add: within_def)

lemma peer_read_within: "peer_read e \<Longrightarrow> within root e"
  by (auto simp: peer_read_def within_def)

lemma within_mono: "beneath a b \<Longrightarrow> within b e \<Longrightarrow> within a e"
  by (cases e) (auto simp: within_def list_all_iff intro: beneath_trans)

lemma item_path_ok:
  assumes "item_path_error rel = None"
  shows "\<not> is_abs rel" "\<not> escapes (path_clean rel)" "path_clean rel \<noteq> ''.''"
  using assms by (auto simp: item_path_error_def Let_def split: if_splits)

lemma writeConfigMapFile_within [emits_intros]:
  assumes root: "is_abs root"
  shows "emits (within root) (writeConfigMapFile E root rel body mode)"
proof (cases "item_path_error rel")
  case (Some e)
  then show ?thesis unfolding writeConfigMapFile_def [abs_def] by (simp add: emits_return)
next
  case None
  note ok = item_path_ok [OF None]
  have "''..'' \<notin> set (split_on slash (path_clean rel))"
    using relative_split [OF ok] relative_comps [OF ok(1,2)] by (auto simp: list_all_iff proper_def)
  then have b: "beneath root (path_join [root, path_clean rel])" using root by (rule beneath_join [rotated])
  have d: "beneath root (path_dir (path_join [root, path_clean rel]))" using root ok by (rule path_dir_below)
  show ?thesis
    unfolding writeConfigMapFile_def [abs_def] None option.case Let_def
    by (intro emits_intros) (simp_all add: b d)
qed

lemma write_keys_within [emits_intros]: "is_abs root \<Longrightarrow> emits (within root) (write_keys E root d mode ks)"
proof (induction ks)
  case Nil
  show ?case by (simp add: emits_return)
next
  case (Cons k ks)
  show ?case unfolding write_keys.simps [abs_def] by (intro emits_intros Cons)
qed

lemma write_items_within [emits_intros]: "is_abs root \<Longrightarrow> emits (within root) (write_items E root d mode its)"
proof (induction its)
  case Nil
  show ?case by (simp add: emits_return)
next
  case (Cons it its)
  show ?case unfolding write_items.simps [abs_def] by (intro emits_intros Cons)
qed

lemma beneath_refl: "is_abs root \<Longrightarrow> beneath root root"
  by (simp add: beneath_def)

lemma emits_beneath:
  "beneath a b \<Longrightarrow> emits (within b) f \<Longrightarrow> emits (within a) f"
  using emits_mono within_mono by metis

lemma itoa_no_slash: "slash \<notin> set (itoa i)"
proof -
  have "\<not> is_digit slash" by code_simp
  then show ?thesis using show_nat_chars by (auto simp: itoa_def)
qed

lemma sanitizeVolumeKey_name:
  "sanitizeVolumeKey name \<noteq> [] \<Longrightarrow> proper (sanitizeVolumeKey name)"
  by (auto simp: sanitizeVolumeKey_def Let_def proper_def split: if_splits)

lemma install_volume_within:
  assumes "is_abs base" "beneath base staging" "beneath base target"
  shows "emits (within base) (install_volume E src d staging target)"
proof -
  have "is_abs staging" using assms(2) by (simp add: beneath_def)
  then have "emits (within base) (write_keys E staging d mode ks)" "emits (within base) (write_items E staging d mode its)"
    for mode ks its using assms(2) by (blast intro: emits_beneath write_keys_within write_items_within)+
  then show ?thesis
    unfolding install_volume_def [abs_def] by (intro emits_intros) (simp_all add: assms)
qed

lemma stage_volume_within [emits_intros]:
  assumes base: "is_abs base" and key: "proper key"
  shows "emits (within base) (stage_volume E src d base key)"
proof -
  have "slash \<notin> set (''.'' @ key @ ''.tmp-'' @ itoa now)" for now
    using key itoa_no_slash by (simp add: proper_def)
  moreover have "''.'' @ key @ ''.tmp-'' @ itoa now \<noteq> ''..''" for now by (cases key) auto
  ultimately have st: "beneath base (path_join [base, ''.'' @ key @ ''.tmp-'' @ itoa now])" for now
    using base by (intro beneath_name)
  have tg: "beneath base (path_join [base, key])" using base key by (intro beneath_name) (auto simp: proper_def)
  show ?thesis
    unfolding stage_volume_def [abs_def] Let_def
    by (intro emits_intros install_volume_within base st tg) (use st tg beneath_refl [OF base] in simp_all)
qed

text \<open>
  C25: materializing a ConfigMap volume touches no path outside the manager's volume root, whatever
  the Pod, the volume and the ConfigMap are called and whatever paths their items ask for; besides,
  it only reads the ConfigMap, with the peer identity.
\<close>

theorem configmap_volume_contained:
  assumes "is_abs (wm_volume_root m)"
  shows "emits (within (wm_volume_root m)) (materializeConfigMapVolume E m pod name src)"
proof -
  let ?base = "path_join [wm_volume_root m, workloadContainerName pod]"
  have base: "is_abs ?base" "beneath (wm_volume_root m) ?base"
    using assms container_name_comp [of pod] by (auto simp: proper_def intro: path_join_abs beneath_name)
  have read: "emits (within (wm_volume_root m)) (getConfigMap E m ns n opt)" for ns n opt
    using getConfigMap_reads peer_read_within by (rule emits_mono)
  have stage: "emits (within (wm_volume_root m)) (stage_volume E src d ?base (sanitizeVolumeKey name))"
    if "sanitizeVolumeKey name \<noteq> []" for d
    using base(2) stage_volume_within [OF base(1) sanitizeVolumeKey_name [OF that]] by (rule emits_beneath)
  show ?thesis
    unfolding materializeConfigMapVolume_def [abs_def] Let_def by (intro emits_intros read stage)
qed

definition state_manager :: manager where
  "state_manager = (newWorkloadManagerWithState None ''macker'' ''192.0.2.10'' ''/var/maclet'')\<lparr>wm_api := True\<rparr>"

definition config_env :: env where
  "config_env = quiet_env\<lparr>e_api := \<lambda>_ _ _ _ _. Inr (KConfigMap \<lparr>cm_data = [(''app.conf'', ''x=1'')], cm_binary = []\<rparr>)\<rparr>"

definition config_source :: cm_volume where
  "config_source = \<lparr>cv_name = ''settings'', cv_optional = None, cv_items = [], cv_default_mode = Some 420\<rparr>"

lemma configmap_volume_contained_witness:
  "fst (materializeConfigMapVolume config_env state_manager nfs_pod ''cfg'' config_source []) =
      Inr ''/var/maclet/volumes/maclet-default-web-u1/cfg'' \<and>
   list_all (within (wm_volume_root state_manager))
     (snd (materializeConfigMapVolume config_env state_manager nfs_pod ''cfg'' config_source []))"
proof
  show "fst (materializeConfigMapVolume config_env state_manager nfs_pod ''cfg'' config_source []) =
      Inr ''/var/maclet/volumes/maclet-default-web-u1/cfg''" by code_simp
  have "is_abs (wm_volume_root state_manager)" by code_simp
  from configmap_volume_contained [OF this, of config_env nfs_pod "''cfg''" config_source]
  show "list_all (within (wm_volume_root state_manager))
     (snd (materializeConfigMapVolume config_env state_manager nfs_pod ''cfg'' config_source []))"
    unfolding emits_def by (metis append_Nil2)
qed

section \<open>Volume arguments\<close>

definition volume_pair :: "string \<times> string \<Rightarrow> string list" where
  "volume_pair p = [''-v'', fst p @ '':'' @ snd p]"

lemma volume_pair_Pair [simp]: "volume_pair (h, p) = [''-v'', h @ '':'' @ p]"
  by (simp add: volume_pair_def)

definition wanted_mounts :: "volume_mount list \<Rightarrow> volume_mount list" where
  "wanted_mounts mts = filter (\<lambda>mt. vm_mount_path mt \<noteq> serviceaccount_path) mts"

lemma check_mount_Inr:
  assumes "check_mount mt seen = Inr p"
  shows "p = path_clean (vm_mount_path mt)" "is_abs p" "p \<notin> set seen" "\<not> vm_read_only mt"
  using assms by (auto simp: check_mount_def Let_def split: if_splits)

lemma mount_args_Inr:
  "mount_args E vols types mts seen args tr = (Inr r, tr') \<Longrightarrow>
    \<exists>ps. r = args @ concat (map volume_pair ps) \<and>
      map snd ps = map (\<lambda>mt. path_clean (vm_mount_path mt)) (wanted_mounts mts) \<and>
      distinct (map snd ps) \<and> set (map snd ps) \<inter> set seen = {} \<and>
      (\<forall>(h, p) \<in> set ps. CHR '':'' \<notin> set h \<and> CHR '':'' \<notin> set p \<and> is_abs p) \<and>
      (\<forall>mt \<in> set (wanted_mounts mts). \<not> vm_read_only mt)"
proof (induction mts arbitrary: seen args tr)
  case Nil
  then show ?case by (simp add: wanted_mounts_def)
next
  case (Cons mt mts)
  show ?case
  proof (cases "vm_mount_path mt = serviceaccount_path")
    case True
    with Cons show ?thesis by (simp add: wanted_mounts_def)
  next
    case False
    with Cons.prems obtain p host resolved tr1 where p: "check_mount mt seen = Inr p"
      and no: "CHR '':'' \<notin> set resolved" "CHR '':'' \<notin> set p"
      and rest: "mount_args E vols types mts (p # seen) (args @ [''-v'', resolved @ '':'' @ p]) tr1 = (Inr r, tr')"
      by (auto split: sum.splits option.splits prod.splits if_splits)
    from Cons.IH [OF rest] obtain ps where
      "r = (args @ [''-v'', resolved @ '':'' @ p]) @ concat (map volume_pair ps)"
      "map snd ps = map (\<lambda>mt. path_clean (vm_mount_path mt)) (wanted_mounts mts)"
      "distinct (map snd ps)" "set (map snd ps) \<inter> set (p # seen) = {}"
      "\<forall>(h, p) \<in> set ps. CHR '':'' \<notin> set h \<and> CHR '':'' \<notin> set p \<and> is_abs p"
      "\<forall>mt \<in> set (wanted_mounts mts). \<not> vm_read_only mt"
      by blast
    with check_mount_Inr [OF p] no False show ?thesis
      by (intro exI [of _ "(resolved, p) # ps"]) (auto simp: wanted_mounts_def)
  qed
qed

text \<open>
  The volume arguments are one \<^verbatim>\<open>-v host:mount\<close> pair for each mount but the service-account
  one, in order: every mount path is clean, absolute and mounted once, neither side holds the
  separator, and no mount that asks to be read-only is passed on.
\<close>

theorem volume_arguments:
  assumes "mackerVolumeArgs E vols mts tr = (Inr args, tr')"
  shows "\<exists>ps. args = concat (map volume_pair ps) \<and>
    map snd ps = map (\<lambda>mt. path_clean (vm_mount_path mt)) (wanted_mounts mts) \<and> distinct (map snd ps) \<and>
    (\<forall>(h, p) \<in> set ps. CHR '':'' \<notin> set h \<and> CHR '':'' \<notin> set p \<and> is_abs p) \<and>
    (\<forall>mt \<in> set (wanted_mounts mts). \<not> vm_read_only mt)"
proof -
  obtain hv types tr1 where "mount_args E hv types mts [] [] tr1 = (Inr args, tr')"
    using assms by (auto simp: mackerVolumeArgs_def split: sum.splits prod.splits)
  from mount_args_Inr [OF this] show ?thesis by auto
qed

definition directory_env :: env where
  "directory_env = quiet_env\<lparr>e_fs := \<lambda>_ _. FInfo \<lparr>fi_dir = True, fi_regular = False, fi_socket = False,
     fi_char_device = False, fi_device = False\<rparr>\<rparr>"

definition demo_host_volumes :: "volume list" where
  "demo_host_volumes = [\<lparr>vo_name = ''data'', vo_host_path = Some (''/data/web/'', Some ''Directory''),
     vo_config_map = None, vo_pvc = None\<rparr>]"

definition demo_mounts :: "volume_mount list" where
  "demo_mounts = [\<lparr>vm_name = ''data'', vm_mount_path = ''/srv/'', vm_sub_path = [], vm_sub_path_expr = [], vm_read_only = False\<rparr>,
    \<lparr>vm_name = ''token'', vm_mount_path = serviceaccount_path, vm_sub_path = [], vm_sub_path_expr = [], vm_read_only = True\<rparr>]"

lemma demo_volume_args:
  "fst (mackerVolumeArgs directory_env demo_host_volumes demo_mounts []) = Inr [''-v'', ''/data/web:/srv'']"
  by code_simp

lemma volume_arguments_witness:
  "\<exists>ps. [''-v'', ''/data/web:/srv''] = concat (map volume_pair ps) \<and> map snd ps = [''/srv''] \<and> distinct (map snd ps)"
proof -
  obtain tr where "mackerVolumeArgs directory_env demo_host_volumes demo_mounts [] = (Inr [''-v'', ''/data/web:/srv''], tr)"
    using demo_volume_args by (metis prod.collapse)
  from volume_arguments [OF this] obtain ps where
    ps: "[''-v'', ''/data/web:/srv''] = concat (map volume_pair ps)" "distinct (map snd ps)"
      "map snd ps = map (\<lambda>mt. path_clean (vm_mount_path mt)) (wanted_mounts demo_mounts)" by blast
  moreover have "map (\<lambda>mt. path_clean (vm_mount_path mt)) (wanted_mounts demo_mounts) = [''/srv'']" by code_simp
  ultimately show ?thesis by metis
qed

end
