(* ===== verification/RunArgs.thy ===== *)
theory RunArgs
  imports Volumes WorkloadEnv
begin

text \<open>
  The Macker invocation of a workload: \<^verbatim>\<open>runArgsWithContext\<close> and \<^verbatim>\<open>hostNetworkRunArgs\<close> of
  \<^verbatim>\<open>workload_mounts.go\<close> 210--384.
\<close>

section \<open>Parts of the command line\<close>

definition clean_working_dir :: "container \<Rightarrow> err + string" where
  "clean_working_dir c = (if c_working_dir c = [] then Inr []
     else if \<not> is_abs (c_working_dir c)
     then Inl (EMsg (''container '' @ quote (c_name c) @ '' workingDir '' @ quote (c_working_dir c) @
       '' must be an absolute path''))
     else Inr (path_clean (c_working_dir c)))"

definition workdir_args :: "string \<Rightarrow> string list" where
  "workdir_args workingDir = (if workingDir \<noteq> [] then [''--workdir'', workingDir] else [])"

definition env_args :: "string list \<Rightarrow> string list" where
  "env_args environment = concat (map (\<lambda>v. [''--env'', v]) environment)"

text \<open>The loop over the ports of the container.\<close>

definition port_arg :: "bool \<Rightarrow> nat \<Rightarrow> container_port \<Rightarrow> err + string list" where
  "port_arg portForward index port =
    (let protocol = (if to_upper (cp_protocol port) = [] then ''TCP'' else to_upper (cp_protocol port)) in
     if cp_host_port port \<noteq> 0
     then Inl (EMsg (''container port '' @ itoa (cp_container_port port) @ '' requests hostPort '' @
       itoa (cp_host_port port) @ ''; maclet does not support host-port mapping yet''))
     else if cp_container_port port < 1 \<or> cp_container_port port > 65535
     then Inl (EMsg (''container port '' @ itoa (cp_container_port port) @ '' is outside the valid range''))
     else if protocol \<noteq> ''TCP'' \<and> protocol \<noteq> ''UDP''
     then Inl (EMsg (''container port '' @ itoa (cp_container_port port) @ '' uses unsupported protocol '' @
       quote (cp_protocol port)))
     else if portForward
     then Inr [''-p'', itoa (cp_container_port port) @ '':auto/'' @ to_lower protocol]
     else Inr [''--env'', ''MACKER_PORT_'' @ show_nat (index + 1) @ ''='' @ itoa (cp_container_port port)])"

fun port_args :: "bool \<Rightarrow> nat \<Rightarrow> container_port list \<Rightarrow> err + string list" where
  "port_args portForward index [] = Inr []"
| "port_args portForward index (port # ports) = (case port_arg portForward index port of
       Inl e \<Rightarrow> Inl e
     | Inr arg \<Rightarrow> (case port_args portForward (index + 1) ports of
         Inl e \<Rightarrow> Inl e | Inr args \<Rightarrow> Inr (arg @ args)))"

definition port_forward :: "pod \<Rightarrow> bool" where
  "port_forward pod \<longleftrightarrow> mget (om_annotations (p_meta pod)) nativeDisablePortForwardAnnotation \<noteq> ''true''"

definition command_override :: "container \<Rightarrow> string list" where
  "command_override c = drop 1 (c_command c) @ c_args c"

definition command_args :: "container \<Rightarrow> string list" where
  "command_args c =
     (case c_command c of [] \<Rightarrow> [] | entry # _ \<Rightarrow> [''--entrypoint'', entry]) @ [c_image c] @
     (if command_override c \<noteq> [] then ''--'' # command_override c else [])"

text \<open>The bridge address one below the gateway, in the last octet: \<^verbatim>\<open>bridge[3]--\<close> on a byte.\<close>

definition dec_last_octet :: "ip4 \<Rightarrow> ip4" where
  "dec_last_octet w = (w AND NOT 0xFF) OR ((w - 1) AND 0xFF)"

definition bridge_host_ip :: "string \<Rightarrow> string" where
  "bridge_host_ip gateway = (case parse_to4 gateway of
       None \<Rightarrow> gateway | Some w \<Rightarrow> ip4_string (dec_last_octet w))"

section \<open>The two invocations\<close>

definition container_error :: "container \<Rightarrow> err \<Rightarrow> err" where
  "container_error c e = wrap (''container '' @ quote (c_name c) @ '': '') e"

definition network_unavailable :: err where
  "network_unavailable = EMsg ''Darwin workload networking is not available; join with VXLAN enabled''"

definition external_prefix :: "net_handle \<Rightarrow> managed \<Rightarrow> string list" where
  "external_prefix h w = [''run'', ''--detach'', ''--net=external'', ''--interface'', nh_interface h,
     ''--ip'', mw_ip w, ''--host-interface'', nh_interface h, ''--host-ip'', bridge_host_ip (nh_gateway h),
     ''--name'', mw_container w]"

definition hostNetworkRunArgs ::
  "env \<Rightarrow> manager \<Rightarrow> pod \<Rightarrow> container \<Rightarrow> managed \<Rightarrow> trace \<Rightarrow> (err + string list) \<times> managed \<times> trace" where
  "hostNetworkRunArgs E m pod c w tr =
    (if c_image c = [] then (Inl (EMsg ''container image is empty''), w, tr)
     else (case clean_working_dir c of
        Inl e \<Rightarrow> (Inl e, w, tr)
      | Inr workingDir \<Rightarrow> (case mackerVolumeArgsWithContext E m pod c w tr of
          (Inl e, w, tr) \<Rightarrow> (Inl (container_error c e), w, tr)
        | (Inr volumeArgs, w, tr) \<Rightarrow> (case resolveContainerEnvironment E m pod c w tr of
            (Inl e, tr) \<Rightarrow> (Inl e, w, tr)
          | (Inr environment, tr) \<Rightarrow> ((case port_args (port_forward pod) 0 (c_ports c) of
              Inl e \<Rightarrow> Inl e
            | Inr ports \<Rightarrow> Inr ([''run'', ''--detach'', ''--net=host'', ''--name'', mw_container w] @
                workdir_args workingDir @ volumeArgs @ env_args environment @ ports @ command_args c)),
              w, tr)))))"

definition runArgsWithContext ::
  "env \<Rightarrow> manager \<Rightarrow> pod \<Rightarrow> container \<Rightarrow> managed \<Rightarrow> trace \<Rightarrow> (err + string list) \<times> managed \<times> trace" where
  "runArgsWithContext E m pod c w tr = (case validateNativePodNetwork pod of
       Some e \<Rightarrow> (Inl e, w, tr)
     | None \<Rightarrow>
        if ps_host_network (p_spec pod) then hostNetworkRunArgs E m pod c w tr
        else if c_image c = [] then (Inl (EMsg ''container image is empty''), w, tr)
        else (case clean_working_dir c of
           Inl e \<Rightarrow> (Inl e, w, tr)
         | Inr workingDir \<Rightarrow> (case mackerVolumeArgsWithContext E m pod c w tr of
             (Inl e, w, tr) \<Rightarrow> (Inl (container_error c e), w, tr)
           | (Inr volumeArgs, w, tr) \<Rightarrow> (case wm_network m of
               None \<Rightarrow> (Inl network_unavailable, w, tr)
             | Some h \<Rightarrow>
                if nh_interface h = [] \<or> nh_gateway h = [] then (Inl network_unavailable, w, tr)
                else (case resolveContainerEnvironment E m pod c w tr of
                   (Inl e, tr) \<Rightarrow> (Inl e, w, tr)
                 | (Inr environment, tr) \<Rightarrow> ((case port_args (port_forward pod) 0 (c_ports c) of
                     Inl e \<Rightarrow> Inl e
                   | Inr ports \<Rightarrow> Inr (external_prefix h w @ volumeArgs @ workdir_args workingDir @
                       env_args environment @ ports @ command_args c)), w, tr))))))"

end
