(* ===== verification/PodStatus.thy ===== *)
theory PodStatus
  imports Macker
begin

text \<open>
  \<^verbatim>\<open>workload_status.go\<close>: the status maclet wants a Pod to have and its publication with
  retries on conflicts.
\<close>

section \<open>The desired status\<close>

definition podPath :: "pod \<Rightarrow> string" where
  "podPath pod = ''/api/v1/namespaces/'' @ path_escape (om_namespace (p_meta pod)) @ ''/pods/'' @
     path_escape (om_name (p_meta pod))"

definition podStatusPath :: "pod \<Rightarrow> string" where
  "podStatusPath pod = ''/api/v1/namespaces/'' @ path_escape (om_namespace (p_meta pod)) @ ''/pods/'' @
     path_escape (om_name (p_meta pod)) @ ''/status''"

text \<open>The loop over the conditions: \<open>found\<close> says that the condition has been placed.\<close>

fun place_condition :: "pod_condition \<Rightarrow> bool \<Rightarrow> pod_condition list \<Rightarrow> pod_condition list" where
  "place_condition c found [] = (if found then [] else [c])"
| "place_condition c found (x # xs) =
     (if pk_type x = pk_type c
      then (if found then place_condition c True xs else c # place_condition c True xs)
      else x # place_condition c found xs)"

definition setPodCondition :: "pod_condition list \<Rightarrow> pod_condition \<Rightarrow> pod_condition list" where
  "setPodCondition conditions condition = place_condition condition False conditions"

definition termination_detail :: "inspection \<Rightarrow> string" where
  "termination_detail i = in_reason i @
     (if in_signal i \<noteq> [] then (if in_reason i \<noteq> [] then ''; '' else []) @ ''signal='' @ in_signal i else [])"

definition terminated_state ::
  "string \<Rightarrow> string \<Rightarrow> gotime \<Rightarrow> inspection option \<Rightarrow> terminated" where
  "terminated_state phase message stamp insp =
    (let t = \<lparr>te_exit_code = 0, te_reason = (if phase = ''Succeeded'' then ''Completed'' else ''Error''),
           te_message = message, te_started = None, te_finished = stamp\<rparr> in
     case insp of
       None \<Rightarrow> t
     | Some i \<Rightarrow>
         t\<lparr>te_exit_code := (case in_exit_code i of Some c \<Rightarrow> c | None \<Rightarrow> te_exit_code t),
           te_started := (case in_started i of Some s \<Rightarrow> Some s | None \<Rightarrow> te_started t),
           te_finished := (case in_finished i of Some f \<Rightarrow> f | None \<Rightarrow> te_finished t),
           te_message := (if in_reason i \<noteq> [] \<or> in_signal i \<noteq> []
             then message @ ''; Macker termination: '' @ termination_detail i else message)\<rparr>)"

definition waiting_reason :: "string \<Rightarrow> string" where
  "waiting_reason reason = (if reason = ''MacletUnsupportedPod'' then ''CreateContainerConfigError''
     else if reason = ''MacletMackerLaunchFailed'' then ''RunContainerError''
     else ''ContainerCreating'')"

definition container_state_of ::
  "string \<Rightarrow> string \<Rightarrow> string \<Rightarrow> bool \<Rightarrow> gotime \<Rightarrow> inspection option \<Rightarrow> container_state" where
  "container_state_of phase reason message running stamp insp =
    (if running then StRunning stamp
     else if phase = ''Succeeded'' \<or> phase = ''Failed''
     then StTerminated (terminated_state phase message stamp insp)
     else StWaiting (waiting_reason reason) message)"

definition condition :: "string \<Rightarrow> bool \<Rightarrow> gotime \<Rightarrow> string \<Rightarrow> string \<Rightarrow> pod_condition" where
  "condition ty b stamp reason message = \<lparr>pk_type = ty, pk_status = (if b then ''True'' else ''False''),
     pk_time = stamp, pk_reason = reason, pk_message = message\<rparr>"

definition ready_conditions :: "bool \<Rightarrow> gotime \<Rightarrow> pod_condition list \<Rightarrow> pod_condition list" where
  "ready_conditions ready stamp cs =
    (let reason = (if ready then ''ContainersReady'' else ''ContainersNotReady'');
         message = (if ready then ''containers are ready'' else ''containers are not ready'');
         cs = setPodCondition cs (condition ''PodScheduled'' True stamp ''PodScheduled''
           ''Pod was successfully assigned to this node'');
         cs = setPodCondition cs (condition ''Initialized'' True stamp ''PodInitialized''
           ''Pod initialization completed'');
         cs = setPodCondition cs (condition ''Ready'' ready stamp reason message) in
     setPodCondition cs (condition ''ContainersReady'' ready stamp reason message))"

text \<open>\<^verbatim>\<open>desiredPodStatus\<close> at the time \<open>stamp\<close>.\<close>

definition desired_at ::
  "gotime \<Rightarrow> pod \<Rightarrow> string \<Rightarrow> string \<Rightarrow> string \<Rightarrow> string \<Rightarrow> string \<Rightarrow> bool \<Rightarrow> 32 word \<Rightarrow>
    inspection option \<Rightarrow> pod_status" where
  "desired_at stamp pod nodeIP phase ip reason message running restarts insp =
    (let ready = (running \<and> phase = ''Running'');
         first = (case ps_containers (p_spec pod) of [] \<Rightarrow> ([], []) | c # _ \<Rightarrow> (c_name c, c_image c)) in
     (p_status pod)\<lparr>pt_phase := phase, pt_pod_ip := ip, pt_pod_ips := (if ip \<noteq> [] then [ip] else []),
       pt_host_ip := nodeIP, pt_reason := [], pt_message := message,
       pt_conditions := ready_conditions ready stamp (pt_conditions (p_status pod)),
       pt_containers := [\<lparr>ct_name = fst first, ct_image = snd first, ct_ready = ready,
         ct_restarts = restarts,
         ct_state = container_state_of phase reason message running stamp insp\<rparr>]\<rparr>)"

definition desiredPodStatus ::
  "env \<Rightarrow> pod \<Rightarrow> string \<Rightarrow> string \<Rightarrow> string \<Rightarrow> string \<Rightarrow> string \<Rightarrow> bool \<Rightarrow> 32 word \<Rightarrow>
    inspection option \<Rightarrow> pod_status io" where
  "desiredPodStatus E pod nodeIP phase ip reason message running restarts insp tr =
    (case time_now E tr of (stamp, tr) \<Rightarrow>
      (desired_at stamp pod nodeIP phase ip reason message running restarts insp, tr))"

section \<open>Publication\<close>

definition status_payload :: "pod \<Rightarrow> pod_status \<Rightarrow> json" where
  "status_payload pod desired = JObj [(''apiVersion'', JStr ''v1''), (''kind'', JStr ''Pod''),
     (''metadata'', JObj [(''name'', JStr (om_name (p_meta pod))),
        (''namespace'', JStr (om_namespace (p_meta pod))), (''uid'', JStr (om_uid (p_meta pod))),
        (''resourceVersion'', JStr (om_resource_version (p_meta pod))),
        (''labels'', JMap (om_labels (p_meta pod))), (''annotations'', JMap (om_annotations (p_meta pod)))]),
     (''status'', JPodStatus desired)]"

definition decode_pod :: "string \<Rightarrow> kobj \<Rightarrow> err + pod" where
  "decode_pod what k = (case k of KPod p \<Rightarrow> Inr p | _ \<Rightarrow> Inl (wrap what json_error))"

definition firstContainerRestartCount :: "pod_status \<Rightarrow> 32 word" where
  "firstContainerRestartCount s = (case pt_containers s of [] \<Rightarrow> 0 | c # _ \<Rightarrow> ct_restarts c)"

text \<open>The loop of \<^verbatim>\<open>updatePodStatus\<close> with the number of attempts that are left.\<close>

fun update_attempts :: "nat \<Rightarrow> env \<Rightarrow> pod \<Rightarrow> pod_status \<Rightarrow> (err + pod) io" where
  "update_attempts 0 E current desired tr = (Inl (EMsg ''Pod status update retry limit exceeded''), tr)"
| "update_attempts (Suc n) E current desired tr =
    (case call_api E NodeClient PUT (podStatusPath current) (Some (status_payload current desired)) tr of
       (Inr k, tr) \<Rightarrow> (decode_pod ''decode Pod status response: '' k, tr)
     | (Inl e, tr) \<Rightarrow>
         if \<not> http_code_is 409 e \<or> n = 0
         then (Inl (wrap (''update Pod '' @ om_namespace (p_meta current) @ ''/'' @
           om_name (p_meta current) @ '' status: '') e), tr)
         else (case call_api E NodeClient GET (podPath current) None tr of
            (Inl ge, tr) \<Rightarrow> (Inl (wrap ''refresh Pod after status conflict: '' ge), tr)
          | (Inr k, tr) \<Rightarrow> (case decode_pod ''decode Pod after status conflict: '' k of
              Inl de \<Rightarrow> (Inl de, tr)
            | Inr current \<Rightarrow> (case desiredPodStatus E current (pt_host_ip desired) (pt_phase desired)
                  (pt_pod_ip desired) (pt_reason desired) (pt_message desired)
                  (pt_phase desired = ''Running'') (firstContainerRestartCount desired) None tr of
                (desired, tr) \<Rightarrow> update_attempts n E current desired tr))))"

definition updatePodStatus :: "env \<Rightarrow> pod \<Rightarrow> pod_status \<Rightarrow> (err + pod) io" where
  "updatePodStatus E pod desired tr = update_attempts 5 E pod desired tr"

definition podHasNativeLabel :: "pod \<Rightarrow> bool" where
  "podHasNativeLabel pod \<longleftrightarrow> mget (om_labels (p_meta pod)) nativeWorkloadLabelKey = ''true''"

text \<open>\<^verbatim>\<open>updateStatus\<close>: on success the caller's Pod is replaced by what the server returned.\<close>

definition updateStatus ::
  "env \<Rightarrow> manager \<Rightarrow> pod \<Rightarrow> string \<Rightarrow> string \<Rightarrow> string \<Rightarrow> string \<Rightarrow> bool \<Rightarrow> 32 word \<Rightarrow>
    inspection option \<Rightarrow> trace \<Rightarrow> err option \<times> pod \<times> trace" where
  "updateStatus E m pod phase ip reason message running restarts insp tr =
    (case desiredPodStatus E pod (wm_node_ip m) phase ip reason message running restarts insp tr of
       (desired, tr) \<Rightarrow> (case updatePodStatus E pod desired tr of
         (Inl e, tr) \<Rightarrow> (Some e, pod, tr)
       | (Inr updated, tr) \<Rightarrow> (None, updated, tr)))"

section \<open>Facts\<close>

lemma place_condition_others:
  "filter (\<lambda>x. pk_type x \<noteq> pk_type c) (place_condition c found cs) = filter (\<lambda>x. pk_type x \<noteq> pk_type c) cs"
  by (induction c found cs rule: place_condition.induct) auto

lemma place_condition_own:
  "filter (\<lambda>x. pk_type x = pk_type c) (place_condition c found cs) = (if found then [] else [c])"
  by (induction c found cs rule: place_condition.induct) auto

lemma place_condition_types:
  "distinct (map pk_type cs) \<Longrightarrow> (found \<longrightarrow> pk_type c \<notin> set (map pk_type cs)) \<Longrightarrow>
    distinct (map pk_type (place_condition c found cs)) \<and>
    set (map pk_type (place_condition c found cs)) = set (map pk_type cs) \<union> (if found then {} else {pk_type c})"
  by (induction c found cs rule: place_condition.induct) (auto, (metis imageI)+)

text \<open>
  Setting a condition leaves exactly one condition of its type, the new one, keeps all others
  in their order, and never duplicates a type.
\<close>

theorem setPodCondition_spec:
  "filter (\<lambda>x. pk_type x = pk_type c) (setPodCondition cs c) = [c] \<and>
   filter (\<lambda>x. pk_type x \<noteq> pk_type c) (setPodCondition cs c) = filter (\<lambda>x. pk_type x \<noteq> pk_type c) cs \<and>
   (distinct (map pk_type cs) \<longrightarrow> distinct (map pk_type (setPodCondition cs c)))"
  unfolding setPodCondition_def
  using place_condition_others [of c False cs] place_condition_own [of c False cs]
    place_condition_types [of cs False c] by simp

lemma setPodCondition_spec_witness:
  "distinct (map pk_type (setPodCondition [condition ''Ready'' True 1 [] [], condition ''A'' True 1 [] []]
     (condition ''Ready'' False 2 [] [])))"
  using setPodCondition_spec [of "condition ''Ready'' False 2 [] []"
      "[condition ''Ready'' True 1 [] [], condition ''A'' True 1 [] []]"]
  by (simp add: condition_def)

text \<open>The status that the conditions of a type carry after \<^verbatim>\<open>desiredPodStatus\<close>.\<close>

definition statuses_of :: "string \<Rightarrow> pod_status \<Rightarrow> string list" where
  "statuses_of ty s = map pk_status (filter (\<lambda>c. pk_type c = ty) (pt_conditions s))"

lemma filter_setPodCondition:
  "filter (\<lambda>x. pk_type x = ty) (setPodCondition cs c) =
    (if pk_type c = ty then [c] else filter (\<lambda>x. pk_type x = ty) cs)"
proof (cases "pk_type c = ty")
  case True
  then show ?thesis using place_condition_own [of c False cs] by (simp add: setPodCondition_def)
next
  case False
  have *: "filter (\<lambda>x. pk_type x = ty) xs = filter (\<lambda>x. pk_type x = ty) (filter (\<lambda>x. pk_type x \<noteq> pk_type c) xs)" for xs
    using False by (auto simp: filter_filter intro: filter_cong)
  show ?thesis unfolding * [of "setPodCondition cs c"] * [of cs]
    using place_condition_others [of c False cs] False by (simp add: setPodCondition_def)
qed

text \<open>
  A desired status says Ready exactly for a running workload in phase Running, with one
  container status that agrees, a running container state exactly for a running workload, and one
  address entry that agrees with the Pod address.
\<close>

theorem desired_status_consistent:
  "(let s = desired_at stamp pod nodeIP phase ip reason message running restarts insp in
    statuses_of ''Ready'' s = [if running \<and> phase = ''Running'' then ''True'' else ''False''] \<and>
    statuses_of ''ContainersReady'' s = statuses_of ''Ready'' s \<and>
    (\<exists>c. pt_containers s = [c] \<and> (ct_ready c \<longleftrightarrow> running \<and> phase = ''Running'') \<and>
      ct_restarts c = restarts \<and> ((\<exists>t. ct_state c = StRunning t) \<longleftrightarrow> running)) \<and>
    pt_pod_ips s = (if pt_pod_ip s = [] then [] else [pt_pod_ip s]) \<and> pt_host_ip s = nodeIP)"
  by (auto simp: Let_def desired_at_def statuses_of_def ready_conditions_def filter_setPodCondition
      condition_def container_state_of_def)

definition is_put :: "event \<Rightarrow> bool" where
  "is_put e \<longleftrightarrow> (case e of EvApi _ PUT _ _ _ \<Rightarrow> True | _ \<Rightarrow> False)"

text \<open>One failed attempt and the refresh after it.\<close>

lemma update_attempts_cases:
  assumes "update_attempts (Suc n) E pod d tr = (r, tr')"
  obtains (written) k where "tr' = EvApi NodeClient PUT (podStatusPath pod) (Some (status_payload pod d)) (Inr k) # tr"
      "r = decode_pod ''decode Pod status response: '' k"
  | (failed) es e where "r = Inl e" "tr' = es @ tr" "length (filter is_put es) \<le> 1"
  | (again) fresh d' es where "update_attempts n E fresh d' (es @ tr) = (r, tr')"
      "length (filter is_put es) = 1" "n \<noteq> 0"
proof -
  let ?put = "EvApi NodeClient PUT (podStatusPath pod) (Some (status_payload pod d))"
  obtain a where a: "e_api E tr NodeClient PUT (podStatusPath pod) (Some (status_payload pod d)) = a" by blast
  show ?thesis
  proof (cases a)
    case (Inr k)
    with assms a written show ?thesis by (auto simp: call_api_def Let_def)
  next
    case (Inl e)
    let ?tr1 = "?put (Inl e) # tr"
    show ?thesis
    proof (cases "\<not> http_code_is 409 e \<or> n = 0")
      case True
      with assms a Inl failed [of _ "[?put (Inl e)]"] show ?thesis
        by (auto simp: call_api_def Let_def is_put_def)
    next
      case False
      obtain g where g: "e_api E ?tr1 NodeClient GET (podPath pod) None = g" by blast
      let ?get = "EvApi NodeClient GET (podPath pod) None g"
      show ?thesis
      proof (cases "\<exists>k fresh. g = Inr k \<and> decode_pod ''decode Pod after status conflict: '' k = Inr fresh")
        case True
        then obtain k fresh where k: "g = Inr k" "decode_pod ''decode Pod after status conflict: '' k = Inr fresh"
          by blast
        show ?thesis
          by (rule again [of fresh _ "[EvNow (e_now E (?get # ?tr1)), ?get, ?put (Inl e)]"])
            (use assms a Inl False g k in \<open>auto simp: call_api_def Let_def is_put_def desiredPodStatus_def time_now_def\<close>)
      next
        case nofresh: False
        obtain e' where "r = Inl e'" "tr' = [?get, ?put (Inl e)] @ tr"
          using assms a Inl False g nofresh
          by (cases g) (auto simp: call_api_def Let_def decode_pod_def split: sum.splits kobj.splits)
        then show ?thesis by (rule failed) (simp add: is_put_def)
      qed
    qed
  qed
qed

lemma update_attempts_bounded:
  "update_attempts n E pod d tr = (r, tr') \<Longrightarrow>
    \<exists>es. tr' = es @ tr \<and> length (filter is_put es) \<le> n \<and>
      (\<forall>u. r = Inr u \<longrightarrow> (\<exists>path body. hd tr' = EvApi NodeClient PUT path body (Inr (KPod u))))"
    (is "_ \<Longrightarrow> \<exists>es. ?P es n tr")
proof (induction n arbitrary: pod d tr)
  case (Suc n)
  from Suc.prems show ?case
  proof (cases rule: update_attempts_cases)
    case (written k)
    then have "?P [EvApi NodeClient PUT (podStatusPath pod) (Some (status_payload pod d)) (Inr k)] (Suc n) tr"
      by (simp add: is_put_def decode_pod_def split: kobj.splits)
    then show ?thesis by blast
  next
    case (failed es e)
    then have "?P es (Suc n) tr" by simp
    then show ?thesis by blast
  next
    case (again fresh d' es)
    from Suc.IH [OF again(1)] obtain es' where es': "?P es' n (es @ tr)" by blast
    then have "tr' = (es' @ es) @ tr \<and> length (filter is_put (es' @ es)) \<le> Suc n" using again(2) by simp
    with es' show ?thesis by blast
  qed
qed auto

text \<open>
  Publishing a status writes at most five times, and it reports success only with the Pod
  that the server returned for its last write.
\<close>

theorem update_bounded:
  "case updatePodStatus E pod d tr of (r, tr') \<Rightarrow>
    \<exists>es. tr' = es @ tr \<and> length (filter is_put es) \<le> 5 \<and>
      (\<forall>u. r = Inr u \<longrightarrow> (\<exists>path body. hd tr' = EvApi NodeClient PUT path body (Inr (KPod u))))"
proof (cases "updatePodStatus E pod d tr")
  case (Pair r tr')
  then have "update_attempts 5 E pod d tr = (r, tr')" by (simp only: updatePodStatus_def)
  from update_attempts_bounded [OF this] show ?thesis unfolding Pair prod.case .
qed

definition demo_pod :: pod where
  "demo_pod = \<lparr>p_meta = \<lparr>om_name = ''web'', om_namespace = ''default'', om_uid = ''u1'', om_resource_version = ''7'',
       om_labels = [(''k8s-darwin.dev/native'', ''true'')], om_annotations = [], om_deletion = None\<rparr>,
     p_spec = \<lparr>ps_node_name = ''mac'', ps_service_account = [], ps_host_network = False, ps_dns_policy = ''ClusterFirst'',
       ps_restart_policy = ''Always'', ps_containers = [\<lparr>c_name = ''main'', c_image = ''img'', c_working_dir = [],
         c_command = [], c_args = [], c_env = [], c_env_from = [], c_ports = [], c_mounts = []\<rparr>],
       ps_init_containers = [], ps_volumes = []\<rparr>,
     p_status = \<lparr>pt_phase = ''Pending'', pt_pod_ip = [], pt_pod_ips = [], pt_host_ip = [], pt_reason = [],
       pt_message = [], pt_conditions = [], pt_containers = []\<rparr>\<rparr>"

definition accepting_env :: "pod \<Rightarrow> env" where
  "accepting_env pod = quiet_env\<lparr>e_api := \<lambda>_ _ _ _ _. Inr (KPod pod)\<rparr>"

lemma update_bounded_witness:
  "\<exists>tr' path body. updatePodStatus (accepting_env demo_pod) demo_pod (p_status demo_pod) [] = (Inr demo_pod, tr') \<and>
     hd tr' = EvApi NodeClient PUT path body (Inr (KPod demo_pod))"
proof -
  have "fst (updatePodStatus (accepting_env demo_pod) demo_pod (p_status demo_pod) []) = Inr demo_pod"
    by (simp add: updatePodStatus_def numeral_eq_Suc call_api_def Let_def accepting_env_def decode_pod_def)
  then obtain tr' where u: "updatePodStatus (accepting_env demo_pod) demo_pod (p_status demo_pod) [] = (Inr demo_pod, tr')"
    by (metis prod.collapse)
  with update_bounded [where E = "accepting_env demo_pod" and pod = demo_pod and d = "p_status demo_pod" and tr = "[]"] show ?thesis by auto
qed

text \<open>
  C38: after a conflict the status that is written again has lost the termination details: its
  exit code is zero, whatever the workload's was.
\<close>

theorem conflict_drops_exit_code:
  assumes "e_api E tr NodeClient PUT (podStatusPath pod) (Some (status_payload pod d)) = Inl e" "http_code_is 409 e"
    and "e_api E (EvApi NodeClient PUT (podStatusPath pod) (Some (status_payload pod d)) (Inl e) # tr)
      NodeClient GET (podPath pod) None = Inr (KPod fresh)"
    and "pt_phase d = ''Failed''"
  shows "\<exists>d' tr' c t. update_attempts (Suc (Suc n)) E pod d tr = update_attempts (Suc n) E fresh d' tr' \<and>
    pt_containers d' = [c] \<and> ct_state c = StTerminated t \<and> te_exit_code t = 0"
  using assms
  by (auto simp: call_api_def Let_def decode_pod_def desiredPodStatus_def time_now_def desired_at_def
      container_state_of_def terminated_state_def simp del: update_attempts.simps
      simp: update_attempts.simps(2) [of "Suc n"])

definition conflict_env :: "pod \<Rightarrow> env" where
  "conflict_env pod = quiet_env\<lparr>e_api := \<lambda>_ _ m _ _. if m = PUT then Inl (EHttp 409 ''conflict'') else Inr (KPod pod)\<rparr>"

lemma conflict_drops_exit_code_witness:
  "\<exists>d' tr' c t. update_attempts 5 (conflict_env demo_pod) demo_pod ((p_status demo_pod)\<lparr>pt_phase := ''Failed''\<rparr>) [] =
      update_attempts 4 (conflict_env demo_pod) demo_pod d' tr' \<and>
    pt_containers d' = [c] \<and> ct_state c = StTerminated t \<and> te_exit_code t = 0"
  using conflict_drops_exit_code [of "conflict_env demo_pod" "[]" demo_pod "(p_status demo_pod)\<lparr>pt_phase := ''Failed''\<rparr>"
      "EHttp 409 ''conflict''" demo_pod 3]
  by (simp add: conflict_env_def http_code_is_def numeral_eq_Suc del: update_attempts.simps)

end
