(* ===== verification/RunProps.thy ===== *)
theory RunProps
  imports RunArgs NetProps PodStatus ManagerProps "HOL-Library.Sublist"
begin

text \<open>
  Properties of the Macker invocation: the network it names, the command it ends with, and the
  environment and ports it passes.
\<close>

section \<open>The invocation\<close>

lemma dec_last_octet_gateway:
  assumes "\<not> bit w 0" "\<not> bit w 1"
  shows "dec_last_octet (w + 2) = w + 1"
proof -
  have b2: "bit (2 :: ip4) n \<longleftrightarrow> n = 1" for n
    using bit_exp_iff [of "1 :: nat" n, where ?'a = "32 word"] by auto
  have "w + 2 = w OR 2" using assms(2) by (intro disjunctive_add) (metis b2)
  moreover have "w + 1 = w OR 1" using assms(1) by (intro disjunctive_add) (metis bit_1_iff)
  moreover have "(0xFF :: ip4) = mask 8" by (simp add: mask_eq_exp_minus_1)
  moreover have "(w OR 2) AND NOT (mask 8) OR (w OR 1) AND mask 8 = w OR 1"
    by (rule bit_eqI) (auto simp: bit_simps b2)
  moreover have "w + 2 - 1 = w + 1" by simp
  ultimately show ?thesis by (simp only: dec_last_octet_def)
qed

lemma net_base_low_bits:
  assumes "net_base h w p"
  shows "\<not> bit w 0" "\<not> bit w 1"
proof -
  have p: "p \<le> 30" "w = w AND mask32 p" using assms by (auto simp: net_base_def v4_net_def)
  have "\<not> bit (w AND mask32 p) 0" "\<not> bit (w AND mask32 p) 1"
    using p(1) by (simp_all add: mask32_def bit_simps, arith)
  then show "\<not> bit w 0" "\<not> bit w 1" using p(2) by metis+
qed

lemma bridge_host_ip_gateway:
  assumes "net_base h w p"
  shows "bridge_host_ip (nh_gateway h) = ip4_string (w + 1)"
proof -
  have "nh_gateway h = ip4_string (w + 2)" using assms by (simp add: net_base_def)
  then show ?thesis
    using dec_last_octet_gateway [OF net_base_low_bits [OF assms]] by (simp add: bridge_host_ip_def)
qed

lemma bridge_address:
  assumes "net_base h w p"
  shows "bridgeAddressForCIDR (nh_pod_cidr h) = Inr (ip4_string (w + 1) @ ''/'' @ show_nat p)"
proof -
  have "w \<noteq> NOT 0" using net_base_low_bits(1) [OF assms] by (auto simp: bit_simps)
  moreover have "v4_net (nh_pod_cidr h) w p" using assms by (simp add: net_base_def)
  ultimately show ?thesis using v4_net_cidr by (simp add: bridgeAddressForCIDR_def parse_pod_cidr_def)
qed

text \<open>What a successful call went through.\<close>

lemma runArgsWithContext_external:
  assumes "runArgsWithContext E m pod c w tr = (Inr args, w', tr')" "\<not> ps_host_network (p_spec pod)"
  obtains h workingDir volumeArgs environment ports tr1 where
    "wm_network m = Some h" "nh_interface h \<noteq> []" "mackerVolumeArgsWithContext E m pod c w tr = (Inr volumeArgs, w', tr1)"
    "resolveContainerEnvironment E m pod c w' tr1 = (Inr environment, tr')"
    "port_args (port_forward pod) 0 (c_ports c) = Inr ports"
    "args = external_prefix h w' @ volumeArgs @ workdir_args workingDir @ env_args environment @ ports @ command_args c"
proof -
  obtain r w1 tr1 where v: "mackerVolumeArgsWithContext E m pod c w tr = (r, w1, tr1)" by (metis prod.collapse)
  from assms v obtain h wd va where 1: "wm_network m = Some h" "nh_interface h \<noteq> []" "r = Inr va"
    and wd: "clean_working_dir c = Inr wd"
    by (auto simp: runArgsWithContext_def split: option.splits sum.splits if_splits)
  obtain q tr2 where e: "resolveContainerEnvironment E m pod c w1 tr1 = (q, tr2)" by (metis prod.collapse)
  from assms v 1 wd e obtain en ports where 2: "q = Inr en" "w1 = w'" "tr2 = tr'"
    "port_args (port_forward pod) 0 (c_ports c) = Inr ports"
    "args = external_prefix h w' @ va @ workdir_args wd @ env_args en @ ports @ command_args c"
    by (auto simp: runArgsWithContext_def split: option.splits sum.splits if_splits)
  show ?thesis by (rule that [OF 1(1,2)]) (use v 1 e 2 in auto)
qed

lemma hostNetworkRunArgs_Inr:
  assumes "hostNetworkRunArgs E m pod c w tr = (Inr args, w', tr')"
  obtains workingDir volumeArgs environment ports tr1 where
    "mackerVolumeArgsWithContext E m pod c w tr = (Inr volumeArgs, w', tr1)"
    "resolveContainerEnvironment E m pod c w' tr1 = (Inr environment, tr')"
    "port_args (port_forward pod) 0 (c_ports c) = Inr ports"
    "args = [''run'', ''--detach'', ''--net=host'', ''--name'', mw_container w'] @ workdir_args workingDir @
       volumeArgs @ env_args environment @ ports @ command_args c"
proof -
  obtain r w1 tr1 where v: "mackerVolumeArgsWithContext E m pod c w tr = (r, w1, tr1)" by (metis prod.collapse)
  from assms v obtain wd va where 1: "r = Inr va" and wd: "clean_working_dir c = Inr wd"
    by (auto simp: hostNetworkRunArgs_def split: sum.splits if_splits)
  obtain q tr2 where e: "resolveContainerEnvironment E m pod c w1 tr1 = (q, tr2)" by (metis prod.collapse)
  from assms v 1 wd e obtain en ports where 2: "q = Inr en" "w1 = w'" "tr2 = tr'"
    "port_args (port_forward pod) 0 (c_ports c) = Inr ports"
    "args = [''run'', ''--detach'', ''--net=host'', ''--name'', mw_container w'] @ workdir_args wd @ va @ env_args en @ ports @ command_args c"
    by (auto simp: hostNetworkRunArgs_def split: sum.splits if_splits)
  show ?thesis by (rule that) (use v 1 e 2 in auto)
qed

text \<open>
  The invocation of a workload on the Pod network names the Pod address it owns, the bridge of
  the network, and as host address exactly the bridge's own address; it ends with the image and,
  after the separator, the rest of the container's command followed by its arguments.
\<close>

theorem external_invocation:
  assumes "runArgsWithContext E m pod c w tr = (Inr args, w', tr')" "\<not> ps_host_network (p_spec pod)"
    "wm_network m = Some h" "net_inv h"
  shows "\<exists>hostIP n middle. bridgeAddressForCIDR (nh_pod_cidr h) = Inr (hostIP @ ''/'' @ show_nat n) \<and>
    args = [''run'', ''--detach'', ''--net=external'', ''--interface'', nh_interface h, ''--ip'', mw_ip w',
        ''--host-interface'', nh_interface h, ''--host-ip'', hostIP, ''--name'', mw_container w'] @ middle @
      [c_image c] @ (if command_override c \<noteq> [] then ''--'' # command_override c else []) \<and>
    (c_command c \<noteq> [] \<longrightarrow> (\<exists>pre. middle = pre @ [''--entrypoint'', hd (c_command c)]) \<and>
       hd (c_command c) # command_override c = c_command c @ c_args c)"
proof -
  obtain b p where b: "net_base h b p" using assms(4) by (auto simp: net_inv_def)
  obtain wd va en ports tr1 where args: "args = external_prefix h w' @ va @ workdir_args wd @ env_args en @ ports @ command_args c"
    using runArgsWithContext_external [OF assms(1,2)] assms(3) by (metis option.inject)
  let ?entry = "case c_command c of [] \<Rightarrow> [] | entry # _ \<Rightarrow> [''--entrypoint'', entry]"
  let ?mid = "(va @ workdir_args wd @ env_args en @ ports) @ ?entry"
  have "c_command c \<noteq> [] \<longrightarrow> (\<exists>pre. ?mid = pre @ [''--entrypoint'', hd (c_command c)]) \<and>
       hd (c_command c) # command_override c = c_command c @ c_args c"
    by (cases "c_command c") (simp_all add: command_override_def)
  then show ?thesis
    using bridge_address [OF b] bridge_host_ip_gateway [OF b]
    by (intro exI [of _ "ip4_string (b + 1)"] exI [of _ p] exI [of _ ?mid])
      (simp add: args external_prefix_def command_args_def)
qed

definition run_manager :: manager where
  "run_manager = demo_manager\<lparr>wm_network := Some demo_handle\<rparr>"

definition run_container :: container where
  "run_container = \<lparr>c_name = ''main'', c_image = ''img'', c_working_dir = [], c_command = [''serve'', ''-v''],
     c_args = [''all''], c_env = [\<lparr>ev_name = ''A'', ev_value = ''1'', ev_from = None\<rparr>], c_env_from = [],
     c_ports = [\<lparr>cp_host_port = 0, cp_container_port = 80, cp_protocol = []\<rparr>], c_mounts = []\<rparr>"

definition run_args :: "string list" where
  "run_args = [''run'', ''--detach'', ''--net=external'', ''--interface'', ''bridge100'', ''--ip'', ''10.42.7.4'',
     ''--host-interface'', ''bridge100'', ''--host-ip'', ''10.42.7.1'', ''--name'', ''maclet-default-web-u1'',
     ''--env'', ''A=1'', ''-p'', ''80:auto/tcp'', ''--entrypoint'', ''serve'', ''img'', ''--'', ''-v'', ''all'']"

lemma run_volumes:
  "mw_volumes w = [] \<Longrightarrow>
    mackerVolumeArgsWithContext quiet_env run_manager demo_pod run_container w [] = (Inr [], w\<lparr>mw_volumes := []\<rparr>, [])"
  by (simp add: mackerVolumeArgsWithContext_def demo_pod_def run_container_def mackerVolumeArgs_def writable_mounts_def
      replaceManagedVolumePaths_def)

lemma run_environment:
  "fst (resolveContainerEnvironment quiet_env run_manager demo_pod run_container w tr) = Inr [''A=1'']"
  by (simp add: resolveContainerEnvironment_def run_container_def env_entries_def mkeys_def mget_def)

lemma run_ports: "port_args True 0 (c_ports run_container) = Inr [''-p'', ''80:auto/tcp'']"
  by code_simp

lemma run_host: "bridge_host_ip ''10.42.7.2'' = ''10.42.7.1''"
  by code_simp

lemma run_pod:
  "validateNativePodNetwork demo_pod = None" "port_forward demo_pod" "\<not> ps_host_network (p_spec demo_pod)"
  by (simp_all add: validateNativePodNetwork_def port_forward_def demo_pod_def mget_def)

lemma run_prefix:
  "external_prefix demo_handle (demo_live\<lparr>mw_volumes := []\<rparr>) @ rest =
    [''run'', ''--detach'', ''--net=external'', ''--interface'', ''bridge100'', ''--ip'', ''10.42.7.4'',
     ''--host-interface'', ''bridge100'', ''--host-ip'', ''10.42.7.1'', ''--name'', ''maclet-default-web-u1''] @ rest"
proof -
  have "nh_interface demo_handle = ''bridge100''" "nh_gateway demo_handle = ''10.42.7.2''" by (simp_all add: demo_handle_def)
  then show ?thesis unfolding external_prefix_def by (simp add: run_host demo_live_def empty_managed_def)
qed

lemma run_args_built:
  "\<exists>w tr. runArgsWithContext quiet_env run_manager demo_pod run_container demo_live [] = (Inr run_args, w, tr)"
proof -
  let ?w = "demo_live\<lparr>mw_volumes := []\<rparr>"
  have volumes: "mackerVolumeArgsWithContext quiet_env run_manager demo_pod run_container demo_live [] = (Inr [], ?w, [])"
    by (rule run_volumes) (simp add: demo_live_def empty_managed_def)
  obtain tr where environment: "resolveContainerEnvironment quiet_env run_manager demo_pod run_container ?w [] = (Inr [''A=1''], tr)"
    using run_environment by (metis prod.collapse)
  have net: "wm_network run_manager = Some demo_handle" "nh_interface demo_handle = ''bridge100''" "nh_gateway demo_handle = ''10.42.7.2''"
    by (simp_all add: run_manager_def demo_handle_def)
  have c: "c_image run_container = ''img''" "clean_working_dir run_container = Inr []"
    "command_args run_container = [''--entrypoint'', ''serve'', ''img'', ''--'', ''-v'', ''all'']"
    by (simp_all add: run_container_def clean_working_dir_def command_args_def command_override_def)
  have p: "validateNativePodNetwork demo_pod = None" "port_forward demo_pod" "\<not> ps_host_network (p_spec demo_pod)"
    by (rule run_pod)+
  have "external_prefix demo_handle ?w @ [] @ workdir_args [] @ env_args [''A=1''] @ [''-p'', ''80:auto/tcp''] @ command_args run_container = run_args"
    unfolding run_prefix c(3) workdir_args_def env_args_def run_args_def by simp
  then have "runArgsWithContext quiet_env run_manager demo_pod run_container demo_live [] = (Inr run_args, ?w, tr)"
    unfolding runArgsWithContext_def by (simp add: p net c(1,2) volumes environment run_ports)
  then show ?thesis by blast
qed

lemma external_invocation_witness:
  "\<exists>hostIP n. bridgeAddressForCIDR (nh_pod_cidr demo_handle) = Inr (hostIP @ ''/'' @ show_nat n) \<and> run_args ! 10 = hostIP"
proof -
  obtain w tr where r: "runArgsWithContext quiet_env run_manager demo_pod run_container demo_live [] = (Inr run_args, w, tr)"
    using run_args_built by blast
  have "wm_network run_manager = Some demo_handle" by (simp add: run_manager_def)
  from external_invocation [OF r run_pod(3) this demo_handle_inv]
  obtain hostIP n middle rest where
    b: "bridgeAddressForCIDR (nh_pod_cidr demo_handle) = Inr (hostIP @ ''/'' @ show_nat n)"
    and a: "run_args = [''run'', ''--detach'', ''--net=external'', ''--interface'', nh_interface demo_handle, ''--ip'', mw_ip w,
        ''--host-interface'', nh_interface demo_handle, ''--host-ip'', hostIP, ''--name'', mw_container w] @ middle @ rest"
    by blast
  have "run_args ! 10 = hostIP" unfolding a by simp
  with b show ?thesis by blast
qed

text \<open>The ports of an invocation.\<close>

definition valid_port :: "container_port \<Rightarrow> bool" where
  "valid_port port \<longleftrightarrow> cp_host_port port = 0 \<and> 1 \<le> cp_container_port port \<and> cp_container_port port \<le> 65535 \<and>
     to_upper (cp_protocol port) \<in> {[], ''TCP'', ''UDP''}"

lemma port_arg_Inr: "port_arg fwd i port = Inr arg \<Longrightarrow> valid_port port"
  unfolding port_arg_def Let_def valid_port_def by (auto split: if_splits)

lemma port_args_Inr:
  "port_args fwd i ports = Inr args \<Longrightarrow> j < length ports \<Longrightarrow>
    valid_port (ports ! j) \<and> (\<exists>a. port_arg fwd (i + j) (ports ! j) = Inr a \<and> sublist a args)"
proof (induction fwd i ports arbitrary: args j rule: port_args.induct)
  case (2 fwd i port ports)
  then obtain a as where a: "port_arg fwd i port = Inr a" "port_args fwd (i + 1) ports = Inr as" "args = a @ as"
    by (auto split: sum.splits)
  show ?case
  proof (cases j)
    case 0
    with a port_arg_Inr [OF a(1)] show ?thesis by (auto simp: sublist_def)
  next
    case (Suc k)
    with "2.IH" [OF a(1,2), of k] "2.prems"(2) a(3) show ?thesis
      by (auto simp: sublist_append)
  qed
qed simp

lemma env_args_sublist: "v \<in> set environment \<Longrightarrow> sublist [''--env'', v] (env_args environment)"
  unfolding env_args_def sublist_def by (induction environment) (auto, metis append_Cons append_Nil)

text \<open>
  In every invocation that is built, on the Pod network or the host's, each resolved
  environment entry is passed as one \<^verbatim>\<open>--env\<close> pair and each declared port, which is then valid
  and without a host port, as one publication or one \<^verbatim>\<open>MACKER_PORT\<close> variable.
\<close>

theorem invocation_environment_and_ports:
  assumes "runArgsWithContext E m pod c w tr = (Inr args, w', tr')"
  shows "\<exists>environment tr1. resolveContainerEnvironment E m pod c w' tr1 = (Inr environment, tr') \<and>
    (\<forall>v \<in> set environment. sublist [''--env'', v] args) \<and>
    (\<forall>i < length (c_ports c). valid_port (c_ports c ! i) \<and>
      (\<exists>a. port_arg (port_forward pod) i (c_ports c ! i) = Inr a \<and> sublist a args))"
proof -
  obtain environment ports tr1 pre mid post where e: "resolveContainerEnvironment E m pod c w' tr1 = (Inr environment, tr')"
    and p: "port_args (port_forward pod) 0 (c_ports c) = Inr ports"
    and args: "args = pre @ env_args environment @ mid @ ports @ post"
  proof (cases "ps_host_network (p_spec pod)")
    case True
    then have "hostNetworkRunArgs E m pod c w tr = (Inr args, w', tr')"
      using assms by (auto simp: runArgsWithContext_def split: option.splits)
    then show ?thesis
    proof (rule hostNetworkRunArgs_Inr)
      fix wd va en ports tr1
      assume "resolveContainerEnvironment E m pod c w' tr1 = (Inr en, tr')"
        "port_args (port_forward pod) 0 (c_ports c) = Inr ports"
        "args = [''run'', ''--detach'', ''--net=host'', ''--name'', mw_container w'] @ workdir_args wd @ va @ env_args en @ ports @ command_args c"
      with that [of tr1 en ports "[''run'', ''--detach'', ''--net=host'', ''--name'', mw_container w'] @ workdir_args wd @ va" "[]" "command_args c"]
      show ?thesis by simp
    qed
  next
    case False
    show ?thesis
    proof (rule runArgsWithContext_external [OF assms False])
      fix h wd va en ports tr1
      assume "resolveContainerEnvironment E m pod c w' tr1 = (Inr en, tr')"
        "port_args (port_forward pod) 0 (c_ports c) = Inr ports"
        "args = external_prefix h w' @ va @ workdir_args wd @ env_args en @ ports @ command_args c"
      with that [of tr1 en ports "external_prefix h w' @ va @ workdir_args wd" "[]" "command_args c"]
      show ?thesis by simp
    qed
  qed
  have sub: "sublist x args" if "sublist x (env_args environment) \<or> sublist x ports" for x
    using that unfolding args sublist_def by (metis append.assoc)
  have envs: "\<forall>v \<in> set environment. sublist [''--env'', v] args" using env_args_sublist sub by blast
  have "\<forall>i < length (c_ports c). valid_port (c_ports c ! i) \<and>
      (\<exists>a. port_arg (port_forward pod) i (c_ports c ! i) = Inr a \<and> sublist a args)"
    using port_args_Inr [OF p] sub by (metis add_0)
  with e envs show ?thesis by blast
qed

lemma invocation_environment_and_ports_witness:
  "sublist [''--env'', ''A=1''] run_args \<and> valid_port (c_ports run_container ! 0)"
proof -
  obtain w tr where r: "runArgsWithContext quiet_env run_manager demo_pod run_container demo_live [] = (Inr run_args, w, tr)"
    using run_args_built by blast
  have "fst (resolveContainerEnvironment quiet_env run_manager demo_pod run_container w tr1) = Inr [''A=1'']" for tr1
    by (simp add: resolveContainerEnvironment_def run_container_def env_entries_def mkeys_def mget_def)
  with invocation_environment_and_ports [OF r] have "sublist [''--env'', ''A=1''] run_args"
    by (metis fst_conv list.set_intros(1) sum.inject(2))
  moreover have "0 < length (c_ports run_container)" by (simp add: run_container_def)
  ultimately show ?thesis using invocation_environment_and_ports [OF r] by blast
qed

end
