(* ===== verification/NodeApi.thy ===== *)
theory NodeApi
  imports Effects Codec
begin

text \<open>
  What the operations on Node objects share: the constants and \<^verbatim>\<open>desiredNode\<close> of \<^verbatim>\<open>node.go\<close>, the
  path of a Node, and the decoding of a response.  Decoding into a fresh variable replaces the
  object; decoding into one that holds a value overlays it, as \<^verbatim>\<open>encoding/json\<close> does: a field the
  response leaves out keeps its value, an object is merged into the map, and the elements of an
  array are decoded into the elements that are there.
\<close>

abbreviation managedLabelKey :: string where
  "managedLabelKey \<equiv> ''k8s-darwin.dev/native''"

abbreviation shutdownCordonAnnotation :: string where
  "shutdownCordonAnnotation \<equiv> ''k8s-darwin.dev/maclet-shutdown-cordon''"

abbreviation nodeInstanceAnnotation :: string where
  "nodeInstanceAnnotation \<equiv> ''k8s-darwin.dev/maclet-instance-id''"

abbreviation node_name :: "node \<Rightarrow> string" where
  "node_name n \<equiv> om_name (n_meta n)"

abbreviation node_annotations :: "node \<Rightarrow> strmap" where
  "node_annotations n \<equiv> om_annotations (n_meta n)"

definition node_path :: "string \<Rightarrow> string" where
  "node_path name = ''/api/v1/nodes/'' @ path_escape name"

section \<open>The Node that maclet wants\<close>

definition managed_taint :: taint where
  "managed_taint = \<lparr>tn_key = managedLabelKey, tn_value = ''true'', tn_effect = ''NoSchedule'', tn_added = None\<rparr>"

definition is_managed_taint :: "taint \<Rightarrow> bool" where
  "is_managed_taint t \<longleftrightarrow> tn_key t = managedLabelKey \<and> tn_value t = ''true'' \<and> tn_effect t = ''NoSchedule''"

definition hasManagedTaint :: "taint list \<Rightarrow> bool" where
  "hasManagedTaint ts \<longleftrightarrow> list_ex is_managed_taint ts"

definition empty_meta :: object_meta where
  "empty_meta = \<lparr>om_name = [], om_namespace = [], om_uid = [], om_resource_version = [], om_labels = [],
     om_annotations = [], om_deletion = None\<rparr>"

definition desiredNode :: "env \<Rightarrow> string \<Rightarrow> node" where
  "desiredNode E name = \<lparr>n_meta = empty_meta\<lparr>om_name := name,
       om_labels := [(''kubernetes.io/arch'', e_goarch E), (''kubernetes.io/os'', ''darwin''), (managedLabelKey, ''true'')]\<rparr>,
     n_spec = \<lparr>ns_pod_cidr = [], ns_pod_cidrs = [], ns_taints = [managed_taint], ns_unschedulable = False\<rparr>\<rparr>"

section \<open>Decoding\<close>

definition decode_node :: "string \<Rightarrow> kobj \<Rightarrow> err + node" where
  "decode_node what k = (case k of KNode n \<Rightarrow> Inr n | _ \<Rightarrow> Inl (wrap what json_error))"

definition overlay :: "'a \<Rightarrow> 'a \<Rightarrow> 'a \<Rightarrow> 'a" where
  "overlay zero old new = (if new = zero then old else new)"

definition overlay_map :: "strmap \<Rightarrow> strmap \<Rightarrow> strmap" where
  "overlay_map old new = fold (\<lambda>(k, v) m. mput m k v) new old"

definition overlay_taint :: "taint \<Rightarrow> taint \<Rightarrow> taint" where
  "overlay_taint old new = \<lparr>tn_key = overlay [] (tn_key old) (tn_key new),
     tn_value = overlay [] (tn_value old) (tn_value new), tn_effect = overlay [] (tn_effect old) (tn_effect new),
     tn_added = overlay None (tn_added old) (tn_added new)\<rparr>"

fun overlay_taints :: "taint list \<Rightarrow> taint list \<Rightarrow> taint list" where
  "overlay_taints old [] = []"
| "overlay_taints [] new = new"
| "overlay_taints (a # as) (b # bs) = overlay_taint a b # overlay_taints as bs"

definition overlay_meta :: "object_meta \<Rightarrow> object_meta \<Rightarrow> object_meta" where
  "overlay_meta old new = \<lparr>om_name = overlay [] (om_name old) (om_name new),
     om_namespace = overlay [] (om_namespace old) (om_namespace new), om_uid = overlay [] (om_uid old) (om_uid new),
     om_resource_version = overlay [] (om_resource_version old) (om_resource_version new),
     om_labels = overlay_map (om_labels old) (om_labels new),
     om_annotations = overlay_map (om_annotations old) (om_annotations new),
     om_deletion = overlay None (om_deletion old) (om_deletion new)\<rparr>"

definition overlay_spec :: "node_spec \<Rightarrow> node_spec \<Rightarrow> node_spec" where
  "overlay_spec old new = \<lparr>ns_pod_cidr = overlay [] (ns_pod_cidr old) (ns_pod_cidr new),
     ns_pod_cidrs = overlay [] (ns_pod_cidrs old) (ns_pod_cidrs new),
     ns_taints = (if ns_taints new = [] then ns_taints old else overlay_taints (ns_taints old) (ns_taints new)),
     ns_unschedulable = (ns_unschedulable old \<or> ns_unschedulable new)\<rparr>"

definition overlay_node :: "node \<Rightarrow> node \<Rightarrow> node" where
  "overlay_node old new = \<lparr>n_meta = overlay_meta (n_meta old) (n_meta new), n_spec = overlay_spec (n_spec old) (n_spec new)\<rparr>"

text \<open>A request of the trace, by client, method and path.\<close>

definition is_request :: "api_client \<Rightarrow> api_method \<Rightarrow> string \<Rightarrow> event \<Rightarrow> bool" where
  "is_request c m path e \<longleftrightarrow> (case e of EvApi c' m' path' _ _ \<Rightarrow> c' = c \<and> m' = m \<and> path' = path | _ \<Rightarrow> False)"

lemma is_request_iff: "is_request c m path e \<longleftrightarrow> (\<exists>body r. e = EvApi c m path body r)"
  by (cases e) (auto simp: is_request_def)

lemma check_None: "(if a then Some e else r) = None \<longleftrightarrow> \<not> a \<and> r = None"
  by simp

lemma overlay_map_get: "map_of (overlay_map old new) k = (case map_of (rev new) k of Some v \<Rightarrow> Some v | None \<Rightarrow> map_of old k)"
proof (induction new arbitrary: old)
  case (Cons p new)
  obtain a b where p: "p = (a, b)" by force
  have "map_of (overlay_map old (p # new)) k = map_of (overlay_map (mput old a b) new) k"
    by (simp add: overlay_map_def p)
  also have "\<dots> = (case map_of (rev new) k of Some v \<Rightarrow> Some v | None \<Rightarrow> ((map_of old)(a \<mapsto> b)) k)"
    by (simp only: Cons map_of_mput)
  finally show ?case by (simp add: p map_add_def split: option.splits)
qed (simp add: overlay_map_def)

lemma hasManagedTaint_managed [simp]: "hasManagedTaint (ts @ [managed_taint])" "is_managed_taint managed_taint"
  by (simp_all add: hasManagedTaint_def is_managed_taint_def managed_taint_def)

end
