(* ===== verification/NodeStatus.thy ===== *)
theory NodeStatus
  imports NodeApi
begin

text \<open>
  The heartbeat of the Node: its status, its Lease and the shutdown cordon (\<^verbatim>\<open>node.go\<close> 64--360,
  \<^verbatim>\<open>control_plane.go\<close>), with the memory size of \<^verbatim>\<open>resource_metrics.go\<close> 240--250.  What the Go
  runtime knows of the host is the record \<open>host_info\<close>.  A loop over attempts counts the attempts
  that are left.  The creation of the Lease starts over after a conflict without a limit; it is a
  partial function, and so is the wait for the PodCIDR, whose end depends on the clock.
\<close>

section \<open>The shutdown cordon\<close>

definition cordon_marked :: "node \<Rightarrow> bool" where
  "cordon_marked n \<longleftrightarrow> mget (node_annotations n) shutdownCordonAnnotation = ''true''"

definition cordon_settled :: "bool \<Rightarrow> node \<Rightarrow> bool" where
  "cordon_settled cordon n \<longleftrightarrow> (if cordon then ns_unschedulable (n_spec n) \<and> cordon_marked n else \<not> cordon_marked n)"

definition cordon_patch :: "bool \<Rightarrow> json" where
  "cordon_patch cordon = JObj [(''metadata'', JObj [(''annotations'',
       JObj [(shutdownCordonAnnotation, if cordon then JStr ''true'' else JNull)])]),
     (''spec'', JObj [(''unschedulable'', JBool cordon)])]"

fun cordon_attempts :: "nat \<Rightarrow> env \<Rightarrow> api_client \<Rightarrow> string \<Rightarrow> bool \<Rightarrow> node \<Rightarrow> (err + node) io" where
  "cordon_attempts 0 E c path cordon current tr = (Inl (EMsg ''Node shutdown cordon update retry limit exceeded''), tr)"
| "cordon_attempts (Suc n) E c path cordon current tr =
    (case call_api E c PATCH path (Some (cordon_patch cordon)) tr of
       (Inr k, tr) \<Rightarrow> (decode_node ''decode Node shutdown cordon update: '' k, tr)
     | (Inl e, tr) \<Rightarrow>
         if \<not> http_code_is 409 e \<or> n = 0
         then (Inl (wrap (''set Node '' @ quote (node_name current) @ '' shutdown cordon='' @
           (if cordon then ''true'' else ''false'') @ '': '') e), tr)
         else (case call_api E c GET path None tr of
            (Inl ge, tr) \<Rightarrow> (Inl (wrap ''refresh Node after shutdown cordon conflict: '' ge), tr)
          | (Inr k, tr) \<Rightarrow> (case decode_node ''decode Node after shutdown cordon conflict: '' k of
              Inl de \<Rightarrow> (Inl de, tr)
            | Inr current \<Rightarrow> if cordon_settled cordon current then (Inr current, tr)
                else cordon_attempts n E c path cordon current tr)))"

definition setNodeShutdownCordon :: "env \<Rightarrow> api_client \<Rightarrow> node \<Rightarrow> bool \<Rightarrow> (err + node) io" where
  "setNodeShutdownCordon E c n cordon tr =
    (if cordon_settled cordon n then (Inr n, tr) else cordon_attempts 5 E c (node_path (node_name n)) cordon n tr)"

section \<open>The status\<close>

record host_info =
  hi_goos :: string
  hi_cpus :: int

definition hostMemoryCapacityBytes :: "env \<Rightarrow> (err + nat) io" where
  "hostMemoryCapacityBytes E tr = (case call_cmd E [''sysctl'', ''-n'', ''hw.memsize''] tr of
       ((_, Some e), tr) \<Rightarrow> (Inl (wrap ''read host memory size: '' e), tr)
     | ((out, None), tr) \<Rightarrow> (case read_nat (trim_space out) of
         Some memory \<Rightarrow> if memory < 2 ^ 64 \<and> memory \<noteq> 0 then (Inr memory, tr)
           else (Inl (EMsg (''parse host memory size '' @ quote (trim_space out))), tr)
       | None \<Rightarrow> (Inl (EMsg (''parse host memory size '' @ quote (trim_space out))), tr)))"

definition health :: "gotime \<Rightarrow> string \<Rightarrow> string \<Rightarrow> string \<Rightarrow> string \<Rightarrow> node_condition" where
  "health stamp type status reason message =
     \<lparr>nc_type = type, nc_status = status, nc_time = stamp, nc_reason = reason, nc_message = message\<rparr>"

definition command_or :: "env \<Rightarrow> string list \<Rightarrow> string \<Rightarrow> string \<Rightarrow> string io" where
  "command_or E argv prefix otherwise tr = (case call_cmd E argv tr of
       ((out, None), tr) \<Rightarrow> (prefix @ trim_space out, tr) | ((_, Some e), tr) \<Rightarrow> (otherwise, tr))"

definition nodeStatus :: "env \<Rightarrow> host_info \<Rightarrow> string \<Rightarrow> string \<Rightarrow> string \<Rightarrow> gotime \<Rightarrow> node_status io" where
  "nodeStatus E H name nodeIP externalIP now tr =
    (case command_or E [''uname'', ''-r''] [] ''unknown'' tr of (release, tr) \<Rightarrow>
     (case command_or E [''sw_vers'', ''-productVersion''] ''macOS '' (hi_goos H) tr of (osImage, tr) \<Rightarrow>
     (case hostMemoryCapacityBytes E tr of (memory, tr) \<Rightarrow>
      (let capacity = [(''cpu'', hi_cpus H * 1000), (''pods'', 110)] @
         (case memory of Inr b \<Rightarrow> if b < 2 ^ 63 then [(''memory'', int b)] else [] | Inl _ \<Rightarrow> []) in
       (\<lparr>nt_addresses = [(''InternalIP'', nodeIP)] @ (if externalIP \<noteq> [] then [(''ExternalIP'', externalIP)] else []) @
           [(''Hostname'', name)],
         nt_capacity = capacity, nt_allocatable = capacity,
         nt_conditions =
          [health now ''MemoryPressure'' ''False'' ''MacletHasSufficientMemory'' ''maclet does not report memory pressure'',
           health now ''DiskPressure'' ''False'' ''MacletHasNoDiskPressure'' ''maclet does not report disk pressure'',
           health now ''PIDPressure'' ''False'' ''MacletHasSufficientPID'' ''maclet does not report PID pressure'',
           health now ''Ready'' ''True'' ''MacletReady'' ''maclet is supervising trusted native Darwin workloads''],
         nt_kubelet_port = 10250, nt_arch = e_goarch E, nt_os = ''darwin'', nt_kernel = release,
         nt_os_image = osImage, nt_runtime = ''macker://trusted-native'',
         nt_kubelet_version = ''maclet/0.1.0-dev'', nt_proxy_version = ''maclet/0.1.0-dev''\<rparr>, tr)))))"

definition nodeStatusPayload :: "node \<Rightarrow> node_status \<Rightarrow> json" where
  "nodeStatusPayload n status = JObj [(''apiVersion'', JStr ''v1''), (''kind'', JStr ''Node''),
     (''metadata'', JObj ([(''name'', JStr (node_name n)), (''resourceVersion'', JStr (om_resource_version (n_meta n))),
        (''labels'', JMap (om_labels (n_meta n))), (''annotations'', JMap (node_annotations n))] @
        omit_str ''uid'' (om_uid (n_meta n)))),
     (''spec'', JNodeSpec (n_spec n)), (''status'', JNodeStatus status)]"

definition nodeStatusPatchPayload :: "node \<Rightarrow> node_status \<Rightarrow> json" where
  "nodeStatusPatchPayload n status = JObj [(''metadata'', JObj [(''resourceVersion'', JStr (om_resource_version (n_meta n)))]),
     (''status'', JNodeStatus status)]"

definition isNodeTaintRestrictionError :: "err \<Rightarrow> bool" where
  "isNodeTaintRestrictionError e \<longleftrightarrow> (case as_http e of
       Some (code, body) \<Rightarrow> code = 403 \<and> str_contains (to_lower body) ''not allowed to modify taints''
     | None \<Rightarrow> False)"

definition statusPatchNeedsFullFallback :: "err \<Rightarrow> bool" where
  "statusPatchNeedsFullFallback e \<longleftrightarrow> isNodeTaintRestrictionError e \<or>
     (case as_http e of Some (code, _) \<Rightarrow> code \<in> {404, 405, 415, 501} | None \<Rightarrow> False)"

definition node_status_path :: "node \<Rightarrow> string" where
  "node_status_path n = node_path (node_name n) @ ''/status''"

definition refreshNode :: "env \<Rightarrow> api_client \<Rightarrow> string \<Rightarrow> string \<Rightarrow> (err + node) io" where
  "refreshNode E c name reason tr = (case call_api E c GET (node_path name) None tr of
       (Inl e, tr) \<Rightarrow> (Inl (wrap (''refresh Node after '' @ reason @ '': '') e), tr)
     | (Inr k, tr) \<Rightarrow> (decode_node (''decode Node after '' @ reason @ '': '') k, tr))"

definition fresh_status :: "env \<Rightarrow> host_info \<Rightarrow> node \<Rightarrow> string \<Rightarrow> string \<Rightarrow> node_status io" where
  "fresh_status E H n nodeIP externalIP tr =
     (case time_now E tr of (now, tr) \<Rightarrow> nodeStatus E H (node_name n) nodeIP externalIP now tr)"

fun put_attempts :: "nat \<Rightarrow> env \<Rightarrow> host_info \<Rightarrow> api_client \<Rightarrow> node \<Rightarrow> string \<Rightarrow> string \<Rightarrow> (err + node) io" where
  "put_attempts 0 E H c current nodeIP externalIP tr = (Inl (EMsg ''status update retry limit exceeded''), tr)"
| "put_attempts (Suc n) E H c current nodeIP externalIP tr =
    (case fresh_status E H current nodeIP externalIP tr of (status, tr) \<Rightarrow>
     (case call_api E c PUT (node_status_path current) (Some (nodeStatusPayload current status)) tr of
       (Inr k, tr) \<Rightarrow> (decode_node ''decode Node status response: '' k, tr)
     | (Inl e, tr) \<Rightarrow>
         if isNodeTaintRestrictionError e
         then (if n = 0 then (Inl (wrap (''update Node '' @ quote (node_name current) @ '' status after taint refresh retries: '') e), tr)
           else (case refreshNode E c (node_name current) ''taint restriction'' tr of
              (Inl e, tr) \<Rightarrow> (Inl e, tr) | (Inr current, tr) \<Rightarrow> put_attempts n E H c current nodeIP externalIP tr))
         else if \<not> http_code_is 409 e \<or> n = 0
         then (Inl (wrap (''update Node '' @ quote (node_name current) @ '' status: '') e), tr)
         else (case refreshNode E c (node_name current) ''status conflict'' tr of
            (Inl e, tr) \<Rightarrow> (Inl e, tr) | (Inr current, tr) \<Rightarrow> put_attempts n E H c current nodeIP externalIP tr)))"

definition updateNodeStatusWithFullPut ::
  "env \<Rightarrow> host_info \<Rightarrow> api_client \<Rightarrow> node \<Rightarrow> string \<Rightarrow> string \<Rightarrow> (err + node) io" where
  "updateNodeStatusWithFullPut E H c n nodeIP externalIP tr = put_attempts 5 E H c n nodeIP externalIP tr"

fun patch_attempts :: "nat \<Rightarrow> env \<Rightarrow> host_info \<Rightarrow> api_client \<Rightarrow> node \<Rightarrow> string \<Rightarrow> string \<Rightarrow> (err + node) io" where
  "patch_attempts 0 E H c current nodeIP externalIP tr = (Inl (EMsg ''status patch retry limit exceeded''), tr)"
| "patch_attempts (Suc n) E H c current nodeIP externalIP tr =
    (case fresh_status E H current nodeIP externalIP tr of (status, tr) \<Rightarrow>
     (case call_api E c PATCH (node_status_path current) (Some (nodeStatusPatchPayload current status)) tr of
       (Inr k, tr) \<Rightarrow> (decode_node ''decode Node status response: '' k, tr)
     | (Inl e, tr) \<Rightarrow>
         if statusPatchNeedsFullFallback e then updateNodeStatusWithFullPut E H c current nodeIP externalIP tr
         else if \<not> http_code_is 409 e \<or> n = 0
         then (Inl (wrap (''patch Node '' @ quote (node_name current) @ '' status: '') e), tr)
         else (case refreshNode E c (node_name current) ''status conflict'' tr of
            (Inl e, tr) \<Rightarrow> (Inl e, tr) | (Inr current, tr) \<Rightarrow> patch_attempts n E H c current nodeIP externalIP tr)))"

definition updateNodeStatus :: "env \<Rightarrow> host_info \<Rightarrow> api_client \<Rightarrow> node \<Rightarrow> string \<Rightarrow> string \<Rightarrow> (err + node) io" where
  "updateNodeStatus E H c n nodeIP externalIP tr = patch_attempts 5 E H c n nodeIP externalIP tr"

section \<open>The Lease\<close>

abbreviation leases_path :: string where
  "leases_path \<equiv> ''/apis/coordination.k8s.io/v1/namespaces/kube-node-lease/leases''"

definition lease_path :: "string \<Rightarrow> string" where
  "lease_path nodeName = leases_path @ ''/'' @ path_escape nodeName"

definition new_lease :: "string \<Rightarrow> gotime \<Rightarrow> lease" where
  "new_lease nodeName now = \<lparr>le_name = nodeName, le_namespace = ''kube-node-lease'', le_holder = Some nodeName,
     le_duration = Some 40, le_acquire = Some now, le_renew = Some now\<rparr>"

text \<open>The response is decoded over the new Lease; then the fields of a renewal are set.\<close>

definition renewed_lease :: "string \<Rightarrow> gotime \<Rightarrow> lease \<Rightarrow> lease" where
  "renewed_lease nodeName now found = \<lparr>le_name = overlay [] nodeName (le_name found),
     le_namespace = overlay [] ''kube-node-lease'' (le_namespace found), le_holder = Some nodeName, le_duration = Some 40,
     le_acquire = overlay None (Some now) (le_acquire found), le_renew = Some now\<rparr>"

definition renew_lease :: "env \<Rightarrow> api_client \<Rightarrow> string \<Rightarrow> gotime \<Rightarrow> kobj \<Rightarrow> err option io" where
  "renew_lease E c nodeName now k tr = (case k of
       KLease found \<Rightarrow> (case call_api E c PUT (lease_path nodeName) (Some (JLease (renewed_lease nodeName now found))) tr of
         (Inl e, tr) \<Rightarrow> (Some (wrap ''renew node Lease: '' e), tr) | (Inr _, tr) \<Rightarrow> (None, tr))
     | _ \<Rightarrow> (Some (wrap ''decode node Lease: '' json_error), tr))"

partial_function (option) ensureLease :: "env \<Rightarrow> api_client \<Rightarrow> string \<Rightarrow> trace \<Rightarrow> (err option \<times> trace) option" where
  "ensureLease E c nodeName tr =
    (case time_now E tr of (now, tr) \<Rightarrow>
     (case call_api E c GET (lease_path nodeName) None tr of
       (Inr k, tr) \<Rightarrow> Some (renew_lease E c nodeName now k tr)
     | (Inl e, tr) \<Rightarrow>
         if \<not> http_code_is 404 e then Some (Some e, tr)
         else (case call_api E c POST leases_path (Some (JLease (new_lease nodeName now))) tr of
            (Inr _, tr) \<Rightarrow> Some (None, tr)
          | (Inl e, tr) \<Rightarrow> if http_code_is 409 e then ensureLease E c nodeName tr
              else Some (Some (wrap ''create node Lease: '' e), tr))))"

section \<open>The heartbeat\<close>

text \<open>\<^verbatim>\<open>reconcileNodeAndLease\<close> returns the latest Node it knows, with or without an error.\<close>

definition reconcileNodeAndLease ::
  "env \<Rightarrow> host_info \<Rightarrow> api_client \<Rightarrow> node \<Rightarrow> string \<Rightarrow> string \<Rightarrow> trace \<Rightarrow> ((node \<times> err option) \<times> trace) option" where
  "reconcileNodeAndLease E H c n nodeIP externalIP tr = (case call_api E c GET (node_path (node_name n)) None tr of
       (Inl e, tr) \<Rightarrow> Some ((n, Some (wrap ''refresh Node: '' e)), tr)
     | (Inr k, tr) \<Rightarrow> (case decode_node ''decode refreshed Node: '' k of
         Inl e \<Rightarrow> Some ((n, Some e), tr)
       | Inr current \<Rightarrow> (case updateNodeStatus E H c current nodeIP externalIP tr of
           (Inl e, tr) \<Rightarrow> Some ((current, Some e), tr)
         | (Inr updated, tr) \<Rightarrow> (case ensureLease E c (node_name current) tr of
             None \<Rightarrow> None | Some (r, tr) \<Rightarrow> Some ((updated, r), tr)))))"

section \<open>Waiting for the PodCIDR\<close>

definition has_pod_cidr :: "node \<Rightarrow> bool" where
  "has_pod_cidr n \<longleftrightarrow> ns_pod_cidr (n_spec n) \<noteq> [] \<or> ns_pod_cidrs (n_spec n) \<noteq> []"

definition one_second :: int where
  "one_second = 1000000000"

partial_function (option) pod_cidr_loop :: "env \<Rightarrow> api_client \<Rightarrow> gotime \<Rightarrow> node \<Rightarrow> trace \<Rightarrow> ((err + node) \<times> trace) option" where
  "pod_cidr_loop E c deadline n tr =
    (case time_now E tr of (now, tr) \<Rightarrow>
      if \<not> now < deadline then Some (Inr n, tr)
      else (case call_api E c GET (node_path (node_name n)) None (go_sleep one_second tr) of
         (Inl e, tr) \<Rightarrow> Some (Inl e, tr)
       | (Inr k, tr) \<Rightarrow> (case k of
           KNode current \<Rightarrow> if has_pod_cidr current then Some (Inr current, tr)
             else pod_cidr_loop E c deadline current tr
         | _ \<Rightarrow> Some (Inl json_error, tr))))"

definition waitForPodCIDR :: "env \<Rightarrow> api_client \<Rightarrow> node \<Rightarrow> int \<Rightarrow> trace \<Rightarrow> ((err + node) \<times> trace) option" where
  "waitForPodCIDR E c n timeout tr =
    (if has_pod_cidr n then Some (Inr n, tr)
     else (case time_now E tr of (now, tr) \<Rightarrow> pod_cidr_loop E c (now + timeout) n tr))"

end
