(* ===== verification/Polling.thy ===== *)
theory Polling
  imports Effects
begin

text \<open>
  The contract of a polling loop: each round either returns without having slept, or looks at the
  clock, finds the deadline not passed, sleeps one step and then returns or starts over.  Such a
  loop returns on every clock that moves on while the program sleeps, and sleeps at most one step
  past its deadline.  The waits of the program are interpretations.
\<close>

locale polling =
  fixes E :: env and loop :: "'s \<Rightarrow> trace \<Rightarrow> ('a \<times> trace) option" and deadline :: gotime and step :: int
  assumes step_pos: "0 < step"
    and round: "\<And>s tr. (\<exists>r es. loop s tr = Some (r, es @ tr) \<and> slept es = 0) \<or>
      (\<exists>es evs. slept es = 0 \<and> slept evs = 0 \<and> e_now E (es @ tr) \<le> deadline \<and>
        (let tr' = evs @ EvSleep step # EvNow (e_now E (es @ tr)) # es @ tr in
         (\<exists>s'. loop s tr = loop s' tr') \<or> (\<exists>r. loop s tr = Some (r, tr'))))"
begin

lemma returns_after:
  assumes clock: "clock_advances E"
  shows "\<exists>r es. loop s (post @ EvNow t # pre) = Some (r, es @ post @ EvNow t # pre) \<and>
    slept (es @ post) \<le> max (slept post) (deadline - t + step)"
proof (induction "nat (deadline + step - (t + slept post))" arbitrary: s post rule: less_induct)
  case less
  let ?tr = "post @ EvNow t # pre"
  from round [of s ?tr] show ?case
  proof
    assume "\<exists>r es. loop s ?tr = Some (r, es @ ?tr) \<and> slept es = 0"
    then show ?case by (metis slept_append add_0 max.cobounded1)
  next
    assume "\<exists>es evs. slept es = 0 \<and> slept evs = 0 \<and> e_now E (es @ ?tr) \<le> deadline \<and>
        (let tr' = evs @ EvSleep step # EvNow (e_now E (es @ ?tr)) # es @ ?tr in
         (\<exists>s'. loop s ?tr = loop s' tr') \<or> (\<exists>r. loop s ?tr = Some (r, tr')))"
    then obtain es evs where quiet: "slept es = 0" "slept evs = 0" and early: "e_now E (es @ ?tr) \<le> deadline"
      and next_round: "(\<exists>s'. loop s ?tr = loop s' (evs @ EvSleep step # EvNow (e_now E (es @ ?tr)) # es @ ?tr)) \<or>
        (\<exists>r. loop s ?tr = Some (r, evs @ EvSleep step # EvNow (e_now E (es @ ?tr)) # es @ ?tr))"
      by (auto simp: Let_def)
    define new where "new = evs @ EvSleep step # EvNow (e_now E (es @ ?tr)) # es"
    have slept_new: "slept new = step" using quiet by (simp add: new_def)
    have "t + slept (es @ post) \<le> e_now E ((es @ post) @ EvNow t # pre)"
      using clock unfolding clock_advances_def by blast
    then have now: "t + slept post \<le> deadline" using early quiet by simp
    from next_round show ?case
    proof
      assume "\<exists>s'. loop s ?tr = loop s' (evs @ EvSleep step # EvNow (e_now E (es @ ?tr)) # es @ ?tr)"
      then obtain s' where again: "loop s ?tr = loop s' (evs @ EvSleep step # EvNow (e_now E (es @ ?tr)) # es @ ?tr)" ..
      have "nat (deadline + step - (t + slept (new @ post))) < nat (deadline + step - (t + slept post))"
        using slept_new step_pos now by simp
      from less [OF this, of s'] obtain r es' where "loop s' ((new @ post) @ EvNow t # pre) = Some (r, es' @ (new @ post) @ EvNow t # pre)"
        "slept (es' @ new @ post) \<le> max (slept (new @ post)) (deadline - t + step)" by blast
      then show ?case using again now slept_new
        by (intro exI [of _ r] exI [of _ "es' @ new"]) (auto simp: new_def max_def split: if_splits)
    next
      assume "\<exists>r. loop s ?tr = Some (r, evs @ EvSleep step # EvNow (e_now E (es @ ?tr)) # es @ ?tr)"
      then obtain r where "loop s ?tr = Some (r, new @ ?tr)" by (auto simp: new_def)
      then show ?case using now slept_new by (intro exI [of _ r] exI [of _ new]) auto
    qed
  qed
qed

text \<open>The loop is entered with a deadline that was computed from the clock.\<close>

lemma returns:
  assumes "clock_advances E" "0 \<le> deadline - t + step"
  shows "\<exists>r es. loop s (EvNow t # pre) = Some (r, es @ EvNow t # pre) \<and> slept es \<le> deadline - t + step"
  using returns_after [OF assms(1), where post = "[]" and s = s and t = t and pre = pre] assms(2) by simp

end

end
