(* ===== verification/NodeProps.thy ===== *)
theory NodeProps
  imports NodeStatus Polling
begin

text \<open>
  What the heartbeat does to the cluster: every write of a Node is justified by the newest version
  of the Node that the server has shown, the retries are bounded, and the two loops without a
  counter return.
\<close>

section \<open>Writes and the newest version of a Node\<close>

definition is_write :: "event \<Rightarrow> bool" where
  "is_write e \<longleftrightarrow> (case e of EvApi c m p b r \<Rightarrow> m \<noteq> GET | _ \<Rightarrow> False)"

definition read_node :: "event \<Rightarrow> node option" where
  "read_node e = (case e of EvApi c m p b r \<Rightarrow>
       (if m = GET then (case r of Inr (KNode n) \<Rightarrow> Some n | _ \<Rightarrow> None) else None) | _ \<Rightarrow> None)"

text \<open>The Node of the newest read, or the one that was known before.\<close>

primrec latest_node :: "node \<Rightarrow> trace \<Rightarrow> node" where
  "latest_node n [] = n"
| "latest_node n (e # tr) = (case read_node e of Some n' \<Rightarrow> n' | None \<Rightarrow> latest_node n tr)"

lemma latest_node_append: "latest_node n (es @ tr) = latest_node (latest_node n tr) es"
  by (induction es) (auto split: option.splits)

lemma event_simps [simp]:
  "is_write (EvApi c m p b r) \<longleftrightarrow> m \<noteq> GET"
  "read_node (EvApi c GET p b (Inr (KNode n))) = Some n"
  "m \<noteq> GET \<Longrightarrow> read_node (EvApi c m p b r) = None"
  "read_node (EvApi c GET p b (Inl e)) = None"
  by (simp_all add: is_write_def read_node_def)

text \<open>
  \<open>justified Q k n es\<close>: among the events \<open>es\<close> there are at most \<open>k\<close> writes, and \<open>Q\<close> holds of each
  write and the newest version of the Node at that time.
\<close>

definition justified :: "(node \<Rightarrow> event \<Rightarrow> bool) \<Rightarrow> nat \<Rightarrow> node \<Rightarrow> trace \<Rightarrow> bool" where
  "justified Q k n es \<longleftrightarrow> trace_all (\<lambda>e pre. is_write e \<longrightarrow> Q (latest_node n pre) e) es \<and> length (filter is_write es) \<le> k"

lemma trace_all_mono: "trace_all P es \<Longrightarrow> (\<And>e pre. P e pre \<Longrightarrow> Q e pre) \<Longrightarrow> trace_all Q es"
  by (induction es) auto

lemma justified_append:
  "justified Q j n es \<Longrightarrow> justified Q k (latest_node n es) es' \<Longrightarrow> justified Q (j + k) n (es' @ es)"
  by (simp add: justified_def trace_all_append latest_node_append)

lemma justified_mono: "justified Q j n es \<Longrightarrow> j \<le> k \<Longrightarrow> justified Q k n es"
  by (simp add: justified_def)

lemma justified_read: "justified Q 0 n [EvApi c GET p b r]"
  by (simp add: justified_def)

lemma justified_write: "Q n (EvApi c m p b r) \<Longrightarrow> justified Q 1 n [EvApi c m p b r]"
  by (simp add: justified_def)

definition silent :: "event \<Rightarrow> bool" where
  "silent e \<longleftrightarrow> (case e of EvApi _ _ _ _ _ \<Rightarrow> False | _ \<Rightarrow> True)"

lemma silent_events:
  assumes "list_all silent es"
  shows "justified Q 0 n es \<and> latest_node n es = n"
proof -
  have e: "\<not> is_write e \<and> read_node e = None" if "silent e" for e
    using that by (cases e) (auto simp: silent_def is_write_def read_node_def)
  have "latest_node n es = n" "trace_all (\<lambda>e pre. is_write e \<longrightarrow> Q (latest_node n pre) e) es"
    "filter is_write es = []"
    using assms e by (induction es) auto
  then show ?thesis by (simp add: justified_def)
qed

section \<open>The cordon\<close>

lemma cordon_attempts_justified:
  assumes "cordon_attempts k E c path cordon n tr = (r, tr')" "\<not> cordon_settled cordon n"
  shows "\<exists>es. tr' = es @ tr \<and> justified (\<lambda>n e. is_request c PATCH path e \<and> \<not> cordon_settled cordon n) k n es"
  using assms
proof (induction k arbitrary: n tr)
  case 0
  then show ?case by (intro exI [of _ "[]"]) (simp add: justified_def)
next
  case (Suc k)
  let ?Q = "\<lambda>n e. is_request c PATCH path e \<and> \<not> cordon_settled cordon n"
  let ?b = "Some (cordon_patch cordon)"
  define p where "p = e_api E tr c PATCH path ?b"
  let ?pe = "EvApi c PATCH path ?b p"
  define g where "g = e_api E (?pe # tr) c GET path None"
  let ?ge = "EvApi c GET path None g"
  have one: "justified ?Q (Suc 0) n [?pe]"
    using Suc.prems(2) justified_write [of ?Q n c PATCH path ?b p] by (simp add: is_request_iff)
  have two: "justified ?Q (Suc 0) n [?ge, ?pe]"
    using justified_append [OF one justified_read] by simp
  consider (stop) "tr' = [?pe] @ tr" | (failed) "tr' = [?ge, ?pe] @ tr"
    | (again) n' where "g = Inr (KNode n')" "\<not> cordon_settled cordon n'"
        "cordon_attempts k E c path cordon n' (?ge # ?pe # tr) = (r, tr')"
    using Suc.prems(1) unfolding p_def g_def
    by (auto simp: call_api_def Let_def decode_node_def split: sum.splits if_splits kobj.splits)
  then show ?case
  proof cases
    case stop
    with one show ?thesis using justified_mono by (intro exI [of _ "[?pe]"]) force
  next
    case failed
    with two show ?thesis using justified_mono by (intro exI [of _ "[?ge, ?pe]"]) force
  next
    case again
    from Suc.IH [OF again(3,2)] obtain es where es: "tr' = es @ ?ge # ?pe # tr" "justified ?Q k n' es" by blast
    have "latest_node n [?ge, ?pe] = n'" by (simp add: again(1))
    then have "justified ?Q (Suc 0 + k) n (es @ [?ge, ?pe])" using justified_append [OF two] es(2) by simp
    with es(1) show ?thesis by (intro exI [of _ "es @ [?ge, ?pe]"]) simp
  qed
qed

lemma justified_settled: "cordon_settled cordon n \<Longrightarrow> justified Q 5 n []"
  by (simp add: justified_def)

text \<open>
  C14: the cordon is changed by at most five patches of this Node, and each of them is sent only
  while the newest version of the Node is not yet as it should be; in particular a cordon is lifted
  only while that version carries maclet's own marker, so an operator's cordon stays.
\<close>

theorem operator_cordon_kept:
  assumes "setNodeShutdownCordon E c n cordon tr = (r, es @ tr)"
  shows "justified (\<lambda>newest e. is_request c PATCH (node_path (node_name n)) e \<and>
    (if cordon then \<not> (ns_unschedulable (n_spec newest) \<and> cordon_marked newest) else cordon_marked newest)) 5 n es"
proof (cases "cordon_settled cordon n")
  case True
  with assms show ?thesis by (simp add: setNodeShutdownCordon_def justified_def)
next
  case False
  then have "cordon_attempts 5 E c (node_path (node_name n)) cordon n tr = (r, es @ tr)"
    using assms by (simp add: setNodeShutdownCordon_def)
  from cordon_attempts_justified [OF this False] show ?thesis by (cases cordon) (simp_all add: cordon_settled_def)
qed

section \<open>The status\<close>

lemma fresh_status_silent: "emits silent (fresh_status E H n nodeIP externalIP)"
  unfolding fresh_status_def [abs_def] nodeStatus_def [abs_def] command_or_def [abs_def] hostMemoryCapacityBytes_def [abs_def] Let_def
  by (intro emits_intros) (simp_all add: silent_def)

lemma fresh_status_events:
  assumes "fresh_status E H n nodeIP externalIP tr = (status, tr')"
  shows "\<exists>es. tr' = es @ tr \<and> justified Q 0 n es \<and> latest_node n es = n"
  using emitsD [OF fresh_status_silent assms] silent_events by blast

definition status_write :: "api_client \<Rightarrow> api_method \<Rightarrow> node \<Rightarrow> event \<Rightarrow> bool" where
  "status_write c m n e \<longleftrightarrow> (\<exists>status r.
     e = EvApi c m (node_status_path n) (Some ((if m = PUT then nodeStatusPayload else nodeStatusPatchPayload) n status)) r)"

text \<open>One attempt: the fresh status, the write, and the refresh that follows a refused one.\<close>

lemma attempt_events:
  assumes "fresh_status E H n nodeIP externalIP tr = (status, tr1)"
    and w: "\<And>r. Q n (EvApi c m path b r)" "m \<noteq> GET"
  shows "\<exists>es. EvApi c m path b r # tr1 = es @ tr \<and> justified Q 1 n es \<and> latest_node n es = n \<and>
    (\<forall>g. justified Q 1 n (EvApi c GET gp None g # es)) \<and> (\<forall>n'. latest_node n (EvApi c GET gp None (Inr (KNode n')) # es) = n')"
proof -
  obtain es where es: "tr1 = es @ tr" "justified Q 0 n es" "latest_node n es = n"
    using fresh_status_events [OF assms(1)] by blast
  have one: "justified Q 1 n ([EvApi c m path b r] @ es)"
    using justified_append [OF es(2), of 1 "[EvApi c m path b r]"] justified_write [of Q n c m path b r, OF w(1)] es(3) by simp
  have "justified Q 1 n ([EvApi c GET gp None g] @ [EvApi c m path b r] @ es)" for g
    using justified_append [OF one justified_read] by simp
  with one es w(2) show ?thesis by (intro exI [of _ "[EvApi c m path b r] @ es"]) simp
qed

lemma refreshNode_result:
  assumes "refreshNode E c name reason tr = (x, tr')"
  shows "\<exists>g. tr' = EvApi c GET (node_path name) None g # tr \<and> (\<forall>n'. x = Inr n' \<longrightarrow> g = Inr (KNode n'))"
  using assms by (auto simp: refreshNode_def call_api_def Let_def decode_node_def split: sum.splits kobj.splits)

lemma put_attempts_justified:
  assumes "put_attempts k E H c n nodeIP externalIP tr = (r, tr')"
  shows "\<exists>es. tr' = es @ tr \<and> justified (status_write c PUT) k n es"
  using assms
proof (induction k arbitrary: n tr)
  case 0
  then show ?case by (intro exI [of _ "[]"]) (simp add: justified_def)
next
  case (Suc k)
  let ?Q = "status_write c PUT"
  obtain status tr1 where f: "fresh_status E H n nodeIP externalIP tr = (status, tr1)" by force
  let ?b = "Some (nodeStatusPayload n status)"
  define p where "p = e_api E tr1 c PUT (node_status_path n) ?b"
  let ?pe = "EvApi c PUT (node_status_path n) ?b p"
  have w: "?Q n (EvApi c PUT (node_status_path n) ?b r)" for r by (auto simp: status_write_def)
  from attempt_events [where Q = ?Q and n = n and c = c and m = PUT and path = "node_status_path n" and b = ?b and r = p and
      gp = "node_path (node_name n)", OF f w] obtain es where
    es: "?pe # tr1 = es @ tr" "justified ?Q 1 n es" "latest_node n es = n" "\<And>g. justified ?Q 1 n (EvApi c GET (node_path (node_name n)) None g # es)"
      "\<And>n'. latest_node n (EvApi c GET (node_path (node_name n)) None (Inr (KNode n')) # es) = n'" by blast
  consider (stop) "tr' = ?pe # tr1" | (refused) reason x tr2 where
      "refreshNode E c (node_name n) reason (?pe # tr1) = (x, tr2)"
      "case x of Inl e \<Rightarrow> tr' = tr2 | Inr n' \<Rightarrow> put_attempts k E H c n' nodeIP externalIP tr2 = (r, tr')"
    using Suc.prems f unfolding p_def
    by (auto simp: call_api_def Let_def split: sum.splits if_splits prod.splits)
  then show ?case
  proof cases
    case stop
    with es show ?thesis using justified_mono [of ?Q 1 n es "Suc k"] by auto
  next
    case refused
    obtain g where g: "tr2 = EvApi c GET (node_path (node_name n)) None g # ?pe # tr1"
      "\<And>n'. x = Inr n' \<Longrightarrow> g = Inr (KNode n')" using refreshNode_result [OF refused(1)] by blast
    let ?es = "EvApi c GET (node_path (node_name n)) None g # es"
    show ?thesis
    proof (cases x)
      case (Inl e)
      with refused(2) g es show ?thesis using justified_mono [of ?Q 1 n ?es "Suc k"] by (intro exI [of _ ?es]) auto
    next
      case (Inr n')
      with refused(2) Suc.IH obtain es2 where es2: "tr' = es2 @ tr2" "justified ?Q k n' es2" by fastforce
      have "justified ?Q (1 + k) n (es2 @ ?es)"
        using justified_append [OF es(4)] es2(2) es(5) g(2) [OF Inr] by simp
      with es2(1) g(1) es(1) show ?thesis by (intro exI [of _ "es2 @ ?es"]) simp
    qed
  qed
qed

lemma justified_weaken: "justified Q k n es \<Longrightarrow> (\<And>n e. Q n e \<Longrightarrow> R n e) \<Longrightarrow> justified R k n es"
  unfolding justified_def by (blast intro: trace_all_mono)

lemma patch_attempts_justified:
  assumes "patch_attempts k E H c n nodeIP externalIP tr = (r, tr')"
  shows "\<exists>es. tr' = es @ tr \<and> justified (\<lambda>n e. status_write c PATCH n e \<or> status_write c PUT n e) (k + 5) n es"
  using assms
proof (induction k arbitrary: n tr)
  case 0
  then show ?case by (intro exI [of _ "[]"]) (simp add: justified_def)
next
  case (Suc k)
  let ?Q = "\<lambda>n e. status_write c PATCH n e \<or> status_write c PUT n e"
  obtain status tr1 where f: "fresh_status E H n nodeIP externalIP tr = (status, tr1)" by force
  let ?b = "Some (nodeStatusPatchPayload n status)"
  define p where "p = e_api E tr1 c PATCH (node_status_path n) ?b"
  let ?pe = "EvApi c PATCH (node_status_path n) ?b p"
  have w: "?Q n (EvApi c PATCH (node_status_path n) ?b r)" for r by (auto simp: status_write_def)
  from attempt_events [where Q = ?Q and n = n and c = c and m = PATCH and path = "node_status_path n" and b = ?b and r = p and
      gp = "node_path (node_name n)", OF f w] obtain es where
    es: "?pe # tr1 = es @ tr" "justified ?Q 1 n es" "latest_node n es = n" "\<And>g. justified ?Q 1 n (EvApi c GET (node_path (node_name n)) None g # es)"
      "\<And>n'. latest_node n (EvApi c GET (node_path (node_name n)) None (Inr (KNode n')) # es) = n'" by blast
  consider (stop) "tr' = ?pe # tr1" | (full) "put_attempts 5 E H c n nodeIP externalIP (?pe # tr1) = (r, tr')"
    | (refused) reason x tr2 where
      "refreshNode E c (node_name n) reason (?pe # tr1) = (x, tr2)"
      "case x of Inl e \<Rightarrow> tr' = tr2 | Inr n' \<Rightarrow> patch_attempts k E H c n' nodeIP externalIP tr2 = (r, tr')"
    using Suc.prems f unfolding p_def
    by (auto simp: call_api_def Let_def updateNodeStatusWithFullPut_def split: sum.splits if_splits prod.splits)
  then show ?case
  proof cases
    case stop
    with es show ?thesis using justified_mono [of ?Q 1 n es "Suc k + 5"] by auto
  next
    case full
    from put_attempts_justified [OF full] obtain es2 where es2: "tr' = es2 @ ?pe # tr1" "justified (status_write c PUT) 5 n es2"
      by blast
    have "justified ?Q 5 (latest_node n es) es2" using justified_weaken [OF es2(2)] es(3) by simp
    from justified_append [OF es(2) this] have "justified ?Q (Suc k + 5) n (es2 @ es)" by (rule justified_mono) simp
    with es2(1) es(1) show ?thesis by (intro exI [of _ "es2 @ es"]) simp
  next
    case refused
    obtain g where g: "tr2 = EvApi c GET (node_path (node_name n)) None g # ?pe # tr1"
      "\<And>n'. x = Inr n' \<Longrightarrow> g = Inr (KNode n')" using refreshNode_result [OF refused(1)] by blast
    let ?es = "EvApi c GET (node_path (node_name n)) None g # es"
    show ?thesis
    proof (cases x)
      case (Inl e)
      with refused(2) g es show ?thesis using justified_mono [of ?Q 1 n ?es "Suc k + 5"] by (intro exI [of _ ?es]) auto
    next
      case (Inr n')
      with refused(2) Suc.IH obtain es2 where es2: "tr' = es2 @ tr2" "justified ?Q (k + 5) n' es2" by fastforce
      have "justified ?Q (k + 5) (latest_node n ?es) es2" using es2(2) es(5) g(2) [OF Inr] by simp
      from justified_append [OF es(4) this] have "justified ?Q (Suc k + 5) n (es2 @ ?es)" by (rule justified_mono) simp
      with es2(1) g(1) es(1) show ?thesis by (intro exI [of _ "es2 @ ?es"]) simp
    qed
  qed
qed

text \<open>
  C29: publishing the Node's status sends at most ten writes, all to the status of this Node; each
  carries the resource version, and a full PUT also the specification, labels and annotations, of
  the newest version of the Node that the server has shown.
\<close>

theorem node_status_writes:
  assumes "updateNodeStatus E H c n nodeIP externalIP tr = (r, es @ tr)"
  shows "justified (\<lambda>newest e. status_write c PATCH newest e \<or> status_write c PUT newest e) 10 n es"
  using patch_attempts_justified [OF assms [unfolded updateNodeStatus_def]] by auto

section \<open>The loops without a counter\<close>

text \<open>
  The server shows a Lease whose creation it has just refused as a conflict: the documented meaning
  of the status 409 for a create.
\<close>

definition conflict_visible :: "env \<Rightarrow> api_client \<Rightarrow> string \<Rightarrow> bool" where
  "conflict_visible E c name \<longleftrightarrow> (\<forall>tr t body e e'. http_code_is 409 e \<longrightarrow>
     e_api E (EvNow t # EvApi c POST leases_path body (Inl e) # tr) c GET (lease_path name) None = Inl e' \<longrightarrow>
     \<not> http_code_is 404 e')"

lemma renew_lease_events:
  assumes "renew_lease E c name now k tr = (r, tr')"
  shows "\<exists>es. tr' = es @ tr \<and> length (filter is_write es) \<le> 1 \<and> (r = None \<longrightarrow> (\<exists>m path b k. EvApi c m path b (Inr k) \<in> set es \<and> m \<noteq> GET))"
proof -
  consider (bad) "tr' = tr" "r \<noteq> None" | (sent) path b p where "tr' = EvApi c PUT path b p # tr" "r = None \<longrightarrow> (\<exists>k. p = Inr k)"
    using assms by (auto simp: renew_lease_def call_api_def Let_def split: kobj.splits sum.splits)
  then show ?thesis
  proof cases
    case bad
    then show ?thesis by simp
  next
    case sent
    then show ?thesis by (intro exI [of _ "[EvApi c PUT path b p]"]) auto
  qed
qed

lemma ensureLease_step:
  obtains (finished) r es where "ensureLease E c name tr = Some (r, es @ tr)" "length (filter is_write es) \<le> 1"
      "r = None \<longrightarrow> (\<exists>m path b k. EvApi c m path b (Inr k) \<in> set es \<and> m \<noteq> GET)"
  | (conflict) t ge b e where "ensureLease E c name tr =
      ensureLease E c name (EvApi c POST leases_path b (Inl e) # EvApi c GET (lease_path name) None (Inl ge) # EvNow t # tr)"
      "t = e_now E tr" "e_api E (EvNow t # tr) c GET (lease_path name) None = Inl ge" "http_code_is 404 ge" "http_code_is 409 e"
proof -
  let ?t = "e_now E tr"
  let ?tr1 = "EvNow ?t # tr"
  define g where "g = e_api E ?tr1 c GET (lease_path name) None"
  let ?ge = "EvApi c GET (lease_path name) None g"
  let ?b = "Some (JLease (new_lease name ?t))"
  define p where "p = e_api E (?ge # ?tr1) c POST leases_path ?b"
  let ?pe = "EvApi c POST leases_path ?b p"
  note step = ensureLease.simps [of E c name tr] time_now_def call_api_def Let_def
  consider (found) k where "g = Inr k" | (failed) e where "g = Inl e" "\<not> http_code_is 404 e"
    | (created) e k where "g = Inl e" "http_code_is 404 e" "p = Inr k"
    | (refused) e e' where "g = Inl e" "http_code_is 404 e" "p = Inl e'" "\<not> http_code_is 409 e'"
    | (conflicting) e e' where "g = Inl e" "http_code_is 404 e" "p = Inl e'" "http_code_is 409 e'"
    by (cases g; cases p) auto
  then show thesis
  proof cases
    case found
    obtain r tr' where r: "renew_lease E c name ?t k (?ge # ?tr1) = (r, tr')" by force
    from renew_lease_events [OF r] obtain es where es: "tr' = es @ ?ge # ?tr1" "length (filter is_write es) \<le> 1"
      "r = None \<longrightarrow> (\<exists>m path b k. EvApi c m path b (Inr k) \<in> set es \<and> m \<noteq> GET)" by blast
    have "ensureLease E c name tr = Some (r, (es @ [?ge, EvNow ?t]) @ tr)"
      using found r es(1) by (simp add: step g_def)
    then show thesis using finished [of r "es @ [?ge, EvNow ?t]"] es by (auto simp: is_write_def)
  next
    case failed
    then have "ensureLease E c name tr = Some (Some e, [?ge, EvNow ?t] @ tr)" by (simp add: step g_def)
    then show thesis using finished [of "Some e" "[?ge, EvNow ?t]"] by (simp add: is_write_def)
  next
    case created
    then have "ensureLease E c name tr = Some (None, [?pe, ?ge, EvNow ?t] @ tr)"
      by (simp add: step g_def p_def)
    then show thesis using finished [of None "[?pe, ?ge, EvNow ?t]"] created(3) by (auto simp: is_write_def)
  next
    case refused
    then have "ensureLease E c name tr = Some (Some (wrap ''create node Lease: '' e'), [?pe, ?ge, EvNow ?t] @ tr)"
      by (simp add: step g_def p_def)
    then show thesis using finished [of "Some (wrap ''create node Lease: '' e')" "[?pe, ?ge, EvNow ?t]"] by (simp add: is_write_def)
  next
    case conflicting
    then have "ensureLease E c name tr = ensureLease E c name (?pe # ?ge # ?tr1)"
      by (simp add: step g_def p_def)
    with conflicting show thesis using conflict [of ?b e' e ?t] by (simp add: g_def)
  qed
qed

text \<open>
  Renewing the Lease returns after at most two writes when the server shows the Lease whose
  creation it refused as a conflict, and it succeeds only if the server accepted one of them.
\<close>

theorem lease_returns:
  assumes "conflict_visible E c name"
  shows "\<exists>r es. ensureLease E c name tr = Some (r, es @ tr) \<and> length (filter is_write es) \<le> 2 \<and>
    (r = None \<longrightarrow> (\<exists>m path b k. EvApi c m path b (Inr k) \<in> set es \<and> m \<noteq> GET))"
proof (cases rule: ensureLease_step [of E c name tr])
  case (finished r es)
  then show ?thesis by (intro exI [of _ r] exI [of _ es]) simp
next
  case (conflict t ge b e)
  let ?evs = "[EvApi c POST leases_path b (Inl e), EvApi c GET (lease_path name) None (Inl ge), EvNow t]"
  have tr2: "ensureLease E c name tr = ensureLease E c name (?evs @ tr)" using conflict(1) by simp
  show ?thesis
  proof (cases rule: ensureLease_step [of E c name "?evs @ tr"])
    case (finished r es)
    then have "ensureLease E c name tr = Some (r, (es @ ?evs) @ tr)" using tr2 by simp
    with finished show ?thesis by (intro exI [of _ r] exI [of _ "es @ ?evs"]) (auto simp: is_write_def)
  next
    case again: (conflict t' ge' b' e')
    with assms conflict(5) have False unfolding conflict_visible_def by fastforce
    then show ?thesis ..
  qed
qed

interpretation pod_cidr_wait: polling E "pod_cidr_loop E c deadline" deadline one_second for E c deadline
proof
  fix n tr
  let ?loop = "pod_cidr_loop E c deadline"
  let ?now = "e_now E tr"
  show "(\<exists>r es. ?loop n tr = Some (r, es @ tr) \<and> slept es = 0) \<or>
      (\<exists>es evs. slept es = 0 \<and> slept evs = 0 \<and> e_now E (es @ tr) \<le> deadline \<and>
        (let tr' = evs @ EvSleep one_second # EvNow (e_now E (es @ tr)) # es @ tr in
         (\<exists>s'. ?loop n tr = ?loop s' tr') \<or> (\<exists>r. ?loop n tr = Some (r, tr'))))"
  proof (cases "?now < deadline")
    case False
    then have "?loop n tr = Some (Inr n, [EvNow ?now] @ tr)"
      by (simp add: pod_cidr_loop.simps [of E c deadline n tr] time_now_def Let_def)
    then show ?thesis by (intro disjI1 exI [of _ "Inr n"] exI [of _ "[EvNow ?now]"]) simp
  next
    case True
    define g where "g = e_api E (EvSleep one_second # EvNow ?now # tr) c GET (node_path (node_name n)) None"
    let ?evs = "[EvApi c GET (node_path (node_name n)) None g]"
    let ?tr' = "?evs @ EvSleep one_second # EvNow ?now # [] @ tr"
    have "?loop n tr = (case g of Inl e \<Rightarrow> Some (Inl e, ?tr')
        | Inr k \<Rightarrow> (case k of KNode current \<Rightarrow> if has_pod_cidr current then Some (Inr current, ?tr') else ?loop current ?tr'
          | _ \<Rightarrow> Some (Inl json_error, ?tr')))"
      using True by (simp add: pod_cidr_loop.simps [of E c deadline n tr] time_now_def call_api_def go_sleep_def Let_def g_def
          split: sum.split kobj.split)
    then have "(\<exists>s'. ?loop n tr = ?loop s' ?tr') \<or> (\<exists>r. ?loop n tr = Some (r, ?tr'))"
      by (cases g) (auto split: kobj.splits if_splits)
    with True show ?thesis by (intro disjI2 exI [of _ "[]"] exI [of _ ?evs]) (simp add: Let_def)
  qed
qed (simp add: one_second_def)

text \<open>
  On a clock that moves on while the program sleeps, the wait for the PodCIDR returns, and it
  sleeps at most one second longer than its timeout.
\<close>

theorem pod_cidr_wait_returns:
  assumes "clock_advances E" "0 \<le> timeout"
  shows "\<exists>r es. waitForPodCIDR E c n timeout tr = Some (r, es @ tr) \<and> slept es \<le> timeout + one_second"
proof (cases "has_pod_cidr n")
  case True
  with assms(2) show ?thesis by (intro exI [of _ "Inr n"] exI [of _ "[]"]) (simp add: waitForPodCIDR_def one_second_def)
next
  case False
  obtain r es where
    "pod_cidr_loop E c (e_now E tr + timeout) n (EvNow (e_now E tr) # tr) = Some (r, es @ EvNow (e_now E tr) # tr)"
    "slept es \<le> timeout + one_second"
    using pod_cidr_wait.returns [OF assms(1), where t = "e_now E tr" and deadline = "e_now E tr + timeout" and s = n and c = c and pre = tr] assms(2)
    by (auto simp: one_second_def)
  with False show ?thesis
    by (intro exI [of _ r] exI [of _ "es @ [EvNow (e_now E tr)]"]) (simp add: waitForPodCIDR_def time_now_def Let_def slept_append)
qed

section \<open>Examples\<close>

definition demo_node :: "strmap \<Rightarrow> bool \<Rightarrow> node" where
  "demo_node annotations cordon = \<lparr>n_meta = empty_meta\<lparr>om_name := ''mac'', om_annotations := annotations\<rparr>,
     n_spec = \<lparr>ns_pod_cidr = [], ns_pod_cidrs = [], ns_taints = [], ns_unschedulable = cordon\<rparr>\<rparr>"

text \<open>The patch that lifts maclet's cordon conflicts with an operator who has taken the cordon over.\<close>

definition taken_over_env :: env where
  "taken_over_env = quiet_env\<lparr>e_api := \<lambda>_ _ m _ _. if m = PATCH then Inl (EHttp 409 []) else Inr (KNode (demo_node [] True))\<rparr>"

lemma operator_cordon_kept_witness:
  "\<exists>es. setNodeShutdownCordon taken_over_env NodeClient (demo_node [(shutdownCordonAnnotation, ''true'')] True) False [] =
      (Inr (demo_node [] True), es @ []) \<and> length (filter is_write es) = 1 \<and>
    justified (\<lambda>newest e. is_request NodeClient PATCH (node_path ''mac'') e \<and> cordon_marked newest) 5
      (demo_node [(shutdownCordonAnnotation, ''true'')] True) es"
proof -
  let ?n = "demo_node [(shutdownCordonAnnotation, ''true'')] True"
  let ?r = "setNodeShutdownCordon taken_over_env NodeClient ?n False []"
  have v: "fst ?r = Inr (demo_node [] True)" "length (filter is_write (snd ?r)) = 1" by code_simp+
  then obtain es where es: "?r = (Inr (demo_node [] True), es @ [])" by (metis append_Nil2 prod.collapse)
  from operator_cordon_kept [OF es] have "justified (\<lambda>newest e. is_request NodeClient PATCH (node_path ''mac'') e \<and>
      cordon_marked newest) 5 ?n es" by (simp add: demo_node_def)
  with es v show ?thesis by auto
qed

definition no_patch_env :: env where
  "no_patch_env = quiet_env\<lparr>e_api := \<lambda>_ _ m _ _. if m = PATCH then Inl (EHttp 405 []) else Inr (KNode (demo_node [] False))\<rparr>"

definition demo_host :: host_info where
  "demo_host = \<lparr>hi_goos = ''darwin'', hi_cpus = 8\<rparr>"

lemma node_status_writes_witness:
  "\<exists>es. updateNodeStatus no_patch_env demo_host NodeClient (demo_node [] False) ''192.0.2.10'' [] [] =
      (Inr (demo_node [] False), es @ []) \<and> length (filter is_write es) = 2 \<and>
    justified (\<lambda>newest e. status_write NodeClient PATCH newest e \<or> status_write NodeClient PUT newest e) 10 (demo_node [] False) es"
proof -
  let ?r = "updateNodeStatus no_patch_env demo_host NodeClient (demo_node [] False) ''192.0.2.10'' [] []"
  have v: "fst ?r = Inr (demo_node [] False)" "length (filter is_write (snd ?r)) = 2" by code_simp+
  then obtain es where es: "?r = (Inr (demo_node [] False), es @ [])" by (metis append_Nil2 prod.collapse)
  with node_status_writes [OF es] v show ?thesis by auto
qed

text \<open>A Lease that another process creates between the read and the creation.\<close>

definition after_conflict :: "trace \<Rightarrow> bool" where
  "after_conflict tr \<longleftrightarrow> (case tr of _ # EvApi _ POST _ _ (Inl _) # _ \<Rightarrow> True | _ \<Rightarrow> False)"

definition lease_env :: env where
  "lease_env = quiet_env\<lparr>e_api := \<lambda>tr _ m _ _. if m = POST then Inl (EHttp 409 [])
     else if m = PUT then Inr (KOther []) else if after_conflict tr then Inr (KLease (new_lease ''mac'' 1)) else Inl (EHttp 404 [])\<rparr>"

lemma lease_returns_witness:
  "conflict_visible lease_env NodeClient ''mac'' \<and>
    (\<exists>r es. ensureLease lease_env NodeClient ''mac'' [] = Some (r, es @ []) \<and> length (filter is_write es) \<le> 2)"
proof -
  have "conflict_visible lease_env NodeClient ''mac''"
    by (simp add: conflict_visible_def lease_env_def after_conflict_def)
  with lease_returns [OF this, of "[]"] show ?thesis by blast
qed

lemma pod_cidr_wait_returns_witness:
  "\<exists>r es. waitForPodCIDR quiet_env NodeClient (demo_node [] False) (60 * one_second) [] = Some (r, es @ []) \<and>
    slept es \<le> 61 * one_second"
  using pod_cidr_wait_returns [OF quiet_clock(2), of "60 * one_second" NodeClient "demo_node [] False" "[]"]
  by (simp add: one_second_def)

end
