(* ===== verification/Reconcile.thy ===== *)
theory Reconcile
  imports RunArgs PodStatus
begin

text \<open>
  Reconciliation (\<^verbatim>\<open>workload_reconcile.go\<close>, \<^verbatim>\<open>workload_network.go\<close> 69--88): one pass over the Pods
  assigned to the node.  The body of the loop is split at its stages; a stage that ends with
  \<^verbatim>\<open>continue\<close> returns the state of the pass, one that goes on calls the next stage.  A managed
  workload is a pointer into the manager's map, so a stage puts it back whenever it has changed.
\<close>

section \<open>Removing a workload\<close>

definition remove_alias :: "env \<Rightarrow> manager \<Rightarrow> managed \<Rightarrow> trace \<Rightarrow> err option \<times> manager \<times> trace" where
  "remove_alias E m w tr = (case wm_network m of
       None \<Rightarrow> (None, m, tr)
     | Some h \<Rightarrow> if mw_ip w = [] \<or> mw_host_network w then (None, m, tr)
         else (case removeWorkloadIP E h (mw_ip w) tr of (r, h, tr) \<Rightarrow> (r, m\<lparr>wm_network := Some h\<rparr>, tr)))"

fun unmount_all :: "env \<Rightarrow> bool \<Rightarrow> mount_record list \<Rightarrow> err list io" where
  "unmount_all E sudo [] tr = ([], tr)"
| "unmount_all E sudo (mt # mts) tr = (case runNFSUnmount E sudo (mr_target mt) tr of
       (r, tr) \<Rightarrow> (case fs_do E (RemoveAll (mr_target mt)) tr of
         (_, tr) \<Rightarrow> (case unmount_all E sudo mts tr of (es, tr) \<Rightarrow>
           (case r of Some e \<Rightarrow> if isNFSUnmountMissing e then es
              else wrap (''unmount NFS '' @ mr_target mt @ '': '') e # es | None \<Rightarrow> es, tr))))"

fun remove_volumes :: "env \<Rightarrow> string list \<Rightarrow> err list io" where
  "remove_volumes E [] tr = ([], tr)"
| "remove_volumes E (p # ps) tr = (case fs_do E (RemoveAll p) tr of
       (r, tr) \<Rightarrow> (case remove_volumes E ps tr of (es, tr) \<Rightarrow>
         (case r of Some e \<Rightarrow> if is_sentinel NotExist e then es
            else wrap (''remove materialized volume '' @ p @ '': '') e # es | None \<Rightarrow> es, tr)))"

definition err_list :: "err option \<Rightarrow> err list" where
  "err_list r = (case r of Some e \<Rightarrow> [e] | None \<Rightarrow> [])"

definition removeWorkload ::
  "env \<Rightarrow> manager \<Rightarrow> managed \<Rightarrow> trace \<Rightarrow> err option \<times> (manager \<times> managed) \<times> trace" where
  "removeWorkload E m w tr = (case archiveWorkloadLogs E m w tr of
     (_, w, tr) \<Rightarrow> (case stopContainer E m w tr of
       (r1, tr) \<Rightarrow> (case remove_alias E m w tr of
         (r2, m, tr) \<Rightarrow> (case unmount_all E (wm_sudo m) (mw_mounts w) tr of
           (es3, tr) \<Rightarrow> (case remove_volumes E (mw_volumes w) tr of
             (es4, tr) \<Rightarrow> (errors_join (err_list r1 @ err_list r2 @ es3 @ es4),
               (m, w\<lparr>mw_mounts := [], mw_volumes := []\<rparr>), tr))))))"

text \<open>
  The removal of all workloads that \<open>skip\<close> does not exclude, by key; \<open>label\<close> names the failure.
\<close>

fun remove_each ::
  "env \<Rightarrow> (string \<Rightarrow> bool) \<Rightarrow> (string \<Rightarrow> managed \<Rightarrow> string) \<Rightarrow> string list \<Rightarrow> manager \<Rightarrow> bool \<Rightarrow> err list \<Rightarrow> trace \<Rightarrow>
    (bool \<times> err list) \<times> manager \<times> trace" where
  "remove_each E skip label [] m changed es tr = ((changed, es), m, tr)"
| "remove_each E skip label (uid # uids) m changed es tr =
    (if skip uid then remove_each E skip label uids m changed es tr
     else (case map_of (wm_workloads m) uid of
        None \<Rightarrow> remove_each E skip label uids m changed es tr
      | Some w \<Rightarrow> (case removeWorkload E m w tr of
          (Some e, (m, w), tr) \<Rightarrow> remove_each E skip label uids
             (m\<lparr>wm_workloads := mput (wm_workloads m) uid w\<rparr>) changed (es @ [wrap (label uid w) e]) tr
        | (None, (m, w), tr) \<Rightarrow> (case retainWorkloadLocked E m w tr of
            (m, tr) \<Rightarrow> remove_each E skip label uids m True es tr))))"

text \<open>\<^verbatim>\<open>(*workloadManager).cleanup\<close>\<close>

definition manager_cleanup :: "env \<Rightarrow> manager \<Rightarrow> trace \<Rightarrow> err option \<times> manager \<times> trace" where
  "manager_cleanup E m tr =
    (case remove_each E (\<lambda>_. False) (\<lambda>uid w. ''cleanup workload '' @ uid @ '': '')
        (e_order E (mkeys (wm_workloads m))) m False [] tr of
       ((changed, es), m, tr) \<Rightarrow>
         if changed \<or> wm_workloads m = []
         then (case persistJournalLocked E m tr of (r, tr) \<Rightarrow> (errors_join (es @ err_list r), m, tr))
         else (errors_join es, m, tr))"

section \<open>The state of a pass\<close>

record pass =
  rp_manager :: manager
  rp_used :: "string list"
  rp_seen :: "string list"
  rp_errors :: "err list"

definition pod_key :: "pod \<Rightarrow> string" where
  "pod_key pod = (if om_uid (p_meta pod) = [] then om_namespace (p_meta pod) @ ''/'' @ om_name (p_meta pod)
     else om_uid (p_meta pod))"

definition pod_name :: "pod \<Rightarrow> string" where
  "pod_name pod = om_namespace (p_meta pod) @ ''/'' @ om_name (p_meta pod)"

definition add_error :: "err \<Rightarrow> pass \<Rightarrow> pass" where
  "add_error e s = s\<lparr>rp_errors := rp_errors s @ [e]\<rparr>"

definition put_workload :: "string \<Rightarrow> managed \<Rightarrow> pass \<Rightarrow> pass" where
  "put_workload uid w s = s\<lparr>rp_manager := (rp_manager s)\<lparr>wm_workloads := mput (wm_workloads (rp_manager s)) uid w\<rparr>\<rparr>"

definition put_manager :: "manager \<Rightarrow> pass \<Rightarrow> pass" where
  "put_manager m s = s\<lparr>rp_manager := m\<rparr>"

text \<open>\<^verbatim>\<open>managed.RetryAfter = time.Now().Add(workloadRetryDelay)\<close>\<close>

definition back_off :: "env \<Rightarrow> string \<Rightarrow> managed \<Rightarrow> pass \<Rightarrow> pass io" where
  "back_off E uid w s tr = (case time_now E tr of
     (t, tr) \<Rightarrow> (put_workload uid (w\<lparr>mw_retry := Some (t + workloadRetryDelay)\<rparr>) s, tr))"

text \<open>An error that sets the retry time, and one that is also reported in the Pod's status.\<close>

definition fail_later :: "env \<Rightarrow> string \<Rightarrow> managed \<Rightarrow> err \<Rightarrow> pass \<Rightarrow> pass io" where
  "fail_later E uid w e s tr = back_off E uid w (add_error e s) tr"

definition report_pending :: "env \<Rightarrow> manager \<Rightarrow> pod \<Rightarrow> string \<Rightarrow> string \<Rightarrow> err \<Rightarrow> 32 word \<Rightarrow> trace \<Rightarrow> trace" where
  "report_pending E m pod ip reason e restarts tr =
     snd (snd (updateStatus E m pod ''Pending'' ip reason (err_string e) False restarts None tr))"

definition fail_reported ::
  "env \<Rightarrow> string \<Rightarrow> pod \<Rightarrow> string \<Rightarrow> managed \<Rightarrow> string \<Rightarrow> err \<Rightarrow> err \<Rightarrow> pass \<Rightarrow> pass io" where
  "fail_reported E uid pod ip w reason recorded shown s tr = (case fail_later E uid w recorded s tr of
     (s, tr) \<Rightarrow> (s, report_pending E (rp_manager s) pod ip reason shown (mw_restarts w) tr))"

text \<open>The report of a status whose failure is an error of the pass.\<close>

definition report_status ::
  "env \<Rightarrow> pod \<Rightarrow> string \<Rightarrow> string \<Rightarrow> string \<Rightarrow> string \<Rightarrow> bool \<Rightarrow> 32 word \<Rightarrow> inspection option \<Rightarrow> pass \<Rightarrow> pass io" where
  "report_status E pod phase ip reason message running restarts insp s tr =
    (case updateStatus E (rp_manager s) pod phase ip reason message running restarts insp tr of
       (Some e, _, tr) \<Rightarrow> (add_error e s, tr) | (None, _, tr) \<Rightarrow> (s, tr))"

section \<open>Pods that are being deleted\<close>

definition deleted_workload :: "string \<Rightarrow> pod \<Rightarrow> manager \<Rightarrow> managed" where
  "deleted_workload uid pod m = (case map_of (wm_workloads m) uid of
       Some w \<Rightarrow> w
     | None \<Rightarrow> (empty_managed uid)\<lparr>mw_namespace := om_namespace (p_meta pod), mw_name := om_name (p_meta pod),
         mw_pod_container := firstPodContainerName pod, mw_container := workloadContainerName pod,
         mw_ip := pt_pod_ip (p_status pod), mw_host_network := ps_host_network (p_spec pod)\<rparr>)"

definition reconcile_deleted :: "env \<Rightarrow> string \<Rightarrow> pod \<Rightarrow> pass \<Rightarrow> pass io" where
  "reconcile_deleted E uid pod s tr =
    (case removeWorkload E (rp_manager s) (deleted_workload uid pod (rp_manager s)) tr of
       (Some e, (m, w), tr) \<Rightarrow>
         (put_workload uid w (add_error (wrap (''remove deleted Pod '' @ pod_name pod @ '': '') e) (put_manager m s)), tr)
     | (None, (m, w), tr) \<Rightarrow> (case retainWorkloadLocked E m w tr of
         (m, tr) \<Rightarrow> (case persistJournalLocked E m tr of
           (r, tr) \<Rightarrow>
            (let s = put_manager m s;
                 s = (case r of Some e \<Rightarrow>
                     add_error (EWrap (''persist deleted Pod '' @ pod_name pod @ '' cleanup: '') e []) s
                   | None \<Rightarrow> s) in
             case updateStatus E m pod ''Failed'' (pt_pod_ip (p_status pod)) ''MacletWorkloadDeleted''
                 ''maclet stopped the native workload for Pod deletion'' False (mw_restarts w) None tr of
               (Some e, _, tr) \<Rightarrow> (if http_code_is 404 e then s else add_error e s, tr)
             | (None, _, tr) \<Rightarrow> (s, tr)))))"

section \<open>Launching\<close>

definition exit_outcome :: "string \<Rightarrow> inspection option \<Rightarrow> string \<times> string \<times> string" where
  "exit_outcome policy insp =
    (let failing = policy = ''OnFailure'';
         phase = (if failing then ''Failed'' else ''Succeeded'');
         reason = (if failing then ''MacletWorkloadExited'' else ''MacletWorkloadCompleted'');
         message = (if failing then ''Macker workload exited'' else ''Macker stopped the workload'') in
     case insp of
       None \<Rightarrow> (phase, reason, message @ ''; exit code is not available through the current Macker CLI'')
     | Some i \<Rightarrow> (case in_exit_code i of
         None \<Rightarrow> (phase, reason, message)
       | Some code \<Rightarrow> if code \<noteq> 0
           then (''Failed'', ''MacletWorkloadFailed'', ''Macker workload exited with code '' @ itoa code)
           else (''Succeeded'', ''MacletWorkloadCompleted'', ''Macker workload exited successfully'')))"

definition running_status :: "env \<Rightarrow> string \<Rightarrow> pod \<Rightarrow> string \<Rightarrow> string \<Rightarrow> managed \<Rightarrow> pass \<Rightarrow> pass io" where
  "running_status E uid pod ip message w s tr =
     report_status E pod ''Running'' ip ''MacletWorkloadRunning'' message True (mw_restarts w) None
       (put_workload uid (w\<lparr>mw_retry := None\<rparr>) s) tr"

text \<open>The persistence that ends a launch: without a journal entry the workload is removed again.\<close>

definition settle_workload :: "env \<Rightarrow> string \<Rightarrow> pod \<Rightarrow> string \<Rightarrow> managed \<Rightarrow> pass \<Rightarrow> pass io" where
  "settle_workload E uid pod ip w s tr = (case persistJournalLocked E (rp_manager s) tr of
       (None, tr) \<Rightarrow> running_status E uid pod ip ''Macker started the trusted native workload'' w s tr
     | (Some e, tr) \<Rightarrow> (case removeWorkload E (rp_manager s) w tr of
         (r, (m, w), tr) \<Rightarrow> fail_reported E uid pod ip w ''MacletOwnershipPersistFailed''
            (EWrap (''persist workload '' @ pod_name pod @ '' ownership: '') e
              (case r of Some ce \<Rightarrow> '' (cleanup: '' @ err_string ce @ '')'' | None \<Rightarrow> [])) e
            (put_manager m s) tr))"

definition start_workload ::
  "env \<Rightarrow> string \<Rightarrow> pod \<Rightarrow> string \<Rightarrow> string list \<Rightarrow> managed \<Rightarrow> pass \<Rightarrow> pass io" where
  "start_workload E uid pod ip args w s tr =
    (let m = rp_manager s in
     case startMackerWorkload E m args (c_image (hd (ps_containers (p_spec pod)))) tr of
       (Some e, tr) \<Rightarrow> fail_reported E uid pod ip w ''MacletMackerLaunchFailed''
         (wrap (''start Macker workload '' @ pod_name pod @ '': '') e) e s tr
     | (None, tr) \<Rightarrow> (case waitForMackerRunning E m (mw_container w) tr of
         (Some e, tr) \<Rightarrow> (case stopContainer E m w tr of
           (_, tr) \<Rightarrow> fail_reported E uid pod ip w ''MacletMackerLaunchFailed''
             (wrap (''Macker workload '' @ pod_name pod @ '' did not start: '') e) e s tr)
       | (None, tr) \<Rightarrow> settle_workload E uid pod ip w s tr))"

definition launch_workload :: "env \<Rightarrow> string \<Rightarrow> pod \<Rightarrow> string \<Rightarrow> managed \<Rightarrow> pass \<Rightarrow> pass io" where
  "launch_workload E uid pod ip w s tr =
    (case runArgsWithContext E (rp_manager s) pod (hd (ps_containers (p_spec pod))) w tr of
       (Inl e, w, tr) \<Rightarrow> fail_reported E uid pod ip w ''MacletMackerLaunchFailed''
         (wrap (''prepare Macker workload '' @ pod_name pod @ '': '') e) e s tr
     | (Inr args, w, tr) \<Rightarrow>
        (let s = put_workload uid w s in
         case (if mw_mounts w \<noteq> [] then persistJournalLocked E (rp_manager s) tr else (None, tr)) of
           (Some e, tr) \<Rightarrow> fail_reported E uid pod ip w ''MacletOwnershipPersistFailed''
             (wrap (''persist NFS mount ownership for '' @ pod_name pod @ '': '') e) e s tr
         | (None, tr) \<Rightarrow> start_workload E uid pod ip args w s tr))"

section \<open>A container that runs or has stopped\<close>

definition refresh_running :: "env \<Rightarrow> string \<Rightarrow> pod \<Rightarrow> string \<Rightarrow> managed \<Rightarrow> pass \<Rightarrow> pass io" where
  "refresh_running E uid pod ip w s tr = (case refreshConfigMapVolumes E (rp_manager s) pod w tr of
     (_, w, tr) \<Rightarrow> running_status E uid pod ip ''Macker is running the trusted native workload'' w s tr)"

definition finish_workload ::
  "env \<Rightarrow> string \<Rightarrow> pod \<Rightarrow> string \<Rightarrow> inspection option \<Rightarrow> managed \<Rightarrow> pass \<Rightarrow> pass io" where
  "finish_workload E uid pod ip insp w s tr =
    (case exit_outcome (podRestartPolicy pod) insp of (phase, reason, message) \<Rightarrow>
     (case archiveWorkloadLogs E (rp_manager s) w tr of (_, w, tr) \<Rightarrow>
      (case stopContainer E (rp_manager s) w tr of (_, tr) \<Rightarrow>
       (case retainWorkloadLocked E (rp_manager s) w tr of (m, tr) \<Rightarrow>
        (case persistJournalLocked E m tr of (r, tr) \<Rightarrow>
          report_status E pod phase ip reason message False (mw_restarts w) insp
            (foldl (\<lambda>s e. add_error e s) (put_manager m s) (err_list r)) tr)))))"

definition restart_workload :: "env \<Rightarrow> string \<Rightarrow> pod \<Rightarrow> string \<Rightarrow> managed \<Rightarrow> pass \<Rightarrow> pass io" where
  "restart_workload E uid pod ip w s tr =
    (case archiveWorkloadLogs E (rp_manager s) w tr of (_, w, tr) \<Rightarrow>
     (case stopContainer E (rp_manager s) w tr of
        (Some e, tr) \<Rightarrow> fail_later E uid w e s tr
      | (None, tr) \<Rightarrow>
         (let w = w\<lparr>mw_restarts := mw_restarts w + 1\<rparr>; s = put_workload uid w s in
          case persistJournalLocked E (rp_manager s) tr of
            (Some e, tr) \<Rightarrow> fail_later E uid w (wrap (''persist workload '' @ pod_name pod @ '' restart: '') e) s tr
          | (None, tr) \<Rightarrow> launch_workload E uid pod ip w s tr)))"

text \<open>The debug log of a stopped container reads its output.\<close>

definition debug_logs :: "env \<Rightarrow> manager \<Rightarrow> managed \<Rightarrow> trace \<Rightarrow> trace" where
  "debug_logs E m w tr = (if wm_debug m then snd (mackerOutput E m [''logs'', mw_container w] tr) else tr)"

definition reconcile_stopped :: "env \<Rightarrow> string \<Rightarrow> pod \<Rightarrow> string \<Rightarrow> managed \<Rightarrow> pass \<Rightarrow> pass io" where
  "reconcile_stopped E uid pod ip w s tr =
    (case containerInspection E (rp_manager s) (mw_container w) tr of
       (Inl e, tr) \<Rightarrow> fail_later E uid w e s tr
     | (Inr insp, tr) \<Rightarrow>
        (let tr = debug_logs E (rp_manager s) w tr in
         if podRestartPolicy pod \<in> {''Never'', ''OnFailure''} then finish_workload E uid pod ip insp w s tr
         else restart_workload E uid pod ip w s tr))"

definition reconcile_container :: "env \<Rightarrow> string \<Rightarrow> pod \<Rightarrow> string \<Rightarrow> managed \<Rightarrow> pass \<Rightarrow> pass io" where
  "reconcile_container E uid pod ip w s tr =
    (case containerStatus E (rp_manager s) (mw_container w) tr of
       (Inl e, tr) \<Rightarrow> fail_reported E uid pod ip w ''MacletMackerUnavailable'' e e s tr
     | (Inr None, tr) \<Rightarrow> launch_workload E uid pod ip w s tr
     | (Inr (Some status), tr) \<Rightarrow>
         if status = ''running'' then refresh_running E uid pod ip w s tr
         else reconcile_stopped E uid pod ip w s tr)"

text \<open>Terminal Pods that are not restarted, and workloads that wait for their retry time.\<close>

definition terminal_pod :: "pod \<Rightarrow> bool" where
  "terminal_pod pod \<longleftrightarrow> (pt_phase (p_status pod) = ''Succeeded'' \<or> pt_phase (p_status pod) = ''Failed'') \<and>
     podRestartPolicy pod \<noteq> ''Always''"

definition waits :: "env \<Rightarrow> managed \<Rightarrow> bool io" where
  "waits E w tr = (case mw_retry w of
       None \<Rightarrow> (False, tr) | Some t \<Rightarrow> (case time_now E tr of (now, tr) \<Rightarrow> (now < t, tr)))"

definition reconcile_ready :: "env \<Rightarrow> string \<Rightarrow> pod \<Rightarrow> string \<Rightarrow> managed \<Rightarrow> pass \<Rightarrow> pass io" where
  "reconcile_ready E uid pod ip w s tr =
    (if terminal_pod pod then (s, tr)
     else (case waits E w tr of
        (True, tr) \<Rightarrow> (s, tr)
      | (False, tr) \<Rightarrow> reconcile_container E uid pod ip w s tr))"

section \<open>The address of a workload\<close>

definition put_network :: "net_handle \<Rightarrow> pass \<Rightarrow> pass" where
  "put_network h s = s\<lparr>rp_manager := (rp_manager s)\<lparr>wm_network := Some h\<rparr>\<rparr>"

definition pending_error ::
  "env \<Rightarrow> pod \<Rightarrow> string \<Rightarrow> string \<Rightarrow> err \<Rightarrow> err \<Rightarrow> 32 word \<Rightarrow> pass \<Rightarrow> pass io" where
  "pending_error E pod ip reason recorded shown restarts s tr =
     (add_error recorded s, report_pending E (rp_manager s) pod ip reason shown restarts tr)"

text \<open>The installation of the address, when the Pod is not on the host network.\<close>

definition install_address :: "env \<Rightarrow> string \<Rightarrow> pod \<Rightarrow> string \<Rightarrow> net_handle \<Rightarrow> managed \<Rightarrow> pass \<Rightarrow> pass io" where
  "install_address E uid pod ip h w s tr =
    (if ps_host_network (p_spec pod) then reconcile_ready E uid pod ip w s tr
     else (case addWorkloadIP E h ip tr of
        (Some e, h, tr) \<Rightarrow> pending_error E pod ip ''MacletNetworkSetupFailed''
          (wrap (''add address for Pod '' @ pod_name pod @ '': '') e) e (mw_restarts w) (put_network h s) tr
      | (None, h, tr) \<Rightarrow> reconcile_ready E uid pod ip w (put_network h s) tr))"

definition record_address :: "env \<Rightarrow> string \<Rightarrow> pod \<Rightarrow> string \<Rightarrow> net_handle \<Rightarrow> managed \<Rightarrow> pass \<Rightarrow> pass io" where
  "record_address E uid pod ip h w s tr =
    (if mw_ip w = ip then install_address E uid pod ip h w s tr
     else (let w = w\<lparr>mw_ip := ip\<rparr>; s = put_workload uid w s in
       case persistJournalLocked E (rp_manager s) tr of
         (Some e, tr) \<Rightarrow> fail_later E uid w (wrap (''persist workload '' @ pod_name pod @ '' address: '') e) s tr
       | (None, tr) \<Rightarrow> install_address E uid pod ip h w s tr))"

text \<open>The old address is given up first.\<close>

definition replace_address :: "env \<Rightarrow> string \<Rightarrow> pod \<Rightarrow> string \<Rightarrow> net_handle \<Rightarrow> managed \<Rightarrow> pass \<Rightarrow> pass io" where
  "replace_address E uid pod ip h w s tr =
    (if mw_ip w \<noteq> [] \<and> mw_ip w \<noteq> ip \<and> \<not> mw_host_network w
     then (case removeWorkloadIP E h (mw_ip w) tr of
        (Some e, h, tr) \<Rightarrow> (add_error e (put_network h s), tr)
      | (None, h, tr) \<Rightarrow> record_address E uid pod ip h w (put_network h s) tr)
     else record_address E uid pod ip h w s tr)"

definition check_address :: "env \<Rightarrow> string \<Rightarrow> pod \<Rightarrow> string \<Rightarrow> net_handle \<Rightarrow> managed \<Rightarrow> pass \<Rightarrow> pass io" where
  "check_address E uid pod ip h w s tr =
    (case (if ps_host_network (p_spec pod) then None else handle_validateWorkloadAddress h ip) of
       Some e \<Rightarrow> pending_error E pod ip ''MacletInvalidPodIP''
         (wrap (''Pod '' @ pod_name pod @ '' has invalid PodIP '' @ ip @ '': '') e) e (mw_restarts w) s tr
     | None \<Rightarrow> replace_address E uid pod ip h w s tr)"

definition assign_address :: "env \<Rightarrow> string \<Rightarrow> pod \<Rightarrow> net_handle \<Rightarrow> managed \<Rightarrow> pass \<Rightarrow> pass io" where
  "assign_address E uid pod h w s tr =
    (if ps_host_network (p_spec pod) then check_address E uid pod (wm_node_ip (rp_manager s)) h w s tr
     else if pt_pod_ip (p_status pod) \<noteq> [] then check_address E uid pod (pt_pod_ip (p_status pod)) h w s tr
     else (case handle_firstAvailableWorkloadIP h (rp_used s) of
        Inl e \<Rightarrow> pending_error E pod [] ''MacletAddressAllocationFailed''
          (wrap (''allocate address for Pod '' @ pod_name pod @ '': '') e) e (mw_restarts w) s tr
      | Inr ip \<Rightarrow> check_address E uid pod ip h w (s\<lparr>rp_used := ip # rp_used s\<rparr>) tr))"

section \<open>Ownership\<close>

text \<open>The managed workload of a Pod, with the fields that follow the Pod, and whether it changed.\<close>

definition new_workload :: "string \<Rightarrow> pod \<Rightarrow> managed" where
  "new_workload uid pod = (empty_managed uid)\<lparr>mw_pod_container := firstPodContainerName pod,
     mw_container := workloadContainerName pod,
     mw_restarts := firstContainerRestartCount (p_status pod)\<rparr>"

definition follow_pod :: "pod \<Rightarrow> managed \<Rightarrow> managed" where
  "follow_pod pod w = w\<lparr>mw_namespace := om_namespace (p_meta pod), mw_name := om_name (p_meta pod),
     mw_pod_container := firstPodContainerName pod, mw_host_network := ps_host_network (p_spec pod)\<rparr>"

definition claim_workload :: "string \<Rightarrow> pod \<Rightarrow> manager \<Rightarrow> managed \<times> bool" where
  "claim_workload uid pod m =
    (let (w, created) = (case map_of (wm_workloads m) uid of Some w \<Rightarrow> (w, False) | None \<Rightarrow> (new_workload uid pod, True)) in
     (follow_pod pod w, created \<or> follow_pod pod w \<noteq> w))"

definition own_workload :: "env \<Rightarrow> string \<Rightarrow> pod \<Rightarrow> net_handle \<Rightarrow> pass \<Rightarrow> pass io" where
  "own_workload E uid pod h s tr =
    (case claim_workload uid pod (rp_manager s) of (w, changed) \<Rightarrow>
     (let s = put_workload uid w s in
      case (if changed then persistJournalLocked E (rp_manager s) tr else (None, tr)) of
        (Some e, tr) \<Rightarrow> fail_later E uid w (wrap (''persist workload '' @ pod_name pod @ '' ownership: '') e) s tr
      | (None, tr) \<Rightarrow> assign_address E uid pod h w s tr))"

section \<open>One pass\<close>

definition one_container :: "pod \<Rightarrow> err" where
  "one_container pod = EMsg (''Pod '' @ pod_name pod @ '' must declare exactly one container; maclet does not support sidecars yet'')"

definition reconcile_native :: "env \<Rightarrow> string \<Rightarrow> pod \<Rightarrow> pass \<Rightarrow> pass io" where
  "reconcile_native E uid pod s tr =
    (let ip = pt_pod_ip (p_status pod); m = rp_manager s in
     case validateNativePodNetwork pod of
       Some e \<Rightarrow> pending_error E pod ip ''MacletUnsupportedPod'' e e 0 s tr
     | None \<Rightarrow> (case wm_network m of
         None \<Rightarrow> pending_error E pod ip ''MacletNetworkSetupFailed'' network_unavailable network_unavailable 0 s tr
       | Some h \<Rightarrow>
          if length (ps_containers (p_spec pod)) \<noteq> 1
          then report_status E pod ''Pending'' ip ''MacletUnsupportedPod'' (err_string (one_container pod)) False 0 None s tr
          else own_workload E uid pod h s tr))"

definition see :: "string \<Rightarrow> pass \<Rightarrow> pass" where
  "see uid s = s\<lparr>rp_seen := uid # rp_seen s\<rparr>"

definition reconcile_pod :: "env \<Rightarrow> pod \<Rightarrow> pass \<Rightarrow> pass io" where
  "reconcile_pod E pod s tr =
    (let uid = pod_key pod in
     if om_deletion (p_meta pod) \<noteq> None then reconcile_deleted E uid pod (see uid s) tr
     else if \<not> podHasNativeLabel pod then (s, tr)
     else reconcile_native E uid pod (see uid s) tr)"

fun reconcile_pods :: "env \<Rightarrow> pod list \<Rightarrow> pass \<Rightarrow> pass io" where
  "reconcile_pods E [] s tr = (s, tr)"
| "reconcile_pods E (pod # pods) s tr = (case reconcile_pod E pod s tr of (s, tr) \<Rightarrow> reconcile_pods E pods s tr)"

definition start_pass :: "manager \<Rightarrow> pod list \<Rightarrow> pass" where
  "start_pass m pods = \<lparr>rp_manager = m, rp_used = filter (\<lambda>ip. ip \<noteq> []) (map (\<lambda>p. pt_pod_ip (p_status p)) pods),
     rp_seen = [], rp_errors = []\<rparr>"

text \<open>The removal of the workloads whose Pods are gone, which ends a pass.\<close>

definition remove_stale :: "env \<Rightarrow> pass \<Rightarrow> trace \<Rightarrow> err option \<times> manager \<times> trace" where
  "remove_stale E s tr =
    (case remove_each E (\<lambda>uid. uid \<in> set (rp_seen s)) (\<lambda>uid w. ''remove stale maclet workload '' @ mw_container w @ '': '')
        (e_order E (mkeys (wm_workloads (rp_manager s)))) (rp_manager s) False (rp_errors s) tr of
       ((changed, es), m, tr) \<Rightarrow>
         if changed then (case persistJournalLocked E m tr of
            (r, tr) \<Rightarrow> (errors_join (es @ map (wrap ''persist stale workload cleanup: '') (err_list r)), m, tr))
         else (errors_join es, m, tr))"

definition reconcile :: "env \<Rightarrow> manager \<Rightarrow> pod list \<Rightarrow> trace \<Rightarrow> err option \<times> manager \<times> trace" where
  "reconcile E m pods tr =
    (case time_now E tr of (now, tr) \<Rightarrow>
     (case pruneRetainedLogsLocked E now m tr of (changed, m, tr) \<Rightarrow>
      (case (if changed then persistJournalLocked E m tr else (None, tr)) of
         (Some e, tr) \<Rightarrow> (Some e, m, tr)
       | (None, tr) \<Rightarrow> (case reconcile_pods E pods (start_pass m pods) tr of (s, tr) \<Rightarrow> remove_stale E s tr))))"

section \<open>The Pods of the node\<close>

text \<open>\<^verbatim>\<open>url.Values.Encode\<close> of the single field selector.\<close>

definition query_plain :: "char \<Rightarrow> bool" where
  "query_plain c \<longleftrightarrow> (let b = byte c in (48 \<le> b \<and> b \<le> 57) \<or> (65 \<le> b \<and> b \<le> 90) \<or> (97 \<le> b \<and> b \<le> 122)) \<or>
     c \<in> set ''-_.~''"

definition query_escape :: "string \<Rightarrow> string" where
  "query_escape s = concat (map (\<lambda>c. if query_plain c then [c] else if c = CHR '' '' then ''+''
     else [CHR ''%'', upper_hex (byte c div 16), upper_hex (byte c mod 16)]) s)"

definition listAssignedPods :: "env \<Rightarrow> string \<Rightarrow> (err + pod list) io" where
  "listAssignedPods E nodeName tr =
    (case call_api E NodeClient GET (''/api/v1/pods?fieldSelector='' @ query_escape (''spec.nodeName='' @ nodeName)) None tr of
       (Inl e, tr) \<Rightarrow> (Inl e, tr)
     | (Inr k, tr) \<Rightarrow> ((case k of KPods pods \<Rightarrow> Inr pods
         | _ \<Rightarrow> Inl (wrap ''decode assigned PodList: '' json_error)), tr))"

end
