(* ===== verification/Flannel.thy ===== *)
theory Flannel
  imports NodeApi Types
begin

text \<open>
  \<^verbatim>\<open>flannel.go\<close>: the VXLAN annotations of this Node, their removal, and the discovery of the
  peers from the annotations of the other Nodes.  Peers with the same PodCIDR stay in the order of
  the listing, as the insertion sort behind \<^verbatim>\<open>sort.Slice\<close> leaves them for up to twelve Nodes.
\<close>

abbreviation flannelBackendTypeAnnotation :: string where
  "flannelBackendTypeAnnotation \<equiv> ''flannel.alpha.coreos.com/backend-type''"

abbreviation flannelBackendDataAnnotation :: string where
  "flannelBackendDataAnnotation \<equiv> ''flannel.alpha.coreos.com/backend-data''"

abbreviation flannelPublicIPAnnotation :: string where
  "flannelPublicIPAnnotation \<equiv> ''flannel.alpha.coreos.com/public-ip''"

abbreviation flannelSubnetManagerAnnotation :: string where
  "flannelSubnetManagerAnnotation \<equiv> ''flannel.alpha.coreos.com/kube-subnet-manager''"

text \<open>A JSON string of printable ASCII; \<^verbatim>\<open>encoding/json\<close> also escapes the characters of HTML.\<close>

definition json_char :: "char \<Rightarrow> string" where
  "json_char c =
    (if c = CHR 0x22 \<or> c = CHR 0x5C then [CHR 0x5C, c]
     else if c = CHR 0x0A then [CHR 0x5C, CHR ''n'']
     else if c = CHR 0x0D then [CHR 0x5C, CHR ''r'']
     else if c = CHR 0x09 then [CHR 0x5C, CHR ''t'']
     else if c \<in> {CHR ''<'', CHR ''>'', CHR ''&''}
     then CHR 0x5C # ''u00'' @ [hex_digit (byte c div 16), hex_digit (byte c mod 16)]
     else [c])"

definition json_quote :: "string \<Rightarrow> string" where
  "json_quote s = CHR 0x22 # concat (map json_char s) @ [CHR 0x22]"

definition backend_data :: "string \<Rightarrow> string" where
  "backend_data mac = CHR ''{'' # json_quote ''VNI'' @ '':1,'' @ json_quote ''VtepMAC'' @ '':'' @ json_quote mac @ ''}''"

definition flannelAnnotations :: "string \<Rightarrow> string \<Rightarrow> strmap" where
  "flannelAnnotations publicIP bridgeMAC =
     [(flannelBackendTypeAnnotation, ''vxlan''), (flannelBackendDataAnnotation, backend_data bridgeMAC),
      (flannelPublicIPAnnotation, publicIP), (flannelSubnetManagerAnnotation, ''true'')]"

section \<open>Publishing and clearing\<close>

definition annotations_patch :: "json \<Rightarrow> json" where
  "annotations_patch j = JObj [(''metadata'', JObj [(''annotations'', j)])]"

definition flannel_changed :: "strmap \<Rightarrow> strmap \<Rightarrow> bool" where
  "flannel_changed desired annotations \<longleftrightarrow> list_ex (\<lambda>(k, v). mget annotations k \<noteq> v) desired"

fun flannel_attempts :: "nat \<Rightarrow> env \<Rightarrow> api_client \<Rightarrow> strmap \<Rightarrow> node \<Rightarrow> (err + node) io" where
  "flannel_attempts 0 E c desired current tr = (Inl (EMsg ''Flannel annotation retry limit exceeded''), tr)"
| "flannel_attempts (Suc n) E c desired current tr =
    (if \<not> flannel_changed desired (node_annotations current) then (Inr current, tr)
     else (case call_api E c PATCH (node_path (node_name current))
              (Some (annotations_patch (JMap (overlay_map (node_annotations current) desired)))) tr of
        (Inr k, tr) \<Rightarrow> (decode_node ''decode Flannel Node patch: '' k, tr)
      | (Inl e, tr) \<Rightarrow>
          if \<not> http_code_is 409 e \<or> n = 0 then (Inl (wrap ''configure Flannel annotations: '' e), tr)
          else (case call_api E c GET (node_path (node_name current)) None tr of
             (Inl ge, tr) \<Rightarrow> (Inl (wrap ''refresh Node after Flannel annotation conflict: '' ge), tr)
           | (Inr k, tr) \<Rightarrow> (case decode_node ''decode Node after Flannel annotation conflict: '' k of
               Inl de \<Rightarrow> (Inl de, tr) | Inr current \<Rightarrow> flannel_attempts n E c desired current tr))))"

definition configureFlannel :: "env \<Rightarrow> api_client \<Rightarrow> node \<Rightarrow> string \<Rightarrow> string \<Rightarrow> (err + node) io" where
  "configureFlannel E c n publicIP bridgeMAC tr = flannel_attempts 5 E c (flannelAnnotations publicIP bridgeMAC) n tr"

definition cleared_keys :: "strmap \<Rightarrow> string list" where
  "cleared_keys annotations = filter (\<lambda>k. mhas annotations k) [flannelBackendTypeAnnotation, flannelBackendDataAnnotation,
     flannelPublicIPAnnotation, flannelSubnetManagerAnnotation]"

definition clearFlannel :: "env \<Rightarrow> api_client \<Rightarrow> string \<Rightarrow> err option io" where
  "clearFlannel E c nodeName tr = (case call_api E c GET (node_path nodeName) None tr of
       (Inl e, tr) \<Rightarrow> (if http_code_is 404 e then None else Some e, tr)
     | (Inr (KNode n), tr) \<Rightarrow>
         (let remove = cleared_keys (node_annotations n) in
          if remove = [] then (None, tr)
          else (case call_api E c PATCH (node_path nodeName)
                   (Some (annotations_patch (JObj (map (\<lambda>k. (k, JNull)) remove)))) tr of
             (Inl e, tr) \<Rightarrow> (Some (wrap ''clear Flannel annotations: '' e), tr) | (Inr _, tr) \<Rightarrow> (None, tr)))
     | (Inr _, tr) \<Rightarrow> (Some json_error, tr))"

section \<open>The peers\<close>

definition first_pod_cidr :: "node \<Rightarrow> string" where
  "first_pod_cidr n = (case ns_pod_cidr (n_spec n) of
       [] \<Rightarrow> (case ns_pod_cidrs (n_spec n) of [] \<Rightarrow> [] | p # _ \<Rightarrow> p) | p \<Rightarrow> p)"

definition is_v4_cidr :: "string \<Rightarrow> bool" where
  "is_v4_cidr cidr \<longleftrightarrow> (case cidr_net cidr of Some n \<Rightarrow> to4 (net_ip n) \<noteq> None | None \<Rightarrow> False)"

text \<open>A Node that is passed over before its backend data is looked at.\<close>

definition no_peer :: "string \<Rightarrow> node \<Rightarrow> bool" where
  "no_peer localNodeName n \<longleftrightarrow> node_name n = localNodeName \<or>
     mget (node_annotations n) flannelBackendTypeAnnotation \<noteq> ''vxlan'' \<or> first_pod_cidr n = [] \<or>
     mget (node_annotations n) flannelPublicIPAnnotation = [] \<or> mget (node_annotations n) flannelBackendDataAnnotation = [] \<or>
     \<not> is_v4_cidr (first_pod_cidr n)"

definition decode_backend :: "env \<Rightarrow> string \<Rightarrow> (int \<times> string) option" where
  "decode_backend E s = Option.bind (e_parse_json E s) (\<lambda>j. Option.bind (j_obj j) (\<lambda>fs.
     Option.bind (j_int (jget fs ''VNI'')) (\<lambda>vni. Option.bind (j_str (jget fs ''VtepMAC'')) (\<lambda>mac. Some (vni, mac)))))"

text \<open>The peer a Node describes, nothing, or an error.\<close>

definition node_peer :: "env \<Rightarrow> string \<Rightarrow> node \<Rightarrow> err + flannel_peer option" where
  "node_peer E localNodeName n =
    (if no_peer localNodeName n then Inr None
     else (let publicIP = mget (node_annotations n) flannelPublicIPAnnotation in
       case decode_backend E (mget (node_annotations n) flannelBackendDataAnnotation) of
         None \<Rightarrow> Inl (wrap (''decode Flannel backend data for node '' @ node_name n @ '': '') json_error)
       | Some (vni, vtep) \<Rightarrow>
           if vni \<noteq> 1 then Inr None
           else (case parse_mac6 vtep of
              None \<Rightarrow> Inl (EMsg (''node '' @ node_name n @ '' has invalid Flannel VtepMAC '' @ quote vtep))
            | Some mac \<Rightarrow>
                if parse_ip publicIP = None
                then Inl (EMsg (''node '' @ node_name n @ '' has invalid Flannel public IP '' @ quote publicIP))
                else Inr (Some \<lparr>fp_node_name = node_name n, fp_pod_cidr = first_pod_cidr n, fp_public_ip = publicIP,
                  fp_vtep_mac = mac_string mac\<rparr>))))"

fun collect_peers :: "env \<Rightarrow> string \<Rightarrow> node list \<Rightarrow> err + flannel_peer list" where
  "collect_peers E localNodeName [] = Inr []"
| "collect_peers E localNodeName (n # ns) = (case node_peer E localNodeName n of
       Inl e \<Rightarrow> Inl e
     | Inr p \<Rightarrow> (case collect_peers E localNodeName ns of
         Inl e \<Rightarrow> Inl e
       | Inr ps \<Rightarrow> Inr (case p of Some p \<Rightarrow> p # ps | None \<Rightarrow> ps)))"

definition no_node_access :: err where
  "no_node_access = EMsg ''the peer client cannot read Nodes; provide a peer kubeconfig with Node list access or use --vxlan-gateway-mac for single-peer mode''"

definition discoverFlannelPeers :: "env \<Rightarrow> api_client \<Rightarrow> string \<Rightarrow> (err + flannel_peer list) io" where
  "discoverFlannelPeers E c localNodeName tr = (case call_api E c GET ''/api/v1/nodes'' None tr of
       (Inl e, tr) \<Rightarrow> (Inl (if http_code_is 403 e then no_node_access else wrap ''list Nodes to discover Flannel peers: '' e), tr)
     | (Inr (KNodes ns), tr) \<Rightarrow> (map_sum id (sort_key fp_pod_cidr) (collect_peers E localNodeName ns), tr)
     | (Inr _, tr) \<Rightarrow> (Inl (wrap ''decode Node list for Flannel peers: '' json_error), tr))"

definition remoteVtepMAC :: "env \<Rightarrow> api_client \<Rightarrow> string \<Rightarrow> string \<Rightarrow> (err + string) io" where
  "remoteVtepMAC E c remoteIP override tr =
    (if override \<noteq> [] then (case parse_mac6 override of
        None \<Rightarrow> (Inl (EMsg (''invalid --vxlan-gateway-mac '' @ quote override)), tr)
      | Some mac \<Rightarrow> (Inr (mac_string mac), tr))
     else (case discoverFlannelPeers E c [] tr of
        (Inl e, tr) \<Rightarrow> (Inl e, tr)
      | (Inr peers, tr) \<Rightarrow> (case List.find (\<lambda>p. fp_public_ip p = remoteIP) peers of
          Some p \<Rightarrow> (Inr (fp_vtep_mac p), tr)
        | None \<Rightarrow> (Inl (EMsg (''no Flannel node annotation matches VXLAN remote '' @ quote remoteIP @
            ''; use --vxlan-gateway-mac to provide that node'' @ [CHR 0x27] @ ''s flannel.1 MAC'')), tr))))"

section \<open>Hardware addresses print and parse\<close>

lemma hex_digit_val:
  assumes "d < 16"
  shows "is_hex (hex_digit d)" "hex_val (hex_digit d) = Some d" "CHR '':'' \<noteq> hex_digit d"
proof -
  have b: "byte (hex_digit d) = (if d < 10 then 48 + d else 87 + d)"
    using assms by (simp add: hex_digit_def byte_def)
  then show v: "hex_val (hex_digit d) = Some d" using assms by (simp add: hex_val_def Let_def)
  then show "is_hex (hex_digit d)" by (simp add: is_hex_def)
  have "byte CHR '':'' = 58" by (simp add: byte_def)
  with b show "CHR '':'' \<noteq> hex_digit d" using assms by (auto split: if_splits)
qed

lemma hex_byte_print: "b < 256 \<Longrightarrow> hex_byte [hex_digit (b div 16), hex_digit (b mod 16)] = Some b"
  using hex_digit_val [of "b div 16"] hex_digit_val [of "b mod 16"]
  by (simp add: hex_byte_def hex_number_def less_mult_imp_div_less)

lemma parse_mac_string:
  assumes "length bs = 6" "list_all (\<lambda>b. b < 256) bs"
  shows "parse_mac6 (mac_string bs) = Some bs"
proof -
  let ?f = "\<lambda>b. [hex_digit (b div 16), hex_digit (b mod 16)]"
  have sp: "split_on CHR '':'' (mac_string bs) = map ?f bs"
    unfolding mac_string_def using assms
    by (intro split_on_join) (auto simp: list_all_iff less_mult_imp_div_less hex_digit_val(3))
  obtain a b c d e f where bs: "bs = [a, b, c, d, e, f]"
    using assms(1) by (auto simp: numeral_eq_Suc length_Suc_conv)
  have "length (mac_string bs) = 17" "mac_string bs ! 2 = CHR '':''"
    by (simp_all add: bs mac_string_def)
  with sp have "parse_mac6 (mac_string bs) = hex_bytes (map ?f bs)"
    using assms(1) by (simp add: parse_mac6_def Let_def)
  also have "\<dots> = Some bs"
    using assms(2) by (simp add: hex_bytes_def list_all_iff hex_byte_print comp_def map_idI)
  finally show ?thesis .
qed

lemma hex_val_bound: "is_hex c \<Longrightarrow> the (hex_val c) < 16"
  by (auto simp: is_hex_def hex_val_def Let_def split: if_splits)

lemma hex_byte_bound: "hex_byte s = Some b \<Longrightarrow> b < 256"
proof -
  assume "hex_byte s = Some b"
  then obtain c d where "s = [c, d]" "is_hex c" "is_hex d" "b = 16 * the (hex_val c) + the (hex_val d)"
    by (auto simp: hex_byte_def hex_number_def numeral_2_eq_2 length_Suc_conv split: if_splits)
  with hex_val_bound [of c] hex_val_bound [of d] show ?thesis by simp
qed

lemma hex_bytes_result:
  assumes "hex_bytes ps = Some bs"
  shows "length bs = length ps \<and> list_all (\<lambda>b. b < 256) bs"
proof -
  have h: "list_all (\<lambda>p. hex_byte p \<noteq> None) ps" "bs = map (\<lambda>p. the (hex_byte p)) ps"
    using assms by (simp_all add: hex_bytes_def split: if_splits)
  have "the (hex_byte p) < 256" if "p \<in> set ps" for p
    using h(1) that hex_byte_bound [of p] by (cases "hex_byte p") (auto simp: list_all_iff)
  with h(2) show ?thesis by (simp add: list_all_iff)
qed

lemma parse_mac6_result: "parse_mac6 s = Some bs \<Longrightarrow> length bs = 6 \<and> list_all (\<lambda>b. b < 256) bs"
proof -
  assume p: "parse_mac6 s = Some bs"
  obtain ps where ps: "hex_bytes ps = Some bs" "length ps = 6"
  proof (cases "length s = 17 \<and> s ! 2 \<in> {CHR '':'', CHR ''-''}")
    case True
    with p that show ?thesis by (auto simp: parse_mac6_def Let_def split: if_splits)
  next
    case False
    let ?ps = "split_on CHR ''.'' s"
    from False p have l: "length ?ps = 3" "hex_bytes (concat (map (\<lambda>p. [take 2 p, drop 2 p]) ?ps)) = Some bs"
      unfolding parse_mac6_def Let_def by (auto split: if_splits)
    then have "length (concat (map (\<lambda>p. [take 2 p, drop 2 p]) ?ps)) = 6"
      by (auto simp: numeral_3_eq_3 length_Suc_conv)
    with l that show ?thesis by blast
  qed
  with hex_bytes_result show ?thesis by metis
qed

definition canonical_mac :: "string \<Rightarrow> bool" where
  "canonical_mac s \<longleftrightarrow> (\<exists>bs. parse_mac6 s = Some bs \<and> mac_string bs = s)"

lemma canonical_mac_printed: "parse_mac6 s = Some bs \<Longrightarrow> canonical_mac (mac_string bs)"
  using parse_mac6_result parse_mac_string unfolding canonical_mac_def by blast

section \<open>What discovery promises\<close>

definition usable_peer :: "flannel_peer \<Rightarrow> bool" where
  "usable_peer p \<longleftrightarrow> canonical_mac (fp_vtep_mac p) \<and> parse_ip (fp_public_ip p) \<noteq> None \<and> is_v4_cidr (fp_pod_cidr p)"

lemma node_peer_usable: "node_peer E localNodeName n = Inr (Some p) \<Longrightarrow> usable_peer p \<and> fp_node_name p \<noteq> localNodeName"
  by (auto simp: node_peer_def no_peer_def usable_peer_def Let_def intro: canonical_mac_printed
      split: if_splits option.splits prod.splits)

lemma collect_peers_usable:
  "collect_peers E localNodeName ns = Inr ps \<Longrightarrow> p \<in> set ps \<Longrightarrow> usable_peer p \<and> fp_node_name p \<noteq> localNodeName"
proof (induction ns arbitrary: ps)
  case (Cons n ns)
  then obtain o1 ps1 where "node_peer E localNodeName n = Inr o1" "collect_peers E localNodeName ns = Inr ps1"
    "ps = (case o1 of Some p \<Rightarrow> p # ps1 | None \<Rightarrow> ps1)"
    by (auto split: sum.splits)
  with Cons node_peer_usable show ?case by (auto split: option.splits)
qed simp

lemma discovered_usable:
  assumes "discoverFlannelPeers E c localNodeName tr = (Inr peers, tr')"
  shows "sorted (map fp_pod_cidr peers) \<and> (\<forall>p \<in> set peers. usable_peer p \<and> fp_node_name p \<noteq> localNodeName)"
proof -
  obtain ns ps where "collect_peers E localNodeName ns = Inr ps" "peers = sort_key fp_pod_cidr ps"
    using assms by (auto simp: discoverFlannelPeers_def call_api_def Let_def map_sum_def split: sum.splits kobj.splits)
  with collect_peers_usable show ?thesis by auto
qed

text \<open>
  Whether it comes from the flag or from the annotations of another Node, the gateway's
  hardware address is in the canonical form that the network handle stores, so following the
  gateway never fails to parse it; discovered peers are ordered by PodCIDR and usable.
\<close>

theorem discovery_usable:
  shows "(remoteVtepMAC E c remoteIP override tr = (Inr mac, tr') \<longrightarrow> canonical_mac mac) \<and>
    (discoverFlannelPeers E c localNodeName tr = (Inr peers, tr') \<longrightarrow>
      sorted (map fp_pod_cidr peers) \<and> (\<forall>p \<in> set peers. usable_peer p \<and> fp_node_name p \<noteq> localNodeName))"
proof (intro conjI impI)
  assume r: "remoteVtepMAC E c remoteIP override tr = (Inr mac, tr')"
  show "canonical_mac mac"
  proof (cases "override = []")
    case False
    with r show ?thesis by (auto simp: remoteVtepMAC_def intro: canonical_mac_printed split: option.splits)
  next
    case True
    with r obtain peers tr1 p where "discoverFlannelPeers E c [] tr = (Inr peers, tr1)"
      "List.find (\<lambda>p. fp_public_ip p = remoteIP) peers = Some p" "mac = fp_vtep_mac p"
      by (auto simp: remoteVtepMAC_def split: sum.splits prod.splits option.splits)
    with discovered_usable show ?thesis by (fastforce simp: find_Some_iff usable_peer_def)
  qed
qed (use discovered_usable in blast)+

definition peer_node :: node where
  "peer_node = \<lparr>n_meta = empty_meta\<lparr>om_name := ''linux'', om_annotations := [(flannelBackendTypeAnnotation, ''vxlan''),
       (flannelPublicIPAnnotation, ''192.0.2.1''), (flannelBackendDataAnnotation, ''data'')]\<rparr>,
     n_spec = \<lparr>ns_pod_cidr = ''10.42.0.0/24'', ns_pod_cidrs = [], ns_taints = [], ns_unschedulable = False\<rparr>\<rparr>"

definition peer_env :: env where
  "peer_env = quiet_env\<lparr>e_api := \<lambda>_ _ _ _ _. Inr (KNodes [peer_node]),
     e_parse_json := \<lambda>_. Some (JObj [(''VNI'', JInt 1), (''VtepMAC'', JStr ''AA-BB-CC-DD-EE-FF'')])\<rparr>"

lemma discovery_usable_witness:
  "\<exists>tr'. remoteVtepMAC peer_env PeerClient ''192.0.2.1'' [] [] = (Inr ''aa:bb:cc:dd:ee:ff'', tr') \<and>
    canonical_mac ''aa:bb:cc:dd:ee:ff''"
proof -
  have "fst (remoteVtepMAC peer_env PeerClient ''192.0.2.1'' [] []) = Inr ''aa:bb:cc:dd:ee:ff''" by code_simp
  then obtain tr' where r: "remoteVtepMAC peer_env PeerClient ''192.0.2.1'' [] [] = (Inr ''aa:bb:cc:dd:ee:ff'', tr')"
    by (metis prod.collapse)
  with discovery_usable [THEN conjunct1, rule_format, OF r] show ?thesis by blast
qed

end
