(* ===== verification/DnsResolver.thy ===== *)
theory DnsResolver
  imports StateFiles Effects
begin

text \<open>
  \<^verbatim>\<open>dns_resolver.go\<close>: the resolver file \<^verbatim>\<open>/etc/resolver/cluster.local\<close> that sends cluster names to
  the cluster's DNS service.  maclet writes and removes the file only while it is marked as its own;
  with \<^verbatim>\<open>sudo\<close> a privileged helper process, the same program, does it.  The path of the running
  executable is a parameter.
\<close>

abbreviation defaultResolverDomain :: string where
  "defaultResolverDomain \<equiv> ''cluster.local''"

abbreviation defaultResolverPath :: string where
  "defaultResolverPath \<equiv> ''/etc/resolver/cluster.local''"

abbreviation resolverManagedComment :: string where
  "resolverManagedComment \<equiv> ''# Managed by maclet; do not edit.''"

record dns_resolver =
  dr_path :: string
  dr_domain :: string
  dr_sudo :: bool
  dr_nameservers :: "string list"
  dr_fallback :: "string list"
  dr_fallback_active :: bool
  dr_owned :: bool

section \<open>Name servers\<close>

fun valid_loop :: "string list \<Rightarrow> string list \<Rightarrow> string list" where
  "valid_loop seen [] = []"
| "valid_loop seen (c # cs) = (let c = trim_space c in
     if c = [] \<or> parse_ip c = None \<or> c \<in> set seen then valid_loop seen cs else c # valid_loop (c # seen) cs)"

definition validNameservers :: "string list \<Rightarrow> string list" where
  "validNameservers candidates = sort (valid_loop [] candidates)"

definition discoverClusterDNSNameservers :: "env \<Rightarrow> api_client option \<Rightarrow> (err + string list) io" where
  "discoverClusterDNSNameservers E client tr = (case client of
       None \<Rightarrow> (Inl (EMsg ''cluster DNS discovery requires a peer Kubernetes client''), tr)
     | Some c \<Rightarrow> (case call_api E c GET ''/api/v1/namespaces/kube-system/services/kube-dns'' None tr of
         (Inl e, tr) \<Rightarrow> (Inl (wrap ''get cluster DNS Service kube-system/kube-dns: '' e), tr)
       | (Inr (KService sv), tr) \<Rightarrow>
           (let candidates = (if sv_cluster_ips sv = [] \<and> sv_cluster_ip sv \<noteq> [] then [sv_cluster_ip sv] else sv_cluster_ips sv);
                nameservers = validNameservers candidates in
            if nameservers = [] then (Inl (EMsg ''cluster DNS Service kube-system/kube-dns has no usable ClusterIP''), tr)
            else (Inr nameservers, tr))
       | (Inr _, tr) \<Rightarrow> (Inl (wrap ''decode cluster DNS Service: '' json_error), tr)))"

section \<open>The file\<close>

definition resolverFileContent :: "string \<Rightarrow> string list \<Rightarrow> string" where
  "resolverFileContent domain nameservers = resolverManagedComment @ newline # ''# Cluster DNS domain: '' @ domain @ newline #
     concat (map (\<lambda>n. ''nameserver '' @ n @ [newline]) nameservers)"

definition isManagedResolverFile :: "string \<Rightarrow> bool" where
  "isManagedResolverFile body \<longleftrightarrow> trim_space (hd (split_on newline body)) = resolverManagedComment"

definition managed_content :: "content \<Rightarrow> bool" where
  "managed_content c \<longleftrightarrow> (case c of FBytes body \<Rightarrow> isManagedResolverFile body | FJson _ \<Rightarrow> False)"

text \<open>The steps after the temporary file exists.\<close>

definition install_resolver :: "env \<Rightarrow> string \<Rightarrow> string \<Rightarrow> string \<Rightarrow> err option io" where
  "install_resolver E tmp path content tr = (case fs_do E (ChmodTemp tmp 420) tr of
       (Some e, tr) \<Rightarrow> (Some (wrap ''set resolver file permissions: '' e), snd (fs_do E (CloseTemp tmp) tr))
     | (None, tr) \<Rightarrow> (case fs_do E (WriteTemp tmp (FBytes content)) tr of
         (Some e, tr) \<Rightarrow> (Some (wrap ''write resolver file: '' e), snd (fs_do E (CloseTemp tmp) tr))
       | (None, tr) \<Rightarrow> (case fs_do E (SyncTemp tmp) tr of
           (Some e, tr) \<Rightarrow> (Some (wrap ''sync resolver file: '' e), snd (fs_do E (CloseTemp tmp) tr))
         | (None, tr) \<Rightarrow> (case fs_do E (CloseTemp tmp) tr of
             (Some e, tr) \<Rightarrow> (Some (wrap ''close resolver file: '' e), tr)
           | (None, tr) \<Rightarrow> (case fs_do E (Rename tmp path) tr of
               (Some e, tr) \<Rightarrow> (Some (wrap ''install resolver file: '' e), tr)
             | (None, tr) \<Rightarrow> (None, tr))))))"

definition replace_resolver :: "env \<Rightarrow> string \<Rightarrow> string \<Rightarrow> err option io" where
  "replace_resolver E path content tr =
    (case fs_names E (CreateTemp (path_dir path) (CHR ''.'' # path_base path @ ''.tmp-'')) tr of
       (Inl e, tr) \<Rightarrow> (Some (wrap ''create temporary resolver file: '' e), tr)
     | (Inr names, tr) \<Rightarrow> (let tmp = concat names in
         case install_resolver E tmp path content tr of (r, tr) \<Rightarrow> (r, snd (fs_do E (Remove tmp) tr))))"

definition resolver_arguments :: "string \<Rightarrow> string \<Rightarrow> string list \<Rightarrow> err option" where
  "resolver_arguments path domain nameservers =
    (if path = [] \<or> \<not> is_abs path then Some (EMsg ''resolver path must be absolute'')
     else if domain = [] then Some (EMsg ''resolver domain is required'')
     else if nameservers = [] then Some (EMsg ''at least one resolver nameserver is required'')
     else map_option (\<lambda>n. EMsg (''invalid resolver nameserver '' @ quote n)) (List.find (\<lambda>n. parse_ip n = None) nameservers))"

definition writeManagedResolverFile :: "env \<Rightarrow> string \<Rightarrow> string \<Rightarrow> string list \<Rightarrow> err option io" where
  "writeManagedResolverFile E path domain nameservers tr = (case resolver_arguments path domain nameservers of
       Some e \<Rightarrow> (Some e, tr)
     | None \<Rightarrow> (case fs_do E (MkdirAll (path_dir path) 493) tr of
         (Some e, tr) \<Rightarrow> (Some (wrap ''create resolver directory: '' e), tr)
       | (None, tr) \<Rightarrow> (case fs_read E path tr of
           (Inr existing, tr) \<Rightarrow>
             if managed_content existing then replace_resolver E path (resolverFileContent domain nameservers) tr
             else (Some (EMsg (''resolver file '' @ path @ '' exists and is not managed by maclet'')), tr)
         | (Inl e, tr) \<Rightarrow>
             if is_sentinel NotExist e then replace_resolver E path (resolverFileContent domain nameservers) tr
             else (Some (wrap (''read resolver file '' @ path @ '': '') e), tr))))"

definition managedResolverFileMatches :: "env \<Rightarrow> string \<Rightarrow> string \<Rightarrow> string list \<Rightarrow> (err + bool) io" where
  "managedResolverFileMatches E path domain nameservers tr = (case fs_read E path tr of
       (Inl e, tr) \<Rightarrow> (if is_sentinel NotExist e then Inr False else Inl (wrap (''read resolver file '' @ path @ '': '') e), tr)
     | (Inr c, tr) \<Rightarrow> (Inr (managed_content c \<and> c = FBytes (resolverFileContent domain nameservers)), tr))"

definition removeManagedResolverFile :: "env \<Rightarrow> string \<Rightarrow> err option io" where
  "removeManagedResolverFile E path tr = (case fs_read E path tr of
       (Inl e, tr) \<Rightarrow> (if is_sentinel NotExist e then None else Some (wrap (''read resolver file '' @ path @ '': '') e), tr)
     | (Inr c, tr) \<Rightarrow>
         if \<not> managed_content c then (None, tr)
         else (case fs_do E (Remove path) tr of
            (Some e, tr) \<Rightarrow> (if is_sentinel NotExist e then None else Some (wrap (''remove resolver file '' @ path @ '': '') e), tr)
          | (None, tr) \<Rightarrow> (None, tr)))"

section \<open>The privileged helper\<close>

definition helper_args :: "bool \<Rightarrow> string list \<Rightarrow> string list" where
  "helper_args remove nameservers = ''resolver-helper'' #
     (if remove then [''--remove''] else concat (map (\<lambda>n. [''--nameserver'', n]) nameservers))"

definition runResolverHelper :: "env \<Rightarrow> err + string \<Rightarrow> bool \<Rightarrow> string list \<Rightarrow> err option io" where
  "runResolverHelper E executable remove nameservers tr = (case executable of
       Inl e \<Rightarrow> (Some (wrap ''locate maclet executable: '' e), tr)
     | Inr exe \<Rightarrow> (case privileged_command E True (exe # helper_args remove nameservers) tr of
         ((out, Some e), tr) \<Rightarrow> (Some (EWrap ''run privileged resolver helper: '' e ('': '' @ trim_space out)), tr)
       | ((_, None), tr) \<Rightarrow> (None, tr)))"

text \<open>The helper after its flags are parsed.\<close>

definition resolverHelperCommand :: "env \<Rightarrow> bool \<Rightarrow> string list \<Rightarrow> err option io" where
  "resolverHelperCommand E remove nameservers tr =
    (if remove then (if nameservers \<noteq> [] then (Some (EMsg ''--remove cannot be combined with --nameserver''), tr)
       else removeManagedResolverFile E defaultResolverPath tr)
     else writeManagedResolverFile E defaultResolverPath defaultResolverDomain nameservers tr)"

section \<open>The resolver of a session\<close>

definition newClusterDNSResolver :: "bool \<Rightarrow> string list \<Rightarrow> dns_resolver" where
  "newClusterDNSResolver sudo fallback = \<lparr>dr_path = defaultResolverPath, dr_domain = defaultResolverDomain, dr_sudo = sudo,
     dr_nameservers = [], dr_fallback = validNameservers fallback, dr_fallback_active = False, dr_owned = False\<rparr>"

definition resolver_write :: "env \<Rightarrow> err + string \<Rightarrow> dns_resolver \<Rightarrow> string list \<Rightarrow> err option io" where
  "resolver_write E executable r nameservers tr =
    (if dr_sudo r then runResolverHelper E executable False nameservers tr
     else writeManagedResolverFile E (dr_path r) (dr_domain r) nameservers tr)"

text \<open>The name servers of this round: the discovered ones, or the fallback when there is one.\<close>

definition choose_nameservers ::
  "env \<Rightarrow> api_client option \<Rightarrow> dns_resolver \<Rightarrow> trace \<Rightarrow> (err + string list) \<times> dns_resolver \<times> trace" where
  "choose_nameservers E client r tr = (case discoverClusterDNSNameservers E client tr of
       (Inr nameservers, tr) \<Rightarrow> (Inr nameservers, r\<lparr>dr_fallback_active := False\<rparr>, tr)
     | (Inl e, tr) \<Rightarrow> if dr_fallback r = [] then (Inl e, r, tr)
         else (Inr (dr_fallback r), r\<lparr>dr_fallback_active := True\<rparr>, tr))"

definition install_nameservers ::
  "env \<Rightarrow> err + string \<Rightarrow> dns_resolver \<Rightarrow> string list \<Rightarrow> trace \<Rightarrow> err option \<times> dns_resolver \<times> trace" where
  "install_nameservers E executable r nameservers tr = (case resolver_write E executable r nameservers tr of
       (Some e, tr) \<Rightarrow> (Some e, r, tr) | (None, tr) \<Rightarrow> (None, r\<lparr>dr_nameservers := nameservers, dr_owned := True\<rparr>, tr))"

definition resolver_reconcile ::
  "env \<Rightarrow> err + string \<Rightarrow> api_client option \<Rightarrow> dns_resolver \<Rightarrow> trace \<Rightarrow> err option \<times> dns_resolver \<times> trace" where
  "resolver_reconcile E executable client r tr = (case choose_nameservers E client r tr of
       (Inl e, r, tr) \<Rightarrow> (Some e, r, tr)
     | (Inr nameservers, r, tr) \<Rightarrow>
         if dr_nameservers r = nameservers \<and> dr_owned r
         then (case managedResolverFileMatches E (dr_path r) (dr_domain r) nameservers tr of
            (Inl e, tr) \<Rightarrow> (Some e, r, tr)
          | (Inr True, tr) \<Rightarrow> (None, r, tr)
          | (Inr False, tr) \<Rightarrow> install_nameservers E executable r nameservers tr)
         else install_nameservers E executable r nameservers tr)"

definition resolver_cleanup :: "env \<Rightarrow> err + string \<Rightarrow> dns_resolver \<Rightarrow> trace \<Rightarrow> err option \<times> dns_resolver \<times> trace" where
  "resolver_cleanup E executable r tr =
    (if \<not> dr_owned r then (None, r, tr)
     else (case (if dr_sudo r then runResolverHelper E executable True [] tr else removeManagedResolverFile E (dr_path r) tr) of
        (Some e, tr) \<Rightarrow> (Some e, r, tr) | (None, tr) \<Rightarrow> (None, r\<lparr>dr_owned := False, dr_nameservers := []\<rparr>, tr)))"

section \<open>The content of the file\<close>

lemma comment_line [simp]: "trim_space resolverManagedComment = resolverManagedComment"
  unfolding trim_space_def by (rule trim_of_id) (simp add: is_space_def)

lemma managed_written: "isManagedResolverFile (resolverFileContent domain nameservers)"
proof -
  have "newline \<notin> set resolverManagedComment" by simp
  then show ?thesis
    unfolding isManagedResolverFile_def resolverFileContent_def by (simp add: split_on_append_sep del: append.simps)
qed

section \<open>Files of others\<close>

text \<open>The newest answer to a read of the path.\<close>

definition read_answer :: "string \<Rightarrow> event \<Rightarrow> fs_response option" where
  "read_answer path e = (case e of EvFs q r \<Rightarrow> if q = ReadFile path then Some r else None | _ \<Rightarrow> None)"

primrec last_read :: "string \<Rightarrow> trace \<Rightarrow> fs_response option" where
  "last_read path [] = None"
| "last_read path (e # tr) = (case read_answer path e of Some r \<Rightarrow> Some r | None \<Rightarrow> last_read path tr)"

definition replaces :: "string \<Rightarrow> event \<Rightarrow> bool" where
  "replaces path e \<longleftrightarrow> (case e of EvFs (Remove p) r \<Rightarrow> p = path | EvFs (Rename tmp p) r \<Rightarrow> p = path | _ \<Rightarrow> False)"

text \<open>The file was just read and is maclet's own, or does not exist.\<close>

definition free_to_replace :: "string \<Rightarrow> trace \<Rightarrow> bool" where
  "free_to_replace path tr \<longleftrightarrow> (\<exists>c. last_read path tr = Some (FData c) \<and> managed_content c) \<or>
     (\<exists>e. last_read path tr = Some (FErr e) \<and> is_sentinel NotExist e)"

definition guarded :: "string \<Rightarrow> trace \<Rightarrow> bool" where
  "guarded path es \<longleftrightarrow> trace_all (\<lambda>e pre. replaces path e \<longrightarrow> free_to_replace path pre) es"

lemma empty_unmanaged [simp]: "\<not> isManagedResolverFile []"
  by (simp add: isManagedResolverFile_def trim_space_def trim_of_def trim_right_of_def)

lemma guarded_mild:
  assumes "list_all (\<lambda>e. read_answer path e = None) es" "free_to_replace path pre" "guarded path pre"
  shows "guarded path (es @ pre) \<and> last_read path (es @ pre) = last_read path pre"
  using assms by (induction es) (auto simp: guarded_def free_to_replace_def)

lemma guarded_other:
  assumes "list_all (\<lambda>e. \<not> replaces path e) es" "guarded path pre"
  shows "guarded path (es @ pre)"
  using assms by (induction es) (auto simp: guarded_def)

lemma replace_resolver_mild: "emits (\<lambda>e. read_answer path e = None) (replace_resolver E path content)"
  unfolding replace_resolver_def [abs_def] install_resolver_def [abs_def] Let_def
  by (intro emits_intros) (simp_all add: read_answer_def)

lemma writeManaged_guarded:
  assumes "writeManagedResolverFile E path domain nameservers tr = (r, tr')"
  shows "\<exists>es. tr' = es @ tr \<and> guarded path es"
proof -
  let ?md = "EvFs (MkdirAll (path_dir path) 493) (e_fs E tr (MkdirAll (path_dir path) 493))"
  define a where "a = e_fs E (?md # tr) (ReadFile path)"
  let ?rd = "EvFs (ReadFile path) a"
  have g1: "guarded path [?md]" and g2: "guarded path [?rd, ?md]" by (simp_all add: guarded_def replaces_def)
  consider (early) "tr' = tr" | (mkdir) "tr' = ?md # tr" | (kept) "tr' = ?rd # ?md # tr"
    | (replaced) "free_to_replace path [?rd, ?md]"
        "replace_resolver E path (resolverFileContent domain nameservers) (?rd # ?md # tr) = (r, tr')"
    using assms unfolding a_def
    by (auto simp: writeManagedResolverFile_def fs_do_eq fs_read_def call_fs_def Let_def free_to_replace_def read_answer_def
        managed_content_def split: option.splits fs_response.splits if_splits)
  then show ?thesis
  proof cases
    case early
    then show ?thesis by (simp add: guarded_def)
  next
    case mkdir
    with g1 show ?thesis by (intro exI [of _ "[?md]"]) simp
  next
    case kept
    with g2 show ?thesis by (intro exI [of _ "[?rd, ?md]"]) simp
  next
    case replaced
    from emitsD [OF replace_resolver_mild replaced(2)] obtain es where
      es: "tr' = es @ ?rd # ?md # tr" "list_all (\<lambda>e. read_answer path e = None) es" by blast
    from guarded_mild [OF es(2) replaced(1) g2] es(1) show ?thesis by (intro exI [of _ "es @ [?rd, ?md]"]) simp
  qed
qed

lemma removeManaged_guarded:
  assumes "removeManagedResolverFile E path tr = (r, tr')"
  shows "\<exists>es. tr' = es @ tr \<and> guarded path es"
proof -
  define a where "a = e_fs E tr (ReadFile path)"
  let ?rd = "EvFs (ReadFile path) a"
  consider (kept) "tr' = [?rd] @ tr" | (removed) x where "free_to_replace path [?rd]" "tr' = [EvFs (Remove path) x, ?rd] @ tr"
    using assms unfolding a_def
    by (auto simp: removeManagedResolverFile_def fs_do_eq fs_read_def call_fs_def Let_def free_to_replace_def read_answer_def
        managed_content_def split: option.splits fs_response.splits if_splits)
  then show ?thesis
    by cases (fastforce simp: guarded_def replaces_def)+
qed

lemma last_read_append: "last_read path (es @ tr) = (case last_read path es of Some r \<Rightarrow> Some r | None \<Rightarrow> last_read path tr)"
  by (induction es) (auto split: option.splits)

lemma guarded_append: "guarded path es \<Longrightarrow> guarded path tr \<Longrightarrow> guarded path (es @ tr)"
  unfolding guarded_def trace_all_append
  by (induction es) (auto simp: free_to_replace_def last_read_append)

definition guards :: "string \<Rightarrow> trace \<Rightarrow> trace \<Rightarrow> bool" where
  "guards path tr tr' \<longleftrightarrow> (\<exists>es. tr' = es @ tr \<and> guarded path es)"

lemma guards_refl [simp, intro]: "guards path tr tr"
  by (simp add: guards_def guarded_def)

lemma guards_trans [trans]: "guards path a b \<Longrightarrow> guards path b c \<Longrightarrow> guards path a c"
  unfolding guards_def by (metis append_assoc guarded_append)

lemma guards_here: "guards path tr (es @ tr) \<longleftrightarrow> guarded path es"
  by (simp add: guards_def)

lemma guards_event: "\<not> replaces path e \<Longrightarrow> guards path tr (e # tr)"
  unfolding guards_def by (rule exI [of _ "[e]"]) (simp add: guarded_def)

lemma discover_guards: "discoverClusterDNSNameservers E client tr = (x, tr') \<Longrightarrow> guards path tr tr'"
  by (auto simp: discoverClusterDNSNameservers_def call_api_def Let_def replaces_def intro!: guards_event
      split: option.splits sum.splits kobj.splits if_splits)

lemma matches_guards: "managedResolverFileMatches E path' domain nameservers tr = (x, tr') \<Longrightarrow> guards path tr tr'"
  by (auto simp: managedResolverFileMatches_def fs_read_def call_fs_def Let_def replaces_def intro!: guards_event
      split: fs_response.splits)

lemma helper_guards: "runResolverHelper E executable remove nameservers tr = (x, tr') \<Longrightarrow> guards path tr tr'"
  by (auto simp: runResolverHelper_def call_defs Let_def replaces_def intro!: guards_event
      split: sum.splits option.splits prod.splits)

lemma write_guards: "resolver_write E executable r nameservers tr = (x, tr') \<Longrightarrow> guards (dr_path r) tr tr'"
  using writeManaged_guarded helper_guards by (fastforce simp: resolver_write_def guards_def split: if_splits)

lemma install_guards: "install_nameservers E executable r nameservers tr = (x, r', tr') \<Longrightarrow> guards (dr_path r) tr tr'"
  by (auto simp: install_nameservers_def split: prod.splits option.splits dest: write_guards)

lemma reconcile_guards:
  assumes "resolver_reconcile E executable client r tr = (x, r', tr')"
  shows "guards (dr_path r) tr tr'"
proof -
  obtain c r1 tr1 where c: "choose_nameservers E client r tr = (c, r1, tr1)" by (metis surj_pair)
  then have p: "dr_path r1 = dr_path r" and g: "guards (dr_path r) tr tr1"
    by (auto simp: choose_nameservers_def split: prod.splits sum.splits if_splits dest: discover_guards)
  consider (stopped) "tr' = tr1" | (matched) ns y where "managedResolverFileMatches E (dr_path r1) (dr_domain r1) ns tr1 = (y, tr')"
    | (again) ns y tr2 where "managedResolverFileMatches E (dr_path r1) (dr_domain r1) ns tr1 = (y, tr2)"
        "install_nameservers E executable r1 ns tr2 = (x, r', tr')"
    | (installed) ns where "install_nameservers E executable r1 ns tr1 = (x, r', tr')"
    using assms c by (auto simp: resolver_reconcile_def split: sum.splits if_splits prod.splits bool.splits)
  then show ?thesis
  proof cases
    case stopped
    with g show ?thesis by simp
  next
    case matched
    with g matches_guards guards_trans show ?thesis by blast
  next
    case again
    with g matches_guards install_guards [OF again(2)] p guards_trans show ?thesis by metis
  next
    case installed
    with g install_guards [OF installed] p guards_trans show ?thesis by metis
  qed
qed

lemma cleanup_guards:
  assumes "resolver_cleanup E executable r tr = (x, r', tr')"
  shows "guards (dr_path r) tr tr'"
proof (cases "dr_owned r")
  case False
  with assms show ?thesis by (simp add: resolver_cleanup_def)
next
  case True
  define run where "run = (if dr_sudo r then runResolverHelper E executable True [] tr else removeManagedResolverFile E (dr_path r) tr)"
  have "resolver_cleanup E executable r tr = (case run of (Some e, tr) \<Rightarrow> (Some e, r, tr)
      | (None, tr) \<Rightarrow> (None, r\<lparr>dr_owned := False, dr_nameservers := []\<rparr>, tr))"
    using True by (simp add: resolver_cleanup_def run_def)
  with assms obtain y where y: "run = (y, tr')" by (cases run; cases "fst run") auto
  show ?thesis
  proof (cases "dr_sudo r")
    case True
    with y helper_guards show ?thesis by (simp add: run_def)
  next
    case False
    with y removeManaged_guarded show ?thesis by (simp add: run_def guards_def)
  qed
qed

lemma helper_command_guards:
  assumes "resolverHelperCommand E remove nameservers tr = (x, tr')"
  shows "guards defaultResolverPath tr tr'"
proof (cases remove)
  case True
  show ?thesis
  proof (cases "nameservers = []")
    case True
    with assms \<open>remove\<close> have "removeManagedResolverFile E defaultResolverPath tr = (x, tr')"
      by (simp add: resolverHelperCommand_def)
    with removeManaged_guarded show ?thesis by (simp add: guards_def)
  next
    case False
    with assms \<open>remove\<close> show ?thesis by (simp add: resolverHelperCommand_def)
  qed
next
  case False
  with assms have "writeManagedResolverFile E defaultResolverPath defaultResolverDomain nameservers tr = (x, tr')"
    by (simp add: resolverHelperCommand_def)
  with writeManaged_guarded show ?thesis by (simp add: guards_def)
qed

text \<open>
  C27: whatever the resolver does at a heartbeat, at shutdown or in its privileged helper, it
  replaces or removes the resolver file only directly after it read the file and found its own
  marker, or found no file.
\<close>

theorem foreign_resolver_file_kept:
  shows "(resolver_reconcile E executable client r tr = (x, r', es @ tr) \<longrightarrow> guarded (dr_path r) es) \<and>
    (resolver_cleanup E executable r tr = (x, r', es @ tr) \<longrightarrow> guarded (dr_path r) es) \<and>
    (resolverHelperCommand E remove nameservers tr = (x, es @ tr) \<longrightarrow> guarded defaultResolverPath es)"
  by (intro conjI impI; drule reconcile_guards cleanup_guards helper_command_guards; simp only: guards_here)

section \<open>What the file says\<close>

lemma nameserver_lines:
  "list_all (\<lambda>n. newline \<notin> set n) ns \<Longrightarrow>
    split_on newline (concat (map (\<lambda>n. ''nameserver '' @ n @ [newline]) ns)) = map (\<lambda>n. ''nameserver '' @ n) ns @ [[]]"
proof (induction ns)
  case (Cons n ns)
  then have "newline \<notin> set (''nameserver '' @ n)" by simp
  from split_on_append_sep [OF this] Cons show ?case by simp
qed simp

lemma resolver_content_inject:
  assumes "list_all (\<lambda>n. newline \<notin> set n) ns" "list_all (\<lambda>n. newline \<notin> set n) ns'"
    and "resolverFileContent domain ns = resolverFileContent domain ns'"
  shows "ns = ns'"
proof -
  have "split_on newline (concat (map (\<lambda>n. ''nameserver '' @ n @ [newline]) ns)) =
      split_on newline (concat (map (\<lambda>n. ''nameserver '' @ n @ [newline]) ns'))"
    using assms(3) by (simp add: resolverFileContent_def)
  then have "map (\<lambda>n. ''nameserver '' @ n) ns = map (\<lambda>n. ''nameserver '' @ n) ns'"
    unfolding nameserver_lines [OF assms(1)] nameserver_lines [OF assms(2)] by (rule append_same_eq [THEN iffD1])
  moreover have "inj (\<lambda>n. ''nameserver '' @ n)" by (simp add: inj_def)
  ultimately show ?thesis by (simp add: inj_map_eq_map)
qed

text \<open>
  A file with the content that was written for some name servers is recognised as maclet's
  own, and it matches a list of name servers exactly when it was written for that list.
\<close>

theorem resolver_file_roundtrip:
  assumes "e_fs E tr (ReadFile path) = FData (FBytes (resolverFileContent domain ns))"
    and "list_all (\<lambda>n. newline \<notin> set n) ns" "list_all (\<lambda>n. newline \<notin> set n) ns'"
  shows "fst (managedResolverFileMatches E path domain ns' tr) = Inr (ns' = ns)"
  using assms resolver_content_inject
  by (auto simp: managedResolverFileMatches_def fs_read_def call_fs_def Let_def managed_content_def managed_written)

definition resolver_env :: env where
  "resolver_env = quiet_env\<lparr>e_fs := \<lambda>_ q. (case q of
       ReadFile _ \<Rightarrow> FData (FBytes (resolverFileContent defaultResolverDomain [''10.43.0.10'']))
     | CreateTemp _ _ \<Rightarrow> FNames [''/etc/resolver/.tmp''] | _ \<Rightarrow> FDone)\<rparr>"

lemma foreign_resolver_file_kept_witness:
  "\<exists>r es. resolverHelperCommand resolver_env False [''10.43.0.11''] [] = (None, es @ []) \<and>
    list_ex (replaces defaultResolverPath) es \<and> guarded defaultResolverPath es"
proof -
  let ?r = "resolverHelperCommand resolver_env False [''10.43.0.11''] []"
  have v: "fst ?r = None" "list_ex (replaces defaultResolverPath) (snd ?r)" by code_simp+
  then obtain es where es: "?r = (None, es @ [])" by (metis append_Nil2 prod.collapse)
  from foreign_resolver_file_kept [THEN conjunct2, THEN conjunct2, rule_format, OF es] es v show ?thesis by auto
qed

lemma resolver_file_roundtrip_witness:
  "fst (managedResolverFileMatches resolver_env defaultResolverPath defaultResolverDomain [''10.43.0.11''] []) = Inr False"
  using resolver_file_roundtrip [of resolver_env "[]" defaultResolverPath defaultResolverDomain "[''10.43.0.10'']" "[''10.43.0.11'']"]
  by (simp add: resolver_env_def)

end
