(* ===== verification/LocalState.thy ===== *)
theory LocalState
  imports Manager Types
begin

text \<open>
  The persisted state of a join, \<^verbatim>\<open>state.json\<close>: its format (\<^verbatim>\<open>types.go\<close> 5--27), how it is written
  (\<^verbatim>\<open>state_material.go\<close> 60--66) and read back by the other commands (\<^verbatim>\<open>leave.go\<close> 34--48), and the
  two identities that are added to it, the instance ID and the UID of the Node (\<^verbatim>\<open>ownership.go\<close>
  29--42 and 95--107).  The random bytes of a fresh instance ID are a parameter.
\<close>

definition encode_state :: "local_state \<Rightarrow> json" where
  "encode_state s = JObj ((''version'', JInt (st_version s)) # (''server'', JStr (st_server s)) #
     (''nodeName'', JStr (st_node_name s)) # (''nodeIP'', JStr (st_node_ip s)) #
     omit_str ''instanceID'' (st_instance_id s) @ omit_str ''nodeUID'' (st_node_uid s) @
     omit_str ''externalIP'' (st_external_ip s) @ omit_str ''peerKubeconfig'' (st_peer_kubeconfig s) @
     omit_str ''peerContext'' (st_peer_context s) @ (''caFile'', JStr (st_ca_file s)) #
     (''clientCert'', JStr (st_client_cert s)) # (''clientKey'', JStr (st_client_key s)) #
     omit_str ''clientCA'' (st_client_ca s) @ omit_str ''controllerCert'' (st_controller_cert s) @
     omit_str ''controllerKey'' (st_controller_key s) @ omit_str ''clusterCIDR'' (st_cluster_cidr s) @
     omit_str ''serviceCIDR'' (st_service_cidr s) @ omit_list ''clusterDNS'' (map JStr (st_cluster_dns s)) @
     omit_str ''servingCert'' (st_serving_cert s) @ omit_str ''servingKey'' (st_serving_key s) @
     [(''passwordFile'', JStr (st_password_file s))])"

definition decode_state :: "json \<Rightarrow> local_state option" where
  "decode_state j = do {
     fs \<leftarrow> j_obj j;
     version \<leftarrow> j_int (jget fs ''version''); server \<leftarrow> j_str (jget fs ''server'');
     name \<leftarrow> j_str (jget fs ''nodeName''); ip \<leftarrow> j_str (jget fs ''nodeIP'');
     instanceID \<leftarrow> j_str (jget fs ''instanceID''); uid \<leftarrow> j_str (jget fs ''nodeUID'');
     ext \<leftarrow> j_str (jget fs ''externalIP''); pk \<leftarrow> j_str (jget fs ''peerKubeconfig'');
     pc \<leftarrow> j_str (jget fs ''peerContext''); ca \<leftarrow> j_str (jget fs ''caFile'');
     cc \<leftarrow> j_str (jget fs ''clientCert''); ck \<leftarrow> j_str (jget fs ''clientKey'');
     cca \<leftarrow> j_str (jget fs ''clientCA''); kc \<leftarrow> j_str (jget fs ''controllerCert'');
     kk \<leftarrow> j_str (jget fs ''controllerKey''); cidr \<leftarrow> j_str (jget fs ''clusterCIDR'');
     scidr \<leftarrow> j_str (jget fs ''serviceCIDR''); dns \<leftarrow> j_strs (jget fs ''clusterDNS'');
     sc \<leftarrow> j_str (jget fs ''servingCert''); sk \<leftarrow> j_str (jget fs ''servingKey'');
     pw \<leftarrow> j_str (jget fs ''passwordFile'');
     Some \<lparr>st_version = version, st_server = server, st_node_name = name, st_node_ip = ip,
       st_instance_id = instanceID, st_node_uid = uid, st_external_ip = ext, st_peer_kubeconfig = pk,
       st_peer_context = pc, st_ca_file = ca, st_client_cert = cc, st_client_key = ck, st_client_ca = cca,
       st_controller_cert = kc, st_controller_key = kk, st_cluster_cidr = cidr, st_service_cidr = scidr,
       st_cluster_dns = dns, st_serving_cert = sc, st_serving_key = sk, st_password_file = pw\<rparr> }"

definition state_path :: "string \<Rightarrow> string" where
  "state_path stateDir = path_join [stateDir, ''state.json'']"

definition writeLocalState :: "env \<Rightarrow> string \<Rightarrow> local_state \<Rightarrow> err option io" where
  "writeLocalState E path s tr = writePrivateFile E path (FJson (encode_state s)) 384 tr"

definition readLocalState :: "env \<Rightarrow> string \<Rightarrow> (err + local_state) io" where
  "readLocalState E stateDir tr = (let path = state_path stateDir in
     case fs_read E path tr of
       (Inl e, tr) \<Rightarrow> (Inl (EWrap (''read maclet state '' @ path @ '': '') e '' (run maclet join first)''), tr)
     | (Inr c, tr) \<Rightarrow> (case Option.bind (decode_content c) decode_state of
         None \<Rightarrow> (Inl (wrap (''decode maclet state '' @ path @ '': '') json_error), tr)
       | Some s \<Rightarrow> if st_server s = [] \<or> st_node_name s = []
           then (Inl (EMsg (''maclet state '' @ path @ '' is incomplete'')), tr) else (Inr s, tr)))"

text \<open>A rejoin refuses a state that belongs to another server or Node (\<^verbatim>\<open>bootstrap.go\<close> 97--102).\<close>

definition state_mismatch :: "join_config \<Rightarrow> local_state \<Rightarrow> err option" where
  "state_mismatch cfg s =
    (if jc_server cfg \<noteq> [] \<and> jc_server cfg \<noteq> st_server s
     then Some (EMsg (''state belongs to '' @ st_server s @ '', not '' @ jc_server cfg))
     else if jc_node_name cfg \<noteq> [] \<and> jc_node_name cfg \<noteq> st_node_name s
     then Some (EMsg (''state belongs to node '' @ st_node_name s @ '', not '' @ jc_node_name cfg))
     else None)"

definition ensureStateInstanceID ::
  "env \<Rightarrow> err + string \<Rightarrow> string \<Rightarrow> local_state \<Rightarrow> trace \<Rightarrow> err option \<times> local_state \<times> trace" where
  "ensureStateInstanceID E fresh path s tr =
    (if st_instance_id s \<noteq> [] then (None, s, tr)
     else (case fresh of
        Inl e \<Rightarrow> (Some (wrap ''generate maclet instance ID: '' e), s, tr)
      | Inr ident \<Rightarrow> (let s = s\<lparr>st_instance_id := ident\<rparr> in
          case writeLocalState E path s tr of
            (Some e, tr) \<Rightarrow> (Some (wrap ''persist maclet instance ID: '' e), s, tr)
          | (None, tr) \<Rightarrow> (None, s, tr))))"

section \<open>The format keeps everything\<close>

lemma decode_encode_state: "decode_state (encode_state s) = Some s"
  by (simp add: encode_state_def decode_state_def split del: if_split cong: if_cong)

interpretation state_codec: codec encode_state decode_state "\<lambda>_. True"
  by unfold_locales (rule decode_encode_state)

definition complete :: "local_state \<Rightarrow> bool" where
  "complete s \<longleftrightarrow> st_server s \<noteq> [] \<and> st_node_name s \<noteq> []"

text \<open>
  C32: a state that was written is installed in one piece under its path, distinct states have
  distinct files, and whoever reads the installed content back gets the complete state that was
  written.
\<close>

theorem state_roundtrip:
  assumes "writeLocalState E (state_path dir) s tr = (None, tr')"
  shows "installed (state_path dir) (FJson (encode_state s)) tr' \<and>
    (complete s \<longrightarrow> e_fs E tr2 (ReadFile (state_path dir)) = FData (FJson (encode_state s)) \<longrightarrow>
      fst (readLocalState E dir tr2) = Inr s) \<and>
    (encode_state s = encode_state s' \<longrightarrow> s = s')"
proof (intro conjI impI)
  show "installed (state_path dir) (FJson (encode_state s)) tr'"
    using assms writePrivateFile_ok unfolding writeLocalState_def by blast
  show "s = s'" if "encode_state s = encode_state s'"
    using that by (rule state_codec.enc_inject [OF TrueI TrueI])
  show "fst (readLocalState E dir tr2) = Inr s"
    if "complete s" "e_fs E tr2 (ReadFile (state_path dir)) = FData (FJson (encode_state s))"
    using that by (simp add: readLocalState_def fs_read_def call_fs_def Let_def decode_content_def decode_encode_state complete_def)
qed

definition demo_state :: local_state where
  "demo_state = \<lparr>st_version = 1, st_server = ''https://192.0.2.1:6443'', st_node_name = ''mac'',
     st_node_ip = ''192.0.2.10'', st_instance_id = ''0f'', st_node_uid = '''', st_external_ip = '''',
     st_peer_kubeconfig = '''', st_peer_context = '''', st_ca_file = ''ca'', st_client_cert = ''cc'',
     st_client_key = ''ck'', st_client_ca = '''', st_controller_cert = '''', st_controller_key = '''',
     st_cluster_cidr = ''10.42.0.0/16'', st_service_cidr = '''', st_cluster_dns = [''10.43.0.10''],
     st_serving_cert = '''', st_serving_key = '''', st_password_file = ''pw''\<rparr>"

definition state_env :: env where
  "state_env = quiet_env\<lparr>e_fs := \<lambda>_ q. (case q of
       ReadFile _ \<Rightarrow> FData (FJson (encode_state demo_state))
     | CreateTemp _ _ \<Rightarrow> FNames [''/state/.maclet-1''] | _ \<Rightarrow> FDone)\<rparr>"

lemma state_roundtrip_witness:
  "\<exists>tr'. writeLocalState state_env (state_path ''/state'') demo_state [] = (None, tr') \<and>
    installed (state_path ''/state'') (FJson (encode_state demo_state)) tr' \<and>
    fst (readLocalState state_env ''/state'' tr') = Inr demo_state"
proof -
  let ?r = "writeLocalState state_env (state_path ''/state'') demo_state []"
  have "fst ?r = None" by code_simp
  then have r: "?r = (None, snd ?r)" by (metis prod.collapse)
  have "e_fs state_env (snd ?r) (ReadFile (state_path ''/state'')) = FData (FJson (encode_state demo_state))"
    by (simp add: state_env_def)
  moreover have "complete demo_state" by (simp add: complete_def demo_state_def)
  ultimately show ?thesis using r state_roundtrip [OF r] by metis
qed

end
