(* ===== verification/SearchDomains.thy ===== *)
theory SearchDomains
  imports DnsResolver LocalState
begin

text \<open>
  \<^verbatim>\<open>dns_search_domains.go\<close>: the search domains of one macOS network service.  maclet sets its list
  only on a service that carries no domain of somebody else, hands the service back when another
  manager adds one, and clears its own domains at shutdown and on \<^verbatim>\<open>leave\<close>.  The commands are
  \<^verbatim>\<open>networksetup\<close> and \<^verbatim>\<open>scutil\<close>.
\<close>

abbreviation defaultSearchDomains :: "string list" where
  "defaultSearchDomains \<equiv> [''svc.cluster.local'', ''cluster.local'']"

record search_domains =
  sd_domains :: "string list"
  sd_device :: string
  sd_service :: string
  sd_sudo :: bool
  sd_owned :: bool
  sd_foreign :: "string list"
  sd_foreign_logged :: bool
  sd_verified :: bool
  sd_resolved_device :: string

section \<open>Lists of domains\<close>

definition normal_domain :: "string \<Rightarrow> string" where
  "normal_domain d = trim_suffix (to_lower (trim_space d)) ''.''"

fun normalize_loop :: "string list \<Rightarrow> string list \<Rightarrow> string list" where
  "normalize_loop seen [] = []"
| "normalize_loop seen (d # ds) = (let d = normal_domain d in
     if d = [] \<or> d \<in> set seen \<or> d = ''none'' \<or> d = ''empty'' then normalize_loop seen ds
     else d # normalize_loop (d # seen) ds)"

definition normalizeSearchDomains :: "string list \<Rightarrow> string list" where
  "normalizeSearchDomains ds = normalize_loop [] ds"

definition splitSearchDomains :: "string list \<Rightarrow> string list \<Rightarrow> string list \<times> string list" where
  "splitSearchDomains current managed = (let ds = normalizeSearchDomains current in
     (filter (\<lambda>d. d \<in> set managed) ds, filter (\<lambda>d. d \<notin> set managed) ds))"

definition searchDomainsArgs :: "string \<Rightarrow> string list \<Rightarrow> string list" where
  "searchDomainsArgs service domains = [''-setsearchdomains'', service] @ (if domains = [] then [''Empty''] else domains)"

section \<open>The output of the commands\<close>

fun effective_lines :: "string list \<Rightarrow> string list" where
  "effective_lines [] = []"
| "effective_lines (raw # ls) = (let line = trim_space raw in
     if has_prefix line ''DNS configuration (for scoped queries)'' then []
     else if \<not> has_prefix line ''search domain['' then effective_lines ls
     else (case str_cut CHR '':'' line of (_, value, found) \<Rightarrow>
       if found then trim_space value # effective_lines ls else effective_lines ls))"

definition parseEffectiveSearchDomains :: "string \<Rightarrow> string list" where
  "parseEffectiveSearchDomains output = normalizeSearchDomains (effective_lines (split_on newline output))"

definition parseSearchDomains :: "string \<Rightarrow> string list" where
  "parseSearchDomains output = normalizeSearchDomains (filter
     (\<lambda>line. line \<noteq> [] \<and> \<not> str_contains line (''There aren'' @ [CHR 0x27] @ ''t any Search Domains''))
     (map trim_space (split_on newline output)))"

text \<open>One line of the list of services, with the name of the service that is pending.\<close>

definition service_line :: "string \<Rightarrow> string \<Rightarrow> string" where
  "service_line line service =
    (if \<not> has_prefix line ''('' then (if has_prefix line ''*'' then [] else service)
     else (case str_index (drop 1 line) '')'' of
        None \<Rightarrow> service
      | Some end \<Rightarrow> (let marker = take end (drop 1 line); name = trim_space (drop (end + 1) (drop 1 line)) in
          if name = [] \<or> str_contains marker ''*'' then [] else name)))"

fun service_loop :: "string list \<Rightarrow> string \<Rightarrow> string \<Rightarrow> string" where
  "service_loop [] device service = []"
| "service_loop (raw # ls) device service = (let line = trim_space raw in
     if line = [] then service_loop ls device service
     else if has_prefix line ''(Hardware Port:''
     then (if has_suffix line (''Device: '' @ device @ '')'') then service else service_loop ls device [])
     else service_loop ls device (service_line line service))"

definition parseNetworkServiceDevice :: "string \<Rightarrow> string \<Rightarrow> string" where
  "parseNetworkServiceDevice output device = service_loop (split_on newline output) device []"

section \<open>The device of an address\<close>

definition underlayDeviceForIP :: "env \<Rightarrow> string \<Rightarrow> (err + string) io" where
  "underlayDeviceForIP E address tr =
    (if trim_space address = [] then (Inl (EMsg ''underlay address is empty''), tr)
     else (case interfaceForAddress E (address @ ''/32'') tr of
        (Inl e, tr) \<Rightarrow> (Inl (wrap (''find device for underlay address '' @ address @ '': '') e), tr)
      | (Inr device, tr) \<Rightarrow> (if device = [] then Inl (EMsg (''no network device holds underlay address '' @ address)) else Inr device, tr)))"

definition searchDomainUnderlayIP :: "join_config \<Rightarrow> local_state option \<Rightarrow> string" where
  "searchDomainUnderlayIP cfg state =
    (case List.find (\<lambda>c. trim_space c \<noteq> []) ([jc_vxlan_local cfg, jc_node_ip cfg, jc_external_ip cfg] @
        (case state of Some s \<Rightarrow> [st_node_ip s] | None \<Rightarrow> [])) of
       Some c \<Rightarrow> trim_space c | None \<Rightarrow> [])"

section \<open>Operations on the service\<close>

definition newClusterDNSSearchDomains :: "bool \<Rightarrow> string \<Rightarrow> string \<Rightarrow> string list \<Rightarrow> search_domains" where
  "newClusterDNSSearchDomains sudo device service domains =
     \<lparr>sd_domains = normalizeSearchDomains (if domains = [] then defaultSearchDomains else domains), sd_device = device,
       sd_service = trim_space service, sd_sudo = sudo, sd_owned = False, sd_foreign = [], sd_foreign_logged = False,
       sd_verified = False, sd_resolved_device = []\<rparr>"

definition networksetup :: "env \<Rightarrow> bool \<Rightarrow> string list \<Rightarrow> (string \<times> err option) io" where
  "networksetup E privileged args tr = privileged_command E privileged (''networksetup'' # args) tr"

definition resolveService :: "env \<Rightarrow> search_domains \<Rightarrow> trace \<Rightarrow> err option \<times> search_domains \<times> trace" where
  "resolveService E s tr =
    (if sd_service s \<noteq> [] then (None, s, tr)
     else if sd_device s = []
     then (Some (EMsg ''search domain management needs a network device or an explicit --dns-search-domain-service''), s, tr)
     else (case networksetup E False [''-listnetworkserviceorder''] tr of
        ((_, Some e), tr) \<Rightarrow> (Some (wrap ''list macOS network services: '' e), s, tr)
      | ((output, None), tr) \<Rightarrow> (let service = parseNetworkServiceDevice output (sd_device s) in
          if service = [] then (Some (EMsg (''no macOS network service owns device '' @ sd_device s @
              ''; pass --dns-search-domain-service explicitly'')), s, tr)
          else (None, s\<lparr>sd_service := service, sd_resolved_device := sd_device s\<rparr>, tr))))"

definition searchDomains :: "env \<Rightarrow> search_domains \<Rightarrow> (err + string list) io" where
  "searchDomains E s tr = (case networksetup E False [''-getsearchdomains'', sd_service s] tr of
       ((_, Some e), tr) \<Rightarrow> (Inl (wrap (''read macOS search domains for '' @ sd_service s @ '': '') e), tr)
     | ((output, None), tr) \<Rightarrow> (Inr (parseSearchDomains output), tr))"

definition apply_domains :: "env \<Rightarrow> search_domains \<Rightarrow> string list \<Rightarrow> err option io" where
  "apply_domains E s domains tr = (case networksetup E True (searchDomainsArgs (sd_service s) domains) tr of
       ((output, Some e), tr) \<Rightarrow> (Some (EWrap (''set macOS search domains for '' @ sd_service s @ '': '') e ('': '' @ trim_space output)), tr)
     | ((_, None), tr) \<Rightarrow> (None, tr))"

text \<open>\<^verbatim>\<open>effectiveSearchDomains\<close> and \<^verbatim>\<open>verify\<close>: whether every domain is live; the failure is only logged.\<close>

definition effectiveSearchDomains :: "env \<Rightarrow> (err + string list) io" where
  "effectiveSearchDomains E tr = (case privileged_command E False [''scutil'', ''--dns''] tr of
       ((_, Some e), tr) \<Rightarrow> (Inl (wrap ''read macOS resolver chain: '' e), tr)
     | ((output, None), tr) \<Rightarrow> (Inr (parseEffectiveSearchDomains output), tr))"

definition verify_domains :: "env \<Rightarrow> search_domains \<Rightarrow> (err + bool) io" where
  "verify_domains E s tr = (case effectiveSearchDomains E tr of
       (Inl e, tr) \<Rightarrow> (Inl e, tr)
     | (Inr effective, tr) \<Rightarrow> (Inr (list_all (\<lambda>d. d \<in> set effective) (sd_domains s)), tr))"

section \<open>Reconciliation and cleanup\<close>

definition release_service :: "env \<Rightarrow> search_domains \<Rightarrow> string list \<Rightarrow> trace \<Rightarrow> err option \<times> search_domains \<times> trace" where
  "release_service E s foreign tr =
    (if sd_owned s then (case apply_domains E s foreign tr of
        (Some e, tr) \<Rightarrow> (Some e, s, tr) | (None, tr) \<Rightarrow> (None, s\<lparr>sd_owned := False, sd_foreign := []\<rparr>, tr))
     else (None, s\<lparr>sd_foreign_logged := True\<rparr>, tr))"

definition publish_domains :: "env \<Rightarrow> search_domains \<Rightarrow> string list \<Rightarrow> trace \<Rightarrow> err option \<times> search_domains \<times> trace" where
  "publish_domains E s current tr =
    (if sd_owned s \<and> current = sd_domains s then (None, s, tr)
     else (case apply_domains E s (sd_domains s) tr of
        (Some e, tr) \<Rightarrow> (Some e, s, tr)
      | (None, tr) \<Rightarrow> (case verify_domains E s tr of
          (live, tr) \<Rightarrow> (None, s\<lparr>sd_owned := True, sd_foreign := [], sd_verified := (live = Inr True)\<rparr>, tr))))"

definition search_reconcile :: "env \<Rightarrow> search_domains \<Rightarrow> trace \<Rightarrow> err option \<times> search_domains \<times> trace" where
  "search_reconcile E s tr =
    (if sd_domains s = [] then (None, s, tr)
     else (case resolveService E s tr of
        (Some e, s, tr) \<Rightarrow> (Some e, s, tr)
      | (None, s, tr) \<Rightarrow> (case searchDomains E s tr of
          (Inl e, tr) \<Rightarrow> (Some e, s, tr)
        | (Inr current, tr) \<Rightarrow> (let foreign = snd (splitSearchDomains current (sd_domains s)) in
            if foreign \<noteq> [] then release_service E s foreign tr else publish_domains E s current tr))))"

definition search_cleanup :: "env \<Rightarrow> search_domains \<Rightarrow> trace \<Rightarrow> err option \<times> search_domains \<times> trace" where
  "search_cleanup E s tr =
    (if \<not> sd_owned s then (None, s, tr)
     else (case resolveService E s tr of
        (Some e, s, tr) \<Rightarrow> (Some e, s, tr)
      | (None, s, tr) \<Rightarrow> (case searchDomains E s tr of
          (Inl e, tr) \<Rightarrow> (Some e, s, tr)
        | (Inr current, tr) \<Rightarrow>
            (case apply_domains E s (normalizeSearchDomains (sd_foreign s @ snd (splitSearchDomains current (sd_domains s)))) tr of
               (Some e, tr) \<Rightarrow> (Some e, s, tr)
             | (None, tr) \<Rightarrow> (None, s\<lparr>sd_owned := False, sd_foreign := []\<rparr>, tr)))))"

section \<open>The record for \<^verbatim>\<open>leave\<close>\<close>

definition searchDomainsStatePath :: "string \<Rightarrow> string" where
  "searchDomainsStatePath stateDir = path_join [stateDir, ''search-domains.json'']"

definition encode_search_state :: "search_domains \<Rightarrow> json" where
  "encode_search_state s = JObj [(''service'', JStr (sd_service s)), (''device'', JStr (sd_resolved_device s)),
     (''domains'', JList (map JStr (sd_domains s)))]"

definition decode_search_state :: "json \<Rightarrow> (string \<times> string \<times> string list) option" where
  "decode_search_state j = do { fs \<leftarrow> j_obj j; service \<leftarrow> j_str (jget fs ''service''); device \<leftarrow> j_str (jget fs ''device'');
     domains \<leftarrow> j_strs (jget fs ''domains''); Some (service, device, domains) }"

definition writeSearchDomainsState :: "env \<Rightarrow> string \<Rightarrow> search_domains \<Rightarrow> err option io" where
  "writeSearchDomainsState E stateDir s tr =
    (if stateDir = [] then (None, tr)
     else (case fs_do E (MkdirAll stateDir 448) tr of
        (Some e, tr) \<Rightarrow> (Some e, tr)
      | (None, tr) \<Rightarrow> fs_do E (WriteFile (searchDomainsStatePath stateDir) (FJson (encode_search_state s)) 384) tr))"

definition readSearchDomainsState :: "env \<Rightarrow> string \<Rightarrow> (err + (string \<times> string \<times> string list) option) io" where
  "readSearchDomainsState E stateDir tr = (let path = searchDomainsStatePath stateDir in
     case fs_read E path tr of
       (Inl e, tr) \<Rightarrow> (if is_sentinel NotExist e then Inr None else Inl (wrap (''read '' @ path @ '': '') e), tr)
     | (Inr c, tr) \<Rightarrow> (case Option.bind (decode_content c) decode_search_state of
         None \<Rightarrow> (Inl (wrap (''decode '' @ path @ '': '') json_error), tr) | Some r \<Rightarrow> (Inr (Some r), tr)))"

definition removeSearchDomainsState :: "env \<Rightarrow> string \<Rightarrow> err option io" where
  "removeSearchDomainsState E stateDir tr = (case fs_do E (Remove (searchDomainsStatePath stateDir)) tr of
       (Some e, tr) \<Rightarrow> (if is_sentinel NotExist e then None else Some e, tr) | (None, tr) \<Rightarrow> (None, tr))"

text \<open>The manager that \<^verbatim>\<open>leave\<close> works with: what the record says, or the default on the underlay device.\<close>

definition recorded_search :: "bool \<Rightarrow> (string \<times> string \<times> string list) option \<Rightarrow> search_domains" where
  "recorded_search sudo record =
    (let s = newClusterDNSSearchDomains sudo [] [] [] in
     case record of
       None \<Rightarrow> s
     | Some (service, device, domains) \<Rightarrow> s\<lparr>sd_service := trim_space service, sd_device := trim_space device,
         sd_domains := (if domains = [] then sd_domains s else normalizeSearchDomains domains)\<rparr>)"

definition clear_recorded :: "env \<Rightarrow> search_domains \<Rightarrow> string \<Rightarrow> err option io" where
  "clear_recorded E s stateDir tr = (case resolveService E s tr of
       (Some e, s, tr) \<Rightarrow> (Some e, tr)
     | (None, s, tr) \<Rightarrow> (case searchDomains E s tr of
         (Inl e, tr) \<Rightarrow> (Some e, tr)
       | (Inr current, tr) \<Rightarrow> (case splitSearchDomains current (sd_domains s) of (ours, foreign) \<Rightarrow>
           if ours = [] then removeSearchDomainsState E stateDir tr
           else (case apply_domains E s foreign tr of
              (Some e, tr) \<Rightarrow> (Some e, tr) | (None, tr) \<Rightarrow> removeSearchDomainsState E stateDir tr))))"

definition cleanupLeaveSearchDomains :: "env \<Rightarrow> bool \<Rightarrow> string \<Rightarrow> string \<Rightarrow> err option io" where
  "cleanupLeaveSearchDomains E sudo nodeIP stateDir tr = (case readSearchDomainsState E stateDir tr of
       (Inl e, tr) \<Rightarrow> (Some e, tr)
     | (Inr record, tr) \<Rightarrow> (let s = recorded_search sudo record in
         if sd_service s \<noteq> [] then clear_recorded E s stateDir tr
         else (case underlayDeviceForIP E nodeIP tr of
            (Inl e, tr) \<Rightarrow> (Some e, tr)
          | (Inr device, tr) \<Rightarrow> clear_recorded E (s\<lparr>sd_device := device\<rparr>) stateDir tr)))"

section \<open>Domains of others\<close>

lemma set_normalize_loop:
  "set (normalize_loop seen ds) = normal_domain ` set ds - ({[], ''none'', ''empty''} \<union> set seen)"
  by (induction seen ds rule: normalize_loop.induct) (auto simp: Let_def)

lemma set_normalize: "set (normalizeSearchDomains ds) = normal_domain ` set ds - {[], ''none'', ''empty''}"
  by (simp add: normalizeSearchDomains_def set_normalize_loop)

text \<open>A domain that the normal form leaves alone.\<close>

definition proper_domain :: "string \<Rightarrow> bool" where
  "proper_domain d \<longleftrightarrow> normal_domain d = d \<and> d \<notin> {[], ''none'', ''empty''}"

lemma proper_normalized: "proper_domain d \<Longrightarrow> d \<in> set ds \<Longrightarrow> d \<in> set (normalizeSearchDomains ds)"
  unfolding set_normalize proper_domain_def by (metis DiffI imageI)

lemma foreign_split:
  assumes "proper_domain d" "d \<in> set current" "d \<notin> set managed"
  shows "d \<in> set (snd (splitSearchDomains current managed))"
  using proper_normalized [OF assms(1,2)] assms(3) by (simp add: splitSearchDomains_def Let_def)

text \<open>The commands that query and that set the domains of a service.\<close>

definition get_command :: "string \<Rightarrow> string list" where
  "get_command service = [''networksetup'', ''-getsearchdomains'', service]"

definition set_command :: "string \<Rightarrow> string list \<Rightarrow> string list" where
  "set_command service args = [''sudo'', ''-n'', ''networksetup'', ''-setsearchdomains'', service] @ args"

lemma commands [simp]:
  "set_command a xs = set_command b ys \<longleftrightarrow> a = b \<and> xs = ys" "get_command a \<noteq> set_command b ys"
  "get_command a = get_command b \<longleftrightarrow> a = b" "[''scutil'', ''--dns''] \<noteq> set_command b ys"
  "[''networksetup'', ''-listnetworkserviceorder''] \<noteq> set_command b ys"
  by (simp_all add: set_command_def get_command_def)

text \<open>
  \<open>search_answer service e\<close> is the output of a successful query of the service's domains; \<open>kept\<close>
  says of a command that sets domains that everything which the newest query reported and which is
  not managed is in the new list.
\<close>

definition search_answer :: "string \<Rightarrow> event \<Rightarrow> string option" where
  "search_answer service e = (case e of EvCmd argv out None \<Rightarrow>
       if argv = get_command service then Some out else None | _ \<Rightarrow> None)"

primrec last_search :: "string \<Rightarrow> trace \<Rightarrow> string option" where
  "last_search service [] = None"
| "last_search service (e # tr) = (case search_answer service e of Some out \<Rightarrow> Some out | None \<Rightarrow> last_search service tr)"

definition kept :: "string list \<Rightarrow> event \<Rightarrow> trace \<Rightarrow> bool" where
  "kept managed e pre \<longleftrightarrow> (\<forall>service args out x. e = EvCmd (set_command service args) out x \<longrightarrow>
     (\<exists>output. last_search service pre = Some output \<and>
       (\<forall>d \<in> set (parseSearchDomains output). d \<in> set managed \<or> d \<in> set args)))"

text \<open>macOS reports each search domain in its normal form.\<close>

definition proper_answers :: "env \<Rightarrow> bool" where
  "proper_answers E \<longleftrightarrow> (\<forall>tr service. list_all proper_domain (parseSearchDomains (fst (e_cmd E tr (get_command service)))))"

lemma resolveService_events:
  assumes "resolveService E s tr = (r, s', tr')"
  shows "\<exists>es. tr' = es @ tr \<and> (\<forall>managed. trace_all (kept managed) es) \<and> sd_domains s' = sd_domains s \<and>
    sd_owned s' = sd_owned s \<and> sd_foreign s' = sd_foreign s"
proof -
  let ?argv = "[''networksetup'', ''-listnetworkserviceorder'']"
  let ?e = "EvCmd ?argv (fst (e_cmd E tr ?argv)) (snd (e_cmd E tr ?argv))"
  have k: "kept managed ?e []" for managed by (simp add: kept_def)
  have "(tr' = [] @ tr \<or> tr' = [?e] @ tr) \<and> sd_domains s' = sd_domains s \<and> sd_owned s' = sd_owned s \<and> sd_foreign s' = sd_foreign s"
    using assms
    by (auto simp: resolveService_def networksetup_def privileged_argv_def call_defs Let_def
        split: if_splits option.splits prod.splits)
  with k show ?thesis by (metis trace_all.simps)
qed

lemma searchDomains_events:
  assumes "searchDomains E s tr = (r, tr')"
  shows "\<exists>out x. tr' = EvCmd (get_command (sd_service s)) out x # tr \<and>
    (\<forall>current. r = Inr current \<longrightarrow> x = None \<and> current = parseSearchDomains out \<and>
      (proper_answers E \<longrightarrow> list_all proper_domain current))"
  using assms
  by (auto simp: searchDomains_def networksetup_def privileged_argv_def call_defs Let_def proper_answers_def get_command_def
      split: option.splits prod.splits) (metis fst_conv)

lemma apply_domains_events:
  assumes "apply_domains E s ds tr = (r, tr')"
  shows "\<exists>out x. tr' = EvCmd (set_command (sd_service s) (if ds = [] then [''Empty''] else ds)) out x # tr"
  using assms
  by (auto simp: apply_domains_def networksetup_def searchDomainsArgs_def privileged_argv_def call_defs Let_def set_command_def
      split: option.splits prod.splits if_splits)

lemma verify_domains_events:
  assumes "verify_domains E s tr = (r, tr')"
  shows "\<exists>out x. tr' = EvCmd [''scutil'', ''--dns''] out x # tr"
  using assms
  by (auto simp: verify_domains_def effectiveSearchDomains_def privileged_argv_def call_defs Let_def
      split: option.splits prod.splits sum.splits)

text \<open>A query, and a command that sets a list with every foreign domain of the answer.\<close>

lemma kept_get [simp]: "kept managed (EvCmd (get_command service) out x) pre" "kept managed (EvCmd [''scutil'', ''--dns''] out x) pre"
  by (simp_all add: kept_def)

lemma kept_set:
  assumes "\<forall>d \<in> set (parseSearchDomains out). d \<in> set managed \<or> d \<in> set ds"
  shows "kept managed (EvCmd (set_command service (if ds = [] then [''Empty''] else ds)) out' x)
    (EvCmd (get_command service) out None # es)"
  using assms by (auto simp: kept_def search_answer_def)

section \<open>What is kept\<close>

text \<open>From a query to the end of an operation that sets the given list.\<close>

lemma query_apply_kept:
  assumes "searchDomains E s tr = (Inr current, tr1)" "apply_domains E s ds tr1 = (r, tr2)"
    and "proper_answers E" "\<And>d. proper_domain d \<Longrightarrow> d \<in> set current \<Longrightarrow> d \<notin> set managed \<Longrightarrow> d \<in> set ds"
  shows "\<exists>es. tr2 = es @ tr \<and> (\<forall>pre. trace_all (kept managed) pre \<longrightarrow> trace_all (kept managed) (es @ pre))"
proof -
  obtain out where g: "tr1 = EvCmd (get_command (sd_service s)) out None # tr" "current = parseSearchDomains out"
    "list_all proper_domain current"
    using searchDomains_events [OF assms(1)] assms(3) by auto
  obtain out' x where a: "tr2 = EvCmd (set_command (sd_service s) (if ds = [] then [''Empty''] else ds)) out' x # tr1"
    using apply_domains_events [OF assms(2)] by blast
  have "\<forall>d \<in> set (parseSearchDomains out). d \<in> set managed \<or> d \<in> set ds"
    using assms(4) g by (auto simp: list_all_iff)
  from kept_set [OF this] show ?thesis
    by (intro exI [of _ "[EvCmd (set_command (sd_service s) (if ds = [] then [''Empty''] else ds)) out' x,
        EvCmd (get_command (sd_service s)) out None]"]) (simp add: a g(1) del: if_split)
qed

definition keeps_foreign :: "string list \<Rightarrow> trace \<Rightarrow> trace \<Rightarrow> bool" where
  "keeps_foreign managed tr tr' \<longleftrightarrow> (\<exists>es. tr' = es @ tr \<and> trace_all (kept managed) es)"

lemma search_reconcile_keeps:
  assumes "proper_answers E" "search_reconcile E s tr = (r, s', tr')"
  shows "keeps_foreign (sd_domains s) tr tr'"
proof (cases "sd_domains s = []")
  case True
  with assms show ?thesis by (simp add: search_reconcile_def keeps_foreign_def)
next
  case ne: False
  obtain r1 s1 tr1 where rs: "resolveService E s tr = (r1, s1, tr1)" by (metis surj_pair)
  from resolveService_events [OF rs] obtain es1 where es1: "tr1 = es1 @ tr" "trace_all (kept (sd_domains s)) es1"
    "sd_domains s1 = sd_domains s" by blast
  show ?thesis
  proof (cases r1)
    case (Some e)
    with assms(2) ne rs es1 show ?thesis by (auto simp: search_reconcile_def keeps_foreign_def)
  next
    case None
    obtain r2 tr2 where g: "searchDomains E s1 tr1 = (r2, tr2)" by force
    from searchDomains_events [OF g] obtain ge where ge: "tr2 = ge # tr1" "kept (sd_domains s) ge es1" by auto
    then have q: "keeps_foreign (sd_domains s) tr tr2" using es1 by (auto simp: keeps_foreign_def intro: exI [of _ "ge # es1"])
    show ?thesis
    proof (cases r2)
      case (Inl e)
      with assms(2) ne rs None g q show ?thesis by (simp add: search_reconcile_def)
    next
      case (Inr current)
      let ?foreign = "snd (splitSearchDomains current (sd_domains s))"
      have fs: "d \<in> set ?foreign" if "proper_domain d" "d \<in> set current" "d \<notin> set (sd_domains s)" for d
        using that by (rule foreign_split)
      have keep: "keeps_foreign (sd_domains s) tr tr3" if "apply_domains E s1 ds tr2 = (x, tr3)"
        and "\<And>d. proper_domain d \<Longrightarrow> d \<in> set current \<Longrightarrow> d \<notin> set (sd_domains s) \<Longrightarrow> d \<in> set ds" for ds x tr3
      proof -
        from query_apply_kept [OF g [unfolded Inr] that(1) assms(1) that(2)] obtain es where
          "tr3 = es @ tr1" "trace_all (kept (sd_domains s)) (es @ es1)" using es1(2) by blast
        with es1(1) show ?thesis unfolding keeps_foreign_def by (intro exI [of _ "es @ es1"]) simp
      qed
      show ?thesis
      proof (cases "?foreign = []")
        case False
        then have rel: "release_service E s1 ?foreign tr2 = (r, s', tr')"
          using assms(2) ne rs None g Inr es1(3) by (simp add: search_reconcile_def Let_def)
        then consider "tr' = tr2" | x where "apply_domains E s1 ?foreign tr2 = (x, tr')"
          by (auto simp: release_service_def split: if_splits prod.splits option.splits)
        then show ?thesis using q keep fs by cases auto
      next
        case True
        then have pub: "publish_domains E s1 current tr2 = (r, s', tr')"
          using assms(2) ne rs None g Inr es1(3) by (simp add: search_reconcile_def Let_def)
        then consider "tr' = tr2" | x where "apply_domains E s1 (sd_domains s1) tr2 = (x, tr')"
          | x tr3 y where "apply_domains E s1 (sd_domains s1) tr2 = (x, tr3)" "verify_domains E s1 tr3 = (y, tr')"
          by (auto simp: publish_domains_def split: if_splits prod.splits option.splits)
        then show ?thesis
        proof cases
          case 1
          with q show ?thesis by simp
        next
          case 2
          with keep fs True show ?thesis by (metis empty_iff empty_set)
        next
          case 3
          then have "keeps_foreign (sd_domains s) tr tr3" using keep fs True by (metis empty_iff empty_set)
          with verify_domains_events [OF 3(2)] show ?thesis
            by (auto simp: keeps_foreign_def)
        qed
      qed
    qed
  qed
qed

lemma search_cleanup_keeps:
  assumes "proper_answers E" "search_cleanup E s tr = (r, s', tr')"
  shows "keeps_foreign (sd_domains s) tr tr'"
proof (cases "sd_owned s")
  case False
  with assms show ?thesis by (simp add: search_cleanup_def keeps_foreign_def)
next
  case owned: True
  obtain r1 s1 tr1 where rs: "resolveService E s tr = (r1, s1, tr1)" by (metis surj_pair)
  from resolveService_events [OF rs] obtain es1 where es1: "tr1 = es1 @ tr" "trace_all (kept (sd_domains s)) es1"
    "sd_domains s1 = sd_domains s" by blast
  obtain r2 tr2 where g: "searchDomains E s1 tr1 = (r2, tr2)" by force
  from searchDomains_events [OF g] obtain ge where ge: "tr2 = ge # tr1" "kept (sd_domains s) ge es1" by auto
  then have q: "keeps_foreign (sd_domains s) tr tr2" using es1 by (auto simp: keeps_foreign_def intro: exI [of _ "ge # es1"])
  consider (failed) "tr' = tr1" | (unread) "tr' = tr2" | (restored) current x where "r2 = Inr current"
    "apply_domains E s1 (normalizeSearchDomains (sd_foreign s1 @ snd (splitSearchDomains current (sd_domains s1)))) tr2 = (x, tr')"
    using assms(2) owned rs g by (auto simp: search_cleanup_def split: option.splits sum.splits prod.splits)
  then show ?thesis
  proof cases
    case failed
    with es1 show ?thesis by (auto simp: keeps_foreign_def)
  next
    case unread
    with q show ?thesis by simp
  next
    case restored
    have "d \<in> set (normalizeSearchDomains (sd_foreign s1 @ snd (splitSearchDomains current (sd_domains s1))))"
      if "proper_domain d" "d \<in> set current" "d \<notin> set (sd_domains s)" for d
      using that foreign_split [OF that(1,2), of "sd_domains s1"] es1(3) by (intro proper_normalized) auto
    from query_apply_kept [OF g [unfolded restored(1)] restored(2) assms(1) this] obtain es where
      "tr' = es @ tr1" "trace_all (kept (sd_domains s)) (es @ es1)" using es1(2) by blast
    with es1(1) show ?thesis unfolding keeps_foreign_def by (intro exI [of _ "es @ es1"]) simp
  qed
qed

lemma removeSearchDomainsState_events:
  "removeSearchDomainsState E stateDir tr = (r, tr') \<Longrightarrow> \<exists>q x. tr' = EvFs q x # tr"
  by (auto simp: removeSearchDomainsState_def fs_do_eq split: option.splits if_splits)

lemma kept_fs [simp]: "kept managed (EvFs q x) pre" "kept managed (EvIfaces y) pre"
  by (simp_all add: kept_def)

lemma clear_recorded_keeps:
  assumes "proper_answers E" "clear_recorded E s stateDir tr = (r, tr')"
  shows "keeps_foreign (sd_domains s) tr tr'"
proof -
  obtain r1 s1 tr1 where rs: "resolveService E s tr = (r1, s1, tr1)" by (metis surj_pair)
  from resolveService_events [OF rs] obtain es1 where es1: "tr1 = es1 @ tr" "trace_all (kept (sd_domains s)) es1"
    "sd_domains s1 = sd_domains s" by blast
  obtain r2 tr2 where g: "searchDomains E s1 tr1 = (r2, tr2)" by force
  from searchDomains_events [OF g] obtain ge where ge: "tr2 = ge # tr1" "kept (sd_domains s) ge es1" by auto
  then have q: "keeps_foreign (sd_domains s) tr tr2" using es1 by (auto simp: keeps_foreign_def intro: exI [of _ "ge # es1"])
  consider (failed) "tr' = tr1" | (unread) "tr' = tr2" | (absent) x where "removeSearchDomainsState E stateDir tr2 = (x, tr')"
    | (cleared) current x tr3 where "r2 = Inr current" "apply_domains E s1 (snd (splitSearchDomains current (sd_domains s1))) tr2 = (x, tr3)"
        "tr' = tr3 \<or> (\<exists>y. removeSearchDomainsState E stateDir tr3 = (y, tr'))"
    using assms(2) rs g by (auto simp: clear_recorded_def split: option.splits sum.splits prod.splits if_splits)
  then show ?thesis
  proof cases
    case failed
    with es1 show ?thesis by (auto simp: keeps_foreign_def)
  next
    case unread
    with q show ?thesis by simp
  next
    case absent
    with q removeSearchDomainsState_events [OF absent] show ?thesis by (auto simp: keeps_foreign_def)
  next
    case cleared
    have "d \<in> set (snd (splitSearchDomains current (sd_domains s1)))"
      if "proper_domain d" "d \<in> set current" "d \<notin> set (sd_domains s)" for d
      using foreign_split [OF that(1,2), of "sd_domains s1"] that es1(3) by simp
    from query_apply_kept [OF g [unfolded cleared(1)] cleared(2) assms(1) this] obtain es where
      "tr3 = es @ tr1" "trace_all (kept (sd_domains s)) (es @ es1)" using es1(2) by blast
    then have "keeps_foreign (sd_domains s) tr tr3" using es1(1) unfolding keeps_foreign_def by (intro exI [of _ "es @ es1"]) simp
    with cleared(3) show ?thesis by (auto simp: keeps_foreign_def dest!: removeSearchDomainsState_events)
  qed
qed

text \<open>
  C28: on a host that reports search domains in normal form, every command by which maclet sets the
  domains of a network service, at a heartbeat, at shutdown or on \<^verbatim>\<open>leave\<close>, comes after a query of the
  same service and keeps each domain of the newest answer that is not one of maclet's own.
\<close>

theorem foreign_domains_kept:
  assumes "proper_answers E"
    and "search_reconcile E s tr = (r, s', es @ tr) \<or> search_cleanup E s tr = (r, s', es @ tr) \<or>
      clear_recorded E s stateDir tr = (r, es @ tr)"
  shows "trace_all (kept (sd_domains s)) es"
  using assms(2) search_reconcile_keeps [OF assms(1)] search_cleanup_keeps [OF assms(1)] clear_recorded_keeps [OF assms(1)]
  by (fastforce simp: keeps_foreign_def)

text \<open>A service to which another manager has added its own domain while maclet held it.\<close>

definition corp_env :: env where
  "corp_env = quiet_env\<lparr>e_cmd := \<lambda>_ _. (''corp.example.com'', None)\<rparr>"

definition wifi :: search_domains where
  "wifi = (newClusterDNSSearchDomains True ''en0'' ''Wi-Fi'' [])\<lparr>sd_owned := True\<rparr>"

lemma corp_answers: "proper_answers corp_env"
proof -
  have "list_all proper_domain (parseSearchDomains ''corp.example.com'')" by code_simp
  then show ?thesis by (simp add: proper_answers_def corp_env_def)
qed

lemma foreign_domains_kept_witness:
  "\<exists>s' es. search_reconcile corp_env wifi [] = (None, s', es @ []) \<and> \<not> sd_owned s' \<and>
    list_ex (\<lambda>e. \<exists>out. e = EvCmd (set_command ''Wi-Fi'' [''corp.example.com'']) out None) es \<and> trace_all (kept (sd_domains wifi)) es"
proof -
  let ?r = "search_reconcile corp_env wifi []"
  have v: "fst ?r = None" "\<not> sd_owned (fst (snd ?r))" "snd (snd ?r) =
      [EvCmd (set_command ''Wi-Fi'' [''corp.example.com'']) ''corp.example.com'' None, EvCmd (get_command ''Wi-Fi'') ''corp.example.com'' None]"
    by code_simp+
  then obtain s' es where r: "?r = (None, s', es @ [])" by (metis append_Nil2 prod.collapse)
  from foreign_domains_kept [OF corp_answers, of wifi "[]" None s' es] r have "trace_all (kept (sd_domains wifi)) es" by simp
  with r v show ?thesis by auto
qed

text \<open>Only one of several trailing dots is trimmed, so the normal form has to be taken twice.\<close>

lemma second_dot_kept: "normalizeSearchDomains [''corp..''] = [''corp.''] \<and> normalizeSearchDomains [''corp.''] = [''corp'']"
  by code_simp

end
