(* ===== verification/Leave.thy ===== *)
theory Leave
  imports Reconcile Flannel SearchDomains
begin

text \<open>
  Removing what is left behind: the forced deletion of native Pods whose graceful deletion has
  outlived its time (\<^verbatim>\<open>cleanup.go\<close>), and \<^verbatim>\<open>maclet leave\<close>, which removes the host's DNS settings, the
  Node's objects and then the local state (\<^verbatim>\<open>leave.go\<close>).  Loading a kubeconfig, the default paths and
  the path of the executable are parameters.
\<close>

section \<open>Stale native Pods\<close>

text \<open>A Pod of this Node that is native and has been terminating for long enough.\<close>

definition stale_pod :: "string \<Rightarrow> int \<Rightarrow> gotime \<Rightarrow> pod \<Rightarrow> bool" where
  "stale_pod nodeName staleAfter now pod \<longleftrightarrow> ps_node_name (p_spec pod) = nodeName \<and> podHasNativeLabel pod \<and>
     (case om_deletion (p_meta pod) of None \<Rightarrow> False | Some deletedAt \<Rightarrow> \<not> (staleAfter > 0 \<and> now - deletedAt < staleAfter))"

definition force_delete_path :: "pod \<Rightarrow> string" where
  "force_delete_path pod = podPath pod @ ''?gracePeriodSeconds=0''"

fun cleanup_pods :: "env \<Rightarrow> api_client \<Rightarrow> pod list \<Rightarrow> string \<Rightarrow> int \<Rightarrow> gotime \<Rightarrow> (nat \<times> err list) io" where
  "cleanup_pods E c [] nodeName staleAfter now tr = ((0, []), tr)"
| "cleanup_pods E c (pod # pods) nodeName staleAfter now tr =
    (if \<not> stale_pod nodeName staleAfter now pod then cleanup_pods E c pods nodeName staleAfter now tr
     else (case call_api E c DELETE (force_delete_path pod) None tr of
        (Inl e, tr) \<Rightarrow> (case cleanup_pods E c pods nodeName staleAfter now tr of
          ((n, es), tr) \<Rightarrow> ((n, if http_code_is 404 e then es
             else wrap (''force-delete native Pod '' @ pod_name pod @ '': '') e # es), tr))
      | (Inr _, tr) \<Rightarrow> (case cleanup_pods E c pods nodeName staleAfter now tr of ((n, es), tr) \<Rightarrow> ((n + 1, es), tr))))"

definition cleanupPodList :: "env \<Rightarrow> api_client \<Rightarrow> pod list \<Rightarrow> string \<Rightarrow> int \<Rightarrow> gotime \<Rightarrow> (nat \<times> err option) io" where
  "cleanupPodList E c pods nodeName staleAfter now tr =
    (case cleanup_pods E c pods nodeName staleAfter now tr of ((n, es), tr) \<Rightarrow> ((n, errors_join es), tr))"

definition native_pods_query :: "string \<Rightarrow> string" where
  "native_pods_query nodeName = ''fieldSelector='' @ query_escape (''spec.nodeName='' @ nodeName) @ ''&labelSelector='' @
     query_escape (nativeWorkloadLabelKey @ ''=true'')"

definition listAssignedPodsInNamespace :: "env \<Rightarrow> api_client \<Rightarrow> string \<Rightarrow> string \<Rightarrow> (err + pod list) io" where
  "listAssignedPodsInNamespace E c nodeName ns tr =
    (case call_api E c GET (''/api/v1/namespaces/'' @ path_escape ns @ ''/pods?'' @ native_pods_query nodeName) None tr of
       (Inl e, tr) \<Rightarrow> (Inl e, tr)
     | (Inr (KPods pods), tr) \<Rightarrow> (Inr pods, tr)
     | (Inr _, tr) \<Rightarrow> (Inl (wrap ''decode cleanup PodList: '' json_error), tr))"

definition cleanupTerminatingPods :: "env \<Rightarrow> api_client \<Rightarrow> string \<Rightarrow> string \<Rightarrow> int \<Rightarrow> gotime \<Rightarrow> (nat \<times> err option) io" where
  "cleanupTerminatingPods E c nodeName ns staleAfter now tr = (case listAssignedPodsInNamespace E c nodeName ns tr of
       (Inl e, tr) \<Rightarrow> ((0, Some (wrap ''list native Pods for cleanup: '' e)), tr)
     | (Inr pods, tr) \<Rightarrow> cleanupPodList E c pods nodeName staleAfter now tr)"

definition cleanupTerminatingPodsClusterWide :: "env \<Rightarrow> api_client \<Rightarrow> string \<Rightarrow> int \<Rightarrow> gotime \<Rightarrow> (nat \<times> err option) io" where
  "cleanupTerminatingPodsClusterWide E c nodeName staleAfter now tr =
    (case call_api E c GET (''/api/v1/pods?'' @ native_pods_query nodeName) None tr of
       (Inl e, tr) \<Rightarrow> ((0, Some (wrap ''list native Pods for cluster-wide cleanup: '' e)), tr)
     | (Inr (KPods pods), tr) \<Rightarrow> cleanupPodList E c pods nodeName staleAfter now tr
     | (Inr _, tr) \<Rightarrow> ((0, Some (wrap ''decode cluster-wide cleanup PodList: '' json_error)), tr))"

section \<open>The Node's objects\<close>

definition leaveResource :: "env \<Rightarrow> api_client \<Rightarrow> string \<Rightarrow> string \<Rightarrow> err option io" where
  "leaveResource E c description path tr = (case call_api E c DELETE path None tr of
       (Inl e, tr) \<Rightarrow> (if http_code_is 404 e then None else Some (wrap (''delete '' @ description @ '': '') e), tr)
     | (Inr _, tr) \<Rightarrow> (None, tr))"

definition lease_object_path :: "string \<Rightarrow> string" where
  "lease_object_path nodeName = ''/apis/coordination.k8s.io/v1/namespaces/kube-node-lease/leases/'' @ path_escape nodeName"

definition password_secret_path :: "string \<Rightarrow> string" where
  "password_secret_path nodeName = ''/api/v1/namespaces/kube-system/secrets/'' @ path_escape (nodeName @ ''.node-password.k3s'')"

definition leaveClusterResources :: "env \<Rightarrow> api_client \<Rightarrow> string \<Rightarrow> err option io" where
  "leaveClusterResources E c nodeName tr =
    (case clearFlannel E c nodeName tr of (r1, tr) \<Rightarrow>
     (case leaveResource E c ''kube-node-lease Lease'' (lease_object_path nodeName) tr of (r2, tr) \<Rightarrow>
     (case leaveResource E c ''Node password Secret'' (password_secret_path nodeName) tr of (r3, tr) \<Rightarrow>
     (case leaveResource E c ''Node'' (node_path nodeName) tr of (r4, tr) \<Rightarrow>
       (errors_join (map (wrap ''clear Flannel annotations: '') (err_list r1) @ err_list r2 @ err_list r3 @ err_list r4), tr)))))"

section \<open>The host\<close>

record leave_config =
  lc_state_dir :: string
  lc_node_name :: string
  lc_kubeconfig :: string
  lc_context :: string
  lc_insecure :: bool

definition leaveSudoAvailable :: "env \<Rightarrow> bool io" where
  "leaveSudoAvailable E tr = (if e_euid E = 0 then (False, tr)
     else (case call_cmd E [''sudo'', ''-n'', ''true''] tr of ((_, r), tr) \<Rightarrow> (r = None, tr)))"

definition cleanupLeaveResolver :: "env \<Rightarrow> err + string \<Rightarrow> bool \<Rightarrow> err option io" where
  "cleanupLeaveResolver E executable sudo tr =
    (if sudo then runResolverHelper E executable True [] tr else removeManagedResolverFile E defaultResolverPath tr)"

definition state_files :: "string list" where
  "state_files = [''state.json'', ''workloads.json'', ''server-ca.crt'', ''client-kubelet.crt'', ''client-kubelet.key'',
     ''client-k3s-controller.crt'', ''client-k3s-controller.key'', ''client-ca.crt'', ''serving-kubelet.crt'',
     ''serving-kubelet.key'', ''node-password'']"

fun remove_files :: "env \<Rightarrow> string \<Rightarrow> string list \<Rightarrow> err list io" where
  "remove_files E stateDir [] tr = ([], tr)"
| "remove_files E stateDir (n # ns) tr = (let path = path_join [stateDir, n] in
     case fs_do E (Remove path) tr of
       (r, tr) \<Rightarrow> (case remove_files E stateDir ns tr of
         (es, tr) \<Rightarrow> (case r of Some e \<Rightarrow> if is_sentinel NotExist e then es else wrap (''remove '' @ path @ '': '') e # es
            | None \<Rightarrow> es, tr)))"

definition removeLocalStateFiles :: "env \<Rightarrow> string \<Rightarrow> err option io" where
  "removeLocalStateFiles E stateDir tr = (case remove_files E stateDir state_files tr of
     (es, tr) \<Rightarrow> (case fs_do E (Remove stateDir) tr of
       (Some e, tr) \<Rightarrow> (errors_join (es @ (if is_sentinel NotExist e \<or> is_sentinel NotEmptyDir e then []
          else [wrap (''remove state directory '' @ stateDir @ '': '') e])), tr)
     | (None, tr) \<Rightarrow> (errors_join es, tr)))"

text \<open>
  The kubeconfig of the removal; \<open>load\<close> says for a server, a path and a context whether there is a
  client.
\<close>

definition leavePeerAPIClient ::
  "(string \<Rightarrow> string \<Rightarrow> string \<Rightarrow> bool \<Rightarrow> err + bool) \<Rightarrow> string \<Rightarrow> leave_config \<Rightarrow> local_state \<Rightarrow> err option" where
  "leavePeerAPIClient load defaultPath cfg s =
    (let path = (if lc_kubeconfig cfg \<noteq> [] then lc_kubeconfig cfg else if st_peer_kubeconfig s \<noteq> [] then st_peer_kubeconfig s
           else defaultPath);
         contextName = (if lc_context cfg \<noteq> [] then lc_context cfg else st_peer_context s) in
     case load (st_server s) path contextName (lc_insecure cfg) of
       Inl e \<Rightarrow> Some e
     | Inr True \<Rightarrow> None
     | Inr False \<Rightarrow> Some (EMsg (''leave needs a kubeconfig with permission to remove Node '' @ quote (st_node_name s) @
         '', its Lease, and its node-password Secret; pass --kubeconfig'')))"

definition leave_dir :: "string \<Rightarrow> leave_config \<Rightarrow> string" where
  "leave_dir defaultDir cfg = (if lc_state_dir cfg = [] then defaultDir else lc_state_dir cfg)"

text \<open>What is cleaned up before the local state may go.\<close>

definition leave_cleanup :: "env \<Rightarrow> err + string \<Rightarrow> string \<Rightarrow> local_state \<Rightarrow> err list io" where
  "leave_cleanup E executable stateDir s tr =
    (case leaveSudoAvailable E tr of (sudo1, tr) \<Rightarrow>
     (case cleanupLeaveResolver E executable sudo1 tr of (r1, tr) \<Rightarrow>
     (case leaveSudoAvailable E tr of (sudo2, tr) \<Rightarrow>
     (case cleanupLeaveSearchDomains E sudo2 (st_node_ip s) stateDir tr of (r2, tr) \<Rightarrow>
     (case leaveClusterResources E PeerClient (st_node_name s) tr of (r3, tr) \<Rightarrow>
       (map (wrap ''remove macOS cluster DNS resolver: '') (err_list r1) @
        map (wrap ''remove macOS cluster DNS search domains: '') (err_list r2) @ err_list r3, tr))))))"

definition runLeave ::
  "env \<Rightarrow> err + string \<Rightarrow> (string \<Rightarrow> string \<Rightarrow> string \<Rightarrow> bool \<Rightarrow> err + bool) \<Rightarrow> string \<Rightarrow> string \<Rightarrow> leave_config \<Rightarrow> err option io" where
  "runLeave E executable load defaultPath defaultDir cfg tr =
    (let stateDir = leave_dir defaultDir cfg in
     case readLocalState E stateDir tr of
       (Inl e, tr) \<Rightarrow> (Some e, tr)
     | (Inr s, tr) \<Rightarrow>
         if lc_node_name cfg \<noteq> [] \<and> lc_node_name cfg \<noteq> st_node_name s
         then (Some (EMsg (''state belongs to node '' @ st_node_name s @ '', not '' @ lc_node_name cfg)), tr)
         else (case leavePeerAPIClient load defaultPath cfg s of
            Some e \<Rightarrow> (Some (wrap ''load leave kubeconfig: '' e), tr)
          | None \<Rightarrow> (case leave_cleanup E executable stateDir s tr of
              (es, tr) \<Rightarrow> if es \<noteq> [] then (errors_join es, tr) else removeLocalStateFiles E stateDir tr)))"

section \<open>What is deleted\<close>

definition accepted :: "event \<Rightarrow> bool" where
  "accepted e \<longleftrightarrow> (case e of EvApi c m p b (Inr k) \<Rightarrow> True | _ \<Rightarrow> False)"

lemma cleanup_pods_result:
  assumes "cleanup_pods E c pods nodeName staleAfter now tr = ((n, errs), tr')"
  shows "\<exists>es. tr' = es @ tr \<and> n = length (filter accepted es) \<and>
    list_all (\<lambda>e. \<exists>pod \<in> set pods. stale_pod nodeName staleAfter now pod \<and> is_request c DELETE (force_delete_path pod) e) es"
  using assms
proof (induction pods arbitrary: tr n errs)
  case (Cons pod pods)
  show ?case
  proof (cases "stale_pod nodeName staleAfter now pod")
    case False
    with Cons.prems have "cleanup_pods E c pods nodeName staleAfter now tr = ((n, errs), tr')" by simp
    from Cons.IH [OF this] show ?thesis by (auto simp: list_all_iff)
  next
    case True
    define g where "g = e_api E tr c DELETE (force_delete_path pod) None"
    let ?e = "EvApi c DELETE (force_delete_path pod) None g"
    obtain n2 errs2 where r: "cleanup_pods E c pods nodeName staleAfter now (?e # tr) = ((n2, errs2), tr')"
      and n: "n = (if accepted ?e then n2 + 1 else n2)"
      using Cons.prems True unfolding g_def
      by (auto simp: call_api_def Let_def accepted_def split: sum.splits prod.splits)
    from Cons.IH [OF r] obtain es where es: "tr' = es @ ?e # tr" "n2 = length (filter accepted es)"
      "list_all (\<lambda>e. \<exists>pod \<in> set pods. stale_pod nodeName staleAfter now pod \<and> is_request c DELETE (force_delete_path pod) e) es"
      by blast
    have "is_request c DELETE (force_delete_path pod) ?e" by (simp add: is_request_iff)
    with True es n show ?thesis by (intro exI [of _ "es @ [?e]"]) (auto simp: list_all_iff)
  qed
qed simp

text \<open>
  C16: the forced cleanup sends nothing but deletions, each of a listed Pod that is native, assigned
  to this Node and has been terminating for at least the given time, and it counts exactly the
  deletions that the server accepted.
\<close>

theorem force_delete_only_stale:
  assumes "cleanupPodList E c pods nodeName staleAfter now tr = ((n, r), es @ tr)"
  shows "n = length (filter accepted es) \<and> (\<forall>e \<in> set es. \<exists>pod \<in> set pods.
    is_request c DELETE (force_delete_path pod) e \<and> podHasNativeLabel pod \<and> ps_node_name (p_spec pod) = nodeName \<and>
    (\<exists>t. om_deletion (p_meta pod) = Some t \<and> (staleAfter > 0 \<longrightarrow> staleAfter \<le> now - t)))"
proof -
  obtain errs where "cleanup_pods E c pods nodeName staleAfter now tr = ((n, errs), es @ tr)"
    using assms by (auto simp: cleanupPodList_def split: prod.splits)
  from cleanup_pods_result [OF this] have "n = length (filter accepted es)"
    "list_all (\<lambda>e. \<exists>pod \<in> set pods. stale_pod nodeName staleAfter now pod \<and> is_request c DELETE (force_delete_path pod) e) es"
    by auto
  then show ?thesis by (fastforce simp: list_all_iff stale_pod_def split: option.splits)
qed

section \<open>The order of leaving\<close>

text \<open>The object is gone: its deletion was accepted, or the server does not know it.\<close>

definition gone :: "api_client \<Rightarrow> string \<Rightarrow> event \<Rightarrow> bool" where
  "gone c path e \<longleftrightarrow> (\<exists>r. e = EvApi c DELETE path None r \<and> (case r of Inl x \<Rightarrow> http_code_is 404 x | Inr _ \<Rightarrow> True))"

lemma leaveResource_gone:
  "leaveResource E c description path tr = (r, tr') \<Longrightarrow> \<exists>e. tr' = e # tr \<and> (r = None \<longrightarrow> gone c path e)"
  by (auto simp: leaveResource_def call_api_def Let_def gone_def split: sum.splits if_splits)

lemma leaveClusterResources_gone:
  assumes "leaveClusterResources E c nodeName tr = (None, tr')"
  shows "\<forall>path \<in> {lease_object_path nodeName, password_secret_path nodeName, node_path nodeName}. \<exists>e \<in> set tr'. gone c path e"
proof -
  obtain r1 tr1 where c: "clearFlannel E c nodeName tr = (r1, tr1)" by force
  obtain r2 tr2 where l: "leaveResource E c ''kube-node-lease Lease'' (lease_object_path nodeName) tr1 = (r2, tr2)" by force
  obtain r3 tr3 where p: "leaveResource E c ''Node password Secret'' (password_secret_path nodeName) tr2 = (r3, tr3)" by force
  obtain r4 tr4 where n: "leaveResource E c ''Node'' (node_path nodeName) tr3 = (r4, tr4)" by force
  have "tr' = tr4" "r2 = None" "r3 = None" "r4 = None"
    using assms c l p n by (auto simp: leaveClusterResources_def err_list_def errors_join_def split: option.splits)
  with leaveResource_gone [OF l] leaveResource_gone [OF p] leaveResource_gone [OF n] show ?thesis by auto
qed

definition removes_file :: "string \<Rightarrow> event \<Rightarrow> bool" where
  "removes_file path e \<longleftrightarrow> (case e of EvFs (Remove p) r \<Rightarrow> p = path | _ \<Rightarrow> False)"

text \<open>\<open>adds Q tr tr'\<close>: the trace has grown by events with the property \<open>Q\<close>.\<close>

definition adds :: "(event \<Rightarrow> bool) \<Rightarrow> trace \<Rightarrow> trace \<Rightarrow> bool" where
  "adds Q tr tr' \<longleftrightarrow> (\<exists>es. tr' = es @ tr \<and> list_all Q es)"

lemma adds_refl [simp, intro]: "adds Q tr tr"
  by (simp add: adds_def)

lemma adds_trans [trans]: "adds Q a b \<Longrightarrow> adds Q b c \<Longrightarrow> adds Q a c"
  unfolding adds_def by (metis append_assoc list_all_append)

lemma adds_event: "Q e \<Longrightarrow> adds Q tr (e # tr)"
  unfolding adds_def by (rule exI [of _ "[e]"]) simp

lemma adds_two: "Q a \<Longrightarrow> Q b \<Longrightarrow> adds Q tr (a # b # tr)"
  by (rule adds_trans [OF adds_event adds_event])

definition spares :: "string \<Rightarrow> event \<Rightarrow> bool" where
  "spares dir e \<longleftrightarrow> (\<forall>f \<in> set state_files. \<not> removes_file (path_join [dir, f]) e)"

lemma state_file_names: "list_all (\<lambda>f. filter plain (split_on slash f) = [f] \<and> ''..'' \<notin> set (split_on slash f) \<and>
    f \<noteq> ''search-domains.json'' \<and> f \<noteq> ''cluster.local'') state_files"
  by code_simp

lemma other_files:
  assumes "is_abs dir" "f \<in> set state_files"
  shows "path_join [dir, f] \<noteq> searchDomainsStatePath dir \<and> path_join [dir, f] \<noteq> defaultResolverPath"
proof -
  have f: "filter plain (split_on slash f) = [f]" "''..'' \<notin> set (split_on slash f)" "f \<noteq> ''search-domains.json''" "f \<noteq> ''cluster.local''"
    using state_file_names assms(2) unfolding list_all_iff by blast+
  have "path_comps (path_join [dir, f]) = path_comps dir @ [f]" using path_join_below(1) [OF assms(1) f(2)] f(1) by simp
  moreover have "path_comps (searchDomainsStatePath dir) = path_comps dir @ [''search-domains.json'']"
  proof -
    have "''..'' \<notin> set (split_on slash ''search-domains.json'') \<and> filter plain (split_on slash ''search-domains.json'') = [''search-domains.json'']"
      by code_simp
    then show ?thesis using path_join_below(1) [OF assms(1)] by (simp add: searchDomainsStatePath_def)
  qed
  moreover have "path_comps defaultResolverPath = [''etc'', ''resolver'', ''cluster.local'']" by code_simp
  ultimately show ?thesis using f(3,4) by (metis last_snoc last.simps list.distinct(1))
qed

lemma spares_simps [simp]:
  "spares dir (EvCmd a b x)" "spares dir (EvApi c m p k r)" "spares dir (EvIfaces i)" "spares dir (EvFs (ReadFile p) y)"
  by (simp_all add: spares_def removes_file_def)

lemma spares_remove: "(\<And>f. f \<in> set state_files \<Longrightarrow> path_join [dir, f] \<noteq> p) \<Longrightarrow> spares dir (EvFs (Remove p) r)"
  by (auto simp: spares_def removes_file_def)

lemma sudo_adds: "leaveSudoAvailable E tr = (x, tr') \<Longrightarrow> adds (spares dir) tr tr'"
  by (auto simp: leaveSudoAvailable_def call_defs Let_def intro!: adds_event split: if_splits prod.splits)

lemma resolver_adds:
  assumes "is_abs dir" "cleanupLeaveResolver E executable sudo tr = (x, tr')"
  shows "adds (spares dir) tr tr'"
proof (cases sudo)
  case True
  with assms(2) show ?thesis
    by (auto simp: cleanupLeaveResolver_def runResolverHelper_def call_defs Let_def intro!: adds_event
        split: sum.splits option.splits prod.splits)
next
  case False
  have r: "spares dir (EvFs (Remove defaultResolverPath) r)" for r by (rule spares_remove) (use other_files [OF assms(1)] in blast)
  let ?rd = "EvFs (ReadFile defaultResolverPath) (e_fs E tr (ReadFile defaultResolverPath))"
  from False assms(2) have "tr' = ?rd # tr \<or> (\<exists>r. tr' = EvFs (Remove defaultResolverPath) r # ?rd # tr)"
    by (auto simp: cleanupLeaveResolver_def removeManagedResolverFile_def fs_do_eq fs_read_def call_fs_def Let_def
        split: if_splits option.splits fs_response.splits)
  then show ?thesis using r by (auto intro!: adds_event adds_two)
qed

lemma clear_recorded_adds:
  assumes "is_abs dir" "clear_recorded E s dir tr = (x, tr')"
  shows "adds (spares dir) tr tr'"
proof -
  have rm: "adds (spares dir) a b" if "removeSearchDomainsState E dir a = (y, b)" for a b y
    using that other_files [OF assms(1)]
    by (auto simp: removeSearchDomainsState_def fs_do_eq intro!: adds_event spares_remove split: option.splits if_splits)
  have ap: "adds (spares dir) a b" if "apply_domains E t ds a = (y, b)" for a b y t ds
    using apply_domains_events [OF that] by (auto intro: adds_event)
  obtain r1 s1 tr1 where rs: "resolveService E s tr = (r1, s1, tr1)" by (metis surj_pair)
  have a1: "adds (spares dir) tr tr1"
    using rs by (auto simp: resolveService_def networksetup_def call_defs Let_def intro!: adds_event
        split: if_splits option.splits prod.splits)
  obtain r2 tr2 where g: "searchDomains E s1 tr1 = (r2, tr2)" by force
  have a2: "adds (spares dir) tr1 tr2" using searchDomains_events [OF g] by (auto intro: adds_event)
  consider "tr' = tr1" | "tr' = tr2" | y where "removeSearchDomainsState E dir tr2 = (y, tr')"
    | ds y tr3 where "apply_domains E s1 ds tr2 = (y, tr3)" "tr' = tr3 \<or> (\<exists>z. removeSearchDomainsState E dir tr3 = (z, tr'))"
    using assms(2) rs g by (auto simp: clear_recorded_def split: option.splits sum.splits prod.splits if_splits)
  then show ?thesis
  proof cases
    case 1 with a1 show ?thesis by simp
  next
    case 2 with a1 a2 adds_trans show ?thesis by blast
  next
    case 3 with a1 a2 rm adds_trans show ?thesis by metis
  next
    case 4 with a1 a2 rm ap adds_trans show ?thesis by metis
  qed
qed

lemma search_adds:
  assumes "is_abs dir" "cleanupLeaveSearchDomains E sudo nodeIP dir tr = (x, tr')"
  shows "adds (spares dir) tr tr'"
proof -
  obtain r1 tr1 where rd: "readSearchDomainsState E dir tr = (r1, tr1)" by force
  have a1: "adds (spares dir) tr tr1"
    using rd by (auto simp: readSearchDomainsState_def fs_read_def call_fs_def Let_def intro!: adds_event
        split: fs_response.splits option.splits)
  have u: "adds (spares dir) a b" if "underlayDeviceForIP E nodeIP a = (y, b)" for a b y
    using that by (auto simp: underlayDeviceForIP_def interfaceForAddress_def call_ifaces_def Let_def intro!: adds_event
        split: if_splits option.splits sum.splits prod.splits)
  consider "tr' = tr1" | s where "clear_recorded E s dir tr1 = (x, tr')" | y where "underlayDeviceForIP E nodeIP tr1 = (y, tr')"
    | y tr2 s where "underlayDeviceForIP E nodeIP tr1 = (y, tr2)" "clear_recorded E s dir tr2 = (x, tr')"
    using assms(2) rd by (auto simp: cleanupLeaveSearchDomains_def Let_def split: sum.splits if_splits prod.splits)
  then show ?thesis using a1 u clear_recorded_adds [OF assms(1)] adds_trans by cases metis+
qed

lemma leaveResource_adds: "leaveResource E c description path tr = (r, tr') \<Longrightarrow> adds (spares dir) tr tr'"
  using leaveResource_gone by (fastforce simp: leaveResource_def call_api_def Let_def intro!: adds_event split: sum.splits)

lemma cluster_adds:
  assumes "leaveClusterResources E c nodeName tr = (x, tr')"
  shows "adds (spares dir) tr tr'"
proof -
  obtain r1 tr1 where c: "clearFlannel E c nodeName tr = (r1, tr1)" by force
  obtain r2 tr2 where l: "leaveResource E c ''kube-node-lease Lease'' (lease_object_path nodeName) tr1 = (r2, tr2)" by force
  obtain r3 tr3 where p: "leaveResource E c ''Node password Secret'' (password_secret_path nodeName) tr2 = (r3, tr3)" by force
  obtain r4 tr4 where n: "leaveResource E c ''Node'' (node_path nodeName) tr3 = (r4, tr4)" by force
  let ?g = "EvApi c GET (node_path nodeName) None (e_api E tr c GET (node_path nodeName) None)"
  have "tr1 = ?g # tr \<or> (\<exists>b r. tr1 = EvApi c PATCH (node_path nodeName) b r # ?g # tr)"
    using c by (auto simp: clearFlannel_def call_api_def Let_def split: sum.splits kobj.splits if_splits)
  then have "adds (spares dir) tr tr1" by (auto intro!: adds_event adds_two)
  moreover have "tr' = tr4" using assms c l p n by (simp add: leaveClusterResources_def)
  ultimately show ?thesis using leaveResource_adds [OF l] leaveResource_adds [OF p] leaveResource_adds [OF n] adds_trans by metis
qed

lemma leave_cleanup_adds:
  assumes "is_abs dir" "leave_cleanup E executable dir s tr = (errs, tr')"
  shows "adds (spares dir) tr tr' \<and> (errs = [] \<longrightarrow> (\<forall>path \<in> {lease_object_path (st_node_name s),
    password_secret_path (st_node_name s), node_path (st_node_name s)}. \<exists>e \<in> set tr'. gone PeerClient path e))"
proof -
  obtain u1 tr1 where a: "leaveSudoAvailable E tr = (u1, tr1)" by force
  obtain r1 tr2 where b: "cleanupLeaveResolver E executable u1 tr1 = (r1, tr2)" by force
  obtain u2 tr3 where c: "leaveSudoAvailable E tr2 = (u2, tr3)" by force
  obtain r2 tr4 where d: "cleanupLeaveSearchDomains E u2 (st_node_ip s) dir tr3 = (r2, tr4)" by force
  obtain r3 tr5 where e: "leaveClusterResources E PeerClient (st_node_name s) tr4 = (r3, tr5)" by force
  have r: "tr' = tr5" "errs = [] \<longrightarrow> r3 = None"
    using assms(2) a b c d e by (auto simp: leave_cleanup_def err_list_def split: option.splits)
  have "adds (spares dir) tr tr5"
    using sudo_adds [OF a] resolver_adds [OF assms(1) b] sudo_adds [OF c] search_adds [OF assms(1) d] cluster_adds [OF e] adds_trans
    by metis
  with r e leaveClusterResources_gone show ?thesis by blast
qed

text \<open>
  C17: leaving removes a file of the local state, which holds the identity and the credentials that
  a second attempt needs, only after the Node, its Lease and its password Secret are gone.
\<close>

theorem leave_keeps_identity:
  assumes "is_abs (leave_dir defaultDir cfg)"
    and "runLeave E executable load defaultPath defaultDir cfg [] = (r, post @ EvFs (Remove (path_join [leave_dir defaultDir cfg, f])) x # pre)"
    and "f \<in> set state_files"
  shows "\<exists>s. fst (readLocalState E (leave_dir defaultDir cfg) []) = Inr s \<and> (\<forall>path \<in> {lease_object_path (st_node_name s),
    password_secret_path (st_node_name s), node_path (st_node_name s)}. \<exists>e \<in> set pre. gone PeerClient path e)"
proof -
  let ?dir = "leave_dir defaultDir cfg"
  let ?e = "EvFs (Remove (path_join [?dir, f])) x"
  obtain r1 tr1 where rd: "readLocalState E ?dir [] = (r1, tr1)" by force
  then have rd1: "tr1 = [EvFs (ReadFile (state_path ?dir)) (e_fs E [] (ReadFile (state_path ?dir)))]"
    by (auto simp: readLocalState_def fs_read_def call_fs_def Let_def split: fs_response.splits option.splits if_splits)
  have bad: "\<not> spares ?dir ?e" using assms(3) by (auto simp: spares_def removes_file_def)
  have a1: "adds (spares ?dir) [] tr1" unfolding rd1 by (intro adds_event) simp
  have no: "\<not> adds (spares ?dir) [] (post @ ?e # pre)" using bad by (auto simp: adds_def list_all_iff)
  consider (stopped) "post @ ?e # pre = tr1" | (left) s errs tr2 where "r1 = Inr s" "leave_cleanup E executable ?dir s tr1 = (errs, tr2)"
      "errs \<noteq> [] \<and> post @ ?e # pre = tr2 \<or> errs = [] \<and> removeLocalStateFiles E ?dir tr2 = (r, post @ ?e # pre)"
    using assms(2) rd by (auto simp: runLeave_def Let_def split: sum.splits if_splits option.splits prod.splits)
  then show ?thesis
  proof cases
    case stopped
    with a1 no show ?thesis by simp
  next
    case left
    from leave_cleanup_adds [OF assms(1) left(2)] have a2: "adds (spares ?dir) [] tr2" and
      g: "errs = [] \<longrightarrow> (\<forall>path \<in> {lease_object_path (st_node_name s), password_secret_path (st_node_name s),
        node_path (st_node_name s)}. \<exists>e \<in> set tr2. gone PeerClient path e)"
      using a1 adds_trans by blast+
    with left(3) no have e: "errs = []" and rm: "removeLocalStateFiles E ?dir tr2 = (r, post @ ?e # pre)" by auto
    have "emits (\<lambda>_. True) (remove_files E ?dir fs)" for fs
    proof (induction fs)
      case Nil
      show ?case unfolding remove_files.simps [abs_def] by (intro emits_intros)
    next
      case (Cons n ns)
      show ?case unfolding remove_files.simps [abs_def] Let_def by (intro emits_intros Cons) simp
    qed
    then have "emits (\<lambda>_. True) (removeLocalStateFiles E ?dir)"
      unfolding removeLocalStateFiles_def [abs_def] by (intro emits_intros) simp_all
    from emitsD [OF this rm] obtain es where "post @ ?e # pre = es @ tr2" by blast
    then consider us where "es = post @ ?e # us" "pre = us @ tr2" | us where "tr2 = us @ ?e # pre"
      by (auto simp: append_eq_append_conv2 Cons_eq_append_conv)
    then show ?thesis
    proof cases
      case 1
      with g e left(1) rd show ?thesis by auto
    next
      case 2
      with a2 bad show ?thesis by (auto simp: adds_def list_all_iff)
    qed
  qed
qed

section \<open>Examples\<close>

definition dying_pod :: pod where
  "dying_pod = demo_pod\<lparr>p_meta := (p_meta demo_pod)\<lparr>om_deletion := Some 100\<rparr>\<rparr>"

lemma force_delete_only_stale_witness:
  "\<exists>es. cleanupPodList (accepting_env demo_pod) PeerClient [demo_pod, dying_pod] ''mac'' 5 200 [] = ((1, None), es @ []) \<and>
    (\<exists>e \<in> set es. is_request PeerClient DELETE (force_delete_path dying_pod) e) \<and> length (filter accepted es) = 1"
proof -
  let ?r = "cleanupPodList (accepting_env demo_pod) PeerClient [demo_pod, dying_pod] ''mac'' 5 200 []"
  have v: "fst ?r = (1, None)" "list_ex (is_request PeerClient DELETE (force_delete_path dying_pod)) (snd ?r)" by code_simp+
  then obtain es where es: "?r = ((1, None), es @ [])" by (metis append_Nil2 prod.collapse)
  from force_delete_only_stale [OF es] es v show ?thesis by (auto simp: list_ex_iff)
qed

definition left_state :: local_state where
  "left_state = \<lparr>st_version = 1, st_server = ''https://192.0.2.1:6443'', st_node_name = ''mac'', st_node_ip = ''192.0.2.10'',
     st_instance_id = ''id1'', st_node_uid = [], st_external_ip = [], st_peer_kubeconfig = [], st_peer_context = [], st_ca_file = [],
     st_client_cert = [], st_client_key = [], st_client_ca = [], st_controller_cert = [], st_controller_key = [],
     st_cluster_cidr = [], st_service_cidr = [], st_cluster_dns = [], st_serving_cert = [], st_serving_key = [],
     st_password_file = []\<rparr>"

text \<open>A Node whose objects are gone already.\<close>

definition leave_env :: env where
  "leave_env = quiet_env\<lparr>e_fs := \<lambda>_ q. (case q of
       ReadFile p \<Rightarrow> FData (FJson (if p = ''/s/state.json'' then encode_state left_state else encode_search_state wifi))
     | _ \<Rightarrow> FDone)\<rparr>"

definition leave_flags :: leave_config where
  "leave_flags = \<lparr>lc_state_dir = ''/s'', lc_node_name = [], lc_kubeconfig = [], lc_context = [], lc_insecure = False\<rparr>"

lemma leave_keeps_identity_witness:
  "\<exists>post x pre. runLeave leave_env (Inr ''maclet'') (\<lambda>_ _ _ _. Inr True) [] [] leave_flags [] =
      (None, post @ EvFs (Remove (path_join [leave_dir [] leave_flags, ''state.json''])) x # pre) \<and>
    (\<exists>e \<in> set pre. gone PeerClient (node_path ''mac'') e)"
proof -
  let ?r = "runLeave leave_env (Inr ''maclet'') (\<lambda>_ _ _ _. Inr True) [] [] leave_flags []"
  let ?p = "path_join [leave_dir [] leave_flags, ''state.json'']"
  have v: "fst ?r = None" "list_ex (removes_file ?p) (snd ?r)" by code_simp+
  then obtain e where "e \<in> set (snd ?r)" "removes_file ?p e" by (auto simp: list_ex_iff)
  then obtain x where "EvFs (Remove ?p) x \<in> set (snd ?r)"
    by (auto simp: removes_file_def split: event.splits fs_request.splits)
  then obtain post pre where "snd ?r = post @ EvFs (Remove ?p) x # pre" by (meson split_list)
  with v(1) have r: "?r = (None, post @ EvFs (Remove ?p) x # pre)" by (metis prod.collapse)
  have a: "is_abs (leave_dir [] leave_flags)" by code_simp
  have f: "''state.json'' \<in> set state_files" by (simp add: state_files_def)
  have s: "fst (readLocalState leave_env (leave_dir [] leave_flags) []) = Inr left_state" by code_simp
  from leave_keeps_identity [OF a r f] s have "\<exists>e \<in> set pre. gone PeerClient (node_path ''mac'') e"
    by (auto simp: left_state_def)
  with r show ?thesis by blast
qed

end
