(* ===== verification/NodeNames.thy ===== *)
theory NodeNames
  imports Prelude
begin

text \<open>
  \<^verbatim>\<open>node_name.go\<close>: the Node's name from the host's name.  Every label keeps its lower-case letters
  and digits and turns each run of other characters into one hyphen; labels and the whole name are
  cut to the lengths of a DNS name.
\<close>

definition host_char :: "char \<Rightarrow> bool" where
  "host_char c \<longleftrightarrow> (97 \<le> byte c \<and> byte c \<le> 122) \<or> (48 \<le> byte c \<and> byte c \<le> 57)"

text \<open>The loop over the characters: \<open>label\<close> is what has been written, newest first.\<close>

fun label_loop :: "string \<Rightarrow> bool \<Rightarrow> string \<Rightarrow> string" where
  "label_loop label lastSeparator [] = rev label"
| "label_loop label lastSeparator (c # cs) =
    (if host_char c then label_loop (c # label) False cs
     else if label \<noteq> [] \<and> \<not> lastSeparator then label_loop (CHR ''-'' # label) True cs
     else label_loop label lastSeparator cs)"

definition node_label :: "string \<Rightarrow> string" where
  "node_label raw = (let value = trim_chars (label_loop [] False raw) ''-'' in
     if length value > 63 then trim_right_chars (take 63 value) ''-'' else value)"

definition nodeNameFromHostname :: "string \<Rightarrow> string" where
  "nodeNameFromHostname hostname =
    (let labels = filter (\<lambda>l. l \<noteq> []) (map node_label (split_on CHR ''.'' (to_lower (trim_space hostname))));
         name = str_join ''.'' labels in
     if length name > 253 then trim_right_chars (take 253 name) ''.-'' else name)"

definition defaultNodeName :: "string option \<Rightarrow> string" where
  "defaultNodeName hostname = (case hostname of
       None \<Rightarrow> ''maclet''
     | Some h \<Rightarrow> if nodeNameFromHostname h \<noteq> [] then nodeNameFromHostname h else ''maclet'')"

section \<open>DNS names\<close>

definition label_char :: "char \<Rightarrow> bool" where
  "label_char c \<longleftrightarrow> host_char c \<or> c = CHR ''-''"

text \<open>A label that may still grow, and a complete one.\<close>

definition open_label :: "string \<Rightarrow> bool" where
  "open_label l \<longleftrightarrow> list_all label_char l \<and> length l \<le> 63 \<and> (l \<noteq> [] \<longrightarrow> host_char (hd l))"

definition dns_label :: "string \<Rightarrow> bool" where
  "dns_label l \<longleftrightarrow> open_label l \<and> l \<noteq> [] \<and> host_char (last l)"

definition dns_name :: "string \<Rightarrow> bool" where
  "dns_name n \<longleftrightarrow> list_all dns_label (split_on CHR ''.'' n) \<and> length n \<le> 253"

lemma host_char_no [simp]: "\<not> host_char CHR ''-''" "\<not> host_char CHR ''.''" "\<not> label_char CHR ''.''"
  by (simp_all add: host_char_def byte_def label_char_def)

lemma label_loop_chars: "list_all label_char label \<Longrightarrow> list_all label_char (label_loop label sep cs)"
  by (induction label sep cs rule: label_loop.induct) (auto simp: label_char_def list_all_iff)

lemma trim_right_sub: "set (trim_right_of P s) \<subseteq> set s"
  using trim_right_of_prefix [of s P] by (metis Un_upper1 set_append)

lemma trim_chars_sub: "set (trim_of P s) \<subseteq> set s"
proof -
  have "set (dropWhile P s) \<subseteq> set s" by (meson set_dropWhileD subsetI)
  then show ?thesis unfolding trim_of_def using trim_right_sub [of P "dropWhile P s"] by blast
qed

lemma trim_right_hd: "trim_right_of P s \<noteq> [] \<Longrightarrow> hd (trim_right_of P s) = hd s"
  using trim_right_of_prefix [of s P] by (metis hd_append2)

lemma label_end: "label_char c \<Longrightarrow> c \<notin> set ''-'' \<Longrightarrow> host_char c"
  by (simp add: label_char_def)

lemma closed_label:
  assumes "\<And>c. c \<in> set l \<Longrightarrow> label_char c" "length l \<le> 63" "l \<noteq> []"
    and "hd l \<notin> set ''-''" "last l \<notin> set ''-''"
  shows "dns_label l"
  unfolding dns_label_def open_label_def list_all_iff
  using assms label_end [OF assms(1) [OF hd_in_set] assms(4)] label_end [OF assms(1) [OF last_in_set] assms(5)]
  by blast

lemma node_label_dns: "node_label raw = [] \<or> dns_label (node_label raw)"
proof -
  define v where "v = trim_chars (label_loop [] False raw) ''-''"
  have all: "label_char c" if "c \<in> set v" for c
    using that label_loop_chars [of "[]" False raw] trim_chars_sub [of "\<lambda>c. c \<in> set ''-''"]
    unfolding v_def trim_chars_def list_all_iff by fastforce
  have hd: "hd v \<notin> set ''-''" if "v \<noteq> []"
    using that unfolding v_def trim_chars_def by (rule trim_of_hd)
  have lst: "last v \<notin> set ''-''" if "v \<noteq> []"
    using that unfolding v_def trim_chars_def by (rule trim_of_last)
  show ?thesis
  proof (cases "length v > 63")
    case False
    then have "node_label raw = v" by (simp add: node_label_def Let_def v_def)
    then show ?thesis using closed_label [OF all _ _ hd lst] False by fastforce
  next
    case True
    define w where "w = trim_right_chars (take 63 v) ''-''"
    have w: "node_label raw = w" using True by (simp add: node_label_def Let_def v_def w_def)
    have sub: "set w \<subseteq> set v"
      unfolding w_def trim_right_chars_def by (meson trim_right_sub set_take_subset subset_trans)
    obtain u where "take 63 v = w @ u"
      unfolding w_def trim_right_chars_def using trim_right_of_prefix by blast
    from arg_cong [OF this, of length] have len: "length w \<le> 63" by simp
    have hdw: "hd w \<notin> set ''-''" if "w \<noteq> []"
      using that hd trim_right_hd [of "\<lambda>c. c \<in> set ''-''" "take 63 v"] True
      by (cases v) (auto simp: w_def trim_right_chars_def)
    have lastw: "last w \<notin> set ''-''" if "w \<noteq> []"
      using that unfolding w_def trim_right_chars_def by (rule trim_right_of_last)
    show ?thesis using closed_label [OF _ len _ hdw lastw] sub all unfolding w by blast
  qed
qed

section \<open>Cutting a name\<close>

text \<open>All labels but the last are complete; this holds of every prefix of a name.\<close>

definition partial_name :: "string \<Rightarrow> bool" where
  "partial_name s \<longleftrightarrow> list_all dns_label (butlast (split_on CHR ''.'' s)) \<and> open_label (last (split_on CHR ''.'' s))"

lemma split_snoc: "split_on d (s @ [c]) = (if c = d then split_on d s @ [[]]
    else butlast (split_on d s) @ [last (split_on d s) @ [c]])"
proof (induction s)
  case (Cons a s)
  obtain p ps where p: "split_on d s = p # ps" by (metis list.exhaust split_on_not_Nil)
  with Cons show ?case by (cases ps) auto
qed simp

lemma partial_name_prefix: "partial_name (s @ t) \<Longrightarrow> partial_name s"
proof (induction t rule: rev_induct)
  case (snoc c t)
  have "partial_name (s @ t)"
  proof (cases "c = CHR ''.''")
    case True
    then have "list_all dns_label (split_on CHR ''.'' (s @ t))"
      using snoc.prems by (simp add: partial_name_def split_snoc flip: append_assoc)
    then show ?thesis
      unfolding partial_name_def by (auto simp: list_all_iff dns_label_def dest: in_set_butlastD)
  next
    case False
    then have "list_all dns_label (butlast (split_on CHR ''.'' (s @ t)))" "open_label (last (split_on CHR ''.'' (s @ t)) @ [c])"
      using snoc.prems by (simp_all add: partial_name_def split_snoc flip: append_assoc)
    then show ?thesis by (auto simp: partial_name_def open_label_def split: if_splits)
  qed
  with snoc.IH show ?case by blast
qed simp

lemma partial_name_dns:
  assumes "partial_name s" "s \<noteq> []" "last s \<noteq> CHR ''.''" "last s \<noteq> CHR ''-''"
  shows "list_all dns_label (split_on CHR ''.'' s)"
proof -
  obtain t c where s: "s = t @ [c]" using assms(2) by (metis rev_exhaust)
  have "open_label (last (split_on CHR ''.'' t) @ [c])" "list_all dns_label (butlast (split_on CHR ''.'' t))"
    using assms(1,3) by (simp_all add: s partial_name_def split_snoc)
  moreover have "host_char c" if "label_char c" using that assms(4) by (simp add: s label_char_def)
  ultimately show ?thesis using assms(3) by (auto simp: s split_snoc dns_label_def open_label_def)
qed

text \<open>
  C40: the name derived from a host's name is empty, in which case the fallback is used, or a DNS
  name: at most 253 characters of labels of at most 63 lower-case letters, digits and hyphens that
  begin and end with a letter or digit; so the default name always is one.
\<close>

theorem node_name_dns:
  "dns_name (defaultNodeName hostname)"
proof -
  have fallback: "dns_name ''maclet''" by code_simp
  have "dns_name (nodeNameFromHostname h)" if ne: "nodeNameFromHostname h \<noteq> []" for h
  proof -
    define labels where "labels = filter (\<lambda>l. l \<noteq> []) (map node_label (split_on CHR ''.'' (to_lower (trim_space h))))"
    let ?n = "str_join ''.'' labels"
    have l: "list_all dns_label labels" using node_label_dns by (auto simp: labels_def list_all_iff)
    have nn: "nodeNameFromHostname h = (if length ?n > 253 then trim_right_chars (take 253 ?n) ''.-'' else ?n)"
      by (simp add: nodeNameFromHostname_def labels_def Let_def)
    have lne: "labels \<noteq> []" using ne by (auto simp: nn trim_right_chars_def trim_right_of_def split: if_splits)
    have sp: "split_on CHR ''.'' ?n = labels"
      using lne l host_char_no(3) unfolding list_all_iff dns_label_def open_label_def
      by (intro split_on_join) metis+
    show ?thesis
    proof (cases "length ?n > 253")
      case False
      with l sp show ?thesis by (simp add: nn dns_name_def)
    next
      case True
      let ?t = "trim_right_chars (take 253 ?n) ''.-''"
      have pn: "partial_name ?n"
        using l lne unfolding partial_name_def sp
        by (auto simp: list_all_iff dns_label_def dest: in_set_butlastD)
      obtain u where u: "take 253 ?n = ?t @ u"
        using trim_right_of_prefix [of "take 253 ?n" "\<lambda>c. c \<in> set ''.-''"] by (auto simp: trim_right_chars_def)
      then have "?n = ?t @ u @ drop 253 ?n" by (metis append.assoc append_take_drop_id)
      then have p: "partial_name ?t" using pn partial_name_prefix by metis
      have t: "?t \<noteq> []" using ne True by (simp add: nn)
      then have "last ?t \<notin> set ''.-''"
        unfolding trim_right_chars_def by (rule trim_right_of_last)
      with partial_name_dns [OF p t] have "list_all dns_label (split_on CHR ''.'' ?t)" by simp
      moreover have "length ?t \<le> 253" using arg_cong [OF u, of length] by simp
      ultimately show ?thesis using True by (simp add: nn dns_name_def)
    qed
  qed
  with fallback show ?thesis by (simp add: defaultNodeName_def split: option.split)
qed

end
