(* ===== verification/Vxlan.thy ===== *)
theory Vxlan
  imports NodeStatus Flannel PodNet FilePath
begin

text \<open>
  The VXLAN child process: how a leftover of an earlier run is recognised and removed
  (\<^verbatim>\<open>vxlan_recovery.go\<close>), how process trees are signalled and the bridge is awaited
  (\<^verbatim>\<open>network_platform.go\<close>), and how the child is started (\<^verbatim>\<open>vxlan.go\<close>).  The process table and
  the end of a process are answers of the environment; what may loop for ever is a partial
  function.
\<close>

abbreviation SIGINT :: int where
  "SIGINT \<equiv> 2"

abbreviation SIGKILL :: int where
  "SIGKILL \<equiv> 9"

section \<open>Recognising an invocation\<close>

record vxlan_process =
  vp_pid :: int
  vp_command :: string
  vp_bridge_cidr :: string
  vp_wrapper :: bool

fun flagValue :: "string list \<Rightarrow> string \<Rightarrow> string" where
  "flagValue (x # y # fs) flag = (if x = flag then y else flagValue (y # fs) flag)"
| "flagValue _ flag = []"

definition vxlan_binary_field :: "string \<Rightarrow> string \<Rightarrow> bool" where
  "vxlan_binary_field binary field \<longleftrightarrow>
     field = binary \<or> (path_base binary = ''darwin-vxlan'' \<and> path_base field = path_base binary)"

definition matchingVXLANInvocation :: "string \<Rightarrow> string \<Rightarrow> string \<Rightarrow> string \<Rightarrow> int \<Rightarrow> string option" where
  "matchingVXLANInvocation command binary local remote port =
    (let fs = str_fields command in
     if \<not> list_ex (vxlan_binary_field binary) fs then None
     else if flagValue fs ''--vni'' \<noteq> ''1'' \<or> flagValue fs ''--local'' \<noteq> local \<or>
       flagValue fs ''--remote'' \<noteq> remote \<or> flagValue fs ''--port'' \<noteq> itoa port then None
     else (let bridgeCIDR = flagValue fs ''--bridge-ipv4'' in
       if bridgeCIDR = [] \<or> parse_cidr bridgeCIDR = None then None else Some bridgeCIDR))"

text \<open>One line of the process table.\<close>

definition vxlan_line :: "string \<Rightarrow> string \<Rightarrow> string \<Rightarrow> int \<Rightarrow> string \<Rightarrow> vxlan_process option" where
  "vxlan_line binary local remote port line = (case str_fields line of
       f # g # fs \<Rightarrow> (case atoi f of
           None \<Rightarrow> None
         | Some pid \<Rightarrow> if pid \<le> 0 then None
             else (case matchingVXLANInvocation (str_join '' '' (g # fs)) binary local remote port of
                 None \<Rightarrow> None
               | Some cidr \<Rightarrow> Some \<lparr>vp_pid = pid, vp_command = str_join '' '' (g # fs),
                   vp_bridge_cidr = cidr, vp_wrapper = (g = ''sudo'')\<rparr>))
     | _ \<Rightarrow> None)"

abbreviation ps_argv :: "string list" where
  "ps_argv \<equiv> [''ps'', ''-axo'', ''pid=,command='']"

definition findMatchingVXLANProcesses ::
  "env \<Rightarrow> string \<Rightarrow> string \<Rightarrow> string \<Rightarrow> int \<Rightarrow> (err + vxlan_process list) io" where
  "findMatchingVXLANProcesses E binary local remote port tr = (case call_cmd E ps_argv tr of
       ((_, Some e), tr) \<Rightarrow> (Inl (wrap ''list processes: '' e), tr)
     | ((output, None), tr) \<Rightarrow> (Inr (List.map_filter (vxlan_line binary local remote port) (split_on newline output)), tr))"

section \<open>Signals\<close>

definition kill_argv :: "int \<Rightarrow> int \<Rightarrow> string list" where
  "kill_argv sig pid = [''kill'', CHR ''-'' # itoa sig, itoa pid]"

text \<open>A signal through \<^verbatim>\<open>sudo\<close> or directly; its outcome is ignored.\<close>

definition signal_process :: "env \<Rightarrow> bool \<Rightarrow> int \<Rightarrow> int \<Rightarrow> trace \<Rightarrow> trace" where
  "signal_process E sudo sig pid tr =
    (if sudo then snd (privileged_command E True (kill_argv sig pid) tr) else send_signal pid sig tr)"

text \<open>The descendants of the processes that a list of fields names, children before their parent.\<close>

partial_function (option) descendants_of :: "env \<Rightarrow> string list \<Rightarrow> trace \<Rightarrow> (int list \<times> trace) option" where
  "descendants_of E names tr = (case names of
       [] \<Rightarrow> Some ([], tr)
     | f # fs \<Rightarrow> (case atoi f of
         None \<Rightarrow> descendants_of E fs tr
       | Some child \<Rightarrow>
           if child \<le> 0 then descendants_of E fs tr
           else (case call_cmd E [''pgrep'', ''-P'', itoa child] tr of ((output, r), tr) \<Rightarrow>
             Option.bind (descendants_of E (if r = None then str_fields output else []) tr) (\<lambda>(below, tr).
             Option.bind (descendants_of E fs tr) (\<lambda>(others, tr).
               Some (below @ child # others, tr))))))"

definition processDescendants :: "env \<Rightarrow> int \<Rightarrow> trace \<Rightarrow> (int list \<times> trace) option" where
  "processDescendants E pid tr = (case call_cmd E [''pgrep'', ''-P'', itoa pid] tr of ((output, r), tr) \<Rightarrow>
     if r = None then descendants_of E (str_fields output) tr else Some ([], tr))"

definition signalProcessTree :: "env \<Rightarrow> int \<Rightarrow> bool \<Rightarrow> int \<Rightarrow> trace \<Rightarrow> trace option" where
  "signalProcessTree E pid sudo sig tr = Option.bind (processDescendants E pid tr) (\<lambda>(children, tr).
     Some (signal_process E sudo sig pid (fold (signal_process E sudo sig) (rev children) tr)))"

section \<open>Terminating leftovers\<close>

fun interrupt_processes :: "env \<Rightarrow> bool \<Rightarrow> vxlan_process list \<Rightarrow> trace \<Rightarrow> trace option" where
  "interrupt_processes E sudo [] tr = Some tr"
| "interrupt_processes E sudo (p # ps) tr =
    (if vp_wrapper p then Option.bind (signalProcessTree E (vp_pid p) sudo SIGINT tr) (interrupt_processes E sudo ps)
     else interrupt_processes E sudo ps (signal_process E sudo SIGINT (vp_pid p) tr))"

definition formatProcessPIDs :: "vxlan_process list \<Rightarrow> string" where
  "formatProcessPIDs ps = str_join '','' (map (\<lambda>p. itoa (vp_pid p)) ps)"

partial_function (option) await_termination ::
  "env \<Rightarrow> bool \<Rightarrow> string \<Rightarrow> string \<Rightarrow> string \<Rightarrow> int \<Rightarrow> gotime \<Rightarrow> trace \<Rightarrow> (err option \<times> trace) option" where
  "await_termination E sudo binary local remote port deadline tr =
    (case findMatchingVXLANProcesses E binary local remote port tr of
       (Inl e, tr) \<Rightarrow> Some (Some e, tr)
     | (Inr remaining, tr) \<Rightarrow>
         if remaining = [] then Some (None, tr)
         else (case time_now E tr of (now, tr) \<Rightarrow>
           if deadline < now
           then Some (Some (EMsg (''stale darwin-vxlan process(es) did not stop: '' @ formatProcessPIDs remaining)),
             fold (\<lambda>p. signal_process E sudo SIGKILL (vp_pid p)) remaining tr)
           else await_termination E sudo binary local remote port deadline (go_sleep 100000000 tr)))"

definition terminateMatchingVXLANProcesses ::
  "env \<Rightarrow> vxlan_process list \<Rightarrow> bool \<Rightarrow> string \<Rightarrow> string \<Rightarrow> string \<Rightarrow> int \<Rightarrow> trace \<Rightarrow> (err option \<times> trace) option" where
  "terminateMatchingVXLANProcesses E ps sudo binary local remote port tr =
    Option.bind (interrupt_processes E sudo ps tr) (\<lambda>tr. (case time_now E tr of (now, tr) \<Rightarrow>
      await_termination E sudo binary local remote port (now + 5 * one_second) tr))"

section \<open>Removing addresses\<close>

definition isBridgeInterface :: "string \<Rightarrow> bool" where
  "isBridgeInterface name \<longleftrightarrow> has_prefix name ''bridge''"

fun parse_networks :: "string list \<Rightarrow> err + ipnet list" where
  "parse_networks [] = Inr []"
| "parse_networks (cidr # cidrs) = (case cidr_net cidr of
       None \<Rightarrow> Inl (wrap (''parse stale address CIDR '' @ quote cidr @ '': '') (cidr_error cidr))
     | Some n \<Rightarrow> (case parse_networks cidrs of Inl e \<Rightarrow> Inl e | Inr ns \<Rightarrow> Inr (n # ns)))"

definition remove_address_argv :: "string \<Rightarrow> 32 word \<Rightarrow> string list" where
  "remove_address_argv name w = [''ifconfig'', name, ''inet'', ip4_string w, ''-alias'']"

fun remove_addresses :: "env \<Rightarrow> string \<Rightarrow> bool \<Rightarrow> ipnet list \<Rightarrow> ipaddr list \<Rightarrow> err option io" where
  "remove_addresses E name sudo ns [] tr = (None, tr)"
| "remove_addresses E name sudo ns (ip # ips) tr = (case to4 ip of
       None \<Rightarrow> remove_addresses E name sudo ns ips tr
     | Some w \<Rightarrow>
         if \<not> list_ex (\<lambda>n. net_contains n (ip_of_v4 w)) ns then remove_addresses E name sudo ns ips tr
         else (case privileged_command E sudo (remove_address_argv name w) tr of
            ((output, Some e), tr) \<Rightarrow>
              (Some (EWrap (''remove IPv4 address '' @ ip4_string w @ '': '') e ('' ('' @ trim_space output @ '')'')), tr)
          | ((_, None), tr) \<Rightarrow> remove_addresses E name sudo ns ips tr))"

text \<open>\<^verbatim>\<open>net.InterfaceByName\<close> looks the name up in the table of interfaces.\<close>

definition removeIPv4AddressesInCIDRs :: "env \<Rightarrow> string \<Rightarrow> bool \<Rightarrow> string list \<Rightarrow> err option io" where
  "removeIPv4AddressesInCIDRs E ifaceName sudo cidrs tr = (case parse_networks cidrs of
       Inl e \<Rightarrow> (Some e, tr)
     | Inr networks \<Rightarrow> (case call_ifaces E tr of
         (Inl e, tr) \<Rightarrow> (if str_contains (err_string e) ''no such network interface'' then None else Some e, tr)
       | (Inr is, tr) \<Rightarrow> (case List.find (\<lambda>i. if_name i = ifaceName) is of
           None \<Rightarrow> (None, tr)
         | Some i \<Rightarrow> (case if_addrs i of
             None \<Rightarrow> (Some (EMsg ''interface addresses are unavailable''), tr)
           | Some ips \<Rightarrow> remove_addresses E (if_name i) sudo networks ips tr))))"

section \<open>Recovery\<close>

definition stale_iface :: "env \<Rightarrow> string \<Rightarrow> (err + string) io" where
  "stale_iface E cidr tr = (case interfaceForAddress E cidr tr of
       (Inl e, tr) \<Rightarrow> (Inl (wrap (''inspect stale VXLAN bridge '' @ cidr @ '': '') e), tr)
     | (Inr i, tr) \<Rightarrow>
         if i \<noteq> [] \<and> \<not> isBridgeInterface i
         then (Inl (EMsg (''stale VXLAN address '' @ cidr @ '' is on non-bridge interface '' @ i)), tr)
         else (Inr i, tr))"

definition add_cidr :: "string \<Rightarrow> string \<Rightarrow> (string, string list) gomap \<Rightarrow> (string, string list) gomap" where
  "add_cidr i cidr m = mput m i ((case map_of m i of None \<Rightarrow> [] | Some cs \<Rightarrow> cs) @ [cidr])"

fun stale_ifaces ::
  "env \<Rightarrow> vxlan_process list \<Rightarrow> (string, string list) gomap \<Rightarrow> (err + (string, string list) gomap) io" where
  "stale_ifaces E [] m tr = (Inr m, tr)"
| "stale_ifaces E (p # ps) m tr =
    (if vp_bridge_cidr p = [] then stale_ifaces E ps m tr
     else (case stale_iface E (vp_bridge_cidr p) tr of
        (Inl e, tr) \<Rightarrow> (Inl e, tr)
      | (Inr i, tr) \<Rightarrow> stale_ifaces E ps (if i = [] then m else add_cidr i (vp_bridge_cidr p) m) tr))"

fun clear_ifaces :: "env \<Rightarrow> bool \<Rightarrow> (string, string list) gomap \<Rightarrow> string list \<Rightarrow> err option io" where
  "clear_ifaces E sudo m [] tr = (None, tr)"
| "clear_ifaces E sudo m (i # is) tr =
    (case removeIPv4AddressesInCIDRs E i sudo (case map_of m i of None \<Rightarrow> [] | Some cs \<Rightarrow> cs) tr of
       (Some e, tr) \<Rightarrow> (Some (wrap (''remove stale VXLAN addresses from '' @ i @ '': '') e), tr)
     | (None, tr) \<Rightarrow> clear_ifaces E sudo m is tr)"

definition clear_stale ::
  "env \<Rightarrow> bool \<Rightarrow> string \<Rightarrow> (string, string list) gomap \<Rightarrow> err option io" where
  "clear_stale E sudo bridgeCIDR m tr = (case clear_ifaces E sudo m (e_order E (mkeys m)) tr of
       (Some e, tr) \<Rightarrow> (Some e, tr)
     | (None, tr) \<Rightarrow> (case interfaceForAddress E bridgeCIDR tr of
         (Inl e, tr) \<Rightarrow> (Some e, tr)
       | (Inr existing, tr) \<Rightarrow>
           (if existing \<noteq> [] then Some (EMsg (''stale VXLAN bridge address '' @ bridgeCIDR @ '' remains on '' @ existing))
            else None, tr)))"

text \<open>The result says whether anything was recovered, with or without an error.\<close>

definition recover_found ::
  "env \<Rightarrow> join_config \<Rightarrow> string \<Rightarrow> string \<Rightarrow> vxlan_process list \<Rightarrow> (string, string list) gomap \<Rightarrow> trace \<Rightarrow>
    ((bool \<times> err option) \<times> trace) option" where
  "recover_found E cfg bridgeCIDR local ps m tr =
    (if ps = [] \<and> m = [] then Some ((False, None), tr)
     else Option.bind
       (if ps = [] then Some (None, tr)
        else terminateMatchingVXLANProcesses E ps (jc_use_sudo cfg) (jc_vxlan_binary cfg) local (jc_vxlan_remote cfg) (jc_vxlan_port cfg) tr)
       (\<lambda>(r, tr). if r \<noteq> None then Some ((True, r), tr)
          else (case clear_stale E (jc_use_sudo cfg) bridgeCIDR m tr of (r, tr) \<Rightarrow> Some ((True, r), tr))))"

definition recoverStaleVXLAN ::
  "env \<Rightarrow> join_config \<Rightarrow> string \<Rightarrow> string \<Rightarrow> trace \<Rightarrow> ((bool \<times> err option) \<times> trace) option" where
  "recoverStaleVXLAN E cfg bridgeCIDR local tr =
    (case findMatchingVXLANProcesses E (jc_vxlan_binary cfg) local (jc_vxlan_remote cfg) (jc_vxlan_port cfg) tr of
       (Inl e, tr) \<Rightarrow> Some ((False, Some e), tr)
     | (Inr ps, tr) \<Rightarrow> (case interfaceForAddress E bridgeCIDR tr of
         (Inl e, tr) \<Rightarrow> Some ((False, Some e), tr)
       | (Inr i, tr) \<Rightarrow>
           if i \<noteq> [] \<and> \<not> isBridgeInterface i
           then Some ((False, Some (EMsg (''VXLAN bridge address '' @ bridgeCIDR @ '' is already present on non-bridge interface '' @ i))), tr)
           else (case stale_ifaces E ps (if i = [] then [] else add_cidr i bridgeCIDR []) tr of
              (Inl e, tr) \<Rightarrow> Some ((False, Some e), tr)
            | (Inr m, tr) \<Rightarrow> recover_found E cfg bridgeCIDR local ps m tr)))"

section \<open>Starting the child\<close>

definition vxlan_arguments :: "join_config \<Rightarrow> string \<Rightarrow> string \<Rightarrow> flannel_peer list \<Rightarrow> string list" where
  "vxlan_arguments cfg local bridgeCIDR peers =
    [''--vni'', ''1'', ''--local'', local, ''--remote'', jc_vxlan_remote cfg, ''--port'', itoa (jc_vxlan_port cfg),
     ''--mtu'', itoa (jc_vxlan_mtu cfg), ''--bridge-ipv4'', bridgeCIDR] @
    concat (map (\<lambda>p. [''--peer'', fp_pod_cidr p @ ''='' @ fp_public_ip p]) peers) @
    [''--peer'', jc_service_cidr cfg @ ''='' @ jc_vxlan_remote cfg]"

definition vxlan_argv :: "join_config \<Rightarrow> string list \<Rightarrow> string list" where
  "vxlan_argv cfg arguments =
    (if jc_use_sudo cfg then ''sudo'' # ''-n'' # jc_vxlan_binary cfg # arguments else jc_vxlan_binary cfg # arguments)"

definition launch_again :: "env \<Rightarrow> join_config \<Rightarrow> string list \<Rightarrow> (err + int) io" where
  "launch_again E cfg arguments tr = (case start_process E (vxlan_argv cfg arguments) tr of
       (Inl e, tr) \<Rightarrow> (Inl (wrap ''start darwin-vxlan after stale-state recovery: '' e), tr)
     | (Inr pid, tr) \<Rightarrow> (Inr pid, tr))"

definition launch_vxlan ::
  "env \<Rightarrow> join_config \<Rightarrow> string \<Rightarrow> string \<Rightarrow> string list \<Rightarrow> trace \<Rightarrow> ((err + int) \<times> trace) option" where
  "launch_vxlan E cfg bridgeCIDR local arguments tr = (case start_process E (vxlan_argv cfg arguments) tr of
       (Inr pid, tr) \<Rightarrow> Some (Inr pid, tr)
     | (Inl e, tr) \<Rightarrow> Option.bind (recoverStaleVXLAN E cfg bridgeCIDR local tr) (\<lambda>((recovered, r), tr).
         (case r of
            Some re \<Rightarrow> Some (Inl (EWrap ''start darwin-vxlan: '' e ('' (stale-state recovery: '' @ err_string re @ '')'')), tr)
          | None \<Rightarrow> if recovered then Some (launch_again E cfg arguments tr)
              else Some (Inl (wrap ''start darwin-vxlan: '' e), tr))))"

text \<open>Stopping the child: an interrupt, five seconds of grace, then a kill and another second.\<close>

definition vxlan_cleanup :: "env \<Rightarrow> bool \<Rightarrow> int \<Rightarrow> trace \<Rightarrow> trace option" where
  "vxlan_cleanup E sudo pid tr = Option.bind (signalProcessTree E pid sudo SIGINT tr) (\<lambda>tr.
     if e_exited E tr pid then Some tr
     else Option.bind (signalProcessTree E pid sudo SIGKILL (go_sleep (5 * one_second) tr)) (\<lambda>tr.
       Some (if e_exited E tr pid then tr else go_sleep one_second tr)))"

section \<open>Waiting for the bridge\<close>

definition bridge_iface :: "ipaddr \<Rightarrow> iface \<Rightarrow> bool" where
  "bridge_iface ip i \<longleftrightarrow> if_mac i \<noteq> [] \<and> iface_has ip i"

definition find_bridge :: "env \<Rightarrow> ipaddr \<Rightarrow> (string \<times> string) option io" where
  "find_bridge E ip tr = (case call_ifaces E tr of
       (Inl _, tr) \<Rightarrow> (None, tr)
     | (Inr is, tr) \<Rightarrow> (map_option (\<lambda>i. (if_name i, if_mac i)) (List.find (bridge_iface ip) is), tr))"

partial_function (option) bridge_loop ::
  "env \<Rightarrow> (trace \<Rightarrow> bool) \<Rightarrow> int \<Rightarrow> string \<Rightarrow> ipaddr \<Rightarrow> gotime \<Rightarrow> trace \<Rightarrow> ((err + string \<times> string) \<times> trace) option" where
  "bridge_loop E cancelled pid bridgeCIDR ip deadline tr =
    (if e_exited E tr pid then Some (Inl (EMsg ''darwin-vxlan exited before its bridge became ready''), tr)
     else (case find_bridge E ip tr of
        (Some b, tr) \<Rightarrow> Some (Inr b, tr)
      | (None, tr) \<Rightarrow> (case time_now E tr of (now, tr) \<Rightarrow>
          if deadline < now then Some (Inl (EMsg (''bridge address '' @ bridgeCIDR @ '' did not appear'')), tr)
          else if cancelled tr then Some (Inl (ESentinel Canceled ''context canceled''), tr)
          else bridge_loop E cancelled pid bridgeCIDR ip deadline (go_sleep 250000000 tr))))"

definition waitForBridge ::
  "env \<Rightarrow> (trace \<Rightarrow> bool) \<Rightarrow> int \<Rightarrow> string \<Rightarrow> int \<Rightarrow> trace \<Rightarrow> ((err + string \<times> string) \<times> trace) option" where
  "waitForBridge E cancelled pid bridgeCIDR timeout tr = (case parse_cidr bridgeCIDR of
       None \<Rightarrow> Some (Inl (wrap (''parse bridge address '' @ quote bridgeCIDR @ '': '') (cidr_error bridgeCIDR)), tr)
     | Some (ip, _) \<Rightarrow> (case time_now E tr of (now, tr) \<Rightarrow>
         bridge_loop E cancelled pid bridgeCIDR ip (now + timeout) tr))"

text \<open>What follows the launch.\<close>

definition adopt_bridge ::
  "env \<Rightarrow> join_config \<Rightarrow> (trace \<Rightarrow> bool) \<Rightarrow> string \<Rightarrow> int \<Rightarrow> trace \<Rightarrow> ((err + vxlan_handle \<times> int) \<times> trace) option" where
  "adopt_bridge E cfg cancelled bridgeCIDR pid tr =
    Option.bind (waitForBridge E cancelled pid bridgeCIDR (30 * one_second) tr) (\<lambda>(r, tr). (case r of
        Inl e \<Rightarrow> Option.bind (vxlan_cleanup E (jc_use_sudo cfg) pid tr) (\<lambda>tr.
          Some (Inl (wrap ''discover darwin-vxlan bridge: '' e), tr))
      | Inr (name, mac) \<Rightarrow>
          if e_exited E tr pid
          then Option.bind (vxlan_cleanup E (jc_use_sudo cfg) pid tr) (\<lambda>tr.
            Some (Inl (EMsg ''darwin-vxlan exited after creating its bridge''), tr))
          else Some (Inr (\<lparr>vx_bridge_cidr = bridgeCIDR, vx_bridge_name = name, vx_bridge_mac = mac\<rparr>, pid), tr)))"

definition run_vxlan ::
  "env \<Rightarrow> join_config \<Rightarrow> (trace \<Rightarrow> bool) \<Rightarrow> string \<Rightarrow> string \<Rightarrow> string list \<Rightarrow> trace \<Rightarrow>
    ((err + vxlan_handle \<times> int) \<times> trace) option" where
  "run_vxlan E cfg cancelled bridgeCIDR local arguments tr =
    Option.bind (recoverStaleVXLAN E cfg bridgeCIDR local tr) (\<lambda>((_, r), tr). (case r of
        Some e \<Rightarrow> Some (Inl (wrap ''recover stale VXLAN state: '' e), tr)
      | None \<Rightarrow> Option.bind (launch_vxlan E cfg bridgeCIDR local arguments tr) (\<lambda>(r, tr). (case r of
          Inl e \<Rightarrow> Some (Inl e, tr)
        | Inr pid \<Rightarrow> adopt_bridge E cfg cancelled bridgeCIDR pid tr))))"

text \<open>The checks before anything is run: the bridge's address and the local underlay address.\<close>

definition vxlan_plan :: "join_config \<Rightarrow> node \<Rightarrow> err + string \<times> string" where
  "vxlan_plan cfg n =
    (if jc_vxlan_remote cfg = [] then Inl (EMsg ''--vxlan-remote is required when --vxlan-binary is set'')
     else if first_pod_cidr n = [] then Inl (EWrap '''' (ESentinel PodCIDRUnavailable ''PodCIDR is not assigned'')
       '': cannot start VXLAN until Kubernetes assigns this node a PodCIDR'')
     else (case bridgeAddressForCIDR (first_pod_cidr n) of
         Inl e \<Rightarrow> Inl e
       | Inr bridgeCIDR \<Rightarrow> (let local = (if jc_vxlan_local cfg = [] then jc_node_ip cfg else jc_vxlan_local cfg) in
           if local = [] then Inl (EMsg ''cannot start VXLAN without a local underlay address'')
           else Inr (bridgeCIDR, local))))"

definition startVXLAN ::
  "env \<Rightarrow> join_config \<Rightarrow> (trace \<Rightarrow> bool) \<Rightarrow> node \<Rightarrow> flannel_peer list \<Rightarrow> trace \<Rightarrow>
    ((err + (vxlan_handle \<times> int) option) \<times> trace) option" where
  "startVXLAN E cfg cancelled n peers tr =
    (if jc_vxlan_binary cfg = [] then Some (Inr None, tr)
     else (case vxlan_plan cfg n of
         Inl e \<Rightarrow> Some (Inl e, tr)
       | Inr (bridgeCIDR, local) \<Rightarrow>
           Option.bind (run_vxlan E cfg cancelled bridgeCIDR local (vxlan_arguments cfg local bridgeCIDR peers) tr)
             (\<lambda>(r, tr). Some (map_sum id Some r, tr))))"

end
