(* ===== verification/VxlanProps.thy ===== *)
theory VxlanProps
  imports Vxlan Polling
begin

text \<open>
  The VXLAN child: a command that is launched is recognised in the process table by a later run,
  the recovery signals only processes it has found and removes addresses only from bridges, and
  the waits for the end of a process and for the bridge return.
\<close>

section \<open>Fields of a command line\<close>

definition one_field :: "string \<Rightarrow> bool" where
  "one_field s \<longleftrightarrow> s \<noteq> [] \<and> list_all (\<lambda>c. \<not> is_space c) s"

lemma fields_word: "list_all (\<lambda>c. \<not> is_space c) s \<Longrightarrow> fields_acc acc (s @ t) = fields_acc (rev s @ acc) t"
  by (induction s arbitrary: acc) auto

lemma space_is_space [simp]: "is_space CHR '' ''"
  by (simp add: is_space_def)

lemma str_fields_word: "one_field s \<Longrightarrow> str_fields (s @ CHR '' '' # t) = s # str_fields t"
  by (simp add: str_fields_def fields_word one_field_def)

lemma str_fields_last: "one_field s \<Longrightarrow> str_fields s = [s]"
  using fields_word [of s "[]" "[]"] by (simp add: str_fields_def one_field_def)

lemma str_join_cons: "ps \<noteq> [] \<Longrightarrow> str_join d (p # ps) = p @ d @ str_join d ps"
  by (cases ps) auto

lemma str_fields_join: "list_all one_field fs \<Longrightarrow> str_fields (str_join '' '' fs) = fs"
proof (induction fs)
  case (Cons f fs)
  then show ?case by (cases "fs = []") (simp_all add: str_fields_last str_join_cons str_fields_word)
qed (simp add: str_fields_def)

lemma str_fields_prefix:
  "list_all one_field fs \<Longrightarrow> rest \<noteq> [] \<Longrightarrow> str_fields (str_join '' '' (fs @ rest)) = fs @ str_fields (str_join '' '' rest)"
  by (induction fs) (simp_all add: str_join_cons str_fields_word)

lemma show_nat_word: "one_field (show_nat n)"
proof -
  have "\<not> is_space c" if "is_digit c" for c
    using that by (auto simp: is_space_def is_digit_def byte_def)
  then show ?thesis unfolding one_field_def using show_nat_digits [of n] show_nat_ne [of n] by (auto simp: list_all_iff)
qed

lemma itoa_word: "one_field (itoa i)"
proof -
  have "\<not> is_space CHR ''-''" by code_simp
  then show ?thesis using show_nat_word by (auto simp: itoa_def one_field_def)
qed

lemma ip4_string_word: "one_field (ip4_string w)"
proof -
  have "\<not> is_space CHR ''.''" by code_simp
  then show ?thesis using show_nat_word by (auto simp: ip4_string_def one_field_def)
qed

section \<open>A launched command is recognised\<close>

text \<open>A field that is no flag.\<close>

definition value_field :: "string \<Rightarrow> bool" where
  "value_field s \<longleftrightarrow> one_field s \<and> hd s \<noteq> CHR ''-''"

lemma value_field_no_flag: "value_field s \<Longrightarrow> s \<noteq> CHR ''-'' # t"
  by (auto simp: value_field_def)

lemma cidr_prefix_32:
  assumes "cidr_net cidr = Some n" "CHR '':'' \<notin> set cidr"
  shows "net_prefix n \<le> 32"
proof (cases rule: str_cut_cases [of "CHR ''/''" cidr])
  case (found addr m)
  then have "CHR '':'' \<notin> set addr" using assms(2) by auto
  with found assms(1) show ?thesis
    by (auto simp: cidr_net_def parse_cidr_def Let_def split: option.splits if_splits)
next
  case missing
  with assms(1) show ?thesis by (simp add: cidr_net_def parse_cidr_def)
qed

lemma bridge_field:
  assumes "bridgeAddressForCIDR cidr = Inr b" "CHR '':'' \<notin> set cidr"
  shows "one_field b" "b \<noteq> []" "parse_cidr b \<noteq> None"
proof -
  obtain n w where b: "b = ip4_string (w + 1) @ CHR ''/'' # show_nat (net_prefix n)" and n: "cidr_net cidr = Some n"
    using assms(1) by (auto simp: bridgeAddressForCIDR_def split: sum.splits option.splits if_splits)
  have "\<not> is_space CHR ''/''" by code_simp
  then show "one_field b" using ip4_string_word [of "w + 1"] show_nat_word [of "net_prefix n"] by (simp add: b one_field_def)
  then show "b \<noteq> []" by (simp add: one_field_def)
  have chars: "CHR ''/'' \<notin> set (ip4_string (w + 1))" "CHR '':'' \<notin> set (ip4_string (w + 1))"
    using ip4_string_chars [of "CHR ''/''" "w + 1"] ip4_string_chars [of "CHR '':''" "w + 1"]
    by (auto simp: is_digit_def byte_def)
  have "str_cut CHR ''/'' b = (ip4_string (w + 1), show_nat (net_prefix n), True)"
    unfolding b using chars(1) by (rule str_cut_found)
  then show "parse_cidr b \<noteq> None"
    using chars(2) cidr_prefix_32 [OF n assms(2)] by (simp add: parse_cidr_def Let_def)
qed

definition launch_fields :: "bool \<Rightarrow> string \<Rightarrow> string \<Rightarrow> string \<Rightarrow> string \<Rightarrow> string \<Rightarrow> string \<Rightarrow> string list" where
  "launch_fields sudo binary local remote port mtu bridge =
     (if sudo then [''sudo'', ''-n''] else []) @ [binary, ''--vni'', ''1'', ''--local'', local, ''--remote'', remote,
       ''--port'', port, ''--mtu'', mtu, ''--bridge-ipv4'', bridge]"

lemma flagValue_found: "flag \<notin> set pre \<Longrightarrow> flagValue (pre @ flag # v # rest) flag = v"
proof (induction pre)
  case (Cons x pre)
  then show ?case by (cases pre) auto
qed simp

lemma flag_values:
  fixes sudo :: bool and bridge :: string and rest :: "string list"
  assumes "distinct [vni, l, r, p, m, b]"
    and "\<forall>v \<in> set [a, a', binary, one, local, remote, port, mtu]. v \<notin> set [vni, l, r, p, m, b]"
    and fs: "fs = ((if sudo then [a, a'] else []) @
     [binary, vni, one, l, local, r, remote, p, port, m, mtu, b, bridge]) @ rest"
  shows "flagValue fs vni = one" "flagValue fs l = local" "flagValue fs r = remote"
    "flagValue fs p = port" "flagValue fs b = bridge"
proof -
  let ?s = "if sudo then [a, a'] else []"
  have s: "set ?s \<subseteq> {a, a'}" by (cases sudo) auto
  have "vni \<notin> set (?s @ [binary])" "l \<notin> set (?s @ [binary, vni, one])" "r \<notin> set (?s @ [binary, vni, one, l, local])"
    "p \<notin> set (?s @ [binary, vni, one, l, local, r, remote])"
    "b \<notin> set (?s @ [binary, vni, one, l, local, r, remote, p, port, m, mtu])"
    using assms(1,2) s by (simp_all only: set_append list.set set_simps distinct.simps) auto
  from this [THEN flagValue_found] show "flagValue fs vni = one" "flagValue fs l = local" "flagValue fs r = remote"
    "flagValue fs p = port" "flagValue fs b = bridge" by (simp_all add: fs)
qed

abbreviation vxlan_flags :: "string list" where
  "vxlan_flags \<equiv> [''--vni'', ''--local'', ''--remote'', ''--port'', ''--mtu'', ''--bridge-ipv4'']"

lemma vxlan_flags_distinct: "distinct vxlan_flags" "list_all (\<lambda>v. v \<notin> set vxlan_flags) [''sudo'', ''-n'', ''1'']"
  "list_all (\<lambda>s. s \<noteq> [] \<and> hd s = CHR ''-'') vxlan_flags"
  by code_simp+

lemma no_vxlan_flag: "s = [] \<or> hd s \<noteq> CHR ''-'' \<Longrightarrow> s \<notin> set vxlan_flags"
  using vxlan_flags_distinct(3) unfolding list_all_iff by blast

lemma launch_flags:
  fixes sudo :: bool and bridge :: string and rest :: "string list"
  assumes "value_field binary" "value_field local" "value_field remote" "hd port \<noteq> CHR ''-''" "hd mtu \<noteq> CHR ''-''"
    and fs: "fs = launch_fields sudo binary local remote port mtu bridge @ rest"
  shows "flagValue fs ''--vni'' = ''1''" "flagValue fs ''--local'' = local" "flagValue fs ''--remote'' = remote"
    "flagValue fs ''--port'' = port" "flagValue fs ''--bridge-ipv4'' = bridge"
proof -
  have "binary \<notin> set vxlan_flags" "local \<notin> set vxlan_flags" "remote \<notin> set vxlan_flags"
    using assms(1-3) unfolding value_field_def by (meson no_vxlan_flag)+
  moreover have "port \<notin> set vxlan_flags" "mtu \<notin> set vxlan_flags"
    by (rule no_vxlan_flag, rule disjI2, rule assms)+
  ultimately have "list_all (\<lambda>v. v \<notin> set vxlan_flags) [''sudo'', ''-n'', binary, ''1'', local, remote, port, mtu]"
    using vxlan_flags_distinct(2) by (simp only: list.pred_inject simp_thms)
  then have v: "\<forall>v \<in> set [''sudo'', ''-n'', binary, ''1'', local, remote, port, mtu]. v \<notin> set vxlan_flags"
    by (simp only: list_all_iff)
  note found = flag_values [OF vxlan_flags_distinct(1) v fs [unfolded launch_fields_def]]
  show "flagValue fs ''--vni'' = ''1''" by (rule found)
  show "flagValue fs ''--local'' = local" by (rule found)
  show "flagValue fs ''--remote'' = remote" by (rule found)
  show "flagValue fs ''--port'' = port" by (rule found)
  show "flagValue fs ''--bridge-ipv4'' = bridge" by (rule found)
qed

lemma fields_acc_one: "list_all (\<lambda>c. \<not> is_space c) acc \<Longrightarrow> list_all one_field (fields_acc acc s)"
  by (induction acc s rule: fields_acc.induct) (simp_all add: one_field_def)

lemma str_fields_one: "list_all one_field (str_fields s)"
  by (simp add: str_fields_def fields_acc_one)

lemma itoa_hd: "0 \<le> i \<Longrightarrow> hd (itoa i) \<noteq> CHR ''-''"
  using show_nat_digits [of "nat i"] show_nat_ne [of "nat i"]
  by (cases "show_nat (nat i)") (auto simp: itoa_def is_digit_def byte_def)

text \<open>
  The command line of a VXLAN child that was launched, with or without \<^verbatim>\<open>sudo\<close>, is found in the
  process table by the recovery of a later run with the same binary, local and remote address and
  port, together with its bridge's address; the process that is \<^verbatim>\<open>sudo\<close> itself is told from the
  child.  The binary and the addresses are fields without white space that are no flags.
\<close>

theorem launch_recognised:
  assumes "value_field (jc_vxlan_binary cfg)" "value_field local" "value_field (jc_vxlan_remote cfg)"
    and "0 \<le> jc_vxlan_port cfg" "0 \<le> jc_vxlan_mtu cfg" "CHR '':'' \<notin> set cidr" "bridgeAddressForCIDR cidr = Inr bridge"
    and "0 < pid" "pid < 2 ^ 63"
  shows "\<exists>p. vxlan_line (jc_vxlan_binary cfg) local (jc_vxlan_remote cfg) (jc_vxlan_port cfg)
      (itoa pid @ '' '' @ str_join '' '' (vxlan_argv cfg (vxlan_arguments cfg local bridge peers))) = Some p \<and>
    vp_pid p = pid \<and> vp_bridge_cidr p = bridge \<and>
    vp_wrapper p = (jc_use_sudo cfg \<or> jc_vxlan_binary cfg = ''sudo'')"
proof -
  define fs where "fs = launch_fields (jc_use_sudo cfg) (jc_vxlan_binary cfg) local (jc_vxlan_remote cfg)
     (itoa (jc_vxlan_port cfg)) (itoa (jc_vxlan_mtu cfg)) bridge"
  define rest where "rest = concat (map (\<lambda>p. [''--peer'', fp_pod_cidr p @ ''='' @ fp_public_ip p]) peers) @
     [''--peer'', jc_service_cidr cfg @ ''='' @ jc_vxlan_remote cfg]"
  define F where "F = fs @ str_fields (str_join '' '' rest)"
  have flags: "one_field ''sudo''" "one_field ''-n''" "one_field ''--vni''" "one_field ''1''" "one_field ''--local''"
    "one_field ''--remote''" "one_field ''--port''" "one_field ''--mtu''" "one_field ''--bridge-ipv4''" by code_simp+
  have one: "list_all one_field fs"
    using assms(1-3) itoa_word bridge_field(1) [OF assms(7,6)] flags by (auto simp: fs_def launch_fields_def value_field_def)
  have argv: "vxlan_argv cfg (vxlan_arguments cfg local bridge peers) = fs @ rest"
    by (simp add: vxlan_argv_def vxlan_arguments_def fs_def launch_fields_def rest_def)
  have F: "str_fields (str_join '' '' (fs @ rest)) = F"
    using str_fields_prefix [OF one, of rest] by (simp add: F_def rest_def)
  have oneF: "list_all one_field F" using one str_fields_one by (simp add: F_def)
  define g where "g = (if jc_use_sudo cfg then ''sudo'' else jc_vxlan_binary cfg)"
  have g: "F = g # tl F" by (simp add: F_def fs_def launch_fields_def g_def)
  have line: "str_fields (itoa pid @ '' '' @ str_join '' '' (fs @ rest)) = itoa pid # F"
    using str_fields_word [OF itoa_word, of pid] F by simp
  have pid: "atoi (itoa pid) = Some pid" using assms(8,9) by (intro atoi_itoa) auto
  have bin: "list_ex (vxlan_binary_field (jc_vxlan_binary cfg)) F"
    by (simp add: F_def fs_def launch_fields_def vxlan_binary_field_def)
  have match: "matchingVXLANInvocation (str_join '' '' F) (jc_vxlan_binary cfg) local (jc_vxlan_remote cfg) (jc_vxlan_port cfg) = Some bridge"
    using launch_flags [OF assms(1-3) itoa_hd [OF assms(4)] itoa_hd [OF assms(5)], of F "jc_use_sudo cfg" bridge "str_fields (str_join '' '' rest)", OF F_def [unfolded fs_def]]
      bin bridge_field(2,3) [OF assms(7,6)]
    unfolding matchingVXLANInvocation_def Let_def str_fields_join [OF oneF] by simp
  have "vxlan_line (jc_vxlan_binary cfg) local (jc_vxlan_remote cfg) (jc_vxlan_port cfg) (itoa pid @ '' '' @ str_join '' '' (fs @ rest)) =
     Some \<lparr>vp_pid = pid, vp_command = str_join '' '' F, vp_bridge_cidr = bridge, vp_wrapper = (g = ''sudo'')\<rparr>"
    unfolding vxlan_line_def line using pid assms(8) match g by (cases F) simp_all
  then show ?thesis unfolding argv by (auto simp: g_def)
qed

section \<open>The recovery is narrow\<close>

text \<open>
  The processes the recovery may signal: those of a line of the process table that is an invocation
  of our own, and their descendants.
\<close>

inductive known :: "(string \<Rightarrow> vxlan_process option) \<Rightarrow> trace \<Rightarrow> int \<Rightarrow> bool" for f tr where
  listed: "EvCmd ps_argv out None \<in> set tr \<Longrightarrow> line \<in> set (split_on newline out) \<Longrightarrow> f line = Some p \<Longrightarrow>
    known f tr (vp_pid p)"
| child: "known f tr parent \<Longrightarrow> EvCmd [''pgrep'', ''-P'', itoa parent] out None \<in> set tr \<Longrightarrow>
    x \<in> set (str_fields out) \<Longrightarrow> atoi x = Some pid \<Longrightarrow> known f tr pid"

lemma known_later: "known f tr pid \<Longrightarrow> known f (es @ tr) pid"
proof (induction rule: known.induct)
  case (listed out line p)
  then show ?case by (auto intro: known.listed)
next
  case (child parent out x pid)
  then show ?case by (auto intro: known.child)
qed

definition inspects :: "event \<Rightarrow> bool" where
  "inspects e \<longleftrightarrow> (case e of
       EvCmd argv _ _ \<Rightarrow> argv = ps_argv \<or> (\<exists>pid. argv = [''pgrep'', ''-P'', itoa pid])
     | EvIfaces _ \<Rightarrow> True | EvNow _ \<Rightarrow> True | EvSleep _ \<Rightarrow> True | _ \<Rightarrow> False)"

definition signals :: "int \<Rightarrow> event \<Rightarrow> bool" where
  "signals pid e \<longleftrightarrow> (\<exists>sig. e = EvSignal pid sig) \<or>
     (\<exists>sudo sig out r. e = EvCmd (privileged_argv sudo (kill_argv sig pid)) out r)"

definition removes_from :: "string \<Rightarrow> event \<Rightarrow> bool" where
  "removes_from name e \<longleftrightarrow> (\<exists>sudo w out r. e = EvCmd (privileged_argv sudo (remove_address_argv name w)) out r)"

definition narrow :: "(string \<Rightarrow> vxlan_process option) \<Rightarrow> event \<Rightarrow> trace \<Rightarrow> bool" where
  "narrow f e pre \<longleftrightarrow> inspects e \<or> (\<exists>pid. signals pid e \<and> known f pre pid) \<or>
     (\<exists>name. removes_from name e \<and> isBridgeInterface name)"

text \<open>\<open>tr'\<close> extends \<open>tr\<close> by events that are narrow where they happen.\<close>

definition narrowly :: "(string \<Rightarrow> vxlan_process option) \<Rightarrow> trace \<Rightarrow> trace \<Rightarrow> bool" where
  "narrowly f tr tr' \<longleftrightarrow> (\<exists>es. tr' = es @ tr \<and> trace_all (\<lambda>e pre. narrow f e (pre @ tr)) es)"

lemma narrowly_refl [simp]: "narrowly f tr tr"
  by (simp add: narrowly_def)

lemma narrowly_event: "narrow f e tr \<Longrightarrow> narrowly f tr (e # tr)"
  by (auto simp: narrowly_def intro: exI [of _ "[e]"])

lemma narrowly_trans [trans]: "narrowly f a b \<Longrightarrow> narrowly f b c \<Longrightarrow> narrowly f a c"
proof -
  assume "narrowly f a b" "narrowly f b c"
  then obtain es es' where "b = es @ a" "trace_all (\<lambda>e pre. narrow f e (pre @ a)) es"
    "c = es' @ es @ a" "trace_all (\<lambda>e pre. narrow f e (pre @ es @ a)) es'"
    by (auto simp: narrowly_def)
  then show ?thesis unfolding narrowly_def
    by (intro exI [of _ "es' @ es"]) (simp add: trace_all_append)
qed

lemma narrowly_known: "narrowly f tr tr' \<Longrightarrow> known f tr pid \<Longrightarrow> known f tr' pid"
  unfolding narrowly_def using known_later by blast

lemma narrowly_inspect: "inspects e \<Longrightarrow> narrowly f tr (e # tr)"
  by (intro narrowly_event) (simp add: narrow_def)

lemma signal_process_narrow: "known f tr pid \<Longrightarrow> narrowly f tr (signal_process E sudo sig pid tr)"
proof -
  assume known: "known f tr pid"
  have "\<exists>e. signal_process E sudo sig pid tr = e # tr \<and> signals pid e"
  proof (cases sudo)
    case True
    then have "\<exists>out r. signal_process E sudo sig pid tr = EvCmd (privileged_argv True (kill_argv sig pid)) out r # tr"
      by (simp add: signal_process_def call_defs Let_def)
    then show ?thesis unfolding signals_def by blast
  next
    case False
    then show ?thesis unfolding signals_def signal_process_def send_signal_def by simp
  qed
  then obtain e where e: "signal_process E sudo sig pid tr = e # tr" "signals pid e" by blast
  with known have "narrow f e tr" unfolding narrow_def by blast
  then show ?thesis unfolding e(1) by (rule narrowly_event)
qed

lemma signal_all_narrow:
  "\<forall>pid \<in> set pids. known f tr pid \<Longrightarrow> narrowly f tr (fold (signal_process E sudo sig) pids tr)"
proof (induction pids arbitrary: tr)
  case (Cons pid pids)
  let ?tr = "signal_process E sudo sig pid tr"
  have first: "narrowly f tr ?tr" using Cons.prems by (intro signal_process_narrow) simp
  then have "\<forall>pid \<in> set pids. known f ?tr pid" using Cons.prems narrowly_known by auto
  from narrowly_trans [OF first Cons.IH [OF this]] show ?case by simp
qed simp

lemma pgrep_narrow:
  assumes "call_cmd E [''pgrep'', ''-P'', itoa pid] tr = ((shown, r), tr')"
  shows "narrowly f tr tr'"
    "known f tr pid \<Longrightarrow> r = None \<Longrightarrow> \<forall>x \<in> set (str_fields shown). \<forall>i. atoi x = Some i \<longrightarrow> known f tr' i"
proof -
  have tr': "tr' = EvCmd [''pgrep'', ''-P'', itoa pid] shown r # tr"
    using assms by (auto simp: call_cmd_def Let_def)
  then show n: "narrowly f tr tr'" by (auto simp: inspects_def intro!: narrowly_inspect)
  show "\<forall>x \<in> set (str_fields shown). \<forall>i. atoi x = Some i \<longrightarrow> known f tr' i" if "known f tr pid" "r = None"
    using narrowly_known [OF n that(1)] that(2) by (auto simp: tr' intro: known.child)
qed

text \<open>What the descent returns are processes that were known before or became so.\<close>

definition descent :: "(string \<Rightarrow> vxlan_process option) \<Rightarrow> string list \<Rightarrow> trace \<Rightarrow> int list \<times> trace \<Rightarrow> bool" where
  "descent f names tr x \<longleftrightarrow> narrowly f tr (snd x) \<and>
     ((\<forall>n \<in> set names. \<forall>i. atoi n = Some i \<longrightarrow> known f tr i) \<longrightarrow> (\<forall>i \<in> set (fst x). known f (snd x) i))"

lemma descendants_of_descent:
  assumes "descendants_of E names tr = Some x"
  shows "descent f names tr x"
proof (rule descendants_of.raw_induct [where P = "\<lambda>E. descent f", OF _ assms])
  fix g E names tr x
  assume hyp: "\<And>E names tr x. g E names tr = Some x \<Longrightarrow> descent f names tr x"
    and run: "(case names of [] \<Rightarrow> Some ([], tr) | n # ns \<Rightarrow> (case atoi n of
         None \<Rightarrow> g E ns tr
       | Some child \<Rightarrow>
           if child \<le> 0 then g E ns tr
           else (case call_cmd E [''pgrep'', ''-P'', itoa child] tr of ((shown, r), tr) \<Rightarrow>
             Option.bind (g E (if r = None then str_fields shown else []) tr) (\<lambda>(below, tr).
             Option.bind (g E ns tr) (\<lambda>(others, tr). Some (below @ child # others, tr)))))) = Some x"
  show "descent f names tr x"
  proof (cases names)
    case Nil
    with run show ?thesis by (auto simp: descent_def)
  next
    case (Cons n ns)
    show ?thesis
    proof (cases "atoi n = None \<or> the (atoi n) \<le> 0")
      case True
      then have "g E ns tr = Some x" using run Cons by (cases "atoi n") simp_all
      from hyp [OF this] Cons show ?thesis by (auto simp: descent_def)
    next
      case False
      then obtain child where child: "atoi n = Some child" "\<not> child \<le> 0" by auto
      obtain shown r tr1 where grep: "call_cmd E [''pgrep'', ''-P'', itoa child] tr = ((shown, r), tr1)"
        by (metis prod.exhaust)
      let ?names = "if r = None then str_fields shown else []"
      from run Cons child grep obtain below tr2 others tr3 where
        b: "g E ?names tr1 = Some (below, tr2)" and o: "g E ns tr2 = Some (others, tr3)"
        and x: "x = (below @ child # others, tr3)"
        by (auto simp: Option.bind_eq_Some_conv)
      note n1 = pgrep_narrow(1) [OF grep] and n2 = hyp [OF b] and n3 = hyp [OF o]
      have n: "narrowly f tr tr3"
        using n1 n2 n3 narrowly_trans unfolding descent_def by (metis snd_conv)
      moreover have "\<forall>i \<in> set (below @ child # others). known f tr3 i"
        if all: "\<forall>n \<in> set names. \<forall>i. atoi n = Some i \<longrightarrow> known f tr i"
      proof -
        have c: "known f tr child" using all Cons child by auto
        have "\<forall>x \<in> set ?names. \<forall>i. atoi x = Some i \<longrightarrow> known f tr1 i"
          using pgrep_narrow(2) [OF grep c] by (cases r) simp_all
        then have "\<forall>i \<in> set below. known f tr2 i" using n2 by (simp add: descent_def)
        moreover have "\<forall>n \<in> set ns. \<forall>i. atoi n = Some i \<longrightarrow> known f tr2 i"
          using all Cons n1 n2 narrowly_known unfolding descent_def by (metis list.set_intros(2) snd_conv)
        ultimately show ?thesis
          using n3 c n narrowly_known unfolding descent_def by auto
      qed
      ultimately show ?thesis by (simp add: descent_def x)
    qed
  qed
qed

lemma signalProcessTree_narrow:
  assumes "signalProcessTree E pid sudo sig tr = Some tr'" "known f tr pid"
  shows "narrowly f tr tr'"
proof -
  obtain shown r tr1 where grep: "call_cmd E [''pgrep'', ''-P'', itoa pid] tr = ((shown, r), tr1)"
    by (metis prod.exhaust)
  obtain children tr2 where d: "(if r = None then descendants_of E (str_fields shown) tr1 else Some ([], tr1)) = Some (children, tr2)"
    and tr': "tr' = signal_process E sudo sig pid (fold (signal_process E sudo sig) (rev children) tr2)"
    using assms(1) grep by (auto simp: signalProcessTree_def processDescendants_def Option.bind_eq_Some_conv)
  have "narrowly f tr1 tr2 \<and> (\<forall>i \<in> set children. known f tr2 i)"
  proof (cases "r = None")
    case True
    with d descendants_of_descent [of E "str_fields shown" tr1 "(children, tr2)" f] pgrep_narrow(2) [OF grep assms(2) True]
    show ?thesis by (simp add: descent_def)
  next
    case False
    with d show ?thesis by (cases r) simp_all
  qed
  then have n: "narrowly f tr tr2" and k: "\<forall>i \<in> set (rev children). known f tr2 i"
    using narrowly_trans [OF pgrep_narrow(1) [OF grep]] by auto
  let ?tr3 = "fold (signal_process E sudo sig) (rev children) tr2"
  have n3: "narrowly f tr ?tr3" using n signal_all_narrow [OF k] narrowly_trans by blast
  with signal_process_narrow [OF narrowly_known [OF n3 assms(2)]] show ?thesis
    unfolding tr' using narrowly_trans by blast
qed

lemma findMatching_narrow:
  assumes "findMatchingVXLANProcesses E binary local remote port tr = (r, tr')"
  shows "narrowly (vxlan_line binary local remote port) tr tr'"
    "r = Inr ps \<Longrightarrow> \<forall>p \<in> set ps. known (vxlan_line binary local remote port) tr' (vp_pid p)"
proof -
  obtain out r' where c: "call_cmd E ps_argv tr = ((out, r'), EvCmd ps_argv out r' # tr)"
    by (metis call_cmd_def prod.collapse)
  then have tr': "tr' = EvCmd ps_argv out r' # tr"
    using assms by (auto simp: findMatchingVXLANProcesses_def split: option.splits)
  then show "narrowly (vxlan_line binary local remote port) tr tr'"
    by (auto simp: inspects_def intro!: narrowly_inspect)
  show "\<forall>p \<in> set ps. known (vxlan_line binary local remote port) tr' (vp_pid p)" if "r = Inr ps"
  proof
    fix p
    assume p: "p \<in> set ps"
    have "r' = None" "ps = List.map_filter (vxlan_line binary local remote port) (split_on newline out)"
      using assms c that by (auto simp: findMatchingVXLANProcesses_def split: option.splits)
    with p obtain line where "line \<in> set (split_on newline out)" "vxlan_line binary local remote port line = Some p"
      by (auto simp: map_filter_def)
    with \<open>r' = None\<close> show "known (vxlan_line binary local remote port) tr' (vp_pid p)"
      unfolding tr' by (intro known.listed [of out _ line]) simp_all
  qed
qed

lemma interrupt_processes_narrow:
  "interrupt_processes E sudo ps tr = Some tr' \<Longrightarrow> \<forall>p \<in> set ps. known f tr (vp_pid p) \<Longrightarrow> narrowly f tr tr'"
proof (induction ps arbitrary: tr)
  case (Cons p ps)
  obtain tr1 where first: "narrowly f tr tr1" and later: "interrupt_processes E sudo ps tr1 = Some tr'"
  proof (cases "vp_wrapper p")
    case True
    with Cons.prems(1) obtain tr1 where "signalProcessTree E (vp_pid p) sudo SIGINT tr = Some tr1"
      "interrupt_processes E sudo ps tr1 = Some tr'" by (auto simp: Option.bind_eq_Some_conv)
    with signalProcessTree_narrow Cons.prems(2) that show thesis by (metis list.set_intros(1))
  next
    case False
    with Cons.prems show thesis by (intro that [of "signal_process E sudo SIGINT (vp_pid p) tr"] signal_process_narrow) simp_all
  qed
  have "\<forall>p \<in> set ps. known f tr1 (vp_pid p)" using Cons.prems(2) narrowly_known [OF first] by simp
  from narrowly_trans [OF first Cons.IH [OF later this]] show ?case .
qed simp

lemma await_termination_narrow:
  assumes "await_termination E sudo binary local remote port deadline tr = Some x"
  shows "narrowly (vxlan_line binary local remote port) tr (snd x)"
proof (rule await_termination.raw_induct
    [where P = "\<lambda>E sudo binary local remote port deadline tr x. narrowly (vxlan_line binary local remote port) tr (snd x)", OF _ assms])
  fix g E sudo binary local remote port deadline tr x
  let ?f = "vxlan_line binary local remote port"
  assume hyp: "\<And>E sudo binary local remote port deadline tr x.
      g E sudo binary local remote port deadline tr = Some x \<Longrightarrow> narrowly (vxlan_line binary local remote port) tr (snd x)"
    and run: "(case findMatchingVXLANProcesses E binary local remote port tr of
       (Inl e, tr) \<Rightarrow> Some (Some e, tr)
     | (Inr remaining, tr) \<Rightarrow>
         if remaining = [] then Some (None, tr)
         else (case time_now E tr of (now, tr) \<Rightarrow>
           if deadline < now
           then Some (Some (EMsg (''stale darwin-vxlan process(es) did not stop: '' @ formatProcessPIDs remaining)),
             fold (\<lambda>p. signal_process E sudo SIGKILL (vp_pid p)) remaining tr)
           else g E sudo binary local remote port deadline (go_sleep 100000000 tr))) = Some x"
  obtain r tr1 where found: "findMatchingVXLANProcesses E binary local remote port tr = (r, tr1)" by fastforce
  note n1 = findMatching_narrow(1) [OF found]
  show "narrowly ?f tr (snd x)"
  proof (cases r)
    case (Inl e)
    with run found n1 show ?thesis by auto
  next
    case (Inr remaining)
    let ?tr2 = "EvNow (e_now E tr1) # tr1"
    have n2: "narrowly ?f tr ?tr2"
      using n1 narrowly_inspect [of "EvNow (e_now E tr1)" ?f tr1] narrowly_trans by (auto simp: inspects_def)
    let ?msg = "EMsg (''stale darwin-vxlan process(es) did not stop: '' @ formatProcessPIDs remaining)"
    have eq: "(if remaining = [] then Some (None, tr1) else if deadline < e_now E tr1
        then Some (Some ?msg, fold (\<lambda>p. signal_process E sudo SIGKILL (vp_pid p)) remaining ?tr2)
        else g E sudo binary local remote port deadline (EvSleep 100000000 # ?tr2)) = Some x"
      using run by (simp only: found Inr prod.case sum.case time_now_def Let_def go_sleep_def)
    consider "remaining = []" "x = (None, tr1)"
      | "snd x = fold (\<lambda>p. signal_process E sudo SIGKILL (vp_pid p)) remaining ?tr2"
      | "g E sudo binary local remote port deadline (EvSleep 100000000 # ?tr2) = Some x"
      using eq by (metis (no_types, lifting) option.inject snd_conv)
    then show ?thesis
    proof cases
      case 1
      with n1 show ?thesis by simp
    next
      case 2
      have "\<forall>p \<in> set remaining. known ?f ?tr2 (vp_pid p)"
        using findMatching_narrow(2) [OF found Inr] known_later [of ?f tr1 _ "[EvNow (e_now E tr1)]"] by simp
      then have "narrowly ?f ?tr2 (fold (signal_process E sudo SIGKILL) (map vp_pid remaining) ?tr2)"
        by (intro signal_all_narrow) simp
      with n2 narrowly_trans show ?thesis unfolding 2 by (simp add: fold_map comp_def)
    next
      case 3
      have "narrowly ?f ?tr2 (EvSleep 100000000 # ?tr2)" by (intro narrowly_inspect) (simp add: inspects_def)
      with hyp [OF 3] n2 narrowly_trans show ?thesis by blast
    qed
  qed
qed

lemma terminate_narrow:
  assumes "terminateMatchingVXLANProcesses E ps sudo binary local remote port tr = Some (r, tr')"
    and "\<forall>p \<in> set ps. known (vxlan_line binary local remote port) tr (vp_pid p)"
  shows "narrowly (vxlan_line binary local remote port) tr tr'"
proof -
  obtain tr1 where i: "interrupt_processes E sudo ps tr = Some tr1"
    and a: "await_termination E sudo binary local remote port (e_now E tr1 + 5 * one_second) (EvNow (e_now E tr1) # tr1) = Some (r, tr')"
    using assms(1) by (auto simp: terminateMatchingVXLANProcesses_def Option.bind_eq_Some_conv time_now_def Let_def)
  have "narrowly (vxlan_line binary local remote port) tr1 (EvNow (e_now E tr1) # tr1)"
    by (intro narrowly_inspect) (simp add: inspects_def)
  with interrupt_processes_narrow [OF i assms(2)] await_termination_narrow [OF a] show ?thesis
    using narrowly_trans by (metis snd_conv)
qed

text \<open>Addresses are only removed from an interface that is named like a bridge.\<close>

lemma remove_addresses_narrow:
  "remove_addresses E name sudo ns ips tr = (r, tr') \<Longrightarrow> ns = [] \<or> isBridgeInterface name \<Longrightarrow> narrowly f tr tr'"
proof (induction ips arbitrary: tr)
  case (Cons ip ips)
  show ?case
  proof (cases "\<exists>w. to4 ip = Some w \<and> list_ex (\<lambda>n. net_contains n (ip_of_v4 w)) ns")
    case False
    then have "remove_addresses E name sudo ns ips tr = (r, tr')" using Cons.prems(1) by (auto split: option.splits)
    with Cons show ?thesis by blast
  next
    case True
    then obtain w where w: "to4 ip = Some w" "list_ex (\<lambda>n. net_contains n (ip_of_v4 w)) ns" by blast
    then have bridge: "isBridgeInterface name" using Cons.prems(2) by auto
    obtain out r' where c: "privileged_command E sudo (remove_address_argv name w) tr =
        ((out, r'), EvCmd (privileged_argv sudo (remove_address_argv name w)) out r' # tr)"
      by (metis call_cmd_def prod.collapse privileged_command_def)
    let ?tr1 = "EvCmd (privileged_argv sudo (remove_address_argv name w)) out r' # tr"
    have n: "narrowly f tr ?tr1"
      using bridge by (intro narrowly_event) (auto simp: narrow_def removes_from_def)
    show ?thesis
    proof (cases r')
      case None
      with Cons.prems w c have "remove_addresses E name sudo ns ips ?tr1 = (r, tr')" by simp
      with Cons.IH Cons.prems(2) n narrowly_trans show ?thesis by blast
    next
      case (Some e)
      with Cons.prems w c have "tr' = ?tr1" by simp
      with n show ?thesis by simp
    qed
  qed
qed simp

lemma ifaces_narrow: "call_ifaces E tr = (r, tr') \<Longrightarrow> narrowly f tr tr'"
  by (auto simp: call_ifaces_def Let_def inspects_def intro!: narrowly_inspect)

lemma interface_narrow: "interfaceForAddress E cidr tr = (r, tr') \<Longrightarrow> narrowly f tr tr'"
  unfolding interfaceForAddress_def
  by (auto split: option.splits prod.splits sum.splits dest: ifaces_narrow)

lemma removeIPv4_narrow:
  assumes "removeIPv4AddressesInCIDRs E name sudo cidrs tr = (r, tr')" "cidrs = [] \<or> isBridgeInterface name"
  shows "narrowly f tr tr'"
proof (cases "parse_networks cidrs")
  case (Inl e)
  with assms(1) show ?thesis by (simp add: removeIPv4AddressesInCIDRs_def)
next
  case (Inr ns)
  obtain i tr1 where i: "call_ifaces E tr = (i, tr1)" by fastforce
  have ns: "ns = [] \<or> isBridgeInterface name" using assms(2) Inr by auto
  consider "tr' = tr1" | n ips where "n = name" "remove_addresses E n sudo ns ips tr1 = (r, tr')"
    using assms(1) Inr i
    by (auto simp: removeIPv4AddressesInCIDRs_def find_Some_iff split: sum.splits option.splits)
  then show ?thesis
  proof cases
    case 1
    with ifaces_narrow [OF i] show ?thesis by simp
  next
    case 2
    with ns remove_addresses_narrow ifaces_narrow [OF i] narrowly_trans show ?thesis by metis
  qed
qed

definition bridges_only :: "(string, string list) gomap \<Rightarrow> bool" where
  "bridges_only m \<longleftrightarrow> (\<forall>i \<in> set (mkeys m). isBridgeInterface i)"

lemma bridges_only_add: "bridges_only m \<Longrightarrow> isBridgeInterface i \<Longrightarrow> bridges_only (add_cidr i cidr m)"
  by (simp add: bridges_only_def add_cidr_def mkeys_def update_keys)

lemma clear_ifaces_narrow:
  "clear_ifaces E sudo m is tr = (r, tr') \<Longrightarrow> bridges_only m \<Longrightarrow> narrowly f tr tr'"
proof (induction "is" arbitrary: tr)
  case (Cons i "is")
  let ?cs = "case map_of m i of None \<Rightarrow> [] | Some cs \<Rightarrow> cs"
  have cs: "?cs = [] \<or> isBridgeInterface i"
    using Cons.prems(2) by (force simp: bridges_only_def mkeys_def split: option.splits dest: map_of_SomeD)
  obtain r1 tr1 where rm: "removeIPv4AddressesInCIDRs E i sudo ?cs tr = (r1, tr1)" by fastforce
  note n = removeIPv4_narrow [OF rm cs, of f]
  show ?case
  proof (cases r1)
    case None
    with Cons.prems rm have "clear_ifaces E sudo m is tr1 = (r, tr')" by simp
    with Cons.IH Cons.prems(2) n narrowly_trans show ?thesis by blast
  next
    case (Some e)
    with Cons.prems rm have "tr' = tr1" by simp
    with n show ?thesis by simp
  qed
qed simp

lemma stale_ifaces_narrow:
  "stale_ifaces E ps m tr = (r, tr') \<Longrightarrow> bridges_only m \<Longrightarrow> narrowly f tr tr' \<and> (\<forall>m'. r = Inr m' \<longrightarrow> bridges_only m')"
proof (induction ps arbitrary: m tr)
  case (Cons p ps)
  show ?case
  proof (cases "vp_bridge_cidr p = []")
    case True
    with Cons.prems have "stale_ifaces E ps m tr = (r, tr')" by simp
    from Cons.IH [OF this Cons.prems(2)] show ?thesis .
  next
    case False
    obtain ri tr1 where i: "interfaceForAddress E (vp_bridge_cidr p) tr = (ri, tr1)" by fastforce
    note n = interface_narrow [OF i, of f]
    consider e where "r = Inl e" "tr' = tr1"
      | m' where "stale_ifaces E ps m' tr1 = (r, tr')" "bridges_only m'"
    proof (cases ri)
      case (Inl e)
      with Cons.prems(1) i False that(1) show thesis by (auto simp: stale_iface_def)
    next
      case (Inr name)
      show thesis
      proof (cases "name \<noteq> [] \<and> \<not> isBridgeInterface name")
        case True
        with Cons.prems(1) i False Inr that(1) show thesis by (auto simp: stale_iface_def)
      next
        case ok: False
        then have "stale_ifaces E ps (if name = [] then m else add_cidr name (vp_bridge_cidr p) m) tr1 = (r, tr')"
          using Cons.prems(1) i False Inr by (auto simp: stale_iface_def)
        with ok Cons.prems(2) bridges_only_add that(2) show thesis by (metis (full_types))
      qed
    qed
    then show ?thesis
    proof cases
      case 1
      with n show ?thesis by simp
    next
      case 2
      from Cons.IH [OF this] n narrowly_trans show ?thesis by blast
    qed
  qed
qed auto

lemma clear_stale_narrow: "clear_stale E sudo bridgeCIDR m tr = (r, tr') \<Longrightarrow> bridges_only m \<Longrightarrow> narrowly f tr tr'"
proof -
  assume c: "clear_stale E sudo bridgeCIDR m tr = (r, tr')" and m: "bridges_only m"
  obtain r1 tr1 where 1: "clear_ifaces E sudo m (e_order E (mkeys m)) tr = (r1, tr1)" by fastforce
  obtain r2 tr2 where 2: "interfaceForAddress E bridgeCIDR tr1 = (r2, tr2)" by fastforce
  have "tr' = tr1 \<or> tr' = tr2"
    using c 1 2 by (cases r1; cases r2) (auto simp: clear_stale_def)
  with clear_ifaces_narrow [OF 1 m, of f] interface_narrow [OF 2, of f] show ?thesis using narrowly_trans by blast
qed

lemma recover_found_narrow:
  assumes "recover_found E cfg bridgeCIDR local ps m tr = Some (r, tr')" "bridges_only m"
    and "\<forall>p \<in> set ps. known (vxlan_line (jc_vxlan_binary cfg) local (jc_vxlan_remote cfg) (jc_vxlan_port cfg)) tr (vp_pid p)"
  shows "narrowly (vxlan_line (jc_vxlan_binary cfg) local (jc_vxlan_remote cfg) (jc_vxlan_port cfg)) tr tr'"
proof (cases "ps = [] \<and> m = []")
  case True
  with assms(1) show ?thesis by (simp add: recover_found_def)
next
  case False
  let ?f = "vxlan_line (jc_vxlan_binary cfg) local (jc_vxlan_remote cfg) (jc_vxlan_port cfg)"
  let ?stop = "if ps = [] then Some (None, tr) else terminateMatchingVXLANProcesses E ps (jc_use_sudo cfg)
      (jc_vxlan_binary cfg) local (jc_vxlan_remote cfg) (jc_vxlan_port cfg) tr"
  obtain r1 tr1 where stop: "?stop = Some (r1, tr1)"
    and rest: "(if r1 \<noteq> None then Some ((True, r1), tr1)
       else (case clear_stale E (jc_use_sudo cfg) bridgeCIDR m tr1 of (r, tr) \<Rightarrow> Some ((True, r), tr))) = Some (r, tr')"
    using assms(1) unfolding recover_found_def if_not_P [OF False] by (auto simp only: Option.bind_eq_Some_conv split_paired_all prod.case)
  have n: "narrowly ?f tr tr1"
    using stop terminate_narrow [OF _ assms(3)] by (auto split: if_splits)
  obtain r2 tr2 where c: "clear_stale E (jc_use_sudo cfg) bridgeCIDR m tr1 = (r2, tr2)" by fastforce
  have "tr' = tr1 \<or> tr' = tr2" using rest c by (auto split: if_splits)
  with n clear_stale_narrow [OF c assms(2), of ?f] show ?thesis using narrowly_trans by blast
qed

text \<open>
  C18: the recovery from an earlier run only inspects the host, signals processes that an inspection
  before showed to be invocations with this node's own transport identity or their descendants, and
  removes addresses from interfaces that are named like bridges; it does nothing else.
\<close>

theorem recovery_is_narrow:
  assumes "recoverStaleVXLAN E cfg bridgeCIDR local tr = Some (r, tr')"
  shows "narrowly (vxlan_line (jc_vxlan_binary cfg) local (jc_vxlan_remote cfg) (jc_vxlan_port cfg)) tr tr'"
proof -
  let ?f = "vxlan_line (jc_vxlan_binary cfg) local (jc_vxlan_remote cfg) (jc_vxlan_port cfg)"
  obtain rps tr1 where find: "findMatchingVXLANProcesses E (jc_vxlan_binary cfg) local (jc_vxlan_remote cfg) (jc_vxlan_port cfg) tr = (rps, tr1)"
    by fastforce
  note n1 = findMatching_narrow(1) [OF find]
  obtain ri tr2 where i: "interfaceForAddress E bridgeCIDR tr1 = (ri, tr2)" by fastforce
  note n2 = narrowly_trans [OF n1 interface_narrow [OF i]]
  consider "tr' = tr1" | "tr' = tr2" | ps name where "rps = Inr ps" "ri = Inr name" "name = [] \<or> isBridgeInterface name"
    using assms find i by (cases rps; cases ri; fastforce simp: recoverStaleVXLAN_def split: if_splits)
  then show ?thesis
  proof cases
    case 3
    let ?m = "if name = [] then [] else add_cidr name bridgeCIDR []"
    have m: "bridges_only ?m" using 3(3) bridges_only_add [of "[]" name] by (auto simp: bridges_only_def mkeys_def)
    obtain rm tr3 where st: "stale_ifaces E ps ?m tr2 = (rm, tr3)" by fastforce
    note n3 = stale_ifaces_narrow [OF st m, of ?f]
    then have n3': "narrowly ?f tr tr3" using n2 narrowly_trans by blast
    show ?thesis
    proof (cases rm)
      case (Inl e)
      with assms find i 3 st have "tr' = tr3" by (auto simp: recoverStaleVXLAN_def)
      with n3' show ?thesis by simp
    next
      case (Inr m)
      have rest: "recover_found E cfg bridgeCIDR local ps m tr3 = Some (r, tr')"
        using assms find i 3 st Inr by (auto simp: recoverStaleVXLAN_def)
      have "narrowly ?f tr3 tr'"
        using rest n3 Inr narrowly_known [OF narrowly_trans [OF interface_narrow [OF i] conjunct1 [OF n3]]] findMatching_narrow(2) [OF find 3(1)]
        by (auto intro: recover_found_narrow)
      with n3' narrowly_trans show ?thesis by blast
    qed
  qed (use n1 n2 in simp_all)
qed

section \<open>The waits return\<close>

lemma late_or_again:
  "(\<exists>r. (if a then Some (x, t) else if c then Some (y, t) else l) = Some (r, t)) \<or>
    (\<not> a \<and> (if a then Some (x, t) else if c then Some (y, t) else l) = l)"
  by auto

interpretation bridge_wait: polling E "\<lambda>_ :: unit. bridge_loop E cancelled pid cidr ip deadline" deadline 250000000
  for E cancelled pid cidr ip deadline
proof
  fix s :: unit and tr
  let ?loop = "bridge_loop E cancelled pid cidr ip deadline"
  define r1 where "r1 = e_ifaces E tr"
  let ?tr1 = "[EvIfaces r1] @ tr"
  let ?tr2 = "[EvNow (e_now E ?tr1), EvIfaces r1] @ tr"
  define b where "b = fst (find_bridge E ip tr)"
  have b: "find_bridge E ip tr = (b, ?tr1)"
    by (simp add: b_def find_bridge_def call_ifaces_def Let_def r1_def split: sum.split)
  define late where "late = EMsg (''bridge address '' @ cidr @ '' did not appear'')"
  define gone where "gone = EMsg ''darwin-vxlan exited before its bridge became ready''"
  have eq: "?loop tr = (if e_exited E tr pid then Some (Inl gone, [] @ tr)
     else (case b of Some x \<Rightarrow> Some (Inr x, ?tr1)
      | None \<Rightarrow> if deadline < e_now E ?tr1 then Some (Inl late, ?tr2)
          else if cancelled ?tr2 then Some (Inl (ESentinel Canceled ''context canceled''), ?tr2)
          else ?loop ([] @ EvSleep 250000000 # EvNow (e_now E ?tr1) # [EvIfaces r1] @ tr)))"
    by (subst bridge_loop.simps) (simp add: b time_now_def Let_def go_sleep_def late_def gone_def split: option.split)
  let ?round = "(if deadline < e_now E ?tr1 then Some (Inl late, ?tr2)
      else if cancelled ?tr2 then Some (Inl (ESentinel Canceled ''context canceled''), ?tr2)
      else ?loop ([] @ EvSleep 250000000 # EvNow (e_now E ?tr1) # [EvIfaces r1] @ tr))"
  have zero: "slept [] = 0" "slept [EvIfaces r1] = 0" "slept [EvNow (e_now E ?tr1), EvIfaces r1] = 0" by simp_all
  consider (out) r es where "?loop tr = Some (r, es @ tr)" "slept es = 0"
    | (again) "e_now E ?tr1 \<le> deadline" "?loop tr = ?loop ([] @ EvSleep 250000000 # EvNow (e_now E ?tr1) # [EvIfaces r1] @ tr)"
  proof (cases "e_exited E tr pid")
    case True
    then have "?loop tr = Some (Inl gone, [] @ tr)" by (simp only: eq if_True)
    with zero(1) out show thesis by blast
  next
    case alive: False
    show thesis
    proof (cases b)
      case (Some x)
      with alive have "?loop tr = Some (Inr x, [EvIfaces r1] @ tr)" by (simp only: eq if_False option.case)
      with zero(2) out show thesis by blast
    next
      case None
      with alive have round: "?loop tr = ?round" by (simp only: eq if_False option.case)
      have "(\<exists>r. ?round = Some (r, ?tr2)) \<or>
          (e_now E ?tr1 \<le> deadline \<and> ?round = ?loop ([] @ EvSleep 250000000 # EvNow (e_now E ?tr1) # [EvIfaces r1] @ tr))"
        unfolding not_less [symmetric] by (rule late_or_again)
      with round zero(3) out again show thesis by metis
    qed
  qed
  then show "(\<exists>r es. ?loop tr = Some (r, es @ tr) \<and> slept es = 0) \<or>
      (\<exists>es evs. slept es = 0 \<and> slept evs = 0 \<and> e_now E (es @ tr) \<le> deadline \<and>
        (let tr' = evs @ EvSleep 250000000 # EvNow (e_now E (es @ tr)) # es @ tr in
         (\<exists>s' :: unit. ?loop tr = ?loop tr') \<or> (\<exists>r. ?loop tr = Some (r, tr'))))"
  proof cases
    case out
    then show ?thesis by blast
  next
    case again
    then show ?thesis
      by (intro disjI2 exI [of _ "[EvIfaces r1]"] exI [of _ "[]"]) (simp add: Let_def)
  qed
qed simp

text \<open>
  On a clock that moves on while the program sleeps, the wait for the bridge returns: with the
  bridge's name and hardware address, or an error, after at most a quarter of a second more than
  the timeout.
\<close>

theorem bridge_wait_returns:
  assumes "clock_advances E" "0 \<le> timeout"
  shows "\<exists>r es. waitForBridge E cancelled pid cidr timeout tr = Some (r, es @ tr) \<and> slept es \<le> timeout + 250000000"
proof (cases "parse_cidr cidr")
  case None
  then show ?thesis using assms(2)
    by (intro exI [of _ "Inl (wrap (''parse bridge address '' @ quote cidr @ '': '') (cidr_error cidr))"] exI [of _ "[]"])
      (simp add: waitForBridge_def)
next
  case (Some x)
  then obtain ip n where x: "parse_cidr cidr = Some (ip, n)" by (cases x) simp
  let ?now = "e_now E tr"
  obtain r es where "bridge_loop E cancelled pid cidr ip (?now + timeout) (EvNow ?now # tr) = Some (r, es @ EvNow ?now # tr)"
    "slept es \<le> timeout + 250000000"
    using bridge_wait.returns [OF assms(1), of "?now + timeout" ?now cancelled pid cidr ip tr] assms(2) by auto
  then show ?thesis
    by (intro exI [of _ r] exI [of _ "es @ [EvNow ?now]"]) (simp add: waitForBridge_def x time_now_def Let_def)
qed

section \<open>A leftover of an earlier run\<close>

definition vxlan_config :: join_config where
  "vxlan_config = \<lparr>jc_server = [], jc_token = [], jc_token_file = [], jc_node_name = [], jc_node_ip = ''192.0.2.10'',
     jc_adopt = False, jc_external_ip = [], jc_state_dir = [], jc_insecure = False, jc_once = False,
     jc_vxlan_binary = ''/opt/darwin-vxlan'', jc_macker_binary = [], jc_debug = False, jc_dns_resolver = False,
     jc_dns_search_domains = False, jc_search_domain_list = [], jc_search_domain_service = [],
     jc_vxlan_remote = ''192.0.2.1'', jc_vxlan_local = [], jc_vxlan_gateway_mac = [], jc_peer_kubeconfig = [],
     jc_peer_context = [], jc_drain_timeout = 0, jc_log_ttl = 0, jc_vxlan_port = 8472, jc_vxlan_mtu = 1450,
     jc_cluster_cidr = [], jc_service_cidr = ''10.43.0.0/16'', jc_cluster_cidr_set = False,
     jc_service_cidr_set = False, jc_use_sudo = False\<rparr>"

lemma launch_recognised_witness:
  "\<exists>p. vxlan_line ''/opt/darwin-vxlan'' ''192.0.2.10'' ''192.0.2.1'' 8472
      (itoa 4711 @ '' '' @ str_join '' '' (vxlan_argv vxlan_config (vxlan_arguments vxlan_config ''192.0.2.10'' ''10.42.7.1/24'' []))) = Some p \<and>
    vp_pid p = 4711 \<and> vp_bridge_cidr p = ''10.42.7.1/24'' \<and> \<not> vp_wrapper p"
proof -
  have v: "value_field (jc_vxlan_binary vxlan_config)" "value_field ''192.0.2.10''" "value_field (jc_vxlan_remote vxlan_config)"
    "bridgeAddressForCIDR ''10.42.7.0/24'' = Inr ''10.42.7.1/24''" "CHR '':'' \<notin> set ''10.42.7.0/24''" by code_simp+
  have c: "0 \<le> jc_vxlan_port vxlan_config" "0 \<le> jc_vxlan_mtu vxlan_config" "jc_vxlan_binary vxlan_config = ''/opt/darwin-vxlan''"
    "jc_vxlan_remote vxlan_config = ''192.0.2.1''" "jc_vxlan_port vxlan_config = 8472" "\<not> jc_use_sudo vxlan_config"
    by (simp_all add: vxlan_config_def)
  have "''/opt/darwin-vxlan'' \<noteq> ''sudo''" by simp
  with launch_recognised [OF v(1-3) c(1,2) v(5,4), of 4711 "[]"] c(3-6) show ?thesis by simp
qed

declare await_termination.simps [code] descendants_of.simps [code]

definition stale_env :: env where
  "stale_env = quiet_env\<lparr>e_cmd := \<lambda>tr argv.
     (if argv = ps_argv \<and> EvSignal 4711 2 \<notin> set tr
      then '' 4711 /opt/darwin-vxlan --vni 1 --local 192.0.2.10 --remote 192.0.2.1 --port 8472 --bridge-ipv4 10.42.7.1/24''
      else [], None)\<rparr>"

lemma recovery_is_narrow_witness:
  "\<exists>tr'. recoverStaleVXLAN stale_env vxlan_config ''10.42.7.1/24'' ''192.0.2.10'' [] = Some ((True, None), tr') \<and>
    EvSignal 4711 2 \<in> set tr' \<and> narrowly (vxlan_line ''/opt/darwin-vxlan'' ''192.0.2.10'' ''192.0.2.1'' 8472) [] tr'"
proof -
  let ?r = "recoverStaleVXLAN stale_env vxlan_config ''10.42.7.1/24'' ''192.0.2.10'' []"
  have "map_option fst ?r = Some (True, None) \<and> map_option (\<lambda>x. EvSignal 4711 2 \<in> set (snd x)) ?r = Some True"
    by code_simp
  then obtain tr' where r: "?r = Some ((True, None), tr')" "EvSignal 4711 2 \<in> set tr'" by fastforce
  have c: "jc_vxlan_binary vxlan_config = ''/opt/darwin-vxlan''" "jc_vxlan_remote vxlan_config = ''192.0.2.1''"
    "jc_vxlan_port vxlan_config = 8472" by (simp_all add: vxlan_config_def)
  from recovery_is_narrow [OF r(1)] r c show ?thesis by auto
qed

lemma bridge_wait_returns_witness:
  "\<exists>r es. waitForBridge quiet_env (\<lambda>_. False) 4711 ''10.42.7.1/24'' (30 * one_second) [] = Some (r, es @ []) \<and>
    slept es \<le> 30 * one_second + 250000000"
  by (rule bridge_wait_returns [OF quiet_clock(2)]) (simp add: one_second_def)

end
