(* ===== verification/Kubeconfig.thy ===== *)
theory Kubeconfig
  imports Codec FilePath Effects
begin

text \<open>
  \<^verbatim>\<open>kubeconfig.go\<close> and the construction of a client in \<^verbatim>\<open>pkg/kube/client.go\<close> 43--110: which
  credentials a kubeconfig gives.  The translation from YAML, the parsing of URLs and the checks of
  certificates and keys are answers of the environment; a client is what it was built from.
\<close>

section \<open>Clients\<close>

record client_spec =
  cs_server :: string
  cs_ca :: string
  cs_cert :: string
  cs_key :: string
  cs_insecure :: bool
  cs_username :: string
  cs_password :: string
  cs_token :: string

definition NormalizeServer :: "env \<Rightarrow> string \<Rightarrow> err + string \<times> string" where
  "NormalizeServer E server =
    (if server = [] then Inl (EMsg ''server URL is required'')
     else (case e_parse_url E (trim_right_chars server ''/'') of
        Inl e \<Rightarrow> Inl (wrap ''parse server URL: '' e)
      | Inr (scheme, host) \<Rightarrow>
          if scheme \<noteq> ''https'' then Inl (EMsg (''server URL must use https:// (got '' @ quote server @ '')''))
          else if host = [] then Inl (EMsg ''server URL has no host'') else Inr (scheme, host)))"

definition check_material :: "env \<Rightarrow> client_spec \<Rightarrow> err option" where
  "check_material E s =
    (if \<not> cs_insecure s \<and> (cs_ca s = [] \<or> \<not> e_ca_pool E (cs_ca s))
     then Some (EMsg ''cluster CA bundle is empty or invalid'')
     else if cs_cert s \<noteq> [] \<or> cs_key s \<noteq> []
     then map_option (wrap ''load client certificate: '') (e_key_pair E (cs_cert s) (cs_key s)) else None)"

definition NewClientWithMaterial :: "env \<Rightarrow> client_spec \<Rightarrow> err + client_spec" where
  "NewClientWithMaterial E s = (case NormalizeServer E (cs_server s) of
       Inl e \<Rightarrow> Inl e
     | Inr _ \<Rightarrow> (case check_material E s of Some e \<Rightarrow> Inl e | None \<Rightarrow> Inr s))"

text \<open>A file as bytes; what the program wrote as JSON is a valid text that is no certificate.\<close>

definition read_bytes :: "env \<Rightarrow> string \<Rightarrow> (err + string) io" where
  "read_bytes E path tr = (case fs_read E path tr of
       (Inl e, tr) \<Rightarrow> (Inl e, tr)
     | (Inr c, tr) \<Rightarrow> (Inr (case c of FBytes s \<Rightarrow> s | FJson _ \<Rightarrow> ''{}''), tr))"

definition NewClient :: "env \<Rightarrow> string \<Rightarrow> string \<Rightarrow> string \<Rightarrow> string \<Rightarrow> bool \<Rightarrow> string \<Rightarrow> string \<Rightarrow> (err + client_spec) io" where
  "NewClient E server ca certFile keyFile insecure username password tr =
    (let make = (\<lambda>cert key. NewClientWithMaterial E \<lparr>cs_server = server, cs_ca = ca, cs_cert = cert, cs_key = key,
           cs_insecure = insecure, cs_username = username, cs_password = password, cs_token = []\<rparr>) in
     if certFile = [] \<and> keyFile = [] then (make [] [], tr)
     else (case read_bytes E certFile tr of
        (Inl e, tr) \<Rightarrow> (Inl (wrap ''read client certificate: '' e), tr)
      | (Inr cert, tr) \<Rightarrow> (case read_bytes E keyFile tr of
          (Inl e, tr) \<Rightarrow> (Inl (wrap ''read client key: '' e), tr)
        | (Inr key, tr) \<Rightarrow> (make cert key, tr))))"

section \<open>Base64\<close>

text \<open>\<^verbatim>\<open>base64.StdEncoding.DecodeString\<close>: line ends are skipped, the text comes in groups of four
  and only the last group may be padded.\<close>

definition base64_val :: "char \<Rightarrow> nat option" where
  "base64_val c = (let b = byte c in
     if 65 \<le> b \<and> b \<le> 90 then Some (b - 65) else if 97 \<le> b \<and> b \<le> 122 then Some (b - 71)
     else if 48 \<le> b \<and> b \<le> 57 then Some (b + 4) else if c = CHR ''+'' then Some 62 else if c = CHR ''/'' then Some 63
     else None)"

fun base64_groups :: "string \<Rightarrow> string option" where
  "base64_groups [] = Some []"
| "base64_groups (a # b # c # d # s) = do {
     i \<leftarrow> base64_val a; j \<leftarrow> base64_val b;
     let first = char_of (i * 4 + j div 16);
     if s = [] \<and> c = CHR ''='' \<and> d = CHR ''='' then Some [first]
     else do {
       k \<leftarrow> base64_val c;
       let middle = char_of ((j mod 16) * 16 + k div 4);
       if s = [] \<and> d = CHR ''='' then Some [first, middle]
       else do {
         l \<leftarrow> base64_val d; rest \<leftarrow> base64_groups s;
         Some (first # middle # char_of ((k mod 4) * 64 + l) # rest) } } }"
| "base64_groups _ = None"

definition base64_decode :: "string \<Rightarrow> string option" where
  "base64_decode s = base64_groups (filter (\<lambda>c. c \<notin> {CHR 0x0A, CHR 0x0D}) s)"

section \<open>Paths\<close>

definition homeDirectory :: "env \<Rightarrow> string" where
  "homeDirectory E = (let home = (case e_home E of None \<Rightarrow> [] | Some h \<Rightarrow> h) in
     if e_euid E \<noteq> 0 then home
     else if e_getenv E ''SUDO_HOME'' \<noteq> [] then e_getenv E ''SUDO_HOME''
     else if e_getenv E ''SUDO_USER'' = [] then home
     else (case e_user_home E (e_getenv E ''SUDO_USER'') of
        None \<Rightarrow> home | Some h \<Rightarrow> if h \<noteq> [] then h else home))"

definition defaultPeerKubeconfig :: "env \<Rightarrow> string" where
  "defaultPeerKubeconfig E =
    (if e_getenv E ''KUBECONFIG'' \<noteq> [] then e_getenv E ''KUBECONFIG''
     else if homeDirectory E = [] then [] else path_join [homeDirectory E, ''.kube'', ''config''])"

definition expandPath :: "env \<Rightarrow> string \<Rightarrow> string" where
  "expandPath E path =
    (if (path = ''~'' \<or> has_prefix path ''~/'') \<and> homeDirectory E \<noteq> []
     then path_join [homeDirectory E, trim_prefix path ''~/''] else path)"

section \<open>The parts of a kubeconfig\<close>

record kube_cluster =
  kc_server :: string
  kc_ca_file :: string
  kc_ca_data :: string

record kube_user =
  ku_token :: string
  ku_token_file :: string
  ku_username :: string
  ku_password :: string
  ku_cert_file :: string
  ku_cert_data :: string
  ku_key_file :: string
  ku_key_data :: string

record kube_config =
  kk_current :: string
  kk_clusters :: "(string \<times> kube_cluster) list"
  kk_contexts :: "(string \<times> string \<times> string) list"
  kk_users :: "(string \<times> kube_user) list"

text \<open>\<^verbatim>\<open>json.Unmarshal\<close> into \<^verbatim>\<open>kubeconfigJSON\<close>; an absent object has empty fields.\<close>

definition decode_cluster :: "json \<Rightarrow> (string \<times> kube_cluster) option" where
  "decode_cluster j = do {
     fs \<leftarrow> j_obj j; name \<leftarrow> j_str (jget fs ''name''); cs \<leftarrow> j_obj (jget fs ''cluster'');
     server \<leftarrow> j_str (jget cs ''server''); ca \<leftarrow> j_str (jget cs ''certificate-authority'');
     data \<leftarrow> j_str (jget cs ''certificate-authority-data'');
     Some (name, \<lparr>kc_server = server, kc_ca_file = ca, kc_ca_data = data\<rparr>) }"

definition decode_context :: "json \<Rightarrow> (string \<times> string \<times> string) option" where
  "decode_context j = do {
     fs \<leftarrow> j_obj j; name \<leftarrow> j_str (jget fs ''name''); cs \<leftarrow> j_obj (jget fs ''context'');
     cluster \<leftarrow> j_str (jget cs ''cluster''); user \<leftarrow> j_str (jget cs ''user'');
     Some (name, cluster, user) }"

definition decode_user :: "json \<Rightarrow> (string \<times> kube_user) option" where
  "decode_user j = do {
     fs \<leftarrow> j_obj j; name \<leftarrow> j_str (jget fs ''name''); us \<leftarrow> j_obj (jget fs ''user'');
     token \<leftarrow> j_str (jget us ''token''); tokenFile \<leftarrow> j_str (jget us ''tokenFile'');
     username \<leftarrow> j_str (jget us ''username''); password \<leftarrow> j_str (jget us ''password'');
     cert \<leftarrow> j_str (jget us ''client-certificate''); certData \<leftarrow> j_str (jget us ''client-certificate-data'');
     key \<leftarrow> j_str (jget us ''client-key''); keyData \<leftarrow> j_str (jget us ''client-key-data'');
     Some (name, \<lparr>ku_token = token, ku_token_file = tokenFile, ku_username = username, ku_password = password,
       ku_cert_file = cert, ku_cert_data = certData, ku_key_file = key, ku_key_data = keyData\<rparr>) }"

definition decode_kubeconfig :: "json \<Rightarrow> kube_config option" where
  "decode_kubeconfig j = do {
     fs \<leftarrow> j_obj j; current \<leftarrow> j_str (jget fs ''current-context'');
     cs \<leftarrow> j_list (jget fs ''clusters''); clusters \<leftarrow> all_some (map decode_cluster cs);
     xs \<leftarrow> j_list (jget fs ''contexts''); contexts \<leftarrow> all_some (map decode_context xs);
     us \<leftarrow> j_list (jget fs ''users''); users \<leftarrow> all_some (map decode_user us);
     Some \<lparr>kk_current = current, kk_clusters = clusters, kk_contexts = contexts, kk_users = users\<rparr> }"

section \<open>Credentials\<close>

definition decodeKubeconfigData :: "string \<Rightarrow> string \<Rightarrow> err + string" where
  "decodeKubeconfigData data description =
    (if data = [] then Inr []
     else (case base64_decode data of
        None \<Rightarrow> Inl (wrap (''decode '' @ description @ '': '') (EMsg ''illegal base64 data''))
      | Some body \<Rightarrow> Inr body))"

definition kubeconfigFile :: "env \<Rightarrow> string \<Rightarrow> string \<Rightarrow> (err + string) io" where
  "kubeconfigFile E baseDir path tr =
    (if path = [] then (Inr [], tr)
     else (let path = expandPath E path; path = (if is_abs path then path else path_join [baseDir, path]) in
       case read_bytes E path tr of
         (Inl e, tr) \<Rightarrow> (Inl (wrap (''read kubeconfig file '' @ path @ '': '') e), tr)
       | (Inr body, tr) \<Rightarrow> (Inr body, tr)))"

text \<open>Data embedded in the kubeconfig comes before a file.\<close>

definition data_or_file :: "env \<Rightarrow> string \<Rightarrow> string \<Rightarrow> string \<Rightarrow> string \<Rightarrow> (err + string) io" where
  "data_or_file E baseDir data description path tr = (case decodeKubeconfigData data description of
       Inl e \<Rightarrow> (Inl e, tr)
     | Inr body \<Rightarrow> if body \<noteq> [] then (Inr body, tr) else kubeconfigFile E baseDir path tr)"

definition user_token :: "env \<Rightarrow> string \<Rightarrow> kube_user \<Rightarrow> (err + string) io" where
  "user_token E baseDir u tr =
    (if ku_token u = [] \<and> ku_token_file u \<noteq> []
     then (case kubeconfigFile E baseDir (ku_token_file u) tr of
        (Inl e, tr) \<Rightarrow> (Inl e, tr) | (Inr body, tr) \<Rightarrow> (Inr (trim_space body), tr))
     else (Inr (ku_token u), tr))"

text \<open>The first context, cluster and user of a name are taken.\<close>

definition no_user :: kube_user where
  "no_user = \<lparr>ku_token = [], ku_token_file = [], ku_username = [], ku_password = [],
     ku_cert_file = [], ku_cert_data = [], ku_key_file = [], ku_key_data = []\<rparr>"

definition select_context :: "kube_config \<Rightarrow> string \<Rightarrow> err + string \<times> string" where
  "select_context k contextName =
    (let name = (if contextName = [] then kk_current k else contextName) in
     case map_of (kk_contexts k) name of
       Some (cluster, user) \<Rightarrow>
         if cluster = [] \<or> user = [] then Inl (EMsg (''peer kubeconfig context '' @ quote name @ '' is missing or incomplete''))
         else Inr (cluster, user)
     | None \<Rightarrow> Inl (EMsg (''peer kubeconfig context '' @ quote name @ '' is missing or incomplete'')))"

definition select_cluster :: "kube_config \<Rightarrow> string \<Rightarrow> err + kube_cluster" where
  "select_cluster k name = (case map_of (kk_clusters k) name of
       Some c \<Rightarrow> if kc_server c = [] then Inl (EMsg (''peer kubeconfig cluster '' @ quote name @ '' is missing a server'')) else Inr c
     | None \<Rightarrow> Inl (EMsg (''peer kubeconfig cluster '' @ quote name @ '' is missing a server'')))"

definition select_user :: "kube_config \<Rightarrow> string \<Rightarrow> kube_user" where
  "select_user k name = (case map_of (kk_users k) name of Some u \<Rightarrow> u | None \<Rightarrow> no_user)"

definition finish_client ::
  "env \<Rightarrow> string \<Rightarrow> bool \<Rightarrow> kube_cluster \<Rightarrow> kube_user \<Rightarrow> string \<Rightarrow> string \<Rightarrow> string \<Rightarrow> string \<Rightarrow> err + client_spec option" where
  "finish_client E server insecure c u ca cert key token =
    (if cert = [] \<and> token = [] \<and> ku_username u = []
     then Inl (EMsg ''peer kubeconfig user has no token, username/password, or client certificate'')
     else (case NewClientWithMaterial E \<lparr>cs_server = (if server = [] then kc_server c else server), cs_ca = ca, cs_cert = cert,
           cs_key = key, cs_insecure = insecure, cs_username = ku_username u, cs_password = ku_password u, cs_token = token\<rparr> of
        Inl e \<Rightarrow> Inl (wrap ''create peer API client: '' e)
      | Inr s \<Rightarrow> Inr (Some s)))"

definition client_of ::
  "env \<Rightarrow> string \<Rightarrow> bool \<Rightarrow> string \<Rightarrow> kube_cluster \<Rightarrow> kube_user \<Rightarrow> (err + client_spec option) io" where
  "client_of E server insecure baseDir c u tr =
    (case data_or_file E baseDir (kc_ca_data c) ''peer certificate-authority-data'' (kc_ca_file c) tr of
       (Inl e, tr) \<Rightarrow> (Inl e, tr)
     | (Inr ca, tr) \<Rightarrow> (case data_or_file E baseDir (ku_cert_data u) ''peer client-certificate-data'' (ku_cert_file u) tr of
         (Inl e, tr) \<Rightarrow> (Inl e, tr)
       | (Inr cert, tr) \<Rightarrow> (case data_or_file E baseDir (ku_key_data u) ''peer client-key-data'' (ku_key_file u) tr of
           (Inl e, tr) \<Rightarrow> (Inl e, tr)
         | (Inr key, tr) \<Rightarrow> (case user_token E baseDir u tr of
             (Inl e, tr) \<Rightarrow> (Inl e, tr)
           | (Inr token, tr) \<Rightarrow> (finish_client E server insecure c u ca cert key token, tr)))))"

definition select_client ::
  "env \<Rightarrow> string \<Rightarrow> string \<Rightarrow> bool \<Rightarrow> string \<Rightarrow> kube_config \<Rightarrow> (err + client_spec option) io" where
  "select_client E server contextName insecure baseDir k tr = (case select_context k contextName of
       Inl e \<Rightarrow> (Inl e, tr)
     | Inr (cluster, user) \<Rightarrow> (case select_cluster k cluster of
         Inl e \<Rightarrow> (Inl e, tr)
       | Inr c \<Rightarrow> client_of E server insecure baseDir c (select_user k user) tr))"

text \<open>Without a path, or without a file there, no client is found and this is no error.\<close>

definition loadPeerAPIClient :: "env \<Rightarrow> string \<Rightarrow> string \<Rightarrow> string \<Rightarrow> bool \<Rightarrow> (err + client_spec option) io" where
  "loadPeerAPIClient E server kubeconfigPath contextName insecure tr =
    (if kubeconfigPath = [] then (Inr None, tr)
     else (let path = expandPath E kubeconfigPath in
       case fs_do E (Stat path) tr of
         (Some e, tr) \<Rightarrow> if is_sentinel NotExist e then (Inr None, tr) else (Inl (wrap ''stat peer kubeconfig: '' e), tr)
       | (None, tr) \<Rightarrow> (case read_bytes E path tr of
           (Inl e, tr) \<Rightarrow> (Inl (wrap ''read peer kubeconfig: '' e), tr)
         | (Inr body, tr) \<Rightarrow> (case e_yaml E body of
             Inl e \<Rightarrow> (Inl (wrap ''decode peer kubeconfig YAML: '' e), tr)
           | Inr j \<Rightarrow> (case decode_kubeconfig j of
               None \<Rightarrow> (Inl (wrap ''decode peer kubeconfig: '' json_error), tr)
             | Some k \<Rightarrow> select_client E server contextName insecure (path_dir path) k tr)))))"

text \<open>\<^verbatim>\<open>net.JoinHostPort\<close>: a host with a colon is put in brackets.\<close>

definition join_host_port :: "string \<Rightarrow> string \<Rightarrow> string" where
  "join_host_port host port = (if CHR '':'' \<in> set host then ''['' @ host @ '']:'' @ port else host @ CHR '':'' # port)"

definition inClusterAPIClient :: "env \<Rightarrow> (err + client_spec) io" where
  "inClusterAPIClient E tr =
    (if e_getenv E ''KUBERNETES_SERVICE_HOST'' = [] \<or> e_getenv E ''KUBERNETES_SERVICE_PORT'' = []
     then (Inl (EMsg ''Kubernetes in-cluster environment is unavailable''), tr)
     else (case read_bytes E ''/var/run/secrets/kubernetes.io/serviceaccount/ca.crt'' tr of
        (Inl e, tr) \<Rightarrow> (Inl (wrap ''read in-cluster CA: '' e), tr)
      | (Inr ca, tr) \<Rightarrow> (case read_bytes E ''/var/run/secrets/kubernetes.io/serviceaccount/token'' tr of
          (Inl e, tr) \<Rightarrow> (Inl (wrap ''read in-cluster token: '' e), tr)
        | (Inr token, tr) \<Rightarrow>
            (case NewClientWithMaterial E \<lparr>cs_server = ''https://'' @
                  join_host_port (e_getenv E ''KUBERNETES_SERVICE_HOST'') (e_getenv E ''KUBERNETES_SERVICE_PORT''), cs_ca = ca, cs_cert = [], cs_key = [],
                cs_insecure = False, cs_username = [], cs_password = [], cs_token = trim_space token\<rparr> of
               Inl e \<Rightarrow> (Inl (wrap ''create in-cluster API client: '' e), tr) | Inr s \<Rightarrow> (Inr s, tr)))))"

end
