(* ===== verification/Material.thy ===== *)
theory Material
  imports Kubeconfig LocalState
begin

text \<open>
  The certificates and keys in the state directory (\<^verbatim>\<open>state_material.go\<close>) and the clients that are
  built from them (\<^verbatim>\<open>node_discovery.go\<close>).  Parsing a certificate, the next block of a PEM text and making a
  key are answers of the environment; which file is read, when a certificate is asked for, and what
  is kept under which path is the program.
\<close>

section \<open>Requests\<close>

text \<open>
  \<^verbatim>\<open>Client.Do\<close> (\<^verbatim>\<open>pkg/kube/client.go\<close> 124--155) without the authorization header, which stands in the
  identity of the client; a status outside of 200--299 is the error \<^verbatim>\<open>HTTPError\<close>.
\<close>

definition Do :: "env \<Rightarrow> api_client \<Rightarrow> api_method \<Rightarrow> string \<Rightarrow> string \<Rightarrow> string \<Rightarrow> strmap \<Rightarrow> (err + string) io" where
  "Do E c m path data contentType headers tr =
     call_raw E c m path data ((if contentType = [] then [] else [(''Content-Type'', contentType)]) @
       (''Accept'', ''application/json'') # headers) tr"

definition Get :: "env \<Rightarrow> api_client \<Rightarrow> string \<Rightarrow> (err + string) io" where
  "Get E c path tr = Do E c GET path [] [] [] tr"

section \<open>Certificates\<close>

text \<open>
  \<^verbatim>\<open>pem.Decode\<close> gives the type of the first block, the block as it is encoded again, and the rest.
  \<open>e_certificate\<close> parses a block and gives the end of its life.
\<close>

definition certificate_end :: "env \<Rightarrow> string \<Rightarrow> gotime option" where
  "certificate_end E body = (case e_pem E body of
       None \<Rightarrow> None
     | Some (kind, block, _) \<Rightarrow> if kind = ''CERTIFICATE'' then e_certificate E block else None)"

definition validPEMCertificate :: "env \<Rightarrow> string \<Rightarrow> bool" where
  "validPEMCertificate E body \<longleftrightarrow> certificate_end E body \<noteq> None"

definition validPEMCertificateFile :: "env \<Rightarrow> string \<Rightarrow> bool io" where
  "validPEMCertificateFile E path tr = (case read_bytes E path tr of
       (Inl e, tr) \<Rightarrow> (False, tr) | (Inr body, tr) \<Rightarrow> (validPEMCertificate E body, tr))"

text \<open>A certificate is refreshed in the last hour of its life; the times are in nanoseconds.\<close>

definition one_hour :: int where
  "one_hour = 3600 * 1000000000"

definition certificateNeedsRefresh :: "env \<Rightarrow> string \<Rightarrow> bool io" where
  "certificateNeedsRefresh E path tr = (case read_bytes E path tr of
       (Inl e, tr) \<Rightarrow> (True, tr)
     | (Inr body, tr) \<Rightarrow>
         (case certificate_end E body of
            None \<Rightarrow> (True, tr)
          | Some notAfter \<Rightarrow> (case time_now E tr of (now, tr) \<Rightarrow> (notAfter < now + one_hour, tr))))"

text \<open>
  The blocks of a response: private keys, and everything else.  Every block takes at least one byte,
  so a loop of as many rounds as the response has bytes reaches its end (\<open>split_loop_enough\<close>).
\<close>

fun split_loop :: "env \<Rightarrow> nat \<Rightarrow> string \<Rightarrow> string \<times> string \<Rightarrow> string \<times> string" where
  "split_loop E 0 body (cert, key) = (cert, key)"
| "split_loop E (Suc rounds) body (cert, key) = (case e_pem E body of
       None \<Rightarrow> (cert, key)
     | Some (kind, block, rest) \<Rightarrow> split_loop E rounds rest
         (if str_contains kind ''PRIVATE KEY'' then (cert, key @ block) else (cert @ block, key)))"

definition splitCertificateAndKeyPEM :: "env \<Rightarrow> string \<Rightarrow> string \<times> string" where
  "splitCertificateAndKeyPEM E body = split_loop E (length body) body ([], [])"

definition pem_consumes :: "env \<Rightarrow> bool" where
  "pem_consumes E \<longleftrightarrow> (\<forall>s kind block rest. e_pem E s = Some (kind, block, rest) \<longrightarrow> length rest < length s)"

lemma split_loop_enough:
  assumes "pem_consumes E" "length body \<le> n"
  shows "split_loop E n body x = split_loop E (length body) body x"
  using assms(2)
proof (induction body arbitrary: n x rule: length_induct)
  case (1 body)
  show ?case
  proof (cases "e_pem E body")
    case None
    then show ?thesis by (cases n; cases "length body"; cases x) simp_all
  next
    case (Some y)
    then obtain kind block rest where y: "e_pem E body = Some (kind, block, rest)" by (cases y) auto
    then have less: "length rest < length body" using assms(1) unfolding pem_consumes_def by blast
    then obtain m k where m: "n = Suc m" "length body = Suc k" using "1.prems" by (cases n; cases "length body") auto
    obtain cert key where x: "x = (cert, key)" by (cases x)
    from less "1.prems" m have "length rest \<le> m" "length rest \<le> k" by simp_all
    then have "split_loop E m rest z = split_loop E k rest z" for z using "1.IH" less by metis
    with y m x show ?thesis by simp
  qed
qed


definition key_missing :: "env \<Rightarrow> string \<Rightarrow> bool io" where
  "key_missing E path tr = (case fs_do E (Stat path) tr of (r, tr) \<Rightarrow> (r \<noteq> None, tr))"

section \<open>The controller's certificate\<close>

definition default_path :: "string \<Rightarrow> string \<Rightarrow> string \<Rightarrow> string" where
  "default_path path stateDir name = (if path = [] then path_join [stateDir, name] else path)"

definition controller_paths :: "string \<Rightarrow> local_state \<Rightarrow> local_state" where
  "controller_paths statePath s =
     s\<lparr>st_controller_cert := default_path (st_controller_cert s) (path_dir statePath) ''client-k3s-controller.crt'',
       st_controller_key := default_path (st_controller_key s) (path_dir statePath) ''client-k3s-controller.key''\<rparr>"

text \<open>The two files, the key first, and then the state.\<close>

definition keep_pair :: "env \<Rightarrow> string \<Rightarrow> string \<Rightarrow> string \<Rightarrow> string \<Rightarrow> err option io" where
  "keep_pair E keyFile key certFile cert tr = (case writePrivateFile E keyFile (FBytes key) 384 tr of
       (Some e, tr) \<Rightarrow> (Some e, tr)
     | (None, tr) \<Rightarrow> writePrivateFile E certFile (FBytes cert) 384 tr)"

definition request_controller :: "env \<Rightarrow> api_client \<Rightarrow> local_state \<Rightarrow> string \<Rightarrow> err option io" where
  "request_controller E c s statePath tr = (case key_request E [] tr of
       (Inl e, tr) \<Rightarrow> (Some (wrap ''generate k3s controller certificate key: '' e), tr)
     | (Inr (csr, key), tr) \<Rightarrow> (case Do E c POST ''/v1-k3s/client-k3s-controller.crt'' csr ''application/pkcs10'' [] tr of
         (Inl e, tr) \<Rightarrow> (Some (wrap ''request k3s controller certificate: '' e), tr)
       | (Inr response, tr) \<Rightarrow> (case splitCertificateAndKeyPEM E response of (cert, returned) \<Rightarrow>
           if \<not> validPEMCertificate E cert
           then (Some (EMsg ''k3s returned an invalid controller client certificate''), tr)
           else (case keep_pair E (st_controller_key s) (if returned = [] then key else returned) (st_controller_cert s) cert tr of
              (Some e, tr) \<Rightarrow> (Some e, tr)
            | (None, tr) \<Rightarrow> writeLocalState E statePath s tr))))"

definition ensureControllerClientMaterial ::
  "env \<Rightarrow> api_client \<Rightarrow> local_state \<Rightarrow> string \<Rightarrow> trace \<Rightarrow> err option \<times> local_state \<times> trace" where
  "ensureControllerClientMaterial E c s statePath tr =
    (let s = controller_paths statePath s in
     case validPEMCertificateFile E (st_controller_cert s) tr of (valid, tr) \<Rightarrow>
      (case (if valid then key_missing E (st_controller_key s) tr else (True, tr)) of (missing, tr) \<Rightarrow>
        (case (if missing then request_controller E c s statePath tr else writeLocalState E statePath s tr) of
           (r, tr) \<Rightarrow> (r, s, tr))))"

section \<open>The kubelet's certificate\<close>

definition kubelet_paths :: "string \<Rightarrow> local_state \<Rightarrow> local_state" where
  "kubelet_paths statePath s =
     s\<lparr>st_client_ca := default_path (st_client_ca s) (path_dir statePath) ''client-ca.crt'',
       st_serving_cert := default_path (st_serving_cert s) (path_dir statePath) ''serving-kubelet.crt'',
       st_serving_key := default_path (st_serving_key s) (path_dir statePath) ''serving-kubelet.key''\<rparr>"

definition ensure_client_ca :: "env \<Rightarrow> api_client \<Rightarrow> string \<Rightarrow> err option io" where
  "ensure_client_ca E c path tr = (case validPEMCertificateFile E path tr of
       (True, tr) \<Rightarrow> (None, tr)
     | (False, tr) \<Rightarrow> (case Get E c ''/v1-k3s/client-ca.crt'' tr of
         (Inl e, tr) \<Rightarrow> (Some (wrap ''retrieve kubelet client CA: '' e), tr)
       | (Inr ca, tr) \<Rightarrow>
           if \<not> validPEMCertificate E ca then (Some (EMsg ''k3s returned an invalid kubelet client CA''), tr)
           else writePrivateFile E path (FBytes ca) 384 tr))"

definition node_headers :: "string \<Rightarrow> string \<Rightarrow> string \<Rightarrow> strmap" where
  "node_headers nodeName password nodeIP =
     (''k3s-Node-Name'', nodeName) # (''k3s-Node-Password'', password) # (if nodeIP = [] then [] else [(''k3s-Node-IP'', nodeIP)])"

definition request_serving :: "env \<Rightarrow> api_client \<Rightarrow> local_state \<Rightarrow> string \<Rightarrow> string \<Rightarrow> err option io" where
  "request_serving E c s nodeName nodeIP tr = (case key_request E nodeName tr of
       (Inl e, tr) \<Rightarrow> (Some (wrap ''generate kubelet serving certificate key: '' e), tr)
     | (Inr (csr, key), tr) \<Rightarrow> (case read_bytes E (st_password_file s) tr of
         (Inl e, tr) \<Rightarrow> (Some (wrap ''read node password: '' e), tr)
       | (Inr password, tr) \<Rightarrow> (case Do E c POST ''/v1-k3s/serving-kubelet.crt'' csr ''application/pkcs10''
             (node_headers nodeName (trim_space password) nodeIP) tr of
           (Inl e, tr) \<Rightarrow> (Some (wrap ''request kubelet serving certificate: '' e), tr)
         | (Inr cert, tr) \<Rightarrow>
             if \<not> validPEMCertificate E cert
             then (Some (EMsg ''k3s returned an invalid kubelet serving certificate''), tr)
             else keep_pair E (st_serving_key s) key (st_serving_cert s) cert tr)))"

definition ensure_serving :: "env \<Rightarrow> api_client \<Rightarrow> local_state \<Rightarrow> string \<Rightarrow> string \<Rightarrow> err option io" where
  "ensure_serving E c s nodeName nodeIP tr = (case certificateNeedsRefresh E (st_serving_cert s) tr of (old, tr) \<Rightarrow>
      (case (if old then (True, tr) else key_missing E (st_serving_key s) tr) of (needed, tr) \<Rightarrow>
        if needed then request_serving E c s nodeName nodeIP tr else (None, tr)))"

definition ensureKubeletServerMaterial ::
  "env \<Rightarrow> api_client \<Rightarrow> local_state \<Rightarrow> string \<Rightarrow> string \<Rightarrow> string \<Rightarrow> trace \<Rightarrow> err option \<times> local_state \<times> trace" where
  "ensureKubeletServerMaterial E c s statePath nodeName nodeIP tr =
    (let s = kubelet_paths statePath s in
     case ensure_client_ca E c (st_client_ca s) tr of
       (Some e, tr) \<Rightarrow> (Some e, s, tr)
     | (None, tr) \<Rightarrow> (case ensure_serving E c s nodeName nodeIP tr of
         (Some e, tr) \<Rightarrow> (Some e, s, tr)
       | (None, tr) \<Rightarrow> (case writeLocalState E statePath s tr of (r, tr) \<Rightarrow> (r, s, tr))))"

section \<open>The clients for reading other objects\<close>

definition vxlanPublicIP :: "join_config \<Rightarrow> local_state \<Rightarrow> string" where
  "vxlanPublicIP cfg s = (if jc_vxlan_local cfg \<noteq> [] then jc_vxlan_local cfg else st_node_ip s)"

definition configuredPeerAPIClient :: "env \<Rightarrow> join_config \<Rightarrow> local_state \<Rightarrow> (err + client_spec option) io" where
  "configuredPeerAPIClient E cfg s tr =
    (let path = (if jc_peer_kubeconfig cfg = [] then st_peer_kubeconfig s else jc_peer_kubeconfig cfg);
         contextName = (if jc_peer_context cfg = [] then st_peer_context s else jc_peer_context cfg) in
     if path = [] then (Inr None, tr) else loadPeerAPIClient E (st_server s) path contextName (jc_insecure cfg) tr)"

text \<open>The identity goes with the credentials.\<close>

definition controller_client :: "env \<Rightarrow> join_config \<Rightarrow> local_state \<Rightarrow> (err + (api_client \<times> client_spec) option) io" where
  "controller_client E cfg s tr =
    (let dir = path_dir (st_ca_file s);
         certFile = default_path (st_controller_cert s) dir ''client-k3s-controller.crt'';
         keyFile = default_path (st_controller_key s) dir ''client-k3s-controller.key'' in
     case validPEMCertificateFile E certFile tr of
       (False, tr) \<Rightarrow> (Inr None, tr)
     | (True, tr) \<Rightarrow> (case key_missing E keyFile tr of
         (True, tr) \<Rightarrow> (Inr None, tr)
       | (False, tr) \<Rightarrow> (case read_bytes E (st_ca_file s) tr of
           (Inl e, tr) \<Rightarrow> (Inl (wrap ''read K3s controller client CA: '' e), tr)
         | (Inr ca, tr) \<Rightarrow> (case NewClient E (st_server s) ca certFile keyFile (jc_insecure cfg) [] [] tr of
             (Inl e, tr) \<Rightarrow> (Inl (wrap ''create K3s controller API client: '' e), tr)
           | (Inr spec, tr) \<Rightarrow> (Inr (Some (ControllerClient, spec)), tr)))))"

definition no_peer_identity :: err where
  "no_peer_identity = EMsg ''automatic peer discovery needs the K3s controller client certificate; rerun join with the original token, pass --peer-kubeconfig, or use --vxlan-gateway-mac''"

definition stored_peer_client :: "env \<Rightarrow> join_config \<Rightarrow> local_state \<Rightarrow> (err + api_client \<times> client_spec) io" where
  "stored_peer_client E cfg s tr =
    (if jc_peer_kubeconfig cfg = [] \<and> st_peer_kubeconfig s \<noteq> []
     then (case configuredPeerAPIClient E cfg s tr of
        (Inl e, tr) \<Rightarrow> (Inl e, tr)
      | (Inr None, tr) \<Rightarrow> (Inl no_peer_identity, tr)
      | (Inr (Some spec), tr) \<Rightarrow> (Inr (PeerClient, spec), tr))
     else (Inl no_peer_identity, tr))"

definition peerAPIClient :: "env \<Rightarrow> join_config \<Rightarrow> local_state \<Rightarrow> (err + api_client \<times> client_spec) io" where
  "peerAPIClient E cfg s tr =
    (case (if jc_peer_kubeconfig cfg = [] then (Inr None, tr) else configuredPeerAPIClient E cfg s tr) of
       (Inl e, tr) \<Rightarrow> (Inl e, tr)
     | (Inr (Some spec), tr) \<Rightarrow> (Inr (PeerClient, spec), tr)
     | (Inr None, tr) \<Rightarrow> (case controller_client E cfg s tr of
         (Inl e, tr) \<Rightarrow> (Inl e, tr)
       | (Inr (Some c), tr) \<Rightarrow> (Inr c, tr)
       | (Inr None, tr) \<Rightarrow> stored_peer_client E cfg s tr))"

end
