(* ===== verification/KubeletServer.thy ===== *)
theory KubeletServer
  imports Material Manager
begin

text \<open>
  \<^verbatim>\<open>kubelet_server.go\<close>: the checks before the kubelet's HTTPS server listens, the list of API servers,
  which addresses a remote dialer may reach through a tunnel, and the supervisor that keeps one tunnel
  to each API server.  Serving the connections themselves is not modelled.
\<close>

abbreviation kubelet_port :: int where
  "kubelet_port \<equiv> 10250"

section \<open>Starting the server\<close>

text \<open>\<^verbatim>\<open>tls.LoadX509KeyPair\<close>\<close>

definition load_key_pair :: "env \<Rightarrow> string \<Rightarrow> string \<Rightarrow> err option io" where
  "load_key_pair E certFile keyFile tr = (case read_bytes E certFile tr of
       (Inl e, tr) \<Rightarrow> (Some e, tr)
     | (Inr cert, tr) \<Rightarrow> (case read_bytes E keyFile tr of
         (Inl e, tr) \<Rightarrow> (Some e, tr) | (Inr key, tr) \<Rightarrow> (e_key_pair E cert key, tr)))"

definition startKubeletServer :: "env \<Rightarrow> string \<Rightarrow> manager option \<Rightarrow> string \<Rightarrow> string \<Rightarrow> string \<Rightarrow> int \<Rightarrow> err option io" where
  "startKubeletServer E bindAddress m certFile keyFile clientCAFile port tr =
    (if m = None then (Some (EMsg ''kubelet server requires a workload manager''), tr)
     else (case load_key_pair E certFile keyFile tr of
        (Some e, tr) \<Rightarrow> (Some (wrap ''load kubelet serving certificate: '' e), tr)
      | (None, tr) \<Rightarrow> (case read_bytes E clientCAFile tr of
          (Inl e, tr) \<Rightarrow> (Some (wrap ''read kubelet client CA: '' e), tr)
        | (Inr ca, tr) \<Rightarrow>
            if \<not> e_ca_pool E ca then (Some (EMsg ''kubelet client CA is empty or invalid''), tr)
            else if port \<le> 0 \<or> port > 65535 then (Some (EMsg (''kubelet port '' @ itoa port @ '' is outside the valid range'')), tr)
            else (let address = join_host_port (if bindAddress = [] then ''0.0.0.0'' else bindAddress) (itoa port) in
              case call_listen E address tr of
                (Some e, tr) \<Rightarrow> (Some (wrap (''listen for kubelet HTTPS on '' @ address @ '': '') e), tr)
              | (None, tr) \<Rightarrow> (None, tr)))))"

section \<open>The API servers\<close>

definition with_scheme :: "string \<Rightarrow> string" where
  "with_scheme s = (if str_contains s ''://'' then s else ''https://'' @ s)"

definition tunnel_url :: "env \<Rightarrow> string \<Rightarrow> string option" where
  "tunnel_url E address = (case NormalizeServer E (with_scheme address) of
       Inl _ \<Rightarrow> None | Inr _ \<Rightarrow> Some (e_url_string E (trim_right_chars (with_scheme address) ''/'')))"

definition listed_servers :: "env \<Rightarrow> err + string \<Rightarrow> string list" where
  "listed_servers E r = (case r of
       Inl _ \<Rightarrow> []
     | Inr body \<Rightarrow> (case Option.bind (e_parse_json E body) j_strs of
         None \<Rightarrow> [] | Some addresses \<Rightarrow> List.map_filter (tunnel_url E) addresses))"

definition discoverKubeletTunnelServers :: "env \<Rightarrow> string \<Rightarrow> string list io" where
  "discoverKubeletTunnelServers E fallback tr = (case Get E NodeClient ''/v1-k3s/apiservers'' tr of (r, tr) \<Rightarrow>
     (let servers = listed_servers E r;
          servers = (if servers = [] then List.map_filter (tunnel_url E) [fallback] else servers) in
      (remdups_adj (sort servers), tr)))"

section \<open>The addresses a tunnel may reach\<close>

text \<open>\<^verbatim>\<open>net.SplitHostPort\<close>: the port after the last colon, an address with colons in brackets.\<close>

definition last_colon :: "string \<Rightarrow> (string \<times> string) option" where
  "last_colon s = (let port = rev (takeWhile (\<lambda>c. c \<noteq> CHR '':'') (rev s)) in
     if length port < length s then Some (take (length s - length port - 1) s, port) else None)"

definition split_host_port :: "string \<Rightarrow> (string \<times> string) option" where
  "split_host_port s = (case last_colon s of
       None \<Rightarrow> None
     | Some (h, port) \<Rightarrow>
         if has_prefix s ''['' then
           (let host = takeWhile (\<lambda>c. c \<noteq> CHR '']'') (drop 1 s) in
            if h = ''['' @ host @ '']'' \<and> CHR ''['' \<notin> set (drop 1 s) \<and> CHR '']'' \<notin> set port then Some (host, port) else None)
         else if CHR '':'' \<in> set h \<or> CHR ''['' \<in> set s \<or> CHR '']'' \<in> set s then None
         else Some (h, port))"

definition is_kubelet_address :: "int \<Rightarrow> string \<times> string \<Rightarrow> bool" where
  "is_kubelet_address port a \<longleftrightarrow> (fst a = ''127.0.0.1'' \<or> fst a = ''::1'') \<and> snd a = itoa port"

definition authorize :: "int \<Rightarrow> string \<Rightarrow> string \<Rightarrow> bool" where
  "authorize port protocol address \<longleftrightarrow> protocol = ''tcp'' \<and>
     (case split_host_port address of None \<Rightarrow> False | Some a \<Rightarrow> is_kubelet_address port a)"

text \<open>The address that is dialled for a request, unless it cannot be split.\<close>

definition localDialer :: "string \<Rightarrow> int \<Rightarrow> string \<Rightarrow> string option" where
  "localDialer nodeIP port address = (case split_host_port address of
       None \<Rightarrow> None
     | Some a \<Rightarrow> Some (if is_kubelet_address port a then join_host_port nodeIP (snd a) else address))"

text \<open>The checks of \<^verbatim>\<open>startKubeletTunnel\<close> before it connects; \<open>connect\<close> is the remote dialer.\<close>

definition startKubeletTunnel :: "env \<Rightarrow> err option io \<Rightarrow> string \<Rightarrow> string \<Rightarrow> string \<Rightarrow> string \<Rightarrow> err option io" where
  "startKubeletTunnel E connect serverURL certFile keyFile caFile tr =
    (let url = with_scheme serverURL in case e_parse_url E url of
       Inl e \<Rightarrow> (Some (wrap (''parse kubelet tunnel server '' @ quote url @ '': '') e), tr)
     | Inr (scheme, host) \<Rightarrow>
         if host = [] then (Some (EMsg (''parse kubelet tunnel server '' @ quote url @ '': missing host'')), tr)
         else (case read_bytes E caFile tr of
            (Inl e, tr) \<Rightarrow> (Some (wrap ''read kubelet tunnel CA: '' e), tr)
          | (Inr ca, tr) \<Rightarrow>
              if \<not> e_ca_pool E ca then (Some (EMsg ''kubelet tunnel CA is empty or invalid''), tr)
              else (case load_key_pair E certFile keyFile tr of
                 (Some e, tr) \<Rightarrow> (Some (wrap ''load kubelet tunnel client certificate: '' e), tr)
               | (None, tr) \<Rightarrow> connect tr)))"

section \<open>The supervisor of the tunnels\<close>

text \<open>The servers with a tunnel; \<open>connect\<close> is an argument, as in the code.\<close>

fun connect_servers :: "(string \<Rightarrow> err option io) \<Rightarrow> string list \<Rightarrow> string list \<Rightarrow> string list io" where
  "connect_servers connect [] tunnels tr = (tunnels, tr)"
| "connect_servers connect (server # servers) tunnels tr =
    (if server \<in> set tunnels then connect_servers connect servers tunnels tr
     else (case connect server tr of
        (Some e, tr) \<Rightarrow> connect_servers connect servers tunnels tr
      | (None, tr) \<Rightarrow> connect_servers connect servers (tunnels @ [server]) tr))"

definition reconcile_tunnels :: "env \<Rightarrow> (string \<Rightarrow> err option io) \<Rightarrow> string \<Rightarrow> string list \<Rightarrow> string list io" where
  "reconcile_tunnels E connect fallback tunnels tr =
    (case discoverKubeletTunnelServers E fallback tr of (servers, tr) \<Rightarrow> connect_servers connect servers tunnels tr)"

partial_function (option) tunnel_loop ::
  "env \<Rightarrow> (string \<Rightarrow> err option io) \<Rightarrow> (string \<Rightarrow> trace \<Rightarrow> trace) \<Rightarrow> (trace \<Rightarrow> bool) \<Rightarrow> string \<Rightarrow> int \<Rightarrow> string list \<Rightarrow> trace \<Rightarrow> trace option" where
  "tunnel_loop E connect disconnect cancelled fallback interval tunnels tr =
    (if cancelled tr then Some (fold disconnect (e_order E tunnels) tr)
     else (case reconcile_tunnels E connect fallback tunnels (go_sleep interval tr) of (tunnels, tr) \<Rightarrow>
       tunnel_loop E connect disconnect cancelled fallback interval tunnels tr))"

definition startKubeletTunnelSupervisorWithConnector ::
  "env \<Rightarrow> (string \<Rightarrow> err option io) \<Rightarrow> (string \<Rightarrow> trace \<Rightarrow> trace) \<Rightarrow> (trace \<Rightarrow> bool) \<Rightarrow> string \<Rightarrow> int \<Rightarrow> trace \<Rightarrow> trace option" where
  "startKubeletTunnelSupervisorWithConnector E connect disconnect cancelled fallback interval tr =
    (case reconcile_tunnels E connect fallback [] tr of (tunnels, tr) \<Rightarrow>
       tunnel_loop E connect disconnect cancelled fallback interval tunnels tr)"

end
