(* ===== verification/KubeletHandler.thy ===== *)
theory KubeletHandler
  imports KubeletServer Macker
begin

text \<open>
  \<^verbatim>\<open>kubelet_handler.go\<close> and \<^verbatim>\<open>kubelet_exec.go\<close>: who may ask for what, which workload a path names, and
  how logs and exec are run through Macker.  A request is its path, method, TLS peer, authorization
  header and query; an answer is what is sent back.  The SPDY streams of an exec are given by their
  types in the order of their arrival before the deadline; their transport is not modelled.
\<close>

abbreviation kubeletResourceMetricsPath :: string where
  "kubeletResourceMetricsPath \<equiv> ''/metrics/resource''"

abbreviation kubeletContainerLogsPrefix :: string where
  "kubeletContainerLogsPrefix \<equiv> ''/containerLogs/''"

abbreviation kubeletExecPrefix :: string where
  "kubeletExecPrefix \<equiv> ''/exec/''"

section \<open>Requests and answers\<close>

text \<open>\<open>rq_tls\<close> is absent without TLS and else the number of verified certificates of the peer.\<close>

record request =
  rq_method :: string
  rq_path :: string
  rq_tls :: "nat option"
  rq_authorization :: string
  rq_query :: "(string \<times> string list) list"
  rq_handshake :: bool
  rq_streams :: "string list"

datatype answer =
    HttpError int string
  | Body string content
  | ExecStatus json
  | NoAnswer

definition query_get :: "request \<Rightarrow> string \<Rightarrow> string" where
  "query_get q name = (case map_of (rq_query q) name of Some (v # _) \<Rightarrow> v | _ \<Rightarrow> [])"

definition has_certificate :: "request \<Rightarrow> bool" where
  "has_certificate q \<longleftrightarrow> (case rq_tls q of Some n \<Rightarrow> n \<noteq> 0 | None \<Rightarrow> False)"

definition kubeletRequestAuthenticated :: "request \<Rightarrow> bool" where
  "kubeletRequestAuthenticated q \<longleftrightarrow> has_certificate q \<or>
     (let authorization = trim_space (rq_authorization q) in
      length authorization \<ge> 7 \<and> to_lower (take 7 authorization) = ''bearer '' \<and> trim_space (drop 7 authorization) \<noteq> [])"

section \<open>The workload of a path\<close>

text \<open>\<^verbatim>\<open>url.PathUnescape\<close>\<close>

fun path_unescape :: "string \<Rightarrow> string option" where
  "path_unescape [] = Some []"
| "path_unescape (c # s) =
    (if c \<noteq> CHR ''%'' then map_option (Cons c) (path_unescape s)
     else (case s of
        a # b # rest \<Rightarrow> (case (hex_val a, hex_val b) of
            (Some i, Some j) \<Rightarrow> map_option (Cons (char_of (16 * i + j))) (path_unescape rest)
          | _ \<Rightarrow> None)
      | _ \<Rightarrow> None))"

definition kubeletPathParts :: "string \<Rightarrow> string \<Rightarrow> (string \<times> string \<times> string) option" where
  "kubeletPathParts path prefix =
    (case map path_unescape (split_on CHR ''/'' (trim_chars (trim_prefix path prefix) ''/'')) of
       [Some ns, Some pod, Some container] \<Rightarrow>
         if ns = [] \<or> pod = [] \<or> container = [] then None else Some (ns, pod, container)
     | _ \<Rightarrow> None)"

definition findWorkload :: "env \<Rightarrow> manager \<Rightarrow> request \<Rightarrow> string \<Rightarrow> answer + managed" where
  "findWorkload E m q prefix = (case kubeletPathParts (rq_path q) prefix of
       None \<Rightarrow> Inl (HttpError 400 ''invalid kubelet resource path'')
     | Some (ns, pod, container) \<Rightarrow> (case findContainer E m ns pod container of
         Inr w \<Rightarrow> Inr w
       | Inl e \<Rightarrow> if is_sentinel NotFound e then Inl (HttpError 404 ''container is not managed by maclet'')
           else Inl (HttpError 404 (err_string e))))"

section \<open>Logs\<close>

abbreviation plain_text :: string where
  "plain_text \<equiv> ''text/plain; charset=utf-8''"

definition serve_retained :: "env \<Rightarrow> manager \<Rightarrow> request \<Rightarrow> managed \<Rightarrow> answer option io" where
  "serve_retained E m q w tr = (case readRetainedLogs E m w tr of
       (Inl e, tr) \<Rightarrow> (None, tr)
     | (Inr body, tr) \<Rightarrow> (Some (if query_get q ''follow'' = ''true''
         then HttpError 400 ''cannot follow logs for an exited workload'' else Body plain_text body), tr))"

definition log_args :: "request \<Rightarrow> managed \<Rightarrow> string list" where
  "log_args q w = ''logs'' # (if query_get q ''follow'' = ''true'' then [''--follow''] else []) @ [mw_container w]"

definition run_logs :: "env \<Rightarrow> manager \<Rightarrow> request \<Rightarrow> managed \<Rightarrow> answer io" where
  "run_logs E m q w tr = (case mackerCommand E m of
       Inl e \<Rightarrow> (HttpError 500 (err_string e), tr)
     | Inr binary \<Rightarrow> (case call_macker E binary (log_args q w) tr of
         ((out, _), tr) \<Rightarrow> (Body plain_text (FBytes out), tr)))"

definition live_logs :: "env \<Rightarrow> manager \<Rightarrow> request \<Rightarrow> managed \<Rightarrow> answer io" where
  "live_logs E m q w tr = (case containerStatus E m (mw_container w) tr of
       (Inl e, tr) \<Rightarrow> (HttpError 500 (''inspect container: '' @ err_string e), tr)
     | (Inr None, tr) \<Rightarrow> (case serve_retained E m q w tr of
         (Some a, tr) \<Rightarrow> (a, tr) | (None, tr) \<Rightarrow> (HttpError 404 ''container is not present'', tr))
     | (Inr (Some status), tr) \<Rightarrow>
         if status = [] then (HttpError 404 ''container has no status'', tr) else run_logs E m q w tr)"

definition serveLogs :: "env \<Rightarrow> manager \<Rightarrow> request \<Rightarrow> answer io" where
  "serveLogs E m q tr = (case findWorkload E m q kubeletContainerLogsPrefix of
       Inl a \<Rightarrow> (a, tr)
     | Inr w \<Rightarrow> (case (if mw_retained w then serve_retained E m q w tr else (None, tr)) of
         (Some a, tr) \<Rightarrow> (a, tr) | (None, tr) \<Rightarrow> live_logs E m q w tr))"

section \<open>Exec\<close>

definition kubeletQueryBool :: "request \<Rightarrow> string list \<Rightarrow> bool" where
  "kubeletQueryBool q names \<longleftrightarrow> list_ex (\<lambda>n. query_get q n = ''true'' \<or> query_get q n = ''1'') names"

definition want_stdin :: "request \<Rightarrow> bool" where
  "want_stdin q \<longleftrightarrow> kubeletQueryBool q [''stdin'', ''input'']"

definition want_tty :: "request \<Rightarrow> bool" where
  "want_tty q \<longleftrightarrow> kubeletQueryBool q [''tty'']"

definition expected_streams :: "request \<Rightarrow> nat" where
  "expected_streams q = 1 + length (filter id [want_stdin q, kubeletQueryBool q [''stdout'', ''output''],
     kubeletQueryBool q [''stderr'', ''error''] \<and> \<not> want_tty q, want_tty q])"

text \<open>The streams that are kept: the first of each known type, until there are enough.\<close>

definition stream_types :: "string list" where
  "stream_types = [''error'', ''stdin'', ''stdout'', ''stderr'', ''resize'']"

fun collect_streams :: "nat \<Rightarrow> string list \<Rightarrow> string list \<Rightarrow> string list option" where
  "collect_streams expected streams incoming =
    (if length streams \<ge> expected then Some streams
     else (case incoming of
        [] \<Rightarrow> None
      | t # ts \<Rightarrow> collect_streams expected (if t \<in> set streams \<or> t \<notin> set stream_types then streams else streams @ [t]) ts))"

definition exec_args :: "request \<Rightarrow> managed \<Rightarrow> string list" where
  "exec_args q w = ''exec'' # (if want_stdin q then [''--interactive''] else []) @ (if want_tty q then [''--tty''] else []) @
     [mw_container w, ''--''] @
     (case map_of (rq_query q) ''command'' of Some (c # cs) \<Rightarrow> c # cs | _ \<Rightarrow> [''/bin/sh''])"

text \<open>The last occurrence of a text.\<close>

fun last_index :: "string \<Rightarrow> string \<Rightarrow> nat option" where
  "last_index [] p = (if p = [] then Some 0 else None)"
| "last_index (c # s) p = (case last_index s p of
       Some i \<Rightarrow> Some (Suc i) | None \<Rightarrow> if has_prefix (c # s) p then Some 0 else None)"

text \<open>\<open>as_exit\<close> is \<^verbatim>\<open>errors.As\<close> for \<^verbatim>\<open>*exec.ExitError\<close> with its exit code.\<close>

definition inner_status :: "string \<Rightarrow> int option" where
  "inner_status message = (case last_index message ''exit status '' of
       None \<Rightarrow> None
     | Some i \<Rightarrow> (case atoi (trim_space (drop (i + 12) message)) of
         Some code \<Rightarrow> if code \<ge> 0 then Some code else None | None \<Rightarrow> None))"

definition kubeletExecExitCode :: "(err \<Rightarrow> int option) \<Rightarrow> err option \<Rightarrow> int option" where
  "kubeletExecExitCode as_exit r = (case r of
       None \<Rightarrow> None
     | Some e \<Rightarrow> (case inner_status (err_string e) of
         Some code \<Rightarrow> Some code
       | None \<Rightarrow> (case as_exit e of Some code \<Rightarrow> if code \<ge> 0 then Some code else None | None \<Rightarrow> None)))"

definition exit_details :: "int option \<Rightarrow> (string \<times> json) list \<times> (string \<times> json) list" where
  "exit_details code = (case code of
       None \<Rightarrow> ([], [])
     | Some c \<Rightarrow> ([(''details'', JObj [(''causes'', JList [JObj [(''message'', JStr (itoa c)), (''reason'', JStr ''ExitCode'')]])])],
         [(''reason'', JStr ''NonZeroExitCode'')]))"

definition writeKubeletExecStatus :: "(err \<Rightarrow> int option) \<Rightarrow> err option \<Rightarrow> json" where
  "writeKubeletExecStatus as_exit r = (case exit_details (kubeletExecExitCode as_exit r) of (details, reason) \<Rightarrow>
     JObj ((''apiVersion'', JStr ''v1'') # details @ (''kind'', JStr ''Status'') #
       (case r of None \<Rightarrow> [] | Some e \<Rightarrow> [(''message'', JStr (err_string e))]) @ reason @
       [(''status'', JStr (if r = None then ''Success'' else ''Failure''))]))"

text \<open>
  What the command wrote is one text; \<open>error_part\<close> gives what of it went to the standard error.  With
  a terminal and a standard output stream both are kept for the message of a failure.
\<close>

definition exec_error :: "(string \<Rightarrow> string) \<Rightarrow> request \<Rightarrow> string list \<Rightarrow> string \<Rightarrow> string" where
  "exec_error error_part q streams out = (if want_tty q \<and> ''stdout'' \<in> set streams then out else error_part out)"

definition run_exec ::
  "env \<Rightarrow> (err \<Rightarrow> int option) \<Rightarrow> (string \<Rightarrow> string) \<Rightarrow> manager \<Rightarrow> request \<Rightarrow> managed \<Rightarrow> string list \<Rightarrow> answer io" where
  "run_exec E as_exit error_part m q w streams tr = (case mackerCommand E m of
       Inl e \<Rightarrow> (ExecStatus (writeKubeletExecStatus as_exit (Some (wrap ''start Macker exec: '' e))), tr)
     | Inr binary \<Rightarrow> (case call_macker E binary (exec_args q w) tr of
         ((out, None), tr) \<Rightarrow> (ExecStatus (writeKubeletExecStatus as_exit None), tr)
       | ((out, Some e), tr) \<Rightarrow> (let message = exec_error error_part q streams out in
           (ExecStatus (writeKubeletExecStatus as_exit (Some (if message = [] then e
              else EWrap [] e ('': '' @ trim_space message)))), tr))))"

definition serveExec :: "env \<Rightarrow> (err \<Rightarrow> int option) \<Rightarrow> (string \<Rightarrow> string) \<Rightarrow> manager \<Rightarrow> request \<Rightarrow> answer io" where
  "serveExec E as_exit error_part m q tr = (case findWorkload E m q kubeletExecPrefix of
       Inl a \<Rightarrow> (a, tr)
     | Inr w \<Rightarrow>
         if rq_method q \<noteq> ''POST'' then (HttpError 405 ''exec requires POST'', tr)
         else (case containerStatus E m (mw_container w) tr of
            (Inl e, tr) \<Rightarrow> (HttpError 500 (''inspect container: '' @ err_string e), tr)
          | (Inr status, tr) \<Rightarrow>
              if status \<noteq> Some ''running'' then (HttpError 404 ''container is not running'', tr)
              else if \<not> rq_handshake q then (NoAnswer, tr)
              else (case collect_streams (expected_streams q) [] (rq_streams q) of
                 None \<Rightarrow> (NoAnswer, tr)
               | Some streams \<Rightarrow> if ''error'' \<notin> set streams then (NoAnswer, tr)
                   else run_exec E as_exit error_part m q w streams tr)))"

section \<open>The handler\<close>

text \<open>\<open>collect\<close> renders the resource metrics; it is absent when there are none.\<close>

definition serveResourceMetrics :: "(err + string) io option \<Rightarrow> answer io" where
  "serveResourceMetrics collect tr = (case collect of
       None \<Rightarrow> (HttpError 503 ''resource metrics are unavailable'', tr)
     | Some f \<Rightarrow> (case f tr of
         (Inl e, tr) \<Rightarrow> (HttpError 500 (''collect resource metrics: '' @ err_string e), tr)
       | (Inr body, tr) \<Rightarrow> (Body ''application/openmetrics-text; version=1.0.0; charset=utf-8'' (FBytes body), tr)))"

definition ServeHTTP ::
  "env \<Rightarrow> (err \<Rightarrow> int option) \<Rightarrow> (string \<Rightarrow> string) \<Rightarrow> (err + string) io option \<Rightarrow> manager \<Rightarrow> request \<Rightarrow> answer io" where
  "ServeHTTP E as_exit error_part collect m q tr =
    (if rq_path q = kubeletResourceMetricsPath
     then (if \<not> kubeletRequestAuthenticated q then (HttpError 401 ''kubelet authentication required'', tr)
       else serveResourceMetrics collect tr)
     else if rq_tls q = Some 0 then (HttpError 401 ''kubelet client certificate required'', tr)
     else if has_prefix (rq_path q) kubeletContainerLogsPrefix then serveLogs E m q tr
     else if has_prefix (rq_path q) kubeletExecPrefix then serveExec E as_exit error_part m q tr
     else (HttpError 404 ''404 page not found'', tr))"

end
