(* ===== verification/ResourceMetrics.thy ===== *)
theory ResourceMetrics
  imports Macker NodeStatus
begin

text \<open>
  \<^verbatim>\<open>resource_metrics.go\<close>: the resources of the host and of the workloads as the kubelet reports them.
  Memory is a 64-bit word, as in the code; CPU seconds are values of the machine's floating point
  arithmetic, which is given by its operations.  The rendering follows the OpenMetrics text format.
\<close>

section \<open>The machine\<close>

text \<open>
  Floating point operations, \<^verbatim>\<open>strconv.ParseFloat\<close> and \<^verbatim>\<open>FormatFloat\<close>, seconds of a time in nanoseconds,
  and the order in which a loop visits a map with integer keys.
\<close>

record 'f machine =
  fl_zero :: 'f
  fl_add :: "'f \<Rightarrow> 'f \<Rightarrow> 'f"
  fl_sub :: "'f \<Rightarrow> 'f \<Rightarrow> 'f"
  fl_mul :: "'f \<Rightarrow> 'f \<Rightarrow> 'f"
  fl_le :: "'f \<Rightarrow> 'f \<Rightarrow> bool"
  fl_int :: "int \<Rightarrow> 'f"
  fl_parse :: "string \<Rightarrow> 'f option"
  fl_format :: "'f \<Rightarrow> string"
  fl_nanos :: "int \<Rightarrow> 'f"
  fl_order :: "int list \<Rightarrow> int list"

record 'f process =
  pm_parent :: int
  pm_cpu :: 'f
  pm_memory :: "64 word"

type_synonym 'f process_table = "(int, 'f process) gomap"

record 'f counter =
  co_initialized :: bool
  co_observed :: 'f
  co_value :: 'f
  co_root :: int

record 'f metrics_state =
  ms_node :: "'f counter"
  ms_containers :: "(string, 'f counter) gomap"

record 'f workload_metric =
  wk_workload :: managed
  wk_cpu :: 'f
  wk_memory :: "64 word"
  wk_start :: gotime

definition fresh_counter :: "'f machine \<Rightarrow> 'f counter" where
  "fresh_counter M = \<lparr>co_initialized = False, co_observed = fl_zero M, co_value = fl_zero M, co_root = 0\<rparr>"

definition newResourceMetrics :: "'f machine \<Rightarrow> 'f metrics_state" where
  "newResourceMetrics M = \<lparr>ms_node = fresh_counter M, ms_containers = []\<rparr>"

section \<open>The process table\<close>

definition parse_uint64 :: "string \<Rightarrow> 64 word option" where
  "parse_uint64 s = (case read_nat s of
       Some n \<Rightarrow> if int n < 2 ^ 64 then Some (word_of_int (int n)) else None | None \<Rightarrow> None)"

text \<open>The days of a CPU time and what follows them.\<close>

definition split_days :: "'f machine \<Rightarrow> string \<Rightarrow> ('f \<times> string) option" where
  "split_days M s = (case str_cut CHR ''-'' s of (days, rest, found) \<Rightarrow>
     if found then map_option (\<lambda>d. (d, rest)) (fl_parse M days) else Some (fl_zero M, s))"

definition clock_seconds :: "'f machine \<Rightarrow> 'f \<Rightarrow> 'f \<Rightarrow> 'f \<Rightarrow> 'f \<Rightarrow> 'f" where
  "clock_seconds M days hours minutes seconds =
     fl_add M (fl_add M (fl_add M (fl_mul M (fl_mul M (fl_mul M days (fl_int M 24)) (fl_int M 60)) (fl_int M 60))
       (fl_mul M (fl_mul M hours (fl_int M 60)) (fl_int M 60))) (fl_mul M minutes (fl_int M 60))) seconds"

definition parseCPUTime :: "'f machine \<Rightarrow> string \<Rightarrow> 'f option" where
  "parseCPUTime M s = (if trim_space s = [] then None
     else Option.bind (split_days M (trim_space s)) (\<lambda>(days, rest). (case split_on CHR '':'' rest of
        [minutes, seconds] \<Rightarrow> do { sec \<leftarrow> fl_parse M seconds; m \<leftarrow> fl_parse M minutes;
          Some (clock_seconds M days (fl_zero M) m sec) }
      | [hours, minutes, seconds] \<Rightarrow> do { sec \<leftarrow> fl_parse M seconds; m \<leftarrow> fl_parse M minutes; h \<leftarrow> fl_parse M hours;
          Some (clock_seconds M days h m sec) }
      | _ \<Rightarrow> None)))"

definition process_line :: "'f machine \<Rightarrow> string \<Rightarrow> (int \<times> 'f process) option" where
  "process_line M line = (case str_fields line of
       p # q # r # t # _ \<Rightarrow> do { pid \<leftarrow> atoi p; parent \<leftarrow> atoi q; rss \<leftarrow> parse_uint64 r; cpu \<leftarrow> parseCPUTime M t;
         if pid \<le> 0 then None else Some (pid, \<lparr>pm_parent = parent, pm_cpu = cpu, pm_memory = rss * 1024\<rparr>) }
     | _ \<Rightarrow> None)"

definition process_table :: "'f machine \<Rightarrow> string \<Rightarrow> 'f process_table" where
  "process_table M out = fold (\<lambda>(pid, p) t. mput t pid p) (List.map_filter (process_line M) (split_on newline out)) []"

definition readProcessMetrics :: "env \<Rightarrow> 'f machine \<Rightarrow> (err + 'f process_table) io" where
  "readProcessMetrics E M tr = (case call_cmd E [''ps'', ''-axo'', ''pid=,ppid=,rss=,cputime=''] tr of
       ((_, Some e), tr) \<Rightarrow> (Inl (wrap ''read process metrics: '' e), tr)
     | ((out, None), tr) \<Rightarrow>
         (if process_table M out = [] then Inl (EMsg ''read process metrics: ps returned no parseable processes'')
          else Inr (process_table M out), tr))"

section \<open>The processes of a workload\<close>

definition children_of :: "'f machine \<Rightarrow> 'f process_table \<Rightarrow> int \<Rightarrow> int list" where
  "children_of M t pid = filter (\<lambda>c. map_option pm_parent (map_of t c) = Some pid) (fl_order M (mkeys t))"

record 'f tally =
  ty_seen :: "int list"
  ty_cpu :: 'f
  ty_memory :: "64 word"

definition count_process :: "'f machine \<Rightarrow> int \<Rightarrow> 'f process \<Rightarrow> 'f tally \<Rightarrow> 'f tally" where
  "count_process M pid p s = \<lparr>ty_seen = pid # ty_seen s, ty_cpu = fl_add M (ty_cpu s) (pm_cpu p), ty_memory = ty_memory s + pm_memory p\<rparr>"

text \<open>The visits of a list of processes, one after the other, each with its children.\<close>

function (domintros) visit_all :: "'f machine \<Rightarrow> 'f process_table \<Rightarrow> int list \<Rightarrow> 'f tally \<Rightarrow> 'f tally" where
  "visit_all M t [] s = s"
| "visit_all M t (pid # pids) s =
    (if pid \<in> set (ty_seen s) then visit_all M t pids s
     else (case map_of t pid of
        None \<Rightarrow> visit_all M t pids s
      | Some p \<Rightarrow> visit_all M t pids (visit_all M t (children_of M t pid) (count_process M pid p s))))"
  by pat_completeness auto

lemma visit_all_keeps: "visit_all_dom (M, t, pids, s) \<Longrightarrow> set (ty_seen s) \<subseteq> set (ty_seen (visit_all M t pids s))"
  by (induction M t pids s rule: visit_all.pinduct) (force simp: visit_all.psimps count_process_def split: option.split)+

termination visit_all
proof (relation "inv_image (less_than <*lex*> less_than)
     (\<lambda>(M, t, pids, s). (card (set (mkeys t) - set (ty_seen s)), length pids))")
  have fewer: "card (set (mkeys t) - B) < card (set (mkeys t) - A)"
    if "map_of t pid = Some p" "pid \<notin> A" "pid \<in> B" "A \<subseteq> B" for t :: "'f process_table" and pid p A B
  proof (rule psubset_card_mono)
    from that have "pid \<in> set (mkeys t)" by (force simp: mkeys_def dest: map_of_SomeD)
    with that show "set (mkeys t) - B \<subset> set (mkeys t) - A" by blast
  qed simp
  fix M :: "'f machine" and t :: "'f process_table" and s :: "'f tally" and pid pids p
  assume new: "pid \<notin> set (ty_seen s)" "map_of t pid = Some p"
  then show "((M, t, children_of M t pid, count_process M pid p s), M, t, pid # pids, s)
      \<in> inv_image (less_than <*lex*> less_than) (\<lambda>(M, t, pids, s). (card (set (mkeys t) - set (ty_seen s)), length pids))"
    using fewer [OF new(2,1), of "set (ty_seen (count_process M pid p s))"] by (auto simp: count_process_def)
  assume "visit_all_dom (M, t, children_of M t pid, count_process M pid p s)"
  from visit_all_keeps [OF this] have "insert pid (set (ty_seen s)) \<subseteq> set (ty_seen (visit_all M t (children_of M t pid) (count_process M pid p s)))"
    by (simp add: count_process_def)
  then show "((M, t, pids, visit_all M t (children_of M t pid) (count_process M pid p s)), M, t, pid # pids, s)
      \<in> inv_image (less_than <*lex*> less_than) (\<lambda>(M, t, pids, s). (card (set (mkeys t) - set (ty_seen s)), length pids))"
    using fewer [OF new(2,1)] by auto
qed auto

definition processTreeMetrics :: "'f machine \<Rightarrow> 'f process_table \<Rightarrow> int \<Rightarrow> ('f \<times> 64 word) option" where
  "processTreeMetrics M t root = (if map_of t root = None then None
     else (let s = visit_all M t [root] \<lparr>ty_seen = [], ty_cpu = fl_zero M, ty_memory = 0\<rparr> in Some (ty_cpu s, ty_memory s)))"

section \<open>Counters\<close>

text \<open>
  A counter never falls: another process under the same name starts from nothing, and a reading below
  the last one adds nothing.
\<close>

definition updateMetricCounter :: "'f machine \<Rightarrow> 'f counter \<Rightarrow> 'f \<Rightarrow> int \<Rightarrow> 'f counter" where
  "updateMetricCounter M c current rootPID =
    (let grown = (if \<not> co_initialized c then current
           else if co_root c \<noteq> 0 \<and> rootPID \<noteq> 0 \<and> co_root c \<noteq> rootPID then fl_add M (co_value c) current
           else if fl_le M (co_observed c) current then fl_add M (co_value c) (fl_sub M current (co_observed c))
           else co_value c) in
     \<lparr>co_initialized = True, co_observed = current, co_value = grown,
       co_root = (if rootPID \<noteq> 0 then rootPID else co_root c)\<rparr>)"

section \<open>The memory of the host\<close>

definition vmStatPageSize :: "string \<Rightarrow> err + 64 word" where
  "vmStatPageSize out = (let line = hd (split_on newline out) in case str_index line ''page size of '' of
       None \<Rightarrow> Inl (EMsg (''parse vm_stat page size from '' @ quote line))
     | Some i \<Rightarrow> (let pageSize = trim_suffix (trim_suffix (trim_space (drop (i + 13) line)) '' bytes)'') '' bytes'' in
         case parse_uint64 pageSize of
           Some w \<Rightarrow> if w \<noteq> 0 then Inr w else Inl (EMsg (''parse vm_stat page size '' @ quote pageSize))
         | None \<Rightarrow> Inl (EMsg (''parse vm_stat page size '' @ quote pageSize))))"

definition stat_line :: "string \<Rightarrow> string \<Rightarrow> 64 word option" where
  "stat_line prefix line = (if has_prefix line prefix
     then parse_uint64 (trim_space (trim_suffix (trim_space (trim_prefix line prefix)) ''.'')) else None)"

definition vmStatPages :: "string \<Rightarrow> string \<Rightarrow> 64 word" where
  "vmStatPages out name = (case List.map_filter (stat_line (name @ '':'')) (split_on newline out) of w # _ \<Rightarrow> w | [] \<Rightarrow> 0)"

definition working_set :: "64 word \<Rightarrow> string \<Rightarrow> err + 64 word" where
  "working_set capacity out = (case vmStatPageSize out of
       Inl e \<Rightarrow> Inl e
     | Inr pageSize \<Rightarrow> (let reclaimable = (vmStatPages out ''Pages free'' + vmStatPages out ''Pages inactive'' +
           vmStatPages out ''Pages speculative'') * pageSize in
         Inr (if reclaimable \<ge> capacity then 0 else capacity - reclaimable)))"

definition readNodeWorkingSet :: "env \<Rightarrow> (err + 64 word) io" where
  "readNodeWorkingSet E tr = (case hostMemoryCapacityBytes E tr of
       (Inl e, tr) \<Rightarrow> (Inl e, tr)
     | (Inr capacity, tr) \<Rightarrow> (case call_cmd E [''vm_stat''] tr of
         ((_, Some e), tr) \<Rightarrow> (Inl (wrap ''read host VM statistics: '' e), tr)
       | ((out, None), tr) \<Rightarrow> (working_set (word_of_nat capacity) out, tr)))"

section \<open>The text\<close>

abbreviation backslash :: char where
  "backslash \<equiv> CHR 0x5C"

abbreviation quotation :: char where
  "quotation \<equiv> CHR 0x22"

definition replace_all :: "char \<Rightarrow> string \<Rightarrow> string \<Rightarrow> string" where
  "replace_all c r s = concat (map (\<lambda>x. if x = c then r else [x]) s)"

definition escapePrometheusLabel :: "string \<Rightarrow> string" where
  "escapePrometheusLabel s =
     replace_all newline [backslash, CHR ''n''] (replace_all quotation [backslash, quotation] (replace_all backslash [backslash, backslash] s))"

fun label_list :: "(string \<times> string) list \<Rightarrow> string" where
  "label_list [] = []"
| "label_list ((name, v) # vs) = name @ CHR ''='' # quotation # escapePrometheusLabel v @ quotation #
     (if vs = [] then [] else CHR '','' # label_list vs)"

definition prometheusLabels :: "(string \<times> string) list \<Rightarrow> string" where
  "prometheusLabels vs = CHR ''{'' # label_list vs @ ''}''"

definition container_labels :: "managed \<Rightarrow> string" where
  "container_labels w = prometheusLabels [(''container'', mw_pod_container w), (''pod'', mw_name w), (''namespace'', mw_namespace w)]"

definition pod_labels :: "managed \<Rightarrow> string" where
  "pod_labels w = prometheusLabels [(''pod'', mw_name w), (''namespace'', mw_namespace w)]"

definition metric_help :: "string \<Rightarrow> string \<Rightarrow> string \<Rightarrow> string" where
  "metric_help name help type = ''# HELP '' @ name @ '' '' @ help @ newline # ''# TYPE '' @ name @ '' '' @ type @ [newline]"

definition metric_line :: "string \<Rightarrow> string \<Rightarrow> string \<Rightarrow> int \<Rightarrow> string" where
  "metric_line name labels v timestamp = name @ labels @ '' '' @ v @ '' '' @ itoa timestamp @ [newline]"

definition show_word :: "64 word \<Rightarrow> string" where
  "show_word w = show_nat (unat w)"

definition workload_lines :: "'f machine \<Rightarrow> int \<Rightarrow> 'f workload_metric \<Rightarrow> string" where
  "workload_lines M timestamp k = (let cl = container_labels (wk_workload k); pl = pod_labels (wk_workload k) in
     metric_line ''container_start_time_seconds'' cl (fl_format M (fl_nanos M (wk_start k))) timestamp @
     metric_line ''container_cpu_usage_seconds_total'' cl (fl_format M (wk_cpu k)) timestamp @
     metric_line ''container_memory_working_set_bytes'' cl (show_word (wk_memory k)) timestamp @
     metric_line ''pod_cpu_usage_seconds_total'' pl (fl_format M (wk_cpu k)) timestamp @
     metric_line ''pod_memory_working_set_bytes'' pl (show_word (wk_memory k)) timestamp)"

definition container_help :: string where
  "container_help =
     metric_help ''container_start_time_seconds'' ''Start time of the container since unix epoch in seconds'' ''gauge'' @
     metric_help ''container_cpu_usage_seconds_total'' ''Cumulative cpu time consumed by the container in core-seconds'' ''counter'' @
     metric_help ''container_memory_working_set_bytes'' ''Current working set of the container in bytes'' ''gauge'' @
     metric_help ''pod_cpu_usage_seconds_total'' ''Cumulative cpu time consumed by the pod in core-seconds'' ''counter'' @
     metric_help ''pod_memory_working_set_bytes'' ''Current working set of the pod in bytes'' ''gauge''"

abbreviation scrape_help :: string where
  "scrape_help \<equiv> ''1 if there was an error while getting container metrics, 0 otherwise''"

definition boolInt :: "bool \<Rightarrow> int" where
  "boolInt b = (if b then 1 else 0)"

definition formatResourceMetrics :: "'f machine \<Rightarrow> gotime \<Rightarrow> 'f \<Rightarrow> 64 word \<Rightarrow> 'f workload_metric list \<Rightarrow> nat \<Rightarrow> string" where
  "formatResourceMetrics M now nodeCPU nodeMemory ks scrapeErrors = (let timestamp = now div 1000000; failed = itoa (boolInt (scrapeErrors \<noteq> 0)) in
     metric_help ''node_cpu_usage_seconds_total'' ''Cumulative cpu time consumed by the node in core-seconds'' ''counter'' @
     metric_line ''node_cpu_usage_seconds_total'' [] (fl_format M nodeCPU) timestamp @
     metric_help ''node_memory_working_set_bytes'' ''Current working set of the node in bytes'' ''gauge'' @
     metric_line ''node_memory_working_set_bytes'' [] (show_word nodeMemory) timestamp @
     container_help @ concat (map (workload_lines M timestamp) ks) @
     metric_help ''scrape_error'' scrape_help ''gauge'' @ metric_help ''resource_scrape_error'' scrape_help ''gauge'' @
     ''scrape_error '' @ failed @ newline # ''resource_scrape_error '' @ failed @ newline # ''# EOF'' @ [newline])"

section \<open>A scrape\<close>

text \<open>\<^verbatim>\<open>time.Time{}\<close>, the first of January of the year 1.\<close>

abbreviation zero_instant :: gotime where
  "zero_instant \<equiv> - 62135596800 * 1000000000"

definition managedWorkloads :: "env \<Rightarrow> manager \<Rightarrow> managed list" where
  "managedWorkloads E m = map snd (map_visit E (wm_workloads m))"

definition root_pid :: "inspection \<Rightarrow> int" where
  "root_pid i = (if in_workload_pid i \<le> 0 then in_pid i else in_workload_pid i)"

definition start_time :: "gotime \<Rightarrow> inspection \<Rightarrow> gotime" where
  "start_time now i = (case in_started i of Some t \<Rightarrow> if t = zero_instant then now else t | None \<Rightarrow> now)"

definition container_counter :: "'f machine \<Rightarrow> 'f metrics_state \<Rightarrow> string \<Rightarrow> 'f counter" where
  "container_counter M S name = (case map_of (ms_containers S) name of Some c \<Rightarrow> c | None \<Rightarrow> fresh_counter M)"

text \<open>A workload that was inspected: its metric with the counters, or an error of the scrape.\<close>

definition measure_workload ::
  "'f machine \<Rightarrow> gotime \<Rightarrow> 'f process_table \<Rightarrow> managed \<Rightarrow> inspection \<Rightarrow> 'f metrics_state \<Rightarrow> ('f workload_metric \<times> 'f metrics_state) option" where
  "measure_workload M now t w i S = (if root_pid i \<le> 0 then None
     else map_option (\<lambda>(cpu, memory).
        let c = updateMetricCounter M (container_counter M S (mw_container w)) cpu (root_pid i) in
        (\<lparr>wk_workload = w, wk_cpu = co_value c, wk_memory = memory, wk_start = start_time now i\<rparr>,
         S\<lparr>ms_containers := mput (ms_containers S) (mw_container w) c\<rparr>)) (processTreeMetrics M t (root_pid i)))"

fun scrape_loop ::
  "env \<Rightarrow> 'f machine \<Rightarrow> manager \<Rightarrow> gotime \<Rightarrow> 'f process_table \<Rightarrow> managed list \<Rightarrow> 'f workload_metric list \<Rightarrow> nat \<Rightarrow> 'f metrics_state \<Rightarrow>
    trace \<Rightarrow> ('f workload_metric list \<times> nat \<times> 'f metrics_state) \<times> trace" where
  "scrape_loop E M m now t [] ks errors S tr = ((ks, errors, S), tr)"
| "scrape_loop E M m now t (w # ws) ks errors S tr = (case containerInspection E m (mw_container w) tr of
       (Inl e, tr) \<Rightarrow> scrape_loop E M m now t ws ks (Suc errors) S tr
     | (Inr None, tr) \<Rightarrow> scrape_loop E M m now t ws ks errors S tr
     | (Inr (Some i), tr) \<Rightarrow>
         if in_status i \<noteq> ''running'' then scrape_loop E M m now t ws ks errors S tr
         else (case measure_workload M now t w i S of
            None \<Rightarrow> scrape_loop E M m now t ws ks (Suc errors) S tr
          | Some (k, S) \<Rightarrow> scrape_loop E M m now t ws (ks @ [k]) errors S tr))"

definition node_cpu :: "'f machine \<Rightarrow> 'f process_table \<Rightarrow> 'f" where
  "node_cpu M t = foldl (fl_add M) (fl_zero M) (List.map_filter (\<lambda>pid. map_option pm_cpu (map_of t pid)) (fl_order M (mkeys t)))"

definition collect :: "env \<Rightarrow> 'f machine \<Rightarrow> manager option \<Rightarrow> 'f metrics_state \<Rightarrow> trace \<Rightarrow> (err + string) \<times> 'f metrics_state \<times> trace" where
  "collect E M m S tr = (case time_now E tr of (now, tr) \<Rightarrow> (case readProcessMetrics E M tr of
       (Inl e, tr) \<Rightarrow> (Inl e, S, tr)
     | (Inr t, tr) \<Rightarrow> (let c = updateMetricCounter M (ms_node S) (node_cpu M t) 0; S = S\<lparr>ms_node := c\<rparr> in
         case (case m of None \<Rightarrow> (([], 0, S), tr) | Some m \<Rightarrow> scrape_loop E M m now t (managedWorkloads E m) [] 0 S tr) of
           ((ks, errors, S), tr) \<Rightarrow> (case readNodeWorkingSet E tr of
              (Inl e, tr) \<Rightarrow> (Inl e, S, tr)
            | (Inr memory, tr) \<Rightarrow> (Inr (formatResourceMetrics M now (co_value c) memory ks errors), S, tr)))))"

end
