(* ===== verification/ResourceProps.thy ===== *)
theory ResourceProps
  imports ResourceMetrics
begin

text \<open>
  The metrics of a workload count each process of its tree once, whatever the shape of the process
  table; counters never fall from one scrape to the next as long as \<^verbatim>\<open>ps\<close> reports sane times; and labels
  cannot be forged.
\<close>

section \<open>The process tree\<close>

definition parent_of :: "'f process_table \<Rightarrow> (int \<times> int) set" where
  "parent_of t = {(p, c). map_option pm_parent (map_of t c) = Some p}"

definition cpu_of :: "'f machine \<Rightarrow> 'f process_table \<Rightarrow> int \<Rightarrow> 'f" where
  "cpu_of M t pid = (case map_of t pid of Some p \<Rightarrow> pm_cpu p | None \<Rightarrow> fl_zero M)"

definition memory_of :: "'f process_table \<Rightarrow> int \<Rightarrow> 64 word" where
  "memory_of t pid = (case map_of t pid of Some p \<Rightarrow> pm_memory p | None \<Rightarrow> 0)"

definition tallied :: "'f machine \<Rightarrow> 'f process_table \<Rightarrow> 'f tally \<Rightarrow> bool" where
  "tallied M t s \<longleftrightarrow> distinct (ty_seen s) \<and> ty_cpu s = foldl (fl_add M) (fl_zero M) (map (cpu_of M t) (rev (ty_seen s))) \<and>
     ty_memory s = sum_list (map (memory_of t) (rev (ty_seen s)))"

lemma count_process_tallied:
  "tallied M t s \<Longrightarrow> pid \<notin> set (ty_seen s) \<Longrightarrow> map_of t pid = Some p \<Longrightarrow> tallied M t (count_process M pid p s)"
  by (simp add: tallied_def count_process_def cpu_of_def memory_of_def)

lemma visit_all_tallied: "tallied M t s \<Longrightarrow> tallied M t (visit_all M t pids s)"
  by (induction M t pids s rule: visit_all.induct) (auto simp: count_process_tallied split: option.split)

lemma visit_all_mono: "set (ty_seen s) \<subseteq> set (ty_seen (visit_all M t pids s))"
  by (induction M t pids s rule: visit_all.induct) (force simp: count_process_def split: option.split)+

definition visits_in_any_order :: "'f machine \<Rightarrow> bool" where
  "visits_in_any_order M \<longleftrightarrow> (\<forall>xs. set (fl_order M xs) = set xs)"

lemma children_of_iff: "visits_in_any_order M \<Longrightarrow> c \<in> set (children_of M t pid) \<longleftrightarrow> (pid, c) \<in> parent_of t"
  by (force simp: children_of_def visits_in_any_order_def parent_of_def mkeys_def dest: map_of_SomeD)

lemma parent_of_known: "(p, c) \<in> parent_of t \<Longrightarrow> map_of t c \<noteq> None"
  by (auto simp: parent_of_def)

lemma visit_all_covers: "pid \<in> set pids \<Longrightarrow> map_of t pid \<noteq> None \<Longrightarrow> pid \<in> set (ty_seen (visit_all M t pids s))"
proof (induction M t pids s rule: visit_all.induct)
  case (2 M t p pids s)
  have "p \<in> set (ty_seen (visit_all M t (children_of M t p) (count_process M p q s)))" for q
    using visit_all_mono [of "count_process M p q s"] by (auto simp: count_process_def)
  then have "p \<in> set (ty_seen (visit_all M t pids (visit_all M t (children_of M t p) (count_process M p q s))))" for q
    using visit_all_mono by blast
  moreover have "p \<in> set (ty_seen s) \<Longrightarrow> p \<in> set (ty_seen (visit_all M t pids s))"
    using visit_all_mono by blast
  ultimately show ?case using 2 by (auto split: option.splits)
qed simp

lemma visit_all_closed:
  assumes "visits_in_any_order M"
  shows "x \<in> set (ty_seen (visit_all M t pids s)) \<Longrightarrow> x \<notin> set (ty_seen s) \<Longrightarrow> (x, c) \<in> parent_of t \<Longrightarrow>
    c \<in> set (ty_seen (visit_all M t pids s))"
  using assms
proof (induction M t pids s rule: visit_all.induct)
  case (2 M t p pids s)
  show ?case
  proof (cases "p \<in> set (ty_seen s) \<or> map_of t p = None")
    case True
    with 2 show ?thesis by (auto split: option.splits)
  next
    case False
    then obtain q where q: "p \<notin> set (ty_seen s)" "map_of t p = Some q" by auto
    let ?s1 = "count_process M p q s"
    let ?s2 = "visit_all M t (children_of M t p) ?s1"
    let ?s3 = "visit_all M t pids ?s2"
    have all: "visit_all M t (p # pids) s = ?s3" using q by simp
    have up: "set (ty_seen ?s2) \<subseteq> set (ty_seen ?s3)" by (rule visit_all_mono)
    have seen: "set (ty_seen ?s1) = insert p (set (ty_seen s))" by (simp add: count_process_def)
    consider "x \<notin> set (ty_seen ?s2)" | "x \<in> set (ty_seen ?s2)" "x \<notin> set (ty_seen ?s1)" | "x = p"
      using "2.prems"(2) seen by blast
    then have "c \<in> set (ty_seen ?s3)"
    proof cases
      case 1
      then show ?thesis using "2.IH"(4) [OF q] "2.prems" all by simp
    next
      case 2
      then show ?thesis using "2.IH"(3) [OF q] "2.prems" up by blast
    next
      case 3
      then have "c \<in> set (children_of M t p)" using "2.prems" by (simp add: children_of_iff)
      then have "c \<in> set (ty_seen ?s2)" using visit_all_covers parent_of_known "2.prems"(3) by blast
      with up show ?thesis by blast
    qed
    with all show ?thesis by simp
  qed
qed simp

lemma visit_all_reached:
  assumes "visits_in_any_order M"
  shows "x \<in> set (ty_seen (visit_all M t pids s)) \<Longrightarrow> x \<in> set (ty_seen s) \<or> (\<exists>p \<in> set pids. (p, x) \<in> (parent_of t)\<^sup>*)"
  using assms
proof (induction M t pids s rule: visit_all.induct)
  case (2 M t p pids s)
  show ?case
  proof (cases "p \<in> set (ty_seen s) \<or> map_of t p = None")
    case True
    with 2 show ?thesis by (auto split: option.splits)
  next
    case False
    then obtain q where q: "p \<notin> set (ty_seen s)" "map_of t p = Some q" by auto
    let ?s2 = "visit_all M t (children_of M t p) (count_process M p q s)"
    have "x \<in> set (ty_seen ?s2) \<or> (\<exists>p \<in> set pids. (p, x) \<in> (parent_of t)\<^sup>*)"
      using "2.IH"(4) [OF q] "2.prems" q by simp
    moreover have "x = p \<or> x \<in> set (ty_seen s) \<or> (\<exists>c. (p, c) \<in> parent_of t \<and> (c, x) \<in> (parent_of t)\<^sup>*)" if "x \<in> set (ty_seen ?s2)"
      using "2.IH"(3) [OF q] that "2.prems"(2) by (auto simp: count_process_def children_of_iff)
    ultimately show ?thesis by (auto intro: converse_rtrancl_into_rtrancl)
  qed
qed simp

text \<open>
  C21: the metrics of a workload are found exactly when its root process is in the table, and then they
  add up the CPU time and the memory of the root and all its descendants, each process once, even when
  the parent links form cycles, in whatever order the table is visited.
\<close>

theorem process_tree_exact:
  assumes "visits_in_any_order M"
  shows "(processTreeMetrics M t root = None \<longleftrightarrow> map_of t root = None) \<and>
    (\<forall>cpu memory. processTreeMetrics M t root = Some (cpu, memory) \<longrightarrow>
      (\<exists>pids. distinct pids \<and> set pids = {p. (root, p) \<in> (parent_of t)\<^sup>*} \<and>
        cpu = foldl (fl_add M) (fl_zero M) (map (cpu_of M t) pids) \<and> memory = sum_list (map (memory_of t) pids)))"
proof (intro conjI allI impI)
  show "processTreeMetrics M t root = None \<longleftrightarrow> map_of t root = None"
    by (simp add: processTreeMetrics_def Let_def)
  fix cpu memory
  assume found: "processTreeMetrics M t root = Some (cpu, memory)"
  define s where "s = visit_all M t [root] \<lparr>ty_seen = [], ty_cpu = fl_zero M, ty_memory = 0\<rparr>"
  from found have known: "map_of t root \<noteq> None" and s: "cpu = ty_cpu s" "memory = ty_memory s"
    by (auto simp: processTreeMetrics_def s_def Let_def split: if_splits)
  have "tallied M t s" unfolding s_def by (rule visit_all_tallied) (simp add: tallied_def)
  moreover have "set (ty_seen s) = {p. (root, p) \<in> (parent_of t)\<^sup>*}"
  proof (intro equalityI subsetI CollectI)
    fix x assume "x \<in> set (ty_seen s)"
    then show "(root, x) \<in> (parent_of t)\<^sup>*" using visit_all_reached [OF assms] unfolding s_def by fastforce
  next
    fix x assume "x \<in> {p. (root, p) \<in> (parent_of t)\<^sup>*}"
    then have "(root, x) \<in> (parent_of t)\<^sup>*" by simp
    then show "x \<in> set (ty_seen s)"
    proof induction
      case base
      from visit_all_covers [of root "[root]" t M] known show ?case unfolding s_def by (simp del: visit_all.simps)
    next
      case (step y z)
      then show ?case using visit_all_closed [OF assms] unfolding s_def by (simp del: visit_all.simps)
    qed
  qed
  ultimately show "\<exists>pids. distinct pids \<and> set pids = {p. (root, p) \<in> (parent_of t)\<^sup>*} \<and>
      cpu = foldl (fl_add M) (fl_zero M) (map (cpu_of M t) pids) \<and> memory = sum_list (map (memory_of t) pids)"
    using s by (intro exI [of _ "rev (ty_seen s)"]) (simp add: tallied_def)
qed

section \<open>Counters\<close>

text \<open>
  What the counters rely on of the machine, as IEEE 754 has it, infinities and NaN included: numbers that compare are
  equal to themselves; the comparison is transitive; to a number that is not negative, adding another does not make
  it smaller; and a finite number minus a smaller one that is not negative is not negative.
\<close>

definition finite_number :: "'f machine \<Rightarrow> 'f \<Rightarrow> bool" where
  "finite_number M x \<longleftrightarrow> fl_le M (fl_zero M) (fl_sub M x x)"

definition rounds_like_ieee :: "'f machine \<Rightarrow> bool" where
  "rounds_like_ieee M \<longleftrightarrow> fl_le M (fl_zero M) (fl_zero M) \<and> (\<forall>x y. fl_le M x y \<longrightarrow> fl_le M x x \<and> fl_le M y y) \<and>
     (\<forall>x y z. fl_le M x y \<longrightarrow> fl_le M y z \<longrightarrow> fl_le M x z) \<and>
     (\<forall>x y. fl_le M (fl_zero M) x \<longrightarrow> fl_le M (fl_zero M) y \<longrightarrow> fl_le M x (fl_add M x y)) \<and>
     (\<forall>x y. fl_le M (fl_zero M) x \<longrightarrow> fl_le M x y \<longrightarrow> finite_number M y \<longrightarrow> fl_le M (fl_zero M) (fl_sub M y x))"

lemma ieeeD:
  assumes "rounds_like_ieee M"
  shows "fl_le M (fl_zero M) (fl_zero M)" "fl_le M x y \<Longrightarrow> fl_le M y y" "fl_le M x y \<Longrightarrow> fl_le M y z \<Longrightarrow> fl_le M x z"
    "fl_le M (fl_zero M) x \<Longrightarrow> fl_le M (fl_zero M) y \<Longrightarrow> fl_le M x (fl_add M x y)"
    "fl_le M (fl_zero M) x \<Longrightarrow> fl_le M (fl_zero M) y \<Longrightarrow> fl_le M (fl_zero M) (fl_add M x y)"
    "fl_le M (fl_zero M) x \<Longrightarrow> fl_le M x y \<Longrightarrow> finite_number M y \<Longrightarrow> fl_le M (fl_zero M) (fl_sub M y x)"
  using assms unfolding rounds_like_ieee_def by blast+

text \<open>
  What is expected of \<^verbatim>\<open>ps\<close>: times are not negative, and neither the total of the host nor that of a process tree is
  infinite.  The parser itself lets a sign, an infinity and NaN pass.
\<close>

definition sane_table :: "'f machine \<Rightarrow> 'f process_table \<Rightarrow> bool" where
  "sane_table M t \<longleftrightarrow> (\<forall>pid p. map_of t pid = Some p \<longrightarrow> fl_le M (fl_zero M) (pm_cpu p)) \<and> finite_number M (node_cpu M t) \<and>
     (\<forall>root cpu memory. processTreeMetrics M t root = Some (cpu, memory) \<longrightarrow> finite_number M cpu)"

definition counter_ok :: "'f machine \<Rightarrow> 'f counter \<Rightarrow> bool" where
  "counter_ok M c \<longleftrightarrow> (co_initialized c \<longrightarrow> fl_le M (fl_zero M) (co_observed c) \<and> fl_le M (fl_zero M) (co_value c))"

definition counters_ok :: "'f machine \<Rightarrow> 'f metrics_state \<Rightarrow> bool" where
  "counters_ok M S \<longleftrightarrow> counter_ok M (ms_node S) \<and> (\<forall>name c. map_of (ms_containers S) name = Some c \<longrightarrow> counter_ok M c)"

lemma update_grows:
  assumes "rounds_like_ieee M" "fl_le M (fl_zero M) v" "finite_number M v" "counter_ok M c"
  shows "co_initialized (updateMetricCounter M c v pid) \<and> counter_ok M (updateMetricCounter M c v pid) \<and>
    (co_initialized c \<longrightarrow> fl_le M (co_value c) (co_value (updateMetricCounter M c v pid)))"
proof -
  note ieee = ieeeD [OF assms(1)]
  have gain: "fl_le M (fl_zero M) (fl_sub M v (co_observed c))" if "co_initialized c" "fl_le M (co_observed c) v"
    using that assms(3,4) ieee(6) by (simp add: counter_ok_def)
  have grow: "fl_le M (co_value c) (fl_add M (co_value c) x) \<and> fl_le M (fl_zero M) (fl_add M (co_value c) x)"
    if "co_initialized c" "fl_le M (fl_zero M) x" for x
    using that assms(4) ieee(4,5) by (simp add: counter_ok_def)
  have "fl_le M (co_value c) (co_value c) \<and> fl_le M (fl_zero M) (co_value c)" if "co_initialized c"
    using that assms(4) ieee(2) by (auto simp: counter_ok_def)
  with gain grow assms(2) show ?thesis by (simp add: updateMetricCounter_def counter_ok_def Let_def)
qed

definition counter_le :: "'f machine \<Rightarrow> 'f metrics_state \<Rightarrow> 'f metrics_state \<Rightarrow> bool" where
  "counter_le M S S' \<longleftrightarrow>
     (co_initialized (ms_node S) \<longrightarrow> co_initialized (ms_node S') \<and> fl_le M (co_value (ms_node S)) (co_value (ms_node S'))) \<and>
     (\<forall>name c. map_of (ms_containers S) name = Some c \<and> co_initialized c \<longrightarrow>
       (\<exists>c'. map_of (ms_containers S') name = Some c' \<and> co_initialized c' \<and> fl_le M (co_value c) (co_value c')))"

text \<open>A step of the metrics: no counter falls, and all of them stay as they should.\<close>

definition grows :: "'f machine \<Rightarrow> 'f metrics_state \<Rightarrow> 'f metrics_state \<Rightarrow> bool" where
  "grows M S S' \<longleftrightarrow> (counters_ok M S \<longrightarrow> counters_ok M S' \<and> counter_le M S S')"

lemma grows_refl: "rounds_like_ieee M \<Longrightarrow> grows M S S"
  by (auto simp: grows_def counter_le_def counters_ok_def counter_ok_def intro: ieeeD(2))

lemma counter_le_trans: "rounds_like_ieee M \<Longrightarrow> counter_le M S S' \<Longrightarrow> counter_le M S' S'' \<Longrightarrow> counter_le M S S''"
  unfolding counter_le_def by (meson ieeeD(3))

lemma grows_trans: "rounds_like_ieee M \<Longrightarrow> grows M S S' \<Longrightarrow> grows M S' S'' \<Longrightarrow> grows M S S''"
  using counter_le_trans by (auto simp: grows_def)

lemma total_not_negative:
  "rounds_like_ieee M \<Longrightarrow> list_all (fl_le M (fl_zero M)) xs \<Longrightarrow> fl_le M (fl_zero M) x \<Longrightarrow> fl_le M (fl_zero M) (foldl (fl_add M) x xs)"
  by (induction xs arbitrary: x) (auto dest: ieeeD(5))

lemma tree_not_negative:
  assumes "rounds_like_ieee M" "sane_table M t" "processTreeMetrics M t root = Some (cpu, memory)"
  shows "fl_le M (fl_zero M) cpu"
proof -
  define s where "s = visit_all M t [root] \<lparr>ty_seen = [], ty_cpu = fl_zero M, ty_memory = 0\<rparr>"
  have "tallied M t s" unfolding s_def by (rule visit_all_tallied) (simp add: tallied_def)
  then have "cpu = foldl (fl_add M) (fl_zero M) (map (cpu_of M t) (rev (ty_seen s)))"
    using assms(3) by (auto simp: processTreeMetrics_def s_def tallied_def Let_def split: if_splits)
  moreover have "fl_le M (fl_zero M) (cpu_of M t pid)" for pid
    using ieeeD(1) [OF assms(1)] assms(2) by (auto simp: cpu_of_def sane_table_def split: option.split)
  ultimately show ?thesis
    using ieeeD(1) [OF assms(1)] by (auto intro!: total_not_negative [OF assms(1)] simp: list_all_iff)
qed

lemma node_not_negative:
  assumes "rounds_like_ieee M" "sane_table M t"
  shows "fl_le M (fl_zero M) (node_cpu M t)"
  unfolding node_cpu_def using assms(2) ieeeD(1) [OF assms(1)]
  by (intro total_not_negative [OF assms(1)]) (auto simp: list_all_iff List.map_filter_def sane_table_def)

lemma measure_grows:
  assumes "rounds_like_ieee M" "sane_table M t" "measure_workload M now t w i S = Some (k, S')"
  shows "grows M S S'"
  unfolding grows_def
proof
  assume ok: "counters_ok M S"
  obtain cpu memory where x: "processTreeMetrics M t (root_pid i) = Some (cpu, memory)"
    "S' = S\<lparr>ms_containers := mput (ms_containers S) (mw_container w)
      (updateMetricCounter M (container_counter M S (mw_container w)) cpu (root_pid i))\<rparr>"
    using assms(3) by (auto simp: measure_workload_def Let_def split: if_splits)
  have "finite_number M cpu" using assms(2) x(1) unfolding sane_table_def by blast
  moreover have "counter_ok M (container_counter M S (mw_container w))"
    using ok by (auto simp: container_counter_def counters_ok_def counter_ok_def fresh_counter_def split: option.split)
  ultimately have u: "co_initialized (updateMetricCounter M (container_counter M S (mw_container w)) cpu (root_pid i)) \<and>
      counter_ok M (updateMetricCounter M (container_counter M S (mw_container w)) cpu (root_pid i)) \<and>
      (co_initialized (container_counter M S (mw_container w)) \<longrightarrow> fl_le M (co_value (container_counter M S (mw_container w)))
        (co_value (updateMetricCounter M (container_counter M S (mw_container w)) cpu (root_pid i))))"
    using update_grows [OF assms(1) tree_not_negative [OF assms(1,2) x(1)]] by blast
  have "counter_le M S S" "counters_ok M S" using grows_refl [OF assms(1), of S] ok by (simp_all add: grows_def)
  with u show "counters_ok M S' \<and> counter_le M S S'"
    by (auto simp: x(2) counter_le_def counters_ok_def container_counter_def update_conv)
qed

lemma scrape_grows:
  "rounds_like_ieee M \<Longrightarrow> sane_table M t \<Longrightarrow> scrape_loop E M m now t ws ks errors S tr = ((ks', errors', S'), tr') \<Longrightarrow> grows M S S'"
proof (induction ws arbitrary: ks errors S tr)
  case (Cons w ws)
  obtain r tr1 where r: "containerInspection E m (mw_container w) tr = (r, tr1)" by force
  have step: "grows M S S1 \<Longrightarrow> scrape_loop E M m now t ws ks1 e1 S1 tr1 = ((ks', errors', S'), tr') \<Longrightarrow> ?case" for S1 ks1 e1
    using Cons.IH [OF Cons.prems(1,2)] grows_trans [OF Cons.prems(1)] by blast
  note refl = grows_refl [OF Cons.prems(1), of S]
  note measured = measure_grows [OF Cons.prems(1,2)]
  from Cons.prems(3) r show ?case
    by (auto split: sum.splits option.splits if_splits intro: step [OF refl] step [OF measured])
qed (simp add: grows_refl)

lemma node_grows:
  assumes "rounds_like_ieee M" "sane_table M t"
  shows "grows M S (S\<lparr>ms_node := updateMetricCounter M (ms_node S) (node_cpu M t) 0\<rparr>)"
proof -
  have "finite_number M (node_cpu M t)" using assms(2) by (simp add: sane_table_def)
  from update_grows [OF assms(1) node_not_negative [OF assms] this, of "ms_node S" 0] grows_refl [OF assms(1), of S]
  show ?thesis by (auto simp: grows_def counter_le_def counters_ok_def)
qed

text \<open>
  C31: from one scrape to the next no CPU counter falls, neither that of the host nor that of any
  container, although processes end, restart under another PID or take their time back, as long as the times
  that \<^verbatim>\<open>ps\<close> reports are not negative and no total of them is infinite; and what the counters have to
  satisfy for that holds of new metrics and is kept by every scrape.
\<close>

theorem counters_never_fall:
  assumes "rounds_like_ieee M" and ps: "\<And>t. fst (readProcessMetrics E M (snd (time_now E tr))) = Inr t \<Longrightarrow> sane_table M t"
    and "counters_ok M S" "collect E M m S tr = (r, S', tr')"
  shows "counter_le M S S' \<and> counters_ok M S' \<and> counters_ok M (newResourceMetrics M)"
proof -
  obtain now tr1 where n: "time_now E tr = (now, tr1)" by force
  obtain p tr2 where p: "readProcessMetrics E M tr1 = (p, tr2)" by force
  have "grows M S S'"
  proof (cases p)
    case (Inl e)
    with assms(4) n p show ?thesis by (simp add: collect_def grows_refl [OF assms(1)])
  next
    case (Inr t)
    with p n ps have t: "sane_table M t" by simp
    let ?S = "S\<lparr>ms_node := updateMetricCounter M (ms_node S) (node_cpu M t) 0\<rparr>"
    obtain x tr3 where x: "(case m of None \<Rightarrow> (([], 0, ?S), tr2)
        | Some m \<Rightarrow> scrape_loop E M m now t (managedWorkloads E m) [] 0 ?S tr2) = (x, tr3)" by (rule prod.exhaust)
    obtain ks errors S1 where "x = (ks, errors, S1)" by (cases x)
    with x have loop: "(case m of None \<Rightarrow> (([], 0, ?S), tr2)
        | Some m \<Rightarrow> scrape_loop E M m now t (managedWorkloads E m) [] 0 ?S tr2) = ((ks, errors, S1), tr3)" by simp
    then have "grows M ?S S1"
      using scrape_grows [OF assms(1) t] grows_refl [OF assms(1), of ?S] by (cases m) auto
    with node_grows [OF assms(1) t] have "grows M S S1" by (rule grows_trans [OF assms(1)])
    moreover have "S' = S1"
    proof -
      obtain q tr4 where q: "readNodeWorkingSet E tr3 = (q, tr4)" by force
      show ?thesis using assms(4) unfolding collect_def n p Inr Let_def prod.case sum.case loop q by (cases q) simp_all
    qed
    ultimately show ?thesis by simp
  qed
  moreover have "counters_ok M (newResourceMetrics M)"
    by (simp add: counters_ok_def counter_ok_def newResourceMetrics_def fresh_counter_def)
  ultimately show ?thesis using assms(3) by (simp add: grows_def)
qed

section \<open>Labels\<close>

definition escape_char :: "char \<Rightarrow> string" where
  "escape_char c = (if c = newline then [backslash, CHR ''n''] else if c = quotation then [backslash, quotation]
     else if c = backslash then [backslash, backslash] else [c])"

lemma replace_all_Nil [simp]: "replace_all c r [] = []"
  by (simp add: replace_all_def)

lemma replace_all_Cons [simp]: "replace_all c r (x # s) = (if x = c then r else [x]) @ replace_all c r s"
  by (simp add: replace_all_def)

lemma replace_all_append [simp]: "replace_all c r (s @ t) = replace_all c r s @ replace_all c r t"
  by (simp add: replace_all_def)

lemma escape_chars: "escapePrometheusLabel s = concat (map escape_char s)"
  by (induction s) (simp_all add: escapePrometheusLabel_def escape_char_def)

lemma escape_char_free: "escape_char c @ u = escape_char d @ v \<Longrightarrow> c = d \<and> u = v"
  by (auto simp: escape_char_def split: if_splits)

lemma escape_char_open: "escape_char c @ u \<noteq> quotation # v"
  by (simp add: escape_char_def)

lemma escape_prefix_free:
  "concat (map escape_char a) @ quotation # s = concat (map escape_char b) @ quotation # t \<Longrightarrow> a = b \<and> s = t"
proof (induction a arbitrary: b)
  case Nil
  show ?case
  proof (cases b)
    case (Cons d b')
    with Nil have "escape_char d @ (concat (map escape_char b') @ quotation # t) = quotation # s" by simp
    then show ?thesis using escape_char_open by blast
  qed (use Nil in simp)
next
  case (Cons c a)
  have "b \<noteq> []"
  proof
    assume "b = []"
    with Cons.prems have "escape_char c @ (concat (map escape_char a) @ quotation # s) = quotation # t" by simp
    then show False using escape_char_open by blast
  qed
  then obtain d b' where b: "b = d # b'" by (cases b) simp
  with Cons.prems have "escape_char c @ (concat (map escape_char a) @ quotation # s) =
      escape_char d @ (concat (map escape_char b') @ quotation # t)" by simp
  from escape_char_free [OF this] Cons.IH b show ?case by blast
qed

lemma label_list_injective:
  "map fst vs = map fst ws \<Longrightarrow> label_list vs @ s = label_list ws @ t \<Longrightarrow> map snd vs = map snd ws \<and> s = t"
proof (induction vs arbitrary: ws)
  case (Cons v vs)
  obtain name x where v: "v = (name, x)" by force
  obtain y ws' where ws: "ws = (name, y) # ws'" "map fst vs = map fst ws'" using Cons.prems(1) v by auto
  have e: "vs = [] \<longleftrightarrow> ws' = []" using ws(2) by auto
  from Cons.prems(2) have "concat (map escape_char x) @ quotation # (if vs = [] then [] else CHR '','' # label_list vs) @ s =
      concat (map escape_char y) @ quotation # (if ws' = [] then [] else CHR '','' # label_list ws') @ t"
    by (simp add: v ws escape_chars)
  from escape_prefix_free [OF this] have "x = y" "label_list vs @ s = label_list ws' @ t"
    using e by (auto split: if_splits)
  with Cons.IH [OF ws(2)] v ws show ?case by simp
qed simp

text \<open>
  C33: the labels of a series determine the container, the Pod and the namespace that they name, whatever
  characters the names contain, so no name can forge the series of another workload; and a label never
  breaks its line.
\<close>

theorem labels_unambiguous:
  "(container_labels w = container_labels w' \<longleftrightarrow>
     mw_pod_container w = mw_pod_container w' \<and> mw_name w = mw_name w' \<and> mw_namespace w = mw_namespace w') \<and>
   newline \<notin> set (container_labels w) \<and> newline \<notin> set (pod_labels w)"
proof -
  have "newline \<notin> set (escapePrometheusLabel s)" for s
    by (auto simp: escape_chars escape_char_def)
  then have lines: "newline \<notin> set (container_labels w) \<and> newline \<notin> set (pod_labels w)"
    by (simp add: container_labels_def pod_labels_def prometheusLabels_def)
  have apart: "mw_pod_container w = mw_pod_container w' \<and> mw_name w = mw_name w' \<and> mw_namespace w = mw_namespace w'"
    if "container_labels w = container_labels w'"
  proof -
    from that have "label_list [(''container'', mw_pod_container w), (''pod'', mw_name w), (''namespace'', mw_namespace w)] @ ''}'' =
        label_list [(''container'', mw_pod_container w'), (''pod'', mw_name w'), (''namespace'', mw_namespace w')] @ ''}''"
      unfolding container_labels_def prometheusLabels_def by (simp only: list.inject)
    from label_list_injective [OF _ this] show ?thesis by simp
  qed
  have "container_labels w = container_labels w'"
    if "mw_pod_container w = mw_pod_container w'" "mw_name w = mw_name w'" "mw_namespace w = mw_namespace w'"
    using that by (simp only: container_labels_def)
  with lines apart show ?thesis by blast
qed

section \<open>Two scrapes\<close>

text \<open>Whole numbers as a machine, with times in seconds.\<close>

definition whole_numbers :: "int machine" where
  "whole_numbers = \<lparr>fl_zero = 0, fl_add = (+), fl_sub = (-), fl_mul = (*), fl_le = (\<le>), fl_int = id,
     fl_parse = (\<lambda>s. map_option int (read_nat s)), fl_format = itoa, fl_nanos = (\<lambda>n. n div 1000000000), fl_order = (\<lambda>xs. xs)\<rparr>"

lemma whole_numbers_ok: "rounds_like_ieee whole_numbers" "visits_in_any_order whole_numbers"
  by (auto simp: rounds_like_ieee_def whole_numbers_def visits_in_any_order_def)

text \<open>A launcher, its child, and two processes that are each other's parent.\<close>

abbreviation four_processes :: string where
  "four_processes \<equiv> ''7 1 10 0:05'' @ newline # ''8 7 20 1:02'' @ newline # ''30 31 1 0:01'' @ newline # ''31 30 2 0:01''"

lemma process_tree_exact_witness:
  "\<exists>pids. distinct pids \<and> set pids = {p. (7, p) \<in> (parent_of (process_table whole_numbers four_processes))\<^sup>*} \<and>
    67 = foldl (+) 0 (map (cpu_of whole_numbers (process_table whole_numbers four_processes)) pids)"
proof -
  have "processTreeMetrics whole_numbers (process_table whole_numbers four_processes) 7 = Some (67, 30720)"
    by code_simp
  with process_tree_exact [OF whole_numbers_ok(2), of "process_table whole_numbers four_processes" 7] show ?thesis
    by (auto simp: whole_numbers_def)
qed

definition scrape_env :: env where
  "scrape_env = quiet_env\<lparr>e_cmd := \<lambda>_ argv. if hd argv = ''ps'' then (''7 1 10 0:05'', None) else ([], Some (EMsg ''no such command''))\<rparr>"

definition scrape :: "int metrics_state \<Rightarrow> int metrics_state" where
  "scrape S = fst (snd (collect scrape_env whole_numbers None S []))"

lemma counters_never_fall_witness:
  "let S = scrape (newResourceMetrics whole_numbers) in
     co_initialized (ms_node S) \<and> co_value (ms_node S) = 5 \<and> counter_le whole_numbers S (scrape S) \<and> counters_ok whole_numbers S"
proof -
  let ?N = "newResourceMetrics whole_numbers"
  let ?S = "scrape ?N"
  have v: "co_initialized (ms_node ?S) \<and> co_value (ms_node ?S) = 5" by code_simp
  have table: "fst (readProcessMetrics scrape_env whole_numbers (snd (time_now scrape_env []))) = Inr [(7, \<lparr>pm_parent = 1, pm_cpu = 5, pm_memory = 10240\<rparr>)]"
    by code_simp
  have sane: "sane_table whole_numbers t" if "fst (readProcessMetrics scrape_env whole_numbers (snd (time_now scrape_env []))) = Inr t" for t
    using that unfolding table by (auto simp: sane_table_def finite_number_def whole_numbers_def split: if_splits)
  have step: "collect scrape_env whole_numbers None S [] =
      (fst (collect scrape_env whole_numbers None S []), scrape S, snd (snd (collect scrape_env whole_numbers None S [])))" for S
    by (simp add: scrape_def)
  have new: "counters_ok whole_numbers ?N"
    by (simp add: counters_ok_def counter_ok_def newResourceMetrics_def fresh_counter_def)
  note first = counters_never_fall [OF whole_numbers_ok(1) sane new step]
  have "counters_ok whole_numbers ?S" using first by blast
  with counters_never_fall [OF whole_numbers_ok(1) sane this step] v show ?thesis by (simp add: Let_def)
qed

end
