(* ===== verification/KubeletProps.thy ===== *)
theory KubeletProps
  imports KubeletHandler ResourceProps Effects ManagerProps
begin

text \<open>
  What the kubelet's server lets through: a tunnel leads to the kubelet only, a caller without the
  credential that is asked for runs nothing, and every command that is run for a caller names a managed container,
  lists the containers or reads what the metrics are made of.
\<close>

section \<open>Tunnels\<close>

lemma last_colon_build:
  assumes "CHR '':'' \<notin> set p"
  shows "last_colon (h @ CHR '':'' # p) = Some (h, p)"
proof -
  have "takeWhile (\<lambda>c. c \<noteq> CHR '':'') (rev p @ CHR '':'' # rev h) = rev p"
    using assms by (subst takeWhile_append2) auto
  then show ?thesis by (simp add: last_colon_def Let_def)
qed

lemma last_colon_form:
  assumes "last_colon s = Some (h, p)"
  shows "s = h @ CHR '':'' # p \<and> CHR '':'' \<notin> set p"
proof (cases "CHR '':'' \<in> set s")
  case True
  then obtain a b where s: "s = a @ CHR '':'' # b" "CHR '':'' \<notin> set b" by (blast dest: split_list_last)
  with assms last_colon_build [OF s(2), of a] show ?thesis by simp
next
  case False
  then have "takeWhile (\<lambda>c. c \<noteq> CHR '':'') (rev s) = rev s" by (subst takeWhile_eq_all_conv) auto
  with assms show ?thesis by (simp add: last_colon_def Let_def)
qed

lemma itoa_plain: "c \<in> set (itoa n) \<Longrightarrow> c = CHR ''-'' \<or> is_digit c"
  by (auto simp: itoa_def dest: show_nat_chars split: if_splits)

lemma itoa_no_marks: "CHR '':'' \<notin> set (itoa n)" "CHR ''['' \<notin> set (itoa n)" "CHR '']'' \<notin> set (itoa n)"
  by (auto dest!: itoa_plain simp: is_digit_def byte_def)

lemma split_host_port_form:
  "split_host_port s = Some (host, port) \<Longrightarrow> s = host @ CHR '':'' # port \<and> CHR '':'' \<notin> set host \<or> s = CHR ''['' # host @ '']:'' @ port"
  by (auto simp: split_host_port_def Let_def dest!: last_colon_form split: option.splits if_splits)

lemma kubelet_addresses:
  assumes "CHR '':'' \<notin> set port" "CHR ''['' \<notin> set port" "CHR '']'' \<notin> set port"
  shows "split_host_port (''127.0.0.1:'' @ port) = Some (''127.0.0.1'', port)"
    "split_host_port (''[127.0.0.1]:'' @ port) = Some (''127.0.0.1'', port)" "split_host_port (''[::1]:'' @ port) = Some (''::1'', port)"
proof -
  have "last_colon (''127.0.0.1:'' @ port) = Some (''127.0.0.1'', port)" "last_colon (''[127.0.0.1]:'' @ port) = Some (''[127.0.0.1]'', port)"
      "last_colon (''[::1]:'' @ port) = Some (''[::1]'', port)"
    using last_colon_build [OF assms(1)] last_colon_build [OF assms(1), of "''127.0.0.1''"]
      last_colon_build [OF assms(1), of "''[127.0.0.1]''"] last_colon_build [OF assms(1), of "''[::1]''"] by simp_all
  with assms show "split_host_port (''127.0.0.1:'' @ port) = Some (''127.0.0.1'', port)"
    "split_host_port (''[127.0.0.1]:'' @ port) = Some (''127.0.0.1'', port)" "split_host_port (''[::1]:'' @ port) = Some (''::1'', port)"
    by (simp_all add: split_host_port_def has_prefix_def Let_def)
qed

text \<open>
  C30: through a tunnel exactly the three spellings of the kubelet's own loopback address can be asked for,
  and what is dialled for them is the kubelet's port at the Node's address and nothing else.
\<close>

theorem tunnel_reaches_kubelet_only:
  "(authorize port protocol address \<longleftrightarrow> protocol = ''tcp'' \<and>
     address \<in> {''127.0.0.1:'' @ itoa port, ''[127.0.0.1]:'' @ itoa port, ''[::1]:'' @ itoa port}) \<and>
   (authorize port protocol address \<longrightarrow> localDialer nodeIP port address = Some (join_host_port nodeIP (itoa port)))"
proof -
  have allowed: "authorize port ''tcp'' a"
    if "a \<in> {''127.0.0.1:'' @ itoa port, ''[127.0.0.1]:'' @ itoa port, ''[::1]:'' @ itoa port}" for a
    using that kubelet_addresses [OF itoa_no_marks, of port] by (auto simp: authorize_def is_kubelet_address_def)
  have only: "address \<in> {''127.0.0.1:'' @ itoa port, ''[127.0.0.1]:'' @ itoa port, ''[::1]:'' @ itoa port}" if "authorize port protocol address"
  proof -
    from that obtain host where h: "split_host_port address = Some (host, itoa port)" "host = ''127.0.0.1'' \<or> host = ''::1''"
      by (auto simp: authorize_def is_kubelet_address_def split: option.splits)
    from split_host_port_form [OF h(1)] h(2) show ?thesis by auto
  qed
  have "localDialer nodeIP port address = Some (join_host_port nodeIP (itoa port))" if "authorize port protocol address"
    using that by (auto simp: authorize_def localDialer_def is_kubelet_address_def split: option.splits)
  moreover have "protocol = ''tcp''" if "authorize port protocol address" using that by (simp add: authorize_def)
  ultimately show ?thesis using allowed only by blast
qed

lemma tunnel_reaches_kubelet_only_witness:
  "authorize 10250 ''tcp'' ''127.0.0.1:10250'' \<and> \<not> authorize 10250 ''tcp'' ''10.0.0.1:22'' \<and>
    localDialer ''192.0.2.10'' 10250 ''127.0.0.1:10250'' = Some (join_host_port ''192.0.2.10'' (itoa 10250))"
proof -
  have "itoa 10250 = ''10250''" by code_simp
  then show ?thesis
    using tunnel_reaches_kubelet_only [of 10250 "''tcp''" "''127.0.0.1:10250''" "''192.0.2.10''"]
      tunnel_reaches_kubelet_only [of 10250 "''tcp''" "''10.0.0.1:22''"] by simp
qed

section \<open>Commands\<close>

text \<open>The workload of the manager that a path names, and the log that is kept of it.\<close>

definition names_workload :: "manager \<Rightarrow> request \<Rightarrow> string \<Rightarrow> managed \<Rightarrow> bool" where
  "names_workload m q prefix w \<longleftrightarrow> has_prefix (rq_path q) prefix \<and> w \<in> snd ` set (wm_workloads m) \<union> snd ` set (wm_retained m) \<and>
     (case kubeletPathParts (rq_path q) prefix of
        None \<Rightarrow> False
      | Some (ns, pod, container) \<Rightarrow> matches_pod ns pod w \<and> (mw_pod_container w = [] \<or> mw_pod_container w = container))"

text \<open>
  A caller who may ask at all: for the metrics, one with a certificate or a bearer token, whose value is not checked;
  for anything else over TLS, one with a certificate.
\<close>

definition admitted :: "request \<Rightarrow> bool" where
  "admitted q \<longleftrightarrow> (if rq_path q = kubeletResourceMetricsPath then kubeletRequestAuthenticated q else rq_tls q \<noteq> Some 0)"

text \<open>What the metrics read: the clock, the processes, the memory of the host, and the inspection of a running workload.\<close>

definition reads_metrics :: "manager \<Rightarrow> event \<Rightarrow> bool" where
  "reads_metrics m e \<longleftrightarrow> (case e of
       EvNow t \<Rightarrow> True
     | EvCmd argv out r \<Rightarrow> argv \<in> {[''ps'', ''-axo'', ''pid=,ppid=,rss=,cputime=''], [''sysctl'', ''-n'', ''hw.memsize''], [''vm_stat'']}
     | EvMacker bin args out r \<Rightarrow> \<exists>w \<in> snd ` set (wm_workloads m). args = [''inspect'', ''--format'', ''json'', mw_container w]
     | _ \<Rightarrow> False)"

definition reads_container :: "manager \<Rightarrow> request \<Rightarrow> event \<Rightarrow> bool" where
  "reads_container m q e \<longleftrightarrow> (case e of
       EvMacker bin args out r \<Rightarrow> args = [''ps'', ''--all''] \<or>
         (\<exists>w. names_workload m q kubeletContainerLogsPrefix w \<and> args = log_args q w) \<or>
         (\<exists>w. names_workload m q kubeletExecPrefix w \<and> rq_method q = ''POST'' \<and> args = exec_args q w)
     | EvFs r x \<Rightarrow> (\<exists>w. names_workload m q kubeletContainerLogsPrefix w \<and> r = ReadFile (retainedLogPath m w))
     | _ \<Rightarrow> False)"

definition permitted :: "manager \<Rightarrow> request \<Rightarrow> event \<Rightarrow> bool" where
  "permitted m q e \<longleftrightarrow> admitted q \<and> (if rq_path q = kubeletResourceMetricsPath then reads_metrics m e else reads_container m q e)"

lemma map_visit_sound: "p \<in> set (map_visit E gm) \<Longrightarrow> p \<in> set gm"
  by (auto simp: map_visit_def List.map_filter_def dest: map_of_SomeD)

lemma find_visited: "List.find P (map snd (map_visit E gm)) = Some w \<Longrightarrow> w \<in> snd ` set gm \<and> P w"
  by (force simp: find_Some_iff in_set_conv_nth [symmetric] dest: map_visit_sound nth_mem)

lemma check_container_sound:
  "check_container container w = Inr w' \<Longrightarrow> w' = w \<and> (mw_pod_container w = [] \<or> mw_pod_container w = container)"
  by (auto simp: check_container_def split: if_splits)

lemma findContainer_sound:
  "findContainer E m ns pod container = Inr w \<Longrightarrow> w \<in> snd ` set (wm_workloads m) \<union> snd ` set (wm_retained m) \<and>
     matches_pod ns pod w \<and> (mw_pod_container w = [] \<or> mw_pod_container w = container)"
  unfolding findContainer_def
  by (auto split: option.splits dest!: check_container_sound find_visited)

lemma findWorkload_names: "findWorkload E m q prefix = Inr w \<Longrightarrow> has_prefix (rq_path q) prefix \<Longrightarrow> names_workload m q prefix w"
  unfolding findWorkload_def names_workload_def
  by (auto split: option.splits sum.splits if_splits dest!: findContainer_sound)

lemma containerStatus_emits:
  assumes "\<And>bin out r. P (EvMacker bin [''ps'', ''--all''] out r)"
  shows "emits P (containerStatus E m name)"
  unfolding containerStatus_def [abs_def] mackerOutput_def [abs_def]
  by (intro emits_intros assms)

lemma serve_retained_emits:
  assumes "\<And>x. P (EvFs (ReadFile (retainedLogPath m w)) x)"
  shows "emits P (serve_retained E m q w)"
  unfolding serve_retained_def [abs_def] readRetainedLogs_def [abs_def] Let_def
  by (intro emits_intros assms)

lemma serveLogs_emits:
  assumes "has_prefix (rq_path q) kubeletContainerLogsPrefix"
  shows "emits (reads_container m q) (serveLogs E m q)"
proof -
  have r: "emits (reads_container m q) (serve_retained E m q w)" and l: "emits (reads_container m q) (live_logs E m q w)"
    if "findWorkload E m q kubeletContainerLogsPrefix = Inr w" for w
  proof -
    have n: "names_workload m q kubeletContainerLogsPrefix w" using that assms by (rule findWorkload_names)
    show r: "emits (reads_container m q) (serve_retained E m q w)" using n by (auto intro!: serve_retained_emits simp: reads_container_def)
    have c: "emits (reads_container m q) (containerStatus E m (mw_container w))" by (rule containerStatus_emits) (simp add: reads_container_def)
    have "emits (reads_container m q) (run_logs E m q w)" unfolding run_logs_def [abs_def]
      using n by (intro emits_intros) (auto simp: reads_container_def)
    then show "emits (reads_container m q) (live_logs E m q w)" unfolding live_logs_def [abs_def] by (intro emits_intros r c)
  qed
  show ?thesis unfolding serveLogs_def [abs_def] by (intro emits_intros; (erule r l)?)
qed

lemma serveExec_emits:
  assumes "has_prefix (rq_path q) kubeletExecPrefix"
  shows "emits (reads_container m q) (serveExec E as_exit error_part m q)"
proof -
  have c: "emits (reads_container m q) (containerStatus E m name)" for name by (rule containerStatus_emits) (simp add: reads_container_def)
  have "emits (reads_container m q) (run_exec E as_exit error_part m q w streams)"
    if "findWorkload E m q kubeletExecPrefix = Inr w" "rq_method q = ''POST''" for w streams
    unfolding run_exec_def [abs_def] Let_def using findWorkload_names [OF that(1) assms] that(2)
    by (intro emits_intros) (auto simp: reads_container_def)
  then show ?thesis unfolding serveExec_def [abs_def] by (intro emits_intros c) auto
qed

text \<open>The metrics of the server are those of its manager.\<close>

definition scrape_of :: "env \<Rightarrow> 'f machine \<Rightarrow> manager \<Rightarrow> 'f metrics_state \<Rightarrow> (err + string) io" where
  "scrape_of E M m S tr = (case collect E M (Some m) S tr of (r, _, tr) \<Rightarrow> (r, tr))"

lemma containerInspection_emits:
  assumes "\<And>bin out r. P (EvMacker bin [''inspect'', ''--format'', ''json'', name] out r)"
  shows "emits P (containerInspection E m name)"
  unfolding containerInspection_def [abs_def] mackerOutput_def [abs_def] by (intro emits_intros assms)

lemma scrape_loop_emits:
  "set ws \<subseteq> snd ` set (wm_workloads m) \<Longrightarrow> emits (reads_metrics m) (scrape_loop E M m now t ws ks errors S)"
proof (induction ws arbitrary: ks errors S)
  case (Cons w ws)
  have "emits (reads_metrics m) (containerInspection E m (mw_container w))"
    by (rule containerInspection_emits) (use Cons.prems in \<open>auto simp: reads_metrics_def\<close>)
  with Cons show ?case unfolding scrape_loop.simps [abs_def] by (intro emits_intros) simp_all
qed (simp add: emits_def)

lemma scrape_of_emits: "emits (reads_metrics m) (scrape_of E M m S)"
proof -
  have table: "emits (reads_metrics m) (readProcessMetrics E M)"
    unfolding readProcessMetrics_def [abs_def] by (intro emits_intros; simp add: reads_metrics_def)
  have memory: "emits (reads_metrics m) (readNodeWorkingSet E)"
    unfolding readNodeWorkingSet_def [abs_def] hostMemoryCapacityBytes_def [abs_def] by (intro emits_intros; simp add: reads_metrics_def)
  have loop: "emits (reads_metrics m) (scrape_loop E M m now t (managedWorkloads E m) [] 0 S)" for now t S
    by (rule scrape_loop_emits) (auto simp: managedWorkloads_def dest: map_visit_sound)
  have "emits3 (reads_metrics m) (collect E M (Some m) S)"
    unfolding collect_def [abs_def] Let_def option.case
    by (intro emits_intros table memory loop; simp add: reads_metrics_def)
  then show ?thesis
    unfolding scrape_of_def [abs_def] by (intro emits_intros)
qed

text \<open>
  C13: whatever a request asks for, the server runs no command but those that are listed here.  For the metrics, when the caller
  shows a certificate or any bearer token at all, it reads the clock, the processes and the memory of the host and inspects containers of the
  manager's workloads.  For anything else it lists the containers and runs the logs or the exec of a container that the path names
  and the manager holds, an exec only for a POST, and it reads no file but that container's retained log.  A caller who
  asks for the metrics without either credential, or a TLS peer without a certificate that asks for anything else, is answered with 401 and nothing
  at all is done.
\<close>

theorem managed_commands_only:
  assumes "ServeHTTP E as_exit error_part metrics m q tr = (a, tr')" "metrics = None \<or> metrics = Some (scrape_of E M m S)"
  shows "(\<exists>es. tr' = es @ tr \<and> list_all (permitted m q) es) \<and>
    (\<not> admitted q \<longrightarrow> tr' = tr \<and> (\<exists>text. a = HttpError 401 text))"
proof (cases "admitted q")
  case False
  with assms show ?thesis by (auto simp: ServeHTTP_def admitted_def split: if_splits)
next
  case True
  have scrape: "emits (reads_metrics m) (serveResourceMetrics metrics)"
    using assms(2) unfolding serveResourceMetrics_def [abs_def] by (auto intro!: emits_intros scrape_of_emits)
  have "emits (permitted m q) (ServeHTTP E as_exit error_part metrics m q)"
  proof (cases "rq_path q = kubeletResourceMetricsPath")
    case path: True
    have "emits (permitted m q) (serveResourceMetrics metrics)"
      by (rule emits_mono [OF scrape]) (use path True in \<open>simp add: permitted_def\<close>)
    with path show ?thesis unfolding ServeHTTP_def [abs_def] by (simp add: emits_intros)
  next
    case path: False
    have p: "permitted m q = reads_container m q" using path True by (simp add: permitted_def fun_eq_iff)
    show ?thesis
      unfolding p ServeHTTP_def [abs_def] using path by (intro emits_intros serveLogs_emits serveExec_emits) simp
  qed
  with assms(1) True show ?thesis by (auto dest: emitsD)
qed

section \<open>The exit code of an exec\<close>

lemma last_index_none: "CHR ''e'' \<notin> set s \<Longrightarrow> last_index s ''exit status '' = None"
  by (induction s) (auto simp: has_prefix_def)

lemma last_index_append: "last_index s p = Some i \<Longrightarrow> last_index (a @ s) p = Some (length a + i)"
  by (induction a) auto

lemma itoa_no_e: "CHR ''e'' \<notin> set (itoa n)"
  by (auto dest!: itoa_plain simp: is_digit_def byte_def)

lemma inner_status_found:
  assumes "0 \<le> n" "n < 2 ^ 63"
  shows "inner_status (p @ ''exit status '' @ itoa n) = Some n"
proof -
  have "last_index (''exit status '' @ itoa n) ''exit status '' = Some 0"
    using last_index_none [of "''xit status '' @ itoa n"] itoa_no_e [of n] by (simp add: has_prefix_def)
  from last_index_append [OF this, of p] have i: "last_index (p @ ''exit status '' @ itoa n) ''exit status '' = Some (length p)" by simp
  have "c \<in> set (itoa n) \<Longrightarrow> \<not> is_space c" for c
    by (auto dest!: itoa_plain simp: is_digit_def byte_def is_space_def)
  then have "trim_space (itoa n) = itoa n"
    unfolding trim_space_def by (intro trim_of_id) (metis hd_in_set last_in_set)
  then show ?thesis unfolding inner_status_def i using assms by (simp add: atoi_itoa)
qed

text \<open>
  C35: the exit code that an exec reports is what the command wrote to its standard error whenever that text
  ends in "exit status" and a number: the code of the error itself (\<open>as_exit\<close>) is not consulted, so a failed
  command can claim any code, 0 included.
\<close>

theorem stderr_forges_exit_code:
  assumes "mackerCommand E m = Inr binary" "e_macker E tr binary (exec_args q w) = (out, Some e)"
    "trim_space (exec_error error_part q streams out) = p @ ''exit status '' @ itoa n" "0 \<le> n" "n < 2 ^ 63"
  shows "fst (run_exec E as_exit error_part m q w streams tr) = ExecStatus (JObj
    [(''apiVersion'', JStr ''v1''),
     (''details'', JObj [(''causes'', JList [JObj [(''message'', JStr (itoa n)), (''reason'', JStr ''ExitCode'')]])]),
     (''kind'', JStr ''Status''),
     (''message'', JStr (err_string e @ '': '' @ p @ ''exit status '' @ itoa n)),
     (''reason'', JStr ''NonZeroExitCode''), (''status'', JStr ''Failure'')])"
proof -
  have nonempty: "exec_error error_part q streams out \<noteq> []" 
    using assms(3) by (auto simp: trim_space_def trim_of_def trim_right_of_def)
  have "inner_status ((err_string e @ '': '' @ p) @ ''exit status '' @ itoa n) = Some n" using assms(4,5) by (rule inner_status_found)
  then have "kubeletExecExitCode as_exit (Some (EWrap [] e ('': '' @ p @ ''exit status '' @ itoa n))) = Some n"
    by (simp add: kubeletExecExitCode_def)
  with nonempty show ?thesis
    by (simp add: run_exec_def assms(1-3) call_macker_def Let_def writeKubeletExecStatus_def exit_details_def)
qed

section \<open>An exec that fails and claims success\<close>

definition exec_env :: env where
  "exec_env = quiet_env\<lparr>e_macker := \<lambda>_ _ args. (if args = [''ps'', ''--all'']
     then (''maclet-default-web-u1'' @ [tab] @ ''img'' @ [tab] @ ''running'', None)
     else (''no such file: exit status 0'', Some (EMsg ''exit status 127'')))\<rparr>"

definition exec_request :: request where
  "exec_request = \<lparr>rq_method = ''POST'', rq_path = ''/exec/default/web/main'', rq_tls = Some 1, rq_authorization = [],
     rq_query = [(''command'', [''cat'', ''/x'']), (''stderr'', [''1''])], rq_handshake = True, rq_streams = [''error'', ''stderr'']\<rparr>"

text \<open>The same server asked for an exec, and for its metrics without a credential.\<close>

abbreviation demo_scrape :: "env \<Rightarrow> (err + string) io" where
  "demo_scrape E \<equiv> scrape_of E whole_numbers demo_manager (newResourceMetrics whole_numbers)"

abbreviation metrics_request :: request where
  "metrics_request \<equiv> exec_request\<lparr>rq_path := ''/metrics/resource'', rq_tls := Some 0\<rparr>"

lemma managed_commands_only_witness:
  "\<exists>tr'. ServeHTTP exec_env (\<lambda>_. Some 127) id (Some (demo_scrape exec_env)) demo_manager exec_request [] =
      (fst (ServeHTTP exec_env (\<lambda>_. Some 127) id (Some (demo_scrape exec_env)) demo_manager exec_request []), tr') \<and>
    length tr' = 2 \<and> list_all (permitted demo_manager exec_request) tr' \<and>
    snd (ServeHTTP exec_env (\<lambda>_. Some 127) id (Some (demo_scrape exec_env)) demo_manager metrics_request []) = []"
proof -
  let ?r = "ServeHTTP exec_env (\<lambda>_. Some 127) id (Some (demo_scrape exec_env)) demo_manager exec_request []"
  let ?s = "ServeHTTP exec_env (\<lambda>_. Some 127) id (Some (demo_scrape exec_env)) demo_manager metrics_request []"
  have r: "?r = (fst ?r, snd ?r)" and s: "?s = (fst ?s, snd ?s)" by simp_all
  have "length (snd ?r) = 2" "\<not> admitted metrics_request" by code_simp+
  moreover have "list_all (permitted demo_manager exec_request) (snd ?r)"
    using managed_commands_only [OF r disjI2 [OF refl]] by auto
  moreover have "snd ?s = []" if "\<not> admitted metrics_request"
    using managed_commands_only [OF s disjI2 [OF refl]] that by blast
  ultimately show ?thesis using r by blast
qed

lemma stderr_forges_exit_code_witness:
  "fst (run_exec exec_env (\<lambda>_. Some 127) id demo_manager exec_request demo_live [''error'', ''stderr''] []) = ExecStatus (JObj
    [(''apiVersion'', JStr ''v1''),
     (''details'', JObj [(''causes'', JList [JObj [(''message'', JStr (itoa 0)), (''reason'', JStr ''ExitCode'')]])]),
     (''kind'', JStr ''Status''),
     (''message'', JStr (err_string (EMsg ''exit status 127'') @ '': '' @ ''no such file: '' @ ''exit status '' @ itoa 0)),
     (''reason'', JStr ''NonZeroExitCode''), (''status'', JStr ''Failure'')])"
proof (rule stderr_forges_exit_code)
  show "mackerCommand exec_env demo_manager = Inr ''macker''" by code_simp
  show "e_macker exec_env [] ''macker'' (exec_args exec_request demo_live) = (''no such file: exit status 0'', Some (EMsg ''exit status 127''))"
    by code_simp
  show "trim_space (exec_error id exec_request [''error'', ''stderr''] ''no such file: exit status 0'') = ''no such file: '' @ ''exit status '' @ itoa 0"
    by code_simp
qed simp_all

end
