(* ===== verification/ReconcileProps.thy ===== *)
theory ReconcileProps
  imports Reconcile ManagerProps NetProps
begin

text \<open>
  The invariant of the workload manager under reconciliation and cleanup: what each stage of a
  pass may change, and that every reachable manager is consistent.
\<close>

section \<open>Consistency\<close>

definition kept_ok :: "string \<Rightarrow> managed \<Rightarrow> bool" where
  "kept_ok k w \<longleftrightarrow> k = mw_uid w \<and> k \<noteq> [] \<and> mw_container w \<noteq> [] \<and> mw_retained w"

definition consistent :: "manager \<Rightarrow> bool" where
  "consistent m \<longleftrightarrow> distinct (map fst (wm_workloads m)) \<and> distinct (map fst (wm_retained m)) \<and>
     (\<forall>(k, w) \<in> set (wm_workloads m). live_ok k w) \<and> (\<forall>(k, w) \<in> set (wm_retained m). kept_ok k w) \<and>
     (\<forall>h. wm_network m = Some h \<longrightarrow> net_inv h)"

lemma consistent_workload: "consistent m \<Longrightarrow> map_of (wm_workloads m) k = Some w \<Longrightarrow> live_ok k w"
  by (auto simp: consistent_def dest: map_of_SomeD)

lemma consistent_put: "consistent m \<Longrightarrow> live_ok k w \<Longrightarrow> consistent (m\<lparr>wm_workloads := mput (wm_workloads m) k w\<rparr>)"
  by (auto simp: consistent_def dest!: set_mput)

lemma consistent_network: "consistent m \<Longrightarrow> net_inv h \<Longrightarrow> consistent (m\<lparr>wm_network := Some h\<rparr>)"
  by (auto simp: consistent_def)

lemma live_ok_fields [simp]:
  "live_ok k (w\<lparr>mw_retry := t\<rparr>) = live_ok k w" "live_ok k (w\<lparr>mw_ip := ip\<rparr>) = live_ok k w"
  "live_ok k (w\<lparr>mw_volumes := vs\<rparr>) = live_ok k w" "live_ok k (w\<lparr>mw_restarts := n\<rparr>) = live_ok k w"
  "live_ok k (w\<lparr>mw_mounts := ms\<rparr>) = live_ok k w"
  by (simp_all add: live_ok_def)

text \<open>The configuration of a manager, which no operation changes.\<close>

definition same_config :: "manager \<Rightarrow> manager \<Rightarrow> bool" where
  "same_config m m' \<longleftrightarrow> wm_macker m' = wm_macker m \<and> wm_node_ip m' = wm_node_ip m \<and> wm_api m' = wm_api m \<and>
     wm_journal_path m' = wm_journal_path m \<and> wm_volume_root m' = wm_volume_root m \<and>
     wm_logs_root m' = wm_logs_root m \<and> wm_nfs_root m' = wm_nfs_root m \<and> wm_log_ttl m' = wm_log_ttl m \<and>
     wm_sudo m' = wm_sudo m \<and> wm_debug m' = wm_debug m"

text \<open>What an operation on the workload \<open>uid\<close> may do to the manager.\<close>

definition touches :: "string \<Rightarrow> manager \<Rightarrow> manager \<Rightarrow> bool" where
  "touches uid m m' \<longleftrightarrow> (consistent m \<longrightarrow> consistent m') \<and> same_config m m' \<and>
     (\<forall>k. k \<noteq> uid \<longrightarrow> map_of (wm_workloads m') k = map_of (wm_workloads m) k)"

lemma touches_refl [simp, intro]: "touches uid m m"
  by (simp add: touches_def same_config_def)

lemma touches_trans [trans]: "touches uid a b \<Longrightarrow> touches uid b c \<Longrightarrow> touches uid a c"
  by (simp add: touches_def same_config_def)

lemma touches_put: "live_ok uid w \<Longrightarrow> touches uid m (m\<lparr>wm_workloads := mput (wm_workloads m) uid w\<rparr>)"
  by (simp add: touches_def same_config_def consistent_put map_of_mput)

lemma touches_network: "(consistent m \<Longrightarrow> net_inv h) \<Longrightarrow> touches uid m (m\<lparr>wm_network := Some h\<rparr>)"
  by (simp add: touches_def same_config_def consistent_network)

lemma touches_retain:
  assumes "live_ok uid w" "retainWorkloadLocked E m w tr = (m', tr')"
  shows "touches uid m m'" "map_of (wm_workloads m') uid = None"
proof -
  have uid: "mw_uid w = uid" using assms(1) by (simp add: live_ok_def)
  obtain w' where m': "m' = m\<lparr>wm_retained := mput (wm_retained m) uid w', wm_workloads := mdel (wm_workloads m) uid\<rparr>"
    and "kept_ok uid w'"
    by (rule retainWorkloadLocked_result [OF assms(2)]) (use assms(1) uid in \<open>auto simp: kept_ok_def live_ok_def\<close>)
  then have "consistent m \<Longrightarrow> consistent m'"
    by (auto simp: consistent_def dest!: set_mput set_mdel)
  then show "touches uid m m'" by (simp add: touches_def same_config_def m' map_of_mdel)
  show "map_of (wm_workloads m') uid = None" by (simp add: m' map_of_mdel)
qed

section \<open>The operations on one workload\<close>

lemma archiveWorkloadLogs_result:
  assumes "archiveWorkloadLogs E m w tr = (r, w', tr')"
  shows "live_ok k w' = live_ok k w" "mw_ip w' = mw_ip w" "mw_mounts w' = mw_mounts w" "mw_volumes w' = mw_volumes w"
    "mw_restarts w' = mw_restarts w" "mw_host_network w' = mw_host_network w" "mw_container w' = mw_container w"
  using assms by (auto simp: archiveWorkloadLogs_def live_ok_def split: if_splits prod.splits sum.splits option.splits)

lemma remove_alias_result:
  assumes "remove_alias E m w tr = (r, m', tr')"
  shows "touches uid m m'" "wm_workloads m' = wm_workloads m"
proof -
  have "consistent m \<Longrightarrow> wm_network m = Some h \<Longrightarrow> removeWorkloadIP E h ip tr = (r, h', tr') \<Longrightarrow> net_inv h'" for h ip h'
    using removeWorkloadIP_inv by (auto simp: consistent_def)
  then show "touches uid m m'" "wm_workloads m' = wm_workloads m"
    using assms by (auto simp: remove_alias_def intro: touches_network split: option.splits if_splits prod.splits)
qed

lemma removeWorkload_result:
  assumes "removeWorkload E m w tr = (r, (m', w'), tr')"
  shows "touches uid m m'" "wm_workloads m' = wm_workloads m" "live_ok k w' = live_ok k w"
    "mw_restarts w' = mw_restarts w" "mw_mounts w' = []" "mw_volumes w' = []" "mw_container w' = mw_container w"
  using assms
  by (auto simp: removeWorkload_def archiveWorkloadLogs_result remove_alias_result split: prod.splits)

lemma mountGenericNFSVolume_live:
  "mountGenericNFSVolume E m pod name src w tr = (r, w', tr') \<Longrightarrow> live_ok k w' = live_ok k w"
  by (auto simp: mountGenericNFSVolume_def Let_def record_mount_def split: if_splits sum.splits prod.splits option.splits)

lemma substitute_volumes_live:
  "substitute_volumes E m pod vs w tr = (r, w', tr') \<Longrightarrow> live_ok k w' = live_ok k w"
proof (induction vs arbitrary: w tr r w' tr')
  case (Cons v vs)
  from Cons.prems Cons.IH show ?case
    by (auto simp: mountGenericNFSVolume_live split: option.splits prod.splits sum.splits)
qed simp

lemma mackerVolumeArgsWithContext_live:
  "mackerVolumeArgsWithContext E m pod c w tr = (r, w', tr') \<Longrightarrow> live_ok k w' = live_ok k w"
  by (auto simp: mackerVolumeArgsWithContext_def replaceManagedVolumePaths_def
      split: prod.splits sum.splits dest!: substitute_volumes_live)

lemma runArgsWithContext_live:
  "runArgsWithContext E m pod c w tr = (r, w', tr') \<Longrightarrow> live_ok k w' = live_ok k w"
  by (auto simp: runArgsWithContext_def hostNetworkRunArgs_def dest!: mackerVolumeArgsWithContext_live
      split: option.splits if_splits sum.splits prod.splits)

lemma refreshConfigMapVolumes_live:
  "refreshConfigMapVolumes E m pod w tr = (r, w', tr') \<Longrightarrow> live_ok k w' = live_ok k w"
  by (auto simp: refreshConfigMapVolumes_def replaceManagedVolumePaths_def split: prod.splits sum.splits)

section \<open>The stages of a pass\<close>

definition advances :: "string \<Rightarrow> pass \<Rightarrow> pass \<Rightarrow> bool" where
  "advances uid s s' \<longleftrightarrow> touches uid (rp_manager s) (rp_manager s') \<and> rp_seen s' = rp_seen s \<and>
     (\<exists>es. rp_errors s' = rp_errors s @ es)"

lemma advances_refl [simp, intro]: "advances uid s s"
  by (simp add: advances_def)

lemma advances_trans [trans]: "advances uid a b \<Longrightarrow> advances uid b c \<Longrightarrow> advances uid a c"
  unfolding advances_def by (metis append.assoc touches_trans)

lemma advances_error [simp, intro]: "advances uid s (add_error e s)"
  by (simp add: advances_def add_error_def)

lemma advances_used [simp, intro]: "advances uid s (s\<lparr>rp_used := us\<rparr>)"
  by (simp add: advances_def)

lemma advances_put: "live_ok uid w \<Longrightarrow> advances uid s (put_workload uid w s)"
  by (simp add: advances_def put_workload_def touches_put)

lemma advances_manager: "touches uid (rp_manager s) m \<Longrightarrow> advances uid s (put_manager m s)"
  by (simp add: advances_def put_manager_def)

lemma advances_network:
  "(consistent (rp_manager s) \<Longrightarrow> net_inv h) \<Longrightarrow> advances uid s (put_network h s)"
  by (simp add: advances_def put_network_def touches_network)

named_theorems stage_results \<open>what the stages of a pass do to its state\<close>

lemma back_off_advances [stage_results]:
  "back_off E uid w s tr = (s', tr') \<Longrightarrow> live_ok uid w \<Longrightarrow> advances uid s s'"
  by (auto simp: back_off_def time_now_def Let_def intro!: advances_put)

lemma fail_later_advances [stage_results]:
  "fail_later E uid w e s tr = (s', tr') \<Longrightarrow> live_ok uid w \<Longrightarrow> advances uid s s'"
  unfolding fail_later_def by (blast intro: advances_trans [OF advances_error back_off_advances])

lemma fail_reported_advances [stage_results]:
  "fail_reported E uid pod ip w reason e e' s tr = (s', tr') \<Longrightarrow> live_ok uid w \<Longrightarrow> advances uid s s'"
  by (auto simp: fail_reported_def split: prod.splits intro: fail_later_advances)

lemma report_status_advances [stage_results]:
  "report_status E pod phase ip reason message running n insp s tr = (s', tr') \<Longrightarrow> advances uid s s'"
  by (auto simp: report_status_def split: prod.splits option.splits)

lemma pending_error_advances [stage_results]:
  "pending_error E pod ip reason e e' n s tr = (s', tr') \<Longrightarrow> advances uid s s'"
  by (auto simp: pending_error_def)

lemma running_status_advances [stage_results]:
  assumes "running_status E uid pod ip message w s tr = (s', tr')" "live_ok uid w"
  shows "advances uid s s'"
proof -
  have "advances uid s (put_workload uid (w\<lparr>mw_retry := None\<rparr>) s)" using assms(2) by (intro advances_put) simp
  with assms(1) show ?thesis unfolding running_status_def by (blast intro: advances_trans report_status_advances)
qed

lemma settle_workload_advances [stage_results]:
  assumes "settle_workload E uid pod ip w s tr = (s', tr')" "live_ok uid w"
  shows "advances uid s s'"
proof -
  obtain r tr1 where p: "persistJournalLocked E (rp_manager s) tr = (r, tr1)" by force
  obtain q m1 w1 tr2 where q: "removeWorkload E (rp_manager s) w tr1 = (q, (m1, w1), tr2)" by (metis prod.collapse)
  show ?thesis
  proof (cases r)
    case None
    with assms p show ?thesis by (simp add: settle_workload_def running_status_advances)
  next
    case (Some e)
    have "advances uid s (put_manager m1 s)" using removeWorkload_result(1) [OF q] by (rule advances_manager)
    moreover have "advances uid (put_manager m1 s) s'"
      using assms p q Some removeWorkload_result(3) [OF q, of uid]
      by (auto simp: settle_workload_def intro: fail_reported_advances)
    ultimately show ?thesis by (rule advances_trans)
  qed
qed

lemma start_workload_advances [stage_results]:
  assumes "start_workload E uid pod ip args w s tr = (s', tr')" "live_ok uid w"
  shows "advances uid s s'"
  using assms(1) fail_reported_advances [OF _ assms(2)] settle_workload_advances [OF _ assms(2)]
  by (auto simp: start_workload_def Let_def split: prod.splits option.splits)

lemma launch_workload_advances [stage_results]:
  assumes "launch_workload E uid pod ip w s tr = (s', tr')" "live_ok uid w"
  shows "advances uid s s'"
proof -
  obtain r w1 tr1 where r: "runArgsWithContext E (rp_manager s) pod (hd (ps_containers (p_spec pod))) w tr = (r, w1, tr1)"
    by (metis prod.collapse)
  have w1: "live_ok uid w1" using runArgsWithContext_live [OF r] assms(2) by simp
  show ?thesis
  proof (cases r)
    case (Inl e)
    with assms(1) r w1 show ?thesis by (auto simp: launch_workload_def intro: fail_reported_advances)
  next
    case (Inr args)
    have "advances uid (put_workload uid w1 s) s'"
      using assms(1) r Inr fail_reported_advances [OF _ w1] start_workload_advances [OF _ w1]
      by (auto simp: launch_workload_def Let_def split: prod.splits option.splits)
    with advances_put [OF w1] show ?thesis by (rule advances_trans)
  qed
qed

lemma refresh_running_advances [stage_results]:
  assumes "refresh_running E uid pod ip w s tr = (s', tr')" "live_ok uid w"
  shows "advances uid s s'"
  using assms
  by (auto simp: refresh_running_def refreshConfigMapVolumes_live intro: running_status_advances split: prod.splits)

lemma put_errors_advances: "advances uid s (foldl (\<lambda>s e. add_error e s) s es)"
  by (induction es arbitrary: s) (auto intro: advances_trans [OF advances_error])

lemma finish_workload_advances [stage_results]:
  assumes "finish_workload E uid pod ip insp w s tr = (s', tr')" "live_ok uid w"
  shows "advances uid s s'"
proof -
  obtain phase reason message where o: "exit_outcome (podRestartPolicy pod) insp = (phase, reason, message)"
    by (metis prod.collapse)
  obtain r w1 tr1 where a: "archiveWorkloadLogs E (rp_manager s) w tr = (r, w1, tr1)" by (metis prod.collapse)
  obtain q tr2 where q: "stopContainer E (rp_manager s) w1 tr1 = (q, tr2)" by force
  obtain m tr3 where m: "retainWorkloadLocked E (rp_manager s) w1 tr2 = (m, tr3)" by force
  obtain j tr4 where j: "persistJournalLocked E m tr3 = (j, tr4)" by force
  let ?s = "foldl (\<lambda>s e. add_error e s) (put_manager m s) (err_list j)"
  have "live_ok uid w1" using archiveWorkloadLogs_result(1) [OF a] assms(2) by simp
  then have "advances uid s (put_manager m s)" using touches_retain(1) [OF _ m] by (intro advances_manager) simp
  also have "advances uid (put_manager m s) ?s" by (rule put_errors_advances)
  also have "advances uid ?s s'"
    using assms(1) by (auto simp: finish_workload_def o a q m j intro: report_status_advances)
  finally show ?thesis .
qed

lemma restart_workload_advances [stage_results]:
  assumes "restart_workload E uid pod ip w s tr = (s', tr')" "live_ok uid w"
  shows "advances uid s s'"
proof -
  obtain r w1 tr1 where a: "archiveWorkloadLogs E (rp_manager s) w tr = (r, w1, tr1)" by (metis prod.collapse)
  have w1: "live_ok uid w1" "live_ok uid (w1\<lparr>mw_restarts := mw_restarts w1 + 1\<rparr>)"
    using archiveWorkloadLogs_result(1) [OF a] assms(2) by simp_all
  let ?s = "put_workload uid (w1\<lparr>mw_restarts := mw_restarts w1 + 1\<rparr>) s"
  have "advances uid ?s s' \<or> advances uid s s'"
    using assms(1) fail_later_advances [OF _ w1(1)] fail_later_advances [OF _ w1(2)] launch_workload_advances [OF _ w1(2)]
    by (auto simp: restart_workload_def a Let_def split: prod.splits option.splits)
  then show ?thesis using advances_trans [OF advances_put [OF w1(2)]] by blast
qed

lemma reconcile_container_advances [stage_results]:
  assumes "reconcile_container E uid pod ip w s tr = (s', tr')" "live_ok uid w"
  shows "advances uid s s'"
  using assms(1) stage_results(2,3) [OF _ assms(2)] launch_workload_advances [OF _ assms(2)]
    refresh_running_advances [OF _ assms(2)] finish_workload_advances [OF _ assms(2)] restart_workload_advances [OF _ assms(2)]
  by (auto simp: reconcile_container_def reconcile_stopped_def Let_def split: prod.splits sum.splits option.splits if_splits)

lemma reconcile_ready_advances [stage_results]:
  assumes "reconcile_ready E uid pod ip w s tr = (s', tr')" "live_ok uid w"
  shows "advances uid s s'"
  using assms reconcile_container_advances
  by (auto simp: reconcile_ready_def split: prod.splits if_splits bool.splits)

lemma network_advances:
  assumes "wm_network (rp_manager s) = Some h" "net_inv h \<Longrightarrow> net_inv h'"
  shows "advances uid s (put_network h' s)"
  using assms by (intro advances_network) (auto simp: consistent_def)

lemma put_network_network [simp]: "wm_network (rp_manager (put_network h s)) = Some h"
  by (simp add: put_network_def)

lemma put_workload_network [simp]: "wm_network (rp_manager (put_workload uid w s)) = wm_network (rp_manager s)"
  by (simp add: put_workload_def)

lemma install_address_advances [stage_results]:
  assumes "install_address E uid pod ip h w s tr = (s', tr')" "live_ok uid w" "wm_network (rp_manager s) = Some h"
  shows "advances uid s s'"
proof (cases "ps_host_network (p_spec pod)")
  case True
  with assms show ?thesis by (auto simp: install_address_def intro: reconcile_ready_advances)
next
  case False
  obtain r h1 tr1 where a: "addWorkloadIP E h ip tr = (r, h1, tr1)" by (metis prod.collapse)
  have "advances uid s (put_network h1 s)"
    using assms(3) addWorkloadIP_inv [OF _ a] by (rule network_advances)
  moreover have "advances uid (put_network h1 s) s'"
    using assms(1,2) a False
    by (auto simp: install_address_def intro: reconcile_ready_advances pending_error_advances split: option.splits)
  ultimately show ?thesis by (rule advances_trans)
qed

lemma record_address_advances [stage_results]:
  assumes "record_address E uid pod ip h w s tr = (s', tr')" "live_ok uid w" "wm_network (rp_manager s) = Some h"
  shows "advances uid s s'"
proof (cases "mw_ip w = ip")
  case True
  with assms show ?thesis by (auto simp: record_address_def intro: install_address_advances)
next
  case False
  have w: "live_ok uid (w\<lparr>mw_ip := ip\<rparr>)" using assms(2) by simp
  have "advances uid (put_workload uid (w\<lparr>mw_ip := ip\<rparr>) s) s'"
    using assms(1,3) False fail_later_advances [OF _ w] install_address_advances [OF _ w]
    by (auto simp: record_address_def Let_def split: prod.splits option.splits)
  with advances_put [OF w] show ?thesis by (rule advances_trans)
qed

lemma replace_address_advances [stage_results]:
  assumes "replace_address E uid pod ip h w s tr = (s', tr')" "live_ok uid w" "wm_network (rp_manager s) = Some h"
  shows "advances uid s s'"
proof (cases "mw_ip w \<noteq> [] \<and> mw_ip w \<noteq> ip \<and> \<not> mw_host_network w")
  case False
  with assms show ?thesis by (auto simp: replace_address_def intro: record_address_advances)
next
  case True
  obtain r h1 tr1 where a: "removeWorkloadIP E h (mw_ip w) tr = (r, h1, tr1)" by (metis prod.collapse)
  have "advances uid s (put_network h1 s)"
    using assms(3) removeWorkloadIP_inv [OF _ a] by (rule network_advances)
  moreover have "advances uid (put_network h1 s) s'"
    using assms(1,2) a True record_address_advances [OF _ assms(2)]
    by (auto simp: replace_address_def split: option.splits)
  ultimately show ?thesis by (rule advances_trans)
qed

lemma assign_address_advances [stage_results]:
  assumes "assign_address E uid pod h w s tr = (s', tr')" "live_ok uid w" "wm_network (rp_manager s) = Some h"
  shows "advances uid s s'"
proof -
  have check: "check_address E uid pod ip h w s1 tr = (s', tr') \<Longrightarrow> wm_network (rp_manager s1) = Some h \<Longrightarrow> advances uid s1 s'"
    for ip s1
    using replace_address_advances [OF _ assms(2)]
    by (auto simp: check_address_def intro: pending_error_advances split: option.splits if_splits)
  from assms(1) consider ip where "check_address E uid pod ip h w s tr = (s', tr')"
    | e e' where "pending_error E pod [] ''MacletAddressAllocationFailed'' e e' (mw_restarts w) s tr = (s', tr')"
    | ip where "check_address E uid pod ip h w (s\<lparr>rp_used := ip # rp_used s\<rparr>) tr = (s', tr')"
    by (auto simp: assign_address_def split: if_splits sum.splits)
  then show ?thesis
  proof cases
    case 3
    then have "advances uid (s\<lparr>rp_used := ip # rp_used s\<rparr>) s'" using assms(3) by (intro check) simp_all
    with advances_used show ?thesis by (rule advances_trans)
  qed (use check assms(3) pending_error_advances in blast)+
qed

lemma pod_key_ne [simp]: "pod_key pod \<noteq> []"
  by (simp add: pod_key_def)

lemma container_name_ne [simp]: "workloadContainerName pod \<noteq> []"
  using container_name_facts [of pod] by simp

lemma claim_workload_live:
  assumes "claim_workload uid pod m = (w, changed)" "consistent m" "uid \<noteq> []"
  shows "live_ok uid w"
  using assms consistent_workload [OF assms(2), of uid]
  by (auto simp: claim_workload_def follow_pod_def new_workload_def empty_managed_def live_ok_def split: option.splits)

text \<open>From here on the state has to be consistent for the claimed workload to be in order.\<close>

lemma own_workload_advances:
  assumes "own_workload E uid pod h s tr = (s', tr')" "uid \<noteq> []" "wm_network (rp_manager s) = Some h"
    "consistent (rp_manager s)"
  shows "advances uid s s'"
proof -
  obtain w changed where c: "claim_workload uid pod (rp_manager s) = (w, changed)" by force
  have w: "live_ok uid w" using claim_workload_live [OF c assms(4,2)] .
  have "advances uid (put_workload uid w s) s'"
    using assms(1,3) c fail_later_advances [OF _ w] assign_address_advances [OF _ w]
    by (auto simp: own_workload_def Let_def split: prod.splits option.splits)
  with advances_put [OF w] show ?thesis by (rule advances_trans)
qed

lemma reconcile_native_advances:
  assumes "reconcile_native E uid pod s tr = (s', tr')" "uid \<noteq> []" "consistent (rp_manager s)"
  shows "advances uid s s'"
  using assms own_workload_advances
  by (auto simp: reconcile_native_def Let_def intro: pending_error_advances report_status_advances
      split: option.splits if_splits)

lemma deleted_workload_live:
  "consistent m \<Longrightarrow> uid \<noteq> [] \<Longrightarrow> live_ok uid (deleted_workload uid pod m)"
  using consistent_workload [of m uid]
  by (auto simp: deleted_workload_def empty_managed_def live_ok_def split: option.splits)

lemma reconcile_deleted_advances:
  assumes "reconcile_deleted E uid pod s tr = (s', tr')" "uid \<noteq> []" "consistent (rp_manager s)"
  shows "advances uid s s'" and "rp_errors s' = rp_errors s \<Longrightarrow> map_of (wm_workloads (rp_manager s')) uid = None"
proof -
  let ?w = "deleted_workload uid pod (rp_manager s)"
  obtain r m w tr1 where r: "removeWorkload E (rp_manager s) ?w tr = (r, (m, w), tr1)" by (metis prod.collapse)
  have w: "live_ok uid w" using removeWorkload_result(3) [OF r] deleted_workload_live assms(2,3) by simp
  have m: "advances uid s (put_manager m s)" using removeWorkload_result(1) [OF r] by (rule advances_manager)
  have "advances uid s s' \<and> (rp_errors s' = rp_errors s \<longrightarrow> map_of (wm_workloads (rp_manager s')) uid = None)"
  proof (cases r)
    case (Some e)
    define e' where "e' = wrap (''remove deleted Pod '' @ pod_name pod @ '': '') e"
    have s': "s' = put_workload uid w (add_error e' (put_manager m s))"
      using assms(1) unfolding reconcile_deleted_def r Some prod.case option.case e'_def by simp
    have "rp_errors s' \<noteq> rp_errors s" by (simp add: s' put_workload_def add_error_def put_manager_def)
    moreover have "advances uid s s'"
      unfolding s' by (rule advances_trans [OF m advances_trans [OF advances_error advances_put [OF w]]])
    ultimately show ?thesis by blast
  next
    case None
    obtain m1 tr2 where m1: "retainWorkloadLocked E m w tr1 = (m1, tr2)" by force
    have "touches uid (rp_manager s) m1"
      using removeWorkload_result(1) [OF r] touches_retain(1) [OF w m1] by (rule touches_trans)
    then have a: "advances uid s (put_manager m1 s)" by (rule advances_manager)
    obtain j tr3 where j: "persistJournalLocked E m1 tr2 = (j, tr3)" by force
    define s2 where "s2 = (case j of Some e \<Rightarrow>
        add_error (EWrap (''persist deleted Pod '' @ pod_name pod @ '' cleanup: '') e []) (put_manager m1 s)
      | None \<Rightarrow> put_manager m1 s)"
    obtain u p tr4 where u: "updateStatus E m1 pod ''Failed'' (pt_pod_ip (p_status pod)) ''MacletWorkloadDeleted''
        ''maclet stopped the native workload for Pod deletion'' False (mw_restarts w) None tr3 = (u, p, tr4)"
      by (metis prod.collapse)
    have "s' = (case u of Some e \<Rightarrow> if http_code_is 404 e then s2 else add_error e s2 | None \<Rightarrow> s2)"
      using assms(1) unfolding reconcile_deleted_def r None m1 prod.case option.case j Let_def s2_def [symmetric] u
      by (cases u; simp)
    then have "s' = s2 \<or> (\<exists>e. s' = add_error e s2)" by (cases u) auto
    moreover have "advances uid (put_manager m1 s) s2" "rp_manager s2 = m1"
      by (cases j; simp add: s2_def add_error_def put_manager_def advances_def)+
    ultimately have "advances uid (put_manager m1 s) s' \<and> rp_manager s' = m1"
      using advances_trans [OF _ advances_error] by (auto simp: add_error_def)
    with a touches_retain(2) [OF w m1] show ?thesis using advances_trans by blast
  qed
  then show "advances uid s s'" "rp_errors s' = rp_errors s \<Longrightarrow> map_of (wm_workloads (rp_manager s')) uid = None"
    by blast+
qed

section \<open>The whole pass\<close>

definition to_delete :: "pod \<Rightarrow> bool" where
  "to_delete pod \<longleftrightarrow> om_deletion (p_meta pod) \<noteq> None"

definition to_run :: "pod \<Rightarrow> bool" where
  "to_run pod \<longleftrightarrow> om_deletion (p_meta pod) = None \<and> podHasNativeLabel pod"

lemma see_simps [simp]:
  "rp_manager (see uid s) = rp_manager s" "rp_seen (see uid s) = uid # rp_seen s" "rp_errors (see uid s) = rp_errors s"
  by (simp_all add: see_def)

lemma reconcile_pod_result:
  assumes "reconcile_pod E pod s tr = (s', tr')" "consistent (rp_manager s)"
  shows "touches (pod_key pod) (rp_manager s) (rp_manager s')"
    "set (rp_seen s') = set (rp_seen s) \<union> (if to_delete pod \<or> to_run pod then {pod_key pod} else {})"
    "\<exists>es. rp_errors s' = rp_errors s @ es"
    "to_delete pod \<Longrightarrow> rp_errors s' = rp_errors s \<Longrightarrow> map_of (wm_workloads (rp_manager s')) (pod_key pod) = None"
    "\<not> to_delete pod \<Longrightarrow> \<not> to_run pod \<Longrightarrow> s' = s"
proof -
  let ?uid = "pod_key pod"
  consider "to_delete pod" "reconcile_deleted E ?uid pod (see ?uid s) tr = (s', tr')"
    | "\<not> to_delete pod" "to_run pod" "reconcile_native E ?uid pod (see ?uid s) tr = (s', tr')"
    | "\<not> to_delete pod" "\<not> to_run pod" "s' = s"
    using assms(1) unfolding reconcile_pod_def Let_def to_delete_def to_run_def
    by (cases "om_deletion (p_meta pod) = None"; cases "podHasNativeLabel pod") simp_all
  then have "touches ?uid (rp_manager s) (rp_manager s') \<and>
      set (rp_seen s') = set (rp_seen s) \<union> (if to_delete pod \<or> to_run pod then {?uid} else {}) \<and>
      (\<exists>es. rp_errors s' = rp_errors s @ es) \<and>
      (to_delete pod \<longrightarrow> rp_errors s' = rp_errors s \<longrightarrow> map_of (wm_workloads (rp_manager s')) ?uid = None) \<and>
      (\<not> to_delete pod \<longrightarrow> \<not> to_run pod \<longrightarrow> s' = s)"
  proof cases
    case 1
    from reconcile_deleted_advances [OF 1(2)] assms(2) 1(1) show ?thesis by (auto simp: advances_def)
  next
    case 2
    from reconcile_native_advances [OF 2(3)] assms(2) 2(1,2) show ?thesis by (auto simp: advances_def)
  qed auto
  then show "touches (pod_key pod) (rp_manager s) (rp_manager s')"
    "set (rp_seen s') = set (rp_seen s) \<union> (if to_delete pod \<or> to_run pod then {pod_key pod} else {})"
    "\<exists>es. rp_errors s' = rp_errors s @ es"
    "to_delete pod \<Longrightarrow> rp_errors s' = rp_errors s \<Longrightarrow> map_of (wm_workloads (rp_manager s')) (pod_key pod) = None"
    "\<not> to_delete pod \<Longrightarrow> \<not> to_run pod \<Longrightarrow> s' = s"
    by blast+
qed

lemma reconcile_pods_result:
  assumes "reconcile_pods E pods s tr = (s', tr')" "consistent (rp_manager s)"
  shows "consistent (rp_manager s') \<and> same_config (rp_manager s) (rp_manager s') \<and>
    set (rp_seen s') = set (rp_seen s) \<union> pod_key ` {pod \<in> set pods. to_delete pod \<or> to_run pod} \<and>
    (\<exists>es. rp_errors s' = rp_errors s @ es) \<and>
    (rp_errors s' = rp_errors s \<longrightarrow> (\<forall>k. map_of (wm_workloads (rp_manager s')) k \<noteq> None \<longrightarrow>
      k \<in> pod_key ` {pod \<in> set pods. to_run pod} \<or>
      k \<notin> pod_key ` {pod \<in> set pods. to_delete pod} \<and> map_of (wm_workloads (rp_manager s)) k \<noteq> None))"
  using assms
proof (induction pods arbitrary: s tr)
  case Nil
  then show ?case by (simp add: same_config_def)
next
  case (Cons pod pods)
  obtain s1 tr1 where p: "reconcile_pod E pod s tr = (s1, tr1)" by force
  note r = reconcile_pod_result [OF p Cons.prems(2)]
  have c: "consistent (rp_manager s1)" and f: "same_config (rp_manager s) (rp_manager s1)"
    and other: "\<And>k. k \<noteq> pod_key pod \<Longrightarrow> map_of (wm_workloads (rp_manager s1)) k = map_of (wm_workloads (rp_manager s)) k"
    using r(1) Cons.prems(2) by (auto simp: touches_def)
  have "reconcile_pods E pods s1 tr1 = (s', tr')" using Cons.prems(1) p by simp
  note ih = Cons.IH [OF this c]
  obtain es where es: "rp_errors s1 = rp_errors s @ es" using r(3) by blast
  have same: "same_config (rp_manager s) (rp_manager s')" using f ih by (simp add: same_config_def)
  have seen: "set (rp_seen s') = set (rp_seen s) \<union> pod_key ` {x \<in> set (pod # pods). to_delete x \<or> to_run x}"
    using ih r(2) by auto
  have errs: "\<exists>es. rp_errors s' = rp_errors s @ es" using ih es by auto
  have dom: "k \<in> pod_key ` {x \<in> set (pod # pods). to_run x} \<or>
      k \<notin> pod_key ` {x \<in> set (pod # pods). to_delete x} \<and> map_of (wm_workloads (rp_manager s)) k \<noteq> None"
    if e: "rp_errors s' = rp_errors s" and k: "map_of (wm_workloads (rp_manager s')) k \<noteq> None" for k
  proof -
    have e1: "rp_errors s1 = rp_errors s" "rp_errors s' = rp_errors s1" using e es ih by auto
    with ih k consider "k \<in> pod_key ` {x \<in> set pods. to_run x}"
      | "k \<notin> pod_key ` {x \<in> set pods. to_delete x}" "map_of (wm_workloads (rp_manager s1)) k \<noteq> None" by blast
    then show ?thesis
    proof cases
      case 2
      show ?thesis
      proof (cases "k = pod_key pod")
        case True
        with 2(2) r(4) e1(1) have "\<not> to_delete pod" by auto
        moreover have "to_run pod \<or> map_of (wm_workloads (rp_manager s)) k \<noteq> None"
          using 2(2) r(5) calculation by auto
        ultimately show ?thesis using 2(1) True by auto
      qed (use 2 other in auto)
    qed auto
  qed
  from ih have "consistent (rp_manager s')" by (rule conjunct1)
  then show ?case using same seen errs dom by (intro conjI impI allI)
qed

text \<open>What a removal of several workloads leaves behind.\<close>

definition swept :: "(string \<Rightarrow> bool) \<Rightarrow> string list \<Rightarrow> manager \<Rightarrow> err list \<Rightarrow> manager \<Rightarrow> err list \<Rightarrow> bool" where
  "swept skip uids m es m' es' \<longleftrightarrow> consistent m' \<and> same_config m m' \<and> (\<exists>more. es' = es @ more) \<and>
     (es' = es \<longrightarrow> (\<forall>k. map_of (wm_workloads m') k \<noteq> None \<longrightarrow>
       map_of (wm_workloads m) k \<noteq> None \<and> (k \<in> set uids \<longrightarrow> skip k)))"

lemma swept_skip:
  "swept skip uids m es m' es' \<Longrightarrow> skip uid \<or> map_of (wm_workloads m) uid = None \<Longrightarrow> swept skip (uid # uids) m es m' es'"
  by (auto simp: swept_def)

lemma swept_error:
  "swept skip uids m1 (es @ [e]) m' es' \<Longrightarrow> same_config m m1 \<Longrightarrow> swept skip (uid # uids) m es m' es'"
  by (auto simp: swept_def same_config_def)

lemma swept_removed:
  assumes "swept skip uids m1 es m' es'" "touches uid m m1" "map_of (wm_workloads m1) uid = None"
  shows "swept skip (uid # uids) m es m' es'"
proof -
  have "map_of (wm_workloads m1) k \<noteq> None \<Longrightarrow> k \<noteq> uid \<and> map_of (wm_workloads m) k \<noteq> None" for k
    using assms(2,3) by (cases "k = uid") (simp_all add: touches_def)
  moreover have "same_config m m'"
    using assms(1,2) by (simp add: swept_def touches_def same_config_def)
  ultimately show ?thesis using assms(1) unfolding swept_def by (metis set_ConsD)
qed

lemma removed_each:
  assumes "remove_each E skip label uids m changed es tr = ((changed', es'), m', tr')" "consistent m"
  shows "swept skip uids m es m' es'"
  using assms
proof (induction uids arbitrary: m changed es tr)
  case Nil
  then show ?case by (auto simp: swept_def same_config_def)
next
  case (Cons uid uids)
  show ?case
  proof (cases "skip uid \<or> map_of (wm_workloads m) uid = None")
    case True
    with Cons.prems have "remove_each E skip label uids m changed es tr = ((changed', es'), m', tr')"
      by (cases "skip uid") simp_all
    from swept_skip [OF Cons.IH [OF this Cons.prems(2)]] True show ?thesis .
  next
    case False
    then obtain w where w: "map_of (wm_workloads m) uid = Some w" "\<not> skip uid" by auto
    obtain r m1 w1 tr1 where r: "removeWorkload E m w tr = (r, (m1, w1), tr1)" by (metis prod.collapse)
    note rw = removeWorkload_result [OF r]
    have live: "live_ok uid w1" using rw(3) consistent_workload [OF Cons.prems(2) w(1)] by simp
    show ?thesis
    proof (cases r)
      case (Some e)
      let ?m2 = "m1\<lparr>wm_workloads := mput (wm_workloads m1) uid w1\<rparr>"
      have rest: "remove_each E skip label uids ?m2 changed (es @ [wrap (label uid w1) e]) tr1 = ((changed', es'), m', tr')"
        using Cons.prems(1) w r Some by simp
      have "touches uid m ?m2" using rw(1) touches_put [OF live] by (rule touches_trans)
      then have "consistent ?m2" "same_config m ?m2" using Cons.prems(2) by (simp_all add: touches_def)
      from swept_error [OF Cons.IH [OF rest this(1)] this(2)] show ?thesis .
    next
      case None
      obtain m2 tr2 where m2: "retainWorkloadLocked E m1 w1 tr1 = (m2, tr2)" by force
      have rest: "remove_each E skip label uids m2 True es tr2 = ((changed', es'), m', tr')"
        using Cons.prems(1) w r None m2 by simp
      have t: "touches uid m m2" using rw(1) touches_retain(1) [OF live m2] by (rule touches_trans)
      then have "consistent m2" using Cons.prems(2) by (simp add: touches_def)
      from swept_removed [OF Cons.IH [OF rest this] t touches_retain(2) [OF live m2]] show ?thesis .
    qed
  qed
qed

lemma prune_loop_result:
  "prune_loop E now ws m changed tr = (changed', m', tr') \<Longrightarrow>
    (consistent m \<longrightarrow> consistent m') \<and> same_config m m' \<and> wm_workloads m' = wm_workloads m"
proof (induction ws arbitrary: m changed tr)
  case Nil
  then show ?case by (simp add: same_config_def)
next
  case (Cons x ws)
  obtain uid w where x: "x = (uid, w)" by force
  have "consistent m \<longrightarrow> consistent (m\<lparr>wm_retained := mdel (wm_retained m) uid\<rparr>)"
    by (auto simp: consistent_def dest!: set_mdel)
  then show ?case
    using Cons.prems Cons.IH unfolding x
    by (auto simp: Let_def same_config_def split: if_splits)
qed

lemma errors_join_None [simp]: "errors_join es = None \<longleftrightarrow> es = []"
  by (simp add: errors_join_def)

lemma remove_stale_result:
  assumes "remove_stale E s tr = (r, m', tr')" "consistent (rp_manager s)"
  shows "\<exists>es. swept (\<lambda>uid. uid \<in> set (rp_seen s)) (e_order E (mkeys (wm_workloads (rp_manager s))))
      (rp_manager s) (rp_errors s) m' es \<and> (r = None \<longrightarrow> es = [])"
proof -
  let ?skip = "\<lambda>uid. uid \<in> set (rp_seen s)" and ?uids = "e_order E (mkeys (wm_workloads (rp_manager s)))"
  let ?label = "\<lambda>uid w. ''remove stale maclet workload '' @ mw_container w @ '': ''"
  obtain changed es m tr1 where e: "remove_each E ?skip ?label ?uids (rp_manager s) False (rp_errors s) tr = ((changed, es), m, tr1)"
    by (metis prod.collapse)
  obtain j tr2 where j: "persistJournalLocked E m tr1 = (j, tr2)" by force
  have "m' = m \<and> (r = None \<longrightarrow> es = [])"
    using assms(1) unfolding remove_stale_def e prod.case j by (cases changed) auto
  with removed_each [OF e assms(2)] show ?thesis by blast
qed

lemma swept_facts:
  assumes "swept skip uids m es m' es'"
  shows "consistent m'" "same_config m m'" "es' = [] \<Longrightarrow> es = []"
    "es' = [] \<Longrightarrow> map_of (wm_workloads m') k \<noteq> None \<Longrightarrow> map_of (wm_workloads m) k \<noteq> None \<and> (k \<in> set uids \<longrightarrow> skip k)"
  using assms unfolding swept_def by (blast, blast, blast, metis append_is_Nil_conv)

lemma same_config_trans: "same_config a b \<Longrightarrow> same_config b c \<Longrightarrow> same_config a c"
  by (simp add: same_config_def)

lemma reconcile_result:
  assumes "reconcile E m pods tr = (r, m', tr')" "consistent m"
  shows "consistent m' \<and> same_config m m' \<and>
    (r = None \<longrightarrow> order_ok E \<longrightarrow> fst ` set (wm_workloads m') \<subseteq> pod_key ` {pod \<in> set pods. to_run pod})"
proof -
  obtain now tr0 where t: "time_now E tr = (now, tr0)" by force
  obtain changed m1 tr1 where p: "pruneRetainedLogsLocked E now m tr0 = (changed, m1, tr1)" by (metis prod.collapse)
  have m1: "consistent m1" "same_config m m1"
    using prune_loop_result [OF p [unfolded pruneRetainedLogsLocked_def]] assms(2) by simp_all
  obtain j tr2 where j: "(if changed then persistJournalLocked E m1 tr1 else (None, tr1)) = (j, tr2)" by force
  show ?thesis
  proof (cases j)
    case (Some e)
    then have "m' = m1" "r = Some e" using assms(1) t p j by (simp_all add: reconcile_def)
    then show ?thesis using m1 by simp
  next
    case None
    obtain s tr3 where s: "reconcile_pods E pods (start_pass m1 pods) tr2 = (s, tr3)" by force
    have rs: "remove_stale E s tr3 = (r, m', tr')"
      using assms(1) unfolding reconcile_def t prod.case p j None option.case s .
    have start: "rp_manager (start_pass m1 pods) = m1" "rp_seen (start_pass m1 pods) = []" "rp_errors (start_pass m1 pods) = []"
      by (simp_all add: start_pass_def)
    note rp = reconcile_pods_result [OF s, unfolded start, OF m1(1)]
    then have cs: "consistent (rp_manager s)" "same_config m1 (rp_manager s)"
      and seen: "set (rp_seen s) = pod_key ` {pod \<in> set pods. to_delete pod \<or> to_run pod}"
      and dom: "rp_errors s = [] \<longrightarrow> (\<forall>k. map_of (wm_workloads (rp_manager s)) k \<noteq> None \<longrightarrow>
         k \<in> pod_key ` {pod \<in> set pods. to_run pod} \<or> k \<notin> pod_key ` {pod \<in> set pods. to_delete pod})"
      by auto
    obtain es where es: "swept (\<lambda>uid. uid \<in> set (rp_seen s)) (e_order E (mkeys (wm_workloads (rp_manager s))))
        (rp_manager s) (rp_errors s) m' es" "r = None \<longrightarrow> es = []"
      using remove_stale_result [OF rs cs(1)] by blast
    note f = swept_facts [OF es(1)]
    have "fst ` set (wm_workloads m') \<subseteq> pod_key ` {pod \<in> set pods. to_run pod}" if r: "r = None" and o: "order_ok E"
    proof
      fix k assume "k \<in> fst ` set (wm_workloads m')"
      then have k: "map_of (wm_workloads m') k \<noteq> None" by (metis map_of_eq_None_iff)
      have e: "es = []" using es(2) r by simp
      have in_s: "map_of (wm_workloads (rp_manager s)) k \<noteq> None" using f(4) [OF e k] by blast
      then have "k \<in> set (mkeys (wm_workloads (rp_manager s)))" by (simp add: mkeys_def map_of_eq_None_iff)
      then have "k \<in> set (e_order E (mkeys (wm_workloads (rp_manager s))))"
        using o unfolding order_ok_def by (metis set_mset_mset)
      then have "k \<in> set (rp_seen s)" using f(4) [OF e k] by blast
      moreover have "k \<in> pod_key ` {pod \<in> set pods. to_run pod} \<or> k \<notin> pod_key ` {pod \<in> set pods. to_delete pod}"
        using dom in_s f(3) [OF e] by blast
      ultimately show "k \<in> pod_key ` {pod \<in> set pods. to_run pod}" unfolding seen by blast
    qed
    then show ?thesis using f(1) same_config_trans [OF m1(2) same_config_trans [OF cs(2) f(2)]] by blast
  qed
qed

lemma manager_cleanup_result:
  assumes "manager_cleanup E m tr = (r, m', tr')" "consistent m"
  shows "consistent m' \<and> same_config m m' \<and> (r = None \<longrightarrow> order_ok E \<longrightarrow> wm_workloads m' = [])"
proof -
  let ?uids = "e_order E (mkeys (wm_workloads m))"
  obtain changed es m1 tr1 where e: "remove_each E (\<lambda>_. False) (\<lambda>uid w. ''cleanup workload '' @ uid @ '': '') ?uids m False [] tr =
      ((changed, es), m1, tr1)" by (metis prod.collapse)
  obtain j tr2 where j: "persistJournalLocked E m1 tr1 = (j, tr2)" by force
  have m': "m' = m1 \<and> (r = None \<longrightarrow> es = [])"
    using assms(1) unfolding manager_cleanup_def e prod.case j by (cases "changed \<or> wm_workloads m1 = []") auto
  note f = swept_facts [OF removed_each [OF e assms(2)]]
  have "wm_workloads m' = []" if r: "r = None" and o: "order_ok E"
  proof (rule ccontr)
    assume "wm_workloads m' \<noteq> []"
    then obtain k w rest where "wm_workloads m' = (k, w) # rest" by (cases "wm_workloads m'") auto
    then have k: "map_of (wm_workloads m1) k \<noteq> None" using m' by simp
    have es: "es = []" using m' r by blast
    have "k \<in> set (mkeys (wm_workloads m))"
      using f(4) [OF es k] by (simp add: mkeys_def map_of_eq_None_iff)
    then have "k \<in> set ?uids" using o unfolding order_ok_def by (metis set_mset_mset)
    with f(4) [OF es k] show False by blast
  qed
  with f(1,2) m' show ?thesis by blast
qed

lemma load_records_consistent:
  "load_records ws m = (r, m') \<Longrightarrow> consistent m \<Longrightarrow> consistent m'"
proof (induction ws arbitrary: m)
  case (Cons w ws)
  show ?case
  proof (cases "mw_uid w = [] \<or> mw_container w = []")
    case True
    with Cons.prems show ?thesis by simp
  next
    case False
    have "consistent (m\<lparr>wm_retained := mput (wm_retained m) (mw_uid w) w\<rparr>)" if "mw_retained w"
      using Cons.prems(2) that False by (auto simp: consistent_def kept_ok_def dest!: set_mput)
    moreover have "consistent (m\<lparr>wm_workloads := mput (wm_workloads m) (mw_uid w) w\<rparr>)" if "\<not> mw_retained w"
      using Cons.prems(2) that False by (intro consistent_put) (simp_all add: live_ok_def)
    ultimately show ?thesis using Cons.prems(1) Cons.IH False by (auto split: if_splits)
  qed
qed simp

lemma loadJournalLocked_consistent:
  assumes "loadJournalLocked E m tr = (r, m', tr')" "consistent m"
  shows "consistent m'"
  using assms load_records_consistent prune_loop_result
  by (fastforce simp: loadJournalLocked_def pruneRetainedLogsLocked_def split: if_splits sum.splits option.splits prod.splits)

end
