(* ===== verification/Session.thy ===== *)
theory Session
  imports ReconcileProps
begin

text \<open>
  The life of a workload manager in a join session (\<^verbatim>\<open>join.go\<close> 113--155 and 286--349): it starts
  from the journal on a network that was set up, and then reconciles at each heartbeat, follows
  the gateway's hardware address, drains at shutdown and clears the network, in any order and with
  anything else that the session does in between.
\<close>

definition join_manager ::
  "string \<Rightarrow> string \<Rightarrow> string \<Rightarrow> int \<Rightarrow> bool \<Rightarrow> bool \<Rightarrow> bool \<Rightarrow> net_handle \<Rightarrow> manager" where
  "join_manager macker nodeIP stateDir ttl sudo peer debug h =
     (let m = newWorkloadManagerWithState (Some h) macker nodeIP stateDir in
      m\<lparr>wm_log_ttl := (if ttl > 0 then ttl else wm_log_ttl m), wm_sudo := sudo, wm_api := peer, wm_debug := debug\<rparr>)"

inductive manager_step :: "env \<Rightarrow> manager \<times> trace \<Rightarrow> manager \<times> trace \<Rightarrow> bool" for E where
  heartbeat: "reconcile E m pods tr = (r, m', tr') \<Longrightarrow> manager_step E (m, tr) (m', tr')"
| gateway: "wm_network m = Some h \<Longrightarrow> setGatewayMAC E h mac tr = (r, h', tr') \<Longrightarrow>
    manager_step E (m, tr) (m\<lparr>wm_network := Some h'\<rparr>, tr')"
| detach: "wm_network m = Some h \<Longrightarrow> net_cleanup E h tr = (r, h', tr') \<Longrightarrow> manager_step E (m, tr) (m\<lparr>wm_network := Some h'\<rparr>, tr')"
| drain: "manager_cleanup E m tr = (r, m', tr') \<Longrightarrow> manager_step E (m, tr) (m', tr')"
| elsewhere: "manager_step E (m, tr) (m, es @ tr)"

inductive session :: "env \<Rightarrow> manager \<times> trace \<Rightarrow> bool" for E where
  started: "setupDarwinNetwork E cfg vxlan peers mac tr0 = (Inr h, tr1) \<Longrightarrow>
    loadJournalLocked E (join_manager macker nodeIP stateDir ttl sudo peer debug h) tr2 = (None, m, tr3) \<Longrightarrow>
    session E (m, tr3)"
| proceeds: "session E x \<Longrightarrow> manager_step E x y \<Longrightarrow> session E y"

inductive_cases manager_stepE [elim]: "manager_step E (m, tr) (m', tr')"

lemma fresh_consistent: "net_inv h \<Longrightarrow> consistent (join_manager macker nodeIP stateDir ttl sudo peer debug h)"
  by (simp add: consistent_def join_manager_def newWorkloadManagerWithState_def Let_def)

lemma manager_step_consistent: "manager_step E x y \<Longrightarrow> consistent (fst x) \<Longrightarrow> consistent (fst y)"
proof (induction rule: manager_step.induct)
  case (heartbeat m pods tr r m' tr')
  then show ?case using reconcile_result by (metis fst_conv)
next
  case (gateway m h mac tr r h' tr')
  then have "net_inv h'" using setGatewayMAC_inv by (auto simp: consistent_def)
  then show ?case using gateway by (simp add: consistent_network)
next
  case (detach m h tr r h' tr')
  then have "net_inv h'" using net_cleanup_inv by (auto simp: consistent_def)
  then show ?case using detach by (simp add: consistent_network)
next
  case (drain m tr r m' tr')
  then show ?case using manager_cleanup_result by (metis fst_conv)
qed simp

lemma session_keeps: "session E x \<Longrightarrow> consistent (fst x)"
proof (induction rule: session.induct)
  case (started cfg vxlan peers mac tr0 h tr1 macker nodeIP stateDir ttl sudo peer debug tr2 m tr3)
  then show ?case
    using loadJournalLocked_consistent [OF started(2)] fresh_consistent setupDarwinNetwork_inv by simp
next
  case (proceeds x y)
  then show ?case by (blast intro: manager_step_consistent)
qed

text \<open>
  C1: in every state a session can reach, each map of the manager holds one record per UID, under
  that UID and with a container name; live records are not retained and retained ones are; and the
  network handle satisfies its own invariant.
\<close>

theorem session_consistent:
  assumes "session E (m, tr)"
  shows "consistent m"
  using session_keeps [OF assms] by simp

text \<open>
  C2: a reconciliation that reports no error leaves the manager owning workloads only for Pods of
  this pass that carry the native label and are not being deleted: everything else it owned has
  been removed.
\<close>

theorem reconcile_owns_assigned:
  assumes "session E (m, tr)" "order_ok E" "reconcile E m pods tr1 = (None, m', tr')"
  shows "fst ` set (wm_workloads m') \<subseteq> pod_key ` {pod \<in> set pods. to_run pod}"
  using reconcile_result [OF assms(3) session_keeps [OF assms(1), simplified]] assms(2) by simp

text \<open>
  C23: draining at shutdown either reports an error or leaves no live workload behind, and it never
  changes the configuration of the manager.
\<close>

theorem drain_empties:
  assumes "session E (m, tr)" "order_ok E" "manager_cleanup E m tr1 = (r, m', tr')"
  shows "(r = None \<longrightarrow> wm_workloads m' = []) \<and> same_config m m'"
  using manager_cleanup_result [OF assms(3) session_keeps [OF assms(1), simplified]] assms(2) by simp

section \<open>An example session\<close>

definition demo_config :: join_config where
  "demo_config = \<lparr>jc_server = [], jc_token = [], jc_token_file = [], jc_node_name = ''mac'', jc_node_ip = ''192.0.2.10'',
     jc_adopt = False, jc_external_ip = [], jc_state_dir = ''/var/maclet'', jc_insecure = False, jc_once = False, jc_vxlan_binary = [],
     jc_macker_binary = ''macker'', jc_debug = False, jc_dns_resolver = True,
     jc_dns_search_domains = False, jc_search_domain_list = [], jc_search_domain_service = [], jc_vxlan_remote = ''192.0.2.1'', jc_vxlan_local = [], jc_vxlan_gateway_mac = [],
     jc_peer_kubeconfig = [], jc_peer_context = [], jc_drain_timeout = 0, jc_log_ttl = 0, jc_vxlan_port = 8472, jc_vxlan_mtu = 1450, jc_cluster_cidr = ''10.42.0.0/16'', jc_service_cidr = ''10.43.0.0/16'',
     jc_cluster_cidr_set = False, jc_service_cidr_set = False, jc_use_sudo = True\<rparr>"

definition demo_vxlan :: vxlan_handle where
  "demo_vxlan = \<lparr>vx_bridge_cidr = ''10.42.7.0/29'', vx_bridge_name = ''bridge100'', vx_bridge_mac = []\<rparr>"

text \<open>A node whose journal names one workload, which has no Pod any more.\<close>

definition journal_env :: env where
  "journal_env = quiet_env\<lparr>e_fs := \<lambda>tr q. (case q of
       ReadFile p \<Rightarrow> FData (FJson (encode_journal quiet_env [demo_live]))
     | _ \<Rightarrow> e_fs quiet_env tr q)\<rparr>"

definition session_handle :: net_handle where
  "session_handle = \<lparr>nh_interface = ''bridge100'', nh_pod_cidr = ''10.42.7.0/29'', nh_gateway = ''10.42.7.2'',
     nh_gateway_mac = ''aa:bb:cc:dd:ee:ff'', nh_peers = [\<lparr>pg_pod_cidr = [], pg_gateway = ''10.42.7.2'',
       pg_mac = ''aa:bb:cc:dd:ee:ff'', pg_public_ip = ''192.0.2.1''\<rparr>],
     nh_arps = [\<lparr>ar_ip = ''10.42.7.2'', ar_mac = ''aa:bb:cc:dd:ee:ff''\<rparr>],
     nh_routes = [\<lparr>rt_network = ''10.42.0.0'', rt_netmask = ''255.255.0.0'', rt_gateway = ''10.42.7.2''\<rparr>,
       \<lparr>rt_network = ''10.43.0.0'', rt_netmask = ''255.255.0.0'', rt_gateway = ''10.42.7.2''\<rparr>],
     nh_aliases = [], nh_sudo = True\<rparr>"

definition session_manager :: manager where
  "session_manager = (join_manager ''macker'' ''192.0.2.10'' ''/var/maclet'' 0 True False False session_handle)
     \<lparr>wm_workloads := [(''u1'', demo_live\<lparr>mw_retry := None\<rparr>)]\<rparr>"

lemma session_setup:
  "\<exists>tr. setupDarwinNetwork journal_env demo_config demo_vxlan [] ''aa:bb:cc:dd:ee:ff'' [] = (Inr session_handle, tr)"
proof -
  have "fst (setupDarwinNetwork journal_env demo_config demo_vxlan [] ''aa:bb:cc:dd:ee:ff'' []) = Inr session_handle"
    by code_simp
  then show ?thesis by (metis prod.collapse)
qed

lemma session_load:
  "\<exists>tr. loadJournalLocked journal_env (join_manager ''macker'' ''192.0.2.10'' ''/var/maclet'' 0 True False False session_handle) [] =
    (None, session_manager, tr)"
proof -
  let ?r = "loadJournalLocked journal_env (join_manager ''macker'' ''192.0.2.10'' ''/var/maclet'' 0 True False False session_handle) []"
  have "fst ?r = None" "fst (snd ?r) = session_manager" by code_simp+
  then show ?thesis by (metis prod.collapse)
qed

lemma session_reached: "\<exists>tr. session journal_env (session_manager, tr)"
  using session_setup session_load session.started by blast

lemma session_consistent_witness:
  "consistent session_manager \<and> wm_workloads session_manager \<noteq> []"
proof -
  obtain tr where "session journal_env (session_manager, tr)" using session_reached by blast
  from session_consistent [OF this] show ?thesis by (simp add: session_manager_def)
qed

lemma journal_env_order: "order_ok journal_env"
  by (simp add: order_ok_def journal_env_def quiet_env_def)

lemma reconcile_owns_assigned_witness:
  "\<exists>m' tr tr'. reconcile journal_env session_manager [] tr = (None, m', tr') \<and> wm_workloads m' = []"
proof -
  have r0: "fst (reconcile journal_env session_manager [] []) = None" by code_simp
  obtain m' tr' where r: "reconcile journal_env session_manager [] [] = (None, m', tr')" using r0 by (metis prod.collapse)
  obtain tr where s: "session journal_env (session_manager, tr)" using session_reached by blast
  from reconcile_owns_assigned [OF s journal_env_order r] have "wm_workloads m' = []" by simp
  with r show ?thesis by blast
qed

lemma drain_empties_witness:
  "\<exists>m' tr'. manager_cleanup journal_env session_manager [] = (None, m', tr') \<and> wm_workloads m' = []"
proof -
  have "fst (manager_cleanup journal_env session_manager []) = None" by code_simp
  then obtain m' tr' where r: "manager_cleanup journal_env session_manager [] = (None, m', tr')" by (metis prod.collapse)
  obtain tr where s: "session journal_env (session_manager, tr)" using session_reached by blast
  from drain_empties [OF s journal_env_order r] r show ?thesis by blast
qed

end
