(* ===== verification/Bootstrap.thy ===== *)
theory Bootstrap
  imports Material NodeNames Manager
begin

text \<open>
  \<^verbatim>\<open>auth.go\<close> and \<^verbatim>\<open>bootstrap.go\<close>: the join token, the pinned CA of the cluster, the configuration that
  K3s gives its agents, and the first join or the return to a state that was kept.  The answers of
  \<^verbatim>\<open>K3s\<close> come as raw bytes; SHA-256, PEM and JSON are answers of the environment.
\<close>

section \<open>The token\<close>

definition readToken :: "env \<Rightarrow> string \<Rightarrow> string \<Rightarrow> (err + string) io" where
  "readToken E given file tr =
    (if given \<noteq> [] \<and> file \<noteq> [] then (Inl (EMsg ''use only one of --token and --token-file''), tr)
     else (case (if file = [] then (Inr given, tr)
         else (case (if file = ''-'' then (e_stdin E, tr) else read_bytes E file tr) of (r, tr) \<Rightarrow> (r, tr))) of
       (Inl e, tr) \<Rightarrow> (Inl (wrap ''read token file: '' e), tr)
     | (Inr found, tr) \<Rightarrow>
         (let token = trim_space (if found = [] then e_getenv E ''MACLET_TOKEN'' else found) in
          (if token = [] then Inl (EMsg ''cluster token is required (--token-file, --token, or MACLET_TOKEN)'') else Inr token, tr))))"

text \<open>The password of a token and the CA hash that it pins, if it is a full hash.\<close>

definition after_colon :: "string \<Rightarrow> string" where
  "after_colon s = (case str_cut CHR '':'' s of (p, q, found) \<Rightarrow> if found then q else s)"

definition split_token :: "string \<Rightarrow> string \<times> string" where
  "split_token token =
    (if \<not> has_prefix token ''K10'' then (token, [])
     else (case str_index token ''::'' of
        None \<Rightarrow> (token, [])
      | Some i \<Rightarrow> (drop (i + 2) token, if i \<ge> 3 + 64 then take 64 (drop 3 token) else [])))"

definition tokenPassword :: "string \<Rightarrow> err + string \<times> string" where
  "tokenPassword token = (case split_token token of (credentials, caHash) \<Rightarrow>
     (let password = after_colon credentials in
      if password = [] then Inl (EMsg ''cluster token does not contain a password'') else Inr (password, caHash)))"

section \<open>The CA of the cluster\<close>

text \<open>
  The request that is not authenticated by TLS.  The check \<^verbatim>\<open>rest == nil\<close> after \<^verbatim>\<open>pem.Decode\<close> never
  holds of a body that was read: with no PEM data in it, \<^verbatim>\<open>rest\<close> is the whole body.
\<close>

definition cluster_ca_error :: "err \<Rightarrow> err" where
  "cluster_ca_error e = (case as_http e of
       Some (code, status) \<Rightarrow> EMsg (''get cluster CA: HTTP '' @ itoa code @ '' '' @ status) | None \<Rightarrow> wrap ''get cluster CA: '' e)"

definition fetchCA :: "env \<Rightarrow> string \<Rightarrow> string \<Rightarrow> (err + string) io" where
  "fetchCA E server expectedHash tr = (case NormalizeServer E server of
       Inl e \<Rightarrow> (Inl e, tr)
     | Inr _ \<Rightarrow> (case call_raw E AnonymousClient GET ''/cacerts'' [] [] tr of
         (Inl e, tr) \<Rightarrow> (Inl (cluster_ca_error e), tr)
       | (Inr ca, tr) \<Rightarrow>
           (if expectedHash \<noteq> [] \<and> e_sha256_hex E ca \<noteq> expectedHash
            then Inl (EMsg (''cluster CA hash mismatch: token='' @ expectedHash @ '' server='' @ e_sha256_hex E ca))
            else Inr ca, tr)))"

section \<open>The configuration of an agent\<close>

text \<open>
  A network as \<^verbatim>\<open>encoding/json\<close> decodes it: an address, which may be absent, and the bytes of a mask
  in Base64.  An address is written with \<^verbatim>\<open>net.IP.String\<close>.
\<close>

definition ip6_groups :: "ipaddr \<Rightarrow> nat list" where
  "ip6_groups a = map (\<lambda>i. unat (take_bit 16 (drop_bit (16 * (7 - i)) a))) [0..<8]"

definition hex_group :: "nat \<Rightarrow> string" where
  "hex_group n = (let ds = map hex_digit [n div 4096, n div 256 mod 16, n div 16 mod 16, n mod 16];
       short = dropWhile (\<lambda>d. d = CHR ''0'') ds in if short = [] then ''0'' else short)"

definition zero_run :: "nat list \<Rightarrow> nat \<Rightarrow> nat" where
  "zero_run gs i = length (takeWhile (\<lambda>g. g = 0) (drop i gs))"

definition longest_run :: "nat list \<Rightarrow> nat \<times> nat" where
  "longest_run gs = fold (\<lambda>i (s, l). if zero_run gs i \<ge> 2 \<and> zero_run gs i > l then (i, zero_run gs i) else (s, l))
     [0..<length gs] (0, 0)"

definition ip6_string :: "ipaddr \<Rightarrow> string" where
  "ip6_string a = (let gs = ip6_groups a in case longest_run gs of (s, l) \<Rightarrow>
     if l = 0 then str_join '':'' (map hex_group gs)
     else str_join '':'' (map hex_group (take s gs)) @ ''::'' @ str_join '':'' (map hex_group (drop (s + l) gs)))"

definition ip_string :: "ipaddr \<Rightarrow> string" where
  "ip_string a = (case to4 a of Some w \<Rightarrow> ip4_string w | None \<Rightarrow> ip6_string a)"

record json_net =
  jn_ip :: "ipaddr option"
  jn_mask :: string

record k3s_config =
  k3_cluster_ranges :: "json_net option list"
  k3_cluster_range :: "json_net option"
  k3_service_ranges :: "json_net option list"
  k3_service_range :: "json_net option"
  k3_dns_list :: "ipaddr option list"
  k3_dns :: "ipaddr option"

definition decode_ip :: "json \<Rightarrow> ipaddr option option" where
  "decode_ip j = (case j of
       JNull \<Rightarrow> Some None
     | JStr s \<Rightarrow> if s = [] then Some None else (case parse_ip s of None \<Rightarrow> None | Some ip \<Rightarrow> Some (Some ip))
     | _ \<Rightarrow> None)"

definition decode_net :: "json \<Rightarrow> json_net option option" where
  "decode_net j = (if j = JNull then Some None else do {
     fs \<leftarrow> j_obj j; ip \<leftarrow> decode_ip (jget fs ''IP''); text_mask \<leftarrow> j_str (jget fs ''Mask''); mask \<leftarrow> base64_decode text_mask;
     Some (Some \<lparr>jn_ip = ip, jn_mask = mask\<rparr>) })"

definition decode_k3s_config :: "json \<Rightarrow> k3s_config option" where
  "decode_k3s_config j = do {
     fs \<leftarrow> j_obj j;
     cs \<leftarrow> j_list (jget fs ''ClusterIPRanges''); clusters \<leftarrow> all_some (map decode_net cs);
     cluster \<leftarrow> decode_net (jget fs ''ClusterIPRange'');
     ss \<leftarrow> j_list (jget fs ''ServiceIPRanges''); services \<leftarrow> all_some (map decode_net ss);
     service \<leftarrow> decode_net (jget fs ''ServiceIPRange'');
     ds \<leftarrow> j_list (jget fs ''ClusterDNSs''); dnss \<leftarrow> all_some (map decode_ip ds);
     dns \<leftarrow> decode_ip (jget fs ''ClusterDNS'');
     Some \<lparr>k3_cluster_ranges = clusters, k3_cluster_range = cluster, k3_service_ranges = services,
       k3_service_range = service, k3_dns_list = dnss, k3_dns = dns\<rparr> }"

text \<open>\<^verbatim>\<open>IPMask.Size\<close>: the ones and the bits, or 0 and 0 when the ones are not a prefix.\<close>

definition mask_bits :: "string \<Rightarrow> bool list" where
  "mask_bits m = concat (map (\<lambda>c. map (\<lambda>i. odd (byte c div 2 ^ (7 - i))) [0..<8]) m)"

definition mask_size :: "string \<Rightarrow> nat \<times> nat" where
  "mask_size m = (let bs = mask_bits m; ones = length (takeWhile id bs) in
     if True \<in> set (drop ones bs) then (0, 0) else (ones, length bs))"

definition v4_range :: "json_net option \<Rightarrow> string option" where
  "v4_range c = (case c of
       None \<Rightarrow> None
     | Some n \<Rightarrow> (case Option.bind (jn_ip n) to4 of
         None \<Rightarrow> None
       | Some w \<Rightarrow> (case mask_size (jn_mask n) of (ones, bits) \<Rightarrow>
           if bits \<noteq> 32 then None else Some (ip4_string w @ ''/'' @ show_nat ones))))"

definition firstIPv4CIDR :: "string \<Rightarrow> json_net option \<Rightarrow> json_net option list \<Rightarrow> err + string" where
  "firstIPv4CIDR name primary ranges =
    (let candidates = (if ranges = [] \<and> primary \<noteq> None then [primary] else ranges) in
     if candidates = [] then Inr []
     else (case List.find (\<lambda>c. v4_range c \<noteq> None) candidates of
        Some c \<Rightarrow> Inr (the (v4_range c))
      | None \<Rightarrow> Inl (EMsg (''K3s '' @ name @ '' configuration contains no IPv4 CIDR''))))"

fun dns_loop :: "string list \<Rightarrow> ipaddr option list \<Rightarrow> string list" where
  "dns_loop seen [] = []"
| "dns_loop seen (None # ips) = dns_loop seen ips"
| "dns_loop seen (Some ip # ips) = (let text_ip = ip_string ip in
     if parse_ip text_ip = None \<or> text_ip \<in> set seen then dns_loop seen ips else text_ip # dns_loop (text_ip # seen) ips)"

definition agent_config :: "k3s_config \<Rightarrow> err + string \<times> string \<times> string list" where
  "agent_config k = (case firstIPv4CIDR ''cluster'' (k3_cluster_range k) (k3_cluster_ranges k) of
       Inl e \<Rightarrow> Inl e
     | Inr cluster \<Rightarrow> (case firstIPv4CIDR ''service'' (k3_service_range k) (k3_service_ranges k) of
         Inl e \<Rightarrow> Inl e
       | Inr service \<Rightarrow>
           (let ips = (if k3_dns_list k = [] \<and> k3_dns k \<noteq> None then [k3_dns k] else k3_dns_list k); dns = dns_loop [] ips in
            if (k3_dns_list k \<noteq> [] \<or> k3_dns k \<noteq> None) \<and> dns = []
            then Inl (EMsg ''K3s cluster DNS configuration contains no usable IP address'') else Inr (cluster, service, dns))))"

definition decodeK3sAgentConfig :: "env \<Rightarrow> string \<Rightarrow> err + string \<times> string \<times> string list" where
  "decodeK3sAgentConfig E body = (case Option.bind (e_parse_json E body) decode_k3s_config of
       None \<Rightarrow> Inl (wrap ''decode k3s agent configuration: '' json_error)
     | Some k \<Rightarrow> agent_config k)"

section \<open>The address of the Node\<close>

definition host_v4 :: "ipaddr \<Rightarrow> bool" where
  "host_v4 a \<longleftrightarrow> (case to4 a of Some w \<Rightarrow> octet 0 w \<noteq> 127 | None \<Rightarrow> False)"

definition detectNodeIP :: "env \<Rightarrow> string \<Rightarrow> string io" where
  "detectNodeIP E server tr = (case e_underlay E server of
       Some ip \<Rightarrow> (ip, tr)
     | None \<Rightarrow> (case call_ifaces E tr of
         (Inl e, tr) \<Rightarrow> (''127.0.0.1'', tr)
       | (Inr is, tr) \<Rightarrow>
           (case List.find host_v4 (concat (map (\<lambda>i. case if_addrs i of Some as \<Rightarrow> as | None \<Rightarrow> []) is)) of
              Some a \<Rightarrow> ip_string a | None \<Rightarrow> ''127.0.0.1'', tr)))"

section \<open>The identity of a first join\<close>

definition hash_conflict :: "join_config \<Rightarrow> err" where
  "hash_conflict cfg = EMsg (''request kubelet client certificate: K3s already has a different node password for '' @ quote (jc_node_name cfg) @
     ''; reuse the original --state-dir '' @ quote (jc_state_dir cfg) @ '', or remove that Node and its kube-system/'' @
     jc_node_name cfg @ ''.node-password.k3s Secret before joining again'')"

definition is_hash_conflict :: "err \<Rightarrow> bool" where
  "is_hash_conflict e \<longleftrightarrow> (case as_http e of
       Some (code, body) \<Rightarrow> code = 403 \<and> str_contains body ''hash does not match'' | None \<Rightarrow> False)"

definition state_file :: "join_config \<Rightarrow> string \<Rightarrow> string" where
  "state_file cfg name = path_join [jc_state_dir cfg, name]"

text \<open>The configuration with the defaults of a first join (\<^verbatim>\<open>bootstrap.go\<close> 173--181).\<close>

definition with_addresses :: "env \<Rightarrow> join_config \<Rightarrow> join_config io" where
  "with_addresses E cfg tr =
    (case (if jc_node_ip cfg = [] then detectNodeIP E (jc_server cfg) tr else (jc_node_ip cfg, tr)) of (ip, tr) \<Rightarrow>
      (let cfg = cfg\<lparr>jc_node_ip := ip\<rparr>;
           external = (if jc_external_ip cfg \<noteq> [] then jc_external_ip cfg else if jc_vxlan_local cfg \<noteq> [] then jc_vxlan_local cfg else ip) in
       (cfg\<lparr>jc_external_ip := external\<rparr>, tr)))"

text \<open>The kubelet's client certificate, its key and the password it was asked for with.\<close>

definition request_identity :: "env \<Rightarrow> join_config \<Rightarrow> (err + string \<times> string \<times> string) io" where
  "request_identity E cfg tr = (case random_hex E 32 tr of
       (Inl e, tr) \<Rightarrow> (Inl e, tr)
     | (Inr password, tr) \<Rightarrow> (case key_request E (jc_node_name cfg) tr of
         (Inl e, tr) \<Rightarrow> (Inl e, tr)
       | (Inr (csr, key), tr) \<Rightarrow> (case Do E TokenClient POST ''/v1-k3s/client-kubelet.crt'' csr ''application/pkcs10''
             (node_headers (jc_node_name cfg) password (jc_node_ip cfg)) tr of
           (Inl e, tr) \<Rightarrow> (Inl (if is_hash_conflict e then hash_conflict cfg
             else wrap ''request kubelet client certificate: '' e), tr)
         | (Inr cert, tr) \<Rightarrow>
             (if map_option fst (e_pem E cert) \<noteq> Some ''CERTIFICATE'' then Inl (EMsg ''k3s returned an invalid client certificate'')
              else Inr (cert, key, password), tr))))"

fun write_files :: "env \<Rightarrow> (string \<times> string) list \<Rightarrow> err option io" where
  "write_files E [] tr = (None, tr)"
| "write_files E ((path, body) # files) tr = (case writePrivateFile E path (FBytes body) 384 tr of
       (Some e, tr) \<Rightarrow> (Some e, tr) | (None, tr) \<Rightarrow> write_files E files tr)"

definition identity_files :: "join_config \<Rightarrow> string \<Rightarrow> string \<Rightarrow> string \<Rightarrow> string \<Rightarrow> (string \<times> string) list" where
  "identity_files cfg ca cert key password = [(state_file cfg ''server-ca.crt'', ca), (state_file cfg ''client-kubelet.crt'', cert),
     (state_file cfg ''client-kubelet.key'', key), (state_file cfg ''node-password'', password @ [newline])]"

definition first_state :: "env \<Rightarrow> join_config \<Rightarrow> string \<Rightarrow> string \<times> string \<times> string list \<Rightarrow> local_state" where
  "first_state E cfg instance_id k = (case k of (cluster, service, dns) \<Rightarrow>
     \<lparr>st_version = 1, st_server = jc_server cfg, st_node_name = jc_node_name cfg, st_node_ip = jc_node_ip cfg,
      st_instance_id = instance_id, st_node_uid = [], st_external_ip = jc_external_ip cfg,
      st_peer_kubeconfig = expandPath E (jc_peer_kubeconfig cfg), st_peer_context = jc_peer_context cfg,
      st_ca_file = state_file cfg ''server-ca.crt'', st_client_cert = state_file cfg ''client-kubelet.crt'',
      st_client_key = state_file cfg ''client-kubelet.key'', st_client_ca = state_file cfg ''client-ca.crt'',
      st_controller_cert = state_file cfg ''client-k3s-controller.crt'', st_controller_key = state_file cfg ''client-k3s-controller.key'',
      st_cluster_cidr = cluster, st_service_cidr = service, st_cluster_dns = dns,
      st_serving_cert = state_file cfg ''serving-kubelet.crt'', st_serving_key = state_file cfg ''serving-kubelet.key'',
      st_password_file = state_file cfg ''node-password''\<rparr>)"

text \<open>The material of the controller and of the kubelet, and the node's own client.\<close>

definition finish_join :: "env \<Rightarrow> join_config \<Rightarrow> string \<Rightarrow> local_state \<Rightarrow> (err + local_state \<times> client_spec) io" where
  "finish_join E cfg ca s tr = (case ensureControllerClientMaterial E TokenClient s (state_path (jc_state_dir cfg)) tr of
       (Some e, s, tr) \<Rightarrow> (Inl e, tr)
     | (None, s, tr) \<Rightarrow> (case ensureKubeletServerMaterial E TokenClient s (state_path (jc_state_dir cfg)) (jc_node_name cfg) (jc_node_ip cfg) tr of
         (Some e, s, tr) \<Rightarrow> (Inl e, tr)
       | (None, s, tr) \<Rightarrow> (case NewClient E (st_server s) ca (st_client_cert s) (st_client_key s) (jc_insecure cfg) [] [] tr of
           (Inl e, tr) \<Rightarrow> (Inl e, tr)
         | (Inr spec, tr) \<Rightarrow> (Inr (s, spec), tr))))"

definition keep_identity ::
  "env \<Rightarrow> join_config \<Rightarrow> string \<Rightarrow> string \<times> string \<times> string list \<Rightarrow> string \<Rightarrow> string \<Rightarrow> string \<Rightarrow> (err + local_state \<times> client_spec) io" where
  "keep_identity E cfg ca k cert key password tr =
    (case write_files E (map_visit E (identity_files cfg ca cert key password)) tr of
       (Some e, tr) \<Rightarrow> (Inl e, tr)
     | (None, tr) \<Rightarrow> (case random_hex E 16 tr of
         (Inl e, tr) \<Rightarrow> (Inl (wrap ''generate maclet instance ID: '' e), tr)
       | (Inr instance_id, tr) \<Rightarrow> finish_join E cfg ca (first_state E cfg instance_id k) tr))"

text \<open>With the token's client: is the agent accepted, what is its configuration, who is it?\<close>

definition join_with_ca :: "env \<Rightarrow> join_config \<Rightarrow> string \<Rightarrow> (err + local_state \<times> client_spec) io" where
  "join_with_ca E cfg ca tr = (case Get E TokenClient ''/v1-k3s/readyz'' tr of
       (Inl e, tr) \<Rightarrow> (Inl (wrap ''authenticate with k3s agent token: '' e), tr)
     | (Inr _, tr) \<Rightarrow> (case Get E TokenClient ''/v1-k3s/config'' tr of
         (Inl e, tr) \<Rightarrow> (Inl (wrap ''retrieve k3s agent configuration: '' e), tr)
       | (Inr body, tr) \<Rightarrow> (case decodeK3sAgentConfig E body of
           Inl e \<Rightarrow> (Inl e, tr)
         | Inr k \<Rightarrow> (case with_addresses E cfg tr of (cfg, tr) \<Rightarrow>
             (case request_identity E cfg tr of
                (Inl e, tr) \<Rightarrow> (Inl e, tr)
              | (Inr (cert, key, password), tr) \<Rightarrow> keep_identity E cfg ca k cert key password tr)))))"

definition first_join :: "env \<Rightarrow> join_config \<Rightarrow> (err + local_state \<times> client_spec) io" where
  "first_join E cfg tr =
    (if jc_server cfg = [] then (Inl (EMsg ''--server is required for first join''), tr)
     else (let cfg = (if jc_node_name cfg = [] then cfg\<lparr>jc_node_name := defaultNodeName (e_hostname E)\<rparr> else cfg) in
       case readToken E (jc_token cfg) (jc_token_file cfg) tr of
         (Inl e, tr) \<Rightarrow> (Inl e, tr)
       | (Inr token, tr) \<Rightarrow> (case tokenPassword token of
           Inl e \<Rightarrow> (Inl e, tr)
         | Inr (password, expectedHash) \<Rightarrow> (case fetchCA E (jc_server cfg) expectedHash tr of
             (Inl e, tr) \<Rightarrow> (Inl e, tr)
           | (Inr ca, tr) \<Rightarrow> (case NewClient E (jc_server cfg) ca [] [] (jc_insecure cfg) ''node'' password tr of
               (Inl e, tr) \<Rightarrow> (Inl e, tr)
             | (Inr _, tr) \<Rightarrow> join_with_ca E cfg ca tr)))))"

section \<open>The return to a state that was kept\<close>

text \<open>A controller certificate that is missing is asked for when a token is given.\<close>

definition renew_controller :: "env \<Rightarrow> join_config \<Rightarrow> local_state \<Rightarrow> trace \<Rightarrow> err option \<times> local_state \<times> trace" where
  "renew_controller E cfg s tr = (case validPEMCertificateFile E (st_controller_cert s) tr of (valid, tr) \<Rightarrow>
     if valid \<or> jc_token cfg = [] \<and> jc_token_file cfg = [] then (None, s, tr)
     else (case readToken E (jc_token cfg) (jc_token_file cfg) tr of
        (Inl e, tr) \<Rightarrow> (Some e, s, tr)
      | (Inr token, tr) \<Rightarrow> (case tokenPassword token of
          Inl e \<Rightarrow> (Some e, s, tr)
        | Inr (password, _) \<Rightarrow> (case read_bytes E (st_ca_file s) tr of
            (Inl e, tr) \<Rightarrow> (Some (wrap ''read server CA for controller certificate: '' e), s, tr)
          | (Inr ca, tr) \<Rightarrow> (case NewClientWithMaterial E \<lparr>cs_server = st_server s, cs_ca = ca, cs_cert = [], cs_key = [],
                cs_insecure = jc_insecure cfg, cs_username = ''node'', cs_password = password, cs_token = []\<rparr> of
              Inl e \<Rightarrow> (Some e, s, tr)
            | Inr _ \<Rightarrow> ensureControllerClientMaterial E TokenClient s (state_path (jc_state_dir cfg)) tr)))))"

definition own_client :: "env \<Rightarrow> join_config \<Rightarrow> local_state \<Rightarrow> (err + client_spec) io" where
  "own_client E cfg s tr = (case read_bytes E (st_ca_file s) tr of (r, tr) \<Rightarrow>
     NewClient E (st_server s) (case r of Inl _ \<Rightarrow> [] | Inr ca \<Rightarrow> ca) (st_client_cert s) (st_client_key s) (jc_insecure cfg) [] [] tr)"

definition rejoin :: "env \<Rightarrow> join_config \<Rightarrow> local_state \<Rightarrow> (err + local_state \<times> client_spec) io" where
  "rejoin E cfg s tr = (case state_mismatch cfg s of
       Some e \<Rightarrow> (Inl e, tr)
     | None \<Rightarrow> (case ensureStateInstanceID E (e_random E tr 16) (state_path (jc_state_dir cfg)) s tr of
         (Some e, s, tr) \<Rightarrow> (Inl e, tr)
       | (None, s, tr) \<Rightarrow> (case own_client E cfg s tr of
           (Inl e, tr) \<Rightarrow> (Inl e, tr)
         | (Inr spec, tr) \<Rightarrow> (case ensureKubeletServerMaterial E NodeClient s (state_path (jc_state_dir cfg)) (st_node_name s) (st_node_ip s) tr of
             (Some e, s, tr) \<Rightarrow> (Inl e, tr)
           | (None, s, tr) \<Rightarrow> (case renew_controller E cfg s tr of
               (Some e, s, tr) \<Rightarrow> (Inl e, tr) | (None, s, tr) \<Rightarrow> (Inr (s, spec), tr))))))"

definition bootstrap :: "env \<Rightarrow> join_config \<Rightarrow> (err + local_state \<times> client_spec) io" where
  "bootstrap E cfg tr = (case fs_do E (MkdirAll (jc_state_dir cfg) 448) tr of
       (Some e, tr) \<Rightarrow> (Inl (wrap ''create state directory: '' e), tr)
     | (None, tr) \<Rightarrow> (case chownToInvokingUser E (jc_state_dir cfg) tr of
         (Some e, tr) \<Rightarrow> (Inl e, tr)
       | (None, tr) \<Rightarrow> (let path = state_path (jc_state_dir cfg) in case fs_read E path tr of
           (Inl e, tr) \<Rightarrow> if is_sentinel NotExist e then first_join E cfg tr else (Inl (wrap (''read '' @ path @ '': '') e), tr)
         | (Inr c, tr) \<Rightarrow> (case Option.bind (decode_content c) decode_state of
             None \<Rightarrow> (Inl (wrap (''decode '' @ path @ '': '') json_error), tr)
           | Some s \<Rightarrow> rejoin E cfg s tr))))"

end
