(* ===== verification/Ownership.thy ===== *)
theory Ownership
  imports NodeApi LocalState
begin

text \<open>
  \<^verbatim>\<open>ownership.go\<close>: a Node object belongs to the maclet instance whose ID it carries as an
  annotation.  \<open>ensureOwnedNode\<close> creates the Node or verifies that it may be used, and then
  completes its labels, annotations and taints with one patch.
\<close>

definition nodeOwnershipConflict :: "string \<Rightarrow> string \<Rightarrow> err" where
  "nodeOwnershipConflict name reason =
     EWrap [] (ESentinel NodeNameConflict ''Kubernetes Node name conflict'') ('': Node '' @ quote name @ '' '' @ reason)"

definition desiredOwnedNode :: "env \<Rightarrow> string \<Rightarrow> string \<Rightarrow> node" where
  "desiredOwnedNode E name instanceID =
     (desiredNode E name)\<lparr>n_meta := (n_meta (desiredNode E name))\<lparr>om_annotations := [(nodeInstanceAnnotation, instanceID)]\<rparr>\<rparr>"

definition incompatible :: "string \<Rightarrow> string \<Rightarrow> bool" where
  "incompatible value wanted \<longleftrightarrow> value \<noteq> [] \<and> value \<noteq> wanted"

definition validateAdoptableNode :: "env \<Rightarrow> node \<Rightarrow> string \<Rightarrow> err option" where
  "validateAdoptableNode E n name = (let labels = om_labels (n_meta n) in
     if incompatible (mget labels ''kubernetes.io/os'') ''darwin''
     then Some (nodeOwnershipConflict name (''has incompatible kubernetes.io/os label '' @ quote (mget labels ''kubernetes.io/os'')))
     else if incompatible (mget labels ''kubernetes.io/arch'') (e_goarch E)
     then Some (nodeOwnershipConflict name (''has incompatible kubernetes.io/arch label '' @ quote (mget labels ''kubernetes.io/arch'')))
     else if incompatible (mget labels managedLabelKey) ''true''
     then Some (nodeOwnershipConflict name (''has incompatible '' @ managedLabelKey @ '' label '' @ quote (mget labels managedLabelKey)))
     else None)"

definition verifyNodeOwnership :: "env \<Rightarrow> node \<Rightarrow> string \<Rightarrow> string \<Rightarrow> string \<Rightarrow> bool \<Rightarrow> err option" where
  "verifyNodeOwnership E n name instanceID expectedUID adopt =
    (let marker = mget (node_annotations n) nodeInstanceAnnotation; marked = mhas (node_annotations n) nodeInstanceAnnotation;
         uid = om_uid (n_meta n) in
     if node_name n \<noteq> name then Some (nodeOwnershipConflict name ''API returned a different Node'')
     else if marked \<and> marker \<noteq> instanceID
     then Some (nodeOwnershipConflict name (''has maclet instance marker '' @ quote marker @ '', expected '' @ quote instanceID))
     else if expectedUID \<noteq> [] \<and> uid = []
     then Some (nodeOwnershipConflict name ''has no UID to verify persisted ownership'')
     else if expectedUID \<noteq> [] \<and> uid \<noteq> expectedUID
     then Some (nodeOwnershipConflict name (''has UID '' @ quote uid @ '', expected persisted UID '' @ quote expectedUID))
     else if marked then None
     else if \<not> adopt
     then Some (nodeOwnershipConflict name
       ''is not marked as owned by this maclet instance; rerun once with --adopt to claim it'')
     else validateAdoptableNode E n name)"

definition persistNodeOwnership :: "env \<Rightarrow> local_state \<Rightarrow> string \<Rightarrow> node \<Rightarrow> trace \<Rightarrow> err option \<times> local_state \<times> trace" where
  "persistNodeOwnership E s path n tr =
    (if om_uid (n_meta n) = [] then (Some (nodeOwnershipConflict (st_node_name s) ''API returned no UID''), s, tr)
     else if st_node_uid s = om_uid (n_meta n) then (None, s, tr)
     else (let s = s\<lparr>st_node_uid := om_uid (n_meta n)\<rparr> in
       case writeLocalState E path s tr of
         (Some e, tr) \<Rightarrow> (Some (wrap ''persist Node UID: '' e), s, tr)
       | (None, tr) \<Rightarrow> (None, s, tr)))"

section \<open>Comparison of what is and what should be\<close>

definition stringMapEqual :: "strmap \<Rightarrow> strmap \<Rightarrow> bool" where
  "stringMapEqual left right \<longleftrightarrow> length left = length right \<and> list_all (\<lambda>(k, v). mget right k = v) left"

definition taint_equal :: "taint \<Rightarrow> taint \<Rightarrow> bool" where
  "taint_equal a b \<longleftrightarrow> tn_key a = tn_key b \<and> tn_value a = tn_value b \<and> tn_effect a = tn_effect b \<and> tn_added a = tn_added b"

definition taintsEqual :: "taint list \<Rightarrow> taint list \<Rightarrow> bool" where
  "taintsEqual left right \<longleftrightarrow> list_all2 taint_equal left right"

section \<open>Creating or claiming the Node\<close>

text \<open>The Node as the API server has it, and whether this call created it.\<close>

definition obtain_node :: "env \<Rightarrow> api_client \<Rightarrow> string \<Rightarrow> string \<Rightarrow> (err + kobj \<times> bool) io" where
  "obtain_node E c name instanceID tr = (case call_api E c GET (node_path name) None tr of
       (Inr k, tr) \<Rightarrow> (Inr (k, False), tr)
     | (Inl e, tr) \<Rightarrow>
         if \<not> http_code_is 404 e then (Inl e, tr)
         else (case call_api E c POST ''/api/v1/nodes'' (Some (JNode (desiredOwnedNode E name instanceID))) tr of
            (Inr k, tr) \<Rightarrow> (Inr (k, True), tr)
          | (Inl e, tr) \<Rightarrow>
              if \<not> http_code_is 409 e then (Inl (wrap (''create Node '' @ quote name @ '': '') e), tr)
              else (case call_api E c GET (node_path name) None tr of
                 (Inl e, tr) \<Rightarrow> (Inl (wrap (''refresh Node '' @ quote name @ '' after create conflict: '') e), tr)
               | (Inr k, tr) \<Rightarrow> (Inr (k, False), tr))))"

definition merged_labels :: "env \<Rightarrow> string \<Rightarrow> node \<Rightarrow> strmap" where
  "merged_labels E name n = overlay_map (om_labels (n_meta n)) (om_labels (n_meta (desiredNode E name)))"

definition merged_taints :: "node \<Rightarrow> taint list" where
  "merged_taints n = (if hasManagedTaint (ns_taints (n_spec n)) then ns_taints (n_spec n)
     else ns_taints (n_spec n) @ [managed_taint])"

definition merged_annotations :: "string \<Rightarrow> node \<Rightarrow> strmap" where
  "merged_annotations instanceID n = (if mget (node_annotations n) nodeInstanceAnnotation = []
     then mput (node_annotations n) nodeInstanceAnnotation instanceID else node_annotations n)"

definition owned_patch :: "env \<Rightarrow> string \<Rightarrow> string \<Rightarrow> node \<Rightarrow> json" where
  "owned_patch E name instanceID n = JObj [(''metadata'', JObj ([(''labels'', JMap (merged_labels E name n)),
       (''annotations'', JMap (merged_annotations instanceID n))] @
       omit_str ''resourceVersion'' (om_resource_version (n_meta n)))),
     (''spec'', JObj [(''taints'', JTaints (merged_taints n))])]"

definition needs_patch :: "env \<Rightarrow> string \<Rightarrow> string \<Rightarrow> node \<Rightarrow> bool" where
  "needs_patch E name instanceID n \<longleftrightarrow> \<not> stringMapEqual (om_labels (n_meta n)) (merged_labels E name n) \<or>
     \<not> stringMapEqual (node_annotations n) (merged_annotations instanceID n) \<or>
     \<not> taintsEqual (ns_taints (n_spec n)) (merged_taints n)"

text \<open>The response of the patch is decoded over the Node that was read.\<close>

definition complete_node :: "env \<Rightarrow> api_client \<Rightarrow> string \<Rightarrow> string \<Rightarrow> string \<Rightarrow> node \<Rightarrow> (err + node) io" where
  "complete_node E c name instanceID verifyUID n tr =
    (if \<not> needs_patch E name instanceID n then (Inr n, tr)
     else (case call_api E c PATCH (node_path name) (Some (owned_patch E name instanceID n)) tr of
        (Inl e, tr) \<Rightarrow> (Inl (wrap (''patch owned Node '' @ quote name @ '': '') e), tr)
      | (Inr k, tr) \<Rightarrow> (case decode_node (''decode patched Node '' @ quote name @ '': '') k of
          Inl e \<Rightarrow> (Inl e, tr)
        | Inr patched \<Rightarrow> (let n = overlay_node n patched in
            case verifyNodeOwnership E n name instanceID verifyUID False of
              Some e \<Rightarrow> (Inl e, tr) | None \<Rightarrow> (Inr n, tr)))))"

definition ensureOwnedNode ::
  "env \<Rightarrow> api_client \<Rightarrow> string \<Rightarrow> string \<Rightarrow> string \<Rightarrow> bool \<Rightarrow> (err + node) io" where
  "ensureOwnedNode E c name instanceID expectedUID adopt tr =
    (if instanceID = [] then (Inl (EMsg ''maclet instance ID is required for Node ownership''), tr)
     else (case obtain_node E c name instanceID tr of
        (Inl e, tr) \<Rightarrow> (Inl e, tr)
      | (Inr (k, created), tr) \<Rightarrow> (case decode_node (''decode Node '' @ quote name @ '': '') k of
          Inl e \<Rightarrow> (Inl e, tr)
        | Inr n \<Rightarrow> (let verifyUID = (if created then [] else expectedUID) in
            case verifyNodeOwnership E n name instanceID verifyUID adopt of
              Some e \<Rightarrow> (Inl e, tr)
            | None \<Rightarrow> complete_node E c name instanceID verifyUID n tr))))"

section \<open>What the checks mean\<close>

text \<open>The Node is ours, or it is unclaimed, compatible and to be adopted.\<close>

definition ours :: "string \<Rightarrow> string \<Rightarrow> node \<Rightarrow> bool" where
  "ours name instanceID n \<longleftrightarrow> node_name n = name \<and> map_of (node_annotations n) nodeInstanceAnnotation = Some instanceID"

definition adoptable :: "env \<Rightarrow> string \<Rightarrow> node \<Rightarrow> bool" where
  "adoptable E name n \<longleftrightarrow> node_name n = name \<and> map_of (node_annotations n) nodeInstanceAnnotation = None \<and>
     (\<forall>(k, v) \<in> set (om_labels (n_meta (desiredNode E name))). mget (om_labels (n_meta n)) k \<in> {[], v})"

definition uid_matches :: "string \<Rightarrow> node \<Rightarrow> bool" where
  "uid_matches expectedUID n \<longleftrightarrow> expectedUID = [] \<or> om_uid (n_meta n) = expectedUID"

lemma validate_iff:
  assumes "node_name n = name" "map_of (node_annotations n) nodeInstanceAnnotation = None"
  shows "validateAdoptableNode E n name = None \<longleftrightarrow> adoptable E name n"
proof -
  have "validateAdoptableNode E n name = None \<longleftrightarrow>
      \<not> incompatible (mget (om_labels (n_meta n)) ''kubernetes.io/os'') ''darwin'' \<and>
      \<not> incompatible (mget (om_labels (n_meta n)) ''kubernetes.io/arch'') (e_goarch E) \<and>
      \<not> incompatible (mget (om_labels (n_meta n)) managedLabelKey) ''true''"
    unfolding validateAdoptableNode_def Let_def check_None by simp
  then show ?thesis using assms by (auto simp: adoptable_def desiredNode_def incompatible_def)
qed

lemma verify_iff:
  "verifyNodeOwnership E n name instanceID expectedUID adopt = None \<longleftrightarrow>
     uid_matches expectedUID n \<and> (ours name instanceID n \<or> adopt \<and> adoptable E name n)"
proof (cases "node_name n = name \<and> uid_matches expectedUID n")
  case False
  then have "node_name n \<noteq> name \<or> (expectedUID \<noteq> [] \<and> om_uid (n_meta n) \<noteq> expectedUID)"
    by (auto simp: uid_matches_def)
  then have "verifyNodeOwnership E n name instanceID expectedUID adopt \<noteq> None"
    unfolding verifyNodeOwnership_def Let_def check_None by blast
  with False show ?thesis by (auto simp: ours_def adoptable_def)
next
  case True
  show ?thesis
  proof (cases "map_of (node_annotations n) nodeInstanceAnnotation")
    case None
    with True show ?thesis
      unfolding verifyNodeOwnership_def Let_def check_None by (auto simp: uid_matches_def ours_def validate_iff)
  next
    case (Some marker)
    with True show ?thesis
      unfolding verifyNodeOwnership_def Let_def check_None by (auto simp: uid_matches_def ours_def adoptable_def mget_def)
  qed
qed

lemma stringMapEqual_get: "stringMapEqual left right \<Longrightarrow> map_of left k = Some v \<Longrightarrow> mget right k = v"
  by (auto simp: stringMapEqual_def list_all_iff dest: map_of_SomeD)

lemma length_mput: "length (mput m k v) = (if mhas m k then length m else Suc (length m))"
  by (induction m) auto

lemma unmarked_needs_patch:
  "map_of (node_annotations n) nodeInstanceAnnotation = None \<Longrightarrow> needs_patch E name instanceID n"
  by (simp add: needs_patch_def stringMapEqual_def merged_annotations_def mget_def length_mput)

lemma overlay_map_nil [simp]: "overlay_map m [] = m"
  by (simp add: overlay_map_def)

section \<open>The requests of a claim\<close>

definition claim_request :: "env \<Rightarrow> api_client \<Rightarrow> string \<Rightarrow> string \<Rightarrow> event \<Rightarrow> bool" where
  "claim_request E c name instanceID e \<longleftrightarrow> (\<exists>r. e = EvApi c GET (node_path name) None r \<or>
     e = EvApi c POST ''/api/v1/nodes'' (Some (JNode (desiredOwnedNode E name instanceID))) r)"

definition created_by :: "api_client \<Rightarrow> event \<Rightarrow> bool" where
  "created_by c e \<longleftrightarrow> (\<exists>body k. e = EvApi c POST ''/api/v1/nodes'' body (Inr k))"

text \<open>
  A response that was obtained is the newest event; it counts as created exactly when it
  answered the POST.
\<close>

lemma obtain_node_result:
  assumes "obtain_node E c name instanceID tr = (r, tr')"
  shows "\<exists>es. tr' = es @ tr \<and> list_all (claim_request E c name instanceID) es \<and>
    (\<forall>k created. r = Inr (k, created) \<longrightarrow> (\<exists>m path body es'. es = EvApi c m path body (Inr k) # es' \<and>
      (created \<longleftrightarrow> (\<exists>e \<in> set es. created_by c e))))"
proof -
  let ?g = "e_api E tr c GET (node_path name) None"
  let ?tr1 = "EvApi c GET (node_path name) None ?g # tr"
  let ?pb = "Some (JNode (desiredOwnedNode E name instanceID))"
  let ?p = "e_api E ?tr1 c POST ''/api/v1/nodes'' ?pb"
  let ?tr2 = "EvApi c POST ''/api/v1/nodes'' ?pb ?p # ?tr1"
  note defs = obtain_node_def call_api_def Let_def claim_request_def created_by_def
  show ?thesis
  proof (cases ?g)
    case (Inr k)
    with assms show ?thesis by (intro exI [of _ "[EvApi c GET (node_path name) None ?g]"]) (auto simp: defs)
  next
    case g: (Inl e)
    show ?thesis
    proof (cases "http_code_is 404 e")
      case False
      with assms g show ?thesis by (intro exI [of _ "[EvApi c GET (node_path name) None ?g]"]) (auto simp: defs)
    next
      case e: True
      show ?thesis
      proof (cases ?p)
        case (Inr k)
        with assms g e show ?thesis
          by (intro exI [of _ "[EvApi c POST ''/api/v1/nodes'' ?pb ?p, EvApi c GET (node_path name) None ?g]"])
            (auto simp: defs)
      next
        case p: (Inl pe)
        show ?thesis
        proof (cases "http_code_is 409 pe")
          case False
          with assms g e p show ?thesis
            by (intro exI [of _ "[EvApi c POST ''/api/v1/nodes'' ?pb ?p, EvApi c GET (node_path name) None ?g]"])
              (auto simp: defs)
        next
          case pe: True
          obtain g2 where g2: "e_api E ?tr2 c GET (node_path name) None = g2" by blast
          with assms g e p pe show ?thesis
            by (intro exI [of _ "[EvApi c GET (node_path name) None g2, EvApi c POST ''/api/v1/nodes'' ?pb ?p,
                EvApi c GET (node_path name) None ?g]"]) (cases g2; auto simp: defs)
        qed
      qed
    qed
  qed
qed

lemma complete_node_result:
  assumes "complete_node E c name instanceID uid n tr = (r, tr')" and "uid_matches uid n"
    and "ours name instanceID n \<or> map_of (node_annotations n) nodeInstanceAnnotation = None"
  shows "\<exists>es. tr' = es @ tr \<and> (es = [] \<or> (\<exists>resp. es = [EvApi c PATCH (node_path name) (Some (owned_patch E name instanceID n)) resp])) \<and>
    (\<forall>n'. r = Inr n' \<longrightarrow> ours name instanceID n' \<and> uid_matches uid n')"
proof (cases "needs_patch E name instanceID n")
  case False
  then have "ours name instanceID n" using assms(3) unmarked_needs_patch by blast
  with False assms show ?thesis by (auto simp: complete_node_def)
next
  case True
  let ?b = "Some (owned_patch E name instanceID n)"
  let ?p = "e_api E tr c PATCH (node_path name) ?b"
  have "tr' = [EvApi c PATCH (node_path name) ?b ?p] @ tr"
    using assms(1) True by (auto simp: complete_node_def call_api_def Let_def split: sum.splits option.splits)
  moreover have "ours name instanceID n' \<and> uid_matches uid n'" if "r = Inr n'" for n'
    using assms(1) True that
    by (auto simp: complete_node_def call_api_def Let_def verify_iff split: sum.splits option.splits)
  ultimately show ?thesis by blast
qed

lemma ensureOwnedNode_cases:
  assumes "ensureOwnedNode E c name instanceID expectedUID adopt tr = (r, tr')"
  obtains (refused) es where "tr' = es @ tr" "list_all (claim_request E c name instanceID) es" "\<And>n. r \<noteq> Inr n"
  | (used) es n created es' m path body ps uid where
      "tr' = ps @ es @ tr" "list_all (claim_request E c name instanceID) es" "es = EvApi c m path body (Inr (KNode n)) # es'"
      "created \<longleftrightarrow> (\<exists>e \<in> set es. created_by c e)" "uid = (if created then [] else expectedUID)" "uid_matches uid n"
      "ours name instanceID n \<or> adopt \<and> adoptable E name n"
      "ps = [] \<or> (\<exists>resp. ps = [EvApi c PATCH (node_path name) (Some (owned_patch E name instanceID n)) resp])"
      "\<And>n'. r = Inr n' \<Longrightarrow> ours name instanceID n' \<and> uid_matches uid n'"
proof (cases "instanceID = []")
  case True
  then have "r = Inl (EMsg ''maclet instance ID is required for Node ownership'')" "tr' = tr"
    using assms by (simp_all add: ensureOwnedNode_def)
  then show ?thesis using refused [of "[]"] by simp
next
  case False
  obtain o1 tr1 where o: "obtain_node E c name instanceID tr = (o1, tr1)" by force
  from obtain_node_result [OF o] obtain es where es: "tr1 = es @ tr" "list_all (claim_request E c name instanceID) es"
    and k: "\<And>k created. o1 = Inr (k, created) \<Longrightarrow> \<exists>m path body es'. es = EvApi c m path body (Inr k) # es' \<and>
      (created \<longleftrightarrow> (\<exists>e \<in> set es. created_by c e))" by blast
  show ?thesis
  proof (cases "\<exists>n created. o1 = Inr (KNode n, created) \<and>
      verifyNodeOwnership E n name instanceID (if created then [] else expectedUID) adopt = None")
    case True
    then obtain n created where n: "o1 = Inr (KNode n, created)"
      and v: "verifyNodeOwnership E n name instanceID (if created then [] else expectedUID) adopt = None" by blast
    define uid where "uid = (if created then [] else expectedUID)"
    have c: "complete_node E c name instanceID uid n tr1 = (r, tr')"
      using assms False o n v by (simp add: ensureOwnedNode_def decode_node_def uid_def Let_def)
    have ok: "uid_matches uid n" "ours name instanceID n \<or> adopt \<and> adoptable E name n"
      using v by (simp_all add: uid_def verify_iff)
    then have "ours name instanceID n \<or> map_of (node_annotations n) nodeInstanceAnnotation = None"
      by (auto simp: adoptable_def)
    from complete_node_result [OF c ok(1) this] obtain ps where ps: "tr' = ps @ tr1"
      "ps = [] \<or> (\<exists>resp. ps = [EvApi c PATCH (node_path name) (Some (owned_patch E name instanceID n)) resp])"
      "\<And>n'. r = Inr n' \<Longrightarrow> ours name instanceID n' \<and> uid_matches uid n'" by blast
    from k [OF n] obtain m path body es' where h: "es = EvApi c m path body (Inr (KNode n)) # es'"
      "created \<longleftrightarrow> (\<exists>e \<in> set es. created_by c e)" by blast
    show ?thesis by (rule used [of ps es m path body n es' created uid]) (use ps es h ok uid_def in auto)
  next
    case False
    with assms o \<open>instanceID \<noteq> []\<close> es have "tr' = es @ tr" "\<And>n. r \<noteq> Inr n"
      by (auto simp: ensureOwnedNode_def decode_node_def Let_def split: sum.splits prod.splits kobj.splits option.splits)
    with es refused show ?thesis by blast
  qed
qed

text \<open>
  A Node that the claim returns has the requested name, carries this instance's marker, and
  has the persisted UID unless this very call created it.
\<close>

theorem owned_node_result:
  assumes "ensureOwnedNode E c name instanceID expectedUID adopt tr = (Inr n, es @ tr)"
  shows "node_name n = name \<and> map_of (node_annotations n) nodeInstanceAnnotation = Some instanceID \<and>
    (uid_matches expectedUID n \<or> (\<exists>e \<in> set es. created_by c e))"
  using assms by (cases rule: ensureOwnedNode_cases) (auto simp: ours_def split: if_splits)

section \<open>The history of a claim\<close>






section \<open>Two claims\<close>


definition first_join_env :: env where
  "first_join_env = quiet_env\<lparr>e_api := \<lambda>_ _ m _ _. if m = POST
     then Inr (KNode (desiredOwnedNode quiet_env ''mac'' ''id1'')) else Inl (EHttp 404 [])\<rparr>"


lemma owned_node_result_witness:
  "\<exists>n es. ensureOwnedNode first_join_env NodeClient ''mac'' ''id1'' ''old'' False [] = (Inr n, es @ []) \<and>
    map_of (node_annotations n) nodeInstanceAnnotation = Some ''id1'' \<and> (uid_matches ''old'' n \<or> (\<exists>e \<in> set es. created_by NodeClient e))"
proof -
  have "case ensureOwnedNode first_join_env NodeClient ''mac'' ''id1'' ''old'' False [] of (Inr n, _) \<Rightarrow> True | _ \<Rightarrow> False"
    by code_simp
  then obtain n es where r: "ensureOwnedNode first_join_env NodeClient ''mac'' ''id1'' ''old'' False [] = (Inr n, es @ [])"
    by (auto split: sum.splits prod.splits)
  with owned_node_result [OF r] show ?thesis by blast
qed


end
