(* ===== verification/Partial.thy ===== *)
theory Partial
  imports Effects
begin

text \<open>
  The logic of effects for operations that may not return: \<open>may_emit P f\<close> says that if \<open>f\<close> returns, it
  only extended the trace, by events that satisfy \<open>P\<close>.  A property of this form of a partial function
  is proved from its body with the rules \<open>partial_intros\<close>, under the hypothesis for the recursive call.
\<close>

named_theorems partial_intros \<open>rules for the events of a partial operation\<close>

abbreviation anything :: "event \<Rightarrow> bool" where
  "anything \<equiv> \<lambda>_. True"

definition may_emit :: "(event \<Rightarrow> bool) \<Rightarrow> (trace \<Rightarrow> ('a \<times> trace) option) \<Rightarrow> bool" where
  "may_emit P f \<longleftrightarrow> (\<forall>tr x tr'. f tr = Some (x, tr') \<longrightarrow> (\<exists>es. tr' = es @ tr \<and> list_all P es))"

definition extends :: "(event \<Rightarrow> bool) \<Rightarrow> trace \<Rightarrow> 'a \<times> trace \<Rightarrow> bool" where
  "extends P tr x \<longleftrightarrow> (\<exists>es. snd x = es @ tr \<and> list_all P es)"

lemma may_emitD: "may_emit P f \<Longrightarrow> f tr = Some (x, tr') \<Longrightarrow> \<exists>es. tr' = es @ tr \<and> list_all P es"
  by (simp add: may_emit_def)

lemma may_emit_extends: "may_emit P f \<longleftrightarrow> (\<forall>tr x. f tr = Some x \<longrightarrow> extends P tr x)"
  by (force simp: may_emit_def extends_def)

lemma may_emitI: "(\<And>tr x. f tr = Some x \<Longrightarrow> extends P tr x) \<Longrightarrow> may_emit P f"
  by (simp add: may_emit_extends)

text \<open>In an induction over a partial function: from its body to the value it returned.\<close>

lemma extends_body: "f tr = Some x \<Longrightarrow> may_emit P f \<Longrightarrow> extends P tr x"
  by (simp only: may_emit_extends)

lemma may_emit_mono: "may_emit P f \<Longrightarrow> (\<And>e. P e \<Longrightarrow> Q e) \<Longrightarrow> may_emit Q f"
  unfolding may_emit_def by (metis list.pred_mono_strong)

section \<open>Sequencing\<close>

lemma may_emit_return [partial_intros]: "may_emit P (\<lambda>tr. Some (c, tr))" "may_emit P (\<lambda>tr. None)"
  by (simp_all add: may_emit_def)

lemma may_emit_total [partial_intros]: "emits P f \<Longrightarrow> may_emit P (\<lambda>tr. Some (f tr))"
  by (auto simp: may_emit_def dest: emitsD)

lemma may_emit_bind [partial_intros]:
  "emits P f \<Longrightarrow> (\<And>x. may_emit P (g x)) \<Longrightarrow> may_emit P (\<lambda>tr. case f tr of (x, tr') \<Rightarrow> g x tr')"
  unfolding may_emit_def emits_def by (simp add: case_prod_beta) (metis append_assoc list_all_append)

lemma may_emit_bind3 [partial_intros]:
  "emits3 P f \<Longrightarrow> (\<And>x s. may_emit P (g x s)) \<Longrightarrow> may_emit P (\<lambda>tr. case f tr of (x, s, tr') \<Rightarrow> g x s tr')"
  unfolding may_emit_def emits3_def by (simp add: case_prod_beta) (metis append_assoc list_all_append)

lemma may_emit_option_bind [partial_intros]:
  assumes "may_emit P f" "\<And>x. may_emit P (g x)"
  shows "may_emit P (\<lambda>tr. Option.bind (f tr) (\<lambda>(x, tr'). g x tr'))"
  unfolding may_emit_def
proof (intro allI impI)
  fix tr y tr'
  assume "Option.bind (f tr) (\<lambda>(x, tr'). g x tr') = Some (y, tr')"
  then obtain x tr1 where step: "f tr = Some (x, tr1)" "g x tr1 = Some (y, tr')"
    by (auto simp: Option.bind_eq_Some_conv)
  from may_emitD [OF assms(1) step(1)] may_emitD [OF assms(2) step(2)]
  show "\<exists>es. tr' = es @ tr \<and> list_all P es" by (metis append_assoc list_all_append)
qed

lemma may_emit_option_case [partial_intros]:
  assumes "may_emit P f" "\<And>x. may_emit P (g x)"
  shows "may_emit P (\<lambda>tr. case f tr of None \<Rightarrow> None | Some (x, tr') \<Rightarrow> g x tr')"
proof -
  have "(\<lambda>tr. case f tr of None \<Rightarrow> None | Some (x, tr') \<Rightarrow> g x tr') = (\<lambda>tr. Option.bind (f tr) (\<lambda>(x, tr'). g x tr'))"
    by (rule ext) (simp split: option.split)
  with may_emit_option_bind [OF assms] show ?thesis by simp
qed

lemma may_emit_after:
  assumes "emits P (\<lambda>tr. ((), h tr))" "may_emit P g"
  shows "may_emit P (\<lambda>tr. g (h tr))"
  unfolding may_emit_def
proof (intro allI impI)
  fix tr x tr'
  assume "g (h tr) = Some (x, tr')"
  from may_emitD [OF assms(2) this] emitsD [OF assms(1), of tr "()" "h tr"]
  show "\<exists>es. tr' = es @ tr \<and> list_all P es" by (metis append_assoc list_all_append)
qed

section \<open>Cases\<close>

lemma may_emit_cond [partial_intros]:
  "(c \<Longrightarrow> may_emit P f) \<Longrightarrow> (\<not> c \<Longrightarrow> may_emit P g) \<Longrightarrow> may_emit P (\<lambda>tr. if c then f tr else g tr)"
  by (cases c) auto

lemma may_emit_option [partial_intros]:
  "(x = None \<Longrightarrow> may_emit P f) \<Longrightarrow> (\<And>y. x = Some y \<Longrightarrow> may_emit P (g y)) \<Longrightarrow>
    may_emit P (\<lambda>tr. case x of None \<Rightarrow> f tr | Some y \<Rightarrow> g y tr)"
  by (cases x) auto

lemma may_emit_sum [partial_intros]:
  "(\<And>a. x = Inl a \<Longrightarrow> may_emit P (f a)) \<Longrightarrow> (\<And>b. x = Inr b \<Longrightarrow> may_emit P (g b)) \<Longrightarrow>
    may_emit P (\<lambda>tr. case x of Inl a \<Rightarrow> f a tr | Inr b \<Rightarrow> g b tr)"
  by (cases x) auto

lemma may_emit_pair [partial_intros]:
  "(\<And>a b. x = (a, b) \<Longrightarrow> may_emit P (f a b)) \<Longrightarrow> may_emit P (\<lambda>tr. case x of (a, b) \<Rightarrow> f a b tr)"
  by (cases x) auto

lemma emits3_bool [emits_intros]:
  "(c \<Longrightarrow> emits3 P f) \<Longrightarrow> (\<not> c \<Longrightarrow> emits3 P g) \<Longrightarrow>
    emits3 P (\<lambda>tr. case c of True \<Rightarrow> f tr | False \<Rightarrow> g tr)"
  by (cases c) auto

text \<open>A match on a triple that looks at its first part first.\<close>

lemma case_swap:
  "(case x of None \<Rightarrow> (case p of (s, t) \<Rightarrow> f s t) | Some y \<Rightarrow> (case p of (s, t) \<Rightarrow> g y s t)) =
     (case p of (s, t) \<Rightarrow> (case x of None \<Rightarrow> f s t | Some y \<Rightarrow> g y s t))"
  "(case z of Inl a \<Rightarrow> (case p of (s, t) \<Rightarrow> h a s t) | Inr b \<Rightarrow> (case p of (s, t) \<Rightarrow> k b s t)) =
     (case p of (s, t) \<Rightarrow> (case z of Inl a \<Rightarrow> h a s t | Inr b \<Rightarrow> k b s t))"
  by (simp_all split: option.split sum.split prod.split)

text \<open>The clock of the trace: a sleep, a signal or another event that is simply recorded.\<close>

lemma emits_event [partial_intros]: "P e \<Longrightarrow> emits P (\<lambda>tr. ((), e # tr))"
  by (simp add: emits_def)

end
