(* ===== verification/Supervisor.thy ===== *)
theory Supervisor
  imports NodeStatus Partial
begin

text \<open>
  \<^verbatim>\<open>supervisor.go\<close>: a session that ends with a transient failure of the control plane is started
  again after a delay that doubles up to a minute; any other failure ends the daemon.  The session
  is an argument, as it is in the code, and so are the moments at which the context has been
  cancelled, before and during a wait.  A session may run forever, and so may the loop over sessions,
  which is a partial function.
\<close>

abbreviation joinRetryInitial :: int where
  "joinRetryInitial \<equiv> one_second"

abbreviation joinRetryMax :: int where
  "joinRetryMax \<equiv> 60 * one_second"

abbreviation joinRetryResetAfter :: int where
  "joinRetryResetAfter \<equiv> 30 * one_second"

text \<open>The loop that doubles the delay, over the rounds that \<open>i\<close> has left.\<close>

fun delay_loop :: "nat \<Rightarrow> int \<Rightarrow> int" where
  "delay_loop 0 delay = delay"
| "delay_loop (Suc rounds) delay = (if delay < joinRetryMax then delay_loop rounds (delay * 2) else delay)"

definition joinRetryDelay :: "int \<Rightarrow> int" where
  "joinRetryDelay attempt = (let attempt = (if attempt < 0 then 0 else attempt);
       delay = delay_loop (nat attempt) joinRetryInitial in
     if delay > joinRetryMax then joinRetryMax else delay)"

definition retryableJoinError :: "err option \<Rightarrow> bool" where
  "retryableJoinError r = (case r of
       None \<Rightarrow> False
     | Some e \<Rightarrow>
         if is_sentinel Canceled e then False
         else if is_sentinel PodCIDRUnavailable e then True
         else if is_sentinel DeadlineExceeded e then True
         else (case as_http e of
             Some (code, _) \<Rightarrow> code = 408 \<or> code = 425 \<or> code = 429 \<or> code \<ge> 500
           | None \<Rightarrow> if is_net_error e then True else is_sentinel EndOfFile e))"

definition reset_attempt :: "env \<Rightarrow> int \<Rightarrow> gotime \<Rightarrow> int \<Rightarrow> int io" where
  "reset_attempt E resetAfter started attempt tr =
    (if resetAfter > 0 then (case time_now E tr of (now, tr) \<Rightarrow> (if now - started \<ge> resetAfter then 0 else attempt, tr))
     else (attempt, tr))"

text \<open>A session: its result, if it ends.\<close>

type_synonym session_run = "trace \<Rightarrow> (err option \<times> trace) option"

partial_function (option) superviseJoinWithResetAfter ::
  "env \<Rightarrow> session_run \<Rightarrow> (trace \<Rightarrow> bool) \<Rightarrow> (trace \<Rightarrow> bool) \<Rightarrow> (int \<Rightarrow> int) \<Rightarrow> int \<Rightarrow> int \<Rightarrow> trace \<Rightarrow> (err option \<times> trace) option" where
  "superviseJoinWithResetAfter E session cancelled interrupted retryDelay resetAfter attempt tr =
    (case time_now E tr of (started, tr) \<Rightarrow> Option.bind (session tr) (\<lambda>(r, tr).
       if r = None \<or> cancelled tr then Some (None, tr)
       else if \<not> retryableJoinError r then Some (r, tr)
       else (case reset_attempt E resetAfter started attempt tr of (attempt, tr) \<Rightarrow>
         (let tr = go_sleep (retryDelay attempt) tr in
          if interrupted tr then Some (None, tr)
          else superviseJoinWithResetAfter E session cancelled interrupted retryDelay resetAfter (attempt + 1) tr))))"

definition superviseJoin ::
  "env \<Rightarrow> session_run \<Rightarrow> (trace \<Rightarrow> bool) \<Rightarrow> (trace \<Rightarrow> bool) \<Rightarrow> trace \<Rightarrow> (err option \<times> trace) option" where
  "superviseJoin E session cancelled interrupted =
     superviseJoinWithResetAfter E session cancelled interrupted joinRetryDelay joinRetryResetAfter 0"

section \<open>The delays\<close>

lemma delay_loop_closed:
  "0 < d \<Longrightarrow> (d < 2 * joinRetryMax) \<Longrightarrow> min joinRetryMax (delay_loop n d) = min joinRetryMax (2 ^ n * d)"
proof (induction n d rule: delay_loop.induct)
  case (2 rounds delay)
  show ?case
  proof (cases "delay < joinRetryMax")
    case True
    with 2 show ?thesis by (simp add: mult.assoc mult.commute mult.left_commute)
  next
    case False
    have "(1::int) \<le> 2 ^ Suc rounds" by (rule one_le_power) simp
    then have "delay * 1 \<le> delay * 2 ^ Suc rounds" using 2(2) by (intro mult_left_mono) simp_all
    with False show ?thesis by (simp add: mult.commute)
  qed
qed simp

lemma joinRetryDelay_closed: "joinRetryDelay a = min joinRetryMax (2 ^ nat a * joinRetryInitial)"
proof -
  have "joinRetryDelay a = min joinRetryMax (delay_loop (nat a) joinRetryInitial)"
    by (auto simp: joinRetryDelay_def Let_def min_def)
  with delay_loop_closed [of joinRetryInitial "nat a"] show ?thesis by (simp add: one_second_def)
qed

lemma joinRetryDelay_range: "joinRetryInitial \<le> joinRetryDelay a \<and> joinRetryDelay a \<le> joinRetryMax"
proof -
  have "(1::int) \<le> 2 ^ nat a" by simp
  then show ?thesis unfolding joinRetryDelay_closed one_second_def by linarith
qed

lemma joinRetryDelay_mono: "a \<le> b \<Longrightarrow> joinRetryDelay a \<le> joinRetryDelay b"
proof -
  assume "a \<le> b"
  then have "(2::int) ^ nat a \<le> 2 ^ nat b" by (intro power_increasing) simp_all
  then show ?thesis unfolding joinRetryDelay_closed one_second_def by linarith
qed

section \<open>The loop\<close>

lemma reset_attempt_now:
  obtains a now where "reset_attempt E resetAfter started attempt tr = (a, now @ tr)" "now = [] \<or> (\<exists>t. now = [EvNow t])"
proof (cases "resetAfter > 0")
  case True
  then show thesis by (intro that [of _ "[EvNow (e_now E tr)]"]) (auto simp: reset_attempt_def time_now_def Let_def)
qed (auto simp: reset_attempt_def intro: that [of attempt "[]"])

definition paced :: "(event \<Rightarrow> bool) \<Rightarrow> event \<Rightarrow> bool" where
  "paced P e \<longleftrightarrow> P e \<or> (\<exists>t. e = EvNow t) \<or>
     (\<exists>d. e = EvSleep d \<and> joinRetryInitial \<le> d \<and> d \<le> joinRetryMax)"

definition paced_result :: "(event \<Rightarrow> bool) \<Rightarrow> trace \<Rightarrow> err option \<times> trace \<Rightarrow> bool" where
  "paced_result P tr x \<longleftrightarrow> (\<exists>es. snd x = es @ tr \<and> list_all (paced P) es) \<and> \<not> retryableJoinError (fst x)"

lemma paced_result_later:
  "paced_result P (new @ tr) x \<Longrightarrow> list_all (paced P) new \<Longrightarrow> paced_result P tr x"
  unfolding paced_result_def by (metis append_assoc list_all_append)

lemma supervise_paced:
  assumes "superviseJoinWithResetAfter E session cancelled interrupted retryDelay resetAfter attempt tr = Some x"
  shows "may_emit P session \<longrightarrow> retryDelay = joinRetryDelay \<longrightarrow> paced_result P tr x"
proof (rule superviseJoinWithResetAfter.raw_induct
    [where P = "\<lambda>E session cancelled interrupted retryDelay resetAfter attempt tr x.
        may_emit P session \<longrightarrow> retryDelay = joinRetryDelay \<longrightarrow> paced_result P tr x", OF _ assms], rule impI, rule impI)
  fix f E cancelled interrupted resetAfter attempt tr x
    and session :: session_run and retryDelay :: "int \<Rightarrow> int"
  assume hyp: "\<And>E session cancelled interrupted retryDelay resetAfter attempt tr x.
      f E session cancelled interrupted retryDelay resetAfter attempt tr = Some x \<Longrightarrow>
      may_emit P session \<longrightarrow> retryDelay = joinRetryDelay \<longrightarrow> paced_result P tr x"
    and run: "(case time_now E tr of (started, tr) \<Rightarrow> Option.bind (session tr) (\<lambda>(r, tr).
        if r = None \<or> cancelled tr then Some (None, tr)
        else if \<not> retryableJoinError r then Some (r, tr)
        else case reset_attempt E resetAfter started attempt tr of (attempt, tr) \<Rightarrow>
          let tr = go_sleep (retryDelay attempt) tr in
          if interrupted tr then Some (None, tr)
          else f E session cancelled interrupted retryDelay resetAfter (attempt + 1) tr)) = Some x"
    and P: "may_emit P session" and d: "retryDelay = joinRetryDelay"
  let ?tr0 = "EvNow (e_now E tr) # tr"
  obtain s tr1 where s0: "session ?tr0 = Some (s, tr1)"
    using run by (auto simp: time_now_def Let_def Option.bind_eq_Some_conv)
  with may_emitD [OF P this] obtain es where s: "session ?tr0 = Some (s, es @ ?tr0)" "list_all P es" by auto
  then have es: "list_all (paced P) (es @ [EvNow (e_now E tr)])" by (auto simp: list_all_iff paced_def)
  obtain a now where reset: "reset_attempt E resetAfter (e_now E tr) attempt (es @ ?tr0) = (a, now @ es @ ?tr0)"
    and now: "now = [] \<or> (\<exists>t. now = [EvNow t])" by (rule reset_attempt_now)
  define new where "new = EvSleep (joinRetryDelay a) # now @ es @ [EvNow (e_now E tr)]"
  have new: "list_all (paced P) new"
    using now es joinRetryDelay_range [of a] by (auto simp: new_def paced_def)
  consider "s = None \<or> cancelled (es @ ?tr0)" "x = (None, es @ ?tr0)" | "\<not> retryableJoinError s" "x = (s, es @ ?tr0)"
    | "x = (None, new @ tr)" | "f E session cancelled interrupted retryDelay resetAfter (a + 1) (new @ tr) = Some x"
  proof -
    have "(if s = None \<or> cancelled (es @ ?tr0) then Some (None, es @ ?tr0)
        else if \<not> retryableJoinError s then Some (s, es @ ?tr0)
        else if interrupted (new @ tr) then Some (None, new @ tr)
        else f E session cancelled interrupted retryDelay resetAfter (a + 1) (new @ tr)) = Some x"
      using run by (simp add: time_now_def Let_def go_sleep_def new_def s(1) reset d cong: if_cong)
    then show thesis using that by (metis option.inject)
  qed
  then show "paced_result P tr x"
  proof cases
    case 1
    with es show ?thesis by (auto simp: paced_result_def retryableJoinError_def)
  next
    case 2
    with es show ?thesis by (auto simp: paced_result_def)
  next
    case 3
    with new show ?thesis by (auto simp: paced_result_def retryableJoinError_def)
  next
    case 4
    from hyp [OF this] P d new show ?thesis by (blast intro: paced_result_later)
  qed
qed

text \<open>
  The daemon gives up only on a failure that no retry would cure, and all it adds to its
  sessions are readings of the clock and waits of at least a second and at most a minute, whatever
  the number of failures before; longer runs of failures never wait less.
\<close>

theorem retry_paced:
  assumes "may_emit P session" "superviseJoin E session cancelled interrupted tr = Some (r, tr')"
  shows "(\<exists>es. tr' = es @ tr \<and> list_all (paced P) es) \<and> \<not> retryableJoinError r \<and>
    (\<forall>a b. a \<le> b \<longrightarrow> joinRetryDelay a \<le> joinRetryDelay b)"
proof -
  have "paced_result P tr (r, tr')"
    using supervise_paced [OF assms(2) [unfolded superviseJoin_def], of P] assms(1) by blast
  then show ?thesis using joinRetryDelay_mono by (auto simp: paced_result_def)
qed

text \<open>
  What fails in an outage of the control plane, whatever context the code has wrapped around it: the server is
  overloaded or broken, the network fails, a deadline passes, a connection ends too early, or no PodCIDR is assigned.
\<close>

fun outage_error :: "err \<Rightarrow> bool" where
  "outage_error (EHttp code body) \<longleftrightarrow> code \<in> {408, 425, 429} \<or> 500 \<le> code"
| "outage_error (ENet s) \<longleftrightarrow> True"
| "outage_error (ESentinel k s) \<longleftrightarrow> k \<in> {DeadlineExceeded, EndOfFile, PodCIDRUnavailable}"
| "outage_error (EWrap p e s) \<longleftrightarrow> outage_error e"
| "outage_error _ \<longleftrightarrow> False"

lemma outage_error_transient:
  "outage_error e \<Longrightarrow> \<not> is_sentinel Canceled e \<and> (is_sentinel PodCIDRUnavailable e \<or> is_sentinel DeadlineExceeded e \<or>
     (\<exists>code body. as_http e = Some (code, body) \<and> (code \<in> {408, 425, 429} \<or> 500 \<le> code)) \<or>
     as_http e = None \<and> (is_net_error e \<or> is_sentinel EndOfFile e))"
  by (induction e rule: outage_error.induct) auto

lemma outage_error_retried: "outage_error e \<Longrightarrow> retryableJoinError (Some e)"
  by (drule outage_error_transient) (auto simp: retryableJoinError_def)

text \<open>
  An outage until \<open>recovery\<close>: every session ends; one that fails earlier fails with such an error, and one that
  starts later ends in any way but with an error that is retried.
\<close>

definition outage_until :: "gotime \<Rightarrow> session_run \<Rightarrow> bool" where
  "outage_until recovery session \<longleftrightarrow>
     (\<forall>tr. session tr \<noteq> None) \<and>
     (\<forall>t tr e tr'. t < recovery \<longrightarrow> session (EvNow t # tr) = Some (Some e, tr') \<longrightarrow> outage_error e) \<and>
     (\<forall>t tr r tr'. recovery \<le> t \<longrightarrow> session (EvNow t # tr) = Some (r, tr') \<longrightarrow> \<not> retryableJoinError r)"

text \<open>An end of the supervisor that the outage has not caused.\<close>

definition own_end ::
  "gotime \<Rightarrow> session_run \<Rightarrow> (trace \<Rightarrow> bool) \<Rightarrow> (trace \<Rightarrow> bool) \<Rightarrow> (err option \<times> trace) option \<Rightarrow> bool" where
  "own_end recovery session cancelled interrupted x \<longleftrightarrow> (\<exists>r tr'. x = Some (r, tr') \<and>
     (r = None \<and> (cancelled tr' \<or> interrupted tr') \<or>
      (\<exists>t tr. session (EvNow t # tr) = Some (r, tr') \<and> (r = None \<or> recovery \<le> t \<and> \<not> retryableJoinError r))))"

definition waits_only :: "event \<Rightarrow> bool" where
  "waits_only e \<longleftrightarrow> (\<forall>d. e = EvSleep d \<longrightarrow> 0 \<le> d)"

lemma slept_waits: "list_all waits_only es \<Longrightarrow> 0 \<le> slept es"
  by (induction es rule: slept.induct) (auto simp: waits_only_def)

lemma outage_ends:
  assumes "clock_advances E" "may_emit waits_only session" "outage_until recovery session"
  shows "own_end recovery session cancelled interrupted
    (superviseJoinWithResetAfter E session cancelled interrupted joinRetryDelay resetAfter attempt tr)"
proof (induction "nat (recovery - e_now E tr)" arbitrary: tr attempt rule: less_induct)
  case less
  let ?tr0 = "EvNow (e_now E tr) # tr"
  obtain s tr1 where s0: "session ?tr0 = Some (s, tr1)"
    using assms(3) unfolding outage_until_def by fast
  with may_emitD [OF assms(2) s0] obtain es where s: "session ?tr0 = Some (s, es @ ?tr0)" "list_all waits_only es" by auto
  obtain a now where reset: "reset_attempt E resetAfter (e_now E tr) attempt (es @ ?tr0) = (a, now @ es @ ?tr0)"
    and now: "now = [] \<or> (\<exists>t. now = [EvNow t])" by (rule reset_attempt_now)
  let ?new = "EvSleep (joinRetryDelay a) # now @ es"
  let ?tr' = "?new @ ?tr0"
  have round: "superviseJoinWithResetAfter E session cancelled interrupted joinRetryDelay resetAfter attempt tr =
     (if s = None \<or> cancelled (es @ ?tr0) then Some (None, es @ ?tr0)
      else if \<not> retryableJoinError s then Some (s, es @ ?tr0)
      else if interrupted ?tr' then Some (None, ?tr')
      else superviseJoinWithResetAfter E session cancelled interrupted joinRetryDelay resetAfter (a + 1) ?tr')"
    by (subst superviseJoinWithResetAfter.simps) (simp add: time_now_def Let_def go_sleep_def s(1) reset)
  consider "s = None \<or> cancelled (es @ ?tr0)"
    | e where "s = Some e" "\<not> cancelled (es @ ?tr0)" "recovery \<le> e_now E tr"
    | e where "s = Some e" "\<not> cancelled (es @ ?tr0)" "e_now E tr < recovery"
    by (cases s) (auto simp: not_le [symmetric])
  then show ?case
  proof cases
    case 1
    then show ?thesis using s(1) unfolding round own_end_def by auto
  next
    case (2 e)
    then have "\<not> retryableJoinError s" using assms(3) s(1) unfolding outage_until_def by blast
    with 2 s(1) show ?thesis unfolding round own_end_def by auto
  next
    case (3 e)
    then have retried: "retryableJoinError s" using assms(3) s(1) outage_error_retried unfolding outage_until_def by blast
    have "slept now = 0" using now by auto
    then have "one_second \<le> slept ?new" using slept_waits [OF s(2)] joinRetryDelay_range [of a] by simp
    moreover have "e_now E tr + slept ?new \<le> e_now E ?tr'"
      using assms(1) unfolding clock_advances_def by blast
    ultimately have "nat (recovery - e_now E ?tr') < nat (recovery - e_now E tr)"
      using 3(3) by (simp add: one_second_def)
    from less [OF this] 3 retried show ?thesis unfolding round by (auto simp: own_end_def)
  qed
qed

text \<open>
  C19: an outage of the control plane never ends the daemon.  When sessions that start before the recovery fail only
  with overload and server errors of the API, network errors, missed deadlines, early ends of a
  connection or a missing PodCIDR, in whatever context, then on every clock that moves on while the program waits the
  supervisor goes on until it is cancelled, a session ends well, or a session that started after the
  recovery fails for good; and it does come to that end, however long the outage was.
\<close>

theorem outage_survived:
  assumes "clock_advances E" "may_emit waits_only session" "outage_until recovery session"
  shows "\<exists>r tr'. superviseJoin E session cancelled interrupted tr = Some (r, tr') \<and>
    (r = None \<and> (cancelled tr' \<or> interrupted tr') \<or>
     (\<exists>t tr. session (EvNow t # tr) = Some (r, tr') \<and> (r = None \<or> recovery \<le> t \<and> \<not> retryableJoinError r)))"
  using outage_ends [OF assms] unfolding superviseJoin_def own_end_def .

section \<open>An outage of three seconds\<close>

text \<open>A server that answers 503 until the third second and then refuses the session for good.\<close>

definition short_outage :: session_run where
  "short_outage tr = Some (case tr of
     EvNow t # _ \<Rightarrow> (Some (if t \<ge> 3 * one_second then EHttp 401 '''' else wrap ''get Node: '' (EHttp 503 '''')), tr)
   | _ \<Rightarrow> (Some (EHttp 503 ''''), tr))"

lemma short_outage_quiet: "may_emit waits_only short_outage"
  by (auto simp: may_emit_def short_outage_def split: list.split event.split)

lemma outage_survived_witness:
  "\<exists>r tr'. superviseJoin quiet_env short_outage (\<lambda>_. False) (\<lambda>_. False) [] = Some (r, tr') \<and> r = Some (EHttp 401 '''')"
proof -
  have "outage_until (3 * one_second) short_outage"
    by (auto simp: outage_until_def short_outage_def retryableJoinError_def)
  from outage_survived [OF quiet_clock(2) short_outage_quiet this, of "\<lambda>_. False" "\<lambda>_. False" "[]"] show ?thesis
    by (auto simp: short_outage_def split: if_splits)
qed

lemma retry_paced_witness:
  "\<exists>tr'. superviseJoin quiet_env (\<lambda>tr. Some (Some (EHttp 401 ''''), tr)) (\<lambda>_. False) (\<lambda>_. False) [] = Some (Some (EHttp 401 ''''), tr') \<and>
    list_all (paced (\<lambda>_. False)) tr'"
proof -
  let ?s = "\<lambda>tr. Some (Some (EHttp 401 ''''), tr)"
  have "superviseJoin quiet_env ?s (\<lambda>_. False) (\<lambda>_. False) [] = Some (Some (EHttp 401 ''''), [EvNow 0])"
    by (simp add: superviseJoin_def superviseJoinWithResetAfter.simps time_now_def Let_def retryableJoinError_def quiet_env_def)
  moreover have "may_emit (\<lambda>_. False) ?s" by (simp add: may_emit_def)
  ultimately show ?thesis using retry_paced [of "\<lambda>_. False" ?s] by (metis append_Nil2)
qed

end
