(* ===== verification/JoinSession.thy ===== *)
theory JoinSession
  imports Session Bootstrap KubeletServer Flannel DnsResolver SearchDomains Leave Vxlan Ownership Supervisor
begin

text \<open>
  \<^verbatim>\<open>runJoinSession\<close> (\<^verbatim>\<open>join.go\<close>): one session of the daemon from its privileges to the deferred cleanups.
  It claims the Node, connects the host to the overlay network, serves the Pods at each heartbeat and,
  when its context ends, drains before it undoes what it set up, in the reverse order.
\<close>

section \<open>The world of a session\<close>

text \<open>
  Besides the environment: the host, the path of the running executable, the moments at which the
  context has ended, and the interval of the heartbeats.  Closing the servers has no answer that the
  session uses.
\<close>

record daemon =
  dm_host :: host_info
  dm_executable :: "err + string"
  dm_cancelled :: "trace \<Rightarrow> bool"

abbreviation defaultHeartbeat :: int where
  "defaultHeartbeat \<equiv> 10 * one_second"

abbreviation defaultDrainTimeout :: int where
  "defaultDrainTimeout \<equiv> 10 * one_second"

abbreviation defaultClusterCIDR :: string where
  "defaultClusterCIDR \<equiv> ''10.42.0.0/16''"

abbreviation defaultServiceCIDR :: string where
  "defaultServiceCIDR \<equiv> ''10.43.0.0/16''"

abbreviation stale_after :: int where
  "stale_after \<equiv> 5 * one_second"

definition preparePrivileges :: "env \<Rightarrow> join_config \<Rightarrow> (err + join_config) io" where
  "preparePrivileges E cfg tr =
    (if jc_vxlan_binary cfg = [] \<or> e_euid E = 0 then (Inr cfg, tr)
     else (case call_cmd E [''sudo'', ''-n'', ''true''] tr of
        ((_, Some _), tr) \<Rightarrow>
          (Inl (EMsg ''VXLAN and Darwin route/ARP setup require root or passwordless sudo; rerun maclet join via sudo''), tr)
      | ((_, None), tr) \<Rightarrow> (Inr (cfg\<lparr>jc_use_sudo := True\<rparr>), tr)))"

section \<open>The configuration of a session\<close>

definition or_else :: "string \<Rightarrow> string \<Rightarrow> string" where
  "or_else s d = (if s = [] then d else s)"

text \<open>A CIDR of the command line wins; one that is unset or the default gives way to the cluster's.\<close>

definition resolve_cidr :: "bool \<Rightarrow> string \<Rightarrow> string \<Rightarrow> string \<Rightarrow> string" where
  "resolve_cidr given s preset found = (if \<not> given \<and> (s = [] \<or> s = preset) \<and> found \<noteq> [] then found else s)"

definition resolve_config :: "join_config \<Rightarrow> local_state \<Rightarrow> join_config" where
  "resolve_config cfg s =
    (let cfg = cfg\<lparr>jc_node_name := or_else (jc_node_name cfg) (st_node_name s), jc_node_ip := or_else (jc_node_ip cfg) (st_node_ip s)\<rparr>;
         cfg = cfg\<lparr>jc_external_ip := or_else (or_else (jc_external_ip cfg) (st_external_ip s)) (vxlanPublicIP cfg s)\<rparr> in
     cfg\<lparr>jc_cluster_cidr := resolve_cidr (jc_cluster_cidr_set cfg) (jc_cluster_cidr cfg) defaultClusterCIDR (st_cluster_cidr s),
       jc_service_cidr := resolve_cidr (jc_service_cidr_set cfg) (jc_service_cidr cfg) defaultServiceCIDR (st_service_cidr s),
       jc_drain_timeout := (if jc_drain_timeout cfg \<le> 0 then defaultDrainTimeout else jc_drain_timeout cfg)\<rparr>)"

section \<open>The Node\<close>

definition uncordon :: "env \<Rightarrow> node \<Rightarrow> (err + node) io" where
  "uncordon E n tr = (if cordon_marked n then setNodeShutdownCordon E NodeClient n False tr else (Inr n, tr))"

definition claim_node :: "env \<Rightarrow> join_config \<Rightarrow> local_state \<Rightarrow> trace \<Rightarrow> ((err + node \<times> local_state) \<times> trace) option" where
  "claim_node E cfg s tr =
    (case ensureOwnedNode E NodeClient (st_node_name s) (st_instance_id s) (st_node_uid s) (jc_adopt cfg) tr of
       (Inl e, tr) \<Rightarrow> Some (Inl e, tr)
     | (Inr n, tr) \<Rightarrow> (case persistNodeOwnership E s (state_path (jc_state_dir cfg)) n tr of
         (Some e, s, tr) \<Rightarrow> Some (Inl e, tr)
       | (None, s, tr) \<Rightarrow> (case uncordon E n tr of
           (Inl e, tr) \<Rightarrow> Some (Inl e, tr)
         | (Inr n, tr) \<Rightarrow> Option.bind (waitForPodCIDR E NodeClient n (60 * one_second) tr) (\<lambda>(r, tr). Some (case r of
               Inl e \<Rightarrow> (Inl (wrap ''wait for PodCIDR: '' e), tr) | Inr n \<Rightarrow> (Inr (n, s), tr))))))"

section \<open>The overlay network\<close>

text \<open>The client for peers, the peers, and the hardware address of the gateway among them.\<close>

type_synonym peering = "api_client option \<times> flannel_peer list \<times> string"

definition no_matching_peer :: "join_config \<Rightarrow> err" where
  "no_matching_peer cfg = EMsg (''no Flannel peer matches VXLAN remote '' @ quote (jc_vxlan_remote cfg) @
     ''; use --vxlan-gateway-mac to provide that node's flannel.1 MAC'')"

definition gateway_of :: "join_config \<Rightarrow> flannel_peer list \<Rightarrow> string" where
  "gateway_of cfg peers = (case List.find (\<lambda>p. fp_public_ip p = jc_vxlan_remote cfg) peers of
     Some p \<Rightarrow> fp_vtep_mac p | None \<Rightarrow> [])"

definition discover_gateway :: "env \<Rightarrow> join_config \<Rightarrow> local_state \<Rightarrow> (err + peering) io" where
  "discover_gateway E cfg s tr =
    (if jc_vxlan_binary cfg = [] \<or> jc_vxlan_gateway_mac cfg \<noteq> [] then (Inr (None, [], []), tr)
     else (case peerAPIClient E cfg s tr of
        (Inl e, tr) \<Rightarrow> (Inl e, tr)
      | (Inr (c, _), tr) \<Rightarrow> (case discoverFlannelPeers E c (st_node_name s) tr of
          (Inl e, tr) \<Rightarrow> (Inl e, tr)
        | (Inr peers, tr) \<Rightarrow>
            (if gateway_of cfg peers = [] then Inl (no_matching_peer cfg) else Inr (Some c, peers, gateway_of cfg peers), tr))))"

text \<open>A failure after the child was started stops it again.\<close>

definition stop_child :: "env \<Rightarrow> join_config \<Rightarrow> int \<Rightarrow> err \<Rightarrow> trace \<Rightarrow> ((err + 'a) \<times> trace) option" where
  "stop_child E cfg pid e tr = Option.bind (vxlan_cleanup E (jc_use_sudo cfg) pid tr) (\<lambda>tr. Some (Inl e, tr))"

definition gateway_mac :: "env \<Rightarrow> join_config \<Rightarrow> string \<Rightarrow> (err + string) io" where
  "gateway_mac E cfg mac tr = (if mac \<noteq> [] then (Inr mac, tr)
     else remoteVtepMAC E NodeClient (jc_vxlan_remote cfg) (jc_vxlan_gateway_mac cfg) tr)"

definition fresh_manager :: "join_config \<Rightarrow> local_state \<Rightarrow> bool \<Rightarrow> net_handle \<Rightarrow> manager" where
  "fresh_manager cfg s peer h = join_manager (jc_macker_binary cfg) (st_node_ip s) (jc_state_dir cfg) (jc_log_ttl cfg)
     (jc_use_sudo cfg) peer (jc_debug cfg) h"

text \<open>The Node with its annotations, the manager with its journal, and the child.\<close>

definition load_manager ::
  "env \<Rightarrow> join_config \<Rightarrow> local_state \<Rightarrow> node \<Rightarrow> net_handle \<Rightarrow> int \<Rightarrow> trace \<Rightarrow> ((err + node \<times> (manager \<times> int) option) \<times> trace) option" where
  "load_manager E cfg s n h pid tr = (case configuredPeerAPIClient E cfg s tr of (peer, tr) \<Rightarrow>
     (case loadJournalLocked E (fresh_manager cfg s (case peer of Inr (Some _) \<Rightarrow> True | _ \<Rightarrow> False) h) tr of
        (Some e, _, tr) \<Rightarrow> (case net_cleanup E h tr of (_, _, tr) \<Rightarrow> stop_child E cfg pid (wrap ''load native workload journal: '' e) tr)
      | (None, m, tr) \<Rightarrow> Some (Inr (n, Some (m, pid)), tr)))"

definition connect_node ::
  "env \<Rightarrow> join_config \<Rightarrow> local_state \<Rightarrow> node \<Rightarrow> vxlan_handle \<Rightarrow> net_handle \<Rightarrow> int \<Rightarrow> trace \<Rightarrow> ((err + node \<times> (manager \<times> int) option) \<times> trace) option" where
  "connect_node E cfg s n vx h pid tr =
    (case configureFlannel E NodeClient n (vxlanPublicIP cfg s) (vx_bridge_mac vx) tr of
       (Inl e, tr) \<Rightarrow> (case net_cleanup E h tr of (_, _, tr) \<Rightarrow> stop_child E cfg pid e tr)
     | (Inr n, tr) \<Rightarrow> load_manager E cfg s n h pid tr)"

definition attach ::
  "env \<Rightarrow> daemon \<Rightarrow> join_config \<Rightarrow> local_state \<Rightarrow> node \<Rightarrow> flannel_peer list \<Rightarrow> string \<Rightarrow> trace \<Rightarrow>
    ((err + node \<times> (manager \<times> int) option) \<times> trace) option" where
  "attach E D cfg s n peers mac tr =
    Option.bind (startVXLAN E cfg (dm_cancelled D) n peers tr) (\<lambda>(r, tr). (case r of
        Inl e \<Rightarrow> Some (Inl e, tr)
      | Inr None \<Rightarrow> Some (Inr (n, None), tr)
      | Inr (Some (vx, pid)) \<Rightarrow> (case gateway_mac E cfg mac tr of
          (Inl e, tr) \<Rightarrow> stop_child E cfg pid e tr
        | (Inr mac, tr) \<Rightarrow> (case setupDarwinNetwork E cfg vx peers mac tr of
            (Inl e, tr) \<Rightarrow> stop_child E cfg pid e tr
          | (Inr h, tr) \<Rightarrow> connect_node E cfg s n vx h pid tr))))"

section \<open>What a session owns\<close>

text \<open>
  The Node it knows; the manager with the network handle inside, and the child; the resolver and the
  search domains; the client for peers, and whether Pods may be force-deleted.
\<close>

record join_session =
  js_node :: node
  js_manager :: "(manager \<times> int) option"
  js_resolver :: "dns_resolver option"
  js_search :: "search_domains option"
  js_peer :: "api_client option"
  js_cleanup :: bool

definition start_resolver :: "env \<Rightarrow> daemon \<Rightarrow> join_config \<Rightarrow> local_state \<Rightarrow> dns_resolver option io" where
  "start_resolver E D cfg s tr =
    (if jc_once cfg \<or> \<not> jc_dns_resolver cfg then (None, tr)
     else (case resolver_reconcile E (dm_executable D) (Some NodeClient) (newClusterDNSResolver (jc_use_sudo cfg) (st_cluster_dns s)) tr of
        (_, r, tr) \<Rightarrow> (Some r, tr)))"

definition record_search :: "env \<Rightarrow> join_config \<Rightarrow> err option \<Rightarrow> search_domains \<Rightarrow> trace \<Rightarrow> trace" where
  "record_search E cfg r d tr = (if r = None \<and> sd_owned d then snd (writeSearchDomainsState E (jc_state_dir cfg) d tr) else tr)"

definition start_search :: "env \<Rightarrow> join_config \<Rightarrow> local_state \<Rightarrow> search_domains option io" where
  "start_search E cfg s tr =
    (if jc_once cfg \<or> \<not> jc_dns_search_domains cfg then (None, tr)
     else (case underlayDeviceForIP E (searchDomainUnderlayIP cfg (Some s)) tr of
        (Inl e, tr) \<Rightarrow> (None, tr)
      | (Inr device, tr) \<Rightarrow>
          (case search_reconcile E (newClusterDNSSearchDomains (jc_use_sudo cfg) device (jc_search_domain_service cfg)
               (jc_search_domain_list cfg)) tr of
             (r, d, tr) \<Rightarrow> (Some d, record_search E cfg r d tr))))"

text \<open>
  DNS follows the network.  The fallback to the client for deletions at \<^verbatim>\<open>join.go\<close> 175--177 is never
  taken there: that client is found only later.
\<close>

definition start_dns :: "env \<Rightarrow> daemon \<Rightarrow> join_config \<Rightarrow> local_state \<Rightarrow> join_session \<Rightarrow> join_session io" where
  "start_dns E D cfg s S tr =
    (if js_manager S = None then (S, tr)
     else (case start_resolver E D cfg s tr of (r, tr) \<Rightarrow> (case start_search E cfg s tr of (d, tr) \<Rightarrow>
       (S\<lparr>js_resolver := r, js_search := d\<rparr>, tr))))"

definition find_cleanup_client :: "env \<Rightarrow> join_config \<Rightarrow> local_state \<Rightarrow> join_session \<Rightarrow> join_session io" where
  "find_cleanup_client E cfg s S tr =
    (if jc_once cfg \<or> js_manager S = None then (S, tr)
     else (case configuredPeerAPIClient E cfg s tr of (r, tr) \<Rightarrow> (S\<lparr>js_cleanup := (case r of Inr (Some _) \<Rightarrow> True | _ \<Rightarrow> False)\<rparr>, tr)))"

definition start_kubelet :: "env \<Rightarrow> join_config \<Rightarrow> local_state \<Rightarrow> join_session \<Rightarrow> err option io" where
  "start_kubelet E cfg s S tr =
    (if jc_once cfg \<or> js_manager S = None then (None, tr)
     else startKubeletServer E (st_node_ip s) (map_option fst (js_manager S)) (st_serving_cert s) (st_serving_key s) (st_client_ca s) kubelet_port tr)"

section \<open>A heartbeat\<close>

definition refresh_resolver :: "env \<Rightarrow> daemon \<Rightarrow> bool \<Rightarrow> dns_resolver \<Rightarrow> dns_resolver io" where
  "refresh_resolver E D other r tr = (case resolver_reconcile E (dm_executable D) (Some NodeClient) r tr of
       (None, r, tr) \<Rightarrow> (r, tr)
     | (Some e, r, tr) \<Rightarrow> if other
         then (case resolver_reconcile E (dm_executable D) (Some PeerClient) r tr of (_, r, tr) \<Rightarrow> (r, tr)) else (r, tr))"

definition refresh_dns :: "env \<Rightarrow> daemon \<Rightarrow> join_session \<Rightarrow> join_session io" where
  "refresh_dns E D S tr =
    (case (case js_resolver S of None \<Rightarrow> (None, tr)
        | Some r \<Rightarrow> (case refresh_resolver E D (js_cleanup S) r tr of (r, tr) \<Rightarrow> (Some r, tr))) of (r, tr) \<Rightarrow>
      (case (case js_search S of None \<Rightarrow> (None, tr)
          | Some d \<Rightarrow> (case search_reconcile E d tr of (_, d, tr) \<Rightarrow> (Some d, tr))) of (d, tr) \<Rightarrow>
        (S\<lparr>js_resolver := r, js_search := d\<rparr>, tr)))"

definition put_manager_network :: "net_handle \<Rightarrow> manager \<Rightarrow> manager" where
  "put_manager_network h m = m\<lparr>wm_network := Some h\<rparr>"

definition follow_gateway :: "env \<Rightarrow> join_config \<Rightarrow> join_session \<Rightarrow> join_session io" where
  "follow_gateway E cfg S tr = (case (js_manager S, js_peer S) of
       (Some (m, pid), Some c) \<Rightarrow> (case remoteVtepMAC E c (jc_vxlan_remote cfg) [] tr of
          (Inl e, tr) \<Rightarrow> (S, tr)
        | (Inr mac, tr) \<Rightarrow> (case wm_network m of
            None \<Rightarrow> (S, tr)
          | Some h \<Rightarrow> (case setGatewayMAC E h mac tr of (_, h, tr) \<Rightarrow> (S\<lparr>js_manager := Some (put_manager_network h m, pid)\<rparr>, tr))))
     | _ \<Rightarrow> (S, tr))"

definition reconcile_node ::
  "env \<Rightarrow> daemon \<Rightarrow> join_config \<Rightarrow> local_state \<Rightarrow> join_session \<Rightarrow> trace \<Rightarrow> ((err option \<times> join_session) \<times> trace) option" where
  "reconcile_node E D cfg s S tr =
    Option.bind (reconcileNodeAndLease E (dm_host D) NodeClient (js_node S) (st_node_ip s) (jc_external_ip cfg) tr)
      (\<lambda>((n, r), tr). Some ((r, S\<lparr>js_node := n\<rparr>), tr))"

definition force_delete :: "env \<Rightarrow> local_state \<Rightarrow> bool \<Rightarrow> pod list \<Rightarrow> trace \<Rightarrow> trace" where
  "force_delete E s allowed pods tr =
    (if \<not> allowed then tr
     else (case time_now E tr of (now, tr) \<Rightarrow> snd (cleanupPodList E PeerClient pods (st_node_name s) stale_after now tr)))"

definition reconcile_pods_of :: "env \<Rightarrow> local_state \<Rightarrow> join_session \<Rightarrow> join_session io" where
  "reconcile_pods_of E s S tr = (case js_manager S of
       None \<Rightarrow> (S, tr)
     | Some (m, pid) \<Rightarrow> (case listAssignedPods E (st_node_name s) tr of
         (Inl e, tr) \<Rightarrow> (S, tr)
       | (Inr pods, tr) \<Rightarrow> (case reconcile E m pods tr of (_, m, tr) \<Rightarrow>
           (S\<lparr>js_manager := Some (m, pid)\<rparr>, force_delete E s (js_cleanup S) pods tr))))"

definition heartbeat ::
  "env \<Rightarrow> daemon \<Rightarrow> join_config \<Rightarrow> local_state \<Rightarrow> join_session \<Rightarrow> trace \<Rightarrow> (join_session \<times> trace) option" where
  "heartbeat E D cfg s S tr = (case refresh_dns E D S tr of (S, tr) \<Rightarrow> (case follow_gateway E cfg S tr of (S, tr) \<Rightarrow>
     Option.bind (reconcile_node E D cfg s S tr) (\<lambda>((_, S), tr). Some (reconcile_pods_of E s S tr))))"

text \<open>The loop: each wait ends with the context or with a tick.\<close>

partial_function (option) session_loop ::
  "env \<Rightarrow> daemon \<Rightarrow> join_config \<Rightarrow> local_state \<Rightarrow> join_session \<Rightarrow> trace \<Rightarrow> (join_session \<times> trace) option" where
  "session_loop E D cfg s S tr =
    (if dm_cancelled D tr then Some (S, tr)
     else Option.bind (heartbeat E D cfg s S (go_sleep defaultHeartbeat tr)) (\<lambda>(S, tr). session_loop E D cfg s S tr))"

section \<open>The end\<close>

definition clean_manager :: "env \<Rightarrow> join_session \<Rightarrow> join_session io" where
  "clean_manager E S tr = (case js_manager S of
       None \<Rightarrow> (S, tr)
     | Some (m, pid) \<Rightarrow> (case manager_cleanup E m tr of (_, m, tr) \<Rightarrow> (S\<lparr>js_manager := Some (m, pid)\<rparr>, tr)))"

definition cordon_node :: "env \<Rightarrow> join_session \<Rightarrow> join_session io" where
  "cordon_node E S tr = (case setNodeShutdownCordon E NodeClient (js_node S) True tr of
       (Inl e, tr) \<Rightarrow> (S, tr) | (Inr n, tr) \<Rightarrow> (S\<lparr>js_node := n\<rparr>, tr))"

definition drain_session :: "env \<Rightarrow> join_session \<Rightarrow> join_session io" where
  "drain_session E S tr = (case cordon_node E S tr of (S, tr) \<Rightarrow> clean_manager E S tr)"

definition clean_network :: "env \<Rightarrow> join_session \<Rightarrow> join_session io" where
  "clean_network E S tr = (case js_manager S of
       None \<Rightarrow> (S, tr)
     | Some (m, pid) \<Rightarrow> (case wm_network m of
         None \<Rightarrow> (S, tr)
       | Some h \<Rightarrow> (case net_cleanup E h tr of (_, h, tr) \<Rightarrow> (S\<lparr>js_manager := Some (put_manager_network h m, pid)\<rparr>, tr))))"

text \<open>The deferred function of the network: workloads, annotations, routes, and the child.\<close>

definition undo_network :: "env \<Rightarrow> join_config \<Rightarrow> local_state \<Rightarrow> join_session \<Rightarrow> trace \<Rightarrow> (join_session \<times> trace) option" where
  "undo_network E cfg s S tr = (case js_manager S of
       None \<Rightarrow> Some (S, tr)
     | Some (_, pid) \<Rightarrow> (case clean_manager E S tr of (S, tr) \<Rightarrow> (case clearFlannel E NodeClient (st_node_name s) tr of (_, tr) \<Rightarrow>
         (case clean_network E S tr of (S, tr) \<Rightarrow>
           Option.bind (vxlan_cleanup E (jc_use_sudo cfg) pid tr) (\<lambda>tr. Some (S, tr))))))"

definition undo_dns :: "env \<Rightarrow> daemon \<Rightarrow> join_session \<Rightarrow> join_session io" where
  "undo_dns E D S tr =
    (case (case js_search S of None \<Rightarrow> (None, tr)
        | Some d \<Rightarrow> (case search_cleanup E d tr of (_, d, tr) \<Rightarrow> (Some d, tr))) of (d, tr) \<Rightarrow>
      (case (case js_resolver S of None \<Rightarrow> (None, tr)
          | Some r \<Rightarrow> (case resolver_cleanup E (dm_executable D) r tr of (_, r, tr) \<Rightarrow> (Some r, tr))) of (r, tr) \<Rightarrow>
        (S\<lparr>js_resolver := r, js_search := d\<rparr>, tr)))"

text \<open>All deferred functions, the latest first.\<close>

definition run_deferred ::
  "env \<Rightarrow> daemon \<Rightarrow> join_config \<Rightarrow> local_state \<Rightarrow> join_session \<Rightarrow> trace \<Rightarrow> (join_session \<times> trace) option" where
  "run_deferred E D cfg s S tr = (case undo_dns E D S tr of (S, tr) \<Rightarrow> undo_network E cfg s S tr)"

section \<open>The session\<close>

definition serve_pods ::
  "env \<Rightarrow> daemon \<Rightarrow> join_config \<Rightarrow> local_state \<Rightarrow> join_session \<Rightarrow> trace \<Rightarrow> ((err option \<times> join_session) \<times> trace) option" where
  "serve_pods E D cfg s S tr = Option.bind (reconcile_node E D cfg s S tr) (\<lambda>((r, S), tr).
     if jc_once cfg then Some ((r, S), tr)
     else (case reconcile_pods_of E s S tr of (S, tr) \<Rightarrow>
       Option.bind (session_loop E D cfg s S tr) (\<lambda>(S, tr). (case drain_session E S tr of (S, tr) \<Rightarrow> Some ((None, S), tr)))))"

text \<open>From the point on where the deferred functions are in place.\<close>

definition run_services ::
  "env \<Rightarrow> daemon \<Rightarrow> join_config \<Rightarrow> local_state \<Rightarrow> join_session \<Rightarrow> trace \<Rightarrow> ((err option \<times> join_session) \<times> trace) option" where
  "run_services E D cfg s S tr = (case start_dns E D cfg s S tr of (S, tr) \<Rightarrow> (case find_cleanup_client E cfg s S tr of (S, tr) \<Rightarrow>
     (case start_kubelet E cfg s S tr of
        (Some e, tr) \<Rightarrow> Some ((Some e, S), tr) | (None, tr) \<Rightarrow> serve_pods E D cfg s S tr)))"

definition first_session :: "node \<Rightarrow> (manager \<times> int) option \<Rightarrow> api_client option \<Rightarrow> join_session" where
  "first_session n m peer = \<lparr>js_node = n, js_manager = m, js_resolver = None, js_search = None, js_peer = peer, js_cleanup = False\<rparr>"

definition run_attached ::
  "env \<Rightarrow> daemon \<Rightarrow> join_config \<Rightarrow> local_state \<Rightarrow> join_session \<Rightarrow> trace \<Rightarrow> ((err option \<times> join_session) \<times> trace) option" where
  "run_attached E D cfg s S tr = Option.bind (run_services E D cfg s S tr) (\<lambda>((r, S), tr).
     Option.bind (run_deferred E D cfg s S tr) (\<lambda>(S, tr). Some ((r, S), tr)))"

definition run_claimed ::
  "env \<Rightarrow> daemon \<Rightarrow> join_config \<Rightarrow> local_state \<Rightarrow> node \<Rightarrow> trace \<Rightarrow> ((err option \<times> join_session option) \<times> trace) option" where
  "run_claimed E D cfg s n tr = (case discover_gateway E cfg s tr of
       (Inl e, tr) \<Rightarrow> Some ((Some e, None), tr)
     | (Inr (peer, peers, mac), tr) \<Rightarrow> Option.bind (attach E D cfg s n peers mac tr) (\<lambda>(r, tr). (case r of
           Inl e \<Rightarrow> Some ((Some e, None), tr)
         | Inr (n, m) \<Rightarrow> Option.bind (run_attached E D cfg s (first_session n m peer) tr) (\<lambda>((r, S), tr). Some ((r, Some S), tr)))))"

text \<open>The result, and what the session owned at its end if it came so far.\<close>

definition runJoinSession ::
  "env \<Rightarrow> daemon \<Rightarrow> join_config \<Rightarrow> trace \<Rightarrow> ((err option \<times> join_session option) \<times> trace) option" where
  "runJoinSession E D cfg tr = (case preparePrivileges E cfg tr of
       (Inl e, tr) \<Rightarrow> Some ((Some e, None), tr)
     | (Inr cfg, tr) \<Rightarrow> (case bootstrap E cfg tr of
         (Inl e, tr) \<Rightarrow> Some ((Some e, None), tr)
       | (Inr (s, _), tr) \<Rightarrow> (let cfg = resolve_config cfg s in
           Option.bind (claim_node E cfg s tr) (\<lambda>(r, tr). (case r of
               Inl e \<Rightarrow> Some ((Some e, None), tr)
             | Inr (n, s) \<Rightarrow> run_claimed E D cfg s n tr)))))"

end
