(* ===== verification/JoinProps.thy ===== *)
theory JoinProps
  imports JoinSession NodeProps Partial
begin

text \<open>
  What a join session guarantees.  The manager of a session is always in a state of the abstract
  session of \<^verbatim>\<open>Session\<close>, so its invariant and its contracts hold here; a session that ends because
  its context ended has asked for the cordon before it removed a workload, and whatever way it ends
  the last thing that happens to its workloads is a cleanup.
\<close>

definition no_macker :: "event \<Rightarrow> bool" where
  "no_macker e \<longleftrightarrow> (case e of EvMacker _ _ _ _ \<Rightarrow> False | _ \<Rightarrow> True)"

lemma no_macker_simps [simp]: "no_macker (EvCmd argv out r)" "no_macker (EvApi c m path body x)" "no_macker (EvSignal pid sig)"
    "no_macker (EvSleep d)" "no_macker (EvNow t)" "no_macker (EvFs q y)" "no_macker (EvIfaces is)" "\<not> no_macker (EvMacker b args out r)"
  by (simp_all add: no_macker_def)

section \<open>Everything extends the trace\<close>

lemma renew_lease_emits: "emits anything (renew_lease E c nodeName now k)"
proof (cases k)
  case (KLease l)
  then show ?thesis by (simp add: renew_lease_def [abs_def] emits_intros)
qed (simp_all add: renew_lease_def [abs_def] emits_intros)

lemma ensureLease_emits: "may_emit anything (ensureLease E c nodeName)"
proof (rule may_emitI)
  fix tr x
  assume "ensureLease E c nodeName tr = Some x"
  then show "extends anything tr x"
  proof (rule ensureLease.raw_induct [where P = "\<lambda>E c nodeName. extends anything", rotated])
    fix f :: "env \<Rightarrow> api_client \<Rightarrow> string \<Rightarrow> trace \<Rightarrow> (err option \<times> trace) option" and E c nodeName tr x
    assume hyp: "\<And>E c nodeName tr x. f E c nodeName tr = Some x \<Longrightarrow> extends anything tr x"
    let ?body = "\<lambda>tr. case time_now E tr of (now, tr) \<Rightarrow> (case call_api E c GET (lease_path nodeName) None tr of
         (Inl e, tr) \<Rightarrow> if \<not> http_code_is 404 e then Some (Some e, tr)
           else (case call_api E c POST leases_path (Some (JLease (new_lease nodeName now))) tr of
              (Inl e, tr) \<Rightarrow> if http_code_is 409 e then f E c nodeName tr else Some (Some (wrap ''create node Lease: '' e), tr)
            | (Inr _, tr) \<Rightarrow> Some (None, tr))
       | (Inr k, tr) \<Rightarrow> Some (renew_lease E c nodeName now k tr))"
    assume "?body tr = Some x"
    then show "extends anything tr x"
      by (rule extends_body [where f = ?body])
        (intro partial_intros emits_intros renew_lease_emits may_emitI [OF hyp]; simp)
  qed
qed

lemma kobj_emits [emits_intros]:
  "(\<And>n. emits P (f n)) \<Longrightarrow> emits P g \<Longrightarrow> emits P (\<lambda>tr. case k of KNode n \<Rightarrow> f n tr | _ \<Rightarrow> g tr)"
  by (cases k) simp_all

lemma attempts_emit:
  "emits anything (put_attempts k E H c n nodeIP externalIP)"
  "emits anything (patch_attempts k E H c n nodeIP externalIP)"
  "emits anything (cordon_attempts k E c path cordon n)"
proof -
  have status: "emits anything (fresh_status E H n nodeIP externalIP)" for n
    by (rule emits_mono [OF fresh_status_silent]) simp
  have refresh: "emits anything (refreshNode E c name reason)" for name reason
    unfolding refreshNode_def [abs_def] by (intro emits_intros; simp)
  show put: "emits anything (put_attempts k E H c n nodeIP externalIP)" for k n
    by (induction k arbitrary: n)
      (auto simp: put_attempts.simps [abs_def] Let_def intro!: emits_intros status refresh simp del: put_attempts.simps)
  show "emits anything (patch_attempts k E H c n nodeIP externalIP)"
    by (induction k arbitrary: n)
      (auto simp: patch_attempts.simps [abs_def] updateNodeStatusWithFullPut_def [abs_def] Let_def
        intro!: emits_intros status refresh put simp del: patch_attempts.simps)
  show "emits anything (cordon_attempts k E c path cordon n)"
    by (induction k arbitrary: n)
      (auto simp: cordon_attempts.simps [abs_def] Let_def intro!: emits_intros simp del: cordon_attempts.simps)
qed

lemma node_emits:
  "may_emit anything (reconcileNodeAndLease E H c n nodeIP externalIP)"
  "emits anything (setNodeShutdownCordon E c n cordon)"
  unfolding reconcileNodeAndLease_def [abs_def] updateNodeStatus_def [abs_def] setNodeShutdownCordon_def [abs_def]
  by (intro partial_intros emits_intros attempts_emit ensureLease_emits; simp)+

lemma discovery_emits:
  "emits anything (discoverFlannelPeers E c localNodeName)"
  "emits anything (remoteVtepMAC E c remoteIP override)"
proof -
  show d: "emits anything (discoverFlannelPeers E c localNodeName)" for localNodeName
    unfolding discoverFlannelPeers_def [abs_def] by (auto simp: emits_def call_api_def Let_def split: sum.splits kobj.splits)
  show "emits anything (remoteVtepMAC E c remoteIP override)"
    unfolding remoteVtepMAC_def [abs_def] by (intro emits_intros d)
qed

lemma resolver_emits:
  "emits3 no_macker (resolver_reconcile E executable client r)"
  "emits3 no_macker (resolver_cleanup E executable r)"
proof -
  have discover: "emits no_macker (discoverClusterDNSNameservers E client)"
    unfolding emits_def discoverClusterDNSNameservers_def
    by (auto simp: call_api_def Let_def split: option.splits sum.splits kobj.splits)
  have install: "emits no_macker (replace_resolver E path content)" for path content
    unfolding replace_resolver_def [abs_def] install_resolver_def [abs_def] Let_def by (intro emits_intros; simp)
  have parts: "emits no_macker (writeManagedResolverFile E path domain ns)" "emits no_macker (managedResolverFileMatches E path domain ns)"
      "emits no_macker (removeManagedResolverFile E path)" "emits no_macker (runResolverHelper E executable remove ns)" for path domain ns remove
    unfolding writeManagedResolverFile_def [abs_def] managedResolverFileMatches_def [abs_def] removeManagedResolverFile_def [abs_def]
      runResolverHelper_def [abs_def]
    by (intro emits_intros install; simp)+
  have steps: "emits3 no_macker (choose_nameservers E client r)" "emits3 no_macker (install_nameservers E executable r ns)" for r ns
    unfolding choose_nameservers_def [abs_def] install_nameservers_def [abs_def] resolver_write_def [abs_def]
    by (intro emits_intros parts discover)+
  show "emits3 no_macker (resolver_reconcile E executable client r)" "emits3 no_macker (resolver_cleanup E executable r)"
    unfolding resolver_reconcile_def [abs_def] resolver_cleanup_def [abs_def] case_swap
    by (intro emits_intros parts steps)+
qed

lemma network_setup_emits [emits_intros]: "emits no_macker (networksetup E privileged args)"
  unfolding networksetup_def [abs_def] by (intro emits_intros; simp)

lemma search_emits:
  "emits3 no_macker (search_reconcile E s)"
  "emits3 no_macker (search_cleanup E s)"
proof -
  have parts: "emits3 no_macker (resolveService E s)" "emits no_macker (searchDomains E s)"
      "emits no_macker (apply_domains E s ds)" "emits no_macker (verify_domains E s)" for s ds
    unfolding resolveService_def [abs_def] searchDomains_def [abs_def] apply_domains_def [abs_def] verify_domains_def [abs_def]
      effectiveSearchDomains_def [abs_def] Let_def
    by (intro emits_intros; simp)+
  have last: "emits3 no_macker (release_service E s foreign)" "emits3 no_macker (publish_domains E s current)" for s foreign current
    unfolding release_service_def [abs_def] publish_domains_def [abs_def] by (intro emits_intros parts)+
  show "emits3 no_macker (search_reconcile E s)" "emits3 no_macker (search_cleanup E s)"
    unfolding search_reconcile_def [abs_def] search_cleanup_def [abs_def] Let_def case_swap
    by (intro emits_intros parts last)+
qed

lemma start_search_emits: "emits no_macker (start_search E cfg s)"
proof -
  have device: "emits no_macker (underlayDeviceForIP E address)" for address
    unfolding underlayDeviceForIP_def [abs_def] interfaceForAddress_def [abs_def]
    by (intro emits_intros; simp)
  have recorded: "emits no_macker (\<lambda>tr. (Some d, record_search E cfg r d tr))" for r d
    unfolding record_search_def writeSearchDomainsState_def emits_def
    by (auto simp: fs_do_eq split: option.splits)
  show ?thesis
    unfolding start_search_def [abs_def] by (intro emits_intros search_emits device recorded)
qed

lemma start_resolver_emits: "emits no_macker (start_resolver E D cfg s)"
  unfolding start_resolver_def [abs_def] by (intro emits_intros resolver_emits)

lemma client_emits: "emits anything (configuredPeerAPIClient E cfg s)"
proof -
  have r: "emits anything (read_bytes E path)" for path
    unfolding read_bytes_def [abs_def] by (intro emits_intros; simp)
  have f: "emits anything (data_or_file E dir data what path)" "emits anything (user_token E dir u)" for dir data what path u
    unfolding data_or_file_def [abs_def] user_token_def [abs_def] kubeconfigFile_def [abs_def] Let_def
    by (intro emits_intros r)+
  have c: "emits anything (select_client E server context_name insecure dir k)" for server context_name insecure dir k
    unfolding select_client_def [abs_def] client_of_def [abs_def] by (intro emits_intros f)
  show ?thesis
    unfolding configuredPeerAPIClient_def [abs_def] loadPeerAPIClient_def [abs_def] Let_def
    by (intro emits_intros r c; simp)
qed

lemma start_kubelet_emits: "emits anything (start_kubelet E cfg s S)"
proof -
  have r: "emits anything (read_bytes E path)" for path
    unfolding read_bytes_def [abs_def] by (intro emits_intros; simp)
  show ?thesis
    unfolding start_kubelet_def [abs_def] startKubeletServer_def [abs_def] load_key_pair_def [abs_def] Let_def
    by (intro emits_intros r; simp)
qed

lemma cleanup_pods_emits: "emits anything (cleanup_pods E c pods nodeName staleAfter now)"
proof (induction pods)
  case (Cons pod pods)
  then show ?case unfolding cleanup_pods.simps [abs_def] by (intro emits_intros; simp)
qed (simp add: emits_intros)

lemma force_delete_extends: "\<exists>es. force_delete E s allowed pods tr = es @ tr"
proof (cases allowed)
  case True
  let ?f = "\<lambda>tr. case time_now E tr of (now, tr) \<Rightarrow> cleanupPodList E PeerClient pods (st_node_name s) stale_after now tr"
  have "emits anything ?f"
    unfolding cleanupPodList_def by (intro emits_intros cleanup_pods_emits; simp)
  then have "\<exists>es. snd (?f tr) = es @ tr" unfolding emits_def by blast
  moreover have "force_delete E s allowed pods tr = snd (?f tr)" using True by (simp add: force_delete_def case_prod_beta)
  ultimately show ?thesis by simp
qed (simp add: force_delete_def)

section \<open>The manager follows the abstract session\<close>

definition manages :: "env \<Rightarrow> join_session \<Rightarrow> trace \<Rightarrow> bool" where
  "manages E S tr \<longleftrightarrow> (\<forall>m pid. js_manager S = Some (m, pid) \<longrightarrow> session E (m, tr))"

lemma manages_later: "manages E S tr \<Longrightarrow> js_manager S' = js_manager S \<Longrightarrow> manages E S' (es @ tr)"
  unfolding manages_def using session.proceeds manager_step.elsewhere by metis

lemma manages_step:
  "manages E S tr \<Longrightarrow> js_manager S = Some (m, pid) \<Longrightarrow> manager_step E (m, tr) (m', tr') \<Longrightarrow>
    js_manager S' = Some (m', pid) \<Longrightarrow> manages E S' tr'"
  unfolding manages_def using session.proceeds by (metis Pair_inject option.inject)

lemma manages_emits: "manages E S tr \<Longrightarrow> emits P f \<Longrightarrow> f tr = (x, tr') \<Longrightarrow> js_manager S' = js_manager S \<Longrightarrow> manages E S' tr'"
  using manages_later emitsD by metis

lemma manages_emits3: "manages E S tr \<Longrightarrow> emits3 P f \<Longrightarrow> f tr = (x, y, tr') \<Longrightarrow> js_manager S' = js_manager S \<Longrightarrow> manages E S' tr'"
  using manages_later emits3D by metis

lemma manages_may_emit: "manages E S tr \<Longrightarrow> may_emit P f \<Longrightarrow> f tr = Some (x, tr') \<Longrightarrow> js_manager S' = js_manager S \<Longrightarrow> manages E S' tr'"
  using manages_later may_emitD by metis

lemma stop_child_Inl [simp]: "stop_child E cfg pid e tr \<noteq> Some (Inr x, tr')"
  by (auto simp: stop_child_def Option.bind_eq_Some_conv)

lemma load_manager_Inr:
  assumes "load_manager E cfg s n h pid tr = Some (Inr (n', mp), tr')"
  obtains peer tr1 m where "loadJournalLocked E (fresh_manager cfg s peer h) tr1 = (None, m, tr')" "mp = Some (m, pid)"
  using assms by (auto simp: load_manager_def split: prod.splits option.splits)

lemma attach_manages:
  assumes "attach E D cfg s n peers mac tr = Some (Inr (n', mp), tr')"
  shows "manages E (first_session n' mp peer) tr'"
proof (cases "mp = None")
  case False
  obtain r tr1 where v: "startVXLAN E cfg (dm_cancelled D) n peers tr = Some (r, tr1)"
    using assms by (auto simp: attach_def Option.bind_eq_Some_conv)
  with assms False obtain vx pid where r: "r = Inr (Some (vx, pid))"
    by (auto simp: attach_def split: sum.splits option.splits)
  obtain r2 tr2 where g: "gateway_mac E cfg mac tr1 = (r2, tr2)" by force
  with assms v r obtain mac' where r2: "r2 = Inr mac'" by (cases r2) (auto simp: attach_def)
  obtain r3 tr3 where d: "setupDarwinNetwork E cfg vx peers mac' tr2 = (r3, tr3)" by force
  with assms v r g r2 obtain h where r3: "r3 = Inr h" by (cases r3) (auto simp: attach_def)
  have "connect_node E cfg s n vx h pid tr3 = Some (Inr (n', mp), tr')"
    using assms v r g r2 d r3 by (simp add: attach_def)
  then obtain n1 tr4 where "load_manager E cfg s n1 h pid tr4 = Some (Inr (n', mp), tr')"
    by (auto simp: connect_node_def split: sum.splits prod.splits)
  then obtain peer' tr5 m where "loadJournalLocked E (fresh_manager cfg s peer' h) tr5 = (None, m, tr')" "mp = Some (m, pid)"
    by (rule load_manager_Inr)
  moreover from this(1) have "session E (m, tr')" using d r3 unfolding fresh_manager_def by (auto intro: session.started)
  ultimately show ?thesis by (simp add: manages_def first_session_def)
qed (simp add: manages_def first_session_def)

lemma start_dns_manages:
  assumes "manages E S tr" "start_dns E D cfg s S tr = (S', tr')"
  shows "manages E S' tr'"
proof -
  obtain r tr1 where r: "start_resolver E D cfg s tr = (r, tr1)" by force
  obtain d tr2 where d: "start_search E cfg s tr1 = (d, tr2)" by force
  have "manages E S tr1" using manages_emits [OF assms(1) start_resolver_emits r] by simp
  then have "manages E (S\<lparr>js_resolver := r, js_search := d\<rparr>) tr2" using manages_emits [OF _ start_search_emits d] by simp
  with assms r d show ?thesis by (auto simp: start_dns_def split: if_splits)
qed

lemma find_cleanup_client_manages:
  assumes "manages E S tr" "find_cleanup_client E cfg s S tr = (S', tr')"
  shows "manages E S' tr'"
proof -
  obtain r tr1 where r: "configuredPeerAPIClient E cfg s tr = (r, tr1)" by force
  from manages_emits [OF assms(1) client_emits r] assms r show ?thesis
    by (auto simp: find_cleanup_client_def split: if_splits)
qed

lemma refresh_dns_manages: 
  assumes "manages E S tr" "refresh_dns E D S tr = (S', tr')"
  shows "manages E S' tr'"
proof -
  have r: "emits no_macker (refresh_resolver E D other r)" for other r
    unfolding refresh_resolver_def [abs_def] case_swap by (intro emits_intros resolver_emits)
  have e: "emits no_macker (refresh_dns E D S)"
    unfolding refresh_dns_def [abs_def] by (intro emits_intros r search_emits)
  have "js_manager S' = js_manager S" using assms(2) by (auto simp: refresh_dns_def split: prod.splits)
  then show ?thesis by (rule manages_emits [OF assms(1) e assms(2)])
qed

lemma follow_gateway_manages:
  assumes "manages E S tr" "follow_gateway E cfg S tr = (S', tr')"
  shows "manages E S' tr'"
proof (cases "\<exists>m pid c. js_manager S = Some (m, pid) \<and> js_peer S = Some c")
  case False
  with assms show ?thesis by (auto simp: follow_gateway_def split: option.splits prod.splits)
next
  case True
  then obtain m pid c where S: "js_manager S = Some (m, pid)" "js_peer S = Some c" by blast
  obtain r tr1 where r: "remoteVtepMAC E c (jc_vxlan_remote cfg) [] tr = (r, tr1)" by force
  have m1: "manages E S tr1" using manages_emits [OF assms(1) discovery_emits(2) r] by simp
  show ?thesis
  proof (cases "\<exists>mac h. r = Inr mac \<and> wm_network m = Some h")
    case False
    with assms(2) S r m1 show ?thesis by (auto simp: follow_gateway_def split: sum.splits option.splits)
  next
    case True
    then obtain mac h where h: "r = Inr mac" "wm_network m = Some h" by blast
    obtain x h' tr2 where g: "setGatewayMAC E h mac tr1 = (x, h', tr2)" by (metis prod.exhaust)
    have "S' = S\<lparr>js_manager := Some (put_manager_network h' m, pid)\<rparr>" "tr' = tr2"
      using assms(2) S r h g by (simp_all add: follow_gateway_def)
    then show ?thesis
      using manages_step [OF m1 S(1) manager_step.gateway [OF h(2) g]] by (simp add: put_manager_network_def)
  qed
qed

lemma reconcile_node_manages:
  assumes "manages E S tr" "reconcile_node E D cfg s S tr = Some ((r, S'), tr')"
  shows "manages E S' tr'"
proof -
  from assms(2) obtain n where
    "reconcileNodeAndLease E (dm_host D) NodeClient (js_node S) (st_node_ip s) (jc_external_ip cfg) tr = Some ((n, r), tr')"
    "S' = S\<lparr>js_node := n\<rparr>"
    by (auto simp: reconcile_node_def Option.bind_eq_Some_conv)
  with manages_may_emit [OF assms(1) node_emits(1)] show ?thesis by simp
qed

lemma listAssignedPods_emits: "emits anything (listAssignedPods E nodeName)"
  by (auto simp: listAssignedPods_def emits_def call_api_def Let_def split: sum.splits)

lemma reconcile_pods_manages:
  assumes "manages E S tr" "reconcile_pods_of E s S tr = (S', tr')"
  shows "manages E S' tr'"
proof (cases "js_manager S")
  case None
  with assms show ?thesis by (simp add: reconcile_pods_of_def)
next
  case (Some x)
  then obtain m pid where S: "js_manager S = Some (m, pid)" by (metis prod.exhaust)
  obtain r tr1 where l: "listAssignedPods E (st_node_name s) tr = (r, tr1)" by force
  have m1: "manages E S tr1" using manages_emits [OF assms(1) listAssignedPods_emits l] by simp
  show ?thesis
  proof (cases r)
    case (Inl e)
    with assms(2) S l m1 show ?thesis by (simp add: reconcile_pods_of_def)
  next
    case (Inr pods)
    obtain x m' tr2 where c: "reconcile E m pods tr1 = (x, m', tr2)" by (metis prod.exhaust)
    have S': "S' = S\<lparr>js_manager := Some (m', pid)\<rparr>" "tr' = force_delete E s (js_cleanup S) pods tr2"
      using assms(2) S l Inr c by (simp_all add: reconcile_pods_of_def)
    have "manages E S' tr2" using manages_step [OF m1 S manager_step.heartbeat [OF c]] S'(1) by simp
    then show ?thesis using force_delete_extends manages_later S'(2) by metis
  qed
qed

lemma heartbeat_manages:
  assumes "manages E S tr" "heartbeat E D cfg s S tr = Some (S', tr')"
  shows "manages E S' tr'"
proof -
  obtain S1 tr1 where a: "refresh_dns E D S tr = (S1, tr1)" by force
  obtain S2 tr2 where b: "follow_gateway E cfg S1 tr1 = (S2, tr2)" by force
  obtain r S3 tr3 where c: "reconcile_node E D cfg s S2 tr2 = Some ((r, S3), tr3)" "reconcile_pods_of E s S3 tr3 = (S', tr')"
    using assms(2) a b by (auto simp: heartbeat_def Option.bind_eq_Some_conv)
  from refresh_dns_manages [OF assms(1) a] follow_gateway_manages [OF _ b] reconcile_node_manages [OF _ c(1)]
    reconcile_pods_manages [OF _ c(2)] show ?thesis by blast
qed

definition loop_result :: "env \<Rightarrow> daemon \<Rightarrow> join_session \<Rightarrow> trace \<Rightarrow> join_session \<times> trace \<Rightarrow> bool" where
  "loop_result E D S tr x \<longleftrightarrow> (manages E S tr \<longrightarrow> manages E (fst x) (snd x)) \<and> dm_cancelled D (snd x)"

lemma session_loop_result:
  assumes "session_loop E D cfg s S tr = Some x"
  shows "loop_result E D S tr x"
  using assms
proof (rule session_loop.raw_induct [where P = "\<lambda>E D cfg s. loop_result E D", rotated])
  fix f :: "env \<Rightarrow> daemon \<Rightarrow> join_config \<Rightarrow> local_state \<Rightarrow> join_session \<Rightarrow> trace \<Rightarrow> (join_session \<times> trace) option"
    and E D cfg s S tr x
  assume hyp: "\<And>E D cfg s S tr x. f E D cfg s S tr = Some x \<Longrightarrow> loop_result E D S tr x"
    and run: "(if dm_cancelled D tr then Some (S, tr)
      else Option.bind (heartbeat E D cfg s S (go_sleep defaultHeartbeat tr)) (\<lambda>(S, tr). f E D cfg s S tr)) = Some x"
  show "loop_result E D S tr x"
  proof (cases "dm_cancelled D tr")
    case True
    with run show ?thesis by (auto simp: loop_result_def)
  next
    case False
    with run obtain S1 tr1 where h: "heartbeat E D cfg s S (go_sleep defaultHeartbeat tr) = Some (S1, tr1)" "f E D cfg s S1 tr1 = Some x"
      by (auto simp: Option.bind_eq_Some_conv)
    have "manages E S tr \<longrightarrow> manages E S (go_sleep defaultHeartbeat tr)"
      using manages_later [of E S tr S "[EvSleep defaultHeartbeat]"] by (simp add: go_sleep_def)
    with heartbeat_manages [OF _ h(1)] hyp [OF h(2)] show ?thesis by (auto simp: loop_result_def)
  qed
qed

section \<open>The end of a session\<close>

lemma clean_manager_manages:
  assumes "manages E S tr" "clean_manager E S tr = (S', tr')"
  shows "manages E S' tr'"
proof (cases "js_manager S")
  case (Some x)
  then obtain m pid where S: "js_manager S = Some (m, pid)" by (metis prod.exhaust)
  obtain r m' tr1 where c: "manager_cleanup E m tr = (r, m', tr1)" by (metis prod.exhaust)
  with assms S manages_step [OF assms(1) S manager_step.drain [OF c], of S'] show ?thesis by (auto simp: clean_manager_def)
qed (use assms in \<open>simp add: clean_manager_def\<close>)

lemma clean_network_manages:
  assumes "manages E S tr" "clean_network E S tr = (S', tr')"
  shows "manages E S' tr'"
proof (cases "\<exists>m pid h. js_manager S = Some (m, pid) \<and> wm_network m = Some h")
  case True
  then obtain m pid h where S: "js_manager S = Some (m, pid)" "wm_network m = Some h" by blast
  obtain r h' tr1 where c: "net_cleanup E h tr = (r, h', tr1)" by (metis prod.exhaust)
  with assms S manages_step [OF assms(1) S(1) manager_step.detach [OF S(2) c], of S'] show ?thesis
    by (auto simp: clean_network_def put_manager_network_def)
qed (use assms in \<open>auto simp: clean_network_def split: option.splits prod.splits\<close>)

lemma cordon_node_manages:
  assumes "manages E S tr" "cordon_node E S tr = (S', tr')"
  shows "manages E S' tr'"
proof -
  obtain r tr1 where c: "setNodeShutdownCordon E NodeClient (js_node S) True tr = (r, tr1)" by force
  with assms(2) have "js_manager S' = js_manager S" "tr' = tr1" by (auto simp: cordon_node_def split: sum.splits)
  with manages_emits [OF assms(1) node_emits(2) c] show ?thesis by simp
qed

lemma dns_emits: "emits no_macker (undo_dns E D S)"
  unfolding undo_dns_def [abs_def] by (intro emits_intros search_emits resolver_emits)

lemma undo_dns_manages:
  assumes "manages E S tr" "undo_dns E D S tr = (S', tr')"
  shows "manages E S' tr'"
proof -
  have "js_manager S' = js_manager S" using assms(2) by (auto simp: undo_dns_def split: prod.splits)
  then show ?thesis by (rule manages_emits [OF assms(1) dns_emits assms(2)])
qed

lemma clearFlannel_emits: "emits no_macker (clearFlannel E c nodeName)"
  unfolding clearFlannel_def [abs_def] Let_def by (intro emits_intros; simp)

lemma descendants_emits: "may_emit no_macker (descendants_of E names)"
proof (rule may_emitI)
  fix tr x
  assume "descendants_of E names tr = Some x"
  then show "extends no_macker tr x"
  proof (rule descendants_of.raw_induct [where P = "\<lambda>E names. extends no_macker", rotated])
    fix f :: "env \<Rightarrow> string list \<Rightarrow> trace \<Rightarrow> (int list \<times> trace) option" and E names tr x
    assume hyp: "\<And>E names tr x. f E names tr = Some x \<Longrightarrow> extends no_macker tr x"
    let ?body = "\<lambda>tr. case names of
         [] \<Rightarrow> Some ([], tr)
       | n # ns \<Rightarrow> (case atoi n of
           None \<Rightarrow> f E ns tr
         | Some child \<Rightarrow>
             if child \<le> 0 then f E ns tr
             else (case call_cmd E [''pgrep'', ''-P'', itoa child] tr of ((out, r), tr) \<Rightarrow>
               Option.bind (f E (if r = None then str_fields out else []) tr) (\<lambda>(below, tr).
               Option.bind (f E ns tr) (\<lambda>(others, tr). Some (below @ child # others, tr)))))"
    have "may_emit no_macker ?body"
      by (cases names; simp only: list.case)
        (intro partial_intros emits_intros may_emitI [OF hyp]; simp)+
    then show "extends no_macker tr x" if "?body tr = Some x" using that by (intro extends_body [where f = ?body])
  qed
qed

definition signalled :: "int \<Rightarrow> int \<Rightarrow> event \<Rightarrow> bool" where
  "signalled sig pid e \<longleftrightarrow> e = EvSignal pid sig \<or> (\<exists>out r. e = EvCmd ([''sudo'', ''-n''] @ kill_argv sig pid) out r)"

lemma signal_process_extends:
  "\<exists>e. signal_process E sudo sig pid tr = e # tr \<and> signalled sig pid e \<and> no_macker e"
  by (auto simp: signalled_def privileged_argv_def signal_process_def send_signal_def privileged_command_def call_cmd_def Let_def)

lemma signal_all_extends: "\<exists>es. fold (signal_process E sudo sig) pids tr = es @ tr \<and> list_all no_macker es"
proof (induction pids arbitrary: tr)
  case (Cons pid pids)
  obtain e where e: "signal_process E sudo sig pid tr = e # tr" "no_macker e" using signal_process_extends by blast
  from Cons.IH [of "e # tr"] obtain es where "fold (signal_process E sudo sig) pids (e # tr) = es @ e # tr" "list_all no_macker es" by blast
  with e show ?case by (intro exI [of _ "es @ [e]"]) simp
qed simp

lemma signalProcessTree_extends:
  assumes "signalProcessTree E pid sudo sig tr = Some tr'"
  shows "\<exists>es e. tr' = e # es @ tr \<and> list_all no_macker (e # es) \<and> signalled sig pid e"
proof -
  have e: "may_emit no_macker (processDescendants E pid)"
    unfolding processDescendants_def [abs_def] by (intro partial_intros emits_intros descendants_emits; simp)
  obtain children tr1 where d: "processDescendants E pid tr = Some (children, tr1)"
    and tr': "tr' = signal_process E sudo sig pid (fold (signal_process E sudo sig) (rev children) tr1)"
    using assms by (auto simp: signalProcessTree_def Option.bind_eq_Some_conv)
  from may_emitD [OF e d] obtain es1 where "tr1 = es1 @ tr" "list_all no_macker es1" by blast
  moreover obtain es2 where "fold (signal_process E sudo sig) (rev children) tr1 = es2 @ tr1" "list_all no_macker es2"
    using signal_all_extends by blast
  moreover obtain e where "signal_process E sudo sig pid (es2 @ tr1) = e # es2 @ tr1" "signalled sig pid e" "no_macker e"
    using signal_process_extends by blast
  ultimately show ?thesis using tr' by (intro exI [of _ "es2 @ es1"] exI [of _ e]) simp
qed

lemma vxlan_cleanup_extends:
  assumes "vxlan_cleanup E sudo pid tr = Some tr'"
  shows "\<exists>es. tr' = es @ tr \<and> list_all no_macker es \<and> list_ex (signalled SIGINT pid) es"
proof -
  obtain tr1 where a: "signalProcessTree E pid sudo SIGINT tr = Some tr1"
    using assms by (auto simp: vxlan_cleanup_def Option.bind_eq_Some_conv)
  obtain es1 e1 where one: "tr1 = e1 # es1 @ tr" "list_all no_macker (e1 # es1)" "signalled SIGINT pid e1"
    using signalProcessTree_extends [OF a] by blast
  show ?thesis
  proof (cases "e_exited E tr1 pid")
    case True
    with assms a have "tr' = tr1" by (simp add: vxlan_cleanup_def)
    with one show ?thesis by (intro exI [of _ "e1 # es1"]) simp
  next
    case False
    with assms a obtain tr2 where b: "signalProcessTree E pid sudo SIGKILL (go_sleep (5 * one_second) tr1) = Some tr2"
      and tr': "tr' = (if e_exited E tr2 pid then tr2 else go_sleep one_second tr2)"
      by (auto simp: vxlan_cleanup_def Option.bind_eq_Some_conv)
    obtain es2 e2 where two: "tr2 = e2 # es2 @ go_sleep (5 * one_second) tr1" "list_all no_macker (e2 # es2)"
      using signalProcessTree_extends [OF b] by blast
    show ?thesis
      by (rule exI [of _ "(if e_exited E tr2 pid then [] else [EvSleep one_second]) @ e2 # es2 @ EvSleep (5 * one_second) # e1 # es1"])
        (use one two tr' in \<open>simp add: go_sleep_def\<close>)
  qed
qed

lemma undo_network_steps:
  assumes "undo_network E cfg s S tr = Some (S', tr')" "js_manager S = Some (m, pid)"
  obtains S1 tr1 x tr2 S2 tr3 where "clean_manager E S tr = (S1, tr1)" "clearFlannel E NodeClient (st_node_name s) tr1 = (x, tr2)"
    "clean_network E S1 tr2 = (S2, tr3)" "S' = S2" "vxlan_cleanup E (jc_use_sudo cfg) pid tr3 = Some tr'"
  using assms by (auto simp: undo_network_def Option.bind_eq_Some_conv split: prod.splits)

lemma undo_network_manages:
  assumes "manages E S tr" "undo_network E cfg s S tr = Some (S', tr')"
  shows "manages E S' tr'"
proof (cases "js_manager S")
  case None
  with assms show ?thesis by (simp add: undo_network_def)
next
  case (Some y)
  then obtain m pid where S: "js_manager S = Some (m, pid)" by (metis prod.exhaust)
  from assms(2) S show ?thesis
  proof (rule undo_network_steps)
    fix S1 tr1 x tr2 S2 tr3
    assume a: "clean_manager E S tr = (S1, tr1)" and b: "clearFlannel E NodeClient (st_node_name s) tr1 = (x, tr2)"
      and c: "clean_network E S1 tr2 = (S2, tr3)" and S': "S' = S2" and v: "vxlan_cleanup E (jc_use_sudo cfg) pid tr3 = Some tr'"
    have "manages E S1 tr2"
      using manages_emits [OF clean_manager_manages [OF assms(1) a] clearFlannel_emits b] by simp
    from clean_network_manages [OF this c] vxlan_cleanup_extends [OF v] S' manages_later show ?thesis by metis
  qed
qed

lemma net_cleanup_emits: "emits3 no_macker (net_cleanup E h)"
proof -
  have one: "emits3 no_macker (removeWorkloadIP E h ip)" for h ip
    unfolding removeWorkloadIP_def [abs_def] Let_def by (intro emits_intros; simp)
  have aliases: "emits3 no_macker (cleanup_aliases E i h)" for i h
  proof (induction i arbitrary: h)
    case (Suc i)
    then show ?case unfolding cleanup_aliases.simps [abs_def] by (intro emits_intros one Suc.IH)
  qed (simp add: emits3_def)
  have routes: "emits no_macker (delete_routes E sudo rs)" for sudo rs
  proof (induction rs)
    case (Cons r rs)
    then show ?case unfolding delete_routes.simps [abs_def] by (intro emits_intros; simp)
  qed (simp add: emits_def)
  have arps: "emits no_macker (delete_arps E sudo ifn as)" for sudo ifn as
  proof (induction "as")
    case (Cons a as)
    then show ?case unfolding delete_arps.simps [abs_def] by (intro emits_intros; simp)
  qed (simp add: emits_def)
  have there: "emits no_macker (interface_exists E name)" for name
    unfolding interface_exists_def [abs_def] by (intro emits_intros; simp)
  show ?thesis
    unfolding net_cleanup_def [abs_def] by (intro emits_intros aliases routes arps there)
qed

section \<open>The whole session\<close>

lemma run_deferred_manages:
  assumes "manages E S tr" "run_deferred E D cfg s S tr = Some (S', tr')"
  shows "manages E S' tr'"
proof -
  obtain S1 tr1 where a: "undo_dns E D S tr = (S1, tr1)" by force
  with assms(2) have "undo_network E cfg s S1 tr1 = Some (S', tr')" by (simp add: run_deferred_def)
  then show ?thesis by (rule undo_network_manages [OF undo_dns_manages [OF assms(1) a]])
qed

lemma serve_pods_cases:
  assumes "serve_pods E D cfg s S tr = Some ((r, S'), tr')"
  obtains (once) "jc_once cfg" "reconcile_node E D cfg s S tr = Some ((r, S'), tr')"
  | (drained) x S1 tr1 S2 tr2 S3 tr3 where "\<not> jc_once cfg" "reconcile_node E D cfg s S tr = Some ((x, S1), tr1)"
      "reconcile_pods_of E s S1 tr1 = (S2, tr2)" "session_loop E D cfg s S2 tr2 = Some (S3, tr3)"
      "drain_session E S3 tr3 = (S', tr')" "r = None"
proof -
  obtain x S1 tr1 where n: "reconcile_node E D cfg s S tr = Some ((x, S1), tr1)"
    using assms by (auto simp: serve_pods_def Option.bind_eq_Some_conv)
  show thesis
  proof (cases "jc_once cfg")
    case True
    with assms n once show thesis by (simp add: serve_pods_def)
  next
    case False
    obtain S2 tr2 where p: "reconcile_pods_of E s S1 tr1 = (S2, tr2)" by force
    obtain S3 tr3 where l: "session_loop E D cfg s S2 tr2 = Some (S3, tr3)"
      using assms n False p by (auto simp: serve_pods_def Option.bind_eq_Some_conv)
    have "drain_session E S3 tr3 = (S', tr')" "r = None"
      using assms n False p l by (auto simp: serve_pods_def split: prod.splits)
    with drained [OF False n p l] show thesis by blast
  qed
qed

lemma serve_pods_manages:
  assumes "manages E S tr" "serve_pods E D cfg s S tr = Some ((r, S'), tr')"
  shows "manages E S' tr'"
  using assms(2)
proof (cases rule: serve_pods_cases)
  case once
  then show ?thesis using reconcile_node_manages [OF assms(1)] by blast
next
  case (drained x S1 tr1 S2 tr2 S3 tr3)
  have m2: "manages E S2 tr2"
    using reconcile_pods_manages [OF reconcile_node_manages [OF assms(1) drained(2)] drained(3)] .
  have m3: "manages E S3 tr3" using session_loop_result [OF drained(4)] m2 by (simp add: loop_result_def)
  obtain S4 tr4 where c: "cordon_node E S3 tr3 = (S4, tr4)" by force
  have "clean_manager E S4 tr4 = (S', tr')" using drained(5) c by (simp add: drain_session_def)
  then show ?thesis by (rule clean_manager_manages [OF cordon_node_manages [OF m3 c]])
qed

lemma run_services_cases:
  assumes "run_services E D cfg s S tr = Some ((r, S'), tr')"
  obtains S1 tr1 S2 tr2 e tr3 where "start_dns E D cfg s S tr = (S1, tr1)" "find_cleanup_client E cfg s S1 tr1 = (S2, tr2)"
    "start_kubelet E cfg s S2 tr2 = (e, tr3)" "if e = None then serve_pods E D cfg s S2 tr3 = Some ((r, S'), tr')
       else r = e \<and> S' = S2 \<and> tr' = tr3"
proof -
  obtain S1 tr1 where a: "start_dns E D cfg s S tr = (S1, tr1)" by force
  obtain S2 tr2 where b: "find_cleanup_client E cfg s S1 tr1 = (S2, tr2)" by force
  obtain e tr3 where c: "start_kubelet E cfg s S2 tr2 = (e, tr3)" by force
  show thesis
    by (rule that [OF a b c]) (use assms a b c in \<open>auto simp: run_services_def split: option.splits\<close>)
qed

lemma run_services_manages:
  assumes "manages E S tr" "run_services E D cfg s S tr = Some ((r, S'), tr')"
  shows "manages E S' tr'"
  using assms(2)
proof (rule run_services_cases)
  fix S1 tr1 S2 tr2 e tr3
  assume a: "start_dns E D cfg s S tr = (S1, tr1)" and b: "find_cleanup_client E cfg s S1 tr1 = (S2, tr2)"
    and c: "start_kubelet E cfg s S2 tr2 = (e, tr3)"
    and d: "if e = None then serve_pods E D cfg s S2 tr3 = Some ((r, S'), tr') else r = e \<and> S' = S2 \<and> tr' = tr3"
  have m: "manages E S2 tr3"
    using manages_emits [OF find_cleanup_client_manages [OF start_dns_manages [OF assms(1) a] b] start_kubelet_emits c] by simp
  show ?thesis using d m serve_pods_manages by (auto split: if_splits)
qed

lemma run_attached_cases:
  assumes "run_attached E D cfg s S tr = Some ((r, S'), tr')"
  obtains S1 tr1 where "run_services E D cfg s S tr = Some ((r, S1), tr1)" "run_deferred E D cfg s S1 tr1 = Some (S', tr')"
  using assms by (auto simp: run_attached_def Option.bind_eq_Some_conv)

text \<open>
  The moment at which a session comes out of its loop, and what it owns there: the stages of
  \<^verbatim>\<open>runJoinSession\<close> up to the loop, without those that follow it.
\<close>

definition loop_end_from ::
  "env \<Rightarrow> daemon \<Rightarrow> join_config \<Rightarrow> local_state \<Rightarrow> join_session \<Rightarrow> trace \<Rightarrow> (join_session \<times> trace) option" where
  "loop_end_from E D cfg s S tr = (case start_dns E D cfg s S tr of (S, tr) \<Rightarrow> (case find_cleanup_client E cfg s S tr of (S, tr) \<Rightarrow>
     (case start_kubelet E cfg s S tr of
        (Some e, tr) \<Rightarrow> None
      | (None, tr) \<Rightarrow> Option.bind (reconcile_node E D cfg s S tr) (\<lambda>((_, S), tr).
          (case reconcile_pods_of E s S tr of (S, tr) \<Rightarrow> session_loop E D cfg s S tr)))))"

definition loop_end :: "env \<Rightarrow> daemon \<Rightarrow> join_config \<Rightarrow> trace \<Rightarrow> (join_session \<times> trace) option" where
  "loop_end E D cfg tr = (case preparePrivileges E cfg tr of (Inl _, _) \<Rightarrow> None | (Inr cfg, tr) \<Rightarrow>
     (case bootstrap E cfg tr of (Inl _, _) \<Rightarrow> None | (Inr (s, _), tr) \<Rightarrow> (let cfg = resolve_config cfg s in
       Option.bind (claim_node E cfg s tr) (\<lambda>(r, tr). (case r of Inl _ \<Rightarrow> None | Inr (n, s) \<Rightarrow>
         (case discover_gateway E cfg s tr of (Inl _, _) \<Rightarrow> None | (Inr (peer, peers, mac), tr) \<Rightarrow>
           Option.bind (attach E D cfg s n peers mac tr) (\<lambda>(r, tr). (case r of Inl _ \<Rightarrow> None | Inr (n, m) \<Rightarrow>
             loop_end_from E D cfg s (first_session n m peer) tr))))))))"

lemma run_services_loop_end:
  assumes "run_services E D cfg s S tr = Some ((None, S'), tr')" "\<not> jc_once cfg"
  obtains S3 tr3 where "loop_end_from E D cfg s S tr = Some (S3, tr3)" "drain_session E S3 tr3 = (S', tr')" "dm_cancelled D tr3"
  using assms(1)
proof (rule run_services_cases)
  fix S1 tr1 S2 tr2 e tr2'
  assume a: "start_dns E D cfg s S tr = (S1, tr1)" and b: "find_cleanup_client E cfg s S1 tr1 = (S2, tr2)"
    and c: "start_kubelet E cfg s S2 tr2 = (e, tr2')"
    and d: "if e = None then serve_pods E D cfg s S2 tr2' = Some ((None, S'), tr') else None = e \<and> S' = S2 \<and> tr' = tr2'"
  then have e: "e = None" "serve_pods E D cfg s S2 tr2' = Some ((None, S'), tr')" by (auto split: if_splits)
  from e(2) show thesis
  proof (cases rule: serve_pods_cases)
    case (drained x S4 tr4 S5 tr5 S3 tr3)
    show thesis
    proof (rule that)
      show "loop_end_from E D cfg s S tr = Some (S3, tr3)" using a b c e(1) drained by (simp add: loop_end_from_def)
      show "dm_cancelled D tr3" using session_loop_result [OF drained(4)] by (simp add: loop_result_def)
    qed (rule drained(5))
  qed (use assms(2) in simp)
qed

text \<open>A run that came to own a session, from the point where the network was attached.\<close>

lemma runJoinSession_cases:
  assumes "runJoinSession E D cfg tr = Some ((r, Some S), tr')"
  obtains cfg' s S1 tr1 where "manages E S1 tr1" "run_attached E D cfg' s S1 tr1 = Some ((r, S), tr')"
    "jc_once cfg' = jc_once cfg" "loop_end E D cfg tr = loop_end_from E D cfg' s S1 tr1"
proof -
  obtain p tr1 where p: "preparePrivileges E cfg tr = (p, tr1)" by force
  with assms obtain cfg1 where cfg1: "p = Inr cfg1" by (cases p) (auto simp: runJoinSession_def)
  have o1: "jc_once cfg1 = jc_once cfg"
    using p cfg1 by (auto simp: preparePrivileges_def split: if_splits prod.splits option.splits)
  obtain b tr2 where b: "bootstrap E cfg1 tr1 = (b, tr2)" by force
  with assms p cfg1 obtain s0 spec where s0: "b = Inr (s0, spec)" by (cases b) (auto simp: runJoinSession_def)
  let ?cfg = "resolve_config cfg1 s0"
  have o2: "jc_once ?cfg = jc_once cfg" using o1 by (simp add: resolve_config_def Let_def)
  obtain c tr3 where c: "claim_node E ?cfg s0 tr2 = Some (c, tr3)"
    using assms p cfg1 b s0 by (auto simp: runJoinSession_def Let_def Option.bind_eq_Some_conv)
  with assms p cfg1 b s0 obtain n s where c': "claim_node E ?cfg s0 tr2 = Some (Inr (n, s), tr3)"
    and n: "run_claimed E D ?cfg s n tr3 = Some ((r, Some S), tr')"
    by (cases c) (auto simp: runJoinSession_def Let_def)
  obtain g tr4 where g: "discover_gateway E ?cfg s tr3 = (g, tr4)" by force
  with n obtain peer peers mac where g1: "g = Inr (peer, peers, mac)" by (cases g) (auto simp: run_claimed_def)
  obtain at tr5 where at: "attach E D ?cfg s n peers mac tr4 = Some (at, tr5)"
    using n g g1 by (auto simp: run_claimed_def Option.bind_eq_Some_conv)
  with n g g1 obtain n' mp where a: "attach E D ?cfg s n peers mac tr4 = Some (Inr (n', mp), tr5)"
    and r: "run_attached E D ?cfg s (first_session n' mp peer) tr5 = Some ((r, S), tr')"
    by (cases at) (auto simp: run_claimed_def Option.bind_eq_Some_conv)
  show thesis
    by (rule that [OF attach_manages [OF a] r o2]) (use p cfg1 b s0 c' g g1 a in \<open>simp add: loop_end_def Let_def\<close>)
qed

lemma run_attached_manages:
  assumes "manages E S tr" "run_attached E D cfg s S tr = Some ((r, S'), tr')"
  shows "manages E S' tr'"
  using assms(2)
proof (rule run_attached_cases)
  fix S1 tr1
  assume a: "run_services E D cfg s S tr = Some ((r, S1), tr1)" and b: "run_deferred E D cfg s S1 tr1 = Some (S', tr')"
  show ?thesis by (rule run_deferred_manages [OF run_services_manages [OF assms(1) a] b])
qed

text \<open>
  C6: whatever the session does, and however it ends, its manager is in a state that the abstract
  session reaches by loading a journal on a network that was set up and then by heartbeats, changes of
  the gateway, drains and the final clearing of the network; so it satisfies the invariant of a manager.
\<close>

theorem join_follows_session:
  assumes "runJoinSession E D cfg tr = Some ((r, Some S), tr')" "js_manager S = Some (m, pid)"
  shows "session E (m, tr') \<and> consistent m"
  using assms(1)
proof (rule runJoinSession_cases)
  fix cfg' s S1 tr1
  assume "manages E S1 tr1" "run_attached E D cfg' s S1 tr1 = Some ((r, S), tr')"
  then have "session E (m, tr')" using run_attached_manages assms(2) unfolding manages_def by blast
  with session_keeps [OF this] show ?thesis by simp
qed

section \<open>The order of a shutdown\<close>

definition node_request :: "string \<Rightarrow> event \<Rightarrow> bool" where
  "node_request name e \<longleftrightarrow> (\<exists>m body r. e = EvApi NodeClient m (node_path name) body r)"

lemma cordon_attempts_requests:
  "emits (\<lambda>e. \<exists>m body r. e = EvApi c m path body r) (cordon_attempts k E c path cordon n)"
  by (induction k arbitrary: n)
    (auto simp: cordon_attempts.simps [abs_def] Let_def intro!: emits_intros simp del: cordon_attempts.simps)

text \<open>The oldest event of an attempt is the patch.\<close>

lemma cordon_attempts_first:
  assumes "cordon_attempts (Suc k) E c path cordon n tr = (r, tr')"
  shows "\<exists>post. tr' = post @ EvApi c PATCH path (Some (cordon_patch cordon)) (e_api E tr c PATCH path (Some (cordon_patch cordon))) # tr"
proof -
  let ?b = "Some (cordon_patch cordon)"
  let ?f = "\<lambda>tr0 tr. case e_api E tr0 c PATCH path ?b of
       Inr x \<Rightarrow> (decode_node ''decode Node shutdown cordon update: '' x, tr)
     | Inl e \<Rightarrow>
         if \<not> http_code_is 409 e \<or> k = 0
         then (Inl (wrap (''set Node '' @ quote (node_name n) @ '' shutdown cordon='' @
           (if cordon then ''true'' else ''false'') @ '': '') e), tr)
         else (case call_api E c GET path None tr of
            (Inl ge, tr) \<Rightarrow> (Inl (wrap ''refresh Node after shutdown cordon conflict: '' ge), tr)
          | (Inr x, tr) \<Rightarrow> (case decode_node ''decode Node after shutdown cordon conflict: '' x of
              Inl de \<Rightarrow> (Inl de, tr)
            | Inr current \<Rightarrow> if cordon_settled cordon current then (Inr current, tr)
                else cordon_attempts k E c path cordon current tr))"
  have "emits anything (?f tr0)" for tr0
    by (intro emits_intros attempts_emit; simp)
  moreover have "?f tr (EvApi c PATCH path ?b (e_api E tr c PATCH path ?b) # tr) = (r, tr')"
    using assms by (simp add: call_api_def Let_def cong: sum.case_cong)
  ultimately show ?thesis by (blast dest: emitsD)
qed

text \<open>
  The request for the shutdown cordon of a Node: nothing at all when the Node has it already, and otherwise
  requests for this Node of which the first is the patch.
\<close>

definition asks_for_cordon :: "node \<Rightarrow> trace \<Rightarrow> bool" where
  "asks_for_cordon n es \<longleftrightarrow> (if cordon_settled True n then es = []
     else list_all (node_request (node_name n)) es \<and> es \<noteq> [] \<and>
       (\<exists>r. last es = EvApi NodeClient PATCH (node_path (node_name n)) (Some (cordon_patch True)) r))"

lemma cordon_node_result:
  assumes "cordon_node E S tr = (S', tr')"
  obtains es where "tr' = es @ tr" "asks_for_cordon (js_node S) es" "js_manager S' = js_manager S"
proof -
  let ?path = "node_path (node_name (js_node S))"
  obtain r tr1 where c: "setNodeShutdownCordon E NodeClient (js_node S) True tr = (r, tr1)" by force
  with assms have S': "js_manager S' = js_manager S" "tr' = tr1" by (auto simp: cordon_node_def split: sum.splits)
  show thesis
  proof (cases "cordon_settled True (js_node S)")
    case True
    with c S' that [of "[]"] show thesis by (simp add: setNodeShutdownCordon_def asks_for_cordon_def)
  next
    case False
    with c have a: "cordon_attempts (Suc 4) E NodeClient ?path True (js_node S) tr = (r, tr1)"
      by (simp add: setNodeShutdownCordon_def eval_nat_numeral)
    from emitsD [OF cordon_attempts_requests a] obtain es where es: "tr1 = es @ tr" "list_all (node_request (node_name (js_node S))) es"
      by (auto simp: node_request_def list_all_iff)
    from cordon_attempts_first [OF a] es(1) obtain post where
      "es = post @ [EvApi NodeClient PATCH ?path (Some (cordon_patch True)) (e_api E tr NodeClient PATCH ?path (Some (cordon_patch True)))]"
      by force
    then have "asks_for_cordon (js_node S) es" using False es(2) by (simp add: asks_for_cordon_def)
    then show thesis using that [OF _ _ S'(1)] es(1) S'(2) by simp
  qed
qed

text \<open>What a removal asks of Macker: the logs, a stop and a removal.\<close>

definition starts_nothing :: "event \<Rightarrow> bool" where
  "starts_nothing e \<longleftrightarrow> (\<forall>b args out r. e = EvMacker b args out r \<longrightarrow> hd args \<in> {''logs'', ''stop'', ''rm''})"

lemma starts_nothing_no_macker: "no_macker e \<Longrightarrow> starts_nothing e"
  by (cases e) (simp_all add: starts_nothing_def)

lemma starts_nothing_macker [simp]: "starts_nothing (EvMacker b args out r) \<longleftrightarrow> hd args \<in> {''logs'', ''stop'', ''rm''}"
  by (simp add: starts_nothing_def)

lemma starts_nothing_other [simp]: "starts_nothing (EvFs q x)" "starts_nothing (EvNow t)" "starts_nothing (EvCmd argv out r)"
  by (simp_all add: starts_nothing_def)

lemma private_file_emits: "(\<And>q x. P (EvFs q x)) \<Longrightarrow> emits P (writePrivateFile E path body mode)"
  unfolding writePrivateFile_def [abs_def] install_private_def [abs_def] chownToInvokingUser_def [abs_def] Let_def
  by (intro emits_intros; simp)

lemma journal_emits: "emits starts_nothing (persistJournalLocked E m)"
  unfolding persistJournalLocked_def [abs_def] by (intro emits_intros private_file_emits; simp)

lemma removeWorkload_emits: "emits3 starts_nothing (removeWorkload E m w)"
proof -
  have mk: "hd args \<in> {''logs'', ''stop'', ''rm''} \<Longrightarrow> emits starts_nothing (mackerOutput E m args)" for args
    unfolding mackerOutput_def [abs_def] by (intro emits_intros; simp)
  have logs: "emits3 starts_nothing (archiveWorkloadLogs E m w)"
    unfolding archiveWorkloadLogs_def [abs_def] by (intro emits_intros mk private_file_emits; simp)
  have stop: "emits starts_nothing (stopContainer E m w)" for w
    unfolding stopContainer_def [abs_def] by (intro emits_intros mk; simp)
  have address: "emits3 starts_nothing (remove_alias E m w)" for w
    unfolding remove_alias_def [abs_def] removeWorkloadIP_def [abs_def] Let_def by (intro emits_intros; simp)
  have unmount: "emits starts_nothing (unmount_all E sudo mts)" for sudo mts
  proof (induction mts)
    case (Cons mt mts)
    then show ?case unfolding unmount_all.simps [abs_def] runNFSUnmount_def [abs_def] by (intro emits_intros; simp)
  qed (simp add: emits_def)
  have volumes: "emits starts_nothing (remove_volumes E ps)" for ps
  proof (induction ps)
    case (Cons p ps)
    then show ?case unfolding remove_volumes.simps [abs_def] by (intro emits_intros; simp)
  qed (simp add: emits_def)
  show ?thesis
    unfolding removeWorkload_def [abs_def] by (intro emits_intros logs stop address unmount volumes)
qed

lemma remove_each_extends:
  "remove_each E skip label uids m changed es tr = (x, m', tr') \<Longrightarrow> \<exists>new. tr' = new @ tr \<and> list_all starts_nothing new"
proof (induction uids arbitrary: m changed es tr)
  case (Cons uid uids)
  show ?case
  proof (cases "skip uid \<or> map_of (wm_workloads m) uid = None")
    case True
    with Cons.prems have "remove_each E skip label uids m changed es tr = (x, m', tr')" by (auto split: if_splits)
    then show ?thesis by (rule Cons.IH)
  next
    case False
    then obtain w where w: "map_of (wm_workloads m) uid = Some w" by auto
    obtain r m1 w1 tr1 where r: "removeWorkload E m w tr = (r, (m1, w1), tr1)" by (metis prod.exhaust)
    obtain es1 where es1: "tr1 = es1 @ tr" "list_all starts_nothing es1" using emits3D [OF removeWorkload_emits r] by blast
    have "\<exists>new m2 changed2 es2. remove_each E skip label uids m2 changed2 es2 (new @ tr1) = (x, m', tr') \<and> list_all starts_nothing new"
    proof (cases r)
      case None
      obtain m2 tr2 where q: "retainWorkloadLocked E m1 w1 tr1 = (m2, tr2)" by force
      have "\<exists>new. tr2 = new @ tr1 \<and> list_all starts_nothing new"
        using q by (cases "mw_log_expires w1") (auto simp: retainWorkloadLocked_def time_now_def Let_def)
      then show ?thesis using Cons.prems False w r None q by auto
    next
      case (Some e)
      then have "remove_each E skip label uids (m1\<lparr>wm_workloads := mput (wm_workloads m1) uid w1\<rparr>) changed
          (es @ [wrap (label uid w1) e]) tr1 = (x, m', tr')" using Cons.prems False w r by auto
      then have "\<exists>m2 changed2 es2. remove_each E skip label uids m2 changed2 es2 tr1 = (x, m', tr')" by blast
      then show ?thesis by (intro exI [of _ "[]"]) simp
    qed
    then obtain new m2 changed2 es2 where later: "remove_each E skip label uids m2 changed2 es2 (new @ tr1) = (x, m', tr')"
      "list_all starts_nothing new" by blast
    from Cons.IH [OF later(1)] es1 later(2) show ?thesis by auto
  qed
qed simp

lemma manager_cleanup_extends:
  assumes "manager_cleanup E m tr = (r, m', tr')"
  shows "\<exists>es. tr' = es @ tr \<and> list_all starts_nothing es"
proof -
  obtain changed es m1 tr1 where a: "remove_each E (\<lambda>_. False) (\<lambda>uid w. ''cleanup workload '' @ uid @ '': '')
      (e_order E (mkeys (wm_workloads m))) m False [] tr = ((changed, es), m1, tr1)" by (metis prod.exhaust)
  obtain j tr2 where j: "persistJournalLocked E m1 tr1 = (j, tr2)" by force
  obtain es1 where "tr1 = es1 @ tr" "list_all starts_nothing es1" using remove_each_extends [OF a] by blast
  moreover obtain es2 where "tr2 = es2 @ tr1" "list_all starts_nothing es2" using emitsD [OF journal_emits j] by blast
  moreover have "tr' = tr1 \<or> tr' = tr2" using assms a j by (auto simp: manager_cleanup_def split: if_splits)
  ultimately show ?thesis by auto
qed

section \<open>What comes after the context has ended\<close>

definition winds_down :: "trace \<Rightarrow> trace \<Rightarrow> bool" where
  "winds_down tr tr' \<longleftrightarrow> (\<exists>es. tr' = es @ tr \<and> list_all starts_nothing es)"

lemma winds_down_refl [simp]: "winds_down tr tr"
  by (simp add: winds_down_def)

lemma winds_down_trans [trans]: "winds_down a b \<Longrightarrow> winds_down b c \<Longrightarrow> winds_down a c"
  by (auto simp: winds_down_def)

lemma winds_down_emits: "emits no_macker f \<Longrightarrow> f tr = (x, tr') \<Longrightarrow> winds_down tr tr'"
  unfolding winds_down_def using emitsD list.pred_mono_strong starts_nothing_no_macker by metis

lemma clean_manager_down:
  assumes "clean_manager E S tr = (S', tr')"
  shows "winds_down tr tr'"
proof (cases "js_manager S")
  case (Some x)
  then obtain m pid where S: "js_manager S = Some (m, pid)" by (metis prod.exhaust)
  obtain r m' tr1 where c: "manager_cleanup E m tr = (r, m', tr1)" by (metis prod.exhaust)
  with assms S manager_cleanup_extends [OF c] show ?thesis by (auto simp: clean_manager_def winds_down_def)
qed (use assms in \<open>simp add: clean_manager_def\<close>)

lemma clean_network_down:
  assumes "clean_network E S tr = (S', tr')"
  shows "winds_down tr tr' \<and> (\<forall>m pid. js_manager S = Some (m, pid) \<longrightarrow>
    (\<exists>m'. js_manager S' = Some (m', pid) \<and> wm_workloads m' = wm_workloads m))"
proof (cases "\<exists>m pid h. js_manager S = Some (m, pid) \<and> wm_network m = Some h")
  case True
  then obtain m pid h where S: "js_manager S = Some (m, pid)" "wm_network m = Some h" by blast
  obtain r h' tr1 where c: "net_cleanup E h tr = (r, h', tr1)" by (metis prod.exhaust)
  obtain es where es: "tr1 = es @ tr" "list_all no_macker es" using emits3D [OF net_cleanup_emits c] by blast
  then have "winds_down tr tr1"
    unfolding winds_down_def using list.pred_mono_strong starts_nothing_no_macker by metis
  with assms S c show ?thesis by (auto simp: clean_network_def put_manager_network_def)
qed (use assms in \<open>auto simp: clean_network_def split: option.splits prod.splits\<close>)

lemma undo_network_down:
  assumes "undo_network E cfg s S tr = Some (S', tr')"
  shows "winds_down tr tr'"
proof (cases "js_manager S")
  case None
  with assms show ?thesis by (simp add: undo_network_def)
next
  case (Some y)
  then obtain m pid where S: "js_manager S = Some (m, pid)" by (metis prod.exhaust)
  from assms S show ?thesis
  proof (rule undo_network_steps)
    fix S1 tr1 x tr2 S2 tr3
    assume a: "clean_manager E S tr = (S1, tr1)" and b: "clearFlannel E NodeClient (st_node_name s) tr1 = (x, tr2)"
      and c: "clean_network E S1 tr2 = (S2, tr3)" and v: "vxlan_cleanup E (jc_use_sudo cfg) pid tr3 = Some tr'"
    note clean_manager_down [OF a]
    also note winds_down_emits [OF clearFlannel_emits b]
    also have "winds_down tr2 tr3" using clean_network_down [OF c] by simp
    also have "winds_down tr3 tr'"
      using vxlan_cleanup_extends [OF v] list.pred_mono_strong starts_nothing_no_macker unfolding winds_down_def by metis
    finally show ?thesis .
  qed
qed

lemma run_deferred_down:
  assumes "run_deferred E D cfg s S tr = Some (S', tr')"
  shows "winds_down tr tr'"
proof -
  obtain S1 tr1 where a: "undo_dns E D S tr = (S1, tr1)" by force
  with assms have "undo_network E cfg s S1 tr1 = Some (S', tr')" by (simp add: run_deferred_def)
  with winds_down_emits [OF dns_emits a] undo_network_down winds_down_trans show ?thesis by blast
qed

text \<open>
  C4: when a session ends because its context has ended, the first thing that happens after it has left its
  loop is the request for the shutdown cordon of the Node that it holds at that moment: if the Node has
  the cordon already nothing is asked, and otherwise the first event is the patch that asks for it, and only requests for this
  Node come before the cleanup of the workloads; and from that moment on Macker is asked for logs, stops and
  removals only, so no workload is started on a Node that is shutting down.
\<close>

theorem cordon_before_drain:
  assumes "runJoinSession E D cfg tr = Some ((None, Some S), tr')" "\<not> jc_once cfg"
  shows "\<exists>S3 tr3 es1 es2. loop_end E D cfg tr = Some (S3, tr3) \<and> dm_cancelled D tr3 \<and> tr' = es2 @ es1 @ tr3 \<and>
    (if cordon_settled True (js_node S3) then es1 = []
     else list_all (node_request (node_name (js_node S3))) es1 \<and> es1 \<noteq> [] \<and>
       (\<exists>r. last es1 = EvApi NodeClient PATCH (node_path (node_name (js_node S3))) (Some (cordon_patch True)) r)) \<and>
    list_all starts_nothing es2"
  using assms(1)
proof (rule runJoinSession_cases)
  fix cfg' s S0 tr0
  assume run: "run_attached E D cfg' s S0 tr0 = Some ((None, S), tr')" and once: "jc_once cfg' = jc_once cfg"
    and le: "loop_end E D cfg tr = loop_end_from E D cfg' s S0 tr0"
  from run show ?thesis
  proof (rule run_attached_cases)
    fix S1 tr1
    assume services: "run_services E D cfg' s S0 tr0 = Some ((None, S1), tr1)" and undo: "run_deferred E D cfg' s S1 tr1 = Some (S, tr')"
    obtain S3 tr3 where l: "loop_end E D cfg tr = Some (S3, tr3)" and drain: "drain_session E S3 tr3 = (S1, tr1)"
      and c: "dm_cancelled D tr3"
      using run_services_loop_end [OF services] once assms(2) le by metis
    obtain S4 tr4 where k: "cordon_node E S3 tr3 = (S4, tr4)" by force
    then have m: "clean_manager E S4 tr4 = (S1, tr1)" using drain by (simp add: drain_session_def)
    from winds_down_trans [OF clean_manager_down [OF m] run_deferred_down [OF undo]] obtain es2 where
      es2: "tr' = es2 @ tr4" "list_all starts_nothing es2" by (auto simp: winds_down_def)
    obtain es1 where es1: "tr4 = es1 @ tr3" "asks_for_cordon (js_node S3) es1" using k by (rule cordon_node_result)
    show ?thesis
      by (rule exI [of _ S3], rule exI [of _ tr3], rule exI [of _ es1], rule exI [of _ es2])
        (use l c es1 es2 in \<open>simp add: asks_for_cordon_def\<close>)
  qed
qed

definition ended_clean :: "env \<Rightarrow> manager \<Rightarrow> int \<Rightarrow> trace \<Rightarrow> bool" where
  "ended_clean E m pid tr \<longleftrightarrow> (\<exists>m0 tr0 x m1 tr1 es. session E (m0, tr0) \<and> manager_cleanup E m0 tr0 = (x, m1, tr1) \<and> tr = es @ tr1 \<and>
     list_all no_macker es \<and> list_ex (signalled SIGINT pid) es \<and> wm_workloads m = wm_workloads m1 \<and>
     (x = None \<longrightarrow> wm_workloads m = []))"

lemma undo_network_clean:
  assumes "manages E S tr" "undo_network E cfg s S tr = Some (S', tr')" "js_manager S' = Some (m, pid)" "order_ok E"
  shows "ended_clean E m pid tr'"
proof (cases "js_manager S")
  case None
  with assms show ?thesis by (simp add: undo_network_def)
next
  case (Some y)
  then obtain m0 pid0 where S: "js_manager S = Some (m0, pid0)" by (metis prod.exhaust)
  from assms(2) S show ?thesis
  proof (rule undo_network_steps)
    fix S1 tr1 x tr2 S2 tr3
    assume a: "clean_manager E S tr = (S1, tr1)" and b: "clearFlannel E NodeClient (st_node_name s) tr1 = (x, tr2)"
      and c: "clean_network E S1 tr2 = (S2, tr3)" and S': "S' = S2" and v: "vxlan_cleanup E (jc_use_sudo cfg) pid0 tr3 = Some tr'"
    obtain r m1 tr0 where k: "manager_cleanup E m0 tr = (r, m1, tr0)" by (metis prod.exhaust)
    have S1: "js_manager S1 = Some (m1, pid0)" "tr0 = tr1" using a S k by (auto simp: clean_manager_def)
    have m: "wm_workloads m = wm_workloads m1" "pid = pid0" using clean_network_down [OF c] S1 S' assms(3) by auto
    have session: "session E (m0, tr)" using assms(1) S by (simp add: manages_def)
    then have "consistent m0" using session_keeps [of E "(m0, tr)"] by simp
    then have none: "r = None \<longrightarrow> wm_workloads m = []" using manager_cleanup_result [OF k] assms(4) m by simp
    obtain es1 where e1: "tr2 = es1 @ tr1" "list_all no_macker es1" using emitsD [OF clearFlannel_emits b] by blast
    have "\<exists>es2. tr3 = es2 @ tr2 \<and> list_all no_macker es2"
    proof (cases "wm_network m1")
      case None
      with c S1 show ?thesis by (simp add: clean_network_def)
    next
      case (Some h)
      obtain q h' tr4 where n: "net_cleanup E h tr2 = (q, h', tr4)" by (metis prod.exhaust)
      with c S1 Some have "tr4 = tr3" by (simp add: clean_network_def)
      with emits3D [OF net_cleanup_emits n] show ?thesis by simp
    qed
    then obtain es2 where e2: "tr3 = es2 @ tr2" "list_all no_macker es2" by blast
    obtain es3 where e3: "tr' = es3 @ tr3" "list_all no_macker es3" "list_ex (signalled SIGINT pid0) es3"
      using vxlan_cleanup_extends [OF v] by blast
    show ?thesis
      unfolding ended_clean_def
      by (rule exI [of _ m0], rule exI [of _ tr], rule exI [of _ r], rule exI [of _ m1], rule exI [of _ tr1],
          rule exI [of _ "es3 @ es2 @ es1"]) (use session k S1 e1 e2 e3 m none in simp)
  qed
qed

text \<open>
  C5: however a session ends that had attached the network, the last thing that happens to its workloads is
  a cleanup of the manager as the session has left it, after which Macker is not called again and the VXLAN child
  is interrupted; a cleanup without an error leaves no workload behind.
\<close>

theorem join_ends_clean:
  assumes "runJoinSession E D cfg tr = Some ((r, Some S), tr')" "js_manager S = Some (m, pid)" "order_ok E"
  shows "\<exists>m0 tr0 x m1 tr1 es. session E (m0, tr0) \<and> manager_cleanup E m0 tr0 = (x, m1, tr1) \<and> tr' = es @ tr1 \<and>
    list_all no_macker es \<and> list_ex (signalled SIGINT pid) es \<and> wm_workloads m = wm_workloads m1 \<and>
    (x = None \<longrightarrow> wm_workloads m = [])"
  using assms(1)
proof (rule runJoinSession_cases)
  fix cfg' s S0 tr0
  assume m0: "manages E S0 tr0" and run: "run_attached E D cfg' s S0 tr0 = Some ((r, S), tr')"
  from run show ?thesis
  proof (rule run_attached_cases)
    fix S1 tr1
    assume a: "run_services E D cfg' s S0 tr0 = Some ((r, S1), tr1)" and b: "run_deferred E D cfg' s S1 tr1 = Some (S, tr')"
    obtain S2 tr2 where d: "undo_dns E D S1 tr1 = (S2, tr2)" by force
    with b have n: "undo_network E cfg' s S2 tr2 = Some (S, tr')" by (simp add: run_deferred_def)
    from undo_network_clean [OF undo_dns_manages [OF run_services_manages [OF m0 a] d] n assms(2,3)]
    show ?thesis by (simp only: ended_clean_def)
  qed
qed

section \<open>A session from beginning to end\<close>

text \<open>
  A node that was joined before, with one workload in its journal, whose context has ended when the
  loop is reached.
\<close>

definition joined_node :: node where
  "joined_node = \<lparr>n_meta = empty_meta\<lparr>om_name := ''mac'', om_uid := ''u-1'', om_annotations := [(nodeInstanceAnnotation, ''0f'')],
       om_labels := om_labels (n_meta (desiredNode quiet_env ''mac''))\<rparr>,
     n_spec = \<lparr>ns_pod_cidr = ''10.42.7.0/24'', ns_pod_cidrs = [], ns_taints = [managed_taint], ns_unschedulable = False\<rparr>\<rparr>"

definition joined_config :: join_config where
  "joined_config = demo_config\<lparr>jc_dns_resolver := False, jc_vxlan_binary := ''/opt/darwin-vxlan'', jc_vxlan_gateway_mac := ''aa:bb:cc:dd:ee:ff''\<rparr>"

definition just_started :: "trace \<Rightarrow> bool" where
  "just_started tr \<longleftrightarrow> (case tr of EvNow _ # EvStart _ _ # _ \<Rightarrow> True | _ \<Rightarrow> False)"

definition joined_state :: local_state where
  "joined_state = (kubelet_paths ''/var/maclet/state.json'' demo_state)\<lparr>st_node_uid := ''u-1''\<rparr>"

definition joined_env :: env where
  "joined_env = quiet_env\<lparr>
     e_fs := \<lambda>tr q. (case q of
         ReadFile p \<Rightarrow>
           if p = ''/var/maclet/state.json'' then FData (FJson (encode_state joined_state))
           else if p = ''/var/maclet/workloads.json'' then FData (FJson (encode_journal quiet_env [demo_live]))
           else FData (FBytes ''pem'')
       | CreateTemp _ _ \<Rightarrow> FNames [''/var/maclet/.maclet-1''] | _ \<Rightarrow> FDone),
     e_api := \<lambda>_ _ m p _. (if p = leases_path @ ''/mac'' \<and> m = GET then Inr (KLease (new_lease ''mac'' 1))
         else if has_prefix p ''/api/v1/pods'' then Inr (KPods []) else Inr (KNode joined_node)),
     e_ifaces := \<lambda>tr. Inr (if just_started tr
       then [\<lparr>if_name = ''bridge100'', if_mac = ''02:00:00:00:00:01'', if_addrs = Some [ip_of_v4 (ip4_of_octets 10 42 7 1)]\<rparr>] else []),
     e_pem := \<lambda>s. Some (''CERTIFICATE'', s, []), e_certificate := \<lambda>_. Some (10 ^ 18), e_now := \<lambda>_. 1000\<rparr>"

definition joined_daemon :: daemon where
  "joined_daemon = \<lparr>dm_host = demo_host, dm_executable = Inr ''/usr/local/bin/maclet'', dm_cancelled = \<lambda>_. True\<rparr>"

definition joined_network :: net_handle where
  "joined_network = \<lparr>nh_interface = ''bridge100'', nh_pod_cidr = ''10.42.7.1/24'', nh_gateway = ''10.42.7.2'',
     nh_gateway_mac = ''aa:bb:cc:dd:ee:ff'',
     nh_peers = [\<lparr>pg_pod_cidr = [], pg_gateway = ''10.42.7.2'', pg_mac = ''aa:bb:cc:dd:ee:ff'', pg_public_ip = ''192.0.2.1''\<rparr>],
     nh_arps = [\<lparr>ar_ip = ''10.42.7.2'', ar_mac = ''aa:bb:cc:dd:ee:ff''\<rparr>],
     nh_routes = [\<lparr>rt_network = ''10.42.0.0'', rt_netmask = ''255.255.0.0'', rt_gateway = ''10.42.7.2''\<rparr>,
       \<lparr>rt_network = ''10.43.0.0'', rt_netmask = ''255.255.0.0'', rt_gateway = ''10.42.7.2''\<rparr>],
     nh_aliases = [], nh_sudo = True\<rparr>"

abbreviation found_config :: join_config where
  "found_config \<equiv> resolve_config joined_config joined_state"

definition joined_manager :: manager where
  "joined_manager = (fresh_manager found_config joined_state False joined_network)
     \<lparr>wm_workloads := [(''u1'', demo_live\<lparr>mw_retry := None\<rparr>)]\<rparr>"

lemmas [code] = session_loop.simps ensureLease.simps pod_cidr_loop.simps descendants_of.simps
  bridge_loop.simps await_termination.simps

text \<open>The stages of the session, each from any trace.\<close>

lemma joined_bootstrap: "map_sum id fst (fst (bootstrap joined_env joined_config tr)) = Inr joined_state"
  by code_simp

lemma joined_claim: "map_option fst (claim_node joined_env found_config joined_state tr) = Some (Inr (joined_node, joined_state))"
  by code_simp

lemma joined_attach:
  "map_option fst (attach joined_env joined_daemon found_config joined_state joined_node [] [] tr) =
    Some (Inr (joined_node, Some (joined_manager, 4711)))"
  by code_simp

lemma joined_end:
  "map_option (\<lambda>((r, S), _). (r, map_option snd (js_manager S)))
     (run_attached joined_env joined_daemon found_config joined_state (first_session joined_node (Some (joined_manager, 4711)) None) tr) =
    Some (None, Some 4711)"
  by code_simp

lemma joined_stages:
  "\<exists>tr. runJoinSession joined_env joined_daemon joined_config [] =
      Option.bind (run_attached joined_env joined_daemon found_config joined_state (first_session joined_node (Some (joined_manager, 4711)) None) tr)
        (\<lambda>((r, S), tr). Some ((r, Some S), tr)) \<and>
    loop_end joined_env joined_daemon joined_config [] =
      loop_end_from joined_env joined_daemon found_config joined_state (first_session joined_node (Some (joined_manager, 4711)) None) tr"
proof -
  obtain tr0 where p: "preparePrivileges joined_env joined_config [] = (Inr joined_config, tr0)"
    by (simp add: preparePrivileges_def joined_config_def joined_env_def quiet_env_def demo_config_def call_cmd_def)
  obtain spec tr1 where b: "bootstrap joined_env joined_config tr0 = (Inr (joined_state, spec), tr1)"
    using joined_bootstrap [of tr0] by (cases "bootstrap joined_env joined_config tr0"; cases "fst (bootstrap joined_env joined_config tr0)") auto
  obtain tr2 where c: "claim_node joined_env found_config joined_state tr1 = Some (Inr (joined_node, joined_state), tr2)"
    using joined_claim [of tr1] by auto
  have g: "discover_gateway joined_env found_config joined_state tr2 = (Inr (None, [], []), tr2)"
    by (simp add: discover_gateway_def resolve_config_def joined_config_def Let_def)
  obtain tr3 where a: "attach joined_env joined_daemon found_config joined_state joined_node [] [] tr2 =
      Some (Inr (joined_node, Some (joined_manager, 4711)), tr3)"
    using joined_attach [of tr2] by auto
  from p b c g a show ?thesis
    by (intro exI [of _ tr3]) (simp add: runJoinSession_def run_claimed_def loop_end_def Let_def)
qed

lemma joined_run:
  "\<exists>S m tr. runJoinSession joined_env joined_daemon joined_config [] = Some ((None, Some S), tr) \<and> js_manager S = Some (m, 4711)"
proof -
  obtain tr where tr: "runJoinSession joined_env joined_daemon joined_config [] =
      Option.bind (run_attached joined_env joined_daemon found_config joined_state (first_session joined_node (Some (joined_manager, 4711)) None) tr)
        (\<lambda>((r, S), tr). Some ((r, Some S), tr))"
    using joined_stages by blast
  obtain S m tr4 where "run_attached joined_env joined_daemon found_config joined_state
      (first_session joined_node (Some (joined_manager, 4711)) None) tr = Some ((None, S), tr4)" "js_manager S = Some (m, 4711)"
    using joined_end [of tr] by auto
  with tr show ?thesis by simp
qed

lemma join_follows_session_witness:
  "\<exists>S m tr. runJoinSession joined_env joined_daemon joined_config [] = Some ((None, Some S), tr) \<and>
    js_manager S = Some (m, 4711) \<and> session joined_env (m, tr) \<and> consistent m"
  using joined_run join_follows_session by blast

lemma joined_node_open:
  "map_option (\<lambda>(S, _). (node_name (js_node S), cordon_settled True (js_node S)))
     (loop_end_from joined_env joined_daemon found_config joined_state (first_session joined_node (Some (joined_manager, 4711)) None) tr) =
    Some (''mac'', False)"
  by code_simp

lemma joined_loop_end:
  "map_option (\<lambda>(S, _). (node_name (js_node S), cordon_settled True (js_node S)))
     (loop_end joined_env joined_daemon joined_config []) = Some (''mac'', False)"
proof -
  obtain tr where "loop_end joined_env joined_daemon joined_config [] =
      loop_end_from joined_env joined_daemon found_config joined_state (first_session joined_node (Some (joined_manager, 4711)) None) tr"
    using joined_stages by blast
  then show ?thesis by (simp only: joined_node_open)
qed

lemma cordon_before_drain_witness:
  "\<exists>S tr' S3 tr3 es1 es2. runJoinSession joined_env joined_daemon joined_config [] = Some ((None, Some S), tr') \<and>
    loop_end joined_env joined_daemon joined_config [] = Some (S3, tr3) \<and> node_name (js_node S3) = ''mac'' \<and>
    tr' = es2 @ es1 @ tr3 \<and> list_all starts_nothing es2 \<and>
    (\<exists>r. last es1 = EvApi NodeClient PATCH (node_path ''mac'') (Some (cordon_patch True)) r)"
proof -
  obtain S tr' where r: "runJoinSession joined_env joined_daemon joined_config [] = Some ((None, Some S), tr')"
    using joined_run by blast
  have "\<not> jc_once joined_config" by (simp add: joined_config_def demo_config_def)
  from cordon_before_drain [OF r this] obtain S3 tr3 es1 es2 where
    w: "loop_end joined_env joined_daemon joined_config [] = Some (S3, tr3)" "tr' = es2 @ es1 @ tr3" "list_all starts_nothing es2"
      "if cordon_settled True (js_node S3) then es1 = []
       else list_all (node_request (node_name (js_node S3))) es1 \<and> es1 \<noteq> [] \<and>
         (\<exists>r. last es1 = EvApi NodeClient PATCH (node_path (node_name (js_node S3))) (Some (cordon_patch True)) r)"
    by blast
  have "node_name (js_node S3) = ''mac'' \<and> \<not> cordon_settled True (js_node S3)"
    using joined_loop_end w(1) by fastforce
  with r w show ?thesis by auto
qed

lemma join_ends_clean_witness:
  "\<exists>m0 tr0 x m1 tr1 es. manager_cleanup joined_env m0 tr0 = (x, m1, tr1) \<and> list_all no_macker es \<and> list_ex (signalled SIGINT 4711) es \<and>
    (\<exists>S. runJoinSession joined_env joined_daemon joined_config [] = Some ((None, Some S), es @ tr1))"
proof -
  obtain S m tr where r: "runJoinSession joined_env joined_daemon joined_config [] = Some ((None, Some S), tr)"
    and m: "js_manager S = Some (m, 4711)"
    using joined_run by blast
  have "order_ok joined_env" by (simp add: order_ok_def joined_env_def quiet_env_def)
  from join_ends_clean [OF r m this] r show ?thesis by metis
qed

section \<open>The cordon of an operator\<close>

text \<open>The Node as the API server has it after a merge patch with \<open>cordon_patch\<close>.\<close>

definition merged :: "bool \<Rightarrow> node \<Rightarrow> node" where
  "merged cordon n = n\<lparr>n_meta := (n_meta n)\<lparr>om_annotations :=
       (if cordon then mput (node_annotations n) shutdownCordonAnnotation ''true'' else mdel (node_annotations n) shutdownCordonAnnotation)\<rparr>,
     n_spec := (n_spec n)\<lparr>ns_unschedulable := cordon\<rparr>\<rparr>"

lemma merged_simps [simp]: "cordon_marked (merged cordon n) = cordon" "ns_unschedulable (n_spec (merged cordon n)) = cordon"
    "node_name (merged cordon n) = node_name n"
  by (auto simp: cordon_marked_def merged_def mget_def map_of_mput map_of_mdel)

text \<open>
  C36: an operator's cordon does not survive a graceful stop and a start: on a Node that is cordoned
  without the shutdown marker the stop still sends its patch, which marks the cordon as one of its own, and the next start,
  which removes every marked cordon, makes the Node schedulable.
\<close>

theorem operator_cordon_lost:
  assumes "ns_unschedulable (n_spec n)" "\<not> cordon_marked n"
    and mark: "\<And>tr. e_api E tr NodeClient PATCH (node_path (node_name n)) (Some (cordon_patch True)) = Inr (KNode (merged True n))"
    and lift: "\<And>tr. e_api E tr NodeClient PATCH (node_path (node_name n)) (Some (cordon_patch False)) =
      Inr (KNode (merged False (merged True n)))"
  shows "fst (setNodeShutdownCordon E NodeClient n True stopping) = Inr (merged True n) \<and>
    (\<exists>n'. fst (uncordon E (merged True n) starting) = Inr n' \<and> \<not> ns_unschedulable (n_spec n'))"
proof -
  have "fst (setNodeShutdownCordon E NodeClient n True stopping) = Inr (merged True n)"
    using assms(2) mark by (simp add: setNodeShutdownCordon_def cordon_settled_def eval_nat_numeral call_api_def Let_def decode_node_def)
  moreover have "fst (uncordon E (merged True n) starting) = Inr (merged False (merged True n))"
    using lift by (simp add: uncordon_def setNodeShutdownCordon_def cordon_settled_def eval_nat_numeral call_api_def Let_def decode_node_def)
  ultimately show ?thesis by simp
qed

definition merging_env :: env where
  "merging_env = quiet_env\<lparr>e_api := \<lambda>_ _ _ _ body. (if body = Some (cordon_patch True) then Inr (KNode (merged True (demo_node [] True)))
     else Inr (KNode (merged False (merged True (demo_node [] True)))))\<rparr>"

lemma operator_cordon_lost_witness:
  "ns_unschedulable (n_spec (demo_node [] True)) \<and> \<not> cordon_marked (demo_node [] True) \<and>
    (\<exists>n'. fst (uncordon merging_env (merged True (demo_node [] True)) []) = Inr n' \<and> \<not> ns_unschedulable (n_spec n'))"
proof -
  have "cordon_patch False \<noteq> cordon_patch True" by (simp add: cordon_patch_def)
  moreover have "ns_unschedulable (n_spec (demo_node [] True))" "\<not> cordon_marked (demo_node [] True)" by (simp_all add: demo_node_def cordon_marked_def mget_def)
  ultimately show ?thesis using operator_cordon_lost [of "demo_node [] True" merging_env "[]" "[]"] by (simp add: merging_env_def)
qed

end
