(* ===== verification/BootstrapProps.thy ===== *)
theory BootstrapProps
  imports Bootstrap Supervisor
begin

text \<open>
  What a join guarantees: the token is used only after the CA by which the cluster is recognised is known,
  on a first join the one that the token pins and later the one that was kept, and the identity
  that a join returns is the one that was written to the state directory.  And
  one thing that it does not guarantee: that an identity which K3s has accepted is kept.
\<close>

section \<open>Effects\<close>

abbreviation identity_path :: string where
  "identity_path \<equiv> ''/v1-k3s/client-kubelet.crt''"

text \<open>
  No raw request at all; raw requests of one client only, and none for an identity; and an event after which
  nothing has been put into the state file of a path, and no object was deleted.
\<close>

definition anything_else :: "event \<Rightarrow> bool" where
  "anything_else e \<longleftrightarrow> (case e of EvRaw c _ _ _ _ _ \<Rightarrow> False | _ \<Rightarrow> True)"

definition only_by :: "api_client \<Rightarrow> event \<Rightarrow> bool" where
  "only_by c e \<longleftrightarrow> (case e of EvRaw c' m path _ _ _ \<Rightarrow> c' = c \<and> path \<noteq> identity_path | _ \<Rightarrow> True)"

definition undisturbed :: "string \<Rightarrow> event \<Rightarrow> bool" where
  "undisturbed path e \<longleftrightarrow> \<not> renames_to path e \<and> (\<forall>c p body x. e \<noteq> EvApi c DELETE p body x)"

definition only_reads :: "event \<Rightarrow> bool" where
  "only_reads e \<longleftrightarrow> (\<exists>path x. e = EvFs (ReadFile path) x) \<or> (\<exists>path x. e = EvFs (Stat path) x)"

lemma anything_else_simps [simp]: "anything_else (EvFs q x)" "anything_else (EvNow t)" "anything_else (EvIfaces is)"
  by (simp_all add: anything_else_def)

lemma only_by_simps [simp]: "only_by c (EvFs q x)" "only_by c (EvNow t)" "only_by c (EvIfaces is)" "only_by c (EvRandom n y)"
    "only_by c (EvKeyRequest name z)" "only_by c (EvRaw c' m path data headers v) \<longleftrightarrow> c' = c \<and> path \<noteq> identity_path"
  by (simp_all add: only_by_def)

lemma undisturbed_simps [simp]: "undisturbed path (EvFs (ReadFile p) x)" "undisturbed path (EvFs (Stat p) x)"
    "undisturbed path (EvFs (MkdirAll p mode) x)" "undisturbed path (EvFs (Chown p uid gid) x)" "undisturbed path (EvIfaces is)"
    "undisturbed path (EvRandom n y)" "undisturbed path (EvKeyRequest name z)" "undisturbed path (EvRaw c m q data headers v)"
  by (simp_all add: undisturbed_def renames_to_def)

lemma only_reads_simps [simp]: "only_reads (EvFs (ReadFile path) x)" "only_reads (EvFs (Stat path) x)"
  by (simp_all add: only_reads_def)

lemma only_reads_cases: "only_reads e \<Longrightarrow> anything_else e" "only_reads e \<Longrightarrow> only_by c e" "only_reads e \<Longrightarrow> undisturbed path e"
  by (auto simp: only_reads_def)

lemma anything_else_by: "anything_else e \<Longrightarrow> only_by c e"
  by (cases e) (simp_all add: anything_else_def only_by_def)

lemma reading_emits [emits_intros]:
  "(\<And>x. P (EvFs (ReadFile path) x)) \<Longrightarrow> emits P (read_bytes E path)"
  unfolding read_bytes_def [abs_def] by (intro emits_intros; simp)

lemma readToken_emits: "emits only_reads (readToken E given file)"
  unfolding readToken_def [abs_def] Let_def by (intro emits_intros; simp)

lemma NewClient_emits: "emits only_reads (NewClient E server ca certFile keyFile insecure username password)"
  unfolding NewClient_def [abs_def] Let_def by (intro emits_intros; simp)

lemma write_emits: "emits (only_by c) (writePrivateFile E path content mode)" "emits (only_by c) (chownToInvokingUser E path)"
proof -
  show o: "emits (only_by c) (chownToInvokingUser E path)" for path
    unfolding chownToInvokingUser_def [abs_def] by (intro emits_intros; simp)
  show "emits (only_by c) (writePrivateFile E path content mode)"
    unfolding writePrivateFile_def [abs_def] install_private_def [abs_def] Let_def by (intro emits_intros o; simp)
qed

lemma request_emits:
  "path \<noteq> identity_path \<Longrightarrow> emits (only_by c) (Do E c m path data contentType headers)"
  "path \<noteq> identity_path \<Longrightarrow> emits (only_by c) (Get E c path)"
  unfolding Get_def [abs_def] Do_def [abs_def] by (intro emits_intros; simp)+

lemma check_emits: "emits only_reads (validPEMCertificateFile E path)" "emits only_reads (key_missing E path)"
    "emits (only_by c) (certificateNeedsRefresh E path)" "emits (only_by c) (keep_pair E keyFile key certFile cert)"
  unfolding validPEMCertificateFile_def [abs_def] key_missing_def [abs_def] certificateNeedsRefresh_def [abs_def] keep_pair_def [abs_def]
  by (intro emits_intros write_emits; simp)+

lemma reads_by: "emits only_reads f \<Longrightarrow> emits (only_by c) f"
  by (erule emits_mono) (rule only_reads_cases)

lemma state_emits: "emits (only_by c) (writeLocalState E statePath s)" "emits3 (only_by c) (ensureStateInstanceID E fresh statePath s)"
proof -
  show w: "emits (only_by c) (writeLocalState E statePath s)" for s
    unfolding writeLocalState_def [abs_def] by (rule write_emits)
  show "emits3 (only_by c) (ensureStateInstanceID E fresh statePath s)"
    unfolding ensureStateInstanceID_def [abs_def] Let_def by (intro emits_intros w)
qed

lemma material_emits:
  "emits3 (only_by c) (ensureControllerClientMaterial E c s statePath)"
  "emits3 (only_by c) (ensureKubeletServerMaterial E c s statePath nodeName nodeIP)"
proof -
  have parts: "emits (only_by c) (request_controller E c s statePath)" "emits (only_by c) (request_serving E c s nodeName nodeIP)"
      "emits (only_by c) (ensure_client_ca E c path)" for s path
    unfolding request_controller_def [abs_def] request_serving_def [abs_def] ensure_client_ca_def [abs_def] Let_def
    by (intro emits_intros request_emits check_emits reads_by [OF check_emits(1)] write_emits state_emits; simp)+
  have serving: "emits (only_by c) (ensure_serving E c s nodeName nodeIP)" for s
    unfolding ensure_serving_def [abs_def] by (intro emits_intros check_emits reads_by [OF check_emits(2)] parts)
  show "emits3 (only_by c) (ensureControllerClientMaterial E c s statePath)"
    "emits3 (only_by c) (ensureKubeletServerMaterial E c s statePath nodeName nodeIP)"
    unfolding ensureControllerClientMaterial_def [abs_def] ensureKubeletServerMaterial_def [abs_def] Let_def
    by (intro emits_intros reads_by [OF check_emits(1)] reads_by [OF check_emits(2)] parts serving state_emits)+
qed

lemma keep_emits: "emits (only_by TokenClient) (keep_identity E cfg ca k cert key password)"
proof -
  have files: "emits (only_by TokenClient) (write_files E fs)" for fs
  proof (induction fs)
    case (Cons f fs)
    obtain path body where f: "f = (path, body)" by force
    show ?case unfolding f write_files.simps [abs_def] by (intro emits_intros write_emits Cons)
  qed (simp add: emits_intros)
  have finish: "emits (only_by TokenClient) (finish_join E cfg ca s)" for s
    unfolding finish_join_def [abs_def] case_swap by (intro emits_intros material_emits reads_by [OF NewClient_emits])
  show ?thesis
    unfolding keep_identity_def [abs_def] by (intro emits_intros files finish; simp)
qed

lemma addresses_emits: "(\<And>is. P (EvIfaces is)) \<Longrightarrow> \<exists>es. snd (with_addresses E cfg tr) = es @ tr \<and> list_all P es"
  by (auto simp: with_addresses_def detectNodeIP_def call_ifaces_def Let_def split: option.split sum.split)

lemma join_emits: "emits anything (join_with_ca E cfg ca)"
proof -
  have addresses: "emits anything (with_addresses E cfg)"
    unfolding emits_def by (intro allI addresses_emits) simp
  have asks: "emits anything (Do E c m path data contentType headers)" "emits anything (Get E c path)" for c m path data contentType headers
    unfolding Get_def [abs_def] Do_def [abs_def] by (intro emits_intros; simp)+
  have identity: "emits anything (request_identity E cfg)" for cfg
    unfolding request_identity_def [abs_def] by (intro emits_intros asks; simp)
  have keep: "emits anything (keep_identity E cfg ca k cert key password)" for cfg k cert key password
    by (rule emits_mono [OF keep_emits]) simp
  show ?thesis
    unfolding join_with_ca_def [abs_def] by (intro emits_intros asks addresses identity keep)
qed

section \<open>The stages of a join\<close>

text \<open>
  Before it has looked for a kept state, a join sends no request; the stages after that are a first join or
  the return to the state.
\<close>

definition unsent :: "string \<Rightarrow> event \<Rightarrow> bool" where
  "unsent path e \<longleftrightarrow> anything_else e \<and> undisturbed path e"

lemma bootstrap_cases:
  assumes "bootstrap E cfg tr = (r, tr')"
  obtains (failed) e es where "r = Inl e" "tr' = es @ tr" "list_all (unsent (state_path (jc_state_dir cfg))) es"
  | (first) es e where "first_join E cfg (es @ tr) = (r, tr')" "list_all (unsent (state_path (jc_state_dir cfg))) es"
      "EvFs (ReadFile (state_path (jc_state_dir cfg))) (FErr e) \<in> set es" "is_sentinel NotExist e"
  | (again) es j s es0 where "rejoin E cfg s (es @ tr) = (r, tr')" "list_all (unsent (state_path (jc_state_dir cfg))) es"
      "EvFs (ReadFile (state_path (jc_state_dir cfg))) (FData (FJson j)) \<in> set es" "decode_state j = Some s"
      "e_fs E (es0 @ tr) (ReadFile (state_path (jc_state_dir cfg))) = FData (FJson j)"
      "list_all (unsent (state_path (jc_state_dir cfg))) es0"
proof -
  let ?path = "state_path (jc_state_dir cfg)"
  have chown: "emits (unsent ?path) (chownToInvokingUser E path)" for path
    unfolding chownToInvokingUser_def [abs_def] by (intro emits_intros; simp add: unsent_def)
  let ?mk = "EvFs (MkdirAll (jc_state_dir cfg) 448) (e_fs E tr (MkdirAll (jc_state_dir cfg) 448))"
  obtain o1 tr1 where o: "chownToInvokingUser E (jc_state_dir cfg) (?mk # tr) = (o1, tr1)" by force
  from emitsD [OF chown o] obtain es1 where es1: "tr1 = es1 @ ?mk # tr" "list_all (unsent ?path) (es1 @ [?mk])"
    by (auto simp: unsent_def)
  let ?y = "e_fs E tr1 (ReadFile ?path)"
  let ?es = "EvFs (ReadFile ?path) ?y # es1 @ [?mk]"
  have es: "list_all (unsent ?path) ?es" "?es @ tr = EvFs (ReadFile ?path) ?y # tr1" using es1 by (simp_all add: unsent_def)
  have mk: "list_all (unsent ?path) [?mk]" "?mk # tr = [?mk] @ tr" using es1(2) by simp_all
  show thesis
  proof (cases "fs_err (e_fs E tr (MkdirAll (jc_state_dir cfg) 448))")
    case (Some e)
    with assms have "r = Inl (wrap ''create state directory: '' e)" "tr' = [?mk] @ tr" by (simp_all add: bootstrap_def fs_do_eq)
    then show thesis by (rule failed) (rule mk)
  next
    case None
    note run = assms [unfolded bootstrap_def fs_do_eq None option.case prod.case o Let_def]
    show thesis
    proof (cases o1)
      case (Some e)
      with run es1 have "r = Inl e" "tr' = (es1 @ [?mk]) @ tr" by simp_all
      then show thesis by (rule failed) (rule es1)
    next
      case ok: None
      note run = run [unfolded ok option.case]
      have read: "fs_read E ?path tr1 = (case ?y of FErr e \<Rightarrow> Inl e | FData c \<Rightarrow> Inr c | _ \<Rightarrow> Inr (FBytes []), ?es @ tr)"
        by (cases ?y) (simp_all add: es1(1) fs_read_def call_fs_def Let_def)
      note run = run [unfolded read prod.case]
      consider (bad) e where "r = Inl e" "tr' = ?es @ tr"
        | (missing) e where "?y = FErr e" "is_sentinel NotExist e" "first_join E cfg (?es @ tr) = (r, tr')"
        | (found) j s where "?y = FData (FJson j)" "decode_state j = Some s" "rejoin E cfg s (?es @ tr) = (r, tr')"
      proof (cases ?y)
        case (FErr e)
        with run that(1,2) show ?thesis by (cases "is_sentinel NotExist e") auto
      next
        case (FData c)
        note run = run [unfolded FData fs_response.case sum.case]
        show ?thesis
        proof (cases "Option.bind (decode_content c) decode_state")
          case None
          with run that(1) FData show ?thesis by auto
        next
          case (Some s)
          then obtain j where "c = FJson j" "decode_state j = Some s" by (cases c) (auto simp: decode_content_def)
          with run Some that(3) FData show ?thesis by auto
        qed
      qed (use run that(1) in \<open>auto simp: decode_content_def\<close>)
      then show thesis
      proof cases
        case bad
        then show thesis by (rule failed) (rule es(1))
      next
        case missing
        from missing(3) es(1) show thesis by (rule first [where e = e]) (use missing in simp_all)
      next
        case found
        from found(3) es(1) show thesis
          by (rule again [where j = j and ?es0.0 = "es1 @ [?mk]"]) (use found es1 in simp_all)
      qed
    qed
  qed
qed

definition named :: "env \<Rightarrow> join_config \<Rightarrow> join_config" where
  "named E cfg = (if jc_node_name cfg = [] then cfg\<lparr>jc_node_name := defaultNodeName (e_hostname E)\<rparr> else cfg)"

lemma named_simps [simp]: "jc_token (named E cfg) = jc_token cfg" "jc_token_file (named E cfg) = jc_token_file cfg"
    "jc_server (named E cfg) = jc_server cfg" "jc_insecure (named E cfg) = jc_insecure cfg" "jc_state_dir (named E cfg) = jc_state_dir cfg"
  by (simp_all add: named_def)

text \<open>A first join, up to the point where it has a CA that the token admits.\<close>

definition unauthenticated :: "string \<Rightarrow> event \<Rightarrow> bool" where
  "unauthenticated path e \<longleftrightarrow> only_by AnonymousClient e \<and> undisturbed path e"

lemma first_join_cases:
  assumes "first_join E cfg tr = (r, tr')"
  obtains (failed) e es where "r = Inl e" "tr' = es @ tr" "list_all (unauthenticated path) es"
  | (joined) ca token password hash tr1 es where "join_with_ca E (named E cfg) ca (es @ tr) = (r, tr')" "list_all (unauthenticated path) es"
      "readToken E (jc_token cfg) (jc_token_file cfg) tr = (Inr token, tr1)" "tokenPassword token = Inr (password, hash)"
      "EvRaw AnonymousClient GET ''/cacerts'' [] [] (Inr ca) \<in> set es" "hash = [] \<or> e_sha256_hex E ca = hash"
proof (cases "jc_server cfg = []")
  case True
  with assms failed [of _ "[]"] show thesis by (auto simp: first_join_def)
next
  case False
  note run = assms [unfolded first_join_def, folded named_def, unfolded Let_def named_simps if_not_P [OF False]]
  have reads: "list_all only_reads es \<Longrightarrow> list_all (unauthenticated path) es" for es
    using only_reads_cases by (auto simp: list_all_iff unauthenticated_def)
  obtain t tr1 where t: "readToken E (jc_token cfg) (jc_token_file cfg) tr = (t, tr1)" by force
  from emitsD [OF readToken_emits t] reads obtain es1 where es1: "tr1 = es1 @ tr" "list_all (unauthenticated path) es1" by blast
  note run = run [unfolded t prod.case]
  consider (bad) e where "r = Inl e" "tr' = tr1"
    | (good) token password hash where "t = Inr token" "tokenPassword token = Inr (password, hash)"
    using run by (cases t; cases "tokenPassword (projr t)") auto
  then show thesis
  proof cases
    case bad
    with failed es1 show thesis by blast
  next
    case good
    note run = run [unfolded good sum.case prod.case]
    obtain q tr2 where f: "fetchCA E (jc_server cfg) hash tr1 = (q, tr2)" by force
    let ?y = "e_raw E tr1 AnonymousClient GET ''/cacerts'' [] []"
    let ?a = "EvRaw AnonymousClient GET ''/cacerts'' [] [] ?y"
    have asked: "(tr2 = tr1 \<or> tr2 = ?a # tr1) \<and> (\<forall>ca. q = Inr ca \<longrightarrow> tr2 = ?a # tr1 \<and> ?y = Inr ca \<and> (hash = [] \<or> e_sha256_hex E ca = hash))"
      using f by (auto simp: fetchCA_def call_raw_def Let_def split: sum.splits if_splits)
    have a: "unauthenticated path ?a" by (simp add: unauthenticated_def)
    note run = run [unfolded f prod.case]
    show thesis
    proof (cases q)
      case (Inl e)
      from asked consider "tr2 = tr1" | "tr2 = ?a # tr1" by blast
      then show thesis
        by cases (use Inl run failed [of e es1] failed [of e "?a # es1"] es1 a in simp_all)
    next
      case (Inr ca)
      note run = run [unfolded Inr sum.case]
      obtain n tr3 where n: "NewClient E (jc_server cfg) ca [] [] (jc_insecure cfg) ''node'' password tr2 = (n, tr3)" by force
      from emitsD [OF NewClient_emits n] reads obtain es3 where es3: "tr3 = es3 @ tr2" "list_all (unauthenticated path) es3" by blast
      have all: "tr3 = (es3 @ ?a # es1) @ tr" "list_all (unauthenticated path) (es3 @ ?a # es1)" "?y = Inr ca"
          "hash = [] \<or> e_sha256_hex E ca = hash"
        using asked Inr es1 es3 a by simp_all
      note run = run [unfolded n prod.case]
      show thesis
      proof (cases n)
        case (Inl e)
        with run all failed show thesis by auto
      next
        case (Inr spec)
        with run all(1) have "join_with_ca E (named E cfg) ca ((es3 @ ?a # es1) @ tr) = (r, tr')" by simp
        from joined [OF this all(2) t [unfolded good(1)] good(2)] all(3,4) show thesis by auto
      qed
    qed
  qed
qed

section \<open>The token\<close>

lemma double_colon_found: "CHR '':'' \<notin> set a \<Longrightarrow> str_index (a @ ''::'' @ b) ''::'' = Some (length a)"
  by (induction a) (auto simp: has_prefix_def)

text \<open>
  Of a token with the full hash of the cluster's CA, the hash is pinned and the password is what
  follows the user; with a shorter hash nothing is pinned, and no error is given.
\<close>

theorem token_parsed:
  assumes "CHR '':'' \<notin> set hash" "CHR '':'' \<notin> set user" "password \<noteq> []" "length hash \<le> 64"
  shows "tokenPassword (''K10'' @ hash @ ''::'' @ user @ '':'' @ password) = Inr (password, if length hash = 64 then hash else [])"
proof -
  let ?token = "''K10'' @ hash @ ''::'' @ user @ '':'' @ password"
  have i: "str_index ?token ''::'' = Some (3 + length hash)"
    using double_colon_found [of "''K10'' @ hash" "user @ '':'' @ password"] assms(1) by simp
  have "drop (length a) (a @ b) = b" for a b :: string by simp
  note this [of "''K10'' @ hash @ ''::''" "user @ '':'' @ password"]
  moreover have "length (''K10'' @ hash @ ''::'') = 3 + length hash + 2" by simp
  ultimately have rest: "drop (3 + length hash + 2) ?token = user @ '':'' @ password" by (simp only: append_assoc)
  have "split_token ?token = (user @ '':'' @ password, if length hash = 64 then hash else [])"
    unfolding split_token_def i option.case rest using assms(4) by (simp add: has_prefix_def)
  moreover have "after_colon (user @ '':'' @ password) = password"
    using assms(2) by (simp add: after_colon_def str_cut_def takeWhile_append dropWhile_append)
  ultimately show ?thesis using assms(3) by (simp only: tokenPassword_def Let_def prod.case if_False)
qed

lemma token_parsed_witness:
  "tokenPassword (''K10'' @ replicate 64 CHR ''a'' @ ''::node:secret'') = Inr (''secret'', replicate 64 CHR ''a'')"
  using token_parsed [of "replicate 64 CHR ''a''" "''node''" "''secret''"] by simp

lemma later_event:
  "post @ e # pre = es @ mid @ tr \<Longrightarrow> length tr \<le> length pre \<Longrightarrow> e \<notin> set mid \<Longrightarrow> \<exists>es'. pre = es' @ mid @ tr"
proof -
  assume eq: "post @ e # pre = es @ mid @ tr" and len: "length tr \<le> length pre" and e: "e \<notin> set mid"
  have "length post < length es"
  proof (rule ccontr)
    assume "\<not> ?thesis"
    then obtain post' where "post = es @ post'" using eq by (metis append_eq_append_conv_if append_take_drop_id not_less)
    with eq have m: "post' @ e # pre = mid @ tr" by simp
    then have "length post' < length mid" using len by (metis add_less_cancel_right add_Suc_right le_imp_less_Suc length_Cons length_append less_le_trans linorder_not_le nat_add_left_cancel_le)
    then have "(mid @ tr) ! length post' = mid ! length post'" by (simp add: nth_append)
    then have "e = mid ! length post'" using m by (metis nth_append_length)
    with e \<open>length post' < length mid\<close> show False by auto
  qed
  then obtain c es' where "es = post @ c # es'" using eq
    by (metis append_eq_append_conv_if append_take_drop_id id_take_nth_drop less_imp_le_nat)
  with eq show ?thesis by auto
qed

lemma new_event:
  assumes "post @ e # pre = new @ tr" "length tr \<le> length pre"
  shows "e \<in> set new"
proof (rule ccontr)
  assume "e \<notin> set new"
  with later_event [of post e pre "[]" new tr] assms obtain es' where "pre = es' @ new @ tr" by auto
  then have "length (new @ tr) \<le> length pre" by simp
  moreover have "length (post @ e # pre) = length (new @ tr)" using assms(1) by simp
  ultimately show False by simp
qed

text \<open>The return to a state, up to the point where it may need the token.\<close>

lemma rejoin_cases:
  assumes "rejoin E cfg s tr = (r, tr')"
  obtains (kept) es where "tr' = es @ tr" "list_all (only_by NodeClient) es"
  | (renewed) q s1 s2 es where "renew_controller E cfg s1 (es @ tr) = (q, s2, tr')" "list_all (only_by NodeClient) es"
      "st_ca_file s1 = st_ca_file s"
proof (cases "state_mismatch cfg s")
  case (Some e)
  with assms kept [of "[]"] show thesis by (simp add: rejoin_def)
next
  case None
  note run = assms [unfolded rejoin_def None option.case]
  let ?path = "state_path (jc_state_dir cfg)"
  obtain i s1 tr1 where i: "ensureStateInstanceID E (e_random E tr 16) ?path s tr = (i, s1, tr1)" by (metis prod.exhaust)
  from emits3D [OF state_emits(2) i] obtain es1 where es1: "tr1 = es1 @ tr" "list_all (only_by NodeClient) es1" by blast
  have ca1: "st_ca_file s1 = st_ca_file s"
    using i by (auto simp: ensureStateInstanceID_def Let_def split: if_splits sum.splits prod.splits option.splits)
  note run = run [unfolded i prod.case]
  show thesis
  proof (cases i)
    case (Some e)
    with run kept es1 show thesis by auto
  next
    case None
    note run = run [unfolded None option.case]
    obtain c tr2 where c: "own_client E cfg s1 tr1 = (c, tr2)" by force
    have "emits only_reads (own_client E cfg s1)" unfolding own_client_def [abs_def] by (intro emits_intros NewClient_emits; simp)
    from emitsD [OF reads_by [OF this] c] obtain es2 where es2: "tr2 = es2 @ tr1" "list_all (only_by NodeClient) es2" by blast
    note run = run [unfolded c prod.case]
    show thesis
    proof (cases c)
      case (Inl e)
      with run kept [of "es2 @ es1"] es1 es2 show thesis by auto
    next
      case (Inr spec)
      note run = run [unfolded Inr sum.case]
      obtain k s2 tr3 where k: "ensureKubeletServerMaterial E NodeClient s1 ?path (st_node_name s1) (st_node_ip s1) tr2 = (k, s2, tr3)"
        by (metis prod.exhaust)
      from emits3D [OF material_emits(2) k] obtain es3 where es3: "tr3 = es3 @ tr2" "list_all (only_by NodeClient) es3" by blast
      have ca2: "st_ca_file s2 = st_ca_file s"
        using k ca1 by (auto simp: ensureKubeletServerMaterial_def kubelet_paths_def Let_def split: prod.splits option.splits)
      have all: "tr3 = (es3 @ es2 @ es1) @ tr" "list_all (only_by NodeClient) (es3 @ es2 @ es1)" using es1 es2 es3 by simp_all
      note run = run [unfolded k prod.case]
      show thesis
      proof (cases k)
        case (Some e)
        with run kept [OF _ all(2)] all(1) show thesis by auto
      next
        case None
        obtain q s4 tr4 where q: "renew_controller E cfg s2 tr3 = (q, s4, tr4)" by (metis prod.exhaust)
        with run None have "tr4 = tr'" by (cases q) simp_all
        with q renewed [OF _ all(2) ca2] all(1) show thesis by auto
      qed
    qed
  qed
qed

text \<open>The token of a return: it was read, and so was the CA file that the state names.\<close>

definition reads_ok :: "string \<Rightarrow> event \<Rightarrow> bool" where
  "reads_ok path e \<longleftrightarrow> (\<exists>x. e = EvFs (ReadFile path) x \<and> fs_err x = None)"

lemma renew_controller_cases:
  assumes "renew_controller E cfg s tr = (q, s', tr')"
  obtains (unneeded) es where "tr' = es @ tr" "list_all only_reads es"
  | (asked) tr0 token password hash tr1 mid es where "readToken E (jc_token cfg) (jc_token_file cfg) tr0 = (Inr token, tr1)"
      "tokenPassword token = Inr (password, hash)" "tr' = es @ mid @ tr" "list_all only_reads mid" "list_all (only_by TokenClient) es"
      "\<exists>e \<in> set mid. reads_ok (st_ca_file s) e"
proof -
  obtain valid tr1 where v: "validPEMCertificateFile E (st_controller_cert s) tr = (valid, tr1)" by force
  from emitsD [OF check_emits(1) v] obtain es1 where es1: "tr1 = es1 @ tr" "list_all only_reads es1" by blast
  note run = assms [unfolded renew_controller_def v prod.case]
  show thesis
  proof (cases "valid \<or> jc_token cfg = [] \<and> jc_token_file cfg = []")
    case True
    with run unneeded es1 show thesis by auto
  next
    case False
    note run = run [unfolded if_not_P [OF False]]
    obtain t tr2 where t: "readToken E (jc_token cfg) (jc_token_file cfg) tr1 = (t, tr2)" by force
    from emitsD [OF readToken_emits t] obtain es2 where es2: "tr2 = es2 @ tr1" "list_all only_reads es2" by blast
    note run = run [unfolded t prod.case]
    consider (bad) "tr' = tr2"
      | (good) token password hash where "t = Inr token" "tokenPassword token = Inr (password, hash)"
      using run by (cases t; cases "tokenPassword (projr t)") auto
    then show thesis
    proof cases
      case bad
      with unneeded [of "es2 @ es1"] es1 es2 show thesis by auto
    next
      case good
      note run = run [unfolded good sum.case prod.case]
      let ?x = "e_fs E tr2 (ReadFile (st_ca_file s))"
      let ?e = "EvFs (ReadFile (st_ca_file s)) ?x"
      obtain b where b: "read_bytes E (st_ca_file s) tr2 = (b, ?e # tr2)" "fs_err ?x = None \<or> (\<exists>e. b = Inl e)"
        by (cases ?x) (auto simp: read_bytes_def fs_read_def call_fs_def fs_err_def Let_def)
      note run = run [unfolded b(1) prod.case]
      have all: "?e # tr2 = (?e # es2 @ es1) @ tr" "list_all only_reads (?e # es2 @ es1)" using es1 es2 by simp_all
      show thesis
      proof (cases b)
        case (Inl e)
        with run unneeded [OF _ all(2)] all(1) show thesis by auto
      next
        case (Inr ca)
        let ?spec = "\<lparr>cs_server = st_server s, cs_ca = ca, cs_cert = [], cs_key = [],
                cs_insecure = jc_insecure cfg, cs_username = ''node'', cs_password = password, cs_token = []\<rparr>"
        note run = run [unfolded Inr sum.case]
        show thesis
        proof (cases "NewClientWithMaterial E ?spec")
          case (Inl e)
          with run unneeded [OF _ all(2)] all(1) show thesis by auto
        next
          case spec: (Inr spec)
          with run have c: "ensureControllerClientMaterial E TokenClient s (state_path (jc_state_dir cfg)) (?e # tr2) = (q, s', tr')" by simp
          from emits3D [OF material_emits(1) c] obtain es where es: "tr' = es @ ?e # tr2" "list_all (only_by TokenClient) es" by blast
          have "\<exists>e \<in> set (?e # es2 @ es1). reads_ok (st_ca_file s) e" using b(2) Inr by (auto simp: reads_ok_def)
          then show thesis using asked [OF t [unfolded good(1)] good(2) _ all(2) es(2)] es(1) all(1) by simp
        qed
      qed
    qed
  qed
qed

text \<open>
  C7: nothing is asked with the token's credentials before the CA is known by which the cluster is to be
  recognised.  On a first join, where there is no state file yet, this is the CA that the cluster has shown before and
  whose hash is the one that the token pins, if it pins one.  On a return to a state that was kept, the token in use is parsed but its
  hash is not compared: the CA is that of the file which the state names, and it has been read back.
\<close>

theorem token_only_to_pinned_ca:
  assumes "bootstrap E cfg tr = (r, post @ EvRaw TokenClient m path data headers x # pre)" "length tr \<le> length pre"
  shows "\<exists>new tr0 token tr1 password hash. pre = new @ tr \<and>
    readToken E (jc_token cfg) (jc_token_file cfg) tr0 = (Inr token, tr1) \<and> tokenPassword token = Inr (password, hash) \<and>
    ((\<exists>e. EvFs (ReadFile (state_path (jc_state_dir cfg))) (FErr e) \<in> set new \<and> is_sentinel NotExist e) \<and>
       (\<exists>ca. EvRaw AnonymousClient GET ''/cacerts'' [] [] (Inr ca) \<in> set new \<and> (hash = [] \<or> e_sha256_hex E ca = hash)) \<or>
     (\<exists>j s y. EvFs (ReadFile (state_path (jc_state_dir cfg))) (FData (FJson j)) \<in> set new \<and> decode_state j = Some s \<and>
       EvFs (ReadFile (st_ca_file s)) y \<in> set new \<and> fs_err y = None))"
proof -
  let ?e = "EvRaw TokenClient m path data headers x"
  let ?path = "state_path (jc_state_dir cfg)"
  have found: "\<exists>es'. pre = es' @ mid @ tr" if "post @ ?e # pre = es @ mid @ tr" "?e \<notin> set mid" for es mid
    using later_event [OF that(1) assms(2) that(2)] .
  have short: "?e \<in> set new" if "post @ ?e # pre = new @ tr" for new
    by (rule new_event [OF that assms(2)])
  have absent: "?e \<notin> set es" if "list_all (unsent ?path) es \<or> list_all (unauthenticated ?path) es \<or> list_all only_reads es \<or> list_all (only_by NodeClient) es" for es
    using that by (auto simp: list_all_iff unsent_def unauthenticated_def anything_else_def only_reads_def)
  from assms(1) show ?thesis
  proof (cases rule: bootstrap_cases)
    case (failed e es)
    with short absent show ?thesis by blast
  next
    case (first es e)
    note none = first(2-4)
    from first(1) show ?thesis
    proof (cases rule: first_join_cases [where path = ?path])
      case (failed e' es')
      with short [of "es' @ es"] absent none show ?thesis by auto
    next
      case (joined ca token password hash tr1 es')
      have "emits anything (join_with_ca E (named E cfg) ca)" by (rule join_emits)
      from emitsD [OF this joined(1)] obtain later where "post @ ?e # pre = later @ (es' @ es) @ tr" by auto
      from found [OF this] absent joined(2) none obtain more where new: "pre = more @ (es' @ es) @ tr" by auto
      show ?thesis
        by (rule exI [of _ "more @ es' @ es"], rule exI [of _ "es @ tr"], rule exI [of _ token], rule exI [of _ tr1],
            rule exI [of _ password], rule exI [of _ hash]) (use joined none new in auto)
    qed
  next
    case (again es j s es0)
    note kept = again(2-4)
    from again(1) show ?thesis
    proof (cases rule: rejoin_cases)
      case (kept es')
      with short [of "es' @ es"] absent again(2) show ?thesis by auto
    next
      case (renewed q s1 s2 es')
      from renewed(1) show ?thesis
      proof (cases rule: renew_controller_cases)
        case (unneeded es'')
        with short [of "es'' @ es' @ es"] absent again(2) renewed(2) show ?thesis by auto
      next
        case (asked tr0 token password hash tr1 mid later)
        then have "post @ ?e # pre = later @ (mid @ es' @ es) @ tr" by simp
        from found [OF this] absent asked(4) renewed(2) again(2) obtain more where new: "pre = more @ (mid @ es' @ es) @ tr" by auto
        obtain y where "EvFs (ReadFile (st_ca_file s)) y \<in> set mid" "fs_err y = None"
          using asked(6) renewed(3) by (auto simp: reads_ok_def)
        then show ?thesis
          by (intro exI [of _ "more @ mid @ es' @ es"] exI [of _ tr0] exI [of _ token] exI [of _ tr1] exI [of _ password] exI [of _ hash])
            (use asked kept new in auto)
      qed
    qed
  qed
qed

text \<open>A cluster that shows a CA of the pinned hash and refuses the token.\<close>

definition refusing_env :: env where
  "refusing_env = quiet_env\<lparr>e_raw := \<lambda>_ c _ _ _ _. if c = AnonymousClient then Inr (replicate 64 CHR ''a'') else Inl (EHttp 401 ''no'')\<rparr>"

definition token_config :: join_config where
  "token_config = \<lparr>jc_server = ''https://k3s'', jc_token = ''K10'' @ replicate 64 CHR ''a'' @ ''::node:secret'', jc_token_file = [], jc_node_name = ''mac'',
     jc_node_ip = ''192.0.2.10'', jc_adopt = False, jc_external_ip = [], jc_state_dir = ''/var/maclet'', jc_insecure = False, jc_once = False,
     jc_vxlan_binary = [], jc_macker_binary = [], jc_debug = False, jc_dns_resolver = False, jc_dns_search_domains = False,
     jc_search_domain_list = [], jc_search_domain_service = [], jc_vxlan_remote = [], jc_vxlan_local = [], jc_vxlan_gateway_mac = [],
     jc_peer_kubeconfig = [], jc_peer_context = [], jc_drain_timeout = 0, jc_log_ttl = 0, jc_vxlan_port = 8472, jc_vxlan_mtu = 1450,
     jc_cluster_cidr = [], jc_service_cidr = [], jc_cluster_cidr_set = False, jc_service_cidr_set = False, jc_use_sudo = False\<rparr>"

lemma token_only_to_pinned_ca_witness:
  "\<exists>r pre ca. bootstrap refusing_env token_config [] =
      (r, EvRaw TokenClient GET ''/v1-k3s/readyz'' [] [(''Accept'', ''application/json'')] (Inl (EHttp 401 ''no'')) # pre) \<and>
    EvRaw AnonymousClient GET ''/cacerts'' [] [] (Inr ca) \<in> set pre \<and> e_sha256_hex refusing_env ca = replicate 64 CHR ''a''"
proof -
  let ?pre = "EvRaw AnonymousClient GET ''/cacerts'' [] [] (Inr (replicate 64 CHR ''a'')) # snd (fs_read refusing_env ''/var/maclet/state.json''
     [EvFs (MkdirAll ''/var/maclet'' 448) FDone])"
  let ?e = "EvRaw TokenClient GET ''/v1-k3s/readyz'' [] [(''Accept'', ''application/json'')] (Inl (EHttp 401 ''no''))"
  have token: "fst (readToken refusing_env (jc_token token_config) (jc_token_file token_config) tr) = Inr (jc_token token_config)" for tr
    by code_simp
  have parsed: "tokenPassword (jc_token token_config) = Inr (''secret'', replicate 64 CHR ''a'')" by code_simp
  have "snd (bootstrap refusing_env token_config []) = ?e # ?pre" by code_simp
  then obtain r where run: "bootstrap refusing_env token_config [] = (r, [] @ ?e # ?pre)" by (metis append_Nil surjective_pairing)
  have missing: "\<forall>c. EvFs (ReadFile p) (FData c) \<notin> set ?pre" for p
    by (simp add: refusing_env_def quiet_env_def)
  obtain new tr0 token' tr1 password hash where
    t: "?pre = new @ []" "readToken refusing_env (jc_token token_config) (jc_token_file token_config) tr0 = (Inr token', tr1)"
      "tokenPassword token' = Inr (password, hash)"
    and w: "((\<exists>e. EvFs (ReadFile (state_path (jc_state_dir token_config))) (FErr e) \<in> set new \<and> is_sentinel NotExist e) \<and>
        (\<exists>ca. EvRaw AnonymousClient GET ''/cacerts'' [] [] (Inr ca) \<in> set new \<and> (hash = [] \<or> e_sha256_hex refusing_env ca = hash))) \<or>
      (\<exists>j s y. EvFs (ReadFile (state_path (jc_state_dir token_config))) (FData (FJson j)) \<in> set new \<and> decode_state j = Some s \<and>
        EvFs (ReadFile (st_ca_file s)) y \<in> set new \<and> fs_err y = None)"
    using token_only_to_pinned_ca [OF run, simplified list.size le0] by blast
  have "token' = jc_token token_config" using token [of tr0] t(2) by (metis fst_conv sum.inject(2))
  with parsed t(3) have hash: "hash = replicate 64 CHR ''a''" by (metis prod.inject sum.inject(2))
  have "hash \<noteq> []" unfolding hash by (simp add: replicate_empty)
  with w t(1) missing obtain ca where "EvRaw AnonymousClient GET ''/cacerts'' [] [] (Inr ca) \<in> set ?pre" "e_sha256_hex refusing_env ca = hash"
    by (metis append_Nil2)
  with run hash show ?thesis by (metis append_Nil)
qed

section \<open>The state that is kept\<close>

lemma installed_later:
  "installed path body tr \<Longrightarrow> list_all (\<lambda>e. \<not> renames_to path e) es \<Longrightarrow> installed path body (es @ tr)"
  unfolding installed_def list_all_iff by (metis (no_types, lifting) UnE append_assoc set_append)

lemma only_reads_keeps: "installed path body tr \<Longrightarrow> emits only_reads f \<Longrightarrow> f tr = (x, tr') \<Longrightarrow> installed path body tr'"
proof -
  assume i: "installed path body tr" and f: "emits only_reads f" "f tr = (x, tr')"
  from emitsD [OF f] obtain es where es: "tr' = es @ tr" "list_all only_reads es" by blast
  have "list_all (\<lambda>e. \<not> renames_to path e) es"
    using es(2) by (auto simp: list_all_iff only_reads_def renames_to_def)
  with i es(1) installed_later show ?thesis by simp
qed

lemma writeLocalState_installs:
  "writeLocalState E path s tr = (None, tr') \<Longrightarrow> installed path (FJson (encode_state s)) tr'"
  unfolding writeLocalState_def using writePrivateFile_ok by blast

lemma material_installs:
  "ensureControllerClientMaterial E c s path tr = (None, s', tr') \<Longrightarrow> installed path (FJson (encode_state s')) tr'"
  "ensureKubeletServerMaterial E c s path nodeName nodeIP tr = (None, s', tr') \<Longrightarrow> installed path (FJson (encode_state s')) tr'"
proof -
  show "ensureControllerClientMaterial E c s path tr = (None, s', tr') \<Longrightarrow> installed path (FJson (encode_state s')) tr'"
    by (auto simp: ensureControllerClientMaterial_def request_controller_def Let_def writeLocalState_installs
        split: prod.splits if_splits sum.splits option.splits)
  show "ensureKubeletServerMaterial E c s path nodeName nodeIP tr = (None, s', tr') \<Longrightarrow> installed path (FJson (encode_state s')) tr'"
    by (auto simp: ensureKubeletServerMaterial_def Let_def writeLocalState_installs split: prod.splits option.splits)
qed

lemma client_after_material:
  "ensureKubeletServerMaterial E c s path nodeName nodeIP tr = (None, s', tr1) \<Longrightarrow>
    NewClient E server ca certFile keyFile insecure username password tr1 = (x, tr') \<Longrightarrow> installed path (FJson (encode_state s')) tr'"
  using only_reads_keeps [OF material_installs(2) NewClient_emits] .

lemma finish_join_installs:
  "finish_join E cfg ca s tr = (Inr (s', spec), tr') \<Longrightarrow> installed (state_path (jc_state_dir cfg)) (FJson (encode_state s')) tr'"
  by (auto simp: finish_join_def split: prod.splits option.splits sum.splits dest: client_after_material)

lemma keep_identity_installs:
  "keep_identity E cfg ca k cert key password tr = (Inr (s, spec), tr') \<Longrightarrow> installed (state_path (jc_state_dir cfg)) (FJson (encode_state s)) tr'"
  by (auto simp: keep_identity_def split: prod.splits option.splits sum.splits dest: finish_join_installs)

lemma with_addresses_dir: "with_addresses E cfg tr = (cfg', tr') \<Longrightarrow> jc_state_dir cfg' = jc_state_dir cfg"
  by (auto simp: with_addresses_def Let_def split: prod.splits)

lemma join_with_ca_installs:
  "join_with_ca E cfg ca tr = (Inr (s, spec), tr') \<Longrightarrow> installed (state_path (jc_state_dir cfg)) (FJson (encode_state s)) tr'"
  by (auto simp: join_with_ca_def split: prod.splits sum.splits dest!: with_addresses_dir keep_identity_installs)

lemma first_join_installs:
  "first_join E cfg tr = (Inr (s, spec), tr') \<Longrightarrow> installed (state_path (jc_state_dir cfg)) (FJson (encode_state s)) tr'"
  by (auto simp: first_join_def Let_def split: if_splits prod.splits sum.splits dest: join_with_ca_installs)

lemma rejoin_installs:
  assumes "rejoin E cfg s0 tr = (Inr (s, spec), tr')"
  shows "installed (state_path (jc_state_dir cfg)) (FJson (encode_state s)) tr'"
proof -
  obtain s1 tr1 s2 tr2 where k: "ensureKubeletServerMaterial E NodeClient s1 (state_path (jc_state_dir cfg)) (st_node_name s1) (st_node_ip s1) tr1 = (None, s2, tr2)"
    and r: "renew_controller E cfg s2 tr2 = (None, s, tr')"
    using assms by (auto simp: rejoin_def split: option.splits prod.splits sum.splits)
  note i = material_installs(2) [OF k]
  obtain valid tr3 where v: "validPEMCertificateFile E (st_controller_cert s2) tr2 = (valid, tr3)" by force
  have "emits only_reads (validPEMCertificateFile E (st_controller_cert s2))"
    unfolding validPEMCertificateFile_def [abs_def] by (intro emits_intros; simp)
  from only_reads_keeps [OF i this v] have i3: "installed (state_path (jc_state_dir cfg)) (FJson (encode_state s2)) tr3" .
  show ?thesis
  proof (cases "valid \<or> jc_token cfg = [] \<and> jc_token_file cfg = []")
    case True
    with r v i3 show ?thesis by (simp add: renew_controller_def)
  next
    case False
    with r v show ?thesis
      by (auto simp: renew_controller_def intro: material_installs(1) split: prod.splits sum.splits)
  qed
qed

text \<open>
  C20: the identity with which a join goes on, whether it was made now or kept from before, is the one that
  the state file holds: its last complete installation is exactly this state.
\<close>

theorem bootstrap_persisted:
  assumes "bootstrap E cfg tr = (Inr (s, spec), tr')"
  shows "installed (state_path (jc_state_dir cfg)) (FJson (encode_state s)) tr'"
  using assms first_join_installs rejoin_installs
  by (auto simp: bootstrap_def Let_def split: prod.splits option.splits sum.splits if_splits)

text \<open>A node that was joined before, with all its files.\<close>

definition kept_env :: env where
  "kept_env = quiet_env\<lparr>e_fs := \<lambda>tr q. (case q of
         ReadFile p \<Rightarrow> if p = ''/var/maclet/state.json'' then FData (FJson (encode_state demo_state)) else FData (FBytes ''pem'')
       | CreateTemp _ _ \<Rightarrow> FNames [''/var/maclet/.maclet-1''] | _ \<Rightarrow> FDone),
     e_pem := \<lambda>s. Some (''CERTIFICATE'', s, []), e_certificate := \<lambda>_. Some (10 ^ 18), e_now := \<lambda>_. 1000\<rparr>"

abbreviation kept_config :: join_config where
  "kept_config \<equiv> token_config\<lparr>jc_server := []\<rparr>"

lemma bootstrap_persisted_witness:
  "\<exists>spec tr. bootstrap kept_env kept_config [] = (Inr (kubelet_paths ''/var/maclet/state.json'' demo_state, spec), tr) \<and>
    installed ''/var/maclet/state.json'' (FJson (encode_state (kubelet_paths ''/var/maclet/state.json'' demo_state))) tr"
proof -
  let ?s = "kubelet_paths ''/var/maclet/state.json'' demo_state"
  have "map_sum id fst (fst (bootstrap kept_env kept_config [])) = Inr ?s" by code_simp
  then obtain spec tr where b: "bootstrap kept_env kept_config [] = (Inr (?s, spec), tr)"
    by (cases "bootstrap kept_env kept_config []"; cases "fst (bootstrap kept_env kept_config [])") auto
  have "state_path (jc_state_dir kept_config) = ''/var/maclet/state.json''" by code_simp
  with bootstrap_persisted [OF b] b show ?thesis by auto
qed

section \<open>The answer that is lost\<close>

definition asks_identity :: "event \<Rightarrow> bool" where
  "asks_identity e \<longleftrightarrow> (\<exists>c m data headers x. e = EvRaw c m identity_path data headers x)"

definition settled :: "string \<Rightarrow> event \<Rightarrow> bool" where
  "settled path e \<longleftrightarrow> undisturbed path e \<and> \<not> asks_identity e"

lemma only_by_asks: "only_by c e \<Longrightarrow> \<not> asks_identity e"
  by (auto simp: asks_identity_def)

lemma settled_before: "list_all (unsent path) es \<or> list_all (unauthenticated path) es \<Longrightarrow> list_all (settled path) es"
  using only_by_asks anything_else_by by (auto simp: list_all_iff settled_def unsent_def unauthenticated_def)

text \<open>What the token's client asks before it asks for an identity, and the request for it.\<close>

lemma join_with_ca_cases:
  assumes "join_with_ca E cfg ca tr = (r, tr')"
  obtains (failed) e es where "r = Inl e" "tr' = es @ tr" "list_all (settled path) es"
  | (asked) cfg' k es where "jc_node_name cfg' = jc_node_name cfg" "jc_state_dir cfg' = jc_state_dir cfg" "list_all (settled path) es"
      "case request_identity E cfg' (es @ tr) of (Inl e, tr2) \<Rightarrow> r = Inl e \<and> tr' = tr2
       | (Inr (cert, key, password), tr2) \<Rightarrow> keep_identity E cfg' ca k cert key password tr2 = (r, tr')"
proof -
  have get: "emits (settled path) (Get E TokenClient p)" if "p \<noteq> identity_path" for p
    unfolding Get_def [abs_def] Do_def [abs_def] by (intro emits_intros) (use that in \<open>simp add: settled_def asks_identity_def\<close>)
  obtain x tr1 where x: "Get E TokenClient ''/v1-k3s/readyz'' tr = (x, tr1)" by force
  from emitsD [OF get x] obtain es1 where es1: "tr1 = es1 @ tr" "list_all (settled path) es1" by auto
  note run = assms [unfolded join_with_ca_def x prod.case]
  show thesis
  proof (cases x)
    case (Inl e)
    with run failed es1 show thesis by auto
  next
    case (Inr ok)
    obtain y tr2 where y: "Get E TokenClient ''/v1-k3s/config'' tr1 = (y, tr2)" by force
    from emitsD [OF get y] es1 obtain es2 where es2: "tr2 = es2 @ tr" "list_all (settled path) es2" by auto
    note run = run [unfolded Inr sum.case y prod.case]
    consider (bad) e where "r = Inl e" "tr' = tr2" | (good) body k where "y = Inr body" "decodeK3sAgentConfig E body = Inr k"
      using run by (cases y; cases "decodeK3sAgentConfig E (projr y)") auto
    then show thesis
    proof cases
      case bad
      with failed es2 show thesis by blast
    next
      case good
      obtain cfg' tr3 where a: "with_addresses E cfg tr2 = (cfg', tr3)" by force
      have same: "jc_node_name cfg' = jc_node_name cfg" "jc_state_dir cfg' = jc_state_dir cfg"
        using a by (auto simp: with_addresses_def Let_def split: prod.splits)
      have "\<exists>es. snd (with_addresses E cfg tr2) = es @ tr2 \<and> list_all (settled path) es"
        by (rule addresses_emits) (simp add: settled_def asks_identity_def)
      then obtain es where "tr3 = es @ tr2" "list_all (settled path) es" using a by auto
      then obtain es3 where es3: "tr3 = es3 @ tr" "list_all (settled path) es3" using es2 by auto
      from run good a show thesis
        by (intro asked [OF same es3(2), of k]) (simp add: es3(1) split: prod.splits sum.splits)
    qed
  qed
qed

definition identity_headers :: "join_config \<Rightarrow> string \<Rightarrow> strmap" where
  "identity_headers cfg password = (''Content-Type'', ''application/pkcs10'') # (''Accept'', ''application/json'') #
     node_headers (jc_node_name cfg) password (jc_node_ip cfg)"

lemma identity_headers_simps [simp]:
  "map_of (identity_headers cfg password) ''k3s-Node-Name'' = Some (jc_node_name cfg)"
  "map_of (identity_headers cfg password) ''k3s-Node-Password'' = Some password"
  by (simp_all add: identity_headers_def node_headers_def)

lemma request_identity_cases:
  assumes "request_identity E cfg tr = (q, tr')"
  obtains (failed) e es where "q = Inl e" "tr' = es @ tr" "list_all (settled path) es"
  | (sent) password csr es x where "e_random E tr 32 = Inr password" "list_all (settled path) es"
      "x = e_raw E (es @ tr) TokenClient POST identity_path csr (identity_headers cfg password)"
      "tr' = EvRaw TokenClient POST identity_path csr (identity_headers cfg password) x # es @ tr"
      "\<forall>e. x = Inl e \<longrightarrow> q = Inl (if is_hash_conflict e then hash_conflict cfg else wrap ''request kubelet client certificate: '' e)"
proof (cases "e_random E tr 32")
  case (Inl e)
  with assms failed [of e "[EvRandom 32 (Inl e)]"] show thesis
    by (auto simp: request_identity_def random_hex_def settled_def asks_identity_def Let_def)
next
  case (Inr password)
  let ?r = "EvRandom 32 (Inr password)"
  let ?k = "e_key_request E (?r # tr) (jc_node_name cfg)"
  let ?es = "[EvKeyRequest (jc_node_name cfg) ?k, ?r]"
  have es: "list_all (settled path) ?es" by (simp add: settled_def asks_identity_def)
  show thesis
  proof (cases ?k)
    case (Inl e)
    with assms Inr failed [of e ?es] es show thesis
      by (auto simp: request_identity_def random_hex_def key_request_def Let_def)
  next
    case k: (Inr z)
    obtain csr key where z: "z = (csr, key)" by force
    let ?x = "e_raw E (?es @ tr) TokenClient POST identity_path csr (identity_headers cfg password)"
    have "request_identity E cfg tr = (case ?x of
         Inl e \<Rightarrow> Inl (if is_hash_conflict e then hash_conflict cfg else wrap ''request kubelet client certificate: '' e)
       | Inr cert \<Rightarrow> if map_option fst (e_pem E cert) \<noteq> Some ''CERTIFICATE'' then Inl (EMsg ''k3s returned an invalid client certificate'')
           else Inr (cert, key, password),
       EvRaw TokenClient POST identity_path csr (identity_headers cfg password) ?x # ?es @ tr)"
      using Inr k z by (simp add: request_identity_def random_hex_def key_request_def Do_def call_raw_def identity_headers_def Let_def split: sum.split)
    with assms sent [OF Inr es refl] show thesis by (auto split: sum.splits)
  qed
qed

text \<open>
  What K3s keeps: the password of the request \<open>headers\<close> is the one of its Node, and it refuses any other, until the record of it
  is deleted.  A password is not made up twice.  And no state file appears that nobody has put there.
\<close>

definition password_recorded :: "env \<Rightarrow> string \<Rightarrow> strmap \<Rightarrow> trace \<Rightarrow> bool" where
  "password_recorded E path headers tr \<longleftrightarrow> (\<forall>es data hs. list_all (undisturbed path) es \<longrightarrow>
     map_of hs ''k3s-Node-Name'' = map_of headers ''k3s-Node-Name'' \<longrightarrow> map_of hs ''k3s-Node-Password'' \<noteq> map_of headers ''k3s-Node-Password'' \<longrightarrow>
     (\<exists>e. e_raw E (es @ tr) TokenClient POST identity_path data hs = Inl e \<and> is_hash_conflict e))"

definition password_unguessed :: "env \<Rightarrow> string \<Rightarrow> strmap \<Rightarrow> trace \<Rightarrow> bool" where
  "password_unguessed E path headers tr \<longleftrightarrow> (\<forall>es q. list_all (undisturbed path) es \<longrightarrow> e_random E (es @ tr) 32 = Inr q \<longrightarrow>
     map_of headers ''k3s-Node-Password'' \<noteq> Some q)"

definition stateless :: "env \<Rightarrow> string \<Rightarrow> trace \<Rightarrow> bool" where
  "stateless E path tr \<longleftrightarrow> (\<forall>es j. list_all (undisturbed path) es \<longrightarrow> e_fs E (es @ tr) (ReadFile path) = FData (FJson j) \<longrightarrow> decode_state j = None)"

text \<open>The run in which the answer is lost.\<close>

lemma lost_answer:
  assumes "bootstrap E cfg tr = (r, post @ EvRaw TokenClient POST identity_path data headers (Inl (ENet why)) # pre)" "length tr \<le> length pre"
  shows "\<exists>e es. r = Inl e \<and> retryableJoinError (Some e) \<and> post @ EvRaw TokenClient POST identity_path data headers (Inl (ENet why)) # pre = es @ tr \<and>
    list_all (undisturbed (state_path (jc_state_dir cfg))) es \<and> map_of headers ''k3s-Node-Name'' = Some (jc_node_name (named E cfg))"
proof -
  let ?e = "EvRaw TokenClient POST identity_path data headers (Inl (ENet why))"
  let ?path = "state_path (jc_state_dir cfg)"
  have new: "?e \<in> set new" if "post @ ?e # pre = new @ tr" for new
    by (rule new_event [OF that assms(2)])
  have asks: "asks_identity ?e" by (simp add: asks_identity_def)
  then have absent: "?e \<notin> set es" if "list_all (settled ?path) es \<or> list_all (only_by c) es \<or> list_all only_reads es" for es c
    using that by (auto simp: list_all_iff settled_def only_reads_def dest: only_by_asks)
  have calm: "list_all (undisturbed ?path) es" if "list_all (settled ?path) es" for es
    using that by (auto simp: list_all_iff settled_def)
  from assms(1) show ?thesis
  proof (cases rule: bootstrap_cases)
    case (failed e es)
    then have "?e \<in> set es" using new by blast
    with absent settled_before [of ?path es] failed(3) show ?thesis by blast
  next
    case (again es j s es0)
    have es: "?e \<notin> set es" using again(2) absent settled_before by blast
    from again(1) show ?thesis
    proof (cases rule: rejoin_cases)
      case (kept es')
      with new [of "es' @ es"] absent [of es' NodeClient] es show ?thesis by simp
    next
      case (renewed q s1 s2 es')
      have es': "?e \<notin> set (es' @ es)" using renewed(2) absent [of es' NodeClient] es by simp
      from renewed(1) show ?thesis
      proof (cases rule: renew_controller_cases)
        case (unneeded es'')
        with new [of "es'' @ es' @ es"] absent [of es''] es' show ?thesis by auto
      next
        case (asked tr0 token password hash tr1 mid later)
        with new [of "later @ mid @ es' @ es"] absent [of mid] absent [of later TokenClient] es' show ?thesis by auto
      qed
    qed
  next
    case (first es x)
    have es: "list_all (settled ?path) es" using first(2) settled_before by blast
    from first(1) show ?thesis
    proof (cases rule: first_join_cases [where path = ?path])
      case (failed e' es')
      with new [of "es' @ es"] absent [of es'] absent [of es] es settled_before show ?thesis by auto
    next
      case (joined ca token password hash tr1 es')
      have es': "list_all (settled ?path) (es' @ es)" using joined(2) es settled_before by auto
      from joined(1) show ?thesis
      proof (cases rule: join_with_ca_cases [where path = ?path])
        case (failed e es'')
        with new [of "es'' @ es' @ es"] absent [of es''] absent [of "es' @ es"] es' show ?thesis by auto
      next
        case (asked cfg' k es'')
        obtain q tr2 where q: "request_identity E cfg' (es'' @ es' @ es @ tr) = (q, tr2)" by force
        have rest: "\<exists>later. post @ ?e # pre = later @ tr2 \<and> ?e \<notin> set later \<and> (\<forall>e. q = Inl e \<longrightarrow> r = Inl e \<and> later = [])"
        proof (cases q)
          case (Inl e)
          with asked(4) q show ?thesis by simp
        next
          case (Inr z)
          obtain cert key password where z: "z = (cert, key, password)" by (metis prod.exhaust)
          with asked(4) q Inr have "keep_identity E cfg' ca k cert key password tr2 = (r, post @ ?e # pre)" by simp
          from emitsD [OF keep_emits this] absent Inr show ?thesis by blast
        qed
        then obtain later where later: "post @ ?e # pre = later @ tr2" "?e \<notin> set later" "\<forall>e. q = Inl e \<longrightarrow> r = Inl e \<and> later = []" by blast
        have all: "list_all (settled ?path) (es'' @ es' @ es)" using asked(3) es' by simp
        from q show ?thesis
        proof (cases rule: request_identity_cases [where path = ?path])
          case (failed e es3)
          with new [of "later @ es3 @ es'' @ es' @ es"] absent [of "es3 @ es'' @ es' @ es"] all later show ?thesis by auto
        next
          case (sent password csr es3 x)
          let ?a = "EvRaw TokenClient POST identity_path csr (identity_headers cfg' password) x"
          have "?e \<notin> set (es3 @ es'' @ es' @ es)" using absent [of "es3 @ es'' @ es' @ es"] sent(2) all by simp
          with new [of "later @ ?a # es3 @ es'' @ es' @ es"] later sent(4) have a: "?e = ?a" by auto
          then have x: "x = Inl (ENet why)" "headers = identity_headers cfg' password" by simp_all
          with sent(5) have r: "q = Inl (wrap ''request kubelet client certificate: '' (ENet why))"
            by (simp add: is_hash_conflict_def)
          have "retryableJoinError (Some (wrap ''request kubelet client certificate: '' (ENet why)))"
            by (simp add: retryableJoinError_def)
          moreover have "post @ ?e # pre = (?a # es3 @ es'' @ es' @ es) @ tr" using later r sent(4) by simp
          moreover have "list_all (undisturbed ?path) (?a # es3 @ es'' @ es' @ es)"
            using calm [of "es3 @ es'' @ es' @ es"] sent(2) all by simp
          ultimately show ?thesis using later(3) r x(2) asked(1) by auto
        qed
      qed
    qed
  qed
qed

text \<open>A join after that.\<close>

lemma join_locked_out:
  assumes "bootstrap E cfg (es0 @ tr0) = (r, tr')" "list_all (undisturbed (state_path (jc_state_dir cfg))) es0"
    and recorded: "password_recorded E (state_path (jc_state_dir cfg)) headers tr0"
    and unguessed: "password_unguessed E (state_path (jc_state_dir cfg)) headers tr0"
    and "stateless E (state_path (jc_state_dir cfg)) tr0"
    and name: "map_of headers ''k3s-Node-Name'' = Some (jc_node_name (named E cfg))"
  shows "\<exists>e es. r = Inl e \<and> tr' = es @ es0 @ tr0 \<and> list_all (undisturbed (state_path (jc_state_dir cfg))) es \<and>
    (list_ex asks_identity es \<longrightarrow> e = hash_conflict (named E cfg))"
proof -
  let ?path = "state_path (jc_state_dir cfg)"
  have calm: "list_all (undisturbed ?path) es \<and> \<not> list_ex asks_identity es" if "list_all (settled ?path) es" for es
    using that by (auto simp: list_all_iff list_ex_iff settled_def)
  have early: ?thesis if "r = Inl e" "tr' = es @ es0 @ tr0" "list_all (settled ?path) es" for e es
    using that calm by blast
  from assms(1) show ?thesis
  proof (cases rule: bootstrap_cases)
    case (failed e es)
    with early settled_before show ?thesis by blast
  next
    case (again es j s es1)
    have "list_all (undisturbed ?path) (es1 @ es0)" using again(6) assms(2) by (auto simp: list_all_iff unsent_def)
    moreover have "e_fs E ((es1 @ es0) @ tr0) (ReadFile ?path) = FData (FJson j)" using again(5) by simp
    ultimately have "decode_state j = None" using assms(5) unfolding stateless_def by blast
    with again(4) show ?thesis by simp
  next
    case (first es x)
    have es: "list_all (settled ?path) es" using first(2) settled_before by blast
    from first(1) show ?thesis
    proof (cases rule: first_join_cases [where path = ?path])
      case (failed e es')
      with early [of e "es' @ es"] es settled_before show ?thesis by auto
    next
      case (joined ca token password hash tr1 es')
      have es': "list_all (settled ?path) (es' @ es)" using joined(2) es settled_before by auto
      from joined(1) show ?thesis
      proof (cases rule: join_with_ca_cases [where path = ?path])
        case (failed e es'')
        with early [of e "es'' @ es' @ es"] es' show ?thesis by auto
      next
        case (asked cfg' k es'')
        let ?es = "es'' @ es' @ es"
        have all: "list_all (settled ?path) ?es" using asked(3) es' by simp
        obtain q tr2 where q: "request_identity E cfg' (?es @ es0 @ tr0) = (q, tr2)" by force
        note run = asked(4) [simplified append_assoc, unfolded q [simplified append_assoc] prod.case]
        from q show ?thesis
        proof (cases rule: request_identity_cases [where path = ?path])
          case (failed e es3)
          with run early [of e "es3 @ ?es"] all show ?thesis by simp
        next
          case (sent password' csr es3 x)
          have u: "list_all (undisturbed ?path) (?es @ es0)" "list_all (undisturbed ?path) (es3 @ ?es @ es0)"
            "\<not> list_ex asks_identity (es3 @ ?es)"
            using calm [OF all] calm [OF sent(2)] assms(2) by auto
          have "map_of headers ''k3s-Node-Password'' \<noteq> Some password'"
            using unguessed u(1) sent(1) unfolding password_unguessed_def by (metis append_assoc)
          then obtain e where e: "x = Inl e" "is_hash_conflict e"
            using recorded u(2) sent(3) name asked(1) unfolding password_recorded_def
            by (metis append_assoc identity_headers_simps)
          have "hash_conflict cfg' = hash_conflict (named E cfg)" using asked(1,2) by (simp add: hash_conflict_def)
          with e sent(5) have "q = Inl (hash_conflict (named E cfg))" by simp
          with run sent(4) u calm [OF all] calm [OF sent(2)] show ?thesis
            by (intro exI [of _ "hash_conflict (named E cfg)"]
                exI [of _ "EvRaw TokenClient POST identity_path csr (identity_headers cfg' password') x # es3 @ ?es"]) auto
        qed
      qed
    qed
  qed
qed

text \<open>
  C37: when the answer to the request for the kubelet's certificate is lost, the join ends with an error that the
  supervisor retries and nothing has been kept; but K3s has recorded the password, and every
  further join, as often and whenever it is tried, makes up another one: as long as the record is not
  deleted and no state file is put there from outside, none of them succeeds, none installs a state, and each one
  that comes to ask for the certificate ends with the error of the refused password, which is
  final, so the daemon ends although the cluster is well again.
\<close>

theorem lost_answer_locks_out:
  assumes "bootstrap E cfg tr = (r, tr0)"
    and "tr0 = post @ EvRaw TokenClient POST ''/v1-k3s/client-kubelet.crt'' data headers (Inl (ENet why)) # pre" "length tr \<le> length pre"
    and "password_recorded E (state_path (jc_state_dir cfg)) headers tr0" "password_unguessed E (state_path (jc_state_dir cfg)) headers tr0"
    and "stateless E (state_path (jc_state_dir cfg)) tr0"
  shows "(\<exists>e es. r = Inl e \<and> retryableJoinError (Some e) \<and> tr0 = es @ tr \<and> list_all (undisturbed (state_path (jc_state_dir cfg))) es) \<and>
    (\<forall>es r' tr'. list_all (undisturbed (state_path (jc_state_dir cfg))) es \<longrightarrow> bootstrap E cfg (es @ tr0) = (r', tr') \<longrightarrow>
      (\<exists>e es'. r' = Inl e \<and> tr' = es' @ es @ tr0 \<and> list_all (undisturbed (state_path (jc_state_dir cfg))) es' \<and>
        (list_ex asks_identity es' \<longrightarrow> e = hash_conflict (named E cfg)))) \<and>
    \<not> retryableJoinError (Some (hash_conflict (named E cfg)))"
proof -
  have final: "\<not> retryableJoinError (Some (hash_conflict cfg'))" for cfg'
    by (simp add: retryableJoinError_def hash_conflict_def)
  from lost_answer [OF assms(1) [unfolded assms(2)] assms(3)] have lost: "\<exists>e es. r = Inl e \<and> retryableJoinError (Some e) \<and> tr0 = es @ tr \<and>
      list_all (undisturbed (state_path (jc_state_dir cfg))) es" "map_of headers ''k3s-Node-Name'' = Some (jc_node_name (named E cfg))"
    using assms(2) by auto
  with join_locked_out [OF _ _ assms(4-6) lost(2)] final show ?thesis by blast
qed

text \<open>
  A cluster as K3s is, which does not send its answer to the first request for a kubelet certificate and
  refuses all requests that do not have the password of that one.
\<close>

definition recorded_password :: "trace \<Rightarrow> string option" where
  "recorded_password tr = first_some (map (\<lambda>e. case e of
     EvRaw c m path data headers x \<Rightarrow> if path = identity_path then map_of headers ''k3s-Node-Password'' else None
   | _ \<Rightarrow> None) (rev tr))"

definition lossy_cluster :: "trace \<Rightarrow> string \<Rightarrow> strmap \<Rightarrow> err + string" where
  "lossy_cluster tr path headers =
    (if path = ''/cacerts'' then Inr (replicate 64 CHR ''a'') else if path = ''/v1-k3s/readyz'' then Inr ''ok''
     else if path = ''/v1-k3s/config'' then Inr ''{}''
     else (case recorded_password tr of
        None \<Rightarrow> Inl (ENet ''connection reset by peer'')
      | Some p \<Rightarrow> if map_of headers ''k3s-Node-Password'' = Some p then Inr ''certificate'' else Inl (EHttp 403 ''hash does not match'')))"

definition lossy_env :: env where
  "lossy_env = quiet_env\<lparr>e_raw := \<lambda>tr c m path data headers. lossy_cluster tr path headers, e_parse_json := \<lambda>_. Some (JObj []),
     e_random := \<lambda>tr n. Inr (replicate (length tr) CHR ''f'')\<rparr>"

lemma lost_answer_locks_out_witness:
  "\<exists>e es. fst (bootstrap lossy_env token_config []) = Inl e \<and> retryableJoinError (Some e) \<and> es = snd (bootstrap lossy_env token_config []) \<and>
    fst (bootstrap lossy_env token_config es) = Inl (hash_conflict token_config) \<and> \<not> retryableJoinError (Some (hash_conflict token_config))"
proof -
  let ?x = "bootstrap lossy_env token_config []"
  let ?headers = "identity_headers (token_config\<lparr>jc_external_ip := ''192.0.2.10''\<rparr>) (replicate 5 CHR ''f'')"
  let ?e = "EvRaw TokenClient POST ''/v1-k3s/client-kubelet.crt'' ''request'' ?headers (Inl (ENet ''connection reset by peer''))"
  have shape: "?e = hd (snd ?x) \<and> length (snd ?x) = 8 \<and> recorded_password (snd ?x) = Some (replicate 5 CHR ''f'')"
    by code_simp
  then obtain pre where pre: "snd ?x = [] @ ?e # pre" by (cases "snd ?x") auto
  have split: "?x = (fst ?x, snd ?x)" by simp
  have first: "first_some (xs @ ys) = Some p" if "first_some xs = Some p" for xs ys :: "string option list" and p
    using that by (induction xs rule: first_some.induct) auto
  have kept: "recorded_password (es @ tr) = Some p" if "recorded_password tr = Some p" for es tr p
    using that first by (simp add: recorded_password_def)
  have path: "state_path (jc_state_dir token_config) = ''/var/maclet/state.json''" by code_simp
  have raw: "e_raw lossy_env tr TokenClient POST identity_path data hs = lossy_cluster tr identity_path hs" for tr data hs
    by (simp add: lossy_env_def)
  have conflict: "is_hash_conflict (EHttp 403 ''hash does not match'')" by code_simp
  have refused: "\<exists>e. e_raw lossy_env (es @ snd ?x) TokenClient POST identity_path data hs = Inl e \<and> is_hash_conflict e"
    if "map_of hs ''k3s-Node-Password'' \<noteq> Some (replicate 5 CHR ''f'')" for es data hs
    using that kept [OF conjunct2 [OF conjunct2 [OF shape]]] conflict unfolding raw by (simp add: lossy_cluster_def)
  have random: "e_random lossy_env tr 32 = Inr (replicate (length tr) CHR ''f'')" for tr by (simp add: lossy_env_def)
  have "password_recorded lossy_env (state_path (jc_state_dir token_config)) ?headers (snd ?x)"
    using refused by (simp add: password_recorded_def)
  moreover have "password_unguessed lossy_env (state_path (jc_state_dir token_config)) ?headers (snd ?x)"
    using shape unfolding password_unguessed_def random by (auto dest!: arg_cong [where f = length])
  moreover have "stateless lossy_env (state_path (jc_state_dir token_config)) (snd ?x)"
    by (simp add: stateless_def lossy_env_def quiet_env_def)
  ultimately have w: "(\<exists>e es. fst ?x = Inl e \<and> retryableJoinError (Some e) \<and> snd ?x = es @ [] \<and>
        list_all (undisturbed (state_path (jc_state_dir token_config))) es) \<and>
      (\<forall>es r' tr'. list_all (undisturbed (state_path (jc_state_dir token_config))) es \<longrightarrow> bootstrap lossy_env token_config (es @ snd ?x) = (r', tr') \<longrightarrow>
        (\<exists>e es'. r' = Inl e \<and> tr' = es' @ es @ snd ?x \<and> list_all (undisturbed (state_path (jc_state_dir token_config))) es' \<and>
          (list_ex asks_identity es' \<longrightarrow> e = hash_conflict (named lossy_env token_config)))) \<and>
      \<not> retryableJoinError (Some (hash_conflict (named lossy_env token_config)))"
    by (intro lost_answer_locks_out [OF split pre]) simp_all
  have again: "(case snd (bootstrap lossy_env token_config (snd ?x)) of EvRaw c m path data headers x # _ \<Rightarrow> path = ''/v1-k3s/client-kubelet.crt'' | _ \<Rightarrow> False) \<and>
      length (snd (bootstrap lossy_env token_config (snd ?x))) = 16"
    by code_simp
  obtain r' tr' where b: "bootstrap lossy_env token_config (snd ?x) = (r', tr')" by force
  obtain e' es' where e': "r' = Inl e'" "tr' = es' @ snd ?x" "list_ex asks_identity es' \<longrightarrow> e' = hash_conflict (named lossy_env token_config)"
    using w [THEN conjunct2, THEN conjunct1, rule_format, of "[]" r' tr'] b by auto
  obtain e where "fst ?x = Inl e" "retryableJoinError (Some e)" using w by blast
  moreover have "list_ex asks_identity es'"
    using again b e' shape by (cases es') (auto simp: asks_identity_def split: event.splits)
  moreover have "named lossy_env token_config = token_config" by (simp add: named_def token_config_def)
  ultimately show ?thesis using w b e' by simp
qed

section \<open>Credentials\<close>

text \<open>
  A client that a kubeconfig yields goes to an https server, carries a certificate, a token or a user,
  with a key that belongs to the certificate, and trusts only a given CA unless the checks were switched
  off explicitly.
\<close>

theorem peer_client_authenticated:
  assumes "loadPeerAPIClient E server path contextName insecure tr = (Inr (Some s), tr')"
  shows "(cs_cert s \<noteq> [] \<or> cs_token s \<noteq> [] \<or> cs_username s \<noteq> []) \<and>
    (\<exists>host. e_parse_url E (trim_right_chars (cs_server s) ''/'') = Inr (''https'', host) \<and> host \<noteq> []) \<and>
    (\<not> insecure \<longrightarrow> cs_ca s \<noteq> [] \<and> e_ca_pool E (cs_ca s)) \<and>
    (cs_cert s \<noteq> [] \<longrightarrow> e_key_pair E (cs_cert s) (cs_key s) = None)"
proof -
  have "\<exists>c u ca cert key token. finish_client E server insecure c u ca cert key token = Inr (Some s)"
    using assms by (auto simp: loadPeerAPIClient_def select_client_def client_of_def Let_def
        split: if_splits prod.splits option.splits sum.splits) blast
  then obtain c u ca cert key token where f: "finish_client E server insecure c u ca cert key token = Inr (Some s)" by blast
  let ?s = "\<lparr>cs_server = (if server = [] then kc_server c else server), cs_ca = ca, cs_cert = cert, cs_key = key,
     cs_insecure = insecure, cs_username = ku_username u, cs_password = ku_password u, cs_token = token\<rparr>"
  have made: "NewClientWithMaterial E ?s = Inr s" and given: "\<not> (cert = [] \<and> token = [] \<and> ku_username u = [])"
    using f by (auto simp: finish_client_def split: if_splits sum.splits)
  then obtain host where "NormalizeServer E (cs_server s) = Inr host" "check_material E s = None" "s = ?s"
    by (auto simp: NewClientWithMaterial_def split: sum.splits option.splits)
  with given show ?thesis
    by (auto simp: NormalizeServer_def check_material_def split: if_splits sum.splits)
qed

text \<open>A kubeconfig with a token.\<close>

definition kubeconfig_env :: env where
  "kubeconfig_env = quiet_env\<lparr>e_fs := \<lambda>tr q. (case q of ReadFile p \<Rightarrow> FData (FBytes ''pem'') | _ \<Rightarrow> FDone),
     e_yaml := \<lambda>_. Inr (JObj [(''current-context'', JStr ''a''),
       (''clusters'', JList [JObj [(''name'', JStr ''k''), (''cluster'', JObj [(''server'', JStr ''https://k''), (''certificate-authority'', JStr ''ca.crt'')])]]),
       (''contexts'', JList [JObj [(''name'', JStr ''a''), (''context'', JObj [(''cluster'', JStr ''k''), (''user'', JStr ''u'')])]]),
       (''users'', JList [JObj [(''name'', JStr ''u''), (''user'', JObj [(''token'', JStr ''secret'')])]])])\<rparr>"

lemma peer_client_authenticated_witness:
  "\<exists>s tr. loadPeerAPIClient kubeconfig_env [] ''/etc/kubeconfig'' [] False [] = (Inr (Some s), tr) \<and> cs_ca s \<noteq> [] \<and>
    (cs_cert s \<noteq> [] \<or> cs_token s \<noteq> [] \<or> cs_username s \<noteq> [])"
proof -
  have "(case fst (loadPeerAPIClient kubeconfig_env [] ''/etc/kubeconfig'' [] False []) of Inr (Some s) \<Rightarrow> True | _ \<Rightarrow> False)"
    by code_simp
  then obtain s tr where s: "loadPeerAPIClient kubeconfig_env [] ''/etc/kubeconfig'' [] False [] = (Inr (Some s), tr)"
    by (cases "loadPeerAPIClient kubeconfig_env [] ''/etc/kubeconfig'' [] False []") (auto split: sum.splits option.splits)
  from peer_client_authenticated [OF this] s show ?thesis by auto
qed

end
