(* ===== verification/CleanupController.thy ===== *)
theory CleanupController
  imports Leave Kubeconfig NodeStatus
begin

text \<open>
  \<^verbatim>\<open>maclet cleanup-controller\<close> (\<^verbatim>\<open>cleanup.go\<close>): the forced cleanup of one Node at a fixed interval, with
  the credentials of a kubeconfig or those of the cluster.  A panic is a value of its own, because one
  can happen.
\<close>

record controller_config =
  cc_node_name :: string
  cc_namespace :: string
  cc_kubeconfig :: string
  cc_context :: string
  cc_interval :: int
  cc_stale_after :: int
  cc_once :: bool
  cc_insecure :: bool

datatype controller_end = Returned "err option" | Panicked

abbreviation defaultCleanupNamespace :: string where
  "defaultCleanupNamespace \<equiv> ''maclet-system''"

abbreviation defaultCleanupInterval :: int where
  "defaultCleanupInterval \<equiv> 15 * one_second"

definition controller_defaults :: "controller_config \<Rightarrow> controller_config" where
  "controller_defaults cfg = cfg\<lparr>cc_namespace := (if cc_namespace cfg = [] then defaultCleanupNamespace else cc_namespace cfg),
     cc_interval := (if cc_interval cfg \<le> 0 then defaultCleanupInterval else cc_interval cfg)\<rparr>"

definition controller_error :: "controller_config \<Rightarrow> err option" where
  "controller_error cfg = (if cc_node_name cfg = [] then Some (EMsg ''--node-name is required'')
     else if cc_stale_after cfg < 0 then Some (EMsg ''--stale-after cannot be negative'') else None)"

text \<open>
  The client, which is nil when the kubeconfig names no file: that it was not found is ignored.  Both
  kinds of credentials are the separately authorized identity \<open>PeerClient\<close>.
\<close>

definition controller_credentials :: "env \<Rightarrow> controller_config \<Rightarrow> (err + api_client option) io" where
  "controller_credentials E cfg tr =
    (if cc_kubeconfig cfg \<noteq> [] then (case loadPeerAPIClient E [] (cc_kubeconfig cfg) (cc_context cfg) (cc_insecure cfg) tr of
       (Inl e, tr) \<Rightarrow> (Inl (wrap ''load cleanup kubeconfig: '' e), tr)
     | (Inr found, tr) \<Rightarrow> (Inr (map_option (\<lambda>_. PeerClient) found), tr))
     else (case inClusterAPIClient E tr of
       (Inl e, tr) \<Rightarrow> (Inl (wrap ''load in-cluster cleanup credentials: '' e), tr)
     | (Inr _, tr) \<Rightarrow> (Inr (Some PeerClient), tr)))"

definition cleanup_pass :: "env \<Rightarrow> api_client \<Rightarrow> controller_config \<Rightarrow> err option io" where
  "cleanup_pass E c cfg tr = (case time_now E tr of (now, tr) \<Rightarrow>
     (case cleanupTerminatingPods E c (cc_node_name cfg) (cc_namespace cfg) (cc_stale_after cfg) now tr of ((_, r), tr) \<Rightarrow> (r, tr)))"

partial_function (option) controller_loop ::
  "env \<Rightarrow> (trace \<Rightarrow> bool) \<Rightarrow> api_client \<Rightarrow> controller_config \<Rightarrow> trace \<Rightarrow> (controller_end \<times> trace) option" where
  "controller_loop E cancelled c cfg tr =
    (if cancelled tr then Some (Returned None, tr)
     else (case cleanup_pass E c cfg (go_sleep (cc_interval cfg) tr) of (_, tr) \<Rightarrow> controller_loop E cancelled c cfg tr))"

definition controller_run ::
  "env \<Rightarrow> (trace \<Rightarrow> bool) \<Rightarrow> controller_config \<Rightarrow> trace \<Rightarrow> (controller_end \<times> trace) option" where
  "controller_run E cancelled cfg tr = (case controller_credentials E cfg tr of
       (Inl e, tr) \<Rightarrow> Some (Returned (Some e), tr)
     | (Inr None, tr) \<Rightarrow> Some (Panicked, tr)
     | (Inr (Some c), tr) \<Rightarrow> (case cleanup_pass E c cfg tr of (r, tr) \<Rightarrow>
         if cc_once cfg then Some (Returned r, tr) else controller_loop E cancelled c cfg tr))"

definition runCleanupController ::
  "env \<Rightarrow> (trace \<Rightarrow> bool) \<Rightarrow> controller_config \<Rightarrow> trace \<Rightarrow> (controller_end \<times> trace) option" where
  "runCleanupController E cancelled cfg tr = (case controller_error cfg of
       Some e \<Rightarrow> Some (Returned (Some e), tr)
     | None \<Rightarrow> controller_run E cancelled (controller_defaults cfg) tr)"

text \<open>
  The controller crashes when the kubeconfig it was given does not exist: the missing file is no
  error for \<^verbatim>\<open>loadPeerAPIClient\<close>, and the nil client is used for the first request.
\<close>

theorem missing_kubeconfig_crashes:
  assumes "cc_kubeconfig cfg \<noteq> []" "controller_error cfg = None" "fs_err (e_fs E tr (Stat (expandPath E (cc_kubeconfig cfg)))) = Some e"
    "is_sentinel NotExist e"
  shows "\<exists>tr'. runCleanupController E cancelled cfg tr = Some (Panicked, tr')"
  using assms by (simp add: runCleanupController_def controller_run_def controller_credentials_def controller_defaults_def
    loadPeerAPIClient_def fs_do_eq Let_def)

lemma missing_kubeconfig_crashes_witness:
  "\<exists>tr'. runCleanupController quiet_env (\<lambda>_. False) \<lparr>cc_node_name = ''mac'', cc_namespace = [], cc_kubeconfig = ''/no/such/file'',
     cc_context = [], cc_interval = 0, cc_stale_after = 0, cc_once = True, cc_insecure = False\<rparr> [] = Some (Panicked, tr')"
  by (rule missing_kubeconfig_crashes [where e = "ESentinel NotExist ''missing''"])
    (simp_all add: controller_error_def expandPath_def has_prefix_def quiet_env_def fs_err_def)

end
