(* ===== verification/Daemon.thy ===== *)
theory Daemon
  imports JoinProps Supervisor
begin

text \<open>
  The daemon: the advisory lock on its state directory (\<^verbatim>\<open>daemon_lock.go\<close>) and \<^verbatim>\<open>runJoin\<close>
  (\<^verbatim>\<open>supervisor.go\<close>), which holds the lock while the supervisor runs one join session after the other.
\<close>

section \<open>The lock\<close>

abbreviation lock_path :: "string \<Rightarrow> string" where
  "lock_path stateDir \<equiv> path_join [stateDir, ''daemon.lock'']"

definition errDaemonAlreadyRunning :: err where
  "errDaemonAlreadyRunning = ESentinel DaemonRunning ''maclet is already running for this state directory''"

definition give_up :: "env \<Rightarrow> string \<Rightarrow> err \<Rightarrow> (err + string) io" where
  "give_up E path e tr = (case fs_do E (CloseFile path) tr of (_, tr) \<Rightarrow> (Inl e, tr))"

definition flock_file :: "env \<Rightarrow> string \<Rightarrow> string \<Rightarrow> (err + string) io" where
  "flock_file E stateDir path tr = (case fs_do E (LockFile path) tr of
       (None, tr) \<Rightarrow> (Inr path, tr)
     | (Some e, tr) \<Rightarrow> give_up E path (if is_sentinel WouldBlock e then EWrap [] errDaemonAlreadyRunning ('': '' @ stateDir)
         else wrap (''acquire daemon lock '' @ path @ '': '') e) tr)"

definition open_lock :: "env \<Rightarrow> string \<Rightarrow> string \<Rightarrow> (err + string) io" where
  "open_lock E stateDir path tr = (case fs_do E (OpenLock path 384) tr of
       (Some e, tr) \<Rightarrow> (Inl (wrap (''open daemon lock '' @ path @ '': '') e), tr)
     | (None, tr) \<Rightarrow> (case fs_do E (Chmod path 384) tr of
         (Some e, tr) \<Rightarrow> give_up E path (wrap ''set daemon lock permissions: '' e) tr
       | (None, tr) \<Rightarrow> (case chownToInvokingUser E path tr of
           (Some e, tr) \<Rightarrow> give_up E path e tr
         | (None, tr) \<Rightarrow> flock_file E stateDir path tr)))"

definition acquireDaemonLock :: "env \<Rightarrow> string \<Rightarrow> (err + string) io" where
  "acquireDaemonLock E stateDir tr =
    (if stateDir = [] then (Inl (EMsg ''state directory is required for the maclet daemon lock''), tr)
     else (case fs_do E (MkdirAll stateDir 448) tr of
        (Some e, tr) \<Rightarrow> (Inl (wrap ''create state directory for daemon lock: '' e), tr)
      | (None, tr) \<Rightarrow> (case chownToInvokingUser E stateDir tr of
          (Some e, tr) \<Rightarrow> (Inl e, tr)
        | (None, tr) \<Rightarrow> open_lock E stateDir (lock_path stateDir) tr)))"

definition release_lock :: "env \<Rightarrow> string \<Rightarrow> err option io" where
  "release_lock E path tr = (case fs_do E (UnlockFile path) tr of (a, tr) \<Rightarrow> (case fs_do E (CloseFile path) tr of (b, tr) \<Rightarrow>
     (errors_join (List.map_filter (\<lambda>x. x) [a, b]), tr)))"

section \<open>The daemon\<close>

definition join_run :: "env \<Rightarrow> daemon \<Rightarrow> join_config \<Rightarrow> session_run" where
  "join_run E D cfg tr = map_option (\<lambda>((r, _), tr). (r, tr)) (runJoinSession E D cfg tr)"

definition runJoin :: "env \<Rightarrow> daemon \<Rightarrow> join_config \<Rightarrow> trace \<Rightarrow> (err option \<times> trace) option" where
  "runJoin E D cfg tr = (case acquireDaemonLock E (jc_state_dir cfg) tr of
       (Inl e, tr) \<Rightarrow> Some (Some e, tr)
     | (Inr path, tr) \<Rightarrow> Option.bind
         (if jc_once cfg then join_run E D cfg tr else superviseJoin E (join_run E D cfg) (dm_cancelled D) (dm_cancelled D) tr)
         (\<lambda>(r, tr). (case release_lock E path tr of (_, tr) \<Rightarrow> Some (r, tr))))"

section \<open>One daemon for a state directory\<close>

definition lock_event :: "string \<Rightarrow> event \<Rightarrow> bool" where
  "lock_event stateDir e \<longleftrightarrow> (\<exists>q x. e = EvFs q x \<and> (q \<in> {MkdirAll stateDir 448, OpenLock (lock_path stateDir) 384,
     Chmod (lock_path stateDir) 384, LockFile (lock_path stateDir), CloseFile (lock_path stateDir)} \<or>
     (\<exists>uid gid. q = Chown stateDir uid gid \<or> q = Chown (lock_path stateDir) uid gid)))"

definition held_by_another :: "string \<Rightarrow> event \<Rightarrow> bool" where
  "held_by_another stateDir e \<longleftrightarrow> (\<exists>x. e = EvFs (LockFile (lock_path stateDir)) (FErr x) \<and> is_sentinel WouldBlock x)"

lemma lock_event_owner:
  "lock_event stateDir (EvFs (Chown stateDir uid gid) x)" "lock_event stateDir (EvFs (Chown (lock_path stateDir) uid gid) x)"
  unfolding lock_event_def by blast+

text \<open>The outcome of taking the lock: it is had with the last request, or there is only the refusal.\<close>

definition lock_outcome :: "string \<Rightarrow> trace \<Rightarrow> (err + string) \<times> trace \<Rightarrow> bool" where
  "lock_outcome stateDir tr x \<longleftrightarrow> (\<exists>es. snd x = es @ tr \<and> list_all (lock_event stateDir) es \<and>
     (case fst x of
        Inr path \<Rightarrow> path = lock_path stateDir \<and> (\<exists>x es'. es = EvFs (LockFile path) x # es' \<and> fs_err x = None)
      | Inl e \<Rightarrow> list_ex (held_by_another stateDir) es \<longrightarrow> is_sentinel DaemonRunning e))"

lemma lock_outcome_later:
  "lock_outcome stateDir (es @ tr) x \<Longrightarrow> list_all (lock_event stateDir) es \<Longrightarrow> \<not> list_ex (held_by_another stateDir) es \<Longrightarrow>
    lock_outcome stateDir tr x"
  by (cases "fst x") (force simp: lock_outcome_def)+

lemma fs_do_step: "fs_do E q tr = (r, tr') \<Longrightarrow> \<exists>x. r = fs_err x \<and> tr' = EvFs q x # tr"
  by (auto simp: fs_do_eq)

lemma owner_step:
  "chownToInvokingUser E path tr = (r, tr') \<Longrightarrow> tr' = tr \<or> (\<exists>uid gid x. tr' = EvFs (Chown path uid gid) x # tr)"
  by (auto simp: chownToInvokingUser_def fs_do_eq split: sum.splits option.splits)

lemma give_up_outcome:
  "list_ex (held_by_another stateDir) es \<longrightarrow> is_sentinel DaemonRunning e \<Longrightarrow> list_all (lock_event stateDir) es \<Longrightarrow>
    lock_outcome stateDir tr (give_up E (lock_path stateDir) e (es @ tr))"
  by (auto simp: lock_outcome_def give_up_def fs_do_eq lock_event_def held_by_another_def
      intro!: exI [of _ "EvFs (CloseFile (lock_path stateDir)) x # es" for x])

lemma flock_file_outcome: "lock_outcome stateDir tr (flock_file E stateDir (lock_path stateDir) tr)"
proof (cases "fst (fs_do E (LockFile (lock_path stateDir)) tr)")
  case None
  then show ?thesis
    by (auto simp: lock_outcome_def flock_file_def fs_do_eq lock_event_def)
next
  case (Some e)
  let ?x = "e_fs E tr (LockFile (lock_path stateDir))"
  let ?e = "if is_sentinel WouldBlock e then EWrap [] errDaemonAlreadyRunning ('': '' @ stateDir)
         else wrap (''acquire daemon lock '' @ lock_path stateDir @ '': '') e"
  from Some have x: "?x = FErr e" by (cases ?x) (simp_all add: fs_do_eq fs_err_def)
  have "lock_outcome stateDir tr (give_up E (lock_path stateDir) ?e ([EvFs (LockFile (lock_path stateDir)) (FErr e)] @ tr))"
    by (rule give_up_outcome) (auto simp: held_by_another_def lock_event_def errDaemonAlreadyRunning_def)
  then show ?thesis by (simp add: flock_file_def fs_do_eq x fs_err_def)
qed

text \<open>A request before the lock is asked for.\<close>

lemma before_lock:
  assumes "lock_event stateDir ev" "\<And>x. ev \<noteq> EvFs (LockFile (lock_path stateDir)) x"
  shows "lock_outcome stateDir (ev # tr) x \<Longrightarrow> lock_outcome stateDir tr x"
    "lock_outcome stateDir tr (give_up E (lock_path stateDir) e (ev # tr))" "lock_outcome stateDir tr (Inl e, ev # tr)"
proof -
  have l: "list_all (lock_event stateDir) [ev]" "\<not> list_ex (held_by_another stateDir) [ev]"
    using assms by (auto simp: held_by_another_def)
  then show "lock_outcome stateDir (ev # tr) x \<Longrightarrow> lock_outcome stateDir tr x"
    using lock_outcome_later [of stateDir "[ev]"] by simp
  show "lock_outcome stateDir tr (give_up E (lock_path stateDir) e (ev # tr))"
    using give_up_outcome [of stateDir "[ev]" e tr E] l by simp
  show "lock_outcome stateDir tr (Inl e, ev # tr)"
    unfolding lock_outcome_def using l by (intro exI [of _ "[ev]"]) simp
qed

lemma owner_cases:
  "(\<exists>r. chownToInvokingUser E path tr = (r, tr)) \<or>
   (\<exists>r uid gid x. chownToInvokingUser E path tr = (r, EvFs (Chown path uid gid) x # tr))"
  by (auto simp: chownToInvokingUser_def fs_do_eq split: sum.splits option.splits)

text \<open>Handing a file to the invoking user, before the lock is asked for.\<close>

lemma owned_outcome:
  assumes "path = stateDir \<or> path = lock_path stateDir"
    and fail: "\<And>e ev. lock_event stateDir ev \<Longrightarrow> (\<And>x. ev \<noteq> EvFs (LockFile (lock_path stateDir)) x) \<Longrightarrow>
      lock_outcome stateDir tr (f e (ev # tr))" "\<And>e. lock_outcome stateDir tr (f e tr)"
    and go: "\<And>tr. lock_outcome stateDir tr (g tr)"
  shows "lock_outcome stateDir tr (case chownToInvokingUser E path tr of (Some e, tr) \<Rightarrow> f e tr | (None, tr) \<Rightarrow> g tr)"
  using owner_cases [of E path tr]
proof (elim disjE exE)
  fix r assume "chownToInvokingUser E path tr = (r, tr)"
  then show ?thesis using go fail(2) by (cases r) simp_all
next
  fix r uid gid x assume r: "chownToInvokingUser E path tr = (r, EvFs (Chown path uid gid) x # tr)"
  have l: "lock_event stateDir (EvFs (Chown path uid gid) x)" using assms(1) lock_event_owner by blast
  then have "lock_outcome stateDir tr (g (EvFs (Chown path uid gid) x # tr))"
    by (rule before_lock(1) [OF _ _ go]) simp
  moreover have "lock_outcome stateDir tr (f e (EvFs (Chown path uid gid) x # tr))" for e
    using l by (rule fail(1)) simp
  ultimately show ?thesis by (cases r) (simp_all add: r)
qed

lemma open_lock_outcome: "lock_outcome stateDir tr (open_lock E stateDir (lock_path stateDir) tr)"
proof -
  let ?p = "lock_path stateDir"
  have l: "lock_event stateDir (EvFs (OpenLock ?p 384) x)" "lock_event stateDir (EvFs (Chmod ?p 384) x)" for x
    by (simp_all add: lock_event_def)
  have owned: "lock_outcome stateDir tr (case chownToInvokingUser E ?p tr of
           (Some e, tr) \<Rightarrow> give_up E ?p e tr | (None, tr) \<Rightarrow> flock_file E stateDir ?p tr)" for tr
    using give_up_outcome [of stateDir "[]"] by (intro owned_outcome before_lock(2) flock_file_outcome) simp_all
  have mode: "lock_outcome stateDir tr (case fs_do E (Chmod ?p 384) tr of
         (Some e, tr) \<Rightarrow> give_up E ?p (wrap ''set daemon lock permissions: '' e) tr
       | (None, tr) \<Rightarrow> (case chownToInvokingUser E ?p tr of
           (Some e, tr) \<Rightarrow> give_up E ?p e tr | (None, tr) \<Rightarrow> flock_file E stateDir ?p tr))" for tr
    using before_lock(1) [OF l(2) _ owned] before_lock(2) [OF l(2)]
    by (cases "fs_err (e_fs E tr (Chmod ?p 384))") (simp_all add: fs_do_eq)
  show ?thesis
    unfolding open_lock_def using before_lock(1) [OF l(1) _ mode] before_lock(3) [OF l(1)]
    by (cases "fs_err (e_fs E tr (OpenLock ?p 384))") (simp_all add: fs_do_eq)
qed

lemma acquire_outcome: "lock_outcome stateDir tr (acquireDaemonLock E stateDir tr)"
proof -
  have none: "lock_outcome d tr (Inl e, tr)" for d e tr by (simp add: lock_outcome_def)
  have l: "lock_event stateDir (EvFs (MkdirAll stateDir 448) x)" for x by (simp add: lock_event_def)
  have owned: "lock_outcome stateDir tr (case chownToInvokingUser E stateDir tr of
          (Some e, tr) \<Rightarrow> (Inl e, tr) | (None, tr) \<Rightarrow> open_lock E stateDir (lock_path stateDir) tr)" for tr
    by (intro owned_outcome before_lock(3) open_lock_outcome none) simp
  show ?thesis
    unfolding acquireDaemonLock_def using before_lock(1) [OF l _ owned] before_lock(3) [OF l] none
    by (cases "fs_err (e_fs E tr (MkdirAll stateDir 448))") (simp_all add: fs_do_eq)
qed

text \<open>
  C8: a join either gives up at the lock, and then it has touched nothing but the state directory and the lock file
  in it and says that maclet is already running if another process holds the lock, or its
  session or its supervisor runs from the moment the lock is had, and once it has returned nothing
  follows but the release: the lock is held for the whole time.
\<close>

theorem daemon_exclusive:
  assumes "runJoin E D cfg tr = Some (r, tr')"
  shows "(\<exists>es e. tr' = es @ tr \<and> r = Some e \<and> list_all (lock_event (jc_state_dir cfg)) es \<and>
      (list_ex (held_by_another (jc_state_dir cfg)) es \<longrightarrow> is_sentinel DaemonRunning e)) \<or>
    (\<exists>es tl tr'' x y z. list_all (lock_event (jc_state_dir cfg)) es \<and>
      tl = EvFs (LockFile (lock_path (jc_state_dir cfg))) x # es @ tr \<and> fs_err x = None \<and>
      (if jc_once cfg then join_run E D cfg tl else superviseJoin E (join_run E D cfg) (dm_cancelled D) (dm_cancelled D) tl) = Some (r, tr'') \<and>
      tr' = EvFs (CloseFile (lock_path (jc_state_dir cfg))) z # EvFs (UnlockFile (lock_path (jc_state_dir cfg))) y # tr'')"
proof -
  obtain a tl where a: "acquireDaemonLock E (jc_state_dir cfg) tr = (a, tl)" by force
  have o: "lock_outcome (jc_state_dir cfg) tr (a, tl)" using acquire_outcome [of "jc_state_dir cfg" tr E] a by simp
  show ?thesis
  proof (cases a)
    case (Inl e)
    with assms a o show ?thesis by (auto simp: runJoin_def lock_outcome_def)
  next
    case (Inr path)
    with o obtain es x where tl: "path = lock_path (jc_state_dir cfg)" "tl = EvFs (LockFile path) x # es @ tr" "fs_err x = None"
      "list_all (lock_event (jc_state_dir cfg)) es" by (auto simp: lock_outcome_def)
    from assms a Inr obtain tr'' where run: "(if jc_once cfg then join_run E D cfg tl
        else superviseJoin E (join_run E D cfg) (dm_cancelled D) (dm_cancelled D) tl) = Some (r, tr'')"
      and rel: "tr' = snd (release_lock E path tr'')"
      by (auto simp: runJoin_def Option.bind_eq_Some_conv case_prod_beta)
    have "\<exists>y z. tr' = EvFs (CloseFile path) z # EvFs (UnlockFile path) y # tr''"
      unfolding rel by (simp add: release_lock_def fs_do_eq)
    with tl run show ?thesis by blast
  qed
qed

definition busy_env :: env where
  "busy_env = quiet_env\<lparr>e_fs := \<lambda>_ q. (case q of
     LockFile _ \<Rightarrow> FErr (ESentinel WouldBlock ''resource temporarily unavailable'') | _ \<Rightarrow> FDone)\<rparr>"

lemma daemon_exclusive_witness:
  "\<exists>e es. runJoin busy_env joined_daemon joined_config [] = Some (Some e, es) \<and> length es = 5 \<and>
    list_all (lock_event (jc_state_dir joined_config)) es \<and> is_sentinel DaemonRunning e"
proof -
  let ?d = "jc_state_dir joined_config"
  define es where "es = snd (acquireDaemonLock busy_env ?d [])"
  have a: "isl (fst (acquireDaemonLock busy_env ?d []))" by code_simp
  have es: "es = [EvFs (CloseFile (lock_path ?d)) FDone, EvFs (LockFile (lock_path ?d)) (FErr (ESentinel WouldBlock ''resource temporarily unavailable'')),
      EvFs (Chmod (lock_path ?d) 384) FDone, EvFs (OpenLock (lock_path ?d) 384) FDone, EvFs (MkdirAll ?d 448) FDone]"
    unfolding es_def by code_simp
  from a obtain e where e: "acquireDaemonLock busy_env ?d [] = (Inl e, es)" by (metis es_def isl_def prod.collapse)
  have run: "runJoin busy_env joined_daemon joined_config [] = Some (Some e, es)"
    unfolding runJoin_def by (subst e) simp
  have "list_ex (held_by_another ?d) es" by (simp add: es held_by_another_def)
  moreover have "length es = 5" by (simp add: es)
  ultimately show ?thesis using daemon_exclusive [OF run] run by (auto simp: es)
qed

end
