(* ===== verification/WorkloadsApi.thy ===== *)
theory WorkloadsApi
  imports Material Reconcile
begin

text \<open>
  \<^verbatim>\<open>maclet workloads\<close> (\<^verbatim>\<open>workloads_api.go\<close>): the Pods that are assigned to the Node, as the API server
  knows them, in the JSON form that is printed.
\<close>

record snapshot_workload =
  sw_namespace :: string
  sw_name :: string
  sw_uid :: string
  sw_phase :: string
  sw_pod_ip :: string
  sw_host_ip :: string
  sw_containers :: "string list"
  sw_init_containers :: "string list"

record workload_snapshot =
  ss_node :: string
  ss_generated :: gotime
  ss_workloads :: "snapshot_workload list"

definition container_image :: "container \<Rightarrow> string" where
  "container_image c = c_name c @ CHR ''='' # c_image c"

definition snapshot_of :: "pod \<Rightarrow> snapshot_workload" where
  "snapshot_of p = \<lparr>sw_namespace = om_namespace (p_meta p), sw_name = om_name (p_meta p), sw_uid = om_uid (p_meta p),
     sw_phase = pt_phase (p_status p), sw_pod_ip = pt_pod_ip (p_status p), sw_host_ip = pt_host_ip (p_status p),
     sw_containers = map container_image (ps_containers (p_spec p)), sw_init_containers = map container_image (ps_init_containers (p_spec p))\<rparr>"

definition workloadSnapshot :: "env \<Rightarrow> api_client \<Rightarrow> string \<Rightarrow> (err + workload_snapshot) io" where
  "workloadSnapshot E c nodeName tr =
    (case call_api E c GET (''/api/v1/pods?fieldSelector='' @ query_escape (''spec.nodeName='' @ nodeName)) None tr of
       (Inl e, tr) \<Rightarrow> (Inl e, tr)
     | (Inr (KPods pods), tr) \<Rightarrow> (case time_now E tr of (now, tr) \<Rightarrow>
         (Inr \<lparr>ss_node = nodeName, ss_generated = now, ss_workloads = map snapshot_of pods\<rparr>, tr))
     | (Inr _, tr) \<Rightarrow> (Inl (wrap ''decode PodList: '' json_error), tr))"

definition encode_workload :: "snapshot_workload \<Rightarrow> json" where
  "encode_workload w = JObj ((''namespace'', JStr (sw_namespace w)) # (''name'', JStr (sw_name w)) #
     omit_str ''uid'' (sw_uid w) @ omit_str ''phase'' (sw_phase w) @ omit_str ''podIP'' (sw_pod_ip w) @ omit_str ''hostIP'' (sw_host_ip w) @
     omit_list ''containers'' (map JStr (sw_containers w)) @ omit_list ''initContainers'' (map JStr (sw_init_containers w)))"

definition encode_snapshot :: "env \<Rightarrow> workload_snapshot \<Rightarrow> json" where
  "encode_snapshot E s = JObj [(''node'', JStr (ss_node s)), (''generatedAt'', JStr (e_time_string E (ss_generated s))),
     (''workloads'', JList (map encode_workload (ss_workloads s)))]"

text \<open>What is printed, or the error.\<close>

definition runWorkloads :: "env \<Rightarrow> string \<Rightarrow> bool \<Rightarrow> (err + json) io" where
  "runWorkloads E stateDir insecure tr = (case fs_read E (state_path stateDir) tr of
       (Inl e, tr) \<Rightarrow> (Inl (EWrap ''read maclet state: '' e '' (run maclet join first)''), tr)
     | (Inr content, tr) \<Rightarrow> (case Option.bind (decode_content content) decode_state of
         None \<Rightarrow> (Inl json_error, tr)
       | Some s \<Rightarrow> (case read_bytes E (st_ca_file s) tr of (ca, tr) \<Rightarrow>
           (case NewClient E (st_server s) (case ca of Inl _ \<Rightarrow> [] | Inr body \<Rightarrow> body) (st_client_cert s) (st_client_key s) insecure [] [] tr of
              (Inl e, tr) \<Rightarrow> (Inl e, tr)
            | (Inr _, tr) \<Rightarrow> (case workloadSnapshot E NodeClient (st_node_name s) tr of
                (Inl e, tr) \<Rightarrow> (Inl e, tr) | (Inr snapshot, tr) \<Rightarrow> (Inr (encode_snapshot E snapshot), tr))))))"

end
