(* ===== verification/Cli.thy ===== *)
theory Cli
  imports Daemon CleanupController WorkloadsApi
begin

text \<open>
  The command line: \<^verbatim>\<open>cli.go\<close> and the commands in \<^verbatim>\<open>leave.go\<close>, \<^verbatim>\<open>cleanup.go\<close>, \<^verbatim>\<open>dns_resolver.go\<close> and
  \<^verbatim>\<open>nfs_mount.go\<close> that only read their flags.  The flags are read as Go's \<^verbatim>\<open>flag\<close> package reads them; how an integer
  and a duration are spelled is the parameter \<open>number_formats\<close>.  A command that reads its flags in vain
  leaves the values that were set before unused, so the result of the reading is the list of the values in
  their order or the error.
\<close>

section \<open>Flags\<close>

datatype flag_kind = TextFlag | SwitchFlag | NumberFlag | DurationFlag

datatype flag_value = TextValue string | SwitchValue bool | NumberValue int

record number_formats =
  nf_int :: "string \<Rightarrow> err + int"
  nf_duration :: "string \<Rightarrow> err + int"

datatype flag_word = NoFlag | EndOfFlags | BadFlag | Flag string "string option"

definition classify_flag :: "string \<Rightarrow> flag_word" where
  "classify_flag s =
    (if length s < 2 \<or> hd s \<noteq> CHR ''-'' then NoFlag
     else if s = ''--'' then EndOfFlags
     else (let body = (if s ! 1 = CHR ''-'' then drop 2 s else drop 1 s); name = takeWhile (\<lambda>c. c \<noteq> CHR ''='') body in
       if body = [] \<or> hd body = CHR ''-'' \<or> hd body = CHR ''='' then BadFlag
       else Flag name (if name = body then None else Some (drop (length name + 1) body))))"

definition parse_bool :: "string \<Rightarrow> err + bool" where
  "parse_bool s = (if s \<in> set [''1'', ''t'', ''T'', ''TRUE'', ''true'', ''True''] then Inr True
     else if s \<in> set [''0'', ''f'', ''F'', ''FALSE'', ''false'', ''False''] then Inr False
     else Inl (EMsg ''parse error''))"

definition invalid_value :: "string \<Rightarrow> string \<Rightarrow> string \<Rightarrow> err \<Rightarrow> err" where
  "invalid_value what name s e = EMsg (''invalid '' @ what @ quote s @ '' for '' @ name @ '': '' @ err_string e)"

definition read_value :: "number_formats \<Rightarrow> flag_kind \<Rightarrow> string \<Rightarrow> string \<Rightarrow> err + flag_value" where
  "read_value F kind name s = (case kind of
       TextFlag \<Rightarrow> Inr (TextValue s)
     | SwitchFlag \<Rightarrow> map_sum (invalid_value ''boolean value '' (CHR ''-'' # name) s) SwitchValue (parse_bool s)
     | NumberFlag \<Rightarrow> map_sum (invalid_value ''value '' (''flag -'' @ name) s) NumberValue (nf_int F s)
     | DurationFlag \<Rightarrow> map_sum (invalid_value ''value '' (''flag -'' @ name) s) NumberValue (nf_duration F s))"

text \<open>The text of a flag's value and how many of the arguments after it it takes.\<close>

definition flag_text :: "flag_kind \<Rightarrow> string \<Rightarrow> string option \<Rightarrow> string list \<Rightarrow> err + string \<times> nat" where
  "flag_text kind name value args = (case value of
       Some s \<Rightarrow> Inr (s, 0)
     | None \<Rightarrow> if kind = SwitchFlag then Inr (''true'', 0)
         else (case args of [] \<Rightarrow> Inl (EMsg (''flag needs an argument: -'' @ name)) | s # _ \<Rightarrow> Inr (s, 1)))"

definition undefined_flag :: "string \<Rightarrow> err" where
  "undefined_flag name = EMsg (if name = ''help'' \<or> name = ''h'' then ''flag: help requested''
     else ''flag provided but not defined: -'' @ name)"

fun parse_flags ::
  "number_formats \<Rightarrow> (string \<times> flag_kind) list \<Rightarrow> string list \<Rightarrow> err + (string \<times> flag_value) list \<times> string list" where
  "parse_flags F flags [] = Inr ([], [])"
| "parse_flags F flags (s # args) = (case classify_flag s of
       NoFlag \<Rightarrow> Inr ([], s # args)
     | EndOfFlags \<Rightarrow> Inr ([], args)
     | BadFlag \<Rightarrow> Inl (EMsg (''bad flag syntax: '' @ s))
     | Flag name value \<Rightarrow> (case map_of flags name of
         None \<Rightarrow> Inl (undefined_flag name)
       | Some kind \<Rightarrow> (case flag_text kind name value args of
           Inl e \<Rightarrow> Inl e
         | Inr (text, n) \<Rightarrow> (case read_value F kind name text of
             Inl e \<Rightarrow> Inl e
           | Inr v \<Rightarrow> map_sum id (\<lambda>(vs, rest). ((name, v) # vs, rest)) (parse_flags F flags (drop n args))))))"

text \<open>A command without positional arguments; \<open>run\<close> gets the values that were set.\<close>

definition with_flags ::
  "number_formats \<Rightarrow> (string \<times> flag_kind) list \<Rightarrow> string list \<Rightarrow> (err \<Rightarrow> 'a) \<Rightarrow> ((string \<times> flag_value) list \<Rightarrow> 'a) \<Rightarrow> 'a" where
  "with_flags F flags args fail run = (case parse_flags F flags args of
       Inl e \<Rightarrow> fail e
     | Inr (vs, rest) \<Rightarrow> if rest \<noteq> [] then fail (EMsg (''unexpected arguments: '' @ str_join '' '' rest)) else run vs)"

text \<open>The value of a flag that was set: the last one; a repeatable flag has all of them.\<close>

definition text_of :: "(string \<times> flag_value) list \<Rightarrow> string \<Rightarrow> string \<Rightarrow> string" where
  "text_of vs name preset = (case map_of (rev vs) name of Some (TextValue s) \<Rightarrow> s | _ \<Rightarrow> preset)"

definition switch_of :: "(string \<times> flag_value) list \<Rightarrow> string \<Rightarrow> bool \<Rightarrow> bool" where
  "switch_of vs name preset = (case map_of (rev vs) name of Some (SwitchValue b) \<Rightarrow> b | _ \<Rightarrow> preset)"

definition number_of :: "(string \<times> flag_value) list \<Rightarrow> string \<Rightarrow> int \<Rightarrow> int" where
  "number_of vs name preset = (case map_of (rev vs) name of Some (NumberValue i) \<Rightarrow> i | _ \<Rightarrow> preset)"

definition texts_of :: "(string \<times> flag_value) list \<Rightarrow> string \<Rightarrow> string list" where
  "texts_of vs name = List.map_filter (\<lambda>(n, v). if n = name then (case v of TextValue s \<Rightarrow> Some s | _ \<Rightarrow> None) else None) vs"

definition is_set :: "(string \<times> flag_value) list \<Rightarrow> string \<Rightarrow> bool" where
  "is_set vs name \<longleftrightarrow> name \<in> fst ` set vs"

section \<open>The commands\<close>

definition defaultStatePath :: "env \<Rightarrow> string" where
  "defaultStatePath E = (if homeDirectory E = [] then ''.maclet'' else path_join [homeDirectory E, ''.maclet''])"

definition join_flags :: "(string \<times> flag_kind) list" where
  "join_flags =
    map (\<lambda>n. (n, TextFlag)) [''server'', ''token'', ''token-file'', ''node-name'', ''node-ip'', ''external-ip'', ''state-dir'', ''vxlan-binary'',
       ''macker-binary'', ''dns-search-domain'', ''dns-search-domain-service'', ''vxlan-remote'', ''vxlan-local'', ''vxlan-gateway-mac'',
       ''peer-kubeconfig'', ''peer-context'', ''cluster-cidr'', ''service-cidr''] @
    map (\<lambda>n. (n, SwitchFlag)) [''adopt'', ''insecure-skip-tls-verify'', ''once'', ''debug'', ''dns-resolver'', ''dns-search-domains''] @
    [(''vxlan-port'', NumberFlag), (''vxlan-mtu'', NumberFlag), (''drain-timeout'', DurationFlag), (''native-log-ttl'', DurationFlag)]"

definition join_config_of :: "env \<Rightarrow> (string \<times> flag_value) list \<Rightarrow> join_config" where
  "join_config_of E vs = \<lparr>jc_server = text_of vs ''server'' [], jc_token = text_of vs ''token'' [],
     jc_token_file = text_of vs ''token-file'' [], jc_node_name = text_of vs ''node-name'' [],
     jc_node_ip = text_of vs ''node-ip'' [], jc_adopt = switch_of vs ''adopt'' False,
     jc_external_ip = text_of vs ''external-ip'' [], jc_state_dir = text_of vs ''state-dir'' (defaultStatePath E),
     jc_insecure = switch_of vs ''insecure-skip-tls-verify'' False, jc_once = switch_of vs ''once'' False,
     jc_vxlan_binary = text_of vs ''vxlan-binary'' [], jc_macker_binary = text_of vs ''macker-binary'' [],
     jc_debug = switch_of vs ''debug'' False, jc_dns_resolver = switch_of vs ''dns-resolver'' True,
     jc_dns_search_domains = switch_of vs ''dns-search-domains'' True,
     jc_search_domain_list = texts_of vs ''dns-search-domain'',
     jc_search_domain_service = text_of vs ''dns-search-domain-service'' [],
     jc_vxlan_remote = text_of vs ''vxlan-remote'' [], jc_vxlan_local = text_of vs ''vxlan-local'' [],
     jc_vxlan_gateway_mac = text_of vs ''vxlan-gateway-mac'' [], jc_peer_kubeconfig = text_of vs ''peer-kubeconfig'' [],
     jc_peer_context = text_of vs ''peer-context'' [], jc_drain_timeout = number_of vs ''drain-timeout'' (10 * one_second),
     jc_log_ttl = number_of vs ''native-log-ttl'' (24 * 60 * 60 * one_second), jc_vxlan_port = number_of vs ''vxlan-port'' 8472,
     jc_vxlan_mtu = number_of vs ''vxlan-mtu'' 1450, jc_cluster_cidr = text_of vs ''cluster-cidr'' defaultClusterCIDR,
     jc_service_cidr = text_of vs ''service-cidr'' defaultServiceCIDR, jc_cluster_cidr_set = is_set vs ''cluster-cidr'',
     jc_service_cidr_set = is_set vs ''service-cidr'', jc_use_sudo = False\<rparr>"

definition runJoinCommand ::
  "number_formats \<Rightarrow> env \<Rightarrow> daemon \<Rightarrow> string list \<Rightarrow> trace \<Rightarrow> (err option \<times> trace) option" where
  "runJoinCommand F E D args tr = with_flags F join_flags args (\<lambda>e. Some (Some e, tr)) (\<lambda>vs. runJoin E D (join_config_of E vs) tr)"

text \<open>The listing of the workloads is the only command that does not mind positional arguments.\<close>

definition runWorkloadsCommand :: "number_formats \<Rightarrow> env \<Rightarrow> string list \<Rightarrow> err option io" where
  "runWorkloadsCommand F E args tr = (case parse_flags F [(''state-dir'', TextFlag), (''insecure-skip-tls-verify'', SwitchFlag)] args of
       Inl e \<Rightarrow> (Some e, tr)
     | Inr (vs, _) \<Rightarrow> (case runWorkloads E (text_of vs ''state-dir'' (defaultStatePath E)) (switch_of vs ''insecure-skip-tls-verify'' False) tr of
         (Inl e, tr) \<Rightarrow> (Some e, tr) | (Inr _, tr) \<Rightarrow> (None, tr)))"

text \<open>What a kubeconfig file says is taken from the start of the command.\<close>

definition leaveCommand :: "number_formats \<Rightarrow> env \<Rightarrow> daemon \<Rightarrow> string list \<Rightarrow> err option io" where
  "leaveCommand F E D args tr =
    with_flags F (map (\<lambda>n. (n, TextFlag)) [''state-dir'', ''node-name'', ''kubeconfig'', ''context''] @ [(''insecure-skip-tls-verify'', SwitchFlag)])
      args (\<lambda>e. (Some e, tr))
      (\<lambda>vs. runLeave E (dm_executable D)
         (\<lambda>server path ctx insecure. map_sum id (\<lambda>found. found \<noteq> None) (fst (loadPeerAPIClient E server path ctx insecure tr)))
         (defaultPeerKubeconfig E) (defaultStatePath E)
         \<lparr>lc_state_dir = text_of vs ''state-dir'' (defaultStatePath E), lc_node_name = text_of vs ''node-name'' [],
           lc_kubeconfig = text_of vs ''kubeconfig'' [], lc_context = text_of vs ''context'' [],
           lc_insecure = switch_of vs ''insecure-skip-tls-verify'' False\<rparr> tr)"

definition cleanupControllerCommand ::
  "number_formats \<Rightarrow> env \<Rightarrow> daemon \<Rightarrow> string list \<Rightarrow> trace \<Rightarrow> (controller_end \<times> trace) option" where
  "cleanupControllerCommand F E D args tr =
    with_flags F (map (\<lambda>n. (n, TextFlag)) [''node-name'', ''namespace'', ''kubeconfig'', ''context''] @
        map (\<lambda>n. (n, DurationFlag)) [''interval'', ''stale-after''] @ map (\<lambda>n. (n, SwitchFlag)) [''once'', ''insecure-skip-tls-verify''])
      args (\<lambda>e. Some (Returned (Some e), tr))
      (\<lambda>vs. runCleanupController E (dm_cancelled D)
         \<lparr>cc_node_name = text_of vs ''node-name'' [], cc_namespace = text_of vs ''namespace'' defaultCleanupNamespace,
           cc_kubeconfig = text_of vs ''kubeconfig'' [], cc_context = text_of vs ''context'' [],
           cc_interval = number_of vs ''interval'' defaultCleanupInterval, cc_stale_after = number_of vs ''stale-after'' (45 * one_second),
           cc_once = switch_of vs ''once'' False, cc_insecure = switch_of vs ''insecure-skip-tls-verify'' False\<rparr> tr)"

definition resolverHelper :: "number_formats \<Rightarrow> env \<Rightarrow> string list \<Rightarrow> err option io" where
  "resolverHelper F E args tr = with_flags F [(''remove'', SwitchFlag), (''nameserver'', TextFlag)] args (\<lambda>e. (Some e, tr))
     (\<lambda>vs. resolverHelperCommand E (switch_of vs ''remove'' False) (texts_of vs ''nameserver'') tr)"

definition nfsMountHelperCommand :: "number_formats \<Rightarrow> env \<Rightarrow> string list \<Rightarrow> err option io" where
  "nfsMountHelperCommand F E args tr =
    with_flags F (map (\<lambda>n. (n, TextFlag)) [''server'', ''share'', ''target'', ''option''] @ [(''read-only'', SwitchFlag)]) args (\<lambda>e. (Some e, tr))
      (\<lambda>vs. runNFSMount E False \<lparr>nm_server = text_of vs ''server'' [], nm_share = text_of vs ''share'' [], nm_options = texts_of vs ''option'',
         nm_read_only = switch_of vs ''read-only'' False, nm_legacy = False\<rparr> (text_of vs ''target'' []) tr)"

definition nfsUnmountHelperCommand :: "number_formats \<Rightarrow> env \<Rightarrow> string list \<Rightarrow> err option io" where
  "nfsUnmountHelperCommand F E args tr = with_flags F [(''target'', TextFlag)] args (\<lambda>e. (Some e, tr))
     (\<lambda>vs. runNFSUnmount E False (text_of vs ''target'' []) tr)"

section \<open>Main\<close>

datatype program_end = Exit int | Crash

definition exit_of :: "err option \<Rightarrow> program_end" where
  "exit_of r = Exit (if r = None then 0 else 1)"

definition finish :: "err option \<times> trace \<Rightarrow> (program_end \<times> trace) option" where
  "finish x = Some (exit_of (fst x), snd x)"

definition Main :: "number_formats \<Rightarrow> env \<Rightarrow> daemon \<Rightarrow> string list \<Rightarrow> trace \<Rightarrow> (program_end \<times> trace) option" where
  "Main F E D args tr = (case args of
       [] \<Rightarrow> Some (Exit 2, tr)
     | command # args \<Rightarrow>
         if command = ''join'' then Option.bind (runJoinCommand F E D args tr) finish
         else if command = ''leave'' then finish (leaveCommand F E D args tr)
         else if command = ''workloads'' then finish (runWorkloadsCommand F E args tr)
         else if command = ''cleanup-controller'' then map_option (\<lambda>(x, tr).
           (case x of Returned r \<Rightarrow> exit_of r | Panicked \<Rightarrow> Crash, tr)) (cleanupControllerCommand F E D args tr)
         else if command = ''resolver-helper'' then finish (resolverHelper F E args tr)
         else if command = ''nfs-mount'' then finish (nfsMountHelperCommand F E args tr)
         else if command = ''nfs-unmount'' then finish (nfsUnmountHelperCommand F E args tr)
         else finish (if command \<in> set [''version'', ''help'', ''--help'', ''-h''] then None
           else Some (EMsg (''unknown command '' @ quote command)), tr))"

section \<open>What the flags say\<close>

lemma nameserver_flags:
  "parse_flags F [(''remove'', SwitchFlag), (''nameserver'', TextFlag)] (concat (map (\<lambda>n. [''--nameserver'', n]) ns)) =
    Inr (map (\<lambda>n. (''nameserver'', TextValue n)) ns, [])"
proof (induction ns)
  case (Cons n ns)
  have "classify_flag ''--nameserver'' = Flag ''nameserver'' None" by code_simp
  with Cons show ?case by (simp add: flag_text_def read_value_def)
qed simp

lemma remove_flag:
  "parse_flags F [(''remove'', SwitchFlag), (''nameserver'', TextFlag)] [''--remove''] = Inr ([(''remove'', SwitchValue True)], [])"
proof -
  have "classify_flag ''--remove'' = Flag ''remove'' None" by code_simp
  then show ?thesis by (simp add: flag_text_def read_value_def parse_bool_def)
qed

lemma texts_of_map: "texts_of (map (\<lambda>n. (name, TextValue n)) ns) name = ns"
  by (induction ns) (simp_all add: texts_of_def List.map_filter_simps)

lemma switch_unset: "name \<notin> fst ` set vs \<Longrightarrow> switch_of vs name preset = preset"
  by (simp add: switch_of_def map_of_eq_None_iff [THEN iffD2])

text \<open>
  C39: the command line that maclet hands to sudo for the resolver file is read back, by the maclet that sudo starts, as
  exactly the call it stands for, whatever the nameservers look like: a nameserver that begins with a
  dash is not taken for a flag.
\<close>

theorem helper_line_understood:
  "Main F E D (helper_args remove nameservers) tr =
    finish (resolverHelperCommand E remove (if remove then [] else nameservers) tr)"
proof (cases remove)
  case True
  then show ?thesis
    by (simp add: Main_def helper_args_def resolverHelper_def with_flags_def remove_flag switch_of_def texts_of_def List.map_filter_simps
        del: parse_flags.simps(2))
next
  case False
  have "switch_of (map (\<lambda>n. (''nameserver'', TextValue n)) nameservers) ''remove'' False = False"
    by (rule switch_unset) auto
  with False show ?thesis
    by (simp add: Main_def helper_args_def resolverHelper_def with_flags_def nameserver_flags texts_of_map)
qed

text \<open>\<^verbatim>\<open>maclet join --help\<close>, which the usage text recommends, ends with exit code 1, as an error.\<close>

lemma help_is_an_error: "Main F E D [''join'', ''--help''] tr = Some (Exit 1, tr)"
proof -
  have "classify_flag ''--help'' = Flag ''help'' None" "map_of join_flags ''help'' = None" by code_simp+
  then show ?thesis by (simp add: Main_def runJoinCommand_def with_flags_def finish_def exit_of_def)
qed

section \<open>A CIDR of the command line\<close>

definition kind_of :: "flag_value \<Rightarrow> flag_kind set" where
  "kind_of v = (case v of TextValue _ \<Rightarrow> {TextFlag} | SwitchValue _ \<Rightarrow> {SwitchFlag} | NumberValue _ \<Rightarrow> {NumberFlag, DurationFlag})"

lemma read_value_kind: "read_value F kind name s = Inr v \<Longrightarrow> kind \<in> kind_of v"
  by (auto simp: read_value_def kind_of_def map_sum_def split: flag_kind.splits sum.splits)

lemma parsed_kinds:
  "parse_flags F flags args = Inr (vs, rest) \<Longrightarrow> (name, v) \<in> set vs \<Longrightarrow> \<exists>kind. map_of flags name = Some kind \<and> kind \<in> kind_of v"
proof (induction F flags args arbitrary: vs rest rule: parse_flags.induct)
  case (2 F flags s args)
  then show ?case
    by (auto split: flag_word.splits option.splits sum.splits prod.splits simp: map_sum_def) (blast dest: read_value_kind)+
qed simp

text \<open>
  The cluster's Pod network is the one of the last \<^verbatim>\<open>--cluster-cidr\<close> on the command line, even if that is the preset one,
  and without the flag the one that the bootstrap found, the preset one if it found none.
\<close>

theorem explicit_cidr_wins:
  assumes "parse_flags F join_flags args = Inr (vs, rest)"
  shows "jc_cluster_cidr (resolve_config (join_config_of E vs) s) = (case map_of (rev vs) ''cluster-cidr'' of
      Some (TextValue cidr) \<Rightarrow> cidr
    | _ \<Rightarrow> if st_cluster_cidr s \<noteq> [] then st_cluster_cidr s else defaultClusterCIDR)"
proof (cases "map_of (rev vs) ''cluster-cidr''")
  case None
  then have "\<not> is_set vs ''cluster-cidr''" by (auto simp: is_set_def map_of_eq_None_iff)
  with None show ?thesis by (simp add: resolve_config_def join_config_of_def resolve_cidr_def text_of_def Let_def)
next
  case (Some v)
  then have v: "(''cluster-cidr'', v) \<in> set vs" by (auto dest: map_of_SomeD)
  have "map_of join_flags ''cluster-cidr'' = Some TextFlag" by code_simp
  with parsed_kinds [OF assms v] have "\<exists>cidr. v = TextValue cidr" by (auto simp: kind_of_def split: flag_value.splits)
  moreover have "is_set vs ''cluster-cidr''" using v by (force simp: is_set_def)
  ultimately show ?thesis using Some by (auto simp: resolve_config_def join_config_of_def resolve_cidr_def text_of_def Let_def)
qed

definition plain_formats :: number_formats where
  "plain_formats = \<lparr>nf_int = \<lambda>s. (case atoi s of Some i \<Rightarrow> Inr i | None \<Rightarrow> Inl (EMsg ''parse error'')),
     nf_duration = \<lambda>s. Inl (EMsg ''parse error'')\<rparr>"

lemma explicit_cidr_wins_witness:
  "\<exists>vs. parse_flags plain_formats join_flags [''--once'', ''-cluster-cidr='' @ defaultClusterCIDR, ''-vxlan-port'', ''4789''] = Inr (vs, []) \<and>
    jc_vxlan_port (join_config_of joined_env vs) = 4789 \<and>
    jc_cluster_cidr (resolve_config (join_config_of joined_env vs) (demo_state\<lparr>st_cluster_cidr := ''10.99.0.0/16''\<rparr>)) = defaultClusterCIDR"
proof -
  let ?vs = "[(''once'', SwitchValue True), (''cluster-cidr'', TextValue defaultClusterCIDR), (''vxlan-port'', NumberValue 4789)]"
  have p: "parse_flags plain_formats join_flags [''--once'', ''-cluster-cidr='' @ defaultClusterCIDR, ''-vxlan-port'', ''4789''] = Inr (?vs, [])"
    by code_simp
  have "jc_vxlan_port (join_config_of joined_env ?vs) = 4789" by (simp add: join_config_of_def number_of_def)
  then show ?thesis using p explicit_cidr_wins [OF p] by (intro exI [of _ ?vs]) simp
qed

end
