(* ===== verification/Spec2Isabelle.thy ===== *)
theory Spec2Isabelle
  imports NetProps ManagerProps NfsProps VolumeProps RunProps NodeProps Leave NodeNames VxlanProps KubeletProps JoinProps BootstrapProps ResourceProps CleanupController Cli
begin

text \<open>
  \<^bold>\<open>maclet\<close> joins a macOS host to a K3s cluster as a Node and runs the Pods that are assigned to it as
  native workloads of the program Macker.  This development models its Go code, \<^verbatim>\<open>src/pkg/maclet\<close> and
  \<^verbatim>\<open>src/pkg/kube\<close>, and states what makes its parts correct.

  \<^bold>\<open>The program.\<close>  \<^verbatim>\<open>Main\<close> reads the flags of a command.  \<^verbatim>\<open>join\<close> takes the lock of the state directory
  and supervises sessions.  A session checks its privileges, bootstraps its identity (token, pinned CA,
  certificates, persisted state), claims its Node, starts the VXLAN child and the network handle, loads
  the journal of the workload manager, publishes Flannel's annotations, takes over the host's DNS and serves
  the kubelet's API; then its loop renews Node status and Lease and reconciles the assigned Pods.  When
  the context ends it cordons the Node and drains, and the deferred functions undo the network and the DNS.
  \<^verbatim>\<open>leave\<close>, \<^verbatim>\<open>cleanup-controller\<close> and \<^verbatim>\<open>workloads\<close> are commands of their own.

  \<^bold>\<open>The world.\<close>  All that is outside the program answers in \<^verbatim>\<open>World\<close>: commands, Macker, the API server, files,
  interfaces, processes, random bytes and the clock.  An environment \<open>env\<close> is a function of the history of
  the requests, so a theorem about every environment holds whatever the outside does; the history
  (\<open>trace\<close>, newest first) is the program's state together with the records that the code keeps.
  \<^verbatim>\<open>Effects\<close> and \<^verbatim>\<open>Partial\<close> are a small logic for what an operation may add to the history, \<^verbatim>\<open>Polling\<close> the contract
  of a wait for the clock.

  \<^bold>\<open>Theories and sources.\<close>
  \<^item> \<^verbatim>\<open>Prelude\<close>, \<^verbatim>\<open>GoNet\<close>, \<^verbatim>\<open>FilePath\<close>, \<^verbatim>\<open>Codec\<close>: what is used of Go's \<^verbatim>\<open>strings\<close>, \<^verbatim>\<open>strconv\<close>, \<^verbatim>\<open>net\<close>,
    \<^verbatim>\<open>path/filepath\<close>, \<^verbatim>\<open>encoding/json\<close>, and the errors.
  \<^item> \<^verbatim>\<open>Types\<close>, \<^verbatim>\<open>KubeTypes\<close>: \<^verbatim>\<open>types.go\<close> and the aliased Kubernetes objects.
  \<^item> \<^verbatim>\<open>PodNet\<close>, \<^verbatim>\<open>NetHandle\<close>, \<^verbatim>\<open>NetProps\<close>: \<^verbatim>\<open>darwin_network.go\<close>, \<^verbatim>\<open>workload_network.go\<close>.
  \<^item> \<^verbatim>\<open>StateFiles\<close>, \<^verbatim>\<open>LocalState\<close>: \<^verbatim>\<open>state_files.go\<close> and the persisted state.
  \<^item> \<^verbatim>\<open>Manager\<close>, \<^verbatim>\<open>Macker\<close>, \<^verbatim>\<open>ManagerProps\<close>: \<^verbatim>\<open>workload_manager.go\<close>, \<^verbatim>\<open>workload_logs.go\<close>; \<^verbatim>\<open>PodStatus\<close>:
    \<^verbatim>\<open>workload_status.go\<close>.
  \<^item> \<^verbatim>\<open>WorkloadEnv\<close>, \<^verbatim>\<open>WorkloadNames\<close>, \<^verbatim>\<open>Volumes\<close>, \<^verbatim>\<open>VolumeProps\<close>, \<^verbatim>\<open>RunArgs\<close>, \<^verbatim>\<open>RunProps\<close>: \<^verbatim>\<open>workload_env.go\<close>,
    \<^verbatim>\<open>workload_volumes.go\<close>, \<^verbatim>\<open>workload_mounts.go\<close>; \<^verbatim>\<open>Nfs\<close>, \<^verbatim>\<open>NfsProps\<close>: the files \<^verbatim>\<open>nfs*.go\<close>.
  \<^item> \<^verbatim>\<open>Reconcile\<close>, \<^verbatim>\<open>ReconcileProps\<close>, \<^verbatim>\<open>Session\<close>: \<^verbatim>\<open>workload_reconcile.go\<close> and the abstract life of the manager.
  \<^item> \<^verbatim>\<open>NodeApi\<close>, \<^verbatim>\<open>NodeNames\<close>, \<^verbatim>\<open>NodeStatus\<close>, \<^verbatim>\<open>NodeProps\<close>, \<^verbatim>\<open>Ownership\<close>: \<^verbatim>\<open>node.go\<close>, \<^verbatim>\<open>node_name.go\<close>,
    \<^verbatim>\<open>control_plane.go\<close>, \<^verbatim>\<open>ownership.go\<close>.
  \<^item> \<^verbatim>\<open>Flannel\<close>, \<^verbatim>\<open>Vxlan\<close>, \<^verbatim>\<open>VxlanProps\<close>, \<^verbatim>\<open>DnsResolver\<close>, \<^verbatim>\<open>SearchDomains\<close>: the files of these names.
  \<^item> \<^verbatim>\<open>Kubeconfig\<close>, \<^verbatim>\<open>Material\<close>, \<^verbatim>\<open>Bootstrap\<close>, \<^verbatim>\<open>BootstrapProps\<close>: \<^verbatim>\<open>kubeconfig.go\<close>, \<^verbatim>\<open>pkg/kube/client.go\<close>,
    \<^verbatim>\<open>state_material.go\<close>, \<^verbatim>\<open>auth.go\<close>, \<^verbatim>\<open>bootstrap.go\<close>.
  \<^item> \<^verbatim>\<open>KubeletServer\<close>, \<^verbatim>\<open>KubeletHandler\<close>, \<^verbatim>\<open>KubeletProps\<close>, \<^verbatim>\<open>WorkloadsApi\<close>, \<^verbatim>\<open>ResourceMetrics\<close>, \<^verbatim>\<open>ResourceProps\<close>:
    \<^verbatim>\<open>kubelet_*.go\<close>, \<^verbatim>\<open>workloads_api.go\<close>, \<^verbatim>\<open>resource_metrics.go\<close>.
  \<^item> \<^verbatim>\<open>JoinSession\<close>, \<^verbatim>\<open>JoinProps\<close>, \<^verbatim>\<open>Supervisor\<close>, \<^verbatim>\<open>Daemon\<close>, \<^verbatim>\<open>Leave\<close>, \<^verbatim>\<open>CleanupController\<close>, \<^verbatim>\<open>Cli\<close>: \<^verbatim>\<open>join.go\<close>,
    \<^verbatim>\<open>supervisor.go\<close>, \<^verbatim>\<open>daemon_lock.go\<close>, \<^verbatim>\<open>leave.go\<close>, \<^verbatim>\<open>cleanup.go\<close>, \<^verbatim>\<open>cli.go\<close>.

  \<^bold>\<open>What the theorems show.\<close>  The manager's maps, journal and network handle stay consistent in every state of a
  session, and the manager of the whole join session refines the abstract session (\<^verbatim>\<open>Session\<close>, \<^verbatim>\<open>JoinProps\<close>);
  addresses are allocated soundly and completely; claims, cordons, status writes, deletions and recoveries
  touch only what was verified to be maclet's; on a first join the token is used only after the cluster has shown
  the pinned CA, and on a return to a kept state only with the CA file that the state names; the kubelet runs only
  commands for managed containers and the readings of its metrics; the supervisor outlasts an outage whose failures are
  connection errors, timeouts and unavailable servers; CPU counters do not fall as long as the times of \<^verbatim>\<open>ps\<close> are neither
  negative nor infinite; volumes stay below their root; files, journal and
  command lines are read back as they were written; waits and retries end and keep their pace.  Some
  theorems state where the code does not do what it means to: the exit code lost after a conflict, the code that
  a command's own output can claim, the operator's cordon that a restart removes, the node password that
  a lost answer makes useless, and the crash on a missing kubeconfig.

  \<^bold>\<open>Bounds.\<close>  The readiness loop has \<open>wait_fuel\<close> rounds, more than fit between two readings of a clock that
  moves on while the program sleeps; retry loops count the attempts that are left as the code does; the loop over
  PEM blocks has one round per byte.  Loops without a bound (the event loop, the supervisor, the Lease,
  waits for the clock) are partial functions, and that they return is proved, where the code promises it,
  for clocks that advance.  The address arithmetic and the memory counters are words of the code's width.

  \<^bold>\<open>Not modelled.\<close>  Mutexes (each operation is one step) and the concurrency of HTTP handlers with the event loop; TLS
  handshakes, HTTP transport, certificate and YAML decoding, which are parameters of the environment; the SPDY
  and websocket streams of exec and tunnels beyond their types, order and addresses; floating point numbers
  and the spelling of durations, which are parameters; the text of log messages and usage; the hooks that
  only tests replace.  Strings are lists of bytes.
\<close>

end
